(* ===== verification/Prelude.thy ===== *)
theory Prelude
  imports Main "HOL-Library.Word"
begin

text \<open>
  Shared ground of the development. It holds
  \<^item> the ways the native code can fail (\<open>cpp_error\<close>) and raw pointers (\<open>ptr\<close>);
  \<^item> statements: state transformers that may fail, composed as lists (\<open>block\<close>), which is
    how the bodies of the C++ member functions are written down in the other theories;
  \<^item> the fold of a fallible step function over a list of events (\<open>run_events\<close>) and the
    interface \<open>guarded_machine\<close>, the contract "a step whose guard holds does not fail and
    keeps the invariant", under which whole runs are shown to be safe;
  \<^item> the collection \<open>stmt_simps\<close> of the rules that evaluate statements.
\<close>

named_theorems stmt_simps \<open>evaluation of statements\<close>

section \<open>Failures, pointers, statements\<close>

datatype cpp_error =
    NullDeref        \<comment> \<open>a member call through a null pointer\<close>
  | WildDeref        \<comment> \<open>a member call through a pointer the constructor left unset\<close>
  | SelfDeadlock     \<comment> \<open>a non-recursive mutex locked twice by one thread\<close>
  | ParseException   \<comment> \<open>an exception of the SIP library that no caller catches\<close>
  | MissingHeader    \<comment> \<open>a header read that the message does not carry\<close>
  | LiteralOverrun   \<comment> \<open>a pointer past the end of a string literal\<close>
  | WaitsForever     \<comment> \<open>a condition wait that no thread will signal\<close>
  | IteratorUnderrun \<comment> \<open>an iterator moved before the beginning of its container\<close>

datatype 'a ptr = NullPtr | WildPtr | Ptr 'a

type_synonym 's stmt = "'s \<Rightarrow> cpp_error + 's"

definition bindr :: "'e + 'a \<Rightarrow> ('a \<Rightarrow> 'e + 'b) \<Rightarrow> 'e + 'b" where
  "bindr r k = (case r of Inl e \<Rightarrow> Inl e | Inr a \<Rightarrow> k a)"

definition assign :: "('s \<Rightarrow> 's) \<Rightarrow> 's stmt" where
  "assign f s = Inr (f s)"

definition get :: "('s \<Rightarrow> 'a) \<Rightarrow> ('a \<Rightarrow> 's stmt) \<Rightarrow> 's stmt" where
  "get f k s = k (f s) s"

definition fail :: "cpp_error \<Rightarrow> 's stmt" where
  "fail e s = Inl e"

primrec block :: "'s stmt list \<Rightarrow> 's stmt" where
  "block [] s = Inr s"
| "block (f # fs) s = bindr (f s) (block fs)"

definition cond :: "bool \<Rightarrow> 's stmt list \<Rightarrow> 's stmt list \<Rightarrow> 's stmt" where
  "cond b xs ys = block (if b then xs else ys)"

lemma bindr_simps [simp, stmt_simps]:
  "bindr (Inl e) k = Inl e"
  "bindr (Inr a) k = k a"
  by (simp_all add: bindr_def)

lemma bindr_eq_Inr:
  "bindr r k = Inr b \<longleftrightarrow> (\<exists>a. r = Inr a \<and> k a = Inr b)"
  by (cases r) auto

lemma bindr_assoc: "bindr (bindr r f) g = bindr r (\<lambda>a. bindr (f a) g)"
  by (cases r) auto

lemma assign_apply [simp, stmt_simps]: "assign f s = Inr (f s)"
  by (simp add: assign_def)

lemma get_apply [simp, stmt_simps]: "get f k s = k (f s) s"
  by (simp add: get_def)

lemma fail_apply [simp, stmt_simps]: "fail e s = Inl e"
  by (simp add: fail_def)

lemma cond_simps [simp, stmt_simps]:
  "cond True xs ys = block xs"
  "cond False xs ys = block ys"
  by (simp_all add: cond_def)

lemma cond_apply: "cond b xs ys s = (if b then block xs s else block ys s)"
  by (simp add: cond_def)

lemma bindr_Inr [simp, stmt_simps]: "bindr r Inr = r"
  by (cases r) simp_all

lemma block_Nil_eta [simp, stmt_simps]: "block [] = Inr"
  by (rule ext) simp

lemma block_single [simp, stmt_simps]: "block [f] = f"
  by (rule ext) simp

lemma block_append: "block (xs @ ys) s = bindr (block xs s) (block ys)"
proof (induction xs arbitrary: s)
  case Nil
  then show ?case by simp
next
  case (Cons f xs)
  then show ?case by (cases "f s") simp_all
qed

section \<open>Lists\<close>

lemma nth_update_in: "k < length xs \<Longrightarrow> xs[i := x] ! k = (if i = k then x else xs ! k)"
  by (cases "i = k") auto

section \<open>Runs of a fallible machine\<close>

primrec run_events :: "('s \<Rightarrow> 'e \<Rightarrow> 'err + 's) \<Rightarrow> 's \<Rightarrow> 'e list \<Rightarrow> 'err + 's" where
  "run_events step s [] = Inr s"
| "run_events step s (e # es) = bindr (step s e) (\<lambda>s'. run_events step s' es)"

primrec guarded_run ::
  "('s \<Rightarrow> 'e \<Rightarrow> 'err + 's) \<Rightarrow> ('s \<Rightarrow> 'e \<Rightarrow> bool) \<Rightarrow> 's \<Rightarrow> 'e list \<Rightarrow> bool" where
  "guarded_run step guard s [] = True"
| "guarded_run step guard s (e # es) =
     (guard s e \<and> (case step s e of Inl _ \<Rightarrow> True | Inr s' \<Rightarrow> guarded_run step guard s' es))"

lemma run_events_append:
  "run_events step s (xs @ ys) = bindr (run_events step s xs) (\<lambda>s'. run_events step s' ys)"
  by (induction xs arbitrary: s) (simp_all add: bindr_assoc)

text \<open>
  The contract of an event-driven component: under its guard a step succeeds, and it keeps
  the invariant. Everything a client needs of a whole run follows from it.
\<close>

locale guarded_machine =
  fixes step :: "'s \<Rightarrow> 'e \<Rightarrow> 'err + 's"
    and inv :: "'s \<Rightarrow> bool"
    and guard :: "'s \<Rightarrow> 'e \<Rightarrow> bool"
  assumes step_ok: "inv s \<Longrightarrow> guard s e \<Longrightarrow> \<exists>s'. step s e = Inr s' \<and> inv s'"
begin

lemma run_ok:
  "inv s \<Longrightarrow> guarded_run step guard s es \<Longrightarrow> \<exists>s'. run_events step s es = Inr s' \<and> inv s'"
proof (induction es arbitrary: s)
  case Nil
  then show ?case by simp
next
  case (Cons e es)
  from Cons.prems have "guard s e" by simp
  then obtain s1 where s1: "step s e = Inr s1" "inv s1"
    using step_ok Cons.prems(1) by blast
  with Cons.prems(2) have "guarded_run step guard s1 es" by simp
  with Cons.IH s1 show ?case by simp
qed

lemma run_prefix_ok:
  assumes "inv s" and "guarded_run step guard s (xs @ ys)"
  shows "\<exists>s'. run_events step s xs = Inr s' \<and> inv s' \<and> guarded_run step guard s' ys"
  using assms
proof (induction xs arbitrary: s)
  case Nil
  then show ?case by simp
next
  case (Cons e xs)
  from Cons.prems have "guard s e" by simp
  then obtain s1 where "step s e = Inr s1" "inv s1"
    using step_ok Cons.prems(1) by blast
  with Cons show ?case by simp
qed

end

text \<open>
  A machine whose steps implement operations on an abstract state: then so do its runs.
\<close>

locale refining_machine = guarded_machine +
  fixes abs :: "'s \<Rightarrow> 'a"
    and spec :: "'e \<Rightarrow> 'a \<Rightarrow> 'a"
  assumes step_abs: "inv s \<Longrightarrow> guard s e \<Longrightarrow> step s e = Inr s' \<Longrightarrow> abs s' = spec e (abs s)"
begin

lemma run_refines:
  "inv s \<Longrightarrow> guarded_run step guard s es \<Longrightarrow>
   \<exists>s'. run_events step s es = Inr s' \<and> inv s' \<and> abs s' = fold spec es (abs s)"
proof (induction es arbitrary: s)
  case Nil
  then show ?case by simp
next
  case (Cons e es)
  from Cons.prems have "guard s e" by simp
  then obtain s1 where s1: "step s e = Inr s1" "inv s1" using step_ok Cons.prems(1) by blast
  with Cons.prems have "guarded_run step guard s1 es" "abs s1 = spec e (abs s)" by (auto intro: step_abs)
  with Cons.IH [OF s1(2)] s1(1) show ?case by auto
qed

end

end
