(* ===== verification/Strings.thy ===== *)
theory Strings
  imports Prelude
begin

text \<open>
  The string operations of the C++ standard library that the endpoint uses:
  \<open>std::string::find\<close>, \<open>std::string::erase\<close> in a loop, \<open>std::tolower\<close> over a
  string, and the ordered \<open>std::map<std::string, std::string>\<close> whose iteration order
  fixes the order of the headers on the wire.
  Strings are byte lists; \<open>npos\<close> is \<open>None\<close>.
\<close>

section \<open>Searching and erasing\<close>

fun str_find :: "string \<Rightarrow> string \<Rightarrow> nat option" where
  "str_find p [] = (if p = [] then Some 0 else None)"
| "str_find p (c # s) =
     (if take (length p) (c # s) = p then Some 0 else map_option Suc (str_find p s))"

definition str_erase :: "nat \<Rightarrow> nat \<Rightarrow> string \<Rightarrow> string" where
  "str_erase i n s = take i s @ drop (i + n) s"

lemma str_find_Some_split:
  "str_find p s = Some i \<Longrightarrow> s = take i s @ p @ drop (i + length p) s \<and> i + length p \<le> length s"
proof (induction p s arbitrary: i rule: str_find.induct)
  case (1 p)
  then show ?case by (auto split: if_splits)
next
  case (2 p c s)
  show ?case
  proof (cases "take (length p) (c # s) = p")
    case True
    with "2.prems" have "i = 0" by simp
    moreover have "c # s = p @ drop (length p) (c # s)"
      using True by (metis append_take_drop_id)
    moreover have "length p \<le> length (c # s)"
      using True by (metis length_take min.bounded_iff order_refl)
    ultimately show ?thesis by simp
  next
    case False
    with "2.prems" obtain j where j: "str_find p s = Some j" "i = Suc j" by auto
    with "2.IH" [OF False j(1)] show ?thesis by simp
  qed
qed

lemma str_find_None_iff: "str_find p s = None \<longleftrightarrow> (\<nexists>xs ys. s = xs @ p @ ys)"
proof (induction p s rule: str_find.induct)
  case (1 p)
  then show ?case by auto
next
  case (2 p c s)
  show ?case
  proof (cases "take (length p) (c # s) = p")
    case True
    then have "c # s = [] @ p @ drop (length p) (c # s)"
      by (metis append_Nil append_take_drop_id)
    with True show ?thesis by (metis option.distinct(1) str_find.simps(2))
  next
    case False
    have "(\<exists>xs ys. c # s = xs @ p @ ys) \<longleftrightarrow> (\<exists>xs ys. s = xs @ p @ ys)" (is "?L \<longleftrightarrow> ?R")
    proof
      assume ?L
      then obtain xs ys where eq: "c # s = xs @ p @ ys" by blast
      with False have "xs \<noteq> []" by (auto simp del: take_Suc_Cons)
      with eq show ?R by (auto simp: Cons_eq_append_conv)
    next
      assume ?R
      then show ?L by (metis append_Cons)
    qed
    with False "2.IH" [OF False] show ?thesis by simp
  qed
qed

lemma str_find_single:
  "str_find [c] s = Some i \<Longrightarrow> c \<notin> set (take i s) \<and> i < length s \<and> s ! i = c"
proof (induction s arbitrary: i)
  case Nil
  then show ?case by simp
next
  case (Cons a s)
  then show ?case by (cases "a = c") (auto split: if_splits)
qed

lemma str_find_single_None: "str_find [c] s = None \<longleftrightarrow> c \<notin> set s"
  by (simp add: str_find_None_iff) (metis append.left_neutral append_Cons in_set_conv_decomp)

text \<open>
  The loop of \<open>addapnsInContact\<close>: while the one-character pattern occurs, erase its first
  occurrence. It terminates because every round shortens the string, and it computes a filter.
\<close>

function erase_char_loop :: "char \<Rightarrow> string \<Rightarrow> string" where
  "erase_char_loop c s =
     (case str_find [c] s of
        None \<Rightarrow> s
      | Some i \<Rightarrow> erase_char_loop c (str_erase i 1 s))"
  by pat_completeness auto
termination
  by (relation "measure (\<lambda>(c, s). length s)")
    (auto simp: str_erase_def dest: str_find_single)

declare erase_char_loop.simps [simp del]

lemma filter_str_erase:
  assumes "str_find [c] s = Some i"
  shows "filter (\<lambda>x. x \<noteq> c) (str_erase i 1 s) = filter (\<lambda>x. x \<noteq> c) s"
proof -
  from str_find_single [OF assms] have i: "i < length s" "s ! i = c" by auto
  then have eq: "s = take i s @ c # drop (Suc i) s" by (metis id_take_nth_drop)
  show ?thesis
    using arg_cong [OF eq, of "filter (\<lambda>x. x \<noteq> c)"] by (simp add: str_erase_def)
qed

lemma erase_char_loop_filter: "erase_char_loop c s = filter (\<lambda>x. x \<noteq> c) s"
proof (induction c s rule: erase_char_loop.induct)
  case (1 c s)
  show ?case
  proof (cases "str_find [c] s")
    case None
    then have "\<forall>x \<in> set s. x \<noteq> c" by (auto simp: str_find_single_None)
    then have "filter (\<lambda>x. x \<noteq> c) s = s" by (rule filter_True)
    with None show ?thesis by (simp add: erase_char_loop.simps [of c s])
  next
    case (Some i)
    with 1 have "erase_char_loop c s = filter (\<lambda>x. x \<noteq> c) (str_erase i 1 s)"
      by (simp add: erase_char_loop.simps [of c s])
    with Some show ?thesis by (simp only: filter_str_erase)
  qed
qed

section \<open>Case folding\<close>

text \<open>\<open>std::tolower\<close> in the \<open>"C"\<close> locale, the one a native Android library starts in.\<close>

definition c_tolower :: "char \<Rightarrow> char" where
  "c_tolower c =
     (let n = (of_char c :: nat) in if 65 \<le> n \<and> n \<le> 90 then char_of (n + 32) else c)"

lemma c_tolower_idem [simp]: "c_tolower (c_tolower c) = c_tolower c"
  by (simp add: c_tolower_def Let_def)

section \<open>The ordered string map\<close>

fun str_less :: "string \<Rightarrow> string \<Rightarrow> bool" where
  "str_less _ [] = False"
| "str_less [] (_ # _) = True"
| "str_less (a # s) (b # t) =
     ((of_char a :: nat) < of_char b \<or> (a = b \<and> str_less s t))"

text \<open>\<open>m[k] = v\<close> on a map kept in key order.\<close>

fun map_set :: "string \<Rightarrow> string \<Rightarrow> (string \<times> string) list \<Rightarrow> (string \<times> string) list" where
  "map_set k v [] = [(k, v)]"
| "map_set k v ((k', v') # m) =
     (if k = k' then (k, v) # m
      else if str_less k k' then (k, v) # (k', v') # m
      else (k', v') # map_set k v m)"

fun map_ordered :: "(string \<times> string) list \<Rightarrow> bool" where
  "map_ordered [] = True"
| "map_ordered ((k, v) # m) = ((\<forall>k' \<in> fst ` set m. str_less k k') \<and> map_ordered m)"

lemma str_less_irrefl [simp]: "\<not> str_less s s"
  by (induction s) auto

lemma str_less_trans: "str_less a b \<Longrightarrow> str_less b c \<Longrightarrow> str_less a c"
proof (induction a b arbitrary: c rule: str_less.induct)
  case (1 a)
  then show ?case by simp
next
  case (2 x s)
  then show ?case by (cases c) auto
next
  case (3 a s b t)
  then show ?case by (cases c) auto
qed

lemma str_less_linear: "str_less a b \<or> a = b \<or> str_less b a"
proof (induction a b rule: str_less.induct)
  case (1 a)
  then show ?case by (cases a) auto
next
  case (2 x s)
  then show ?case by simp
next
  case (3 a s b t)
  show ?case
  proof (cases "a = b")
    case True
    with 3 show ?thesis by auto
  next
    case False
    then have "(of_char a :: nat) \<noteq> of_char b" by simp
    then have "(of_char a :: nat) < of_char b \<or> (of_char b :: nat) < of_char a" by linarith
    then show ?thesis by auto
  qed
qed

lemma keys_map_set: "fst ` set (map_set k v m) = insert k (fst ` set m)"
  by (induction k v m rule: map_set.induct) auto

lemma map_ordered_map_set: "map_ordered m \<Longrightarrow> map_ordered (map_set k v m)"
proof (induction k v m rule: map_set.induct)
  case (1 k v)
  then show ?case by simp
next
  case (2 k v k' v' m)
  consider "k = k'" | "k \<noteq> k'" "str_less k k'" | "k \<noteq> k'" "\<not> str_less k k'" by blast
  then show ?case
  proof cases
    case 1
    with "2.prems" show ?thesis by simp
  next
    case 2
    with "2.prems" show ?thesis by (auto intro: str_less_trans)
  next
    case 3
    then have "str_less k' k" using str_less_linear by blast
    with 3 2 show ?thesis by (simp add: keys_map_set)
  qed
qed

lemma map_of_map_set: "map_of (map_set k v m) = (map_of m)(k \<mapsto> v)"
  by (induction k v m rule: map_set.induct) auto

lemma map_set_ne [simp]: "map_set k v m \<noteq> []"
  by (induction k v m rule: map_set.induct) auto

lemma map_ordered_distinct: "map_ordered m \<Longrightarrow> distinct (map fst m)"
  by (induction m rule: map_ordered.induct) force+

end
