(* ===== verification/SipTypes.thy ===== *)
theory SipTypes
  imports Strings
begin

text \<open>
  The data of the endpoint: the enumerations and structs of \<open>SipControllerCore.h\<close>, the
  view of a SIP message that the controller reads (\<open>SipMessage\<close>), the enumerations of the
  reSIProcate headers that it switches on, the calls it makes on other objects (\<open>out\<close>),
  and the record \<open>resip_lib\<close> of the reSIProcate functions whose bodies are only in the
  prebuilt libraries: every definition that needs one takes the record as an argument.
\<close>

section \<open>Enumerations and structs of the controller\<close>

datatype SipRegistrationEvent = Registered | NotRegistered

datatype SipCallEvent = IncomingCall | TerminateCall | CallAccepted

datatype SipErrorType = WebRtcError | SipConnectionError | SipSessionError

datatype DialProgress = Dialing | Ringing | Connected | Done

record SipServerSettings =
  domain :: string
  dnsServer :: string
  proxyServer :: string

record IceCandidate =
  mid :: string
  candidate :: string

section \<open>Enumerations of the SIP library\<close>

datatype TransportType =
    UNKNOWN_TRANSPORT | TLS | TCP | UDP | SCTP | DCCP | DTLS | WS | WSS | MAX_TRANSPORT

datatype TerminatedReason =
    Error | Timeout | Replaced | LocalBye | RemoteBye | LocalCancel | RemoteCancel
  | Rejected | Referred

datatype MethodTypes =
    UNKNOWN | ACK | BYE | CANCEL | INVITE | NOTIFY | OPTIONS | REFER | REGISTER | SUBSCRIBE
  | RESPONSE | MESSAGE | INFO | PRACK | PUBLISH | SERVICE | UPDATE | MAX_METHODS

datatype ReliableProvisionalMode = Never | SupportedEssential | Supported | Required

section \<open>SIP messages and session descriptions\<close>

record via =
  v_received :: "string option"
  v_rport :: "int option"
  v_sentHost :: string
  v_sentPort :: int
  v_transport :: string

record Tuple =
  t_address :: string
  t_port :: int
  t_type :: TransportType

text \<open>
  What the controller reads of a message. Every header may be absent (or not parse), which
  is the option's \<open>None\<close>: reading it through a const message throws. \<open>msg_from_user\<close> and
  \<open>msg_to_user\<close> are the user parts of the addresses of From and To. The unknown headers come with their field values in message order; \<open>msg_statusLine\<close> is the
  response code and is absent in a request.
\<close>

record SipMessage =
  msg_vias :: "via list option"
  msg_callId :: "string option"
  msg_userAgent :: "string option"
  msg_statusLine :: "int option"
  msg_from_user :: "string option"
  msg_to_user :: "string option"
  msg_unknown :: "(string \<times> string list) list"
  msg_contents :: "string option"

record Medium =
  med_name :: string
  med_attributes :: "(string \<times> string) list"

record RegMessage =
  reg_target :: string
  reg_headers :: "(string \<times> string) list"
  reg_contacts :: "string list"
  reg_expires :: int
  reg_routes :: "string list"

record MasterProfile =
  mp_instanceId :: string
  mp_methods :: "MethodTypes list"
  mp_uacMode :: ReliableProvisionalMode
  mp_uasMode :: ReliableProvisionalMode
  mp_languages :: "string list"
  mp_mimeTypes :: "(MethodTypes \<times> string \<times> string) list"
  mp_optionTags :: "string list"
  mp_schemes :: "string list"
  mp_validateContent :: bool
  mp_validateContentLanguage :: bool
  mp_validateAccept :: bool
  mp_capabilities :: "string list"
  mp_methodsParam :: bool
  mp_registrationTime :: int
  mp_registrationRetryTime :: int
  mp_userAgent :: string
  mp_keepAliveDatagram :: int
  mp_keepAliveStream :: int
  mp_staleCallTime :: int
  mp_defaultFrom :: "string option"
  mp_digest :: "(string \<times> string \<times> string) list"

section \<open>Observable calls\<close>

text \<open>
  The calls the controller makes on its handlers (the Java side), on the dialog usage
  manager and on the invite sessions, in order. A session is named by the address of the
  library object.
\<close>

datatype out =
    HandleLog string
  | HandleRegistration SipRegistrationEvent string
  | HandleCall SipCallEvent string
  | HandleSDP string
  | HandleCallInfo string
  | HandleCallState string int
  | StackNew "string list"
  | AddTransport TransportType int
  | UserAgentNew
  | SetMasterProfile
  | SetKeepAliveManager
  | StackRun
  | StackThreadRun
  | SetClientAuthManager
  | SendRegistration RegMessage
  | StartReceiver
  | DetachReceiver
  | SendInvite string "Medium list" "(string \<times> string) list"
  | ProvideAnswer nat "Medium list"
  | Accept nat
  | Reject nat int
  | Provisional nat
  | TargetRefresh nat string
  | EndSession nat
  | DeleteSession nat

section \<open>The library functions the controller calls\<close>

text \<open>
  What \<open>rl_substr\<close> (\<open>Data::substr\<close>) returns for an index past the end of the text is left to
  the library, whose header does not say; no definition or lemma assumes anything of it.
\<close>

record resip_lib =
  rl_isPrivateAddress :: "string \<Rightarrow> bool"
  rl_isIpV4Address :: "string \<Rightarrow> bool"
  rl_toTransport :: "string \<Rightarrow> TransportType"
  rl_inet_ntop :: "string \<Rightarrow> string"
  rl_defaultTuple :: Tuple
  rl_parses :: "string \<Rightarrow> bool"
  rl_uri_host :: "string \<Rightarrow> string"
  rl_uri_user :: "string \<Rightarrow> string"
  rl_registration_contacts :: "string \<Rightarrow> string list"
  rl_sdp_parse :: "string \<Rightarrow> Medium list \<times> bool"
  rl_substr :: "nat \<Rightarrow> string \<Rightarrow> string"

end
