(* ===== verification/SipMessages.thy ===== *)
theory SipMessages
  imports SipTypes
begin

text \<open>
  The controller's message readers: \<open>processIpAndPort\<close> (the public address from the Via
  stack), \<open>getCallId\<close>, \<open>isValidUserAgent\<close>, \<open>getStatusCode\<close>, the \<open>callInfo\<close>
  string that the handlers report, and the decimal printer behind \<open>patch::to_string\<close>.
\<close>

section \<open>Definitions\<close>

text \<open>One iteration of the loop of \<open>processIpAndPort\<close>: the address it would return.\<close>

definition via_port :: "via \<Rightarrow> int" where
  "via_port it = (case v_rport it of Some p \<Rightarrow> p | None \<Rightarrow> v_sentPort it)"

definition via_tuple :: "resip_lib \<Rightarrow> via \<Rightarrow> string \<Rightarrow> Tuple" where
  "via_tuple lib it addr =
     \<lparr>t_address = addr, t_port = via_port it, t_type = rl_toTransport lib (v_transport it)\<rparr>"

definition via_public :: "resip_lib \<Rightarrow> via \<Rightarrow> Tuple option" where
  "via_public lib it =
     (case v_received it of
        Some addr \<Rightarrow>
          if \<not> rl_isPrivateAddress lib addr then Some (via_tuple lib it addr)
          else if rl_isIpV4Address lib (v_sentHost it) \<and> \<not> rl_isPrivateAddress lib (v_sentHost it)
          then Some (via_tuple lib it (v_sentHost it)) else None
      | None \<Rightarrow>
          if rl_isIpV4Address lib (v_sentHost it) \<and> \<not> rl_isPrivateAddress lib (v_sentHost it)
          then Some (via_tuple lib it (v_sentHost it)) else None)"

text \<open>
  The backward loop, with the iterator as the number of elements before it: \<open>it--\<close> at the
  beginning of the container is the underrun.
\<close>

fun via_loop :: "resip_lib \<Rightarrow> via list \<Rightarrow> nat \<Rightarrow> cpp_error + Tuple" where
  "via_loop lib vias 0 = Inl IteratorUnderrun"
| "via_loop lib vias (Suc i) =
     (case via_public lib (vias ! i) of
        Some address \<Rightarrow> Inr address
      | None \<Rightarrow> if i = 0 then Inr (rl_defaultTuple lib) else via_loop lib vias i)"

definition processIpAndPort :: "resip_lib \<Rightarrow> SipMessage \<Rightarrow> cpp_error + Tuple" where
  "processIpAndPort lib message =
     (case msg_vias message of
        None \<Rightarrow> Inr (rl_defaultTuple lib)
      | Some vias \<Rightarrow> via_loop lib vias (length vias))"

definition getCallId :: "SipMessage \<Rightarrow> string" where
  "getCallId msg = (case msg_callId msg of Some v \<Rightarrow> v | None \<Rightarrow> [])"

definition isValidUserAgent :: "SipMessage \<Rightarrow> bool" where
  "isValidUserAgent msg =
     (case msg_userAgent msg of
        None \<Rightarrow> False
      | Some ua \<Rightarrow> str_find ''plivo'' (map c_tolower ua) \<noteq> None)"

definition getStatusCode :: "SipMessage \<Rightarrow> cpp_error + int" where
  "getStatusCode msg =
     (case msg_statusLine msg of Some c \<Rightarrow> Inr c | None \<Rightarrow> Inl MissingHeader)"

text \<open>
  The loop over \<open>getRawUnknownHeaders\<close> that appends \<open>,name:value\<close>; \<open>front()\<close> of an
  empty field list is the failure.
\<close>

fun append_unknown :: "string \<Rightarrow> (string \<times> string list) list \<Rightarrow> cpp_error + string" where
  "append_unknown callInfo [] = Inr callInfo"
| "append_unknown callInfo ((name, vs) # hs) =
     (case vs of
        [] \<Rightarrow> Inl MissingHeader
      | v # _ \<Rightarrow> append_unknown (callInfo @ '','' @ name @ '':'' @ v) hs)"

fun digits_of :: "nat \<Rightarrow> string" where
  "digits_of n = (if n < 10 then [char_of (48 + n)] else digits_of (n div 10) @ [char_of (48 + n mod 10)])"

definition to_string :: "int \<Rightarrow> string" where
  "to_string i = (if i < 0 then ''-'' @ digits_of (nat (- i)) else digits_of (nat i))"

declare digits_of.simps [simp del]

section \<open>The public address\<close>

text \<open>
  Reference: the last Via that yields a public address, and the library's empty tuple
  when no Via does.
\<close>

definition last_public :: "resip_lib \<Rightarrow> via list \<Rightarrow> Tuple" where
  "last_public lib vias =
     (case List.map_filter (via_public lib) (rev vias) of
        [] \<Rightarrow> rl_defaultTuple lib
      | a # _ \<Rightarrow> a)"

lemma via_loop_last_public:
  "i \<noteq> 0 \<Longrightarrow> i \<le> length vias \<Longrightarrow> via_loop lib vias i = Inr (last_public lib (take i vias))"
proof (induction lib vias i rule: via_loop.induct)
  case (1 lib vias)
  then show ?case by simp
next
  case (2 lib vias i)
  then have split: "rev (take (Suc i) vias) = vias ! i # rev (take i vias)"
    by (simp add: take_Suc_conv_app_nth)
  show ?case
  proof (cases "via_public lib (vias ! i)")
    case (Some a)
    then show ?thesis by (simp add: last_public_def split map_filter_simps)
  next
    case None
    show ?thesis
    proof (cases "i = 0")
      case True
      with None split show ?thesis by (simp add: last_public_def map_filter_simps)
    next
      case False
      with None 2 have "via_loop lib vias i = Inr (last_public lib (take i vias))" by simp
      with None False split show ?thesis by (simp add: last_public_def map_filter_simps)
    qed
  qed
qed

lemma via_public_sound:
  assumes "via_public lib it = Some a"
  shows "\<not> rl_isPrivateAddress lib (t_address a)
    \<and> (Some (t_address a) = v_received it \<or> t_address a = v_sentHost it)
    \<and> t_port a = via_port it \<and> t_type a = rl_toTransport lib (v_transport it)"
  using assms by (auto simp: via_public_def via_tuple_def split: option.splits if_splits)

lemma last_public_cases:
  "last_public lib vias = rl_defaultTuple lib
   \<or> (\<exists>v \<in> set vias. via_public lib v = Some (last_public lib vias))"
proof (cases "List.map_filter (via_public lib) (rev vias)")
  case Nil
  then show ?thesis by (simp add: last_public_def)
next
  case (Cons a as)
  then have "a \<in> set (List.map_filter (via_public lib) (rev vias))" by simp
  then obtain v where "v \<in> set vias" "via_public lib v = Some a"
    by (auto simp: List.map_filter_def)
  with Cons show ?thesis by (auto simp: last_public_def)
qed

section \<open>The user agent check\<close>

lemma isValidUserAgent_iff:
  "isValidUserAgent msg \<longleftrightarrow>
     (\<exists>ua xs ys. msg_userAgent msg = Some ua \<and> map c_tolower ua = xs @ ''plivo'' @ ys)"
proof (cases "msg_userAgent msg")
  case None
  then show ?thesis by (simp add: isValidUserAgent_def)
next
  case (Some ua)
  have "isValidUserAgent msg \<longleftrightarrow> str_find ''plivo'' (map c_tolower ua) \<noteq> None"
    by (simp add: isValidUserAgent_def Some)
  also have "\<dots> \<longleftrightarrow> (\<exists>xs ys. map c_tolower ua = xs @ ''plivo'' @ ys)"
    unfolding str_find_None_iff by blast
  finally show ?thesis by (simp add: Some)
qed

section \<open>The call info string\<close>

lemma append_unknown_ok:
  "(\<forall>(n, vs) \<in> set hs. vs \<noteq> []) \<Longrightarrow>
   append_unknown ci hs = Inr (ci @ concat (map (\<lambda>(n, vs). '','' @ n @ '':'' @ hd vs) hs))"
  by (induction ci hs rule: append_unknown.induct) (auto split: list.split)

lemma append_unknown_Inr_iff:
  "(\<exists>r. append_unknown ci hs = Inr r) \<longleftrightarrow> (\<forall>(n, vs) \<in> set hs. vs \<noteq> [])"
  by (induction ci hs rule: append_unknown.induct) (auto split: list.split)

lemma digits_of_ne [simp]: "digits_of n \<noteq> []"
  by (subst digits_of.simps) simp

lemma to_string_ne [simp]: "to_string i \<noteq> []"
  by (simp add: to_string_def)

text \<open>Reading the digits back gives the number.\<close>

definition digit_val :: "char \<Rightarrow> nat" where
  "digit_val c = of_char c - 48"

definition read_digits :: "string \<Rightarrow> nat" where
  "read_digits s = foldl (\<lambda>n c. 10 * n + digit_val c) 0 s"

lemma digit_val_char_of [simp]: "d < 10 \<Longrightarrow> digit_val (char_of (48 + d)) = d"
  by (simp add: digit_val_def)

lemma read_digits_of: "read_digits (digits_of n) = n"
proof (induction n rule: digits_of.induct)
  case (1 n)
  show ?case
  proof (cases "n < 10")
    case True
    then show ?thesis by (simp add: digits_of.simps [of n] read_digits_def)
  next
    case False
    with 1 have "read_digits (digits_of n) = 10 * (n div 10) + n mod 10"
      by (simp add: digits_of.simps [of n] read_digits_def)
    then show ?thesis by simp
  qed
qed

end
