(* ===== verification/Contact.thy ===== *)
theory Contact
  imports Strings
begin

text \<open>
  The address strings the controller builds: the account URI of \<open>createUri\<close>, the push
  parameters of \<open>addapnsInContact\<close> and the Contact of the proxy registration. The
  lemmas say which of the results are one bracketed URI (\<open>bracketed\<close>), the form a SIP
  Contact header takes.
\<close>

section \<open>Definitions\<close>

definition account_uri :: "string \<Rightarrow> string" where
  "account_uri uri = ''<sip:'' @ uri @ '';transport=tls>''"

definition addapnsInContact :: "string \<Rightarrow> string \<Rightarrow> string \<Rightarrow> string" where
  "addapnsInContact certid contactAddress token =
     (let c1 = (if certid = [] \<and> token = [] then contactAddress @ ''>'' else contactAddress);
          c2 = (if certid \<noteq> [] then c1 @ '';certid='' @ certid @ ''>'' else c1)
      in if token \<noteq> []
         then erase_char_loop (CHR ''>'') c2 @ '';app_id='' @ token @ ''>''
         else c2)"

definition proxyContact ::
  "string \<Rightarrow> string \<Rightarrow> string \<Rightarrow> string \<Rightarrow> string \<Rightarrow> string" where
  "proxyContact username sipUri public_ip_port token certid =
     (let contactAddress =
        (if public_ip_port \<noteq> []
         then ''<sip:'' @ username @ ''@'' @ public_ip_port @ '';transport=tls>'' else sipUri)
      in if certid \<noteq> ''NA'' \<and> token \<noteq> ''NA'' then addapnsInContact certid contactAddress token
         else if certid \<noteq> ''NA''
         then ''<sip:'' @ username @ ''@'' @ public_ip_port @ '';transport=tls;certid='' @ certid @ ''>''
         else if token \<noteq> ''NA''
         then ''<sip:'' @ username @ ''@'' @ public_ip_port @ '';transport=tls;fcm='' @ token @ ''>''
         else contactAddress)"

section \<open>Well-formed Contact values\<close>

definition plain :: "string \<Rightarrow> bool" where
  "plain s \<longleftrightarrow> CHR ''<'' \<notin> set s \<and> CHR ''>'' \<notin> set s"

definition bracketed :: "string \<Rightarrow> bool" where
  "bracketed s \<longleftrightarrow> (\<exists>u. s = ''<'' @ u @ ''>'' \<and> plain u)"

lemma plain_simps [simp]:
  "plain []"
  "plain (c # s) \<longleftrightarrow> c \<noteq> CHR ''<'' \<and> c \<noteq> CHR ''>'' \<and> plain s"
  "plain (s @ t) \<longleftrightarrow> plain s \<and> plain t"
  by (auto simp: plain_def)

lemma bracketedI: "s = ''<'' @ u @ ''>'' \<Longrightarrow> plain u \<Longrightarrow> bracketed s"
  by (auto simp: bracketed_def)

lemma bracketed_count: "bracketed s \<Longrightarrow> count_list s (CHR ''>'') = 1"
proof -
  assume "bracketed s"
  then obtain u where u: "s = ''<'' @ u @ ''>''" "plain u" by (auto simp: bracketed_def)
  then have "count_list u (CHR ''>'') = 0" by (simp add: plain_def)
  with u show ?thesis by simp
qed

lemma plain_count [simp]: "plain u \<Longrightarrow> count_list u (CHR ''>'') = 0"
  by (simp add: plain_def)

lemma plain_filter [simp]: "plain u \<Longrightarrow> filter (\<lambda>x. x \<noteq> CHR ''>'') u = u"
  by (rule filter_True) (auto simp: plain_def)

lemma bracketed_account_uri: "plain uri \<Longrightarrow> bracketed (account_uri uri)"
  by (rule bracketedI [where u = "''sip:'' @ uri @ '';transport=tls''"]) (simp_all add: account_uri_def)

text \<open>With a token the loop removes every closing bracket before the one it appends.\<close>

lemma addapns_token:
  assumes "token \<noteq> []" and "plain uri" and "plain certid"
  shows "addapnsInContact certid (account_uri uri) token =
    ''<sip:'' @ uri @ '';transport=tls'' @ (if certid = [] then [] else '';certid='' @ certid)
      @ '';app_id='' @ token @ ''>''"
  using assms by (simp add: addapnsInContact_def account_uri_def erase_char_loop_filter)

text \<open>Without a token nothing removes the bracket that \<open>createUri\<close> has already written.\<close>

lemma addapns_no_token:
  assumes "token = []"
  shows "addapnsInContact certid (account_uri uri) token =
    account_uri uri @ (if certid = [] then [] else '';certid='' @ certid) @ ''>''"
  using assms by (simp add: addapnsInContact_def)

lemma addapns_bracketed_iff:
  assumes "plain uri" and "plain certid" and "plain token"
  shows "bracketed (addapnsInContact certid (account_uri uri) token) \<longleftrightarrow> token \<noteq> []"
proof (cases "token = []")
  case True
  have "count_list (addapnsInContact certid (account_uri uri) token) (CHR ''>'') = 2"
    unfolding addapns_no_token [OF True] using assms by (simp add: account_uri_def)
  then show ?thesis using True bracketed_count by fastforce
next
  case False
  define u where "u = ''sip:'' @ uri @ '';transport=tls''
    @ (if certid = [] then [] else '';certid='' @ certid) @ '';app_id='' @ token"
  have "addapnsInContact certid (account_uri uri) token = ''<'' @ u @ ''>''"
    using addapns_token [OF False assms(1,2)] by (simp add: u_def)
  moreover have "plain u" using assms by (simp add: u_def)
  ultimately show ?thesis using False by (auto simp: bracketed_def)
qed

text \<open>The contact of a proxy registration, spelled out per combination of certificate and token.\<close>

lemma proxyContact_literal:
  assumes "plain username" "plain uri" "plain ip" "plain certid" "token \<noteq> []"
  shows "proxyContact username (account_uri uri) ip token certid =
    ''<sip:''
    @ (if ip \<noteq> [] \<or> (certid = ''NA'') \<noteq> (token = ''NA'') then username @ ''@'' @ ip else uri)
    @ '';transport=tls''
    @ (if certid = ''NA'' \<and> token = ''NA'' then []
       else if certid = ''NA'' then '';fcm='' @ token
       else if token = ''NA'' then '';certid='' @ certid
       else (if certid = [] then [] else '';certid='' @ certid) @ '';app_id='' @ token)
    @ ''>''"
proof -
  have pub: "''<sip:'' @ username @ ''@'' @ ip @ '';transport=tls>'' = account_uri (username @ ''@'' @ ip)"
    by (simp add: account_uri_def)
  have ap: "addapnsInContact certid (account_uri v) token =
    ''<sip:'' @ v @ '';transport=tls'' @ (if certid = [] then [] else '';certid='' @ certid)
      @ '';app_id='' @ token @ ''>''" if "plain v" for v
    by (rule addapns_token [OF assms(5) that assms(4)])
  show ?thesis
    unfolding proxyContact_def pub Let_def
    using ap [of uri] ap [of "username @ ''@'' @ ip"] assms
    by (simp add: account_uri_def)
qed

text \<open>The contact of a proxy registration is one bracketed URI whenever it is not built by
  \<open>addapnsInContact\<close> with an empty token.\<close>

lemma proxyContact_bracketed:
  assumes "plain username" "plain uri" "plain ip" "plain token" "plain certid" "token \<noteq> []"
  shows "bracketed (proxyContact username (account_uri uri) ip token certid)"
proof -
  have pub: "''<sip:'' @ username @ ''@'' @ ip @ '';transport=tls>'' = account_uri (username @ ''@'' @ ip)"
    by (simp add: account_uri_def)
  have fcm: "bracketed (''<sip:'' @ username @ ''@'' @ ip @ '';transport=tls'' @ x @ ''>'')"
    if "plain x" for x
    using assms that
    by (intro bracketedI [where u = "''sip:'' @ username @ ''@'' @ ip @ '';transport=tls'' @ x"]) simp_all
  have both: "bracketed (addapnsInContact certid (account_uri v) token)" if "plain v" for v
    using addapns_bracketed_iff [OF that assms(5,4)] assms(6) by simp
  show ?thesis
    unfolding proxyContact_def pub Let_def
    using both [of uri] both [of "username @ ''@'' @ ip"] assms
      fcm [of "'';certid='' @ certid"] fcm [of "'';fcm='' @ token"]
      bracketed_account_uri [of uri] bracketed_account_uri [of "username @ ''@'' @ ip"]
    by (auto split del: if_split split: if_splits)
qed

end
