(* ===== verification/Controller.thy ===== *)
theory Controller
  imports SipMessages Contact
begin

text \<open>
  The SIP controller (\<open>class SipControllerCore\<close>): its members as the record \<open>ctl\<close>,
  the constructor and destructor, the registration of the handlers, and the member
  functions that the application calls. One definition per member function; a body is the
  list of its statements. The field \<open>trace\<close> collects the calls on other objects,
  \<open>receivers\<close> counts the threads that run \<open>receive\<close>, and the two function-local
  \<open>static\<close> objects of \<open>sendSdpOffer\<close> and \<open>sendSdpAnswer\<close> are the fields
  \<open>offerSdp\<close> and \<open>answerSdp\<close>. A \<open>lock_guard\<close> scope is \<open>locked\<close>; a scope that
  only copies members to locals is \<open>locked_get\<close>. \<open>Log::initialize\<close>,
  \<open>Log::setLevel\<close>, \<open>InfoLog\<close> and \<open>sleep\<close> have no effect on this state.
\<close>

section \<open>State\<close>

record ctl =
  m_domain :: string
  m_run :: bool
  m_receiveClosed :: bool
  m_localSdp :: string
  m_remoteSdp :: string
  m_localCandidates :: "IceCandidate list"
  m_inCall :: bool
  m_isCaller :: bool
  m_localSdpSet :: bool
  m_remoteSdpSet :: bool
  m_localCandidatesCollected :: bool
  m_inInBoundAccepted :: bool
  m_receiver :: "unit ptr"
  receivers :: nat
  m_controllerMutex :: bool
  m_registrationHandler :: "unit ptr"
  m_callHandler :: "unit ptr"
  m_logHandler :: "unit ptr"
  m_sdpHandler :: "unit ptr"
  m_callStateHandler :: "unit ptr"
  m_callInfoHandler :: "unit ptr"
  m_errorHandler :: "unit ptr"
  m_stack :: bool
  m_dnsServers :: "string list"
  m_userAgent :: "unit ptr"
  m_clientAddress :: string
  m_outboundProxy :: "string option"
  m_masterProfile :: "MasterProfile option"
  m_clientInviteSession :: "nat option"
  m_serverInviteSession :: "nat option"
  m_headers :: "(string \<times> string) list"
  m_uri :: string
  m_current_callid :: string
  m_app_id :: string
  m_cert_id :: string
  m_username :: string
  m_password :: string
  m_remoteUri :: string
  m_dnsServer :: string
  m_proxyServer :: string
  m_public_ip_port :: string
  isProxyRegister :: bool
  isUACRejected :: bool
  m_reg_timeout :: int
  mProgress :: DialProgress
  offerSdp :: "Medium list option"
  answerSdp :: "Medium list option"
  trace :: "out list"

text \<open>
  The constructor. \<open>mem\<close> stands for the memory the object is built in: the members that
  the initialiser list leaves out keep what was there, pointers among them as wild ones.
\<close>

definition SipControllerCore :: "ctl \<Rightarrow> SipServerSettings \<Rightarrow> ctl" where
  "SipControllerCore mem serverSettings = mem\<lparr>
     m_domain := domain serverSettings,
     m_dnsServer := dnsServer serverSettings,
     m_proxyServer := proxyServer serverSettings,
     m_run := False, m_receiveClosed := False, m_inCall := False, m_isCaller := False,
     m_localSdpSet := False, m_remoteSdpSet := False, m_localCandidatesCollected := False,
     m_receiver := NullPtr, receivers := 0, m_controllerMutex := False,
     m_registrationHandler := NullPtr, m_callHandler := NullPtr, m_logHandler := NullPtr,
     m_sdpHandler := NullPtr, m_callStateHandler := NullPtr, m_errorHandler := NullPtr,
     m_callInfoHandler := WildPtr, m_userAgent := WildPtr,
     m_localSdp := [], m_remoteSdp := [], m_localCandidates := [], m_stack := False,
     m_dnsServers := [], m_clientAddress := [], m_outboundProxy := None,
     m_masterProfile := None, m_clientInviteSession := None, m_serverInviteSession := None,
     m_headers := [], m_uri := [], m_current_callid := [], m_app_id := [], m_cert_id := [],
     m_username := [], m_password := [], m_remoteUri := [], m_public_ip_port := [],
     m_reg_timeout := 0\<rparr>"

section \<open>Statements of the controller\<close>

definition emit :: "out \<Rightarrow> ctl stmt" where
  "emit x s = Inr (s\<lparr>trace := trace s @ [x]\<rparr>)"

definition call_ptr :: "'a ptr \<Rightarrow> out \<Rightarrow> ctl stmt" where
  "call_ptr p x =
     (case p of NullPtr \<Rightarrow> fail NullDeref | WildPtr \<Rightarrow> fail WildDeref | Ptr _ \<Rightarrow> emit x)"

definition locked :: "ctl stmt list \<Rightarrow> ctl stmt" where
  "locked body s =
     (if m_controllerMutex s then Inl SelfDeadlock
      else bindr (block body (s\<lparr>m_controllerMutex := True\<rparr>))
             (\<lambda>s'. Inr (s'\<lparr>m_controllerMutex := False\<rparr>)))"

definition locked_get :: "(ctl \<Rightarrow> 'a) \<Rightarrow> ('a \<Rightarrow> ctl stmt) \<Rightarrow> ctl stmt" where
  "locked_get f k s = (if m_controllerMutex s then Inl SelfDeadlock else k (f s) s)"

text \<open>The constructors \<open>NameAddr(text)\<close> and \<open>Uri(text)\<close> of the library.\<close>

definition parse_addr :: "resip_lib \<Rightarrow> string \<Rightarrow> ctl stmt" where
  "parse_addr lib text = (if rl_parses lib text then block [] else fail ParseException)"

text \<open>\<open>SharedPtr::reset()\<close> and assignment of a fresh \<open>SharedPtr\<close> on the session members:
  the controller never copies them, so the object is deleted with its only owner.\<close>

definition reset_client :: "ctl stmt" where
  "reset_client s =
     (case m_clientInviteSession s of
        None \<Rightarrow> Inr s
      | Some c \<Rightarrow> emit (DeleteSession c) (s\<lparr>m_clientInviteSession := None\<rparr>))"

definition reset_server :: "ctl stmt" where
  "reset_server s =
     (case m_serverInviteSession s of
        None \<Rightarrow> Inr s
      | Some c \<Rightarrow> emit (DeleteSession c) (s\<lparr>m_serverInviteSession := None\<rparr>))"

definition assign_client :: "nat option \<Rightarrow> ctl stmt" where
  "assign_client p = block [reset_client, assign (\<lambda>s. s\<lparr>m_clientInviteSession := p\<rparr>)]"

definition assign_server :: "nat option \<Rightarrow> ctl stmt" where
  "assign_server p = block [reset_server, assign (\<lambda>s. s\<lparr>m_serverInviteSession := p\<rparr>)]"

definition handleLog :: "string \<Rightarrow> ctl stmt" where
  "handleLog value =
     locked_get m_logHandler (\<lambda>logHandler.
       call_ptr logHandler (HandleLog (''SipControllerCore:: '' @ value)))"

definition SipControllerCore_dtor :: "ctl stmt" where
  "SipControllerCore_dtor = block
     [get m_receiver (\<lambda>r. cond (r \<noteq> NullPtr) [call_ptr r DetachReceiver] []),
      handleLog ''SipControllerCore: deinit : '']"

section \<open>Handler setup\<close>

definition registerRegistrationHandler :: "unit ptr \<Rightarrow> ctl stmt" where
  "registerRegistrationHandler handler =
     locked [assign (\<lambda>s. s\<lparr>m_registrationHandler := handler\<rparr>)]"

definition registerCallHandler :: "unit ptr \<Rightarrow> ctl stmt" where
  "registerCallHandler handler = locked [assign (\<lambda>s. s\<lparr>m_callHandler := handler\<rparr>)]"

definition registerLogHandler :: "unit ptr \<Rightarrow> ctl stmt" where
  "registerLogHandler handler = locked [assign (\<lambda>s. s\<lparr>m_logHandler := handler\<rparr>)]"

definition sipSDPHandler :: "unit ptr \<Rightarrow> ctl stmt" where
  "sipSDPHandler handler = locked [assign (\<lambda>s. s\<lparr>m_sdpHandler := handler\<rparr>)]"

definition sipCallInfoHandler :: "unit ptr \<Rightarrow> ctl stmt" where
  "sipCallInfoHandler handler = locked [assign (\<lambda>s. s\<lparr>m_callInfoHandler := handler\<rparr>)]"

definition registerErrorHandler :: "unit ptr \<Rightarrow> ctl stmt" where
  "registerErrorHandler handler = locked [assign (\<lambda>s. s\<lparr>m_errorHandler := handler\<rparr>)]"

definition sipCallStateHandler :: "unit ptr \<Rightarrow> ctl stmt" where
  "sipCallStateHandler handler = locked [assign (\<lambda>s. s\<lparr>m_callStateHandler := handler\<rparr>)]"

section \<open>Session descriptions\<close>

text \<open>The loop over the media: the last one named audio and the last one named video.\<close>

fun scan_media :: "nat \<Rightarrow> Medium list \<Rightarrow> nat option \<times> nat option \<Rightarrow> nat option \<times> nat option" where
  "scan_media i [] av = av"
| "scan_media i (m # ms) (audio, video) =
     scan_media (Suc i) ms
       (if med_name m = ''audio'' then (Some i, video)
        else if med_name m = ''video'' then (audio, Some i) else (audio, video))"

definition addAttribute :: "string \<Rightarrow> string \<Rightarrow> Medium \<Rightarrow> Medium" where
  "addAttribute key val m = m\<lparr>med_attributes := med_attributes m @ [(key, val)]\<rparr>"

definition add_candidate ::
  "resip_lib \<Rightarrow> nat option \<times> nat option \<Rightarrow> IceCandidate \<Rightarrow> Medium list \<Rightarrow> Medium list" where
  "add_candidate lib av c media =
     (case av of (audio, video) \<Rightarrow>
        if audio \<noteq> None \<and> mid c = ''audio''
        then media[the audio := addAttribute ''candidate'' (rl_substr lib 10 (candidate c)) (media ! the audio)]
        else if video \<noteq> None \<and> mid c = ''video''
        then media[the video := addAttribute ''candidate'' (rl_substr lib 10 (candidate c)) (media ! the video)]
        else media)"

definition add_candidates :: "resip_lib \<Rightarrow> IceCandidate list \<Rightarrow> Medium list \<Rightarrow> Medium list" where
  "add_candidates lib cs media = foldl (\<lambda>m c. add_candidate lib (scan_media 0 media (None, None)) c m) media cs"

text \<open>
  \<open>static SdpContents offerSdp(hfv, type)\<close> and the first \<open>session()\<close> on it: the object is
  built from the local description of the first call of the function and lives on; the lazy
  parse throws, if at all, at the first access.
\<close>

definition offer_session :: "resip_lib \<Rightarrow> ctl stmt" where
  "offer_session lib s =
     (case offerSdp s of
        Some media \<Rightarrow> Inr s
      | None \<Rightarrow> (case rl_sdp_parse lib (m_localSdp s) of (media, ok) \<Rightarrow>
          if ok then Inr (s\<lparr>offerSdp := Some media\<rparr>) else Inl ParseException))"

definition answer_session :: "resip_lib \<Rightarrow> ctl stmt" where
  "answer_session lib s =
     (case answerSdp s of
        Some media \<Rightarrow> Inr s
      | None \<Rightarrow> (case rl_sdp_parse lib (m_localSdp s) of (media, ok) \<Rightarrow>
          if ok then Inr (s\<lparr>answerSdp := Some media\<rparr>) else Inl ParseException))"

definition sendSdpOffer :: "resip_lib \<Rightarrow> (string \<times> string) list \<Rightarrow> ctl stmt" where
  "sendSdpOffer lib headers = block
     [get m_localSdp (\<lambda>sdp. handleLog (''SDP Offer local sdp : '' @ sdp)),
      offer_session lib,
      handleLog ''send sdp offer 1111'',
      locked_get m_localCandidates (\<lambda>cs.
        assign (\<lambda>s. s\<lparr>offerSdp := map_option (add_candidates lib cs) (offerSdp s)\<rparr>)),
      get (\<lambda>s. ''sip:'' @ m_remoteUri s @ ''@'' @ m_domain s) (parse_addr lib),
      block (map (\<lambda>h. handleLog (''SDP Offer header values: '' @ snd h)) headers),
      handleLog ''send sdp offer 2222'',
      get (\<lambda>s. (m_userAgent s, ''sip:'' @ m_remoteUri s @ ''@'' @ m_domain s, offerSdp s))
        (\<lambda>(ua, address, media). call_ptr ua (SendInvite address (the media) headers)),
      handleLog ''send sdp offer 3333'',
      assign (\<lambda>s. s\<lparr>m_localCandidates := []\<rparr>),
      get m_callStateHandler (\<lambda>h. call_ptr h (HandleCallState ''Calling'' 0)),
      handleLog ''sdp offer sent'']"

definition on_server :: "(nat \<Rightarrow> out) \<Rightarrow> ctl stmt" where
  "on_server x s =
     (case m_serverInviteSession s of None \<Rightarrow> Inl NullDeref | Some c \<Rightarrow> emit (x c) s)"

definition sendSdpAnswer :: "resip_lib \<Rightarrow> ctl stmt" where
  "sendSdpAnswer lib = block
     [handleLog ''SDP Answer Sent | Incoming call flow'',
      answer_session lib,
      locked_get m_localCandidates (\<lambda>cs.
        assign (\<lambda>s. s\<lparr>answerSdp := map_option (add_candidates lib cs) (answerSdp s)\<rparr>)),
      get m_callStateHandler (\<lambda>h. call_ptr h (HandleCallState ''CallAccepted'' 200)),
      assign (\<lambda>s. s\<lparr>m_localCandidates := []\<rparr>),
      get answerSdp (\<lambda>media. on_server (\<lambda>c. ProvideAnswer c (the media))),
      on_server Accept]"

section \<open>Registration\<close>

definition createUri :: "string \<Rightarrow> (string \<Rightarrow> ctl stmt) \<Rightarrow> ctl stmt" where
  "createUri username k = block
     [assign (\<lambda>s. s\<lparr>m_uri := username @ ''@'' @ m_domain s\<rparr>),
      get m_uri (\<lambda>uri. k (account_uri uri))]"

definition mime_types :: "(string \<times> string) list" where
  "mime_types =
     [(''application'', ''sdp''), (''multipart'', ''mixed''), (''multipart'', ''signed''),
      (''multipart'', ''alternative'')]"

definition createMasterProfile :: "ctl stmt" where
  "createMasterProfile = assign (\<lambda>s. s\<lparr>m_masterProfile := Some \<lparr>
     mp_instanceId = m_uri s,
     mp_methods = [INVITE, UPDATE, ACK, CANCEL, OPTIONS, BYE, NOTIFY, SUBSCRIBE, INFO, MESSAGE, PRACK],
     mp_uacMode = Supported,
     mp_uasMode = SupportedEssential,
     mp_languages = [''en''],
     mp_mimeTypes = map (\<lambda>t. (INVITE, t)) mime_types @ map (\<lambda>t. (OPTIONS, t)) mime_types
       @ map (\<lambda>t. (PRACK, t)) mime_types @ map (\<lambda>t. (UPDATE, t)) mime_types,
     mp_optionTags = [''Timer''],
     mp_schemes = [''sip'', ''Digest''],
     mp_validateContent = False,
     mp_validateContentLanguage = False,
     mp_validateAccept = False,
     mp_capabilities = [''Allow'', ''AcceptLanguage'', ''Supported''],
     mp_methodsParam = True,
     mp_registrationTime = m_reg_timeout s,
     mp_registrationRetryTime = 120,
     mp_userAgent = ''plivo-browser-v1.2.0'',
     mp_keepAliveDatagram = 30,
     mp_keepAliveStream = 180,
     mp_staleCallTime = 60,
     mp_defaultFrom = None,
     mp_digest = []\<rparr>\<rparr>)"

definition on_profile :: "(MasterProfile \<Rightarrow> MasterProfile) \<Rightarrow> ctl stmt" where
  "on_profile f s =
     (case m_masterProfile s of
        None \<Rightarrow> Inl NullDeref
      | Some p \<Rightarrow> Inr (s\<lparr>m_masterProfile := Some (f p)\<rparr>))"

definition setupStack :: "ctl stmt" where
  "setupStack = block
     [assign (\<lambda>s. s\<lparr>m_dnsServers := m_dnsServers s @ [''8.8.8.8'']\<rparr>),
      get m_dnsServers (\<lambda>dns. emit (StackNew dns)),
      assign (\<lambda>s. s\<lparr>m_stack := True\<rparr>),
      emit (AddTransport UDP 5060),
      emit (AddTransport TCP 5060),
      emit (AddTransport TLS 5061),
      emit UserAgentNew,
      assign (\<lambda>s. s\<lparr>m_userAgent := Ptr ()\<rparr>),
      createMasterProfile,
      emit SetMasterProfile,
      emit SetKeepAliveManager,
      emit StackRun,
      emit StackThreadRun]"

definition outbound_host :: "resip_lib \<Rightarrow> string option \<Rightarrow> string" where
  "outbound_host lib p = (case p of None \<Rightarrow> [] | Some uri \<Rightarrow> rl_uri_host lib uri)"

definition registration_message ::
  "resip_lib \<Rightarrow> string \<Rightarrow> (string \<times> string) list \<Rightarrow> string \<Rightarrow> bool \<Rightarrow> string option \<Rightarrow> cpp_error + RegMessage" where
  "registration_message lib address headers contact_url proxied outbound =
     (let contacts = rl_registration_contacts lib address;
          routes = (if proxied \<and> outbound_host lib outbound \<noteq> [] then [the outbound] else [])
      in if contact_url = [] then
           Inr \<lparr>reg_target = address, reg_headers = headers, reg_contacts = contacts,
                reg_expires = 5184000, reg_routes = routes\<rparr>
         else if contacts = [] then Inl IteratorUnderrun
         else Inr \<lparr>reg_target = address, reg_headers = headers,
                   reg_contacts = butlast contacts @ [contact_url],
                   reg_expires = 5184000, reg_routes = routes\<rparr>)"

definition setupTransport :: "resip_lib \<Rightarrow> string \<Rightarrow> string \<Rightarrow> ctl stmt" where
  "setupTransport lib address contact_url = block
     [handleLog ''m_useagent before 111'',
      get m_proxyServer (\<lambda>p. cond (p \<noteq> [])
        [parse_addr lib (''sip:'' @ p @ '';transport=tls''),
         assign (\<lambda>s. s\<lparr>m_outboundProxy := Some (''sip:'' @ p @ '';transport=tls'')\<rparr>)]
        [assign (\<lambda>s. s\<lparr>m_outboundProxy := None\<rparr>)]),
      get m_stack (\<lambda>st. cond (\<not> st) [setupStack] []),
      get m_userAgent (\<lambda>ua. call_ptr ua SetClientAuthManager),
      parse_addr lib address,
      assign (\<lambda>s. s\<lparr>m_clientAddress := address\<rparr>),
      on_profile (\<lambda>p. p\<lparr>mp_defaultFrom := Some address\<rparr>),
      cond (contact_url \<noteq> []) [parse_addr lib contact_url] [],
      get (\<lambda>s. registration_message lib address (m_headers s) contact_url (isProxyRegister s) (m_outboundProxy s))
        (\<lambda>r. case r of
           Inl e \<Rightarrow> fail e
         | Inr m \<Rightarrow> get m_userAgent (\<lambda>ua. call_ptr ua (SendRegistration m))),
      get isProxyRegister (\<lambda>b. cond (\<not> b)
        [locked
          [assign (\<lambda>s. s\<lparr>m_run := True, m_receiveClosed := False, m_receiver := Ptr (),
             receivers := Suc (receivers s)\<rparr>),
           emit StartReceiver]]
        [])]"

definition setupCredential :: "resip_lib \<Rightarrow> string \<Rightarrow> string \<Rightarrow> ctl stmt" where
  "setupCredential lib username password =
     get m_clientAddress (\<lambda>a.
       on_profile (\<lambda>p. p\<lparr>mp_digest := mp_digest p @ [(rl_uri_host lib a, rl_uri_user lib a, password)]\<rparr>))"

definition registerUser :: "resip_lib \<Rightarrow> string \<Rightarrow> string \<Rightarrow> ctl stmt" where
  "registerUser lib username password = block
     [assign (\<lambda>s. s\<lparr>isProxyRegister := False\<rparr>),
      createUri username (\<lambda>sipUri. block
        [handleLog (''registerUser with (username/password): uri : '' @ sipUri),
         assign (\<lambda>s. s\<lparr>m_username := username, m_password := password\<rparr>),
         setupTransport lib sipUri sipUri,
         setupCredential lib username password])]"

definition registerUserToken :: "resip_lib \<Rightarrow> string \<Rightarrow> string \<Rightarrow> string \<Rightarrow> ctl stmt" where
  "registerUserToken lib username password token = block
     [assign (\<lambda>s. s\<lparr>isProxyRegister := False\<rparr>),
      createUri username (\<lambda>sipUri. block
        [assign (\<lambda>s. s\<lparr>m_app_id := token\<rparr>),
         handleLog (''registerUser: uri with (username/password/token): '' @ sipUri),
         assign (\<lambda>s. s\<lparr>m_username := username, m_password := password\<rparr>),
         get m_uri (\<lambda>uri.
           setupTransport lib sipUri (''<sip:'' @ uri @ '';transport=tls;fcm='' @ token @ ''>'')),
         setupCredential lib username password])]"

definition registerUserCert ::
  "resip_lib \<Rightarrow> string \<Rightarrow> string \<Rightarrow> string \<Rightarrow> string \<Rightarrow> ctl stmt" where
  "registerUserCert lib username password token certid = block
     [assign (\<lambda>s. s\<lparr>isProxyRegister := False\<rparr>),
      createUri username (\<lambda>sipUri. block
        [assign (\<lambda>s. s\<lparr>m_app_id := token, m_cert_id := certid\<rparr>),
         handleLog (''registerUser: uri with (username/password/token/certid): '' @ sipUri),
         assign (\<lambda>s. s\<lparr>m_username := username, m_password := password\<rparr>),
         setupTransport lib sipUri (addapnsInContact certid sipUri token),
         setupCredential lib username password])]"

definition registerUserProxy ::
  "resip_lib \<Rightarrow> string \<Rightarrow> string \<Rightarrow> string \<Rightarrow> string \<Rightarrow> string \<Rightarrow> (string \<times> string) list \<Rightarrow> ctl stmt" where
  "registerUserProxy lib username password token certid proxy headers = block
     [assign (\<lambda>s. s\<lparr>isProxyRegister := True\<rparr>),
      createUri username (\<lambda>sipUri. block
        [handleLog (''registerUser: uri with (username/password/token/certid/proxy/headers): '' @ sipUri),
         assign (\<lambda>s. if proxy \<noteq> ''NA'' then s\<lparr>m_proxyServer := proxy\<rparr> else s),
         assign (\<lambda>s. s\<lparr>m_headers := headers\<rparr>),
         assign (\<lambda>s. if certid \<noteq> ''NA'' then s\<lparr>m_cert_id := certid\<rparr> else s),
         assign (\<lambda>s. if token \<noteq> ''NA'' then s\<lparr>m_app_id := token\<rparr> else s),
         assign (\<lambda>s. s\<lparr>m_username := username, m_password := password\<rparr>),
         get m_public_ip_port (\<lambda>ip.
           setupTransport lib sipUri (proxyContact username sipUri ip token certid)),
         setupCredential lib username password])]"

text \<open>
  \<open>&"SipControllerCore m_reg_timeout "[time]\<close> is the address of a character inside the
  literal: the log line is a suffix of it, and an index past its terminator points outside.
\<close>

definition reg_timeout_literal :: string where
  "reg_timeout_literal = ''SipControllerCore m_reg_timeout ''"

definition registerTimeOut :: "int \<Rightarrow> ctl stmt" where
  "registerTimeOut time = block
     [if 0 \<le> time \<and> time \<le> int (length reg_timeout_literal)
      then handleLog (drop (nat time) reg_timeout_literal) else fail LiteralOverrun,
      assign (\<lambda>s. s\<lparr>m_reg_timeout := time\<rparr>)]"

text \<open>
  The end of \<open>unregisterUser\<close>, as seen by the caller. A receiver reads \<open>m_run\<close> only after an
  event of the library, so how the wait ends is not the caller's to decide: \<open>wait_end\<close> is
  what the other threads do. None may ever wake the caller; a receiver may get its event,
  leave its loop, set \<open>m_receiveClosed\<close> and notify; or the condition variable may wake up
  spuriously, and the code does not test the flag again. With the receiver already closed
  there is no wait, and with no receiver thread none can end.
\<close>

datatype wait_end = NoWakeUp | ReceiverEnds | SpuriousWakeUp

definition wait_receiver :: "wait_end \<Rightarrow> ctl stmt" where
  "wait_receiver w s =
     (if m_receiveClosed s then Inr s
      else case w of
        NoWakeUp \<Rightarrow> Inl WaitsForever
      | ReceiverEnds \<Rightarrow>
          if receivers s = 0 then Inl WaitsForever
          else Inr (s\<lparr>m_receiveClosed := True, receivers := receivers s - 1\<rparr>)
      | SpuriousWakeUp \<Rightarrow> Inr s)"

definition unregisterUser :: "wait_end \<Rightarrow> ctl stmt" where
  "unregisterUser w = block
     [get m_registrationHandler (\<lambda>h. call_ptr h (HandleRegistration NotRegistered ''Logout'')),
      handleLog ''SipControllerCore logout called'',
      assign (\<lambda>s. s\<lparr>m_inInBoundAccepted := False, m_inCall := False, m_isCaller := False,
        m_localSdpSet := False, m_remoteSdpSet := False, m_localCandidatesCollected := False,
        m_localSdp := [], m_remoteSdp := [], m_localCandidates := []\<rparr>),
      assign (\<lambda>s. s\<lparr>m_run := False\<rparr>),
      wait_receiver w]"

section \<open>Calls made by the application\<close>

definition createSession ::
  "resip_lib \<Rightarrow> string \<Rightarrow> string \<Rightarrow> (string \<times> string) list \<Rightarrow> ctl stmt" where
  "createSession lib remoteUser localSdp headers = block
     [locked [assign (\<lambda>s. s\<lparr>m_headers := headers, m_isCaller := True, m_remoteUri := remoteUser\<rparr>)],
      locked [assign (\<lambda>s. s\<lparr>m_localSdp := localSdp, m_localSdpSet := True\<rparr>)],
      get m_localCandidatesCollected (\<lambda>collected. cond collected [sendSdpOffer lib headers] [])]"

definition acceptSession :: "resip_lib \<Rightarrow> string \<Rightarrow> ctl stmt" where
  "acceptSession lib localSdp = block
     [handleLog ''acceptSession(localsdp)'',
      assign (\<lambda>s. s\<lparr>m_inInBoundAccepted := True\<rparr>),
      locked [assign (\<lambda>s. s\<lparr>m_localSdp := localSdp, m_localSdpSet := True\<rparr>)],
      get m_localCandidatesCollected (\<lambda>collected. cond collected
        [sendSdpAnswer lib, locked [assign (\<lambda>s. s\<lparr>m_inCall := True\<rparr>)]] [])]"

definition clear_call :: "ctl \<Rightarrow> ctl" where
  "clear_call s = s\<lparr>m_inInBoundAccepted := False, m_isCaller := False, m_localSdpSet := False,
     m_remoteSdpSet := False, m_localCandidatesCollected := False, m_localSdp := [],
     m_remoteSdp := [], m_localCandidates := [], m_current_callid := []\<rparr>"

definition reject :: "ctl stmt" where
  "reject = block
     [handleLog ''Rejecting call in SIP Controle layer'',
      assign (\<lambda>s. s\<lparr>isUACRejected := True\<rparr>),
      get m_serverInviteSession (\<lambda>p. case p of
          None \<Rightarrow> block []
        | Some c \<Rightarrow> block [emit (Reject c 486), assign clear_call])]"

definition networkChange :: "resip_lib \<Rightarrow> ctl stmt" where
  "networkChange lib = block
     [handleLog ''reINVITE sending...'',
      get (\<lambda>s. ''sip:'' @ m_remoteUri s @ ''@'' @ m_domain s) (\<lambda>address. block
        [get m_clientInviteSession (\<lambda>p. case p of
             None \<Rightarrow> block []
           | Some c \<Rightarrow> block [parse_addr lib address, emit (TargetRefresh c address)]),
         get m_serverInviteSession (\<lambda>p. case p of
             None \<Rightarrow> block []
           | Some c \<Rightarrow> block [parse_addr lib address, emit (TargetRefresh c address)])])]"

definition ringing :: "ctl stmt" where
  "ringing = block
     [handleLog ''Sending ringing 180 in SIP Controle layer'',
      get m_serverInviteSession (\<lambda>p. case p of None \<Rightarrow> block [] | Some c \<Rightarrow> emit (Provisional c))]"

definition onIceCandidate :: "string \<Rightarrow> string \<Rightarrow> ctl stmt" where
  "onIceCandidate sdp midName = block
     [handleLog ''onIceCandidate'',
      assign (\<lambda>s. s\<lparr>m_localCandidates := m_localCandidates s @ [\<lparr>mid = midName, candidate = sdp\<rparr>]\<rparr>)]"

definition onIceGatheringFinished :: "resip_lib \<Rightarrow> ctl stmt" where
  "onIceGatheringFinished lib = block
     [handleLog ''onIceGatheringFinished'',
      locked_get (\<lambda>s. (m_isCaller s, m_localSdpSet s)) (\<lambda>(isCaller, localSdpSet).
        get m_inInBoundAccepted (\<lambda>accepted.
          cond (isCaller \<and> localSdpSet)
            [sendSdpOffer lib [], locked [assign (\<lambda>s. s\<lparr>m_inCall := True\<rparr>)]]
            [cond (\<not> isCaller \<and> localSdpSet \<and> accepted)
               [handleLog ''onIceGatheringFinished sending answer'',
                sendSdpAnswer lib,
                locked [assign (\<lambda>s. s\<lparr>m_inCall := True\<rparr>)]] []])),
      locked [assign (\<lambda>s. s\<lparr>m_localCandidatesCollected := True\<rparr>)]]"

definition terminateSession :: "ctl stmt" where
  "terminateSession = block
     [handleLog ''terminateSession requested from application layer'',
      get mProgress (\<lambda>progress. cond (progress = Done)
        [handleLog ''terminateSession() already destroyed due to progress == done | returing from here'']
        [locked [assign (\<lambda>s. s\<lparr>m_inCall := False\<rparr>)],
         get (\<lambda>s. (m_clientInviteSession s, m_serverInviteSession s)) (\<lambda>(client, server).
           case client of
             Some c \<Rightarrow> emit (EndSession c)
           | None \<Rightarrow> (case server of Some c \<Rightarrow> emit (EndSession c) | None \<Rightarrow> block [])),
         locked [assign clear_call, reset_client, reset_server]])]"

end
