(* ===== verification/Callbacks.thy ===== *)
theory Callbacks
  imports Controller
begin

text \<open>
  The callbacks of the controller, which the dialog usage manager invokes: the
  \<open>ClientRegistrationHandler\<close> and \<open>InviteSessionHandler\<close> overrides of
  \<open>SipControllerCore\<close>. With the application's calls they make up the events of the
  controller (\<open>event\<close>), and \<open>ctl_step\<close> runs one of them.
\<close>

section \<open>Invite session callbacks\<close>

definition reason_code :: "TerminatedReason \<Rightarrow> string \<times> int" where
  "reason_code reason = (case reason of
     RemoteBye \<Rightarrow> (''RemoteBye'', 200)
   | RemoteCancel \<Rightarrow> (''RemoteCancel'', 487)
   | Rejected \<Rightarrow> (''Rejected'', 486)
   | LocalBye \<Rightarrow> (''LocalBye'', 603)
   | LocalCancel \<Rightarrow> (''LocalCancel'', 603)
   | Replaced \<Rightarrow> (''Replaced'', 603)
   | Referred \<Rightarrow> (''Referred'', 603)
   | Error \<Rightarrow> (''Error'', 603)
   | Timeout \<Rightarrow> (''Timeout'', 603))"

definition terminated_status :: "TerminatedReason \<Rightarrow> SipMessage \<Rightarrow> int" where
  "terminated_status reason msg =
     (case msg_statusLine msg of Some c \<Rightarrow> c | None \<Rightarrow> snd (reason_code reason))"

definition onTerminated :: "TerminatedReason \<Rightarrow> SipMessage option \<Rightarrow> ctl stmt" where
  "onTerminated reason msg = block
     [assign (\<lambda>s. s\<lparr>mProgress := Done\<rparr>),
      handleLog ''onTerminated() terminate from the same callid '',
      locked_get m_callStateHandler (\<lambda>callStateHandler.
      locked_get (\<lambda>s. (m_callHandler s, m_inCall s)) (\<lambda>(callHandler, inCall).
        get isUACRejected (\<lambda>rejected. cond rejected
          [call_ptr callHandler (HandleCall TerminateCall ''Local call rejected''),
           reset_server,
           handleLog ''onTerminated() iSUACRejected = true | returing from here'']
          [case msg of
             None \<Rightarrow> fail NullDeref
           | Some m \<Rightarrow> (case msg_callId m of
               None \<Rightarrow> fail MissingHeader
             | Some _ \<Rightarrow> block
                 [call_ptr callStateHandler
                    (HandleCallState (fst (reason_code reason)) (terminated_status reason m)),
                  cond (callHandler \<noteq> NullPtr)
                    [call_ptr callHandler (HandleCall TerminateCall (fst (reason_code reason)))] [],
                  cond (\<not> inCall)
                    [handleLog ''onTerminated() already destroyed | returing from here'']
                    [assign (\<lambda>s. clear_call (s\<lparr>m_inCall := False\<rparr>)), reset_client, reset_server]])])))]"

definition with_callInfo :: "SipMessage \<Rightarrow> string \<Rightarrow> (string \<Rightarrow> ctl stmt) \<Rightarrow> ctl stmt" where
  "with_callInfo msg prefix k =
     (case append_unknown prefix (msg_unknown msg) of Inl e \<Rightarrow> fail e | Inr callInfo \<Rightarrow> k callInfo)"

definition onAnswer :: "SipMessage \<Rightarrow> string \<Rightarrow> ctl stmt" where
  "onAnswer msg sdp = block
     [handleLog ''InviteSessionHandle Answer received | Outgoing call flow'',
      locked_get m_callHandler (\<lambda>callHandler.
      locked_get m_callStateHandler (\<lambda>callStateHandler. block
        [case getStatusCode msg of
           Inl e \<Rightarrow> fail e | Inr c \<Rightarrow> call_ptr callStateHandler (HandleCallState ''CallAccepted'' c),
         locked_get m_sdpHandler (\<lambda>_. block []),
         handleLog (''SDP Answer | outgoing call flow remote SDP : '' @ sdp),
         assign (\<lambda>s. s\<lparr>m_current_callid := getCallId msg\<rparr>),
         with_callInfo msg (''call_id:'' @ getCallId msg @ '',type:outgoing'') (\<lambda>callInfo.
           locked_get m_callInfoHandler (\<lambda>h. call_ptr h (HandleCallInfo callInfo))),
         locked [assign (\<lambda>s. s\<lparr>m_inCall := True, m_remoteSdp := sdp, m_remoteSdpSet := True\<rparr>)],
         cond (callHandler \<noteq> NullPtr) [call_ptr callHandler (HandleCall CallAccepted [])] []]))]"

definition onOffer :: "SipMessage \<Rightarrow> string \<Rightarrow> ctl stmt" where
  "onOffer msg sdp = block
     [handleLog ''InviteSessionHandle Offer received | Incoming call flow'',
      case msg_from_user msg of None \<Rightarrow> fail MissingHeader | Some fromC \<Rightarrow>
      (case msg_to_user msg of None \<Rightarrow> fail MissingHeader | Some toC \<Rightarrow> block
        [assign (\<lambda>s. s\<lparr>m_current_callid := getCallId msg\<rparr>),
         with_callInfo msg
           (''call_id:'' @ getCallId msg @ '',to:'' @ toC @ '',from:'' @ fromC)
           (\<lambda>callInfo. locked_get m_callInfoHandler (\<lambda>h. call_ptr h (HandleCallInfo callInfo))),
         locked_get m_sdpHandler (\<lambda>sdpHandler. block
           [handleLog (''SDP Offer incoming '' @ [CHR 0x0A] @ '' '' @ sdp), call_ptr sdpHandler (HandleSDP sdp)]),
         locked_get m_callHandler (\<lambda>callHandler.
           cond (callHandler \<noteq> NullPtr)
             [call_ptr callHandler (HandleCall IncomingCall fromC)] []),
         locked_get m_callStateHandler (\<lambda>h. call_ptr h (HandleCallState ''EarlyMedia'' 183)),
         locked [assign (\<lambda>s. s\<lparr>m_isCaller := False, m_inCall := True, m_remoteSdp := sdp,
           m_remoteSdpSet := True\<rparr>)]])]"

definition onConnected_server :: "ctl stmt" where
  "onConnected_server = handleLog ''InviteSessionHandle Session connected''"

definition onOfferRequired :: "ctl stmt" where
  "onOfferRequired = handleLog ''InviteSessionHandle onOfferRequired''"

definition onOfferRejected :: "ctl stmt" where
  "onOfferRejected = handleLog ''InviteSessionHandle onOfferRejected''"

definition onInfo :: "ctl stmt" where
  "onInfo = handleLog ''InviteSessionHandle onInfo''"

definition onInfoSuccess :: "ctl stmt" where
  "onInfoSuccess = handleLog ''InviteSessionHandle onInfoSuccess''"

definition onInfoFailure :: "ctl stmt" where
  "onInfoFailure = handleLog ''InviteSessionHandle onInfoFailure''"

definition onMessage :: "ctl stmt" where
  "onMessage = handleLog ''InviteSessionHandle onMessage''"

definition onMessageSuccess :: "ctl stmt" where
  "onMessageSuccess = handleLog ''InviteSessionHandle onMessageSuccess''"

definition onMessageFailure :: "ctl stmt" where
  "onMessageFailure = handleLog ''InviteSessionHandle onMessageFailure''"

definition onRefer :: "ctl stmt" where
  "onRefer = handleLog ''InviteSessionHandle onRefer''"

definition onReferNoSub :: "ctl stmt" where
  "onReferNoSub = handleLog ''InviteSessionHandle onReferNoSub''"

definition onReferRejected :: "ctl stmt" where
  "onReferRejected = handleLog ''InviteSessionHandle onReferRejected''"

definition onReferAccepted :: "ctl stmt" where
  "onReferAccepted = handleLog ''InviteSessionHandle onReferAccepted''"

section \<open>Registration callbacks\<close>

definition onSuccess :: "resip_lib \<Rightarrow> SipMessage \<Rightarrow> ctl stmt" where
  "onSuccess lib response =
     (case msg_from_user response of None \<Rightarrow> fail MissingHeader | Some fromC \<Rightarrow>
      case msg_callId response of
        None \<Rightarrow> fail MissingHeader
      | Some callid \<Rightarrow> block
          [handleLog (''onSuccess: call info 1111 : call_id:'' @ callid),
           locked_get m_registrationHandler (\<lambda>registrationHandler.
           locked_get m_callInfoHandler (\<lambda>callInfoHandler. block
             [call_ptr callInfoHandler (HandleCallInfo (''call_id:'' @ callid)),
              handleLog (''onSuccess: call info : call_id:'' @ callid),
              call_ptr registrationHandler (HandleRegistration Registered fromC)])),
           assign (\<lambda>s. s\<lparr>isProxyRegister := False\<rparr>),
           case msg_vias response of
             None \<Rightarrow> fail MissingHeader
           | Some [] \<Rightarrow> block []
           | Some _ \<Rightarrow> (case processIpAndPort lib response of
               Inl e \<Rightarrow> fail e
             | Inr publicAddress \<Rightarrow>
                 cond (t_type publicAddress \<noteq> UNKNOWN_TRANSPORT)
                   [let ip = rl_inet_ntop lib (t_address publicAddress);
                        port = to_string (t_port publicAddress)
                    in cond (ip \<noteq> [] \<and> port \<noteq> [])
                         [assign (\<lambda>s. s\<lparr>m_public_ip_port := ip @ '':'' @ port\<rparr>),
                          handleLog (''resolving ip and port '' @ ip @ port)] []]
                   [])])"

definition onRemoved :: "ctl stmt" where
  "onRemoved = handleLog ''ClientRegistrationHandle onRemoved''"

definition onRequestRetry :: "int \<Rightarrow> ctl \<Rightarrow> cpp_error + int \<times> ctl" where
  "onRequestRetry retrySeconds s =
     bindr (handleLog ''ClientRegistrationHandle onRequestRetry'' s) (\<lambda>s'. Inr (0, s'))"

definition onFailure_registration :: "ctl stmt" where
  "onFailure_registration = handleLog ''ClientRegistrationHandle onFailure''"

definition onFlowTerminated :: "ctl stmt" where
  "onFlowTerminated = block []"

section \<open>Call flow callbacks\<close>

definition onNewSession_server :: "nat option \<Rightarrow> SipMessage \<Rightarrow> ctl stmt" where
  "onNewSession_server sis msg = block
     [assign (\<lambda>s. s\<lparr>mProgress := Ringing, isUACRejected := False\<rparr>),
      handleLog ''Incoming call.....onNewSession()'',
      cond (isValidUserAgent msg)
        [locked [assign_server sis]]
        [handleLog ''ServerInviteSessionHandle onNewSession: Error Incoming call from invalid user agent'']]"

definition onNewSession_client :: "nat option \<Rightarrow> SipMessage \<Rightarrow> ctl stmt" where
  "onNewSession_client cis msg = block
     [assign (\<lambda>s. s\<lparr>mProgress := Dialing\<rparr>),
      handleLog ''Outgoing call.....onNewSession()'',
      assign (\<lambda>s. s\<lparr>isUACRejected := False\<rparr>),
      cond (isValidUserAgent msg)
        [locked [assign_client cis]]
        [handleLog ''ClientInviteSessionHandle onNewSession: Error Outgoing call not a valid user agent''],
      locked_get m_sdpHandler (\<lambda>sdpHandler. case msg_contents msg of
          None \<Rightarrow> fail NullDeref
        | Some body \<Rightarrow> call_ptr sdpHandler (HandleSDP body))]"

definition onFailure_client :: "ctl stmt" where
  "onFailure_client = block
     [assign (\<lambda>s. s\<lparr>mProgress := Done\<rparr>),
      handleLog ''ClientInviteSessionHandle onFailure: Unhandled method invoked '']"

definition onEarlyMedia :: "SipMessage \<Rightarrow> ctl stmt" where
  "onEarlyMedia msg = block
     [handleLog ''ClientInviteSessionHandle onEarlyMedia'',
      assign (\<lambda>s. s\<lparr>mProgress := Dialing, m_current_callid := getCallId msg\<rparr>),
      with_callInfo msg (''call_id:'' @ getCallId msg) (\<lambda>callInfo.
        locked_get m_callInfoHandler (\<lambda>h. call_ptr h (HandleCallInfo callInfo))),
      locked_get m_callStateHandler (\<lambda>h. case getStatusCode msg of
          Inl e \<Rightarrow> fail e
        | Inr c \<Rightarrow> call_ptr h (HandleCallState ''EarlyMedia'' c))]"

definition onProvisional :: "ctl stmt" where
  "onProvisional = block
     [assign (\<lambda>s. s\<lparr>mProgress := Dialing\<rparr>), handleLog ''ClientInviteSessionHandle onProvisional'']"

definition onConnected_client :: "ctl stmt" where
  "onConnected_client = block
     [assign (\<lambda>s. s\<lparr>mProgress := Connected\<rparr>),
      handleLog ''ClientInviteSessionHandle Session connected'']"

definition onForkDestroyed :: "ctl stmt" where
  "onForkDestroyed = block
     [assign (\<lambda>s. s\<lparr>mProgress := Done\<rparr>), handleLog ''ClientInviteSessionHandle onForkDestroyed'']"

definition onStaleCallTimeout :: "ctl stmt" where
  "onStaleCallTimeout = block
     [assign (\<lambda>s. s\<lparr>mProgress := Done\<rparr>), handleLog ''ClientInviteSessionHandle onStaleCallTimeout'']"

definition onRedirected :: "ctl stmt" where
  "onRedirected = block
     [assign (\<lambda>s. s\<lparr>mProgress := Done\<rparr>), handleLog ''ClientInviteSessionHandle onRedirected'']"

section \<open>The controller as an event machine\<close>

text \<open>The callbacks that only write a log line, or do nothing.\<close>

datatype logged_callback =
    OnConnected_server | OnOfferRequired | OnOfferRejected | OnInfo | OnInfoSuccess
  | OnInfoFailure | OnMessage | OnMessageSuccess | OnMessageFailure | OnRefer | OnReferNoSub
  | OnReferRejected | OnReferAccepted | OnRemoved | OnFailure_registration | OnFlowTerminated

fun logged_step :: "logged_callback \<Rightarrow> ctl stmt" where
  "logged_step OnConnected_server = onConnected_server"
| "logged_step OnOfferRequired = onOfferRequired"
| "logged_step OnOfferRejected = onOfferRejected"
| "logged_step OnInfo = onInfo"
| "logged_step OnInfoSuccess = onInfoSuccess"
| "logged_step OnInfoFailure = onInfoFailure"
| "logged_step OnMessage = onMessage"
| "logged_step OnMessageSuccess = onMessageSuccess"
| "logged_step OnMessageFailure = onMessageFailure"
| "logged_step OnRefer = onRefer"
| "logged_step OnReferNoSub = onReferNoSub"
| "logged_step OnReferRejected = onReferRejected"
| "logged_step OnReferAccepted = onReferAccepted"
| "logged_step OnRemoved = onRemoved"
| "logged_step OnFailure_registration = onFailure_registration"
| "logged_step OnFlowTerminated = onFlowTerminated"

datatype event =
    RegisterUser string string
  | RegisterUserToken string string string
  | RegisterUserCert string string string string
  | RegisterUserProxy string string string string string "(string \<times> string) list"
  | RegisterTimeOut int
  | UnregisterUser wait_end
  | CreateSession string string "(string \<times> string) list"
  | AcceptSession string
  | RejectSession
  | NetworkChange
  | RingingSession
  | OnIceCandidate string string
  | OnIceGatheringFinished
  | TerminateSession
  | OnTerminated TerminatedReason "SipMessage option"
  | OnAnswer SipMessage string
  | OnOffer SipMessage string
  | OnSuccess SipMessage
  | OnNewSession_server "nat option" SipMessage
  | OnNewSession_client "nat option" SipMessage
  | OnEarlyMedia SipMessage
  | OnFailure_client
  | OnProvisional
  | OnConnected_client
  | OnForkDestroyed
  | OnStaleCallTimeout
  | OnRedirected
  | OnLogged logged_callback

fun ctl_step :: "resip_lib \<Rightarrow> ctl \<Rightarrow> event \<Rightarrow> cpp_error + ctl" where
  "ctl_step lib s (RegisterUser u p) = registerUser lib u p s"
| "ctl_step lib s (RegisterUserToken u p t) = registerUserToken lib u p t s"
| "ctl_step lib s (RegisterUserCert u p t c) = registerUserCert lib u p t c s"
| "ctl_step lib s (RegisterUserProxy u p t c x hs) = registerUserProxy lib u p t c x hs s"
| "ctl_step lib s (RegisterTimeOut t) = registerTimeOut t s"
| "ctl_step lib s (UnregisterUser w) = unregisterUser w s"
| "ctl_step lib s (CreateSession r sdp hs) = createSession lib r sdp hs s"
| "ctl_step lib s (AcceptSession sdp) = acceptSession lib sdp s"
| "ctl_step lib s RejectSession = reject s"
| "ctl_step lib s NetworkChange = networkChange lib s"
| "ctl_step lib s RingingSession = ringing s"
| "ctl_step lib s (OnIceCandidate c m) = onIceCandidate c m s"
| "ctl_step lib s OnIceGatheringFinished = onIceGatheringFinished lib s"
| "ctl_step lib s TerminateSession = terminateSession s"
| "ctl_step lib s (OnTerminated r m) = onTerminated r m s"
| "ctl_step lib s (OnAnswer m sdp) = onAnswer m sdp s"
| "ctl_step lib s (OnOffer m sdp) = onOffer m sdp s"
| "ctl_step lib s (OnSuccess m) = onSuccess lib m s"
| "ctl_step lib s (OnNewSession_server p m) = onNewSession_server p m s"
| "ctl_step lib s (OnNewSession_client p m) = onNewSession_client p m s"
| "ctl_step lib s (OnEarlyMedia m) = onEarlyMedia m s"
| "ctl_step lib s OnFailure_client = onFailure_client s"
| "ctl_step lib s OnProvisional = onProvisional s"
| "ctl_step lib s OnConnected_client = onConnected_client s"
| "ctl_step lib s OnForkDestroyed = onForkDestroyed s"
| "ctl_step lib s OnStaleCallTimeout = onStaleCallTimeout s"
| "ctl_step lib s OnRedirected = onRedirected s"
| "ctl_step lib s (OnLogged c) = logged_step c s"

end
