(* ===== verification/CtlSafety.thy ===== *)
theory CtlSafety
  imports Callbacks
begin

text \<open>
  When the controller's member functions complete and when they fail. \<open>wired\<close> is the
  invariant of an initialised controller: every handler is installed, the controller mutex is
  free between calls, and the user agent exists once the stack does. \<open>ctl_guard\<close> says of
  each event exactly when a wired controller survives it; the two together make the
  controller a \<open>guarded_machine\<close>.
\<close>

section \<open>Definitions\<close>

definition wired :: "ctl \<Rightarrow> bool" where
  "wired s \<longleftrightarrow>
     m_registrationHandler s = Ptr () \<and> m_callHandler s = Ptr () \<and> m_logHandler s = Ptr ()
   \<and> m_sdpHandler s = Ptr () \<and> m_callStateHandler s = Ptr () \<and> m_callInfoHandler s = Ptr ()
   \<and> m_errorHandler s = Ptr () \<and> \<not> m_controllerMutex s
   \<and> (m_stack s \<longrightarrow> m_userAgent s = Ptr () \<and> m_masterProfile s \<noteq> None)"

definition remote_address :: "ctl \<Rightarrow> string" where
  "remote_address s = ''sip:'' @ m_remoteUri s @ ''@'' @ m_domain s"

definition offer_ok :: "resip_lib \<Rightarrow> ctl \<Rightarrow> bool" where
  "offer_ok lib s \<longleftrightarrow>
     (offerSdp s = None \<longrightarrow> snd (rl_sdp_parse lib (m_localSdp s)))
   \<and> rl_parses lib (remote_address s) \<and> m_userAgent s = Ptr ()"

definition answer_ok :: "resip_lib \<Rightarrow> ctl \<Rightarrow> bool" where
  "answer_ok lib s \<longleftrightarrow>
     (answerSdp s = None \<longrightarrow> snd (rl_sdp_parse lib (m_localSdp s)))
   \<and> m_serverInviteSession s \<noteq> None"

definition setup_ok :: "resip_lib \<Rightarrow> string \<Rightarrow> string \<Rightarrow> string \<Rightarrow> bool" where
  "setup_ok lib proxy address contact_url \<longleftrightarrow>
     (proxy \<noteq> [] \<longrightarrow> rl_parses lib (''sip:'' @ proxy @ '';transport=tls''))
   \<and> rl_parses lib address
   \<and> (contact_url \<noteq> [] \<longrightarrow>
        rl_parses lib contact_url \<and> rl_registration_contacts lib address \<noteq> [])"

definition fields_ok :: "SipMessage \<Rightarrow> bool" where
  "fields_ok msg = list_all (\<lambda>h. snd h \<noteq> []) (msg_unknown msg)"

fun ctl_guard :: "resip_lib \<Rightarrow> ctl \<Rightarrow> event \<Rightarrow> bool" where
  "ctl_guard lib s (RegisterUser u p) =
     (let uri = account_uri (u @ ''@'' @ m_domain s) in setup_ok lib (m_proxyServer s) uri uri)"
| "ctl_guard lib s (RegisterUserToken u p t) =
     setup_ok lib (m_proxyServer s) (account_uri (u @ ''@'' @ m_domain s))
       (''<sip:'' @ (u @ ''@'' @ m_domain s) @ '';transport=tls;fcm='' @ t @ ''>'')"
| "ctl_guard lib s (RegisterUserCert u p t c) =
     (let uri = account_uri (u @ ''@'' @ m_domain s)
      in setup_ok lib (m_proxyServer s) uri (addapnsInContact c uri t))"
| "ctl_guard lib s (RegisterUserProxy u p t c x hs) =
     (let uri = account_uri (u @ ''@'' @ m_domain s)
      in setup_ok lib (if x \<noteq> ''NA'' then x else m_proxyServer s) uri
           (proxyContact u uri (m_public_ip_port s) t c))"
| "ctl_guard lib s (RegisterTimeOut t) = (0 \<le> t \<and> t \<le> 32)"
| "ctl_guard lib s (UnregisterUser w) =
     (m_receiveClosed s \<or> w = SpuriousWakeUp \<or> w = ReceiverEnds \<and> receivers s \<noteq> 0)"
| "ctl_guard lib s (CreateSession r sdp hs) =
     (m_localCandidatesCollected s \<longrightarrow> offer_ok lib (s\<lparr>m_localSdp := sdp, m_remoteUri := r\<rparr>))"
| "ctl_guard lib s (AcceptSession sdp) =
     (m_localCandidatesCollected s \<longrightarrow> answer_ok lib (s\<lparr>m_localSdp := sdp\<rparr>))"
| "ctl_guard lib s NetworkChange =
     (m_clientInviteSession s = None \<and> m_serverInviteSession s = None
      \<or> rl_parses lib (remote_address s))"
| "ctl_guard lib s OnIceGatheringFinished =
     (m_localSdpSet s \<longrightarrow>
        (if m_isCaller s then offer_ok lib s else m_inInBoundAccepted s \<longrightarrow> answer_ok lib s))"
| "ctl_guard lib s (OnTerminated r m) =
     (isUACRejected s \<or> (case m of None \<Rightarrow> False | Some msg \<Rightarrow> msg_callId msg \<noteq> None))"
| "ctl_guard lib s (OnAnswer m sdp) = (msg_statusLine m \<noteq> None \<and> fields_ok m)"
| "ctl_guard lib s (OnOffer m sdp) =
     (msg_from_user m \<noteq> None \<and> msg_to_user m \<noteq> None \<and> fields_ok m)"
| "ctl_guard lib s (OnSuccess m) =
     (msg_from_user m \<noteq> None \<and> msg_callId m \<noteq> None \<and> msg_vias m \<noteq> None)"
| "ctl_guard lib s (OnNewSession_client p m) = (msg_contents m \<noteq> None)"
| "ctl_guard lib s (OnEarlyMedia m) = (msg_statusLine m \<noteq> None \<and> fields_ok m)"
| "ctl_guard lib s _ = True"

text \<open>A statement completes exactly when \<open>g\<close> holds, and then ends in a state with \<open>P\<close>.\<close>

definition outcome :: "bool \<Rightarrow> (ctl \<Rightarrow> bool) \<Rightarrow> cpp_error + ctl \<Rightarrow> bool" where
  "outcome g P r = (case r of Inl _ \<Rightarrow> \<not> g | Inr s' \<Rightarrow> g \<and> P s')"

section \<open>Evaluation of statements\<close>

lemma outcome_simps [simp]:
  "outcome g P (Inl e) = (\<not> g)"
  "outcome g P (Inr s) = (g \<and> P s)"
  by (simp_all add: outcome_def)

lemma outcome_iff:
  "outcome g P r \<longleftrightarrow> (if g then \<exists>s'. r = Inr s' \<and> P s' else \<exists>e. r = Inl e)"
  by (cases r) auto

lemma handleLog_eval:
  "m_logHandler s = Ptr h \<Longrightarrow> \<not> m_controllerMutex s \<Longrightarrow>
   handleLog v s = Inr (s\<lparr>trace := trace s @ [HandleLog (''SipControllerCore:: '' @ v)]\<rparr>)"
  by (simp add: handleLog_def locked_get_def call_ptr_def emit_def)

lemmas ctl_eval =
  emit_def call_ptr_def locked_def locked_get_def handleLog_eval clear_call_def
  reset_client_def reset_server_def assign_client_def assign_server_def parse_addr_def
  on_server_def on_profile_def cond_apply

lemma log_headers:
  assumes "m_logHandler s = Ptr h" "\<not> m_controllerMutex s"
  shows "block (map (\<lambda>x. handleLog (f x)) xs) s =
    Inr (s\<lparr>trace := trace s @ map (\<lambda>x. HandleLog (''SipControllerCore:: '' @ f x)) xs\<rparr>)"
  using assms by (induction xs arbitrary: s) (simp_all add: ctl_eval)

lemma append_unknown_fields:
  "append_unknown p (msg_unknown m) =
     (if fields_ok m
      then Inr (p @ concat (map (\<lambda>(n, vs). '','' @ n @ '':'' @ hd vs) (msg_unknown m)))
      else Inl MissingHeader)"
proof -
  have "append_unknown p hs =
     (if list_all (\<lambda>h. snd h \<noteq> []) hs
      then Inr (p @ concat (map (\<lambda>(n, vs). '','' @ n @ '':'' @ hd vs) hs)) else Inl MissingHeader)"
    for hs
    by (induction p hs rule: append_unknown.induct) (auto split: list.split)
  then show ?thesis by (simp add: fields_ok_def)
qed

section \<open>Outcome of every event\<close>

lemma sendSdpOffer_outcome:
  "wired s \<Longrightarrow> outcome (offer_ok lib s) wired (sendSdpOffer lib hs s)"
  by (auto simp: sendSdpOffer_def wired_def offer_ok_def remote_address_def log_headers
        offer_session_def ctl_eval split: option.splits ptr.splits prod.splits)

lemma sendSdpAnswer_outcome:
  "wired s \<Longrightarrow> outcome (answer_ok lib s) wired (sendSdpAnswer lib s)"
  by (auto simp: sendSdpAnswer_def wired_def answer_ok_def answer_session_def ctl_eval
      split: option.splits prod.splits)

lemma setupTransport_outcome:
  "wired s \<Longrightarrow> outcome (setup_ok lib (m_proxyServer s) address contact)
     (\<lambda>s'. wired s' \<and> m_masterProfile s' \<noteq> None) (setupTransport lib address contact s)"
  by (auto simp: setupTransport_def wired_def setup_ok_def setupStack_def createMasterProfile_def
      registration_message_def Let_def ctl_eval split: option.splits sum.splits)

lemma setupCredential_ok:
  "wired s \<Longrightarrow> m_masterProfile s \<noteq> None \<Longrightarrow>
   \<exists>s'. setupCredential lib u p s = Inr s' \<and> wired s'"
  by (auto simp: setupCredential_def wired_def ctl_eval)

lemma outcome_bindr:
  assumes "outcome g Q r" and "\<And>s'. Q s' \<Longrightarrow> \<exists>s''. k s' = Inr s'' \<and> P s''"
  shows "outcome g P (bindr r k)"
  using assms by (cases r) (fastforce simp: outcome_iff)+

text \<open>The common end of the four registration functions.\<close>

lemma setup_and_credential:
  "wired s \<Longrightarrow> outcome (setup_ok lib (m_proxyServer s) address contact) wired
     (block [setupTransport lib address contact, setupCredential lib u p] s)"
  unfolding block.simps
  by (rule outcome_bindr [OF setupTransport_outcome]) (auto intro: setupCredential_ok)

text \<open>The state in which each registration function enters \<open>setupTransport\<close>.\<close>

definition start_registration :: "bool \<Rightarrow> string \<Rightarrow> string \<Rightarrow> string \<Rightarrow> ctl \<Rightarrow> ctl" where
  "start_registration proxied u p line s = s\<lparr>isProxyRegister := proxied,
     m_uri := u @ ''@'' @ m_domain s, m_username := u, m_password := p,
     trace := trace s @ [HandleLog (''SipControllerCore:: '' @ line @ account_uri (u @ ''@'' @ m_domain s))]\<rparr>"

lemma wired_start [simp]: "wired (start_registration b u p line s) = wired s"
  by (simp add: start_registration_def wired_def)

lemma wired_app_cert [simp]:
  "wired (s\<lparr>m_app_id := t\<rparr>) = wired s" "wired (s\<lparr>m_cert_id := c\<rparr>) = wired s"
  "wired (s\<lparr>m_headers := hs\<rparr>) = wired s" "wired (s\<lparr>m_proxyServer := x\<rparr>) = wired s"
  by (simp_all add: wired_def)

lemma proxy_start [simp]: "m_proxyServer (start_registration b u p line s) = m_proxyServer s"
  by (simp add: start_registration_def)

lemma registerUser_eq:
  assumes "wired s"
  shows "registerUser lib u p s =
    (let uri = account_uri (u @ ''@'' @ m_domain s)
     in block [setupTransport lib uri uri, setupCredential lib u p]
          (start_registration False u p ''registerUser with (username/password): uri : '' s))"
  using assms
  by (cases s) (simp add: registerUser_def createUri_def wired_def handleLog_eval start_registration_def Let_def)

lemma registerUserToken_eq:
  assumes "wired s"
  shows "registerUserToken lib u p t s =
    block [setupTransport lib (account_uri (u @ ''@'' @ m_domain s))
             (''<sip:'' @ (u @ ''@'' @ m_domain s) @ '';transport=tls;fcm='' @ t @ ''>''),
           setupCredential lib u p]
      ((start_registration False u p ''registerUser: uri with (username/password/token): '' s)\<lparr>m_app_id := t\<rparr>)"
  using assms
  by (cases s) (simp add: registerUserToken_def createUri_def wired_def handleLog_eval start_registration_def)

lemma registerUserCert_eq:
  assumes "wired s"
  shows "registerUserCert lib u p t c s =
    (let uri = account_uri (u @ ''@'' @ m_domain s)
     in block [setupTransport lib uri (addapnsInContact c uri t), setupCredential lib u p]
          ((start_registration False u p ''registerUser: uri with (username/password/token/certid): '' s)
             \<lparr>m_app_id := t, m_cert_id := c\<rparr>))"
  using assms
  by (cases s) (simp add: registerUserCert_def createUri_def wired_def handleLog_eval start_registration_def Let_def)

lemma registerUserProxy_eq:
  assumes "wired s"
  shows "registerUserProxy lib u p t c x hs s =
    (let uri = account_uri (u @ ''@'' @ m_domain s)
     in block [setupTransport lib uri (proxyContact u uri (m_public_ip_port s) t c), setupCredential lib u p]
          ((start_registration True u p
              ''registerUser: uri with (username/password/token/certid/proxy/headers): '' s)
             \<lparr>m_proxyServer := (if x \<noteq> ''NA'' then x else m_proxyServer s), m_headers := hs,
               m_cert_id := (if c \<noteq> ''NA'' then c else m_cert_id s),
               m_app_id := (if t \<noteq> ''NA'' then t else m_app_id s)\<rparr>))"
  using assms
  by (cases s) (simp add: registerUserProxy_def createUri_def wired_def handleLog_eval start_registration_def Let_def)

lemma register_outcomes:
  assumes "wired s"
  shows "outcome (ctl_guard lib s (RegisterUser u p)) wired (registerUser lib u p s)"
    and "outcome (ctl_guard lib s (RegisterUserToken u p t)) wired (registerUserToken lib u p t s)"
    and "outcome (ctl_guard lib s (RegisterUserCert u p t c)) wired (registerUserCert lib u p t c s)"
    and "outcome (ctl_guard lib s (RegisterUserProxy u p t c x hs)) wired
           (registerUserProxy lib u p t c x hs s)"
proof -
  have sc: "outcome (setup_ok lib pr a ct) wired (block [setupTransport lib a ct, setupCredential lib u p] s1)"
    if "wired s1" "m_proxyServer s1 = pr" for s1 pr a ct
    using setup_and_credential [OF that(1), of lib a ct u p] that(2) by simp
  show "outcome (ctl_guard lib s (RegisterUser u p)) wired (registerUser lib u p s)"
    unfolding registerUser_eq [OF assms] Let_def ctl_guard.simps by (rule sc) (simp_all add: assms)
  show "outcome (ctl_guard lib s (RegisterUserToken u p t)) wired (registerUserToken lib u p t s)"
    unfolding registerUserToken_eq [OF assms] ctl_guard.simps by (rule sc) (simp_all add: assms)
  show "outcome (ctl_guard lib s (RegisterUserCert u p t c)) wired (registerUserCert lib u p t c s)"
    unfolding registerUserCert_eq [OF assms] Let_def ctl_guard.simps by (rule sc) (simp_all add: assms)
  show "outcome (ctl_guard lib s (RegisterUserProxy u p t c x hs)) wired
      (registerUserProxy lib u p t c x hs s)"
    unfolding registerUserProxy_eq [OF assms] Let_def ctl_guard.simps by (rule sc) (simp_all add: assms)
qed

lemma registerTimeOut_outcome:
  "wired s \<Longrightarrow> outcome (ctl_guard lib s (RegisterTimeOut t)) wired (registerTimeOut t s)"
  by (auto simp: registerTimeOut_def reg_timeout_literal_def wired_def ctl_eval)

lemma unregisterUser_outcome:
  "wired s \<Longrightarrow> outcome (ctl_guard lib s (UnregisterUser w)) wired (unregisterUser w s)"
  by (cases w) (auto simp: unregisterUser_def wait_receiver_def wired_def ctl_eval)

lemma createSession_outcome:
  assumes "wired s"
  shows "outcome (ctl_guard lib s (CreateSession r sdp hs)) wired (createSession lib r sdp hs s)"
proof -
  define s1 where "s1 = s\<lparr>m_headers := hs, m_isCaller := True, m_remoteUri := r, m_localSdp := sdp,
    m_localSdpSet := True, m_controllerMutex := False\<rparr>"
  have "wired s1" using assms by (simp add: s1_def wired_def)
  moreover have "createSession lib r sdp hs s =
      (if m_localCandidatesCollected s then sendSdpOffer lib hs s1 else Inr s1)"
    using assms by (auto simp: createSession_def wired_def ctl_eval s1_def)
  moreover have "offer_ok lib s1 = offer_ok lib (s\<lparr>m_localSdp := sdp, m_remoteUri := r\<rparr>)"
    by (simp add: offer_ok_def remote_address_def s1_def)
  ultimately show ?thesis
    using sendSdpOffer_outcome [of s1 lib hs] by simp
qed

text \<open>The common end of the two functions that send the answer and enter the call.\<close>

lemma answer_and_enter:
  "wired s \<Longrightarrow> outcome (answer_ok lib s) wired
     (block [sendSdpAnswer lib, locked [assign (\<lambda>s. s\<lparr>m_inCall := True\<rparr>)]] s)"
  unfolding block.simps
  by (rule outcome_bindr [OF sendSdpAnswer_outcome]) (auto simp: wired_def locked_def)

lemma offer_and_enter:
  "wired s \<Longrightarrow> outcome (offer_ok lib s) wired
     (block [sendSdpOffer lib hs, locked [assign (\<lambda>s. s\<lparr>m_inCall := True\<rparr>)]] s)"
  unfolding block.simps
  by (rule outcome_bindr [OF sendSdpOffer_outcome]) (auto simp: wired_def locked_def)

lemma acceptSession_outcome:
  assumes "wired s"
  shows "outcome (ctl_guard lib s (AcceptSession sdp)) wired (acceptSession lib sdp s)"
proof -
  define s1 where "s1 = s\<lparr>trace := trace s @ [HandleLog (''SipControllerCore:: '' @ ''acceptSession(localsdp)'')],
    m_inInBoundAccepted := True, m_localSdp := sdp, m_localSdpSet := True,
    m_controllerMutex := False\<rparr>"
  have "wired s1" using assms by (simp add: s1_def wired_def)
  moreover have "acceptSession lib sdp s =
      (if m_localCandidatesCollected s
       then block [sendSdpAnswer lib, locked [assign (\<lambda>s. s\<lparr>m_inCall := True\<rparr>)]] s1
       else Inr s1)"
    using assms by (simp add: acceptSession_def wired_def locked_def handleLog_eval cond_apply s1_def)
  moreover have "answer_ok lib s1 = answer_ok lib (s\<lparr>m_localSdp := sdp\<rparr>)"
    by (simp add: answer_ok_def s1_def)
  ultimately show ?thesis
    using answer_and_enter [of s1 lib] by (simp del: block.simps)
qed

lemma onIceGatheringFinished_outcome:
  assumes "wired s"
  shows "outcome (ctl_guard lib s OnIceGatheringFinished) wired (onIceGatheringFinished lib s)"
proof -
  define s1 where "s1 = s\<lparr>trace := trace s @ [HandleLog (''SipControllerCore:: '' @ ''onIceGatheringFinished'')]\<rparr>"
  define s2 where "s2 = s1\<lparr>trace := trace s1 @ [HandleLog (''SipControllerCore:: '' @ ''onIceGatheringFinished sending answer'')]\<rparr>"
  define fin where "fin = locked [assign (\<lambda>s. s\<lparr>m_localCandidatesCollected := True\<rparr>)]"
  have w: "wired s1" "wired s2" using assms by (simp_all add: s1_def s2_def wired_def)
  have fin_ok: "wired x \<Longrightarrow> \<exists>y. fin x = Inr y \<and> wired y" for x
    by (simp add: fin_def locked_def wired_def)
  have ok: "offer_ok lib s1 = offer_ok lib s" "answer_ok lib s2 = answer_ok lib s"
    by (simp_all add: offer_ok_def answer_ok_def remote_address_def s1_def s2_def)
  have eq: "onIceGatheringFinished lib s =
     (if m_isCaller s \<and> m_localSdpSet s
      then bindr (block [sendSdpOffer lib [], locked [assign (\<lambda>s. s\<lparr>m_inCall := True\<rparr>)]] s1) fin
      else if \<not> m_isCaller s \<and> m_localSdpSet s \<and> m_inInBoundAccepted s
      then bindr (block [sendSdpAnswer lib, locked [assign (\<lambda>s. s\<lparr>m_inCall := True\<rparr>)]] s2) fin
      else fin s1)"
    using assms
    by (simp add: onIceGatheringFinished_def wired_def handleLog_eval locked_get_def cond_apply
        s1_def s2_def fin_def bindr_assoc)
  show ?thesis
    unfolding eq
    using outcome_bindr [OF offer_and_enter [OF w(1), of lib "[]"] fin_ok]
      outcome_bindr [OF answer_and_enter [OF w(2), of lib] fin_ok] fin_ok [OF w(1)] ok
    by (auto simp del: block.simps simp: outcome_iff)
qed

lemma simple_outcomes:
  assumes "wired s"
  shows "outcome True wired (reject s)" "outcome True wired (ringing s)"
    "outcome (ctl_guard lib s NetworkChange) wired (networkChange lib s)"
    "outcome True wired (onIceCandidate c m s)" "outcome True wired (terminateSession s)"
  using assms
  by (auto simp: reject_def ringing_def networkChange_def onIceCandidate_def terminateSession_def
      remote_address_def wired_def ctl_eval split: option.splits)

lemma onTerminated_outcome:
  "wired s \<Longrightarrow> outcome (ctl_guard lib s (OnTerminated r m)) wired (onTerminated r m s)"
  by (auto simp: onTerminated_def wired_def ctl_eval split: option.splits)

lemma onAnswer_outcome:
  "wired s \<Longrightarrow> outcome (ctl_guard lib s (OnAnswer m sdp)) wired (onAnswer m sdp s)"
  by (auto simp: onAnswer_def with_callInfo_def getStatusCode_def append_unknown_fields wired_def
      ctl_eval split: option.splits)

lemma onOffer_outcome:
  "wired s \<Longrightarrow> outcome (ctl_guard lib s (OnOffer m sdp)) wired (onOffer m sdp s)"
  by (auto simp: onOffer_def with_callInfo_def append_unknown_fields wired_def ctl_eval
      split: option.splits)

lemma onEarlyMedia_outcome:
  "wired s \<Longrightarrow> outcome (ctl_guard lib s (OnEarlyMedia m)) wired (onEarlyMedia m s)"
  by (auto simp: onEarlyMedia_def with_callInfo_def getStatusCode_def append_unknown_fields wired_def
      ctl_eval split: option.splits)

lemma processIpAndPort_ok:
  "msg_vias m = Some (v # vs) \<Longrightarrow> processIpAndPort lib m = Inr (last_public lib (v # vs))"
  using via_loop_last_public [of "length (v # vs)" "v # vs" lib] by (simp add: processIpAndPort_def)

lemma onSuccess_outcome:
  "wired s \<Longrightarrow> outcome (ctl_guard lib s (OnSuccess m)) wired (onSuccess lib m s)"
  by (auto simp: onSuccess_def wired_def processIpAndPort_ok Let_def ctl_eval
      split: option.splits list.splits)

lemma onNewSession_outcomes:
  assumes "wired s"
  shows "outcome True wired (onNewSession_server p m s)"
    "outcome (ctl_guard lib s (OnNewSession_client p m)) wired (onNewSession_client p m s)"
  using assms
  by (auto simp: onNewSession_server_def onNewSession_client_def wired_def ctl_eval split: option.splits)

lemma progress_outcomes:
  assumes "wired s"
  shows "outcome True wired (onFailure_client s)" "outcome True wired (onProvisional s)"
    "outcome True wired (onConnected_client s)" "outcome True wired (onForkDestroyed s)"
    "outcome True wired (onStaleCallTimeout s)" "outcome True wired (onRedirected s)"
  using assms
  by (simp_all add: onFailure_client_def onProvisional_def onConnected_client_def onForkDestroyed_def
      onStaleCallTimeout_def onRedirected_def wired_def handleLog_eval)

lemmas logged_defs =
  onConnected_server_def onOfferRequired_def onOfferRejected_def onInfo_def onInfoSuccess_def
  onInfoFailure_def onMessage_def onMessageSuccess_def onMessageFailure_def onRefer_def
  onReferNoSub_def onReferRejected_def onReferAccepted_def onRemoved_def
  onFailure_registration_def onFlowTerminated_def

lemma logged_outcome:
  assumes "wired s"
  shows "outcome True wired (logged_step c s)"
proof -
  have "wired (s\<lparr>trace := x\<rparr>)" for x using assms by (simp add: wired_def)
  moreover have "m_logHandler s = Ptr ()" "\<not> m_controllerMutex s" using assms by (simp_all add: wired_def)
  ultimately show ?thesis using assms by (cases c) (simp_all add: logged_defs handleLog_eval)
qed

section \<open>The controller is a guarded machine\<close>

lemma ctl_step_outcome:
  assumes "wired s"
  shows "outcome (ctl_guard lib s e) wired (ctl_step lib s e)"
  by (cases e; simp only: ctl_step.simps)
    (insert assms register_outcomes registerTimeOut_outcome unregisterUser_outcome createSession_outcome
      acceptSession_outcome onIceGatheringFinished_outcome simple_outcomes onTerminated_outcome
      onAnswer_outcome onOffer_outcome onEarlyMedia_outcome onSuccess_outcome onNewSession_outcomes
      progress_outcomes logged_outcome, simp_all only: ctl_guard.simps)

interpretation ctl: guarded_machine "ctl_step lib" wired "ctl_guard lib" for lib
proof
  fix s e
  assume "wired s" "ctl_guard lib s e"
  with ctl_step_outcome [of s lib e] show "\<exists>s'. ctl_step lib s e = Inr s' \<and> wired s'"
    by (simp add: outcome_iff)
qed

end
