(* ===== verification/Negotiation.thy ===== *)
theory Negotiation
  imports CtlSafety
begin

text \<open>
  The offer/answer contract of the controller. \<open>neg\<close> is what the contract needs of the
  state: who called, which of the inputs of an offer or an answer have arrived, and which
  sessions are held. \<open>neg_step\<close> moves it, \<open>neg_out\<close> lists the signalling it
  orders. The controller refines this machine (\<open>ctl_run_simulates\<close>): on every event that
  completes, its flags and its signalling are the machine's.
\<close>

section \<open>The abstract machine\<close>

record neg =
  n_caller :: bool
  n_sdp :: bool
  n_collected :: bool
  n_accepted :: bool
  n_inCall :: bool
  n_client :: bool
  n_server :: bool
  n_rejected :: bool
  n_done :: bool

datatype signal = Invite | Answer | Rejection | Ending

definition neg_of :: "ctl \<Rightarrow> neg" where
  "neg_of s = \<lparr>n_caller = m_isCaller s, n_sdp = m_localSdpSet s,
     n_collected = m_localCandidatesCollected s, n_accepted = m_inInBoundAccepted s,
     n_inCall = m_inCall s, n_client = (m_clientInviteSession s \<noteq> None),
     n_server = (m_serverInviteSession s \<noteq> None), n_rejected = isUACRejected s,
     n_done = (mProgress s = Done)\<rparr>"

fun signal_of :: "out \<Rightarrow> signal list" where
  "signal_of (SendInvite _ _ _) = [Invite]"
| "signal_of (ProvideAnswer _ _) = [Answer]"
| "signal_of (Reject _ _) = [Rejection]"
| "signal_of (EndSession _) = [Ending]"
| "signal_of _ = []"

definition signals :: "out list \<Rightarrow> signal list" where
  "signals tr = concat (map signal_of tr)"

definition neg_reset :: "neg \<Rightarrow> neg" where
  "neg_reset n = n\<lparr>n_caller := False, n_sdp := False, n_collected := False, n_accepted := False\<rparr>"

fun neg_step :: "neg \<Rightarrow> event \<Rightarrow> neg" where
  "neg_step n (UnregisterUser w) = neg_reset (n\<lparr>n_inCall := False\<rparr>)"
| "neg_step n (CreateSession _ _ _) = n\<lparr>n_caller := True, n_sdp := True\<rparr>"
| "neg_step n (AcceptSession _) =
     n\<lparr>n_accepted := True, n_sdp := True, n_inCall := n_inCall n \<or> n_collected n\<rparr>"
| "neg_step n RejectSession =
     (if n_server n then neg_reset (n\<lparr>n_rejected := True\<rparr>) else n\<lparr>n_rejected := True\<rparr>)"
| "neg_step n OnIceGatheringFinished =
     n\<lparr>n_inCall := n_inCall n \<or> n_sdp n \<and> (n_caller n \<or> n_accepted n), n_collected := True\<rparr>"
| "neg_step n TerminateSession =
     (if n_done n then n
      else neg_reset (n\<lparr>n_inCall := False, n_client := False, n_server := False\<rparr>))"
| "neg_step n (OnTerminated _ _) =
     (if n_rejected n then n\<lparr>n_done := True, n_server := False\<rparr>
      else if n_inCall n
      then neg_reset (n\<lparr>n_done := True, n_inCall := False, n_client := False, n_server := False\<rparr>)
      else n\<lparr>n_done := True\<rparr>)"
| "neg_step n (OnAnswer _ _) = n\<lparr>n_inCall := True\<rparr>"
| "neg_step n (OnOffer _ _) = n\<lparr>n_inCall := True, n_caller := False\<rparr>"
| "neg_step n (OnNewSession_server p m) =
     n\<lparr>n_done := False, n_rejected := False,
       n_server := (if isValidUserAgent m then p \<noteq> None else n_server n)\<rparr>"
| "neg_step n (OnNewSession_client p m) =
     n\<lparr>n_done := False, n_rejected := False,
       n_client := (if isValidUserAgent m then p \<noteq> None else n_client n)\<rparr>"
| "neg_step n (OnEarlyMedia _) = n\<lparr>n_done := False\<rparr>"
| "neg_step n OnProvisional = n\<lparr>n_done := False\<rparr>"
| "neg_step n OnConnected_client = n\<lparr>n_done := False\<rparr>"
| "neg_step n OnFailure_client = n\<lparr>n_done := True\<rparr>"
| "neg_step n OnForkDestroyed = n\<lparr>n_done := True\<rparr>"
| "neg_step n OnStaleCallTimeout = n\<lparr>n_done := True\<rparr>"
| "neg_step n OnRedirected = n\<lparr>n_done := True\<rparr>"
| "neg_step n _ = n"

fun neg_out :: "neg \<Rightarrow> event \<Rightarrow> signal list" where
  "neg_out n (CreateSession _ _ _) = (if n_collected n then [Invite] else [])"
| "neg_out n (AcceptSession _) = (if n_collected n then [Answer] else [])"
| "neg_out n RejectSession = (if n_server n then [Rejection] else [])"
| "neg_out n OnIceGatheringFinished =
     (if n_sdp n \<and> n_caller n then [Invite] else if n_sdp n \<and> n_accepted n then [Answer] else [])"
| "neg_out n TerminateSession =
     (if \<not> n_done n \<and> (n_client n \<or> n_server n) then [Ending] else [])"
| "neg_out n _ = []"

fun neg_run :: "neg \<Rightarrow> event list \<Rightarrow> neg" where
  "neg_run n [] = n"
| "neg_run n (e # es) = neg_run (neg_step n e) es"

fun neg_outs :: "neg \<Rightarrow> event list \<Rightarrow> signal list" where
  "neg_outs n [] = []"
| "neg_outs n (e # es) = neg_out n e @ neg_outs (neg_step n e) es"

section \<open>Simulation\<close>

lemma signals_simps [simp]:
  "signals [] = []"
  "signals (x # tr) = signal_of x @ signals tr"
  "signals (tr @ tr') = signals tr @ signals tr'"
  by (simp_all add: signals_def)

lemma signals_map_log [simp]: "signals (map (\<lambda>x. HandleLog (f x)) xs) = []"
  by (induction xs) simp_all

lemma neg_of_simps [simp]:
  "n_caller (neg_of s) = m_isCaller s" "n_sdp (neg_of s) = m_localSdpSet s"
  "n_collected (neg_of s) = m_localCandidatesCollected s"
  "n_accepted (neg_of s) = m_inInBoundAccepted s" "n_inCall (neg_of s) = m_inCall s"
  "n_client (neg_of s) = (m_clientInviteSession s \<noteq> None)"
  "n_server (neg_of s) = (m_serverInviteSession s \<noteq> None)"
  "n_rejected (neg_of s) = isUACRejected s" "n_done (neg_of s) = (mProgress s = Done)"
  by (simp_all add: neg_of_def)

text \<open>What a statement does to the abstract state and to the signalling.\<close>

definition simulates :: "ctl \<Rightarrow> neg \<Rightarrow> signal list \<Rightarrow> cpp_error + ctl \<Rightarrow> bool" where
  "simulates s n xs r =
     (case r of Inl _ \<Rightarrow> True
      | Inr s' \<Rightarrow> neg_of s' = n \<and> signals (trace s') = signals (trace s) @ xs)"

lemma simulates_simps [simp]:
  "simulates s n xs (Inl e)"
  "simulates s n xs (Inr s') \<longleftrightarrow> neg_of s' = n \<and> signals (trace s') = signals (trace s) @ xs"
  by (simp_all add: simulates_def)

lemma simulates_bindr:
  assumes "simulates s n xs r"
    and "\<And>s'. r = Inr s' \<Longrightarrow> simulates s' n' ys (k s')"
  shows "simulates s n' (xs @ ys) (bindr r k)"
proof (cases r)
  case (Inl e)
  then show ?thesis by simp
next
  case (Inr s')
  with assms show ?thesis by (cases "k s'") auto
qed

lemma sendSdpOffer_simulates:
  "wired s \<Longrightarrow> simulates s (neg_of s) [Invite] (sendSdpOffer lib hs s)"
  by (auto simp: sendSdpOffer_def wired_def log_headers offer_session_def ctl_eval neg_of_def
      split: option.splits ptr.splits prod.splits)

lemma sendSdpAnswer_simulates:
  "wired s \<Longrightarrow> simulates s (neg_of s) [Answer] (sendSdpAnswer lib s)"
  by (auto simp: sendSdpAnswer_def wired_def answer_session_def ctl_eval neg_of_def
      split: option.splits prod.splits)

lemma setupTransport_simulates:
  "wired s \<Longrightarrow> simulates s (neg_of s) [] (setupTransport lib address contact s)"
  by (auto simp: setupTransport_def wired_def setupStack_def createMasterProfile_def
      registration_message_def Let_def ctl_eval neg_of_def split: option.splits sum.splits)

lemma setupCredential_simulates:
  "simulates s (neg_of s) [] (setupCredential lib u p s)"
  by (auto simp: setupCredential_def on_profile_def neg_of_def split: option.splits)

lemma neg_start [simp]:
  "neg_of (start_registration b u p line s) = neg_of s"
  "signals (trace (start_registration b u p line s)) = signals (trace s)"
  by (simp_all add: start_registration_def neg_of_def)

lemma neg_of_updates [simp]:
  "neg_of (s\<lparr>trace := tr\<rparr>) = neg_of s" "neg_of (s\<lparr>m_app_id := t\<rparr>) = neg_of s"
  "neg_of (s\<lparr>m_cert_id := t\<rparr>) = neg_of s" "neg_of (s\<lparr>m_headers := hs\<rparr>) = neg_of s"
  "neg_of (s\<lparr>m_proxyServer := t\<rparr>) = neg_of s" "(neg_of s)\<lparr>n_inCall := m_inCall s\<rparr> = neg_of s"
  by (simp_all add: neg_of_def)

lemma setup_simulates:
  assumes "wired s1" "neg_of s1 = neg_of s" "signals (trace s1) = signals (trace s)"
  shows "simulates s (neg_of s) [] (block [setupTransport lib a c, setupCredential lib u p] s1)"
proof (cases "setupTransport lib a c s1")
  case (Inl e)
  then show ?thesis by simp
next
  case (Inr s2)
  with setupTransport_simulates [OF assms(1), of lib a c] assms(2,3)
  have "neg_of s2 = neg_of s" "signals (trace s2) = signals (trace s)" by simp_all
  with setupCredential_simulates [of s2 lib u p] Inr show ?thesis
    by (cases "setupCredential lib u p s2") simp_all
qed

lemma register_simulates:
  assumes "wired s"
  shows "simulates s (neg_of s) [] (registerUser lib u p s)"
    and "simulates s (neg_of s) [] (registerUserToken lib u p t s)"
    and "simulates s (neg_of s) [] (registerUserCert lib u p t c s)"
    and "simulates s (neg_of s) [] (registerUserProxy lib u p t c x hs s)"
proof -
  show "simulates s (neg_of s) [] (registerUser lib u p s)"
    unfolding registerUser_eq [OF assms] Let_def by (rule setup_simulates) (simp_all add: assms)
  show "simulates s (neg_of s) [] (registerUserToken lib u p t s)"
    unfolding registerUserToken_eq [OF assms] by (rule setup_simulates) (simp_all add: assms)
  show "simulates s (neg_of s) [] (registerUserCert lib u p t c s)"
    unfolding registerUserCert_eq [OF assms] Let_def by (rule setup_simulates) (simp_all add: assms)
  show "simulates s (neg_of s) [] (registerUserProxy lib u p t c x hs s)"
    unfolding registerUserProxy_eq [OF assms] Let_def by (rule setup_simulates) (simp_all add: assms)
qed

lemma enter_call_simulates:
  "\<not> m_controllerMutex s \<Longrightarrow> simulates s ((neg_of s)\<lparr>n_inCall := True\<rparr>) []
     (locked [assign (\<lambda>s. s\<lparr>m_inCall := True\<rparr>)] s)"
  by (simp add: locked_def neg_of_def)

lemma createSession_simulates:
  assumes "wired s"
  shows "simulates s (neg_step (neg_of s) (CreateSession r sdp hs))
    (neg_out (neg_of s) (CreateSession r sdp hs)) (createSession lib r sdp hs s)"
proof -
  define s1 where "s1 = s\<lparr>m_headers := hs, m_isCaller := True, m_remoteUri := r, m_localSdp := sdp,
    m_localSdpSet := True, m_controllerMutex := False\<rparr>"
  have w: "wired s1" using assms by (simp add: s1_def wired_def)
  have n: "neg_of s1 = (neg_of s)\<lparr>n_caller := True, n_sdp := True\<rparr>" "trace s1 = trace s"
    by (simp_all add: s1_def neg_of_def)
  have "createSession lib r sdp hs s =
      (if m_localCandidatesCollected s then sendSdpOffer lib hs s1 else Inr s1)"
    using assms by (auto simp: createSession_def wired_def ctl_eval s1_def)
  with sendSdpOffer_simulates [OF w, of lib hs] n show ?thesis
    by (cases "sendSdpOffer lib hs s1") auto
qed

text \<open>An answer or offer followed by the entry into the call.\<close>

lemma send_and_enter:
  assumes "wired s1" and "neg_of s1 = n" and "signals (trace s1) = signals (trace s)"
    and "outcome g wired (f s1)" and "simulates s1 n xs (f s1)"
  shows "simulates s (n\<lparr>n_inCall := True\<rparr>) xs
    (block [f, locked [assign (\<lambda>s. s\<lparr>m_inCall := True\<rparr>)]] s1)"
proof (cases "f s1")
  case (Inl e)
  then show ?thesis by simp
next
  case (Inr s2)
  with assms(4) have "wired s2" by simp
  then have "\<not> m_controllerMutex s2" by (simp add: wired_def)
  with assms(3,5) Inr enter_call_simulates [of s2] show ?thesis
    by (cases "locked [assign (\<lambda>s. s\<lparr>m_inCall := True\<rparr>)] s2") simp_all
qed

lemma acceptSession_simulates:
  assumes "wired s"
  shows "simulates s (neg_step (neg_of s) (AcceptSession sdp))
    (neg_out (neg_of s) (AcceptSession sdp)) (acceptSession lib sdp s)"
proof -
  define s1 where "s1 = s\<lparr>trace := trace s @ [HandleLog (''SipControllerCore:: '' @ ''acceptSession(localsdp)'')],
    m_inInBoundAccepted := True, m_localSdp := sdp, m_localSdpSet := True, m_controllerMutex := False\<rparr>"
  have w: "wired s1" using assms by (simp add: s1_def wired_def)
  have n: "neg_of s1 = (neg_of s)\<lparr>n_accepted := True, n_sdp := True\<rparr>"
      "signals (trace s1) = signals (trace s)"
    by (simp_all add: s1_def neg_of_def)
  have eq: "acceptSession lib sdp s =
      (if m_localCandidatesCollected s
       then block [sendSdpAnswer lib, locked [assign (\<lambda>s. s\<lparr>m_inCall := True\<rparr>)]] s1 else Inr s1)"
    using assms by (simp add: acceptSession_def wired_def locked_def handleLog_eval cond_apply s1_def)
  have "simulates s ((neg_of s1)\<lparr>n_inCall := True\<rparr>) [Answer]
      (block [sendSdpAnswer lib, locked [assign (\<lambda>s. s\<lparr>m_inCall := True\<rparr>)]] s1)"
    by (rule send_and_enter [where f = "sendSdpAnswer lib", OF w refl n(2) sendSdpAnswer_outcome [OF w] sendSdpAnswer_simulates [OF w]])
  with eq n show ?thesis by (simp del: block.simps)
qed

lemma onIceGatheringFinished_simulates:
  assumes "wired s"
  shows "simulates s (neg_step (neg_of s) OnIceGatheringFinished)
    (neg_out (neg_of s) OnIceGatheringFinished) (onIceGatheringFinished lib s)"
proof -
  define s1 where "s1 = s\<lparr>trace := trace s @ [HandleLog (''SipControllerCore:: '' @ ''onIceGatheringFinished'')]\<rparr>"
  define s2 where "s2 = s1\<lparr>trace := trace s1 @ [HandleLog (''SipControllerCore:: '' @ ''onIceGatheringFinished sending answer'')]\<rparr>"
  define enter :: "ctl stmt" where "enter = locked [assign (\<lambda>s. s\<lparr>m_inCall := True\<rparr>)]"
  define fin where "fin = locked [assign (\<lambda>s. s\<lparr>m_localCandidatesCollected := True\<rparr>)]"
  have w: "wired s1" "wired s2" using assms by (simp_all add: s1_def s2_def wired_def)
  have n: "neg_of s1 = neg_of s" "neg_of s2 = neg_of s"
    "signals (trace s1) = signals (trace s)" "signals (trace s2) = signals (trace s)"
    by (simp_all add: s1_def s2_def)
  have fin: "simulates x ((neg_of x)\<lparr>n_collected := True\<rparr>) [] (fin x)" for x
    by (simp add: fin_def locked_def neg_of_def)
  have offer: "simulates s ((neg_of s)\<lparr>n_inCall := True\<rparr>) [Invite] (block [sendSdpOffer lib [], enter] s1)"
    unfolding enter_def
    by (rule send_and_enter [where f = "sendSdpOffer lib []", OF w(1) n(1) n(3) sendSdpOffer_outcome [OF w(1)]
          sendSdpOffer_simulates [OF w(1), unfolded n(1)]])
  have answer: "simulates s ((neg_of s)\<lparr>n_inCall := True\<rparr>) [Answer] (block [sendSdpAnswer lib, enter] s2)"
    unfolding enter_def
    by (rule send_and_enter [where f = "sendSdpAnswer lib", OF w(2) n(2) n(4) sendSdpAnswer_outcome [OF w(2)]
          sendSdpAnswer_simulates [OF w(2), unfolded n(2)]])
  have step: "simulates s (n'\<lparr>n_collected := True\<rparr>) xs (bindr r fin)"
    if "simulates s n' xs r" for r n' xs
  proof (cases r)
    case (Inr x)
    with that fin [of x] show ?thesis by (cases "fin x") auto
  qed simp
  have eq: "onIceGatheringFinished lib s =
     (if m_isCaller s \<and> m_localSdpSet s then bindr (block [sendSdpOffer lib [], enter] s1) fin
      else if \<not> m_isCaller s \<and> m_localSdpSet s \<and> m_inInBoundAccepted s
      then bindr (block [sendSdpAnswer lib, enter] s2) fin else fin s1)"
    using assms
    by (simp add: onIceGatheringFinished_def wired_def handleLog_eval locked_get_def cond_apply
        s1_def s2_def fin_def enter_def bindr_assoc)
  show ?thesis
    unfolding eq using step [OF offer] step [OF answer] fin [of s1] n
    by (cases "fin s1") (auto simp del: block.simps)
qed

lemma local_simulates:
  assumes "wired s"
  shows "simulates s (neg_of s) [] (registerTimeOut i s)"
    "simulates s (neg_step (neg_of s) (UnregisterUser w)) [] (unregisterUser w s)"
    "simulates s (neg_step (neg_of s) RejectSession) (neg_out (neg_of s) RejectSession) (reject s)"
    "simulates s (neg_of s) [] (networkChange lib s)" "simulates s (neg_of s) [] (ringing s)"
    "simulates s (neg_of s) [] (onIceCandidate c m s)"
    "simulates s (neg_step (neg_of s) TerminateSession) (neg_out (neg_of s) TerminateSession) (terminateSession s)"
  using assms
  by (auto simp: registerTimeOut_def unregisterUser_def wait_receiver_def reject_def networkChange_def
      ringing_def onIceCandidate_def terminateSession_def neg_reset_def wired_def ctl_eval neg_of_def
      split: option.splits wait_end.splits)

lemma onTerminated_simulates:
  "wired s \<Longrightarrow> simulates s (neg_step (neg_of s) (OnTerminated r m)) [] (onTerminated r m s)"
  by (auto simp: onTerminated_def wired_def ctl_eval neg_reset_def neg_of_def split: option.splits)

lemma media_simulates:
  assumes "wired s"
  shows "simulates s (neg_step (neg_of s) (OnAnswer m sdp)) [] (onAnswer m sdp s)"
    "simulates s (neg_step (neg_of s) (OnOffer m sdp)) [] (onOffer m sdp s)"
    "simulates s (neg_step (neg_of s) (OnEarlyMedia m)) [] (onEarlyMedia m s)"
  using assms
  by (auto simp: onAnswer_def onOffer_def onEarlyMedia_def with_callInfo_def getStatusCode_def
      append_unknown_fields wired_def ctl_eval neg_of_def split: option.splits)

lemma onSuccess_simulates:
  "wired s \<Longrightarrow> simulates s (neg_of s) [] (onSuccess lib m s)"
  by (auto simp: onSuccess_def wired_def processIpAndPort_ok Let_def ctl_eval neg_of_def
      split: option.splits list.splits)

lemma new_session_simulates:
  assumes "wired s"
  shows "simulates s (neg_step (neg_of s) (OnNewSession_server p m)) [] (onNewSession_server p m s)"
    "simulates s (neg_step (neg_of s) (OnNewSession_client p m)) [] (onNewSession_client p m s)"
  using assms
  by (auto simp: onNewSession_server_def onNewSession_client_def wired_def ctl_eval neg_of_def
      split: option.splits)

lemma progress_simulates:
  assumes "wired s"
  shows "simulates s ((neg_of s)\<lparr>n_done := True\<rparr>) [] (onFailure_client s)"
    "simulates s ((neg_of s)\<lparr>n_done := False\<rparr>) [] (onProvisional s)"
    "simulates s ((neg_of s)\<lparr>n_done := False\<rparr>) [] (onConnected_client s)"
    "simulates s ((neg_of s)\<lparr>n_done := True\<rparr>) [] (onForkDestroyed s)"
    "simulates s ((neg_of s)\<lparr>n_done := True\<rparr>) [] (onStaleCallTimeout s)"
    "simulates s ((neg_of s)\<lparr>n_done := True\<rparr>) [] (onRedirected s)"
    "simulates s (neg_of s) [] (logged_step c s)"
  using assms
  by (auto simp: onFailure_client_def onProvisional_def onConnected_client_def onForkDestroyed_def
      onStaleCallTimeout_def onRedirected_def logged_defs wired_def handleLog_eval neg_of_def)
    (cases c; simp add: logged_defs handleLog_eval)+

section \<open>The refinement\<close>

lemma ctl_step_simulates:
  assumes "wired s"
  shows "simulates s (neg_step (neg_of s) e) (neg_out (neg_of s) e) (ctl_step lib s e)"
  by (cases e; simp only: ctl_step.simps)
    (insert assms register_simulates createSession_simulates acceptSession_simulates
      onIceGatheringFinished_simulates local_simulates onTerminated_simulates media_simulates
      onSuccess_simulates new_session_simulates progress_simulates,
      simp_all only: neg_step.simps neg_out.simps)

lemma ctl_run_simulates:
  assumes "wired s" and "run_events (ctl_step lib) s es = Inr s'"
  shows "neg_of s' = neg_run (neg_of s) es
    \<and> signals (trace s') = signals (trace s) @ neg_outs (neg_of s) es"
  using assms
proof (induction es arbitrary: s)
  case Nil
  then show ?case by simp
next
  case (Cons e es)
  then obtain s1 where s1: "ctl_step lib s e = Inr s1" "run_events (ctl_step lib) s1 es = Inr s'"
    by (auto simp: bindr_eq_Inr)
  with Cons.prems(1) ctl_step_outcome [of s lib e] have "wired s1" by simp
  with Cons.IH [OF _ s1(2)] ctl_step_simulates [OF Cons.prems(1), of e lib] s1(1)
  show ?case by simp
qed

section \<open>What the abstract machine promises\<close>

text \<open>
  An answer needs the user's consent: in a run that starts without an accepted call, every
  answer comes after an accept.
\<close>

lemma neg_answer_needs_accept:
  "\<not> n_accepted n \<Longrightarrow> Answer \<in> set (neg_outs n es) \<Longrightarrow> \<exists>sdp. AcceptSession sdp \<in> set es"
proof (induction es arbitrary: n)
  case Nil
  then show ?case by simp
next
  case (Cons e es)
  show ?case
  proof (cases "\<exists>sdp. e = AcceptSession sdp")
    case True
    then show ?thesis by auto
  next
    case False
    then have no: "Answer \<notin> set (neg_out n e)"
      using Cons.prems(1) by (cases e) auto
    have step: "\<not> n_accepted (neg_step n e)"
      using Cons.prems(1) False by (cases e) (auto simp: neg_reset_def)
    from Cons.prems(2) no have "Answer \<in> set (neg_outs (neg_step n e) es)" by simp
    from Cons.IH [OF step this] show ?thesis by auto
  qed
qed

lemma neg_invite_needs_call:
  "\<not> n_caller n \<Longrightarrow> Invite \<in> set (neg_outs n es) \<Longrightarrow> \<exists>r sdp hs. CreateSession r sdp hs \<in> set es"
proof (induction es arbitrary: n)
  case Nil
  then show ?case by simp
next
  case (Cons e es)
  show ?case
  proof (cases "\<exists>r sdp hs. e = CreateSession r sdp hs")
    case True
    then show ?thesis by auto
  next
    case False
    then have no: "Invite \<notin> set (neg_out n e)"
      using Cons.prems(1) by (cases e) auto
    have step: "\<not> n_caller (neg_step n e)"
      using Cons.prems(1) False by (cases e) (auto simp: neg_reset_def)
    from Cons.prems(2) no have "Invite \<in> set (neg_outs (neg_step n e) es)" by simp
    from Cons.IH [OF step this] show ?thesis by auto
  qed
qed

end
