(* ===== verification/Ownership.thy ===== *)
theory Ownership
  imports Negotiation "HOL-Library.Multiset"
begin

text \<open>
  Who deletes an invite session. The controller wraps the raw pointer of every session it is
  shown in a \<open>SharedPtr\<close> of its own, so the object dies with the member that holds it.
  The accounting here is exact: over any run, the sessions deleted and the sessions held
  are, counted with multiplicity, those the controller started with and those it took from
  \<open>onNewSession\<close>. None is leaked and none is deleted twice by the controller itself.
\<close>

section \<open>Definitions\<close>

fun deleted_by :: "out \<Rightarrow> nat multiset" where
  "deleted_by (DeleteSession c) = {#c#}"
| "deleted_by _ = {#}"

definition deleted :: "out list \<Rightarrow> nat multiset" where
  "deleted tr = sum_list (map deleted_by tr)"

definition held_ptr :: "nat option \<Rightarrow> nat multiset" where
  "held_ptr p = (case p of None \<Rightarrow> {#} | Some c \<Rightarrow> {#c#})"

definition held :: "ctl \<Rightarrow> nat multiset" where
  "held s = held_ptr (m_clientInviteSession s) + held_ptr (m_serverInviteSession s)"

fun taken :: "event \<Rightarrow> nat multiset" where
  "taken (OnNewSession_server p m) = (if isValidUserAgent m then held_ptr p else {#})"
| "taken (OnNewSession_client p m) = (if isValidUserAgent m then held_ptr p else {#})"
| "taken _ = {#}"

definition account :: "ctl \<Rightarrow> nat multiset" where
  "account s = held s + deleted (trace s)"

definition balanced :: "ctl \<Rightarrow> nat multiset \<Rightarrow> cpp_error + ctl \<Rightarrow> bool" where
  "balanced s x r = (case r of Inl _ \<Rightarrow> True | Inr s' \<Rightarrow> account s' = account s + x)"

section \<open>Accounting, function by function\<close>

lemma deleted_simps [simp]:
  "deleted [] = {#}"
  "deleted (x # tr) = deleted_by x + deleted tr"
  "deleted (tr @ tr') = deleted tr + deleted tr'"
  by (simp_all add: deleted_def)

lemma deleted_map_log [simp]: "deleted (map (\<lambda>x. HandleLog (f x)) xs) = {#}"
  by (induction xs) simp_all

lemma held_ptr_simps [simp]: "held_ptr None = {#}" "held_ptr (Some c) = {#c#}"
  by (simp_all add: held_ptr_def)

lemma balanced_simps [simp]:
  "balanced s x (Inl e)"
  "balanced s x (Inr s') \<longleftrightarrow> account s' = account s + x"
  by (simp_all add: balanced_def)

lemma balanced_bindr:
  assumes "balanced s x r" and "\<And>s'. r = Inr s' \<Longrightarrow> balanced s' y (k s')"
  shows "balanced s (x + y) (bindr r k)"
proof (cases r)
  case (Inl e)
  then show ?thesis by simp
next
  case (Inr s')
  with assms(1) assms(2) [OF Inr] show ?thesis by (cases "k s'") (simp_all add: add.assoc)
qed

lemma balanced_block:
  "(\<And>f s. f \<in> set fs \<Longrightarrow> balanced s {#} (f s)) \<Longrightarrow> balanced s {#} (block fs s)"
proof (induction fs arbitrary: s)
  case Nil
  then show ?case by simp
next
  case (Cons f fs)
  have rest: "balanced s' {#} (block fs s')" for s'
    by (rule Cons.IH) (simp add: Cons.prems)
  have "balanced s {#} (f s)" by (simp add: Cons.prems)
  from balanced_bindr [OF this rest] show ?case by simp
qed

lemma balanced_log: "balanced s {#} (handleLog v s)"
  by (simp add: handleLog_def locked_get_def call_ptr_def emit_def account_def held_def split: ptr.split)

lemma balanced_call_ptr:
  "deleted_by x = {#} \<Longrightarrow> balanced s {#} (call_ptr p x s)"
  by (simp add: call_ptr_def emit_def account_def held_def split: ptr.split)

lemma balanced_reset:
  "balanced s {#} (reset_client s)" "balanced s {#} (reset_server s)"
  by (auto simp: reset_client_def reset_server_def emit_def account_def held_def split: option.split)

lemmas account_simps = account_def held_def

lemma sendSdpOffer_balanced: "balanced s {#} (sendSdpOffer lib hs s)"
  unfolding sendSdpOffer_def
  by (rule balanced_block)
    (auto simp: balanced_log offer_session_def parse_addr_def locked_get_def account_simps
      intro!: balanced_call_ptr balanced_block split: option.split prod.split)

lemma sendSdpAnswer_balanced: "balanced s {#} (sendSdpAnswer lib s)"
  unfolding sendSdpAnswer_def
  by (rule balanced_block)
    (auto simp: balanced_log answer_session_def on_server_def emit_def locked_get_def account_simps
      intro!: balanced_call_ptr split: option.split prod.split)

lemma emit_balanced: "deleted_by x = {#} \<Longrightarrow> balanced s {#} (emit x s)"
  by (simp add: emit_def account_simps)

lemma setupStack_balanced: "balanced s {#} (setupStack s)"
  unfolding setupStack_def
  by (rule balanced_block) (auto simp: createMasterProfile_def account_simps intro!: emit_balanced)

lemma setupTransport_balanced: "balanced s {#} (setupTransport lib a c s)"
  unfolding setupTransport_def
  by (rule balanced_block)
    (auto simp: balanced_log parse_addr_def cond_apply setupStack_balanced on_profile_def locked_def
      emit_def account_simps intro!: balanced_call_ptr split: option.split sum.split)

lemma setupCredential_balanced: "balanced s {#} (setupCredential lib u p s)"
  by (simp add: setupCredential_def on_profile_def account_simps split: option.split)

lemma register_balanced:
  "balanced s {#} (registerUser lib u p s)"
  "balanced s {#} (registerUserToken lib u p t s)"
  "balanced s {#} (registerUserCert lib u p t c s)"
  "balanced s {#} (registerUserProxy lib u p t c x hs s)"
  unfolding registerUser_def registerUserToken_def registerUserCert_def registerUserProxy_def createUri_def
  by (rule balanced_block; (auto simp: balanced_log setupTransport_balanced setupCredential_balanced account_simps
      simp del: block.simps intro!: balanced_block))+

lemma enter_balanced: "balanced s {#} (locked [assign (\<lambda>s. s\<lparr>m_inCall := True\<rparr>)] s)"
  by (simp add: locked_def account_simps)

lemma local_balanced:
  "balanced s {#} (registerTimeOut i s)" "balanced s {#} (unregisterUser w s)"
  "balanced s {#} (createSession lib r sdp hs s)" "balanced s {#} (acceptSession lib sdp s)"
  "balanced s {#} (reject s)" "balanced s {#} (networkChange lib s)" "balanced s {#} (ringing s)"
  "balanced s {#} (onIceCandidate c m s)"
  unfolding registerTimeOut_def unregisterUser_def createSession_def acceptSession_def reject_def
    networkChange_def ringing_def onIceCandidate_def
  by (rule balanced_block; (auto simp: balanced_log wait_receiver_def locked_def cond_apply parse_addr_def
      clear_call_def sendSdpOffer_balanced account_simps simp del: block.simps
      intro!: balanced_call_ptr balanced_block emit_balanced sendSdpAnswer_balanced
      split: option.split wait_end.split))+

lemma onIceGatheringFinished_balanced: "balanced s {#} (onIceGatheringFinished lib s)"
  unfolding onIceGatheringFinished_def
  by (rule balanced_block) (auto simp: balanced_log locked_get_def cond_apply sendSdpOffer_balanced
      sendSdpAnswer_balanced enter_balanced locked_def account_simps simp del: block.simps intro!: balanced_block)

lemma balanced_locked:
  assumes "\<And>s. balanced s x (block fs s)"
  shows "balanced s x (locked fs s)"
proof (cases "m_controllerMutex s")
  case True
  then show ?thesis by (simp add: locked_def)
next
  case False
  then show ?thesis
    using assms [of "s\<lparr>m_controllerMutex := True\<rparr>"]
    by (cases "block fs (s\<lparr>m_controllerMutex := True\<rparr>)") (simp_all add: locked_def account_simps)
qed

lemma balanced_assign: "(\<And>s. account (f s) = account s) \<Longrightarrow> balanced s {#} (assign f s)"
  by simp

lemma account_clear [simp]: "account (clear_call s) = account s"
  by (simp add: clear_call_def account_simps)

lemma terminateSession_balanced: "balanced s {#} (terminateSession s)"
  unfolding terminateSession_def
  by (rule balanced_block)
    (auto simp: balanced_log cond_apply balanced_reset emit_def account_simps clear_call_def
      simp del: block.simps intro!: balanced_block balanced_locked split: option.split)

lemma onTerminated_balanced: "balanced s {#} (onTerminated r m s)"
  unfolding onTerminated_def
  by (rule balanced_block)
    (auto simp: balanced_log cond_apply balanced_reset locked_get_def account_simps clear_call_def
      simp del: block.simps intro!: balanced_block balanced_call_ptr split: option.split)

lemma with_callInfo_balanced:
  "(\<And>ci. balanced s {#} (k ci s)) \<Longrightarrow> balanced s {#} (with_callInfo m pre k s)"
  by (simp add: with_callInfo_def split: sum.split)

lemma media_balanced:
  "balanced s {#} (onAnswer m sdp s)" "balanced s {#} (onOffer m sdp s)"
  "balanced s {#} (onEarlyMedia m s)"
  unfolding onAnswer_def onOffer_def onEarlyMedia_def
  by (rule balanced_block; (auto simp: balanced_log locked_get_def cond_apply account_simps
      simp del: block.simps intro!: balanced_block balanced_locked with_callInfo_balanced balanced_call_ptr
      split: sum.split option.split))+

lemma onSuccess_balanced: "balanced s {#} (onSuccess lib m s)"
  unfolding onSuccess_def Let_def
  by (auto simp: balanced_log locked_get_def cond_apply account_simps
      simp del: block.simps intro!: balanced_block balanced_call_ptr split: sum.split option.split list.split)

lemma progress_balanced:
  "balanced s {#} (onFailure_client s)" "balanced s {#} (onProvisional s)"
  "balanced s {#} (onConnected_client s)" "balanced s {#} (onForkDestroyed s)"
  "balanced s {#} (onStaleCallTimeout s)" "balanced s {#} (onRedirected s)"
  "balanced s {#} (logged_step c s)"
  unfolding onFailure_client_def onProvisional_def onConnected_client_def onForkDestroyed_def
    onStaleCallTimeout_def onRedirected_def
  by ((rule balanced_block; auto simp: balanced_log account_simps)+)
    (cases c; simp add: logged_defs balanced_log)

lemma assign_balanced:
  "balanced s (held_ptr p) (locked [assign_client p] s)"
  "balanced s (held_ptr p) (locked [assign_server p] s)"
  by (rule balanced_locked; auto simp: assign_client_def assign_server_def reset_client_def reset_server_def
      emit_def account_simps split: option.split)+

lemma new_session_balanced:
  "balanced s (taken (OnNewSession_server p m)) (onNewSession_server p m s)"
  "balanced s (taken (OnNewSession_client p m)) (onNewSession_client p m s)"
proof -
  have start: "balanced s x (block (assign f # fs) s)"
    if "\<And>s. account (f s) = account s" "\<And>s. balanced s x (block fs s)" for f fs x and s :: ctl
    using balanced_bindr [OF balanced_assign [OF that(1)] that(2)] by simp
  have log: "balanced s x (block (handleLog v # fs) s)"
    if "\<And>s. balanced s x (block fs s)" for v fs x and s :: ctl
    using balanced_bindr [OF balanced_log that] by simp
  have last: "balanced s x (block [f, g] s)"
    if "\<And>s. balanced s x (f s)" "\<And>s. balanced s {#} (g s)" for f g x and s :: ctl
    using balanced_bindr [OF that] by simp
  show "balanced s (taken (OnNewSession_server p m)) (onNewSession_server p m s)"
    unfolding onNewSession_server_def
    by (intro start log) (auto simp: account_simps cond_apply balanced_log assign_balanced)
  show "balanced s (taken (OnNewSession_client p m)) (onNewSession_client p m s)"
    unfolding onNewSession_client_def
    by (intro start log last) (auto simp: account_simps cond_apply balanced_log assign_balanced locked_get_def
        intro!: balanced_call_ptr split: option.split)
qed

lemma ctl_step_balanced: "balanced s (taken e) (ctl_step lib s e)"
  by (cases e; simp only: ctl_step.simps)
    (insert register_balanced local_balanced onIceGatheringFinished_balanced terminateSession_balanced
      onTerminated_balanced media_balanced onSuccess_balanced new_session_balanced progress_balanced,
      simp_all only: taken.simps)

lemma ctl_run_balanced:
  "run_events (ctl_step lib) s es = Inr s' \<Longrightarrow> account s' = account s + sum_list (map taken es)"
proof (induction es arbitrary: s)
  case Nil
  then show ?case by simp
next
  case (Cons e es)
  then obtain s1 where s1: "ctl_step lib s e = Inr s1" "run_events (ctl_step lib) s1 es = Inr s'"
    by (auto simp: bindr_eq_Inr)
  with Cons.IH [OF s1(2)] ctl_step_balanced [of s e lib] show ?case by (simp add: add.assoc)
qed

end
