(* ===== verification/Instances.thy ===== *)
theory Instances
  imports Callbacks
begin

text \<open>
  Concrete inputs on which the properties are exercised: an instance of the SIP library
  (\<open>demo_lib\<close>), a few messages, and a controller as it stands after its handlers have
  been installed (\<open>demo_ctl\<close>).
\<close>

definition demo_media :: "Medium list" where
  "demo_media =
     [\<lparr>med_name = ''audio'', med_attributes = [(''rtpmap'', ''0'')]\<rparr>,
      \<lparr>med_name = ''video'', med_attributes = []\<rparr>,
      \<lparr>med_name = ''audio'', med_attributes = []\<rparr>]"

definition demo_lib :: resip_lib where
  "demo_lib = \<lparr>
     rl_isPrivateAddress = (\<lambda>a. take 3 a = ''10.''),
     rl_isIpV4Address = (\<lambda>a. a \<noteq> [] \<and> list_all (\<lambda>c. c \<in> set ''0123456789.'') a),
     rl_toTransport = (\<lambda>t. if t = ''TLS'' then TLS else UNKNOWN_TRANSPORT),
     rl_inet_ntop = (\<lambda>a. a),
     rl_defaultTuple = \<lparr>t_address = [], t_port = 0, t_type = UNKNOWN_TRANSPORT\<rparr>,
     rl_parses = (\<lambda>a. a \<noteq> []),
     rl_uri_host = (\<lambda>a. a),
     rl_uri_user = (\<lambda>a. a),
     rl_registration_contacts = (\<lambda>a. [a]),
     rl_sdp_parse = (\<lambda>sdp. (if sdp = ''v=2'' then [] else demo_media, sdp \<noteq> [])),
     rl_substr = (\<lambda>n s. drop n s)\<rparr>"

definition demo_settings :: SipServerSettings where
  "demo_settings = \<lparr>domain = ''phone.plivo.com'', dnsServer = ''1.1.1.1'', proxyServer = []\<rparr>"

definition demo_mem :: ctl where
  "demo_mem = \<lparr>
     m_domain = [], m_run = False, m_receiveClosed = False, m_localSdp = [], m_remoteSdp = [],
     m_localCandidates = [], m_inCall = False, m_isCaller = False, m_localSdpSet = False,
     m_remoteSdpSet = False, m_localCandidatesCollected = False, m_inInBoundAccepted = False,
     m_receiver = NullPtr, receivers = 0, m_controllerMutex = False,
     m_registrationHandler = NullPtr, m_callHandler = NullPtr, m_logHandler = NullPtr,
     m_sdpHandler = NullPtr, m_callStateHandler = NullPtr, m_callInfoHandler = NullPtr,
     m_errorHandler = NullPtr, m_stack = False, m_dnsServers = [], m_userAgent = NullPtr,
     m_clientAddress = [], m_outboundProxy = None, m_masterProfile = None,
     m_clientInviteSession = None, m_serverInviteSession = None, m_headers = [], m_uri = [],
     m_current_callid = [], m_app_id = [], m_cert_id = [], m_username = [], m_password = [],
     m_remoteUri = [], m_dnsServer = [], m_proxyServer = [], m_public_ip_port = [],
     isProxyRegister = False, isUACRejected = False, m_reg_timeout = 0, mProgress = Dialing,
     offerSdp = None, answerSdp = None, trace = []\<rparr>"

definition demo_ctl :: ctl where
  "demo_ctl = (SipControllerCore demo_mem demo_settings)
     \<lparr>m_registrationHandler := Ptr (), m_callHandler := Ptr (), m_logHandler := Ptr (),
      m_sdpHandler := Ptr (), m_callStateHandler := Ptr (), m_callInfoHandler := Ptr (),
      m_errorHandler := Ptr (), m_userAgent := Ptr ()\<rparr>"

definition demo_via :: via where
  "demo_via = \<lparr>v_received = Some ''52.9.1.7'', v_rport = Some 40001, v_sentHost = ''10.0.0.7'',
     v_sentPort = 5061, v_transport = ''TLS''\<rparr>"

definition demo_msg :: SipMessage where
  "demo_msg = \<lparr>msg_vias = Some [demo_via], msg_callId = Some ''c1'', msg_userAgent = Some ''Plivo-SIP'',
     msg_statusLine = Some 200, msg_from_user = Some ''alice'', msg_to_user = Some ''bob'',
     msg_unknown = [(''X-PH-Id'', [''7''])], msg_contents = Some ''v=0''\<rparr>"

lemmas demo_defs =
  demo_media_def demo_lib_def demo_settings_def demo_mem_def demo_ctl_def demo_via_def demo_msg_def

end
