(* ===== verification/CallFlow.thy ===== *)
theory CallFlow
  imports Negotiation Instances
begin

text \<open>
  What the controller puts into its signalling, call by call: which ICE candidates go into
  which medium of a session description, what an INVITE carries, what the descriptions and
  headers of earlier calls and of other event orders do to it, and in which state the
  controller is left when a call ends.
\<close>

section \<open>Definitions\<close>

fun is_log :: "out \<Rightarrow> bool" where
  "is_log (HandleLog _) = True"
| "is_log _ = False"

definition calls :: "out list \<Rightarrow> out list" where
  "calls tr = filter (\<lambda>x. \<not> is_log x) tr"

definition attrs_for :: "resip_lib \<Rightarrow> string \<Rightarrow> IceCandidate list \<Rightarrow> (string \<times> string) list" where
  "attrs_for lib name cs =
     map (\<lambda>c. (''candidate'', rl_substr lib 10 (candidate c))) (filter (\<lambda>c. mid c = name) cs)"

definition last_named :: "string \<Rightarrow> Medium list \<Rightarrow> nat \<Rightarrow> bool" where
  "last_named name media i \<longleftrightarrow>
     i < length media \<and> med_name (media ! i) = name
   \<and> list_all (\<lambda>m. med_name m \<noteq> name) (drop (Suc i) media)"

definition offer_media :: "resip_lib \<Rightarrow> ctl \<Rightarrow> Medium list" where
  "offer_media lib s =
     (case offerSdp s of Some media \<Rightarrow> media | None \<Rightarrow> fst (rl_sdp_parse lib (m_localSdp s)))"

definition answer_media :: "resip_lib \<Rightarrow> ctl \<Rightarrow> Medium list" where
  "answer_media lib s =
     (case answerSdp s of Some media \<Rightarrow> media | None \<Rightarrow> fst (rl_sdp_parse lib (m_localSdp s)))"

text \<open>The state between calls.\<close>

definition call_idle :: "ctl \<Rightarrow> bool" where
  "call_idle s \<longleftrightarrow> \<not> m_inCall s \<and> \<not> m_isCaller s \<and> \<not> m_localSdpSet s \<and> \<not> m_remoteSdpSet s
   \<and> \<not> m_localCandidatesCollected s \<and> \<not> m_inInBoundAccepted s \<and> m_localSdp s = [] \<and> m_remoteSdp s = []
   \<and> m_localCandidates s = [] \<and> m_current_callid s = []
   \<and> m_clientInviteSession s = None \<and> m_serverInviteSession s = None"

section \<open>ICE candidates in a description\<close>

lemma calls_simps [simp]:
  "calls [] = []"
  "calls (x # tr) = (if is_log x then calls tr else x # calls tr)"
  "calls (tr @ tr') = calls tr @ calls tr'"
  by (simp_all add: calls_def)

lemma calls_map_log [simp]: "calls (map (\<lambda>x. HandleLog (f x)) xs) = []"
  by (induction xs) simp_all

lemma scan_media_Cons:
  "scan_media i (m # ms) av = scan_media (Suc i) ms
     (if med_name m = ''audio'' then (Some i, snd av)
      else if med_name m = ''video'' then (fst av, Some i) else av)"
  by (cases av) simp

text \<open>Each half of the scan is a scan for one name.\<close>

fun scan_name :: "string \<Rightarrow> nat \<Rightarrow> Medium list \<Rightarrow> nat option \<Rightarrow> nat option" where
  "scan_name name i [] r = r"
| "scan_name name i (m # ms) r = scan_name name (Suc i) ms (if med_name m = name then Some i else r)"

lemma scan_media_scan_name:
  "scan_media i ms av = (scan_name ''audio'' i ms (fst av), scan_name ''video'' i ms (snd av))"
proof (induction ms arbitrary: i av)
  case Nil
  then show ?case by (cases av) simp
next
  case (Cons m ms)
  then show ?case unfolding scan_media_Cons by simp
qed

lemma scan_name_snoc:
  "scan_name name i (ms @ [m]) r = (if med_name m = name then Some (i + length ms) else scan_name name i ms r)"
  by (induction ms arbitrary: i r) simp_all

lemma last_named_snoc:
  "last_named name (ms @ [m]) k \<longleftrightarrow> (if med_name m = name then k = length ms else last_named name ms k)"
proof (cases "k < length ms")
  case True
  then show ?thesis by (auto simp: last_named_def nth_append)
next
  case False
  then show ?thesis by (auto simp: last_named_def nth_append)
qed

lemma scan_name_Some: "scan_name name 0 ms None = Some k \<longleftrightarrow> last_named name ms k"
proof (induction ms rule: rev_induct)
  case Nil
  then show ?case by (simp add: last_named_def)
next
  case (snoc m ms)
  then show ?case by (auto simp: scan_name_snoc last_named_snoc)
qed

lemma length_add_candidate [simp]: "length (add_candidate lib av c m) = length m"
  by (cases av) (simp add: add_candidate_def)

lemma nth_foldl_add_candidate:
  assumes "k < length m" "a \<noteq> v \<or> a = None"
  shows "foldl (\<lambda>m c. add_candidate lib (a, v) c m) m cs ! k =
    (m ! k)\<lparr>med_attributes := med_attributes (m ! k) @
       (if a = Some k then attrs_for lib ''audio'' cs
        else if v = Some k then attrs_for lib ''video'' cs else [])\<rparr>"
  using assms(1)
proof (induction cs arbitrary: m)
  case Nil
  then show ?case by (simp add: attrs_for_def)
next
  case (Cons c cs)
  have step: "add_candidate lib (a, v) c m ! k =
    (if a = Some k \<and> mid c = ''audio'' \<or> v = Some k \<and> mid c = ''video''
     then addAttribute ''candidate'' (rl_substr lib 10 (candidate c)) (m ! k) else m ! k)"
    using Cons.prems by (auto simp: add_candidate_def nth_update_in)
  show ?case
    using Cons.IH [of "add_candidate lib (a, v) c m"] Cons.prems assms(2) step
    by (auto simp: attrs_for_def addAttribute_def)
qed

lemma add_candidates_nth:
  assumes "k < length media"
  shows "add_candidates lib cs media ! k = (media ! k)\<lparr>med_attributes := med_attributes (media ! k) @
    (if last_named ''audio'' media k then attrs_for lib ''audio'' cs
     else if last_named ''video'' media k then attrs_for lib ''video'' cs else [])\<rparr>"
proof -
  let ?a = "scan_name ''audio'' 0 media None" and ?v = "scan_name ''video'' 0 media None"
  have "?a \<noteq> ?v \<or> ?a = None"
  proof (cases ?a)
    case (Some i)
    then have "last_named ''audio'' media i" by (simp add: scan_name_Some)
    then have "\<not> last_named ''video'' media i" by (simp add: last_named_def)
    then have "?v \<noteq> Some i" by (simp add: scan_name_Some)
    with Some show ?thesis by simp
  qed simp
  from nth_foldl_add_candidate [OF assms this, of lib cs] show ?thesis
    by (simp add: add_candidates_def scan_media_scan_name scan_name_Some)
qed

lemma length_add_candidates [simp]: "length (add_candidates lib cs media) = length media"
proof -
  have "length (foldl (\<lambda>m c. add_candidate lib av c m) m cs) = length m" for av m
    by (induction cs arbitrary: m) simp_all
  then show ?thesis by (simp add: add_candidates_def)
qed

lemma add_candidates_Nil [simp]: "add_candidates lib [] media = media"
  by (simp add: add_candidates_def)

section \<open>What an INVITE and an answer carry\<close>

lemma sendSdpOffer_result:
  assumes "wired s" "offer_ok lib s"
  shows "\<exists>s'. sendSdpOffer lib hs s = Inr s' \<and> wired s' \<and> neg_of s' = neg_of s
    \<and> offerSdp s' = Some (add_candidates lib (m_localCandidates s) (offer_media lib s))
    \<and> m_localCandidates s' = [] \<and> m_userAgent s' = m_userAgent s \<and> m_domain s' = m_domain s
    \<and> m_clientInviteSession s' = m_clientInviteSession s \<and> m_serverInviteSession s' = m_serverInviteSession s
    \<and> mProgress s' = mProgress s
    \<and> calls (trace s') = calls (trace s) @
        [SendInvite (remote_address s) (add_candidates lib (m_localCandidates s) (offer_media lib s)) hs,
         HandleCallState ''Calling'' 0]"
  using assms
  by (auto simp: sendSdpOffer_def wired_def offer_ok_def remote_address_def log_headers offer_media_def
      offer_session_def ctl_eval neg_of_def split: option.splits prod.splits)

lemma sendSdpAnswer_result:
  assumes "wired s" "answer_ok lib s" "m_serverInviteSession s = Some c"
  shows "\<exists>s'. sendSdpAnswer lib s = Inr s' \<and> wired s' \<and> neg_of s' = neg_of s
    \<and> answerSdp s' = Some (add_candidates lib (m_localCandidates s) (answer_media lib s))
    \<and> m_localCandidates s' = []
    \<and> calls (trace s') = calls (trace s) @
        [HandleCallState ''CallAccepted'' 200,
         ProvideAnswer c (add_candidates lib (m_localCandidates s) (answer_media lib s)), Accept c]"
  using assms
  by (auto simp: sendSdpAnswer_def wired_def answer_ok_def answer_media_def answer_session_def ctl_eval
      neg_of_def split: option.splits prod.splits)

section \<open>Event orders of an outgoing call\<close>

text \<open>\<open>createSession\<close> records the call, and sends the offer itself when the candidates are in.\<close>

definition call_started :: "string \<Rightarrow> string \<Rightarrow> (string \<times> string) list \<Rightarrow> ctl \<Rightarrow> ctl" where
  "call_started r sdp hs s = s\<lparr>m_headers := hs, m_isCaller := True, m_remoteUri := r,
     m_localSdp := sdp, m_localSdpSet := True, m_controllerMutex := False\<rparr>"

lemma createSession_eq:
  "wired s \<Longrightarrow> createSession lib r sdp hs s =
     (if m_localCandidatesCollected s then sendSdpOffer lib hs (call_started r sdp hs s)
      else Inr (call_started r sdp hs s))"
  by (auto simp: createSession_def wired_def ctl_eval call_started_def)

lemma call_started_simps [simp]:
  "wired (call_started r sdp hs s) = (wired (s\<lparr>m_controllerMutex := False\<rparr>))"
  "offerSdp (call_started r sdp hs s) = offerSdp s"
  "m_localCandidates (call_started r sdp hs s) = m_localCandidates s"
  "remote_address (call_started r sdp hs s) = ''sip:'' @ r @ ''@'' @ m_domain s"
  "m_localSdp (call_started r sdp hs s) = sdp"
  "m_userAgent (call_started r sdp hs s) = m_userAgent s"
  "m_domain (call_started r sdp hs s) = m_domain s"
  "mProgress (call_started r sdp hs s) = mProgress s"
  "m_isCaller (call_started r sdp hs s)" "m_localSdpSet (call_started r sdp hs s)"
  "trace (call_started r sdp hs s) = trace s"
  "m_clientInviteSession (call_started r sdp hs s) = m_clientInviteSession s"
  "m_serverInviteSession (call_started r sdp hs s) = m_serverInviteSession s"
  by (simp_all add: call_started_def wired_def remote_address_def)

lemma wired_mutex: "wired s \<Longrightarrow> wired (s\<lparr>m_controllerMutex := False\<rparr>)"
  by (simp add: wired_def)

lemma offer_ok_started:
  "offer_ok lib (call_started r sdp hs s) \<longleftrightarrow>
     (offerSdp s = None \<longrightarrow> snd (rl_sdp_parse lib sdp))
   \<and> rl_parses lib (''sip:'' @ r @ ''@'' @ m_domain s) \<and> m_userAgent s = Ptr ()"
  by (simp add: offer_ok_def)

lemma onIceGatheringFinished_offer:
  assumes "wired s" "m_isCaller s" "m_localSdpSet s" "offer_ok lib s"
  shows "\<exists>s'. onIceGatheringFinished lib s = Inr s' \<and> wired s'
    \<and> offerSdp s' = Some (add_candidates lib (m_localCandidates s) (offer_media lib s))
    \<and> calls (trace s') = calls (trace s) @
        [SendInvite (remote_address s) (add_candidates lib (m_localCandidates s) (offer_media lib s)) [],
         HandleCallState ''Calling'' 0]"
proof -
  define s1 where "s1 = s\<lparr>trace := trace s @ [HandleLog (''SipControllerCore:: '' @ ''onIceGatheringFinished'')]\<rparr>"
  have "wired s1" "offer_ok lib s1" "remote_address s1 = remote_address s" "offer_media lib s1 = offer_media lib s"
    "m_localCandidates s1 = m_localCandidates s" "calls (trace s1) = calls (trace s)"
    using assms
    by (simp_all add: s1_def wired_def offer_ok_def remote_address_def offer_media_def split: option.split)
  with sendSdpOffer_result [of s1 lib "[]"] obtain s2 where s2: "sendSdpOffer lib [] s1 = Inr s2" "wired s2"
    "offerSdp s2 = Some (add_candidates lib (m_localCandidates s) (offer_media lib s))"
    "calls (trace s2) = calls (trace s) @
        [SendInvite (remote_address s) (add_candidates lib (m_localCandidates s) (offer_media lib s)) [],
         HandleCallState ''Calling'' 0]"
    by auto
  have "onIceGatheringFinished lib s =
      Inr (s2\<lparr>m_inCall := True, m_localCandidatesCollected := True, m_controllerMutex := False\<rparr>)"
    using assms s2(1,2)
    by (simp add: onIceGatheringFinished_def wired_def handleLog_eval locked_get_def locked_def s1_def)
  with s2 show ?thesis by (auto simp: wired_def)
qed

lemma gathering_without_call:
  assumes "wired s" "\<not> m_localSdpSet s"
  shows "\<exists>s'. onIceGatheringFinished lib s = Inr s' \<and> wired s' \<and> m_localCandidatesCollected s'
    \<and> offerSdp s' = offerSdp s \<and> m_localCandidates s' = m_localCandidates s \<and> m_domain s' = m_domain s
    \<and> m_userAgent s' = m_userAgent s \<and> calls (trace s') = calls (trace s)"
  using assms by (auto simp: onIceGatheringFinished_def wired_def ctl_eval)

lemma createSession_collected:
  assumes "wired s" "m_localCandidatesCollected s"
    and "offerSdp s = None \<longrightarrow> snd (rl_sdp_parse lib sdp)"
    and "rl_parses lib (''sip:'' @ r @ ''@'' @ m_domain s)" "m_userAgent s = Ptr ()"
  shows "\<exists>s'. createSession lib r sdp hs s = Inr s' \<and> wired s' \<and> m_userAgent s' = Ptr ()
    \<and> m_domain s' = m_domain s \<and> mProgress s' = mProgress s \<and> m_localCandidates s' = []
    \<and> offerSdp s' = Some (add_candidates lib (m_localCandidates s) (offer_media lib (s\<lparr>m_localSdp := sdp\<rparr>)))
    \<and> calls (trace s') = calls (trace s) @
        [SendInvite (''sip:'' @ r @ ''@'' @ m_domain s)
           (add_candidates lib (m_localCandidates s) (offer_media lib (s\<lparr>m_localSdp := sdp\<rparr>))) hs,
         HandleCallState ''Calling'' 0]"
proof -
  have ok: "wired (call_started r sdp hs s)" "offer_ok lib (call_started r sdp hs s)"
    using assms by (simp_all add: wired_mutex offer_ok_started)
  have "offer_media lib (call_started r sdp hs s) = offer_media lib (s\<lparr>m_localSdp := sdp\<rparr>)"
    by (simp add: offer_media_def split: option.split)
  with sendSdpOffer_result [OF ok, of hs] assms show ?thesis by (auto simp: createSession_eq)
qed

section \<open>The end of a call\<close>

lemma terminateSession_result:
  assumes "wired s" "mProgress s \<noteq> Done"
  shows "\<exists>s'. terminateSession s = Inr s' \<and> wired s' \<and> call_idle s' \<and> offerSdp s' = offerSdp s
    \<and> answerSdp s' = answerSdp s \<and> m_domain s' = m_domain s \<and> m_userAgent s' = m_userAgent s
    \<and> m_headers s' = m_headers s \<and> m_remoteUri s' = m_remoteUri s \<and> mProgress s' = mProgress s
    \<and> calls (trace s') = calls (trace s)
        @ (case m_clientInviteSession s of Some c \<Rightarrow> [EndSession c]
           | None \<Rightarrow> (case m_serverInviteSession s of Some c \<Rightarrow> [EndSession c] | None \<Rightarrow> []))
        @ (case m_clientInviteSession s of Some c \<Rightarrow> [DeleteSession c] | None \<Rightarrow> [])
        @ (case m_serverInviteSession s of Some c \<Rightarrow> [DeleteSession c] | None \<Rightarrow> [])"
  using assms
  by (auto simp: terminateSession_def wired_def ctl_eval call_idle_def split: option.splits)

lemma onTerminated_result:
  assumes "wired s" "\<not> isUACRejected s" "m_inCall s" "msg_callId m \<noteq> None"
  shows "\<exists>s'. onTerminated reason (Some m) s = Inr s' \<and> wired s' \<and> call_idle s' \<and> mProgress s' = Done
    \<and> calls (trace s') = calls (trace s)
        @ [HandleCallState (fst (reason_code reason)) (terminated_status reason m),
           HandleCall TerminateCall (fst (reason_code reason))]
        @ (case m_clientInviteSession s of Some c \<Rightarrow> [DeleteSession c] | None \<Rightarrow> [])
        @ (case m_serverInviteSession s of Some c \<Rightarrow> [DeleteSession c] | None \<Rightarrow> [])"
  using assms
  by (auto simp: onTerminated_def wired_def ctl_eval call_idle_def split: option.splits)

lemma reason_code_literal:
  "reason_code reason =
     (case reason of
        RemoteBye \<Rightarrow> ''RemoteBye'' | RemoteCancel \<Rightarrow> ''RemoteCancel'' | Rejected \<Rightarrow> ''Rejected''
      | LocalBye \<Rightarrow> ''LocalBye'' | LocalCancel \<Rightarrow> ''LocalCancel'' | Replaced \<Rightarrow> ''Replaced''
      | Referred \<Rightarrow> ''Referred'' | Error \<Rightarrow> ''Error'' | Timeout \<Rightarrow> ''Timeout'',
      if reason = RemoteBye then 200 else if reason = RemoteCancel then 487
      else if reason = Rejected then 486 else 603)"
  by (cases reason) (simp_all add: reason_code_def)

lemma demo_wired: "wired demo_ctl" "m_userAgent demo_ctl = Ptr ()" "offerSdp demo_ctl = None"
  "\<not> m_localCandidatesCollected demo_ctl" "\<not> m_localSdpSet demo_ctl" "mProgress demo_ctl \<noteq> Done"
  "m_domain demo_ctl = ''phone.plivo.com''"
  by (simp_all add: demo_defs wired_def SipControllerCore_def)

lemma demo_parse: "snd (rl_sdp_parse demo_lib ''v=0'')" "rl_parses demo_lib (''sip:'' @ x)"
  by (simp_all add: demo_lib_def)

section \<open>Properties\<close>

text \<open>
  (C4) Where ICE candidates end up. In the description that is sent, the last medium named
  audio has gained the candidates gathered for audio and the last medium named video those
  gathered for video, in gathering order and without their ten-character prefix; every other
  medium, and everything else of these two, is unchanged.
\<close>

theorem candidates_placed:
  assumes "k < length media"
  shows "add_candidates lib cs media ! k = (media ! k)\<lparr>med_attributes := med_attributes (media ! k) @
    (if last_named ''audio'' media k then attrs_for lib ''audio'' cs
     else if last_named ''video'' media k then attrs_for lib ''video'' cs else [])\<rparr>"
  by (rule add_candidates_nth [OF assms])

theorem candidates_placed_witness:
  "2 < length demo_media
   \<and> med_attributes (add_candidates demo_lib [\<lparr>mid = ''audio'', candidate = ''candidate:42''\<rparr>] demo_media ! 2)
     = [(''candidate'', ''42'')]"
proof -
  have h: "2 < length demo_media" by (simp add: demo_media_def)
  show ?thesis
    using h candidates_placed [OF h, of demo_lib "[\<lparr>mid = ''audio'', candidate = ''candidate:42''\<rparr>]"]
    by (simp add: demo_media_def last_named_def attrs_for_def demo_lib_def)
qed

text \<open>
  (C9) When the ICE gathering is over before the application calls, the INVITE goes out from
  \<open>createSession\<close>, once, to the remote user, with the call's headers and with the
  candidates in the parsed local description. This is the first offer of the process
  (\<open>offerSdp\<close> not yet set; a later call sends the first description again), the user agent
  exists, the description and the address parse, and no call is being set up.
\<close>

theorem invite_when_gathered_first:
  assumes "wired s" "\<not> m_localSdpSet s" "m_userAgent s = Ptr ()" "offerSdp s = None"
    and "snd (rl_sdp_parse lib sdp)" "rl_parses lib (''sip:'' @ r @ ''@'' @ m_domain s)"
  shows "\<exists>s'. run_events (ctl_step lib) s [OnIceGatheringFinished, CreateSession r sdp hs] = Inr s'
    \<and> calls (trace s') = calls (trace s) @
       [SendInvite (''sip:'' @ r @ ''@'' @ m_domain s)
          (add_candidates lib (m_localCandidates s) (fst (rl_sdp_parse lib sdp))) hs,
        HandleCallState ''Calling'' 0]"
proof -
  obtain s1 where s1: "onIceGatheringFinished lib s = Inr s1" "wired s1" "m_localCandidatesCollected s1"
    "offerSdp s1 = None" "m_localCandidates s1 = m_localCandidates s" "m_domain s1 = m_domain s"
    "m_userAgent s1 = Ptr ()" "calls (trace s1) = calls (trace s)"
    using gathering_without_call [OF assms(1,2), of lib] assms(3,4) by auto
  have "offer_media lib (s1\<lparr>m_localSdp := sdp\<rparr>) = fst (rl_sdp_parse lib sdp)"
    using s1(4) by (simp add: offer_media_def)
  with createSession_collected [OF s1(2,3), of lib sdp r hs] s1 assms(5,6) show ?thesis by auto
qed

theorem invite_when_gathered_first_witness:
  "\<exists>s'. run_events (ctl_step demo_lib) demo_ctl
      [OnIceGatheringFinished, CreateSession ''bob'' ''v=0'' [(''X-A'', ''1'')]] = Inr s'
    \<and> calls (trace s') = calls (trace demo_ctl) @
       [SendInvite (''sip:'' @ ''bob'' @ ''@'' @ m_domain demo_ctl)
          (add_candidates demo_lib (m_localCandidates demo_ctl) (fst (rl_sdp_parse demo_lib ''v=0'')))
          [(''X-A'', ''1'')],
        HandleCallState ''Calling'' 0]"
  by (rule invite_when_gathered_first [OF demo_wired(1,5,2,3) demo_parse])

text \<open>
  (C10) When the application calls before the ICE gathering is over, the INVITE goes out from
  \<open>onIceGatheringFinished\<close>, once, and it carries no header: the headers that
  \<open>createSession\<close> was given and stored in \<open>m_headers\<close> are not sent.
\<close>

theorem invite_when_called_first:
  assumes "wired s" "\<not> m_localCandidatesCollected s" "m_userAgent s = Ptr ()" "offerSdp s = None"
    and "snd (rl_sdp_parse lib sdp)" "rl_parses lib (''sip:'' @ r @ ''@'' @ m_domain s)"
  shows "\<exists>s'. run_events (ctl_step lib) s [CreateSession r sdp hs, OnIceGatheringFinished] = Inr s'
    \<and> calls (trace s') = calls (trace s) @
       [SendInvite (''sip:'' @ r @ ''@'' @ m_domain s)
          (add_candidates lib (m_localCandidates s) (fst (rl_sdp_parse lib sdp))) [],
        HandleCallState ''Calling'' 0]"
proof -
  let ?s1 = "call_started r sdp hs s"
  have ok: "wired ?s1" "offer_ok lib ?s1" using assms by (simp_all add: wired_mutex offer_ok_started)
  have "createSession lib r sdp hs s = Inr ?s1" using assms(1,2) by (simp add: createSession_eq)
  moreover have "offer_media lib ?s1 = fst (rl_sdp_parse lib sdp)" using assms(4) by (simp add: offer_media_def)
  ultimately show ?thesis using onIceGatheringFinished_offer [OF ok(1) _ _ ok(2)] by auto
qed

theorem invite_when_called_first_witness:
  "\<exists>s'. run_events (ctl_step demo_lib) demo_ctl
      [CreateSession ''bob'' ''v=0'' [(''X-A'', ''1'')], OnIceGatheringFinished] = Inr s'
    \<and> calls (trace s') = calls (trace demo_ctl) @
       [SendInvite (''sip:'' @ ''bob'' @ ''@'' @ m_domain demo_ctl)
          (add_candidates demo_lib (m_localCandidates demo_ctl) (fst (rl_sdp_parse demo_lib ''v=0''))) [],
        HandleCallState ''Calling'' 0]"
  by (rule invite_when_called_first [OF demo_wired(1,4,2,3) demo_parse])

text \<open>
  (C30) The description of the first call stays. After an outgoing call has been made and
  hung up, the INVITE of the next one carries the media of the first description, with the
  first call's candidates still in it, whatever the local description of the second call is.
\<close>

theorem second_call_repeats_first_description:
  assumes "wired s" "m_localCandidatesCollected s" "m_userAgent s = Ptr ()" "offerSdp s = None"
    and "mProgress s \<noteq> Done" "snd (rl_sdp_parse lib sdp1)"
    and "rl_parses lib (''sip:'' @ r1 @ ''@'' @ m_domain s)" "rl_parses lib (''sip:'' @ r2 @ ''@'' @ m_domain s)"
  shows "\<exists>s' tr. run_events (ctl_step lib) s
      [CreateSession r1 sdp1 hs1, TerminateSession, OnIceGatheringFinished, CreateSession r2 sdp2 hs2] = Inr s'
    \<and> calls (trace s') = tr @
       [SendInvite (''sip:'' @ r2 @ ''@'' @ m_domain s)
          (add_candidates lib (m_localCandidates s) (fst (rl_sdp_parse lib sdp1))) hs2,
        HandleCallState ''Calling'' 0]"
proof -
  let ?media = "add_candidates lib (m_localCandidates s) (fst (rl_sdp_parse lib sdp1))"
  have om: "offer_media lib (s\<lparr>m_localSdp := sdp1\<rparr>) = fst (rl_sdp_parse lib sdp1)"
    using assms(4) by (simp add: offer_media_def)
  obtain s1 where s1: "createSession lib r1 sdp1 hs1 s = Inr s1" "wired s1" "m_userAgent s1 = Ptr ()"
    "m_domain s1 = m_domain s" "mProgress s1 \<noteq> Done" "offerSdp s1 = Some ?media"
    using createSession_collected [OF assms(1,2), of lib sdp1 r1 hs1] assms(3,5-7) om by auto
  obtain s2 where s2: "terminateSession s1 = Inr s2" "wired s2" "call_idle s2" "offerSdp s2 = Some ?media"
    "m_domain s2 = m_domain s" "m_userAgent s2 = Ptr ()"
    using terminateSession_result [OF s1(2,5)] s1(3,4,6) by auto
  obtain s3 where s3: "onIceGatheringFinished lib s2 = Inr s3" "wired s3" "m_localCandidatesCollected s3"
    "offerSdp s3 = Some ?media" "m_localCandidates s3 = []" "m_domain s3 = m_domain s" "m_userAgent s3 = Ptr ()"
    using gathering_without_call [OF s2(2), of lib] s2(3-6) by (auto simp: call_idle_def)
  have "offer_media lib (s3\<lparr>m_localSdp := sdp2\<rparr>) = ?media" using s3(4) by (simp add: offer_media_def)
  with createSession_collected [OF s3(2,3), of lib sdp2 r2 hs2] s3(4-7) assms(8) s1(1) s2(1) s3(1)
  show ?thesis by auto
qed

theorem second_call_repeats_first_description_witness:
  "\<exists>s' tr. run_events (ctl_step demo_lib) (demo_ctl\<lparr>m_localCandidatesCollected := True\<rparr>)
      [CreateSession ''bob'' ''v=0'' [], TerminateSession, OnIceGatheringFinished,
       CreateSession ''carol'' ''v=2'' []] = Inr s'
    \<and> calls (trace s') = tr @
       [SendInvite (''sip:'' @ ''carol'' @ ''@'' @ ''phone.plivo.com'') demo_media [],
        HandleCallState ''Calling'' 0]
    \<and> fst (rl_sdp_parse demo_lib ''v=2'') \<noteq> demo_media"
proof -
  let ?s = "demo_ctl\<lparr>m_localCandidatesCollected := True\<rparr>"
  have h: "wired ?s" "m_localCandidatesCollected ?s" "m_userAgent ?s = Ptr ()" "offerSdp ?s = None"
    "mProgress ?s \<noteq> Done" "m_localCandidates ?s = []" "m_domain ?s = ''phone.plivo.com''"
    by (simp_all add: demo_defs wired_def SipControllerCore_def)
  have p: "snd (rl_sdp_parse demo_lib ''v=0'')"
    "rl_parses demo_lib (''sip:'' @ ''bob'' @ ''@'' @ m_domain ?s)"
    "rl_parses demo_lib (''sip:'' @ ''carol'' @ ''@'' @ m_domain ?s)"
    by (simp_all add: demo_lib_def)
  have "fst (rl_sdp_parse demo_lib ''v=0'') = demo_media" "fst (rl_sdp_parse demo_lib ''v=2'') \<noteq> demo_media"
    by (simp_all add: demo_lib_def demo_media_def)
  with second_call_repeats_first_description [OF h(1-5) p, where ?hs1.0 = "[]" and ?hs2.0 = "[]" and ?sdp2.0 = "''v=2''"]
    h(6,7)
  show ?thesis by simp
qed

text \<open>
  (C7) Hanging up from the application. Unless the progress is already \<open>Done\<close> (the library
  has reported an end), \<open>terminateSession\<close> ends the client session, or the server session when
  there is no client session, deletes every session it holds exactly once, and clears the call
  flags, the local and remote description, the gathered candidates, the call id and both
  session handles. What it does not clear is stated too: the headers and the remote user of
  \<open>createSession\<close>, the progress, and the static offer and answer descriptions stay.
\<close>

theorem hang_up_leaves_idle:
  assumes "wired s" "mProgress s \<noteq> Done"
  shows "\<exists>s'. terminateSession s = Inr s' \<and> call_idle s'
    \<and> m_headers s' = m_headers s \<and> m_remoteUri s' = m_remoteUri s \<and> mProgress s' = mProgress s
    \<and> offerSdp s' = offerSdp s \<and> answerSdp s' = answerSdp s
    \<and> calls (trace s') = calls (trace s)
        @ (case m_clientInviteSession s of Some c \<Rightarrow> [EndSession c]
           | None \<Rightarrow> (case m_serverInviteSession s of Some c \<Rightarrow> [EndSession c] | None \<Rightarrow> []))
        @ (case m_clientInviteSession s of Some c \<Rightarrow> [DeleteSession c] | None \<Rightarrow> [])
        @ (case m_serverInviteSession s of Some c \<Rightarrow> [DeleteSession c] | None \<Rightarrow> [])"
  using terminateSession_result [OF assms] by blast

theorem hang_up_leaves_idle_witness:
  "\<exists>s'. terminateSession (demo_ctl\<lparr>m_clientInviteSession := Some 4, m_inCall := True, m_remoteUri := ''bob''\<rparr>) = Inr s'
    \<and> call_idle s' \<and> m_remoteUri s' = ''bob''
    \<and> calls (trace s') = [EndSession 4, DeleteSession 4]"
proof -
  let ?s = "demo_ctl\<lparr>m_clientInviteSession := Some 4, m_inCall := True, m_remoteUri := ''bob''\<rparr>"
  have "wired ?s" "mProgress ?s \<noteq> Done"
    by (simp_all add: demo_defs wired_def SipControllerCore_def)
  from hang_up_leaves_idle [OF this] show ?thesis
    by (auto simp: demo_defs SipControllerCore_def)
qed

text \<open>
  (C8) The end of a call as the library reports it, with a message that has a Call-Id, while
  the controller counts itself in a call that the application has not rejected: the
  application hears the name of the reason and a status code, then that the call is over; the
  sessions are deleted and the controller is idle. The code is the response's own when the
  message is a response; otherwise it is 200 for a BYE of the peer, 487 for its CANCEL, 486
  for a rejection and 603 for every other reason.
\<close>

theorem reported_end_leaves_idle:
  assumes "wired s" "\<not> isUACRejected s" "m_inCall s" "msg_callId m \<noteq> None"
  shows "\<exists>s'. onTerminated reason (Some m) s = Inr s' \<and> call_idle s' \<and> mProgress s' = Done
    \<and> calls (trace s') = calls (trace s)
        @ (let text = (case reason of
               RemoteBye \<Rightarrow> ''RemoteBye'' | RemoteCancel \<Rightarrow> ''RemoteCancel'' | Rejected \<Rightarrow> ''Rejected''
             | LocalBye \<Rightarrow> ''LocalBye'' | LocalCancel \<Rightarrow> ''LocalCancel'' | Replaced \<Rightarrow> ''Replaced''
             | Referred \<Rightarrow> ''Referred'' | Error \<Rightarrow> ''Error'' | Timeout \<Rightarrow> ''Timeout'')
           in [HandleCallState text (case msg_statusLine m of
                   Some c \<Rightarrow> c
                 | None \<Rightarrow> if reason = RemoteBye then 200 else if reason = RemoteCancel then 487
                     else if reason = Rejected then 486 else 603),
               HandleCall TerminateCall text])
        @ (case m_clientInviteSession s of Some c \<Rightarrow> [DeleteSession c] | None \<Rightarrow> [])
        @ (case m_serverInviteSession s of Some c \<Rightarrow> [DeleteSession c] | None \<Rightarrow> [])"
  using onTerminated_result [OF assms, of reason]
  unfolding terminated_status_def reason_code_literal fst_conv snd_conv Let_def by blast

theorem reported_end_leaves_idle_witness:
  "\<exists>s'. onTerminated RemoteCancel (Some (demo_msg\<lparr>msg_statusLine := None\<rparr>))
      (demo_ctl\<lparr>m_inCall := True, m_serverInviteSession := Some 9\<rparr>) = Inr s' \<and> call_idle s'
    \<and> mProgress s' = Done
    \<and> calls (trace s') = [HandleCallState ''RemoteCancel'' 487, HandleCall TerminateCall ''RemoteCancel'',
        DeleteSession 9]"
proof -
  let ?s = "demo_ctl\<lparr>m_inCall := True, m_serverInviteSession := Some 9\<rparr>"
  have "wired ?s" "\<not> isUACRejected ?s" "m_inCall ?s" "msg_callId (demo_msg\<lparr>msg_statusLine := None\<rparr>) \<noteq> None"
    by (simp_all add: demo_defs wired_def SipControllerCore_def)
  from reported_end_leaves_idle [OF this, of RemoteCancel] show ?thesis
    by (auto simp: demo_defs SipControllerCore_def Let_def)
qed

text \<open>
  A rejected incoming call is not cleaned up. After the library has offered a call, the
  application has rejected it and the library has confirmed the end, the session is gone but
  the controller still counts itself in a call.
\<close>

theorem rejected_call_stays_in_call:
  assumes "wired s" "isValidUserAgent m" "fields_ok m"
    and "msg_from_user m = Some from_user" "msg_to_user m = Some to_user"
  shows "\<exists>s'. run_events (ctl_step lib) s
      [OnNewSession_server (Some c) m, OnOffer m sdp, RejectSession, OnTerminated reason msg] = Inr s'
    \<and> m_inCall s' \<and> m_serverInviteSession s' = None \<and> mProgress s' = Done"
proof -
  let ?es = "[OnNewSession_server (Some c) m, OnOffer m sdp, RejectSession, OnTerminated reason msg]"
  have flags: "isUACRejected x = n_rejected (neg_of x)" for x by simp
  have "guarded_run (ctl_step lib) (ctl_guard lib) s ?es"
    using assms ctl_step_outcome [of s lib "OnNewSession_server (Some c) m"]
    by (auto simp: onNewSession_server_def onOffer_def reject_def with_callInfo_def append_unknown_fields
        wired_def ctl_eval fields_ok_def split: sum.splits option.splits)
  from ctl.run_ok [OF assms(1) this] obtain s' where s': "run_events (ctl_step lib) s ?es = Inr s'" by blast
  from ctl_run_simulates [OF assms(1) s'] have n: "neg_of s' = neg_run (neg_of s) ?es" by blast
  have "n_inCall (neg_of s') \<and> \<not> n_server (neg_of s') \<and> n_done (neg_of s')"
    unfolding n using assms(2) by (simp add: neg_reset_def)
  with s' show ?thesis by auto
qed

theorem rejected_call_stays_in_call_witness:
  "\<exists>s'. run_events (ctl_step demo_lib) demo_ctl
      [OnNewSession_server (Some 3) demo_msg, OnOffer demo_msg ''v=0'', RejectSession, OnTerminated Rejected None]
      = Inr s'
    \<and> m_inCall s' \<and> m_serverInviteSession s' = None \<and> mProgress s' = Done"
proof -
  have "isValidUserAgent demo_msg"
    by code_simp
  moreover have "fields_ok demo_msg" "msg_from_user demo_msg = Some ''alice''" "msg_to_user demo_msg = Some ''bob''"
    by (simp_all add: fields_ok_def demo_msg_def)
  ultimately show ?thesis by (rule rejected_call_stays_in_call [OF demo_wired(1)])
qed

end
