(* ===== verification/Registration.thy ===== *)
theory Registration
  imports CallFlow
begin

text \<open>
  What registering and unregistering do: the REGISTER request that each of the four
  \<open>registerUser\<close> functions puts on the wire, the credentials and the receiver thread that
  come with it, the public address learnt from the response, and the timeout setting.
\<close>

section \<open>Definitions\<close>

text \<open>The calls of \<open>setupTransport\<close> that create the stack and the dialog usage manager.\<close>

definition stack_calls :: "ctl \<Rightarrow> out list" where
  "stack_calls s =
     (if m_stack s then []
      else [StackNew (m_dnsServers s @ [''8.8.8.8'']), AddTransport UDP 5060, AddTransport TCP 5060,
            AddTransport TLS 5061, UserAgentNew, SetMasterProfile, SetKeepAliveManager, StackRun,
            StackThreadRun])"

definition proxy_uri :: "string \<Rightarrow> string option" where
  "proxy_uri p = (if p = [] then None else Some (''sip:'' @ p @ '';transport=tls''))"

text \<open>The REGISTER request for an address, a Contact, headers and an optional route.\<close>

definition register_request ::
  "resip_lib \<Rightarrow> string \<Rightarrow> string \<Rightarrow> (string \<times> string) list \<Rightarrow> string list \<Rightarrow> RegMessage" where
  "register_request lib address contact headers routes =
     \<lparr>reg_target = address, reg_headers = headers,
      reg_contacts = butlast (rl_registration_contacts lib address) @ [contact],
      reg_expires = 5184000, reg_routes = routes\<rparr>"

definition proxy_routes :: "resip_lib \<Rightarrow> string \<Rightarrow> string list" where
  "proxy_routes lib p =
     (case proxy_uri p of None \<Rightarrow> [] | Some uri \<Rightarrow> if rl_uri_host lib uri \<noteq> [] then [uri] else [])"

section \<open>The REGISTER request\<close>

lemma setupTransport_result:
  assumes "wired s" "setup_ok lib (m_proxyServer s) address contact" "contact \<noteq> []"
  shows "\<exists>s'. setupTransport lib address contact s = Inr s' \<and> wired s'
    \<and> m_stack s' \<and> m_clientAddress s' = address
    \<and> receivers s' = (if isProxyRegister s then receivers s else Suc (receivers s))
    \<and> (\<not> isProxyRegister s \<longrightarrow> m_run s' \<and> \<not> m_receiveClosed s')
    \<and> m_outboundProxy s' = proxy_uri (m_proxyServer s)
    \<and> calls (trace s') = calls (trace s) @ stack_calls s @
        [SetClientAuthManager,
         SendRegistration (register_request lib address contact (m_headers s)
           (if isProxyRegister s then proxy_routes lib (m_proxyServer s) else []))]
        @ (if isProxyRegister s then [] else [StartReceiver])"
  using assms
  by (auto simp: setupTransport_def wired_def setup_ok_def setupStack_def createMasterProfile_def
      registration_message_def register_request_def stack_calls_def proxy_uri_def proxy_routes_def
      outbound_host_def Let_def ctl_eval split: option.splits sum.splits)

lemma setupCredential_result:
  assumes "wired s" "m_stack s"
  shows "\<exists>s'. setupCredential lib u p s = Inr s' \<and> wired s' \<and> receivers s' = receivers s
    \<and> m_run s' = m_run s \<and> m_receiveClosed s' = m_receiveClosed s \<and> trace s' = trace s
    \<and> m_outboundProxy s' = m_outboundProxy s
    \<and> mp_digest (the (m_masterProfile s')) = mp_digest (the (m_masterProfile s))
        @ [(rl_uri_host lib (m_clientAddress s), rl_uri_user lib (m_clientAddress s), p)]"
  using assms by (auto simp: setupCredential_def wired_def on_profile_def)

lemma register_result:
  assumes "wired s" "setup_ok lib (m_proxyServer s) address contact" "contact \<noteq> []"
  shows "\<exists>s'. block [setupTransport lib address contact, setupCredential lib u p] s = Inr s' \<and> wired s'
    \<and> receivers s' = (if isProxyRegister s then receivers s else Suc (receivers s))
    \<and> (\<not> isProxyRegister s \<longrightarrow> m_run s' \<and> \<not> m_receiveClosed s')
    \<and> (rl_uri_host lib address, rl_uri_user lib address, p) \<in> set (mp_digest (the (m_masterProfile s')))
    \<and> calls (trace s') = calls (trace s) @ stack_calls s @
        [SetClientAuthManager,
         SendRegistration (register_request lib address contact (m_headers s)
           (if isProxyRegister s then proxy_routes lib (m_proxyServer s) else []))]
        @ (if isProxyRegister s then [] else [StartReceiver])"
proof -
  from setupTransport_result [OF assms] obtain s1 where s1:
    "setupTransport lib address contact s = Inr s1" "wired s1" "m_stack s1" "m_clientAddress s1 = address"
    "receivers s1 = (if isProxyRegister s then receivers s else Suc (receivers s))"
    "\<not> isProxyRegister s \<longrightarrow> m_run s1 \<and> \<not> m_receiveClosed s1"
    "calls (trace s1) = calls (trace s) @ stack_calls s @
        [SetClientAuthManager,
         SendRegistration (register_request lib address contact (m_headers s)
           (if isProxyRegister s then proxy_routes lib (m_proxyServer s) else []))]
        @ (if isProxyRegister s then [] else [StartReceiver])"
    by blast
  with setupCredential_result [OF s1(2,3), of lib u p] show ?thesis by auto
qed

lemma addapns_ne: "addapnsInContact c (account_uri u) t \<noteq> []"
  by (cases "t = []") (simp_all add: addapnsInContact_def account_uri_def Let_def)


section \<open>The public address\<close>

lemma onSuccess_result:
  assumes "wired s" "msg_from_user m = Some user" "msg_callId m = Some cid" "msg_vias m = Some (v # vs)"
  shows "\<exists>s'. onSuccess lib m s = Inr s' \<and> wired s' \<and> \<not> isProxyRegister s'
    \<and> m_public_ip_port s' =
       (let a = last_public lib (v # vs)
        in if t_type a = UNKNOWN_TRANSPORT \<or> rl_inet_ntop lib (t_address a) = [] then m_public_ip_port s
           else rl_inet_ntop lib (t_address a) @ '':'' @ to_string (t_port a))
    \<and> calls (trace s') = calls (trace s) @
        [HandleCallInfo (''call_id:'' @ cid), HandleRegistration Registered user]"
  using assms by (auto simp: onSuccess_def wired_def processIpAndPort_ok Let_def ctl_eval)

section \<open>Properties\<close>

lemma demo_setup: "setup_ok demo_lib p (account_uri a) c \<longleftrightarrow> True"
  by (simp add: setup_ok_def demo_lib_def account_uri_def)

lemma demo_handlers: "wired demo_ctl" "m_proxyServer demo_ctl = []" "m_domain demo_ctl = ''phone.plivo.com''"
  "m_public_ip_port demo_ctl = []" "receivers demo_ctl = 0" "trace demo_ctl = []" "m_headers demo_ctl = []"
  "\<not> m_stack demo_ctl" "m_dnsServers demo_ctl = []"
  by (simp_all add: demo_defs wired_def SipControllerCore_def)




text \<open>
  The registration with a push token. It sends one REGISTER whose Contact is the account
  with the token in the \<open>fcm\<close> parameter, whose headers are whatever an earlier call or
  registration left in \<open>m_headers\<close>, and starts one more receiver thread.
\<close>

theorem register_with_token:
  assumes "wired s" "ctl_guard lib s (RegisterUserToken u p t)"
  shows "\<exists>s'. registerUserToken lib u p t s = Inr s'
    \<and> receivers s' = Suc (receivers s) \<and> m_run s' \<and> \<not> m_receiveClosed s'
    \<and> calls (trace s') = calls (trace s) @ stack_calls s @
        [SetClientAuthManager,
         SendRegistration (register_request lib (account_uri (u @ ''@'' @ m_domain s))
           (''<sip:'' @ (u @ ''@'' @ m_domain s) @ '';transport=tls;fcm='' @ t @ ''>'') (m_headers s) []),
         StartReceiver]"
proof -
  define s1 where "s1 =
    (start_registration False u p ''registerUser: uri with (username/password/token): '' s)\<lparr>m_app_id := t\<rparr>"
  have "wired s1" using assms(1) by (simp add: s1_def)
  moreover have "m_proxyServer s1 = m_proxyServer s" "m_headers s1 = m_headers s" "\<not> isProxyRegister s1"
    "receivers s1 = receivers s" "calls (trace s1) = calls (trace s)" "stack_calls s1 = stack_calls s"
    by (simp_all add: s1_def start_registration_def stack_calls_def)
  ultimately show ?thesis
    unfolding registerUserToken_eq [OF assms(1)] s1_def [symmetric]
    using register_result [of s1 lib "account_uri (u @ ''@'' @ m_domain s)"
        "''<sip:'' @ (u @ ''@'' @ m_domain s) @ '';transport=tls;fcm='' @ t @ ''>''" u p] assms(2)
    by auto
qed

theorem register_with_token_witness:
  "\<exists>s'. registerUserToken demo_lib ''alice'' ''pw'' ''tok'' demo_ctl = Inr s'
    \<and> receivers s' = 1 \<and> m_run s' \<and> \<not> m_receiveClosed s'"
proof -
  have "ctl_guard demo_lib demo_ctl (RegisterUserToken ''alice'' ''pw'' ''tok'')"
    by (simp add: demo_setup)
  from register_with_token [OF demo_handlers(1) this] show ?thesis by (auto simp: demo_handlers)
qed

text \<open>
  The response to a registration. The application hears the call id and that the user is
  registered, and the controller keeps the public address: the one of the last Via that
  shows one, as host, colon and decimal port, and the previous value when none does.
\<close>

theorem registration_learns_public_address:
  assumes "wired s" "msg_from_user m = Some user" "msg_callId m = Some cid" "msg_vias m = Some (v # vs)"
  shows "\<exists>s'. onSuccess lib m s = Inr s' \<and> \<not> isProxyRegister s'
    \<and> m_public_ip_port s' =
       (let a = last_public lib (v # vs)
        in if t_type a = UNKNOWN_TRANSPORT \<or> rl_inet_ntop lib (t_address a) = [] then m_public_ip_port s
           else rl_inet_ntop lib (t_address a) @ '':'' @ to_string (t_port a))
    \<and> calls (trace s') = calls (trace s) @
        [HandleCallInfo (''call_id:'' @ cid), HandleRegistration Registered user]"
  using onSuccess_result [OF assms, of lib] by blast

theorem registration_learns_public_address_witness:
  "\<exists>s'. onSuccess demo_lib demo_msg demo_ctl = Inr s' \<and> m_public_ip_port s' = ''52.9.1.7:40001''"
proof -
  have h: "msg_from_user demo_msg = Some ''alice''" "msg_callId demo_msg = Some ''c1''" "msg_vias demo_msg = Some [demo_via]"
    by (simp_all add: demo_msg_def)
  have a: "last_public demo_lib [demo_via] = \<lparr>t_address = ''52.9.1.7'', t_port = 40001, t_type = TLS\<rparr>"
    by (simp add: last_public_def via_public_def via_tuple_def via_port_def demo_lib_def demo_via_def map_filter_simps)
  have "to_string 40001 = ''40001''"
    by (simp add: to_string_def digits_of.simps char_of_def bit_0)
  with registration_learns_public_address [OF demo_handlers(1) h, of demo_lib] a show ?thesis
    by (auto simp: demo_lib_def)
qed

text \<open>
  The registration timeout. The log argument is the literal indexed by the timeout, so the
  call completes exactly for timeouts of 0 to 32 and then logs a suffix of the literal; every
  larger or negative timeout reads outside the literal.
\<close>

theorem register_timeout_exact:
  assumes "wired s"
  shows "registerTimeOut time s =
    (if 0 \<le> time \<and> time \<le> 32
     then Inr (s\<lparr>trace := trace s @ [HandleLog (''SipControllerCore:: '' @ drop (nat time) reg_timeout_literal)],
                m_reg_timeout := time\<rparr>)
     else Inl LiteralOverrun)"
  using assms by (simp add: registerTimeOut_def wired_def handleLog_eval reg_timeout_literal_def)

theorem register_timeout_exact_witness:
  "registerTimeOut 600 demo_ctl = Inl LiteralOverrun"
  using register_timeout_exact [OF demo_handlers(1), of 600] by simp

text \<open>
  Registering twice without a proxy. The second registration starts a second receiver
  thread next to the first, and replaces the only pointer to it.
\<close>

theorem second_registration_second_receiver:
  assumes "wired s" "ctl_guard lib s (RegisterUserToken u p t)" "ctl_guard lib s (RegisterUserToken u p' t')"
  shows "\<exists>s'. run_events (ctl_step lib) s [RegisterUserToken u p t, RegisterUserToken u p' t'] = Inr s'
    \<and> receivers s' = receivers s + 2"
proof -
  have count: "\<exists>s'. registerUserToken lib u p t s = Inr s' \<and> wired s'
      \<and> receivers s' = Suc (receivers s) \<and> m_domain s' = m_domain s \<and> m_proxyServer s' = m_proxyServer s"
    if "wired s" "ctl_guard lib s (RegisterUserToken u p t)" for s p t
  proof -
    from that have "setup_ok lib (m_proxyServer s) (account_uri (u @ ''@'' @ m_domain s))
      (''<sip:'' @ (u @ ''@'' @ m_domain s) @ '';transport=tls;fcm='' @ t @ ''>'')" by simp
    with that(1) show ?thesis
      by (auto simp: registerUserToken_eq setupTransport_def setupCredential_def wired_def setup_ok_def
          start_registration_def setupStack_def createMasterProfile_def registration_message_def Let_def
          ctl_eval split: option.splits sum.splits)
  qed
  from count [OF assms(1,2)] obtain s1 where s1: "registerUserToken lib u p t s = Inr s1" "wired s1"
    "receivers s1 = Suc (receivers s)" "m_domain s1 = m_domain s" "m_proxyServer s1 = m_proxyServer s" by blast
  with assms(3) have "ctl_guard lib s1 (RegisterUserToken u p' t')" by simp
  from count [OF s1(2) this] s1 show ?thesis by auto
qed

theorem second_registration_second_receiver_witness:
  "\<exists>s'. run_events (ctl_step demo_lib) demo_ctl
      [RegisterUserToken ''alice'' ''pw'' ''t'', RegisterUserToken ''alice'' ''pw'' ''t''] = Inr s'
    \<and> receivers s' = 2"
proof -
  have g: "ctl_guard demo_lib demo_ctl (RegisterUserToken ''alice'' ''pw'' ''t'')" by (simp add: demo_setup)
  from second_registration_second_receiver [OF demo_handlers(1) g g] show ?thesis
    by (simp add: demo_handlers numeral_2_eq_2)
qed

end
