(* ===== verification/Guarantees.thy ===== *)
theory Guarantees
  imports Ownership Registration
begin

text \<open>
  What holds of the controller over all its events: exactly when an event completes, that
  the offer/answer machine describes it, that answers and invitations have a cause, that
  sessions are deleted once, and what its message readers and address builders compute.
\<close>

section \<open>Completion\<close>



text \<open>
  Runs. A sequence of events whose guards hold as they come is processed to its end, and
  so is every prefix of it; the controller is initialised with its mutex free throughout.
\<close>

theorem ctl_runs_to_completion:
  assumes "wired s" "guarded_run (ctl_step lib) (ctl_guard lib) s (xs @ ys)"
  shows "\<exists>s1 s2. run_events (ctl_step lib) s xs = Inr s1 \<and> wired s1
    \<and> run_events (ctl_step lib) s1 ys = Inr s2 \<and> wired s2"
proof -
  from ctl.run_prefix_ok [OF assms] obtain s1 where s1: "run_events (ctl_step lib) s xs = Inr s1" "wired s1"
    "guarded_run (ctl_step lib) (ctl_guard lib) s1 ys" by blast
  from ctl.run_ok [OF s1(2,3)] s1 show ?thesis by blast
qed

theorem ctl_runs_to_completion_witness:
  "\<exists>s1 s2. run_events (ctl_step demo_lib) demo_ctl [OnIceCandidate ''candidate:1'' ''audio'', OnProvisional] = Inr s1
    \<and> wired s1 \<and> run_events (ctl_step demo_lib) s1 [OnRedirected] = Inr s2 \<and> wired s2"
proof -
  have "guarded_run (ctl_step demo_lib) (ctl_guard demo_lib) demo_ctl
      ([OnIceCandidate ''candidate:1'' ''audio'', OnProvisional] @ [OnRedirected])"
    by (simp split: sum.split)
  from ctl_runs_to_completion [OF demo_handlers(1) this] show ?thesis .
qed

section \<open>Signalling\<close>

text \<open>
  (C2) The controller refines the offer/answer machine: after any completed run, its call flags
  are those of the machine, and the invitations, answers, rejections and endings it has
  ordered are those the machine orders, in the same sequence.
\<close>

theorem ctl_refines_negotiation:
  assumes "wired s" "run_events (ctl_step lib) s es = Inr s'"
  shows "neg_of s' = neg_run (neg_of s) es \<and> signals (trace s') = signals (trace s) @ neg_outs (neg_of s) es"
  using ctl_run_simulates [OF assms] .

lemma demo_call_run:
  "\<exists>s'. run_events (ctl_step demo_lib) demo_ctl [CreateSession ''bob'' ''v=0'' [], OnIceGatheringFinished] = Inr s'"
proof -
  let ?s1 = "call_started ''bob'' ''v=0'' [] demo_ctl"
  have "wired ?s1" "offer_ok demo_lib ?s1" using demo_wired demo_parse by (simp_all add: wired_mutex offer_ok_started)
  moreover have "createSession demo_lib ''bob'' ''v=0'' [] demo_ctl = Inr ?s1"
    using demo_wired by (simp add: createSession_eq)
  ultimately show ?thesis using onIceGatheringFinished_offer [of ?s1 demo_lib] by auto
qed

theorem ctl_refines_negotiation_witness:
  "\<exists>s'. run_events (ctl_step demo_lib) demo_ctl [CreateSession ''bob'' ''v=0'' [], OnIceGatheringFinished] = Inr s'
    \<and> m_inCall s' \<and> signals (trace s') = [Invite]"
proof -
  obtain s' where s': "run_events (ctl_step demo_lib) demo_ctl
      [CreateSession ''bob'' ''v=0'' [], OnIceGatheringFinished] = Inr s'" using demo_call_run by blast
  have r: "neg_of s' = neg_run (neg_of demo_ctl) [CreateSession ''bob'' ''v=0'' [], OnIceGatheringFinished]
      \<and> signals (trace s') = signals (trace demo_ctl)
          @ neg_outs (neg_of demo_ctl) [CreateSession ''bob'' ''v=0'' [], OnIceGatheringFinished]"
    by (rule ctl_refines_negotiation [OF demo_handlers(1) s'])
  then have "n_inCall (neg_of s')" by simp
  then have "m_inCall s'" by (simp only: neg_of_simps)
  with r s' show ?thesis by (simp add: demo_handlers demo_wired)
qed

lemma signals_Answer: "ProvideAnswer c m \<in> set tr \<Longrightarrow> Answer \<in> set (signals tr)"
  by (auto simp: signals_def intro!: bexI [of _ "ProvideAnswer c m"])

lemma signals_Invite: "SendInvite a m hs \<in> set tr \<Longrightarrow> Invite \<in> set (signals tr)"
  by (auto simp: signals_def intro!: bexI [of _ "SendInvite a m hs"])

text \<open>
  (C5) No answer without consent. If no call is accepted at the start of a run and the run
  provides an answer to the peer, then the run contains an \<open>acceptSession\<close> of the
  application; in particular an incoming call is never answered by the end of the ICE
  gathering alone.
\<close>

theorem answer_only_after_accept:
  assumes "wired s" "\<not> m_inInBoundAccepted s" "signals (trace s) = []"
    and "run_events (ctl_step lib) s es = Inr s'" "ProvideAnswer c media \<in> set (trace s')"
  shows "\<exists>sdp. AcceptSession sdp \<in> set es"
  using ctl_run_simulates [OF assms(1,4)] signals_Answer [OF assms(5)] assms(2,3)
    neg_answer_needs_accept [of "neg_of s" es]
  by simp

lemma demo_answer_run:
  "\<exists>s'. run_events (ctl_step demo_lib) (demo_ctl\<lparr>m_serverInviteSession := Some 3\<rparr>)
      [OnIceGatheringFinished, AcceptSession ''v=0''] = Inr s'
    \<and> ProvideAnswer 3 demo_media \<in> set (trace s')"
  by (simp add: onIceGatheringFinished_def acceptSession_def sendSdpAnswer_def answer_session_def
      demo_defs SipControllerCore_def ctl_eval)

theorem answer_only_after_accept_witness:
  "\<exists>s' sdp. run_events (ctl_step demo_lib) (demo_ctl\<lparr>m_serverInviteSession := Some 3\<rparr>)
      [OnIceGatheringFinished, AcceptSession ''v=0''] = Inr s'
    \<and> AcceptSession sdp \<in> set [OnIceGatheringFinished, AcceptSession ''v=0'']"
proof -
  let ?s = "demo_ctl\<lparr>m_serverInviteSession := Some 3\<rparr>"
  have h: "wired ?s" "\<not> m_inInBoundAccepted ?s" "signals (trace ?s) = []"
    by (simp_all add: demo_defs wired_def SipControllerCore_def)
  obtain s' where s': "run_events (ctl_step demo_lib) ?s [OnIceGatheringFinished, AcceptSession ''v=0''] = Inr s'"
    "ProvideAnswer 3 demo_media \<in> set (trace s')" using demo_answer_run by blast
  from answer_only_after_accept [OF h s'] s'(1) show ?thesis by blast
qed

text \<open>
  (C6) No invitation without a call. If the controller is not a caller at the start of a run
  and the run sends an INVITE, then the run contains a \<open>createSession\<close>.
\<close>

theorem invite_only_after_call:
  assumes "wired s" "\<not> m_isCaller s" "signals (trace s) = []"
    and "run_events (ctl_step lib) s es = Inr s'" "SendInvite a media hs \<in> set (trace s')"
  shows "\<exists>r sdp hs'. CreateSession r sdp hs' \<in> set es"
  using ctl_run_simulates [OF assms(1,4)] signals_Invite [OF assms(5)] assms(2,3)
    neg_invite_needs_call [of "neg_of s" es]
  by simp

theorem invite_only_after_call_witness:
  "\<exists>s' r sdp hs'. run_events (ctl_step demo_lib) demo_ctl
      [OnIceGatheringFinished, CreateSession ''bob'' ''v=0'' []] = Inr s'
    \<and> CreateSession r sdp hs' \<in> set [OnIceGatheringFinished, CreateSession ''bob'' ''v=0'' []]"
proof -
  have h: "\<not> m_isCaller demo_ctl" "signals (trace demo_ctl) = []"
    by (simp_all add: demo_defs SipControllerCore_def)
  obtain s' where s': "run_events (ctl_step demo_lib) demo_ctl
      [OnIceGatheringFinished, CreateSession ''bob'' ''v=0'' []] = Inr s'"
    "SendInvite ''sip:bob@phone.plivo.com'' demo_media [] \<in> set (trace s')"
    by (simp add: onIceGatheringFinished_def createSession_def sendSdpOffer_def offer_session_def
        demo_defs SipControllerCore_def ctl_eval)
  from invite_only_after_call [OF demo_handlers(1) h s'] s'(1) show ?thesis by blast
qed

section \<open>Sessions\<close>

text \<open>
  (C3) Ownership of sessions. When a run starts with no session held and none deleted and the
  library hands out distinct sessions, then at its end every session the controller has taken
  is either still held, once, or has been deleted exactly once, never both and never twice.
\<close>

theorem sessions_deleted_once:
  assumes "run_events (ctl_step lib) s es = Inr s'"
    and "held s = {#}" "deleted (trace s) = {#}"
    and "\<forall>c. count (sum_list (map taken es)) c \<le> 1"
  shows "held s' + deleted (trace s') = sum_list (map taken es)
    \<and> (\<forall>c. count (held s') c + count (deleted (trace s')) c \<le> 1)"
proof -
  have eq: "held s' + deleted (trace s') = sum_list (map taken es)"
    using ctl_run_balanced [OF assms(1)] assms(2,3) by (simp add: account_def)
  have "count (held s') c + count (deleted (trace s')) c \<le> 1" for c
    using assms(4) arg_cong [OF eq, of "\<lambda>m. count m c"] by simp
  with eq show ?thesis by blast
qed

lemma demo_ua: "isValidUserAgent demo_msg"
  by code_simp

theorem sessions_deleted_once_witness:
  "\<exists>s'. run_events (ctl_step demo_lib) demo_ctl
      [OnNewSession_server (Some 3) demo_msg, TerminateSession, OnNewSession_server (Some 4) demo_msg] = Inr s'
    \<and> held s' + deleted (trace s') = {#3, 4#}"
proof -
  let ?es = "[OnNewSession_server (Some 3) demo_msg, TerminateSession, OnNewSession_server (Some 4) demo_msg]"
  have "guarded_run (ctl_step demo_lib) (ctl_guard demo_lib) demo_ctl ?es"
    by (simp split: sum.split)
  from ctl.run_ok [OF demo_handlers(1) this] obtain s' where s': "run_events (ctl_step demo_lib) demo_ctl ?es = Inr s'"
    by blast
  have h: "held demo_ctl = {#}" "deleted (trace demo_ctl) = {#}"
    by (simp_all add: demo_defs SipControllerCore_def held_def)
  have t: "sum_list (map taken ?es) = {#3, 4#}" by (simp add: demo_ua)
  from sessions_deleted_once [OF s' h] s' t show ?thesis by simp
qed

section \<open>Message readers\<close>

text \<open>
  The public address. The backward loop over a non-empty Via stack returns the address of
  the last Via that shows a public one (the \<open>received\<close> parameter first, then an IPv4 sent-by
  host), and the empty tuple when none does; it never runs off the front of the stack. What
  it returns is not a private address unless it is the empty tuple.
\<close>

theorem processIpAndPort_last_public:
  assumes "msg_vias m = Some vias" "vias \<noteq> []"
  shows "processIpAndPort lib m = Inr (last_public lib vias)
    \<and> (last_public lib vias = rl_defaultTuple lib
       \<or> (\<exists>v. v \<in> set vias \<and> \<not> rl_isPrivateAddress lib (t_address (last_public lib vias))
            \<and> (v_received v = Some (t_address (last_public lib vias)) \<or> v_sentHost v = t_address (last_public lib vias))
            \<and> t_port (last_public lib vias) = via_port v))"
proof -
  have "processIpAndPort lib m = Inr (last_public lib vias)"
    using assms via_loop_last_public [of "length vias" vias lib] by (simp add: processIpAndPort_def)
  moreover have "last_public lib vias = rl_defaultTuple lib
       \<or> (\<exists>v. v \<in> set vias \<and> via_public lib v = Some (last_public lib vias))"
    using last_public_cases [of lib vias] by blast
  ultimately show ?thesis using via_public_sound [of lib _ "last_public lib vias"] by metis
qed

theorem processIpAndPort_last_public_witness:
  "processIpAndPort demo_lib (demo_msg\<lparr>msg_vias := Some [demo_via, demo_via\<lparr>v_received := None\<rparr>]\<rparr>)
    = Inr \<lparr>t_address = ''52.9.1.7'', t_port = 40001, t_type = TLS\<rparr>"
proof -
  let ?vs = "[demo_via, demo_via\<lparr>v_received := None\<rparr>]"
  have "msg_vias (demo_msg\<lparr>msg_vias := Some ?vs\<rparr>) = Some ?vs" "?vs \<noteq> []" by simp_all
  from processIpAndPort_last_public [OF this, of demo_lib] show ?thesis
    by (simp add: last_public_def via_public_def via_tuple_def via_port_def demo_lib_def demo_via_def
        map_filter_simps)
qed

text \<open>
  The user agent check accepts a message exactly when it has a User-Agent header that
  contains the word plivo, in whatever case.
\<close>

theorem user_agent_accepted_iff:
  "isValidUserAgent msg \<longleftrightarrow>
     (\<exists>ua xs ys. msg_userAgent msg = Some ua \<and> map c_tolower ua = xs @ ''plivo'' @ ys)"
  by (rule isValidUserAgent_iff)

section \<open>Addresses\<close>

text \<open>
  Push parameters. For an account without brackets in its parts, \<open>addapnsInContact\<close> yields
  one bracketed URI exactly when it is given a token; with an empty token it adds a second
  closing bracket to the one \<open>createUri\<close> has written.
\<close>

theorem push_contact_bracketed_iff:
  assumes "plain uri" "plain certid" "plain token"
  shows "bracketed (addapnsInContact certid (account_uri uri) token) \<longleftrightarrow> token \<noteq> []"
  by (rule addapns_bracketed_iff [OF assms])

theorem push_contact_bracketed_iff_witness:
  "bracketed (addapnsInContact ''c9'' (account_uri ''alice@plivo.com'') ''tok'')
   \<and> \<not> bracketed (addapnsInContact ''c9'' (account_uri ''alice@plivo.com'') [])"
  using push_contact_bracketed_iff [of "''alice@plivo.com''" "''c9''" "''tok''"]
    push_contact_bracketed_iff [of "''alice@plivo.com''" "''c9''" "[]"]
  by simp

text \<open>
  The Contact of a proxy registration is one bracketed URI whenever the token is not
  empty, whichever of the certificate and the token are absent (given as NA) and whether or
  not the public address is known.
\<close>

theorem proxy_contact_bracketed:
  assumes "plain username" "plain uri" "plain ip" "plain token" "plain certid" "token \<noteq> []"
  shows "bracketed (proxyContact username (account_uri uri) ip token certid)"
  by (rule proxyContact_bracketed [OF assms])

theorem proxy_contact_bracketed_witness:
  "bracketed (proxyContact ''alice'' (account_uri ''alice@plivo.com'') [] ''tok'' ''NA'')"
  by (rule proxy_contact_bracketed) simp_all

section \<open>Two corner cases\<close>

text \<open>
  A termination without a message. Unless the call was rejected locally, the end of a
  session that the library reports with no message makes the controller dereference the null
  message, before the checks for null that come later in the function.
\<close>

theorem termination_without_message:
  assumes "wired s" "\<not> isUACRejected s"
  shows "onTerminated reason None s = Inl NullDeref"
  using assms by (simp add: onTerminated_def wired_def ctl_eval)

theorem termination_without_message_witness:
  "onTerminated Timeout None demo_ctl = Inl NullDeref"
proof -
  have "\<not> isUACRejected demo_ctl" by (simp add: demo_defs SipControllerCore_def)
  from termination_without_message [OF demo_handlers(1) this] show ?thesis .
qed

text \<open>
  A change of network during an incoming call. The re-INVITE is targeted at the user of
  the last outgoing call, whoever is calling: after a call to one user has ended and another
  user has called in, the refresh of the incoming session names the first.
\<close>

theorem network_change_targets_last_callee:
  assumes "wired s" "m_clientInviteSession s = None" "m_serverInviteSession s = Some c"
    and "rl_parses lib (remote_address s)"
  shows "\<exists>s'. networkChange lib s = Inr s'
    \<and> calls (trace s') = calls (trace s) @ [TargetRefresh c (''sip:'' @ m_remoteUri s @ ''@'' @ m_domain s)]"
  using assms by (simp add: networkChange_def wired_def remote_address_def ctl_eval)

theorem network_change_targets_last_callee_witness:
  "\<exists>s'. networkChange demo_lib (demo_ctl\<lparr>m_remoteUri := ''bob'', m_serverInviteSession := Some 8\<rparr>) = Inr s'
    \<and> calls (trace s') = [TargetRefresh 8 ''sip:bob@phone.plivo.com'']"
proof -
  let ?s = "demo_ctl\<lparr>m_remoteUri := ''bob'', m_serverInviteSession := Some 8\<rparr>"
  have h: "wired ?s" "m_clientInviteSession ?s = None" "m_serverInviteSession ?s = Some 8"
    "rl_parses demo_lib (remote_address ?s)"
    by (simp_all add: demo_defs wired_def SipControllerCore_def remote_address_def)
  from network_change_targets_last_callee [OF h] show ?thesis by (simp add: demo_wired demo_handlers)
qed

end
