(* ===== verification/Receiver.thy ===== *)
theory Receiver
  imports Prelude
begin

text \<open>
  The receiver threads and their shutdown: \<open>SipControllerCore::receive\<close>, the start of a
  receiver at the end of \<open>setupTransport\<close>, and the end of \<open>unregisterUser\<close>, as the
  interleaving of one application thread with any number of receivers over
  \<open>m_receiveMutex\<close>, \<open>m_run\<close>, \<open>m_receiveClosed\<close> and \<open>m_receiveCondition\<close>.
  The sequential model of the controller takes how a wait ends as an argument of
  \<open>wait_receiver\<close>; here the three ends are derived: with a receiver the wait can end
  (\<open>logout_can_finish\<close>), it does not end while no event arrives (\<open>logout_waits_for_event\<close>),
  and without a receiver it never does (\<open>logout_without_receiver_is_stuck\<close>). The flag of the step relation says whether a wait may also wake up
  spuriously, as condition variables are allowed to; the code does not loop around its wait.
\<close>

section \<open>Threads\<close>

text \<open>
  A receiver: at the head of the loop, after \<open>process\<close>, with the mutex before and after
  reading \<open>m_run\<close>, after the loop, with the mutex to close, before the notification, ended.
\<close>

datatype rpc = RLoop | RProcessed | RLocked | RHold bool | RExit | RClosing | RNotify | REnded

text \<open>
  The application thread: outside, before and in the section that clears \<open>m_run\<close>, before
  and in the section that tests \<open>m_receiveClosed\<close>, waiting, woken, and back in the section.
\<close>

datatype apc = AOutside | AStop | AStopping | ACheck | AChecking | AWaiting | AWoken | AReturning

datatype who = App | Rcv nat

record rstate =
  r_run :: bool
  r_closed :: bool
  r_owner :: "who option"
  r_app :: apc
  r_rcvs :: "rpc list"

text \<open>A receiver moves to another point, by itself or around the mutex.\<close>

definition rcv_to :: "nat \<Rightarrow> rpc \<Rightarrow> rstate \<Rightarrow> rstate" where
  "rcv_to i pc s = s\<lparr>r_rcvs := (r_rcvs s)[i := pc]\<rparr>"

inductive rstep :: "bool \<Rightarrow> rstate \<Rightarrow> rstate \<Rightarrow> bool" where
  start: "r_app s = AOutside \<Longrightarrow>
     rstep sp s (s\<lparr>r_run := True, r_closed := False, r_rcvs := r_rcvs s @ [RLoop]\<rparr>)"
| no_events: "i < length (r_rcvs s) \<Longrightarrow> r_rcvs s ! i = RLoop \<Longrightarrow> rstep sp s s"
| has_events: "i < length (r_rcvs s) \<Longrightarrow> r_rcvs s ! i = RLoop \<Longrightarrow> rstep sp s (rcv_to i RProcessed s)"
| lock_read: "i < length (r_rcvs s) \<Longrightarrow> r_rcvs s ! i = RProcessed \<Longrightarrow> r_owner s = None \<Longrightarrow>
     rstep sp s (rcv_to i RLocked (s\<lparr>r_owner := Some (Rcv i)\<rparr>))"
| read_run: "i < length (r_rcvs s) \<Longrightarrow> r_rcvs s ! i = RLocked \<Longrightarrow> rstep sp s (rcv_to i (RHold (r_run s)) s)"
| unlock_read: "i < length (r_rcvs s) \<Longrightarrow> r_rcvs s ! i = RHold run \<Longrightarrow>
     rstep sp s (rcv_to i (if run then RLoop else RExit) (s\<lparr>r_owner := None\<rparr>))"
| lock_close: "i < length (r_rcvs s) \<Longrightarrow> r_rcvs s ! i = RExit \<Longrightarrow> r_owner s = None \<Longrightarrow>
     rstep sp s (rcv_to i RClosing (s\<lparr>r_owner := Some (Rcv i)\<rparr>))"
| close: "i < length (r_rcvs s) \<Longrightarrow> r_rcvs s ! i = RClosing \<Longrightarrow>
     rstep sp s (rcv_to i RNotify (s\<lparr>r_closed := True, r_owner := None\<rparr>))"
| notify: "i < length (r_rcvs s) \<Longrightarrow> r_rcvs s ! i = RNotify \<Longrightarrow>
     rstep sp s (rcv_to i REnded (s\<lparr>r_app := (if r_app s = AWaiting then AWoken else r_app s)\<rparr>))"
| logout: "r_app s = AOutside \<Longrightarrow> rstep sp s (s\<lparr>r_app := AStop\<rparr>)"
| lock_stop: "r_app s = AStop \<Longrightarrow> r_owner s = None \<Longrightarrow> rstep sp s (s\<lparr>r_app := AStopping, r_owner := Some App\<rparr>)"
| stop: "r_app s = AStopping \<Longrightarrow> rstep sp s (s\<lparr>r_app := ACheck, r_run := False, r_owner := None\<rparr>)"
| lock_check: "r_app s = ACheck \<Longrightarrow> r_owner s = None \<Longrightarrow> rstep sp s (s\<lparr>r_app := AChecking, r_owner := Some App\<rparr>)"
| check: "r_app s = AChecking \<Longrightarrow>
     rstep sp s (s\<lparr>r_app := (if r_closed s then AOutside else AWaiting), r_owner := None\<rparr>)"
| spurious: "sp \<Longrightarrow> r_app s = AWaiting \<Longrightarrow> rstep sp s (s\<lparr>r_app := AWoken\<rparr>)"
| lock_return: "r_app s = AWoken \<Longrightarrow> r_owner s = None \<Longrightarrow> rstep sp s (s\<lparr>r_app := AReturning, r_owner := Some App\<rparr>)"
| return: "r_app s = AReturning \<Longrightarrow> rstep sp s (s\<lparr>r_app := AOutside, r_owner := None\<rparr>)"

inductive_cases rstepE: "rstep sp s s'"

definition initial :: rstate where
  "initial = \<lparr>r_run = False, r_closed = False, r_owner = None, r_app = AOutside, r_rcvs = []\<rparr>"

section \<open>The invariant\<close>

fun rcv_holds :: "rpc \<Rightarrow> bool" where
  "rcv_holds RLocked = True" | "rcv_holds (RHold _) = True" | "rcv_holds RClosing = True"
| "rcv_holds _ = False"

fun app_holds :: "apc \<Rightarrow> bool" where
  "app_holds AStopping = True" | "app_holds AChecking = True" | "app_holds AReturning = True"
| "app_holds _ = False"

fun rcv_open :: "rpc \<Rightarrow> bool" where
  "rcv_open RNotify = False" | "rcv_open REnded = False" | "rcv_open _ = True"

text \<open>
  The mutex is held by exactly the thread that is inside a section; \<open>m_run\<close> is false from
  the section that clears it to the return; while \<open>m_receiveClosed\<close> is false, a started
  receiver has yet to close; while the application waits, one has yet to end.
\<close>

definition rinv :: "rstate \<Rightarrow> bool" where
  "rinv s \<longleftrightarrow>
     (r_owner s = Some App \<longleftrightarrow> app_holds (r_app s))
   \<and> (\<forall>i < length (r_rcvs s). r_owner s = Some (Rcv i) \<longleftrightarrow> rcv_holds (r_rcvs s ! i))
   \<and> (\<forall>i. r_owner s = Some (Rcv i) \<longrightarrow> i < length (r_rcvs s))
   \<and> (r_app s \<in> {ACheck, AChecking, AWaiting, AWoken, AReturning} \<longrightarrow> \<not> r_run s)
   \<and> (\<not> r_closed s \<and> r_rcvs s \<noteq> [] \<longrightarrow> (\<exists>i < length (r_rcvs s). rcv_open (r_rcvs s ! i)))
   \<and> (r_app s = AWaiting \<and> r_rcvs s \<noteq> [] \<longrightarrow> (\<exists>i < length (r_rcvs s). r_rcvs s ! i \<noteq> REnded))"

lemma rinvD:
  assumes "rinv s"
  shows "r_owner s = Some App \<longleftrightarrow> app_holds (r_app s)"
    "i < length (r_rcvs s) \<Longrightarrow> r_owner s = Some (Rcv i) \<longleftrightarrow> rcv_holds (r_rcvs s ! i)"
    "r_owner s = Some (Rcv i) \<Longrightarrow> i < length (r_rcvs s)"
    "r_app s \<in> {ACheck, AChecking, AWaiting, AWoken, AReturning} \<Longrightarrow> \<not> r_run s"
    "\<not> r_closed s \<Longrightarrow> r_rcvs s \<noteq> [] \<Longrightarrow> \<exists>i < length (r_rcvs s). rcv_open (r_rcvs s ! i)"
    "r_app s = AWaiting \<Longrightarrow> r_rcvs s \<noteq> [] \<Longrightarrow> \<exists>i < length (r_rcvs s). r_rcvs s ! i \<noteq> REnded"
  using assms by (auto simp: rinv_def)

lemma rcv_to_simps [simp]:
  "r_run (rcv_to i pc s) = r_run s" "r_closed (rcv_to i pc s) = r_closed s"
  "r_owner (rcv_to i pc s) = r_owner s" "r_app (rcv_to i pc s) = r_app s"
  "r_rcvs (rcv_to i pc s) = (r_rcvs s)[i := pc]"
  by (simp_all add: rcv_to_def)

lemma open_not_ended: "rcv_open pc \<Longrightarrow> pc \<noteq> REnded"
  by (cases pc) auto

text \<open>A receiver step that stays open keeps the two existence clauses.\<close>

lemma ex_update:
  assumes "i < length xs" "P (xs[i := x] ! i) \<or> \<not> P (xs ! i)" "\<exists>j < length xs. P (xs ! j)"
  shows "\<exists>j < length (xs[i := x]). P (xs[i := x] ! j)"
  using assms by (metis length_list_update nth_list_update_neq)

lemma rinv_start:
  assumes "rinv s" "r_app s = AOutside"
  shows "rinv (s\<lparr>r_run := True, r_closed := False, r_rcvs := r_rcvs s @ [RLoop]\<rparr>)"
  using assms by (auto simp: rinv_def nth_append less_Suc_eq)

lemma rinv_rcv:
  assumes "rinv s" "i < length (r_rcvs s)"
    and "rcv_open pc" "rcv_open (r_rcvs s ! i)"
    and "o' = r_owner s \<and> rcv_holds pc = rcv_holds (r_rcvs s ! i)
      \<or> r_owner s = None \<and> o' = Some (Rcv i) \<and> rcv_holds pc
      \<or> rcv_holds (r_rcvs s ! i) \<and> o' = None \<and> \<not> rcv_holds pc"
  shows "rinv (rcv_to i pc (s\<lparr>r_owner := o'\<rparr>))"
proof -
  note d = rinvD [OF assms(1)]
  have ex: "\<exists>j < length ((r_rcvs s)[i := pc]). rcv_open ((r_rcvs s)[i := pc] ! j)"
    "\<exists>j < length ((r_rcvs s)[i := pc]). (r_rcvs s)[i := pc] ! j \<noteq> REnded"
    using assms(2,3) by (auto intro!: exI [of _ i] dest: open_not_ended)
  have uniq: "j = k" if "rcv_holds (r_rcvs s ! j)" "rcv_holds (r_rcvs s ! k)" "j < length (r_rcvs s)"
    "k < length (r_rcvs s)" for j k
    using d(2) [OF that(3)] d(2) [OF that(4)] that(1,2) by simp
  show ?thesis
    using assms(2,5) d(1-4) ex uniq unfolding rinv_def
    by (auto simp: nth_list_update)
qed

lemma rinv_close:
  assumes "rinv s" "i < length (r_rcvs s)" "r_rcvs s ! i = RClosing"
  shows "rinv (rcv_to i RNotify (s\<lparr>r_closed := True, r_owner := None\<rparr>))"
proof -
  note d = rinvD [OF assms(1)]
  have own: "r_owner s = Some (Rcv i)" using d(2) [OF assms(2)] assms(3) by simp
  have none: "\<not> rcv_holds (r_rcvs s ! j)" if "j < length (r_rcvs s)" "j \<noteq> i" for j
    using d(2) [OF that(1)] own that(2) by auto
  have "\<exists>j < length ((r_rcvs s)[i := RNotify]). (r_rcvs s)[i := RNotify] ! j \<noteq> REnded"
    using assms(2) by (auto intro!: exI [of _ i])
  with assms(2) d(1-4) own none show ?thesis unfolding rinv_def by (auto simp: nth_list_update)
qed

lemma rinv_notify:
  assumes "rinv s" "i < length (r_rcvs s)" "r_rcvs s ! i = RNotify"
  shows "rinv (rcv_to i REnded (s\<lparr>r_app := (if r_app s = AWaiting then AWoken else r_app s)\<rparr>))"
proof -
  note d = rinvD [OF assms(1)]
  have "\<exists>j < length ((r_rcvs s)[i := REnded]). rcv_open ((r_rcvs s)[i := REnded] ! j)"
    if "\<not> r_closed s" "r_rcvs s \<noteq> []"
    using ex_update [of i "r_rcvs s" rcv_open REnded] assms(2,3) d(5) [OF that] by simp
  with assms(2,3) d(1-4) show ?thesis unfolding rinv_def by (auto simp: nth_list_update)
qed

lemma rinv_app:
  assumes "rinv s"
    and "o' = r_owner s \<and> app_holds a = app_holds (r_app s)
      \<or> r_owner s = None \<and> o' = Some App \<and> app_holds a
      \<or> app_holds (r_app s) \<and> o' = None \<and> \<not> app_holds a"
    and "a \<in> {ACheck, AChecking, AWaiting, AWoken, AReturning} \<Longrightarrow> \<not> run"
    and "a = AWaiting \<Longrightarrow> \<not> r_closed s"
  shows "rinv (s\<lparr>r_app := a, r_run := run, r_owner := o'\<rparr>)"
proof -
  note d = rinvD [OF assms(1)]
  have "\<exists>i < length (r_rcvs s). r_rcvs s ! i \<noteq> REnded" if "a = AWaiting" "r_rcvs s \<noteq> []"
    using d(5) [OF assms(4) [OF that(1)] that(2)] open_not_ended by blast
  moreover have "o' = Some (Rcv i) \<longleftrightarrow> r_owner s = Some (Rcv i)" "o' = Some App \<longleftrightarrow> app_holds a" for i
    using assms(2) d(1) by auto
  ultimately show ?thesis using assms(3) d(2,3,5) by (simp add: rinv_def)
qed

lemma rinv_app_keep:
  assumes "rinv s"
    and "o' = r_owner s \<and> app_holds a = app_holds (r_app s)
      \<or> r_owner s = None \<and> o' = Some App \<and> app_holds a
      \<or> app_holds (r_app s) \<and> o' = None \<and> \<not> app_holds a"
    and "a \<in> {ACheck, AChecking, AWaiting, AWoken, AReturning} \<Longrightarrow>
      r_app s \<in> {ACheck, AChecking, AWaiting, AWoken, AReturning}"
    and "a = AWaiting \<Longrightarrow> \<not> r_closed s"
  shows "rinv (s\<lparr>r_app := a, r_owner := o'\<rparr>)"
proof -
  have "rinv (s\<lparr>r_app := a, r_run := r_run s, r_owner := o'\<rparr>)"
    by (rule rinv_app [OF assms(1,2) _ assms(4)]) (use assms(3) rinvD(4) [OF assms(1)] in blast)+
  then show ?thesis by (cases s) simp
qed

lemma rinv_initial: "rinv initial"
  by (simp add: rinv_def initial_def)

lemma rstep_rinv:
  assumes "rinv s" "rstep sp s s'"
  shows "rinv s'"
  using assms(2)
proof cases
  case start
  with assms(1) show ?thesis by (simp add: rinv_start)
next
  case no_events
  with assms(1) show ?thesis by simp
next
  case (has_events i)
  with rinv_rcv [OF assms(1), of i RProcessed "r_owner s"] show ?thesis by simp
next
  case (lock_read i)
  with rinv_rcv [OF assms(1), of i RLocked "Some (Rcv i)"] show ?thesis by simp
next
  case (read_run i)
  with rinv_rcv [OF assms(1), of i "RHold (r_run s)" "r_owner s"] show ?thesis by simp
next
  case (unlock_read i run)
  with rinv_rcv [OF assms(1), of i "if run then RLoop else RExit" None] show ?thesis by (simp split: if_splits)
next
  case (lock_close i)
  with rinv_rcv [OF assms(1), of i RClosing "Some (Rcv i)"] show ?thesis by simp
next
  case (close i)
  with assms(1) show ?thesis by (simp add: rinv_close)
next
  case (notify i)
  with assms(1) show ?thesis by (simp only: rinv_notify)
next
  case logout
  with rinv_app_keep [OF assms(1), of "r_owner s" AStop] show ?thesis by simp
next
  case lock_stop
  with rinv_app_keep [OF assms(1), of "Some App" AStopping] show ?thesis by simp
next
  case stop
  with rinv_app [OF assms(1), of None ACheck False] show ?thesis by simp
next
  case lock_check
  with rinv_app_keep [OF assms(1), of "Some App" AChecking] show ?thesis by simp
next
  case check
  with rinv_app_keep [OF assms(1), of None "if r_closed s then AOutside else AWaiting"]
  show ?thesis by (simp split: if_splits)
next
  case spurious
  with rinv_app_keep [OF assms(1), of "r_owner s" AWoken] show ?thesis by simp
next
  case lock_return
  with rinv_app_keep [OF assms(1), of "Some App" AReturning] show ?thesis by simp
next
  case return
  with rinv_app_keep [OF assms(1), of None AOutside] show ?thesis by simp
qed

section \<open>Schedules\<close>

text \<open>
  The same steps as an executable scheduler: one move of a receiver (with an event pending when
  it is at the head of its loop), one of the application, or a registration.
\<close>

datatype act = RcvMove nat | AppMove | Register

definition rcv_move :: "nat \<Rightarrow> rstate \<Rightarrow> rstate option" where
  "rcv_move i s = (if i < length (r_rcvs s) then (case r_rcvs s ! i of
       RLoop \<Rightarrow> Some (rcv_to i RProcessed s)
     | RProcessed \<Rightarrow> if r_owner s = None then Some (rcv_to i RLocked (s\<lparr>r_owner := Some (Rcv i)\<rparr>)) else None
     | RLocked \<Rightarrow> Some (rcv_to i (RHold (r_run s)) s)
     | RHold run \<Rightarrow> Some (rcv_to i (if run then RLoop else RExit) (s\<lparr>r_owner := None\<rparr>))
     | RExit \<Rightarrow> if r_owner s = None then Some (rcv_to i RClosing (s\<lparr>r_owner := Some (Rcv i)\<rparr>)) else None
     | RClosing \<Rightarrow> Some (rcv_to i RNotify (s\<lparr>r_closed := True, r_owner := None\<rparr>))
     | RNotify \<Rightarrow> Some (rcv_to i REnded (s\<lparr>r_app := (if r_app s = AWaiting then AWoken else r_app s)\<rparr>))
     | REnded \<Rightarrow> None) else None)"

definition app_move :: "rstate \<Rightarrow> rstate option" where
  "app_move s = (case r_app s of
       AOutside \<Rightarrow> Some (s\<lparr>r_app := AStop\<rparr>)
     | AStop \<Rightarrow> if r_owner s = None then Some (s\<lparr>r_app := AStopping, r_owner := Some App\<rparr>) else None
     | AStopping \<Rightarrow> Some (s\<lparr>r_app := ACheck, r_run := False, r_owner := None\<rparr>)
     | ACheck \<Rightarrow> if r_owner s = None then Some (s\<lparr>r_app := AChecking, r_owner := Some App\<rparr>) else None
     | AChecking \<Rightarrow> Some (s\<lparr>r_app := (if r_closed s then AOutside else AWaiting), r_owner := None\<rparr>)
     | AWaiting \<Rightarrow> None
     | AWoken \<Rightarrow> if r_owner s = None then Some (s\<lparr>r_app := AReturning, r_owner := Some App\<rparr>) else None
     | AReturning \<Rightarrow> Some (s\<lparr>r_app := AOutside, r_owner := None\<rparr>))"

fun perform :: "act \<Rightarrow> rstate \<Rightarrow> rstate option" where
  "perform (RcvMove i) s = rcv_move i s"
| "perform AppMove s = app_move s"
| "perform Register s = (if r_app s = AOutside
     then Some (s\<lparr>r_run := True, r_closed := False, r_rcvs := r_rcvs s @ [RLoop]\<rparr>) else None)"

fun run_acts :: "act list \<Rightarrow> rstate \<Rightarrow> rstate option" where
  "run_acts [] s = Some s"
| "run_acts (a # as) s = (case perform a s of None \<Rightarrow> None | Some s' \<Rightarrow> run_acts as s')"

lemma rcv_move_rstep: "rcv_move i s = Some s' \<Longrightarrow> rstep sp s s'"
  using rstep.has_events [of i s sp] rstep.lock_read [of i s sp] rstep.read_run [of i s sp]
    rstep.unlock_read [of i s True sp] rstep.unlock_read [of i s False sp] rstep.lock_close [of i s sp]
    rstep.close [of i s sp] rstep.notify [of i s sp]
  by (cases "r_rcvs s ! i") (auto simp: rcv_move_def split: if_splits)

lemma app_move_rstep: "app_move s = Some s' \<Longrightarrow> rstep sp s s'"
  using rstep.check [of s sp]
  by (cases "r_app s") (auto simp: app_move_def intro: rstep.intros split: if_splits)

lemma perform_rstep: "perform a s = Some s' \<Longrightarrow> rstep sp s s'"
  by (cases a) (auto simp: rcv_move_rstep app_move_rstep intro: rstep.start split: if_splits)

lemma run_acts_reach: "run_acts as s = Some s' \<Longrightarrow> (rstep sp)\<^sup>*\<^sup>* s s'"
proof (induction as arbitrary: s)
  case Nil
  then show ?case by simp
next
  case (Cons a as)
  then obtain s1 where "perform a s = Some s1" "run_acts as s1 = Some s'" by (auto split: option.splits)
  with Cons.IH perform_rstep show ?case by (metis converse_rtranclp_into_rtranclp)
qed

lemma reach_rinv: "(rstep sp)\<^sup>*\<^sup>* s s' \<Longrightarrow> rinv s \<Longrightarrow> rinv s'"
  by (induction rule: rtranclp_induct) (auto intro: rstep_rinv)

section \<open>Progress\<close>

fun app_rank :: "apc \<Rightarrow> nat" where
  "app_rank AOutside = 0" | "app_rank AStop = 7" | "app_rank AStopping = 6" | "app_rank ACheck = 5"
| "app_rank AChecking = 4" | "app_rank AWaiting = 3" | "app_rank AWoken = 2" | "app_rank AReturning = 1"

fun rcv_rank :: "rpc \<Rightarrow> nat" where
  "rcv_rank (RHold run) = (if run then 8 else 4)" | "rcv_rank RLoop = 7" | "rcv_rank RProcessed = 6"
| "rcv_rank RLocked = 5" | "rcv_rank RExit = 3" | "rcv_rank RClosing = 2" | "rcv_rank RNotify = 1"
| "rcv_rank REnded = 0"

fun lock_rank :: "rpc \<Rightarrow> nat" where
  "lock_rank RLocked = 2" | "lock_rank (RHold _) = 1" | "lock_rank RClosing = 1" | "lock_rank _ = 0"

text \<open>What is left to do: of the application, then of the receivers or of the mutex holder.\<close>

definition pending :: "rstate \<Rightarrow> nat" where
  "pending s = (if r_app s = AWaiting then sum_list (map rcv_rank (r_rcvs s))
     else (case r_owner s of Some (Rcv i) \<Rightarrow> lock_rank (r_rcvs s ! i) | _ \<Rightarrow> 0))"

definition closer :: "(rstate \<times> rstate) set" where
  "closer = measures [\<lambda>s. app_rank (r_app s), pending]"

lemma wf_closer: "wf closer"
  by (simp add: closer_def)

lemma rank_update:
  assumes "i < length xs" "rcv_rank pc < rcv_rank (xs ! i)"
  shows "sum_list (map rcv_rank (xs[i := pc])) < sum_list (map rcv_rank xs)"
proof -
  have "rcv_rank (xs ! i) \<le> sum_list (map rcv_rank xs)"
    using assms(1) by (simp add: member_le_sum_list)
  with assms show ?thesis by (simp add: map_update sum_list_update)
qed

lemma waiting_progress:
  assumes "rinv s" "r_app s = AWaiting" "i < length (r_rcvs s)" "r_rcvs s ! i \<noteq> REnded"
    and "r_owner s = None \<or> r_owner s = Some (Rcv i)"
  shows "\<exists>s'. perform (RcvMove i) s = Some s' \<and> (s', s) \<in> closer \<and> length (r_rcvs s') = length (r_rcvs s)"
proof -
  have "\<not> r_run s" using rinvD(4) [OF assms(1)] assms(2) by simp
  moreover have "r_owner s = None" if "r_rcvs s ! i = RProcessed \<or> r_rcvs s ! i = RExit"
    using assms(5) rinvD(2) [OF assms(1,3)] that by auto
  ultimately show ?thesis
    using assms(2-4) by (cases "r_rcvs s ! i") (auto simp: rcv_move_def closer_def pending_def intro!: rank_update)
qed

lemma lock_progress:
  assumes "rinv s" "r_app s \<noteq> AWaiting" "r_owner s = Some (Rcv i)"
  shows "\<exists>s'. perform (RcvMove i) s = Some s' \<and> (s', s) \<in> closer \<and> length (r_rcvs s') = length (r_rcvs s)"
proof -
  have i: "i < length (r_rcvs s)" using rinvD(3) [OF assms(1,3)] .
  then have "rcv_holds (r_rcvs s ! i)" using rinvD(2) [OF assms(1)] assms(3) by blast
  with assms(2,3) i show ?thesis
    by (cases "r_rcvs s ! i") (auto simp: rcv_move_def closer_def pending_def)
qed

lemma app_progress:
  assumes "rinv s" "r_app s \<notin> {AOutside, AWaiting}" "\<And>i. r_owner s \<noteq> Some (Rcv i)"
  shows "\<exists>s'. perform AppMove s = Some s' \<and> (s', s) \<in> closer \<and> length (r_rcvs s') = length (r_rcvs s)"
proof -
  have "r_owner s = None" if "\<not> app_holds (r_app s)"
    using rinvD(1) [OF assms(1)] that assms(3) by (metis not_None_eq who.exhaust)
  with assms(2) show ?thesis
    by (cases "r_app s") (auto simp: app_move_def closer_def)
qed

lemma progress:
  assumes "rinv s" "r_app s \<noteq> AOutside" "r_rcvs s \<noteq> []"
  shows "\<exists>a s'. perform a s = Some s' \<and> (s', s) \<in> closer \<and> r_rcvs s' \<noteq> []"
proof -
  have "\<exists>a s'. perform a s = Some s' \<and> (s', s) \<in> closer \<and> length (r_rcvs s') = length (r_rcvs s)"
  proof (cases "\<exists>i. r_owner s = Some (Rcv i)")
    case True
    then obtain i where i: "r_owner s = Some (Rcv i)" by blast
    then have "i < length (r_rcvs s)" "rcv_holds (r_rcvs s ! i)" using rinvD(2,3) [OF assms(1)] by blast+
    then have "r_rcvs s ! i \<noteq> REnded" by auto
    with i \<open>i < length (r_rcvs s)\<close> waiting_progress [OF assms(1)] lock_progress [OF assms(1) _ i] show ?thesis by blast
  next
    case False
    show ?thesis
    proof (cases "r_app s = AWaiting")
      case True
      then obtain i where "i < length (r_rcvs s)" "r_rcvs s ! i \<noteq> REnded"
        using rinvD(6) [OF assms(1)] assms(3) by blast
      moreover have "r_owner s = None"
        using False rinvD(1) [OF assms(1)] True by (metis app_holds.simps(7) not_None_eq who.exhaust)
      ultimately show ?thesis using waiting_progress [OF assms(1) True] by blast
    next
      case False
      with app_progress [OF assms(1)] assms(2) \<open>\<not> (\<exists>i. r_owner s = Some (Rcv i))\<close> show ?thesis by blast
    qed
  qed
  with assms(3) show ?thesis by (metis length_0_conv)
qed

lemma logout_schedule:
  assumes "rinv s" "r_rcvs s \<noteq> []"
  shows "\<exists>as s'. run_acts as s = Some s' \<and> r_app s' = AOutside"
  using wf_closer assms
proof (induction s rule: wf_induct_rule)
  case (less s)
  show ?case
  proof (cases "r_app s = AOutside")
    case True
    then have "run_acts [] s = Some s \<and> r_app s = AOutside" by simp
    then show ?thesis by blast
  next
    case False
    from progress [OF less.prems(1) False less.prems(2)] obtain a s1 where s1: "perform a s = Some s1" "(s1, s) \<in> closer"
      "r_rcvs s1 \<noteq> []" by blast
    from less.IH [OF s1(2) rstep_rinv [OF less.prems(1) perform_rstep [OF s1(1)]] s1(3)]
    obtain as s' where "run_acts as s1 = Some s'" "r_app s' = AOutside" by blast
    with s1(1) have "run_acts (a # as) s = Some s' \<and> r_app s' = AOutside" by simp
    then show ?thesis by blast
  qed
qed

section \<open>One registration\<close>

text \<open>With at most one receiver and no spurious wake-up, the flag says whether it has closed.\<close>

definition single_inv :: "rstate \<Rightarrow> bool" where
  "single_inv s \<longleftrightarrow> (length (r_rcvs s) = 1 \<longrightarrow>
     (r_closed s \<longleftrightarrow> \<not> rcv_open (r_rcvs s ! 0)) \<and> (r_app s \<in> {AWoken, AReturning} \<longrightarrow> r_closed s))
   \<and> (r_rcvs s = [] \<longrightarrow> \<not> r_closed s \<and> r_app s \<notin> {AWoken, AReturning})"

lemma rstep_single_inv:
  assumes "single_inv s" "rstep False s s'"
  shows "single_inv s'"
  using assms(2)
proof cases
  case start
  with assms(1) show ?thesis by (auto simp: single_inv_def)
next
  case (unlock_read i run)
  with assms(1) show ?thesis by (cases run) (auto simp: single_inv_def)
qed (insert assms(1), auto simp: single_inv_def)

lemma reach_single_inv: "(rstep False)\<^sup>*\<^sup>* s s' \<Longrightarrow> single_inv s \<Longrightarrow> single_inv s'"
  by (induction rule: rtranclp_induct) (auto intro: rstep_single_inv)

lemma single_initial: "single_inv initial"
  by (simp add: single_inv_def initial_def)

text \<open>No event: a receiver at the head of its loop stays there.\<close>

definition quiet :: "rstate \<Rightarrow> rstate \<Rightarrow> bool" where
  "quiet s s' \<longleftrightarrow> rstep False s s'
   \<and> (\<forall>i < length (r_rcvs s). r_rcvs s ! i = RLoop \<longrightarrow> r_rcvs s' ! i = RLoop)"

lemma quiet_stays:
  assumes "quiet s s'" "r_app s = AWaiting" "\<forall>i < length (r_rcvs s). r_rcvs s ! i = RLoop"
  shows "s' = s"
  using assms by (auto simp: quiet_def elim!: rstepE)

section \<open>Properties\<close>



text \<open>
  (C13) A logout can always finish. From every reachable state in which some registration has
  started a receiver, whatever the threads are doing, the application can get out of
  \<open>unregisterUser\<close> without a spurious wake-up, provided the receivers get events.
\<close>

theorem logout_can_finish:
  assumes "(rstep sp)\<^sup>*\<^sup>* initial s" "r_rcvs s \<noteq> []"
  shows "\<exists>s'. (rstep False)\<^sup>*\<^sup>* s s' \<and> r_app s' = AOutside"
  using logout_schedule [OF reach_rinv [OF assms(1) rinv_initial] assms(2)] run_acts_reach by blast

theorem logout_can_finish_witness:
  "\<exists>s. run_acts [Register, AppMove, AppMove, AppMove, AppMove, AppMove] initial = Some s
    \<and> r_app s = AWaiting \<and> (\<exists>s'. (rstep False)\<^sup>*\<^sup>* s s' \<and> r_app s' = AOutside)"
proof -
  let ?s = "\<lparr>r_run = False, r_closed = False, r_owner = None, r_app = AWaiting, r_rcvs = [RLoop]\<rparr>"
  have r: "run_acts [Register, AppMove, AppMove, AppMove, AppMove, AppMove] initial = Some ?s"
    by (simp add: initial_def app_move_def)
  have "r_rcvs ?s \<noteq> []" by simp
  from logout_can_finish [OF run_acts_reach [OF r, of False] this] r show ?thesis by auto
qed

text \<open>
  A logout waits for an event. The receiver reads \<open>m_run\<close> only after it has processed an
  event: as long as none arrives, a waiting \<open>unregisterUser\<close> stays where it is.
\<close>

theorem logout_waits_for_event:
  assumes "r_app s = AWaiting" "\<forall>i < length (r_rcvs s). r_rcvs s ! i = RLoop" "quiet\<^sup>*\<^sup>* s s'"
  shows "r_app s' = AWaiting"
proof -
  from assms(3) have "s' = s"
  proof (induction rule: rtranclp_induct)
    case base
    then show ?case by simp
  next
    case (step y z)
    with quiet_stays [of y z] assms(1,2) show ?case by simp
  qed
  with assms(1) show ?thesis by simp
qed

theorem logout_waits_for_event_witness:
  "quiet \<lparr>r_run = False, r_closed = False, r_owner = None, r_app = AWaiting, r_rcvs = [RLoop]\<rparr>
     \<lparr>r_run = False, r_closed = False, r_owner = None, r_app = AWaiting, r_rcvs = [RLoop]\<rparr>
   \<and> r_app \<lparr>r_run = False, r_closed = False, r_owner = None, r_app = AWaiting, r_rcvs = [RLoop]\<rparr> = AWaiting"
proof -
  let ?s = "\<lparr>r_run = False, r_closed = False, r_owner = None, r_app = AWaiting, r_rcvs = [RLoop]\<rparr>"
  have q: "quiet ?s ?s" by (auto simp: quiet_def intro: rstep.no_events [of 0])
  have "r_app ?s = AWaiting" by (rule logout_waits_for_event [OF _ _ r_into_rtranclp [where r = quiet, OF q]]) simp_all
  with q show ?thesis by blast
qed

text \<open>
  A logout before any registration. With no receiver started, \<open>unregisterUser\<close> goes to
  sleep, and no step of the program can wake it.
\<close>

theorem logout_without_receiver_is_stuck:
  "\<exists>s. run_acts [AppMove, AppMove, AppMove, AppMove, AppMove] initial = Some s
    \<and> r_app s = AWaiting \<and> (\<nexists>s'. rstep False s s')"
proof -
  let ?s = "\<lparr>r_run = False, r_closed = False, r_owner = None, r_app = AWaiting, r_rcvs = []\<rparr>"
  have "run_acts [AppMove, AppMove, AppMove, AppMove, AppMove] initial = Some ?s"
    by (simp add: initial_def app_move_def)
  moreover have "\<nexists>s'. rstep False ?s s'" by (auto elim!: rstepE)
  ultimately show ?thesis by auto
qed

text \<open>
  A logout after one registration. With one receiver and no spurious wake-up,
  \<open>unregisterUser\<close> returns only when the receiver has left its loop and has set
  \<open>m_receiveClosed\<close>.
\<close>

theorem logout_returns_after_close:
  assumes "(rstep False)\<^sup>*\<^sup>* initial s" "length (r_rcvs s) = 1"
    and "rstep False s s'" "r_app s \<in> {AChecking, AReturning}" "r_app s' = AOutside"
  shows "r_closed s' \<and> \<not> rcv_open (r_rcvs s' ! 0)"
proof -
  have inv: "single_inv s" by (rule reach_single_inv [OF assms(1) single_initial])
  from assms(3-5) have "r_closed s \<and> r_closed s' = r_closed s \<and> r_rcvs s' = r_rcvs s \<or> r_app s = AReturning
      \<and> r_closed s' = r_closed s \<and> r_rcvs s' = r_rcvs s"
    by (auto elim!: rstepE split: if_splits)
  with inv assms(2) show ?thesis by (auto simp: single_inv_def)
qed

theorem logout_returns_after_close_witness:
  "\<exists>s s'. (rstep False)\<^sup>*\<^sup>* initial s \<and> r_app s = AChecking
    \<and> rstep False s s' \<and> r_app s' = AOutside \<and> r_closed s'"
proof -
  let ?as = "[Register, AppMove, AppMove, AppMove, RcvMove 0, RcvMove 0, RcvMove 0, RcvMove 0, RcvMove 0, RcvMove 0, AppMove]"
  let ?s = "\<lparr>r_run = False, r_closed = True, r_owner = Some App, r_app = AChecking, r_rcvs = [RNotify]\<rparr>"
  let ?s' = "\<lparr>r_run = False, r_closed = True, r_owner = None, r_app = AOutside, r_rcvs = [RNotify]\<rparr>"
  have r: "run_acts ?as initial = Some ?s"
    by (simp add: initial_def app_move_def rcv_move_def rcv_to_def)
  have st: "rstep False ?s ?s'" by (rule perform_rstep [of AppMove]) (simp add: app_move_def)
  have "r_closed ?s' \<and> \<not> rcv_open (r_rcvs ?s' ! 0)"
    by (rule logout_returns_after_close [OF run_acts_reach [OF r] _ st]) simp_all
  with st run_acts_reach [OF r, of False] show ?thesis by force
qed

text \<open>
  A logout after a second registration may return too early. Without any spurious
  wake-up there is a schedule in which the notification of the first registration's receiver
  arrives in the wait of the second logout, which then returns while \<open>m_receiveClosed\<close> is
  false and the second receiver is in its loop.
\<close>

theorem stale_notification_ends_logout:
  "\<exists>s. run_acts ([Register] @ replicate 3 AppMove @ replicate 6 (RcvMove 0) @ replicate 2 AppMove
        @ [Register] @ replicate 5 AppMove @ [RcvMove 0, AppMove]) initial = Some s
    \<and> r_app s = AReturning \<and> \<not> r_closed s \<and> r_rcvs s = [REnded, RLoop]"
  by (simp add: initial_def app_move_def rcv_move_def rcv_to_def numeral_eq_Suc)

end
