(* ===== verification/JniBridge.thy ===== *)
theory JniBridge
  imports Registration "HOL-Library.Multiset"
begin

text \<open>
  The JNI layer (\<open>rtcsip_jni.cpp\<close>): the globals of the library, the handler object that
  forwards the controller's notifications to the Java class \<open>SipController\<close>, and the
  native entry points that Java calls. The JNI functions themselves belong to the Java
  virtual machine and are the record \<open>jvm_lib\<close>; \<open>jni_ready\<close> collects what the code
  relies on. A string whose characters have been fetched and not released is counted in
  \<open>pinned\<close>. Calls that Java makes back into the library while it is being notified are
  not modelled: an entry point runs the controller function and then delivers its
  notifications in order.
\<close>

section \<open>The Java side\<close>

datatype jvalue = JString string | JInt int | JEnum string string

text \<open>\<open>CallVoidMethod\<close> on the Java controller: method name, descriptor, arguments.\<close>

datatype jcall = CallVoidMethod string string "jvalue list"

record jvm_lib =
  jl_getEnv :: "bool \<Rightarrow> bool"
  jl_attach :: bool
  jl_findClass :: "string \<Rightarrow> bool"
  jl_method :: "string \<Rightarrow> string \<Rightarrow> bool"
  jl_field :: "string \<Rightarrow> string \<Rightarrow> bool"

record jni =
  g_jvm :: "unit ptr"
  g_sipControllerJava :: bool
  g_registrationEventEnum :: bool
  g_callEventEnum :: bool
  g_errorTypeEnum :: bool
  g_sipControllerCore :: "ctl option"
  g_sipControllerHandler :: "unit ptr"
  thread_attached :: bool
  pinned :: "string multiset"
  globalRefs :: nat
  java_calls :: "jcall list"

section \<open>The handler object\<close>

text \<open>The prologue and epilogue that every handler method has.\<close>

definition with_env :: "jvm_lib \<Rightarrow> jni stmt list \<Rightarrow> jni stmt" where
  "with_env jl body = get g_jvm (\<lambda>j. case j of
      NullPtr \<Rightarrow> fail NullDeref
    | WildPtr \<Rightarrow> fail WildDeref
    | Ptr _ \<Rightarrow> get thread_attached (\<lambda>a. cond (jl_getEnv jl a) body
        [cond (jl_attach jl) [assign (\<lambda>s. s\<lparr>thread_attached := True\<rparr>)] [fail NullDeref],
         block body,
         assign (\<lambda>s. s\<lparr>thread_attached := False\<rparr>)]))"

definition call_java :: "jvm_lib \<Rightarrow> string \<Rightarrow> string \<Rightarrow> jvalue list \<Rightarrow> jni stmt" where
  "call_java jl name sig args = get g_sipControllerJava (\<lambda>obj.
     cond (obj \<and> jl_method jl name sig)
       [assign (\<lambda>s. s\<lparr>java_calls := java_calls s @ [CallVoidMethod name sig args]\<rparr>)]
       [fail NullDeref])"

definition static_field :: "jvm_lib \<Rightarrow> bool \<Rightarrow> string \<Rightarrow> string \<Rightarrow> jni stmt list \<Rightarrow> jni stmt" where
  "static_field jl loaded cls field rest = cond (loaded \<and> jl_field jl cls field) rest [fail NullDeref]"

definition Handler_handleSDP :: "jvm_lib \<Rightarrow> string \<Rightarrow> jni stmt" where
  "Handler_handleSDP jl sdp =
     with_env jl [call_java jl ''setRemoteSDP'' ''(Ljava/lang/String;)V'' [JString sdp]]"

definition registration_event_name :: "SipRegistrationEvent \<Rightarrow> string" where
  "registration_event_name event =
     (case event of Registered \<Rightarrow> ''REGISTERED'' | NotRegistered \<Rightarrow> ''NOT_REGISTERED'')"

definition Handler_handleRegistration :: "jvm_lib \<Rightarrow> SipRegistrationEvent \<Rightarrow> string \<Rightarrow> jni stmt" where
  "Handler_handleRegistration jl event user = with_env jl
     [get g_registrationEventEnum (\<lambda>cls.
        static_field jl cls ''RegistrationEvent'' (registration_event_name event)
          [call_java jl ''onRegistration''
             ''(Lcom/plivo/endpoint/SipController$RegistrationEvent;Ljava/lang/String;)V''
             [JEnum ''RegistrationEvent'' (registration_event_name event), JString user]])]"

definition call_event_name :: "SipCallEvent \<Rightarrow> string" where
  "call_event_name event =
     (case event of IncomingCall \<Rightarrow> ''INCOMING_CALL'' | TerminateCall \<Rightarrow> ''TERMINATE_CALL''
      | CallAccepted \<Rightarrow> ''CALL_ACCEPTED'')"

definition Handler_handleCall :: "jvm_lib \<Rightarrow> SipCallEvent \<Rightarrow> string \<Rightarrow> jni stmt" where
  "Handler_handleCall jl event user = with_env jl
     [get g_callEventEnum (\<lambda>cls.
        static_field jl cls ''CallEvent'' (call_event_name event)
          [call_java jl ''onCall'' ''(Lcom/plivo/endpoint/SipController$CallEvent;Ljava/lang/String;)V''
             [JEnum ''CallEvent'' (call_event_name event), JString user]])]"

definition Handler_handleLog :: "jvm_lib \<Rightarrow> string \<Rightarrow> jni stmt" where
  "Handler_handleLog jl log = with_env jl [call_java jl ''onLog'' ''(Ljava/lang/String;)V'' [JString log]]"

definition error_type_name :: "SipErrorType \<Rightarrow> string" where
  "error_type_name type =
     (case type of WebRtcError \<Rightarrow> ''WEBRTC_ERROR'' | SipConnectionError \<Rightarrow> ''SIP_CONNECTION_ERROR''
      | SipSessionError \<Rightarrow> ''SIP_SESSION_ERROR'')"

definition Handler_handleError :: "jvm_lib \<Rightarrow> SipErrorType \<Rightarrow> string \<Rightarrow> jni stmt" where
  "Handler_handleError jl type error = with_env jl
     [get g_errorTypeEnum (\<lambda>cls.
        static_field jl cls ''ErrorType'' (error_type_name type)
          [call_java jl ''onError'' ''(Lcom/plivo/endpoint/SipController$ErrorType;Ljava/lang/String;)V''
             [JEnum ''ErrorType'' (error_type_name type), JString error]])]"

definition Handler_handleCallInfo :: "jvm_lib \<Rightarrow> string \<Rightarrow> jni stmt" where
  "Handler_handleCallInfo jl callinfo =
     with_env jl [call_java jl ''setCallInfo'' ''(Ljava/lang/String;)V'' [JString callinfo]]"

definition Handler_handleCallState :: "jvm_lib \<Rightarrow> string \<Rightarrow> int \<Rightarrow> jni stmt" where
  "Handler_handleCallState jl state statusCode =
     with_env jl [call_java jl ''setCallState'' ''(Ljava/lang/String;I)V'' [JString state, JInt statusCode]]"

text \<open>The handler call behind one observable call of the controller.\<close>

fun deliver :: "jvm_lib \<Rightarrow> out \<Rightarrow> jni stmt" where
  "deliver jl (HandleLog l) = Handler_handleLog jl l"
| "deliver jl (HandleRegistration e u) = Handler_handleRegistration jl e u"
| "deliver jl (HandleCall e u) = Handler_handleCall jl e u"
| "deliver jl (HandleSDP sdp) = Handler_handleSDP jl sdp"
| "deliver jl (HandleCallInfo i) = Handler_handleCallInfo jl i"
| "deliver jl (HandleCallState st c) = Handler_handleCallState jl st c"
| "deliver jl _ = block []"

section \<open>Loading and initialisation\<close>

definition JNI_VERSION_1_4 :: int where "JNI_VERSION_1_4 = 0x00010004"

text \<open>\<open>NewGlobalRef\<close> of a class that was not found is the null reference.\<close>

definition JNI_OnLoad :: "jvm_lib \<Rightarrow> unit ptr \<Rightarrow> jni \<Rightarrow> int \<times> jni" where
  "JNI_OnLoad jl vm s =
     (if \<not> jl_getEnv jl (thread_attached s) then (-1, s\<lparr>g_jvm := vm\<rparr>)
      else (JNI_VERSION_1_4, s\<lparr>g_jvm := vm,
        g_registrationEventEnum := jl_findClass jl ''com/plivo/endpoint/SipController$RegistrationEvent'',
        g_callEventEnum := jl_findClass jl ''com/plivo/endpoint/SipController$CallEvent'',
        g_errorTypeEnum := jl_findClass jl ''com/plivo/endpoint/SipController$ErrorType'',
        globalRefs := globalRefs s
          + (if jl_findClass jl ''com/plivo/endpoint/SipController$RegistrationEvent'' then 1 else 0)
          + (if jl_findClass jl ''com/plivo/endpoint/SipController$CallEvent'' then 1 else 0)
          + (if jl_findClass jl ''com/plivo/endpoint/SipController$ErrorType'' then 1 else 0)\<rparr>))"

definition pin :: "string \<Rightarrow> jni stmt" where
  "pin js = assign (\<lambda>s. s\<lparr>pinned := add_mset js (pinned s)\<rparr>)"

definition release :: "string \<Rightarrow> jni stmt" where
  "release js = assign (\<lambda>s. s\<lparr>pinned := pinned s - {#js#}\<rparr>)"

text \<open>The chain of registrations at the end of \<open>init\<close>.\<close>

definition register_handlers :: "unit ptr \<Rightarrow> ctl stmt" where
  "register_handlers h = block
     [registerRegistrationHandler h, registerCallHandler h, registerLogHandler h, registerErrorHandler h,
      sipSDPHandler h, sipCallInfoHandler h, sipCallStateHandler h]"

definition Java_init :: "ctl \<Rightarrow> SipServerSettings \<Rightarrow> jni stmt" where
  "Java_init mem settings = block
     [assign (\<lambda>s. s\<lparr>g_sipControllerJava := True, globalRefs := Suc (globalRefs s)\<rparr>),
      pin (domain settings), pin (dnsServer settings), pin (proxyServer settings),
      release (domain settings), release (dnsServer settings), release (proxyServer settings),
      assign (\<lambda>s. s\<lparr>g_sipControllerHandler := Ptr ()\<rparr>),
      get g_sipControllerHandler (\<lambda>h s.
        bindr (register_handlers h (SipControllerCore mem settings))
          (\<lambda>c. Inr (s\<lparr>g_sipControllerCore := Some c\<rparr>)))]"

section \<open>Entry points\<close>

definition core_call :: "jvm_lib \<Rightarrow> ctl stmt \<Rightarrow> jni stmt" where
  "core_call jl f s =
     (case g_sipControllerCore s of
        None \<Rightarrow> Inl NullDeref
      | Some c \<Rightarrow> bindr (f c) (\<lambda>c'.
          block (map (deliver jl) (drop (length (trace c)) (trace c'))) (s\<lparr>g_sipControllerCore := Some c'\<rparr>)))"

definition Java_test :: "string \<Rightarrow> string" where
  "Java_test j_settings = ''Hello from World''"

definition Java_setHasAudio :: "bool \<Rightarrow> jni stmt" where "Java_setHasAudio hasAudio = block []"

definition Java_setHasVideo :: "bool \<Rightarrow> jni stmt" where "Java_setHasVideo hasVideo = block []"

definition Java_iceGatheringFinish :: "jvm_lib \<Rightarrow> resip_lib \<Rightarrow> jni stmt" where
  "Java_iceGatheringFinish jl lib = core_call jl (onIceGatheringFinished lib)"

definition Java_iceCandidate :: "jvm_lib \<Rightarrow> string \<Rightarrow> string \<Rightarrow> jni stmt" where
  "Java_iceCandidate jl j_mid j_sdp = block [pin j_mid, pin j_sdp, core_call jl (onIceCandidate j_sdp j_mid)]"

definition Java_registerUser :: "jvm_lib \<Rightarrow> resip_lib \<Rightarrow> string \<Rightarrow> string \<Rightarrow> jni stmt" where
  "Java_registerUser jl lib username password = block
     [pin username, pin password, core_call jl (registerUser lib username password),
      release username, release password]"

definition Java_registerUserToken :: "jvm_lib \<Rightarrow> resip_lib \<Rightarrow> string \<Rightarrow> string \<Rightarrow> string \<Rightarrow> jni stmt" where
  "Java_registerUserToken jl lib username password token = block
     [pin username, pin password, pin token, core_call jl (registerUserToken lib username password token),
      release username, release password]"

definition conference_headers :: "string \<Rightarrow> string \<Rightarrow> (string \<times> string) list" where
  "conference_headers label index =
     map_set ''X-Index'' index (map_set ''X-Label'' label (map_set ''X-PH-conference'' ''true'' []))"

definition Java_registerUserTokenHeaders ::
  "jvm_lib \<Rightarrow> resip_lib \<Rightarrow> string \<Rightarrow> string \<Rightarrow> string \<Rightarrow> string \<Rightarrow> (string \<times> string) list \<Rightarrow> string \<Rightarrow> string \<Rightarrow> jni stmt" where
  "Java_registerUserTokenHeaders jl lib username password token proxy j_headers label index = block
     [pin username, pin password, pin label, pin index, pin token, pin proxy,
      core_call jl (registerUserProxy lib username password token ''NA'' proxy (conference_headers label index)),
      release username, release password]"

definition Java_unregisterUser :: "jvm_lib \<Rightarrow> wait_end \<Rightarrow> jni stmt" where
  "Java_unregisterUser jl w = core_call jl (unregisterUser w)"

definition Java_makeCall :: "jvm_lib \<Rightarrow> resip_lib \<Rightarrow> string \<Rightarrow> string \<Rightarrow> string \<Rightarrow> jni stmt" where
  "Java_makeCall jl lib sipUri localSDP j_headers = block
     [pin sipUri, pin localSDP, core_call jl (createSession lib sipUri localSDP []), release sipUri]"

definition Java_answer :: "jvm_lib \<Rightarrow> resip_lib \<Rightarrow> string \<Rightarrow> jni stmt" where
  "Java_answer jl lib localSDP = block [pin localSDP, core_call jl (acceptSession lib localSDP)]"

definition Java_endCall :: "jvm_lib \<Rightarrow> bool \<Rightarrow> jni stmt" where
  "Java_endCall jl destroyLocalStream = core_call jl terminateSession"

definition Java_setLocalView :: "int \<Rightarrow> jni stmt" where "Java_setLocalView j_renderer_pointer = block []"

definition Java_setRemoteView :: "int \<Rightarrow> jni stmt" where "Java_setRemoteView j_renderer_pointer = block []"

section \<open>The entry points as a machine\<close>

datatype entry =
    IceGatheringFinish
  | IceCandidateFound string string
  | RegisterUser_e string string
  | RegisterUserToken_e string string string
  | RegisterUserTokenHeaders_e string string string string "(string \<times> string) list" string string
  | UnregisterUser_e wait_end
  | MakeCall string string string
  | AnswerCall string
  | EndCall bool

fun entry_step :: "jvm_lib \<Rightarrow> resip_lib \<Rightarrow> jni \<Rightarrow> entry \<Rightarrow> cpp_error + jni" where
  "entry_step jl lib s IceGatheringFinish = Java_iceGatheringFinish jl lib s"
| "entry_step jl lib s (IceCandidateFound m sdp) = Java_iceCandidate jl m sdp s"
| "entry_step jl lib s (RegisterUser_e u p) = Java_registerUser jl lib u p s"
| "entry_step jl lib s (RegisterUserToken_e u p t) = Java_registerUserToken jl lib u p t s"
| "entry_step jl lib s (RegisterUserTokenHeaders_e u p t x hs l i) =
     Java_registerUserTokenHeaders jl lib u p t x hs l i s"
| "entry_step jl lib s (UnregisterUser_e w) = Java_unregisterUser jl w s"
| "entry_step jl lib s (MakeCall uri sdp hs) = Java_makeCall jl lib uri sdp hs s"
| "entry_step jl lib s (AnswerCall sdp) = Java_answer jl lib sdp s"
| "entry_step jl lib s (EndCall b) = Java_endCall jl b s"

text \<open>The controller event behind an entry point, and the strings it leaves pinned.\<close>

fun entry_event :: "entry \<Rightarrow> event" where
  "entry_event IceGatheringFinish = OnIceGatheringFinished"
| "entry_event (IceCandidateFound m sdp) = OnIceCandidate sdp m"
| "entry_event (RegisterUser_e u p) = RegisterUser u p"
| "entry_event (RegisterUserToken_e u p t) = RegisterUserToken u p t"
| "entry_event (RegisterUserTokenHeaders_e u p t x hs l i) =
     RegisterUserProxy u p t ''NA'' x
       [(''X-Index'', i), (''X-Label'', l), (''X-PH-conference'', ''true'')]"
| "entry_event (UnregisterUser_e w) = UnregisterUser w"
| "entry_event (MakeCall uri sdp hs) = CreateSession uri sdp []"
| "entry_event (AnswerCall sdp) = AcceptSession sdp"
| "entry_event (EndCall b) = TerminateSession"

fun leaked :: "entry \<Rightarrow> string multiset" where
  "leaked (IceCandidateFound m sdp) = {#m, sdp#}"
| "leaked (RegisterUserToken_e u p t) = {#t#}"
| "leaked (RegisterUserTokenHeaders_e u p t x hs l i) = {#l, i, t, x#}"
| "leaked (MakeCall uri sdp hs) = {#sdp#}"
| "leaked (AnswerCall sdp) = {#sdp#}"
| "leaked _ = {#}"

section \<open>What the code relies on\<close>

text \<open>The methods and enum constants of \<open>SipController.java\<close> that the handler looks up.\<close>

definition setRemoteSDP_sig :: "string \<times> string" where
  "setRemoteSDP_sig = (''setRemoteSDP'', ''(Ljava/lang/String;)V'')"

definition setCallInfo_sig :: "string \<times> string" where
  "setCallInfo_sig = (''setCallInfo'', ''(Ljava/lang/String;)V'')"

definition setCallState_sig :: "string \<times> string" where
  "setCallState_sig = (''setCallState'', ''(Ljava/lang/String;I)V'')"

definition onRegistration_sig :: "string \<times> string" where
  "onRegistration_sig = (''onRegistration'', ''(Lcom/plivo/endpoint/SipController$RegistrationEvent;Ljava/lang/String;)V'')"

definition onCall_sig :: "string \<times> string" where
  "onCall_sig = (''onCall'', ''(Lcom/plivo/endpoint/SipController$CallEvent;Ljava/lang/String;)V'')"

definition onLog_sig :: "string \<times> string" where
  "onLog_sig = (''onLog'', ''(Ljava/lang/String;)V'')"

definition onError_sig :: "string \<times> string" where
  "onError_sig = (''onError'', ''(Lcom/plivo/endpoint/SipController$ErrorType;Ljava/lang/String;)V'')"

definition SipController_methods :: "(string \<times> string) list" where
  "SipController_methods =
     [setRemoteSDP_sig, setCallInfo_sig, setCallState_sig, onRegistration_sig,
      onCall_sig, onLog_sig, onError_sig]"

definition RegistrationEvent_constants :: "(string \<times> string) list" where
  "RegistrationEvent_constants =
     [(''RegistrationEvent'', ''REGISTERED''), (''RegistrationEvent'', ''NOT_REGISTERED'')]"

definition CallEvent_constants :: "(string \<times> string) list" where
  "CallEvent_constants =
     [(''CallEvent'', ''INCOMING_CALL''), (''CallEvent'', ''TERMINATE_CALL''), (''CallEvent'', ''CALL_ACCEPTED'')]"

definition ErrorType_constants :: "(string \<times> string) list" where
  "ErrorType_constants =
     [(''ErrorType'', ''WEBRTC_ERROR''), (''ErrorType'', ''SIP_CONNECTION_ERROR''), (''ErrorType'', ''SIP_SESSION_ERROR'')]"

definition SipController_enums :: "(string \<times> string) list" where
  "SipController_enums = RegistrationEvent_constants @ CallEvent_constants @ ErrorType_constants"

lemmas SipController_method_defs =
  SipController_methods_def setRemoteSDP_sig_def setCallInfo_sig_def setCallState_sig_def
  onRegistration_sig_def onCall_sig_def onLog_sig_def onError_sig_def

lemmas SipController_enum_defs =
  SipController_enums_def RegistrationEvent_constants_def CallEvent_constants_def ErrorType_constants_def

text \<open>
  A virtual machine that runs the Java class of the repository: \<open>GetEnv\<close> succeeds exactly
  on an attached thread, attaching works, and the methods and constants of the class are found.
\<close>

definition java_vm :: "jvm_lib \<Rightarrow> bool" where
  "java_vm jl \<longleftrightarrow> jl_getEnv jl = id \<and> jl_attach jl
   \<and> list_all (\<lambda>(n, sig). jl_method jl n sig) SipController_methods
   \<and> list_all (\<lambda>(c, f). jl_field jl c f) SipController_enums"

definition jni_ready :: "jni \<Rightarrow> bool" where
  "jni_ready s \<longleftrightarrow> g_jvm s = Ptr () \<and> g_sipControllerJava s \<and> g_registrationEventEnum s
   \<and> g_callEventEnum s \<and> g_errorTypeEnum s"

fun java_of :: "out \<Rightarrow> jcall list" where
  "java_of (HandleLog l) = [CallVoidMethod ''onLog'' ''(Ljava/lang/String;)V'' [JString l]]"
| "java_of (HandleRegistration Registered u) =
     [CallVoidMethod ''onRegistration''
        ''(Lcom/plivo/endpoint/SipController$RegistrationEvent;Ljava/lang/String;)V''
        [JEnum ''RegistrationEvent'' ''REGISTERED'', JString u]]"
| "java_of (HandleRegistration NotRegistered u) =
     [CallVoidMethod ''onRegistration''
        ''(Lcom/plivo/endpoint/SipController$RegistrationEvent;Ljava/lang/String;)V''
        [JEnum ''RegistrationEvent'' ''NOT_REGISTERED'', JString u]]"
| "java_of (HandleCall IncomingCall u) =
     [CallVoidMethod ''onCall'' ''(Lcom/plivo/endpoint/SipController$CallEvent;Ljava/lang/String;)V''
        [JEnum ''CallEvent'' ''INCOMING_CALL'', JString u]]"
| "java_of (HandleCall TerminateCall u) =
     [CallVoidMethod ''onCall'' ''(Lcom/plivo/endpoint/SipController$CallEvent;Ljava/lang/String;)V''
        [JEnum ''CallEvent'' ''TERMINATE_CALL'', JString u]]"
| "java_of (HandleCall CallAccepted u) =
     [CallVoidMethod ''onCall'' ''(Lcom/plivo/endpoint/SipController$CallEvent;Ljava/lang/String;)V''
        [JEnum ''CallEvent'' ''CALL_ACCEPTED'', JString u]]"
| "java_of (HandleSDP sdp) = [CallVoidMethod ''setRemoteSDP'' ''(Ljava/lang/String;)V'' [JString sdp]]"
| "java_of (HandleCallInfo i) = [CallVoidMethod ''setCallInfo'' ''(Ljava/lang/String;)V'' [JString i]]"
| "java_of (HandleCallState st c) =
     [CallVoidMethod ''setCallState'' ''(Ljava/lang/String;I)V'' [JString st, JInt c]]"
| "java_of _ = []"

definition java_trace :: "out list \<Rightarrow> jcall list" where
  "java_trace tr = concat (map java_of tr)"

section \<open>Notifications\<close>

lemma call_java_ok:
  "g_sipControllerJava s \<Longrightarrow> jl_method jl n sig \<Longrightarrow>
   call_java jl n sig args s = Inr (s\<lparr>java_calls := java_calls s @ [CallVoidMethod n sig args]\<rparr>)"
  by (simp add: call_java_def)

lemma with_env_call:
  assumes "jni_ready s" "jl_getEnv jl = id" "jl_attach jl"
    and "\<And>s. jni_ready s \<Longrightarrow> f s = Inr (s\<lparr>java_calls := java_calls s @ [x]\<rparr>)"
  shows "with_env jl [f] s = Inr (s\<lparr>java_calls := java_calls s @ [x]\<rparr>)"
proof -
  have "jni_ready (s\<lparr>thread_attached := True\<rparr>)" using assms(1) by (simp add: jni_ready_def)
  then show ?thesis
    using assms(1-3) assms(4) [of s] assms(4) [of "s\<lparr>thread_attached := True\<rparr>"]
    by (cases s) (auto simp: with_env_def jni_ready_def cond_apply)
qed

lemmas handler_defs =
  Handler_handleSDP_def Handler_handleRegistration_def Handler_handleCall_def Handler_handleLog_def
  Handler_handleError_def Handler_handleCallInfo_def Handler_handleCallState_def

lemma java_vmD:
  assumes "java_vm jl"
  shows "jl_getEnv jl = id" "jl_attach jl"
    "(n, sig) \<in> set SipController_methods \<Longrightarrow> jl_method jl n sig"
    "(c, f) \<in> set SipController_enums \<Longrightarrow> jl_field jl c f"
  using assms by (auto simp: java_vm_def list_all_iff)

lemma deliver_ok:
  assumes "java_vm jl" "jni_ready s"
  shows "deliver jl x s = Inr (s\<lparr>java_calls := java_calls s @ java_of x\<rparr>)"
proof -
  note vm = java_vmD [OF assms(1)]
  note env = with_env_call [OF assms(2) vm(1,2)]
  have plain: "with_env jl [call_java jl n sig args] s = Inr (s\<lparr>java_calls := java_calls s @ [CallVoidMethod n sig args]\<rparr>)"
    if "(n, sig) \<in> set SipController_methods" for n sig args
    using that vm(3) by (intro env) (simp add: jni_ready_def call_java_ok)
  have enum: "with_env jl [get g (\<lambda>cls. static_field jl cls c f [call_java jl n sig args])] s =
      Inr (s\<lparr>java_calls := java_calls s @ [CallVoidMethod n sig args]\<rparr>)"
    if "(n, sig) \<in> set SipController_methods" "(c, f) \<in> set SipController_enums" "\<And>s. jni_ready s \<Longrightarrow> g s"
    for n sig args c f g
    using that vm(3,4) by (intro env) (simp add: jni_ready_def static_field_def call_java_ok)
  have r: "(''RegistrationEvent'', registration_event_name e) \<in> set SipController_enums" for e
    by (cases e) (simp_all add: registration_event_name_def SipController_enum_defs)
  have c: "(''CallEvent'', call_event_name e) \<in> set SipController_enums" for e
    by (cases e) (simp_all add: call_event_name_def SipController_enum_defs)
  have rg: "\<And>s. jni_ready s \<Longrightarrow> g_registrationEventEnum s" and cg: "\<And>s. jni_ready s \<Longrightarrow> g_callEventEnum s"
    by (simp_all add: jni_ready_def)
  have jr: "java_of (HandleRegistration e u) = [CallVoidMethod ''onRegistration''
      ''(Lcom/plivo/endpoint/SipController$RegistrationEvent;Ljava/lang/String;)V''
      [JEnum ''RegistrationEvent'' (registration_event_name e), JString u]]" for e u
    by (cases e) (simp_all add: registration_event_name_def)
  have jc: "java_of (HandleCall e u) = [CallVoidMethod ''onCall''
      ''(Lcom/plivo/endpoint/SipController$CallEvent;Ljava/lang/String;)V''
      [JEnum ''CallEvent'' (call_event_name e), JString u]]" for e u
    by (cases e) (simp_all add: call_event_name_def)
  show ?thesis
    by (cases x)
      (simp_all add: handler_defs plain enum [OF _ r rg] enum [OF _ c cg] jr jc SipController_method_defs)
qed

lemma jni_ready_java_calls [simp]: "jni_ready (s\<lparr>java_calls := j\<rparr>) = jni_ready s"
  "jni_ready (s\<lparr>pinned := p\<rparr>) = jni_ready s" "jni_ready (s\<lparr>g_sipControllerCore := c\<rparr>) = jni_ready s"
  by (simp_all add: jni_ready_def)

lemma deliver_all:
  assumes "java_vm jl" "jni_ready s"
  shows "block (map (deliver jl) xs) s = Inr (s\<lparr>java_calls := java_calls s @ java_trace xs\<rparr>)"
  using assms(2)
proof (induction xs arbitrary: s)
  case Nil
  then show ?case by (simp add: java_trace_def)
next
  case (Cons x xs)
  then show ?case by (simp add: deliver_ok [OF assms(1)] java_trace_def)
qed

lemma core_call_ok:
  assumes "java_vm jl" "jni_ready s" "g_sipControllerCore s = Some c" "f c = Inr c'"
  shows "core_call jl f s = Inr (s\<lparr>g_sipControllerCore := Some c',
    java_calls := java_calls s @ java_trace (drop (length (trace c)) (trace c'))\<rparr>)"
  using assms(3,4) deliver_all [OF assms(1), of "s\<lparr>g_sipControllerCore := Some c'\<rparr>"] assms(2)
  by (simp add: core_call_def)

lemma conference_headers_order:
  "conference_headers label index = [(''X-Index'', index), (''X-Label'', label), (''X-PH-conference'', ''true'')]"
  by (simp add: conference_headers_def)

section \<open>Entry points refine controller events\<close>

lemma entry_ok:
  assumes "java_vm jl" "jni_ready s" "g_sipControllerCore s = Some c"
    and "ctl_step lib c (entry_event e) = Inr c'"
  shows "\<exists>s'. entry_step jl lib s e = Inr s' \<and> jni_ready s' \<and> g_sipControllerCore s' = Some c'
    \<and> thread_attached s' = thread_attached s \<and> pinned s' = pinned s + leaked e
    \<and> java_calls s' = java_calls s @ java_trace (drop (length (trace c)) (trace c'))"
proof -
  have call: "core_call jl f (s\<lparr>pinned := p\<rparr>) = Inr (s\<lparr>pinned := p, g_sipControllerCore := Some c',
      java_calls := java_calls s @ java_trace (drop (length (trace c)) (trace c'))\<rparr>)"
    if "f c = Inr c'" for f p
    using core_call_ok [OF assms(1), of "s\<lparr>pinned := p\<rparr>" c f c'] assms(2,3) that by simp
  have call0: "core_call jl f s = Inr (s\<lparr>g_sipControllerCore := Some c',
      java_calls := java_calls s @ java_trace (drop (length (trace c)) (trace c'))\<rparr>)"
    if "f c = Inr c'" for f
    by (rule core_call_ok [where f = f, OF assms(1-3) that])
  show ?thesis
    using assms(2,4)
    by (cases e)
      (auto simp: Java_iceGatheringFinish_def Java_iceCandidate_def Java_registerUser_def
        Java_registerUserToken_def Java_registerUserTokenHeaders_def Java_unregisterUser_def Java_makeCall_def
        Java_answer_def Java_endCall_def pin_def release_def call call0 conference_headers_order
        add_mset_commute)
qed

definition jni_inv :: "jvm_lib \<Rightarrow> jni \<Rightarrow> bool" where
  "jni_inv jl s \<longleftrightarrow> java_vm jl \<and> jni_ready s
   \<and> (case g_sipControllerCore s of None \<Rightarrow> False | Some c \<Rightarrow> wired c)"

definition entry_guard :: "resip_lib \<Rightarrow> jni \<Rightarrow> entry \<Rightarrow> bool" where
  "entry_guard lib s e =
     (case g_sipControllerCore s of None \<Rightarrow> False | Some c \<Rightarrow> ctl_guard lib c (entry_event e))"

lemma entry_step_ok:
  assumes "jni_inv jl s" "entry_guard lib s e"
  shows "\<exists>s'. entry_step jl lib s e = Inr s' \<and> jni_inv jl s'
    \<and> thread_attached s' = thread_attached s \<and> pinned s' = pinned s + leaked e"
proof -
  from assms obtain c where c: "g_sipControllerCore s = Some c" "wired c" "ctl_guard lib c (entry_event e)"
    by (auto simp: jni_inv_def entry_guard_def split: option.splits)
  with ctl_step_outcome [of c lib "entry_event e"] obtain c' where "ctl_step lib c (entry_event e) = Inr c'" "wired c'"
    by (auto simp: outcome_iff)
  with entry_ok [of jl s c lib e c'] assms(1) c show ?thesis by (auto simp: jni_inv_def)
qed

interpretation bridge: guarded_machine "entry_step jl lib" "jni_inv jl" "entry_guard lib" for jl lib
proof
  fix s e
  assume "jni_inv jl s" "entry_guard lib s e"
  from entry_step_ok [OF this] show "\<exists>s'. entry_step jl lib s e = Inr s' \<and> jni_inv jl s'" by blast
qed

lemma run_pinned:
  assumes "jni_inv jl s" "guarded_run (entry_step jl lib) (entry_guard lib) s es"
  shows "\<exists>s'. run_events (entry_step jl lib) s es = Inr s' \<and> jni_inv jl s'
    \<and> thread_attached s' = thread_attached s \<and> pinned s' = pinned s + sum_list (map leaked es)"
  using assms
proof (induction es arbitrary: s)
  case Nil
  then show ?case by simp
next
  case (Cons e es)
  from Cons.prems have "entry_guard lib s e" by simp
  from entry_step_ok [OF Cons.prems(1) this] obtain s1 where s1: "entry_step jl lib s e = Inr s1" "jni_inv jl s1"
    "thread_attached s1 = thread_attached s" "pinned s1 = pinned s + leaked e" by blast
  with Cons.prems(2) have "guarded_run (entry_step jl lib) (entry_guard lib) s1 es" by simp
  from Cons.IH [OF s1(2) this] s1 show ?case by (auto simp: add.assoc)
qed

section \<open>Properties\<close>

definition demo_vm :: jvm_lib where
  "demo_vm = \<lparr>jl_getEnv = id, jl_attach = True, jl_findClass = (\<lambda>_. True),
     jl_method = (\<lambda>n sig. (n, sig) \<in> set SipController_methods),
     jl_field = (\<lambda>c f. (c, f) \<in> set SipController_enums)\<rparr>"

definition demo_jni :: jni where
  "demo_jni = \<lparr>g_jvm = Ptr (), g_sipControllerJava = True, g_registrationEventEnum = True,
     g_callEventEnum = True, g_errorTypeEnum = True, g_sipControllerCore = Some demo_ctl,
     g_sipControllerHandler = Ptr (), thread_attached = False, pinned = {#}, globalRefs = 4, java_calls = []\<rparr>"

lemma demo_bridge: "java_vm demo_vm" "jni_ready demo_jni" "jni_inv demo_vm demo_jni"
proof -
  show vm: "java_vm demo_vm" by (simp add: java_vm_def demo_vm_def list_all_iff)
  show r: "jni_ready demo_jni" by (simp add: jni_ready_def demo_jni_def)
  show "jni_inv demo_vm demo_jni"
    using vm r demo_handlers(1) by (simp add: jni_inv_def demo_jni_def)
qed

text \<open>
  (C27) Initialisation. Whatever memory the controller object is built in and whatever was there
  before, \<open>init\<close> completes, releases the strings it fetched, and leaves a controller with
  the settings of the application, every handler installed and its mutex free.
\<close>

theorem init_wires_controller:
  "\<exists>s' c. Java_init mem settings s = Inr s' \<and> g_sipControllerCore s' = Some c \<and> wired c
    \<and> m_domain c = domain settings \<and> m_dnsServer c = dnsServer settings
    \<and> m_proxyServer c = proxyServer settings \<and> \<not> m_inCall c \<and> receivers c = 0
    \<and> g_sipControllerJava s' \<and> pinned s' = pinned s"
  by (auto simp: Java_init_def register_handlers_def registerRegistrationHandler_def registerCallHandler_def
      registerLogHandler_def registerErrorHandler_def sipSDPHandler_def sipCallInfoHandler_def
      sipCallStateHandler_def locked_def SipControllerCore_def wired_def pin_def release_def)

text \<open>
  (C26) Notifications. On a virtual machine that runs the repository's Java class, every
  notification of the controller completes as exactly one call of the Java method for it, with
  the enum constant of the event, written out in \<open>java_of\<close> as the Java class declares it, and
  its text, and every other call as none; the thread is
  attached afterwards exactly if it was before, whichever thread it is.
\<close>

theorem notification_reaches_java:
  assumes "java_vm jl" "jni_ready s"
  shows "deliver jl x s = Inr (s\<lparr>java_calls := java_calls s @ java_of x\<rparr>)"
  by (rule deliver_ok [OF assms])

theorem notification_reaches_java_witness:
  "deliver demo_vm (HandleCall IncomingCall ''bob'') demo_jni = Inr (demo_jni\<lparr>java_calls :=
     [CallVoidMethod ''onCall'' ''(Lcom/plivo/endpoint/SipController$CallEvent;Ljava/lang/String;)V''
        [JEnum ''CallEvent'' ''INCOMING_CALL'', JString ''bob'']]\<rparr>)"
  using notification_reaches_java [OF demo_bridge(1,2), of "HandleCall IncomingCall ''bob''"]
  by (simp add: demo_jni_def)

text \<open>
  (C11) The entry points refine controller events. When the controller event of an entry point
  completes, the entry point completes in that event's state, the notifications of the event
  arrive at Java in order, and the strings left pinned are those of \<open>leaked\<close>. In
  particular \<open>makeCall\<close> drops its headers, and the conference registration sends the
  fixed headers in key order whatever header map Java passes.
\<close>

theorem entry_refines_event:
  assumes "java_vm jl" "jni_ready s" "g_sipControllerCore s = Some c"
    and "ctl_step lib c (entry_event e) = Inr c'"
  shows "\<exists>s'. entry_step jl lib s e = Inr s' \<and> g_sipControllerCore s' = Some c'
    \<and> thread_attached s' = thread_attached s \<and> pinned s' = pinned s + leaked e
    \<and> java_calls s' = java_calls s @ java_trace (drop (length (trace c)) (trace c'))"
  using entry_ok [OF assms] by blast

theorem entry_refines_event_witness:
  "\<exists>s'. entry_step demo_vm demo_lib demo_jni (MakeCall ''bob'' ''v=0'' ''{X-A=1}'') = Inr s'
    \<and> g_sipControllerCore s' = Some (call_started ''bob'' ''v=0'' [] demo_ctl)
    \<and> pinned s' = {#''v=0''#}"
proof -
  have c: "g_sipControllerCore demo_jni = Some demo_ctl" by (simp add: demo_jni_def)
  have "ctl_step demo_lib demo_ctl (entry_event (MakeCall ''bob'' ''v=0'' ''{X-A=1}''))
      = Inr (call_started ''bob'' ''v=0'' [] demo_ctl)"
    using demo_wired by (simp add: createSession_eq)
  from entry_refines_event [OF demo_bridge(1,2) c this] show ?thesis by (auto simp: demo_jni_def)
qed

text \<open>
  Runs of entry points. A sequence of native calls whose guards hold as they come
  completes with the thread attached as before; the strings it leaves pinned add up over the
  calls, two for every ICE candidate and one for every call made or answered, and nothing
  ever releases them.
\<close>

theorem entry_runs_leak_strings:
  assumes "jni_inv jl s" "guarded_run (entry_step jl lib) (entry_guard lib) s es"
  shows "\<exists>s'. run_events (entry_step jl lib) s es = Inr s' \<and> jni_inv jl s'
    \<and> thread_attached s' = thread_attached s \<and> pinned s' = pinned s + sum_list (map leaked es)"
  by (rule run_pinned [OF assms])

theorem entry_runs_leak_strings_witness:
  "\<exists>s'. run_events (entry_step demo_vm demo_lib) demo_jni
      [IceCandidateFound ''audio'' ''candidate:1'', IceCandidateFound ''audio'' ''candidate:2''] = Inr s'
    \<and> pinned s' = {#''audio'', ''candidate:1'', ''audio'', ''candidate:2''#}"
proof -
  let ?es = "[IceCandidateFound ''audio'' ''candidate:1'', IceCandidateFound ''audio'' ''candidate:2'']"
  obtain s1 where s1: "entry_step demo_vm demo_lib demo_jni (IceCandidateFound ''audio'' ''candidate:1'') = Inr s1"
    "jni_inv demo_vm s1"
    using entry_step_ok [OF demo_bridge(3), of demo_lib "IceCandidateFound ''audio'' ''candidate:1''"]
    by (auto simp: entry_guard_def demo_jni_def)
  have "guarded_run (entry_step demo_vm demo_lib) (entry_guard demo_lib) demo_jni ?es"
    using s1 by (auto simp: entry_guard_def demo_jni_def jni_inv_def split: sum.splits option.splits)
  from entry_runs_leak_strings [OF demo_bridge(3) this] show ?thesis
    by (auto simp: demo_jni_def)
qed

text \<open>
  Calls before initialisation. Every entry point that uses the controller dereferences a
  null pointer when \<open>init\<close> has not run.
\<close>

theorem entry_before_init_fails:
  assumes "g_sipControllerCore s = None"
  shows "entry_step jl lib s e = Inl NullDeref"
  using assms
  by (cases e) (simp_all add: Java_iceGatheringFinish_def Java_iceCandidate_def Java_registerUser_def
      Java_registerUserToken_def Java_registerUserTokenHeaders_def Java_unregisterUser_def Java_makeCall_def
      Java_answer_def Java_endCall_def pin_def release_def core_call_def)

theorem entry_before_init_fails_witness:
  "entry_step demo_vm demo_lib (demo_jni\<lparr>g_sipControllerCore := None\<rparr>) (EndCall True) = Inl NullDeref"
  by (rule entry_before_init_fails) simp

end
