(* ===== verification/Pem.thy ===== *)
theory Pem
  imports Prelude
begin

text \<open>
  Reading the certificates that are compiled into the endpoint: the lines of a text, PEM
  blocks, base64 and the outermost DER elements, as RFC 7468, RFC 4648 and X.690 define them.
  The bytes of a certificate are integers from 0 to 255.
\<close>

section \<open>Base64\<close>

definition b64_val :: "char \<Rightarrow> int option" where
  "b64_val c = (let n = (of_char c :: int) in
     if 65 \<le> n \<and> n \<le> 90 then Some (n - 65)
     else if 97 \<le> n \<and> n \<le> 122 then Some (n - 71)
     else if 48 \<le> n \<and> n \<le> 57 then Some (n + 4)
     else if n = 43 then Some 62 else if n = 47 then Some 63 else None)"

definition b64_pad :: char where "b64_pad = CHR ''=''"

text \<open>One group of four characters; the last one of a text may be padded.\<close>

definition b64_group :: "char \<Rightarrow> char \<Rightarrow> char \<Rightarrow> char \<Rightarrow> bool \<Rightarrow> int list option" where
  "b64_group a b c d final = (case (b64_val a, b64_val b) of
     (Some x, Some y) \<Rightarrow>
       if d = b64_pad \<and> c = b64_pad \<and> final then Some [x * 4 + y div 16]
       else (case b64_val c of None \<Rightarrow> None | Some z \<Rightarrow>
         if d = b64_pad \<and> final then Some [x * 4 + y div 16, (y mod 16) * 16 + z div 4]
         else (case b64_val d of None \<Rightarrow> None | Some w \<Rightarrow>
           Some [x * 4 + y div 16, (y mod 16) * 16 + z div 4, (z mod 4) * 64 + w]))
   | _ \<Rightarrow> None)"

fun b64_decode :: "string \<Rightarrow> int list option" where
  "b64_decode [] = Some []"
| "b64_decode (a # b # c # d # rest) =
     (case b64_group a b c d (rest = []) of
        None \<Rightarrow> None
      | Some bs \<Rightarrow> map_option (\<lambda>r. bs @ r) (b64_decode rest))"
| "b64_decode _ = None"

text \<open>A line of whole, unpadded groups can be decoded on its own.\<close>

fun b64_full :: "string \<Rightarrow> int list option" where
  "b64_full [] = Some []"
| "b64_full (a # b # c # d # rest) =
     (case b64_group a b c d False of
        None \<Rightarrow> None
      | Some bs \<Rightarrow> map_option (\<lambda>r. bs @ r) (b64_full rest))"
| "b64_full _ = None"

lemma b64_group_full: "b64_group a b c d False = Some bs \<Longrightarrow> b64_group a b c d f = Some bs"
proof -
  assume h: "b64_group a b c d False = Some bs"
  have "b64_val b64_pad = None" by (simp add: b64_val_def b64_pad_def)
  with h show ?thesis by (auto simp: b64_group_def split: option.splits if_splits)
qed

lemma b64_decode_append:
  "b64_full s = Some bs \<Longrightarrow> b64_decode (s @ t) = map_option (\<lambda>r. bs @ r) (b64_decode t)"
proof (induction s arbitrary: bs rule: b64_full.induct)
  case 1
  then show ?case by (simp add: option.map_id0 [unfolded id_def])
next
  case (2 a b c d rest)
  then obtain g r where g: "b64_group a b c d False = Some g" "b64_full rest = Some r" "bs = g @ r"
    by (auto split: option.splits)
  from b64_group_full [OF g(1)] "2.IH" [OF g(1,2)] g(3) show ?case
    by (simp add: option.map_comp comp_def)
qed simp_all

section \<open>PEM\<close>

definition newline :: char where "newline = CHR 0x0A"

fun split_lines :: "string \<Rightarrow> string \<Rightarrow> string list" where
  "split_lines acc [] = (if acc = [] then [] else [acc])"
| "split_lines acc (c # s) = (if c = newline then acc # split_lines [] s else split_lines (acc @ [c]) s)"

definition pem_begin :: string where "pem_begin = ''-----BEGIN CERTIFICATE-----''"
definition pem_end :: string where "pem_end = ''-----END CERTIFICATE-----''"

text \<open>The bodies of the certificate blocks of a text; \<open>None\<close> for an unclosed or misplaced frame.\<close>

fun pem_blocks :: "string list option \<Rightarrow> string list \<Rightarrow> string list list option" where
  "pem_blocks None [] = Some []"
| "pem_blocks (Some _) [] = None"
| "pem_blocks None (l # ls) = (if l = pem_begin then pem_blocks (Some []) ls else None)"
| "pem_blocks (Some body) (l # ls) =
     (if l = pem_end then map_option (\<lambda>bs. body # bs) (pem_blocks None ls)
      else if l = pem_begin then None else pem_blocks (Some (body @ [l])) ls)"

lemma split_lines_line:
  "newline \<notin> set l \<Longrightarrow> split_lines acc (l @ newline # s) = (acc @ l) # split_lines [] s"
  by (induction l arbitrary: acc) auto

lemma split_lines_text:
  "list_all (\<lambda>l. newline \<notin> set l) ls \<Longrightarrow> split_lines [] (concat (map (\<lambda>l. l @ [newline]) ls)) = ls"
  by (induction ls) (simp_all add: split_lines_line)

lemma pem_blocks_block:
  assumes "pem_begin \<notin> set body" "pem_end \<notin> set body"
  shows "pem_blocks (Some acc) (body @ pem_end # rest) = map_option (\<lambda>bs. (acc @ body) # bs) (pem_blocks None rest)"
  using assms by (induction body arbitrary: acc) auto

section \<open>DER\<close>

text \<open>
  The tag and the length of the first element of a byte string, and what follows. Lengths are
  in the short form or in the long form with one or two bytes.
\<close>

fun der_header :: "int list \<Rightarrow> (int \<times> int \<times> int list) option" where
  "der_header (tag # l # bs) =
     (if l < 128 then Some (tag, l, bs)
      else if l = 129 then (case bs of
          x # r \<Rightarrow> if x < 128 then None else Some (tag, x, r)
        | _ \<Rightarrow> None)
      else if l = 130 then (case bs of
          x # y # r \<Rightarrow> if x = 0 then None else Some (tag, x * 256 + y, r)
        | _ \<Rightarrow> None)
      else None)"
| "der_header _ = None"

fun take_drop :: "int \<Rightarrow> int list \<Rightarrow> (int list \<times> int list) option" where
  "take_drop n [] = (if n = 0 then Some ([], []) else None)"
| "take_drop n (b # bs) = (if n = 0 then Some ([], b # bs)
     else map_option (\<lambda>(xs, ys). (b # xs, ys)) (take_drop (n - 1) bs))"

text \<open>Enter an element with a given tag, or take it with its content.\<close>

definition der_enter :: "int \<Rightarrow> int list \<Rightarrow> int list option" where
  "der_enter t bytes = (case der_header bytes of
     None \<Rightarrow> None | Some (tag, len, rest) \<Rightarrow> if tag = t then Some rest else None)"

definition der_take :: "int \<Rightarrow> int list \<Rightarrow> (int list \<times> int list) option" where
  "der_take t bytes = (case der_header bytes of
     None \<Rightarrow> None | Some (tag, len, rest) \<Rightarrow> if tag = t then take_drop len rest else None)"

text \<open>The arcs of an object identifier from its DER content.\<close>

fun oid_arcs :: "int \<Rightarrow> int list \<Rightarrow> int list option" where
  "oid_arcs acc [] = (if acc = 0 then Some [] else None)"
| "oid_arcs acc (b # bs) =
     (if b < 128 then map_option (\<lambda>r. (acc * 128 + b) # r) (oid_arcs 0 bs)
      else oid_arcs (acc * 128 + (b - 128)) bs)"

fun oid_of_der :: "int list \<Rightarrow> int list option" where
  "oid_of_der [] = None"
| "oid_of_der (b # bs) =
     map_option (\<lambda>r. (if b < 80 then [b div 40, b mod 40] else [2, b - 80]) @ r) (oid_arcs 0 bs)"

text \<open>
  A certificate is a SEQUENCE that starts with the signed part, a SEQUENCE of the version, the
  serial number, the signature algorithm and more. \<open>cert_signature\<close> reads the object
  identifier of the algorithm; \<open>cert_complete\<close> says that the outer length is the number of
  bytes there are.
\<close>

definition cert_signature :: "int list \<Rightarrow> int list option" where
  "cert_signature bytes =
     (case der_enter 0x30 bytes of None \<Rightarrow> None | Some b1 \<Rightarrow>
     (case der_enter 0x30 b1 of None \<Rightarrow> None | Some b2 \<Rightarrow>
     (case der_take 0xA0 b2 of None \<Rightarrow> None | Some (version, b3) \<Rightarrow>
     (case der_take 0x02 b3 of None \<Rightarrow> None | Some (serial, b4) \<Rightarrow>
     (case der_enter 0x30 b4 of None \<Rightarrow> None | Some b5 \<Rightarrow>
     (case der_take 0x06 b5 of None \<Rightarrow> None | Some (oid, b6) \<Rightarrow> oid_of_der oid))))))"

definition cert_complete :: "int list \<Rightarrow> bool" where
  "cert_complete bytes =
     (case der_header bytes of
        None \<Rightarrow> False | Some (tag, len, rest) \<Rightarrow> tag = 0x30 \<and> len = int (length rest))"

lemma der_header_append:
  "der_header bs = Some (t, n, r) \<Longrightarrow> der_header (bs @ x) = Some (t, n, r @ x)"
  by (induction bs rule: der_header.induct) (auto split: if_splits list.splits)

lemma take_drop_append:
  "take_drop n bs = Some (p, r) \<Longrightarrow> take_drop n (bs @ x) = Some (p, r @ x)"
proof (induction n bs arbitrary: p r rule: take_drop.induct)
  case (1 n)
  then show ?case by (cases x) (auto split: if_splits)
next
  case (2 n b bs)
  then show ?case by (fastforce split: if_splits)
qed

lemma der_enter_append: "der_enter t bs = Some r \<Longrightarrow> der_enter t (bs @ x) = Some (r @ x)"
  by (auto simp: der_enter_def der_header_append split: option.splits if_splits)

lemma der_take_append: "der_take t bs = Some (c, r) \<Longrightarrow> der_take t (bs @ x) = Some (c, r @ x)"
  by (auto simp: der_take_def der_header_append take_drop_append split: option.splits if_splits)

text \<open>The algorithm can be read off a prefix.\<close>

lemma cert_signature_append: "cert_signature bs = Some oid \<Longrightarrow> cert_signature (bs @ x) = Some oid"
  by (auto simp: cert_signature_def der_enter_append der_take_append split: option.splits)

section \<open>Checking a certificate line by line\<close>

fun isize :: "'a list \<Rightarrow> int" where
  "isize [] = 0"
| "isize (x # xs) = isize xs + 1"

definition full_line :: "string \<Rightarrow> bool" where
  "full_line l \<longleftrightarrow> list_all (\<lambda>c. b64_val c \<noteq> None) l \<and> isize l mod 4 = 0"

fun body_size :: "string list \<Rightarrow> int option" where
  "body_size [] = None"
| "body_size [l] = map_option isize (b64_decode l)"
| "body_size (l # l' # ls) =
     (if full_line l then map_option (\<lambda>n. n + 3 * (isize l div 4)) (body_size (l' # ls)) else None)"

fun cert_check :: "string list \<Rightarrow> int list option" where
  "cert_check [] = None"
| "cert_check (l # ls) = (case b64_full l of None \<Rightarrow> None | Some bs \<Rightarrow>
     (case body_size ls of None \<Rightarrow> None | Some n \<Rightarrow>
     (case der_header bs of None \<Rightarrow> None | Some (tag, len, rest) \<Rightarrow>
       if tag = 0x30 \<and> len = isize rest + n then cert_signature bs else None)))"

lemma isize_length: "isize xs = int (length xs)"
  by (induction xs) simp_all

lemma full_line_decodes:
  assumes "list_all (\<lambda>c. b64_val c \<noteq> None) l" "length l mod 4 = 0"
  shows "\<exists>bs. b64_full l = Some bs \<and> length bs = 3 * (length l div 4)"
  using assms
proof (induction l rule: b64_full.induct)
  case (2 a b c d rest)
  then obtain x y z w where v: "b64_val a = Some x" "b64_val b = Some y" "b64_val c = Some z" "b64_val d = Some w"
    by auto
  then have "\<exists>g. b64_group a b c d False = Some g \<and> length g = 3" by (simp add: b64_group_def)
  moreover have "length rest mod 4 = 0" using "2.prems"(2) by simp
  ultimately show ?case using 2 by fastforce
qed simp_all

lemma b64_full_Some_length: "b64_full l = Some bs \<Longrightarrow> length l mod 4 = 0"
  by (induction l arbitrary: bs rule: b64_full.induct) (auto split: option.splits)

lemma body_size_sound:
  "body_size ls = Some n \<Longrightarrow> \<exists>bs. b64_decode (concat ls) = Some bs \<and> int (length bs) = n"
proof (induction ls arbitrary: n rule: body_size.induct)
  case 1
  then show ?case by simp
next
  case (2 l)
  then show ?case by (auto simp: isize_length)
next
  case (3 l l' ls)
  then obtain m where m: "full_line l" "body_size (l' # ls) = Some m" "n = m + 3 * (isize l div 4)"
    by (auto split: if_splits)
  then have "int (length l) mod 4 = 0" by (simp add: full_line_def isize_length)
  then have "length l mod 4 = 0" by presburger
  with m(1) have "list_all (\<lambda>c. b64_val c \<noteq> None) l" "length l mod 4 = 0" by (simp_all add: full_line_def)
  from full_line_decodes [OF this] obtain b where b: "b64_full l = Some b" "length b = 3 * (length l div 4)" by blast
  from "3.IH" [OF m(1,2)] obtain r where r: "b64_decode (concat (l' # ls)) = Some r" "int (length r) = m" by blast
  have "b64_decode (concat (l # l' # ls)) = Some (b @ r)"
    using b64_decode_append [OF b(1), of "concat (l' # ls)"] r(1) by simp
  moreover have "int (length (b @ r)) = n" using r(2) b(2) m(3) by (simp add: isize_length zdiv_int)
  ultimately show ?case by blast
qed

lemma cert_check_sound:
  assumes "cert_check ls = Some oid"
  shows "\<exists>bytes. b64_decode (concat ls) = Some bytes \<and> cert_complete bytes \<and> cert_signature bytes = Some oid"
proof -
  obtain l rest where ls: "ls = l # rest" using assms by (cases ls) auto
  from assms [unfolded ls] obtain bs n len r where c: "b64_full l = Some bs" "body_size rest = Some n"
    "der_header bs = Some (0x30, len, r)" "len = isize r + n" "cert_signature bs = Some oid"
    by (auto split: option.splits if_splits)
  from body_size_sound [OF c(2)] obtain bs' where d: "b64_decode (concat rest) = Some bs'" "int (length bs') = n"
    by blast
  have "b64_decode (concat ls) = Some (bs @ bs')"
    using b64_decode_append [OF c(1), of "concat rest"] d(1) ls by simp
  moreover have "cert_complete (bs @ bs')"
    using der_header_append [OF c(3), of bs'] c(4) d(2) by (simp add: cert_complete_def isize_length)
  ultimately show ?thesis using cert_signature_append [OF c(5)] by blast
qed

section \<open>Certificate lines and PEM frames\<close>

text \<open>The characters of a line that decodes: none of them breaks a line or starts a frame.\<close>

definition b64_char :: "char \<Rightarrow> bool" where
  "b64_char c \<longleftrightarrow> b64_val c \<noteq> None \<or> c = b64_pad"

lemma b64_group_chars:
  "b64_group a b c d f = Some g \<Longrightarrow> b64_char a \<and> b64_char b \<and> b64_char c \<and> b64_char d"
  by (auto simp: b64_group_def b64_char_def split: option.splits if_splits)

lemma b64_decode_chars: "b64_decode s = Some bs \<Longrightarrow> list_all b64_char s"
  by (induction s arbitrary: bs rule: b64_decode.induct) (auto split: option.splits dest: b64_group_chars)

lemma b64_full_decode: "b64_full s = Some bs \<Longrightarrow> b64_decode s = Some bs"
  using b64_decode_append [of s bs "[]"] by simp

lemma body_size_chars: "body_size ls = Some n \<Longrightarrow> list_all (list_all b64_char) ls"
proof (induction ls arbitrary: n rule: body_size.induct)
  case (3 l l' ls)
  then obtain m where m: "full_line l" "body_size (l' # ls) = Some m" by (auto split: if_splits)
  have "list_all b64_char l" using m(1) by (auto simp: full_line_def b64_char_def list_all_iff)
  with "3.IH" [OF m] show ?case by simp
qed (auto dest: b64_decode_chars)

lemma cert_check_chars: "cert_check ls = Some oid \<Longrightarrow> list_all (list_all b64_char) ls"
  by (cases ls) (auto dest: b64_decode_chars b64_full_decode body_size_chars split: option.splits)

lemma framing_chars: "\<not> b64_char newline" "\<not> b64_char (CHR ''-'')"
  by (simp_all add: b64_char_def b64_val_def b64_pad_def newline_def)

lemma b64_line_not_frame:
  assumes "list_all b64_char l"
  shows "newline \<notin> set l" "l \<noteq> pem_begin" "l \<noteq> pem_end"
  using assms framing_chars by (auto simp: pem_begin_def pem_end_def list_all_iff)

definition pem_frame :: "string list \<Rightarrow> string list" where
  "pem_frame body = pem_begin # body @ [pem_end]"

lemma pem_frame_lines:
  "list_all (list_all b64_char) body \<Longrightarrow> list_all (\<lambda>l. newline \<notin> set l) (pem_frame body)"
proof -
  assume "list_all (list_all b64_char) body"
  then have "list_all (\<lambda>l. newline \<notin> set l) body"
    by (rule list.pred_mono_strong) (simp add: b64_line_not_frame(1))
  moreover have "newline \<notin> set pem_begin" "newline \<notin> set pem_end"
    by (simp_all add: newline_def pem_begin_def pem_end_def)
  ultimately show ?thesis by (simp add: pem_frame_def)
qed

lemma pem_blocks_frames:
  "list_all (list_all (list_all b64_char)) bodies \<Longrightarrow> pem_blocks None (concat (map pem_frame bodies)) = Some bodies"
proof (induction bodies)
  case Nil
  then show ?case by simp
next
  case (Cons body bodies)
  have "list_all b64_char l" if "l \<in> set body" for l
    using Cons.prems that by (simp add: list_all_iff)
  then have "pem_begin \<notin> set body" "pem_end \<notin> set body"
    using b64_line_not_frame(2,3) by blast+
  with Cons pem_blocks_block [of body "[]"] show ?case by (simp add: pem_frame_def)
qed

end
