(* ===== verification/Registry.thy ===== *)
theory Registry
  imports Prelude "HOL-Library.Multiset"
begin

text \<open>
  Tables of constants. The interface \<open>keyed_table\<close> is what a table with a unique key
  promises: no two entries have the same key, so that the first entry with a key
  (\<open>first_with\<close>, a notion of the specification; the headers hold only the tables) is the only
  one. The second half
  is how the promise is discharged for tables of many hundred entries: a merge sort whose
  result is strictly increasing has no duplicates, and neither has its input.
\<close>

section \<open>The interface\<close>

fun first_with :: "('a \<Rightarrow> 'k option) \<Rightarrow> 'a list \<Rightarrow> 'k \<Rightarrow> 'a option" where
  "first_with key [] k = None"
| "first_with key (x # xs) k = (if key x = Some k then Some x else first_with key xs k)"

definition keys_of :: "('a \<Rightarrow> 'k option) \<Rightarrow> 'a list \<Rightarrow> 'k list" where
  "keys_of key xs = List.map_filter key xs"

locale keyed_table =
  fixes table :: "'a list" and key :: "'a \<Rightarrow> 'k option"
  assumes keys_distinct: "distinct (keys_of key table)"
begin

lemma same_key: "x \<in> set table \<Longrightarrow> y \<in> set table \<Longrightarrow> key x = Some k \<Longrightarrow> key y = Some k \<Longrightarrow> x = y"
  using keys_distinct
proof (induction table)
  case Nil
  then show ?case by simp
next
  case (Cons a xs)
  have in_keys: "k \<in> set (keys_of key xs)" if "z \<in> set xs" "key z = Some k" for z
    using that by (force simp: keys_of_def List.map_filter_def)
  show ?case
  proof (cases "key a = Some k")
    case True
    with Cons.prems(5) have "k \<notin> set (keys_of key xs)" by (simp add: keys_of_def map_filter_simps)
    with in_keys Cons.prems(1-4) show ?thesis by auto
  next
    case False
    with Cons show ?thesis by (auto simp: keys_of_def map_filter_simps split: option.splits)
  qed
qed

lemma lookup_iff: "first_with key table k = Some x \<longleftrightarrow> x \<in> set table \<and> key x = Some k"
proof -
  have sound: "first_with key xs k = Some y \<Longrightarrow> y \<in> set xs \<and> key y = Some k" for xs y
    by (induction xs) (auto split: if_splits)
  have complete: "y \<in> set xs \<Longrightarrow> key y = Some k \<Longrightarrow> \<exists>z. first_with key xs k = Some z" for xs y
    by (induction xs) auto
  show ?thesis using sound [of table] complete [of _ table] same_key by metis
qed

lemma lookup_None_iff: "first_with key table k = None \<longleftrightarrow> k \<notin> set (keys_of key table)"
proof -
  have "first_with key xs k = None \<longleftrightarrow> k \<notin> set (keys_of key xs)" for xs
    by (induction xs) (auto simp: keys_of_def map_filter_simps split: option.splits)
  then show ?thesis by simp
qed

end

section \<open>Merge sort\<close>

fun merge_by :: "('k \<Rightarrow> 'k \<Rightarrow> bool) \<Rightarrow> 'k list \<Rightarrow> 'k list \<Rightarrow> 'k list" where
  "merge_by lt [] ys = ys"
| "merge_by lt (x # xs) [] = x # xs"
| "merge_by lt (x # xs) (y # ys) =
     (if lt x y then x # merge_by lt xs (y # ys) else y # merge_by lt (x # xs) ys)"

fun merge_pairs :: "('k \<Rightarrow> 'k \<Rightarrow> bool) \<Rightarrow> 'k list list \<Rightarrow> 'k list list" where
  "merge_pairs lt (xs # ys # zss) = merge_by lt xs ys # merge_pairs lt zss"
| "merge_pairs lt zss = zss"

lemma length_merge_pairs: "length (merge_pairs lt zss) \<le> length zss"
  by (induction lt zss rule: merge_pairs.induct) auto

function merge_all :: "('k \<Rightarrow> 'k \<Rightarrow> bool) \<Rightarrow> 'k list list \<Rightarrow> 'k list" where
  "merge_all lt [] = []"
| "merge_all lt [xs] = xs"
| "merge_all lt (xs # ys # zss) = merge_all lt (merge_pairs lt (xs # ys # zss))"
  by pat_completeness auto
termination
proof (relation "measure (\<lambda>(lt, zss). length zss)")
  fix lt :: "'k \<Rightarrow> 'k \<Rightarrow> bool" and xs ys :: "'k list" and zss
  show "((lt, merge_pairs lt (xs # ys # zss)), lt, xs # ys # zss) \<in> measure (\<lambda>(lt, zss). length zss)"
    using length_merge_pairs [of lt zss] by simp
qed simp

definition msort_by :: "('k \<Rightarrow> 'k \<Rightarrow> bool) \<Rightarrow> 'k list \<Rightarrow> 'k list" where
  "msort_by lt xs = merge_all lt (map (\<lambda>x. [x]) xs)"

fun increasing :: "('k \<Rightarrow> 'k \<Rightarrow> bool) \<Rightarrow> 'k list \<Rightarrow> bool" where
  "increasing lt [] = True"
| "increasing lt [x] = True"
| "increasing lt (x # y # zs) = (lt x y \<and> increasing lt (y # zs))"

lemma mset_merge_by: "mset (merge_by lt xs ys) = mset xs + mset ys"
  by (induction lt xs ys rule: merge_by.induct) auto

lemma mset_merge_pairs: "mset (concat (merge_pairs lt zss)) = mset (concat zss)"
  by (induction lt zss rule: merge_pairs.induct) (auto simp: mset_merge_by)

lemma mset_merge_all: "mset (merge_all lt zss) = mset (concat zss)"
proof (induction lt zss rule: merge_all.induct)
  case (3 lt xs ys zss)
  have "mset (merge_all lt (xs # ys # zss)) = mset (concat (merge_pairs lt (xs # ys # zss)))"
    unfolding merge_all.simps(3) by (rule "3.IH")
  then show ?case unfolding mset_merge_pairs .
qed simp_all

lemma mset_msort_by: "mset (msort_by lt xs) = mset xs"
proof -
  have "concat (map (\<lambda>x. [x]) xs) = xs" by (induction xs) simp_all
  then show ?thesis by (simp add: msort_by_def mset_merge_all)
qed

lemma increasing_distinct:
  assumes "\<And>a. \<not> lt a a" "\<And>a b c. lt a b \<Longrightarrow> lt b c \<Longrightarrow> lt a c"
  shows "increasing lt xs \<Longrightarrow> distinct xs \<and> (\<forall>y \<in> set (tl xs). lt (hd xs) y)"
proof (induction xs rule: induct_list012)
  case (3 x y zs)
  then have "lt x y" "distinct (y # zs)" "\<forall>z \<in> set zs. lt y z" by simp_all
  moreover from this have "lt x z" if "z \<in> set zs" for z using assms(2) that by blast
  ultimately show ?case using assms(1) by auto
qed simp_all

lemma distinct_by_sorting:
  assumes "\<And>a. \<not> lt a a" "\<And>a b c. lt a b \<Longrightarrow> lt b c \<Longrightarrow> lt a c" "increasing lt (msort_by lt xs)"
  shows "distinct xs"
proof -
  have "distinct (msort_by lt xs)" using increasing_distinct [of lt "msort_by lt xs"] assms by blast
  then show ?thesis using mset_eq_imp_distinct_iff [OF mset_msort_by] by blast
qed

section \<open>Integer keys\<close>

lemma distinct_ints: "increasing (<) (msort_by (<) (xs :: int list)) \<Longrightarrow> distinct xs"
  by (rule distinct_by_sorting [where lt = "(<)"]) auto

end
