(* ===== verification/ObjectIds.thy ===== *)
theory ObjectIds
  imports Registry
begin

text \<open>
  The object identifiers of the TLS library that the endpoint is linked with
  (\<open>openssl/obj_mac.h\<close>): the four macros of one object as an entry, the expansion of the
  \<open>OBJ_\<close> macros to lists of arcs, and the checks that the table theories
  \<open>ObjMac1\<close> to \<open>ObjMac4\<close> carry out part by part.
\<close>

section \<open>Entries\<close>

text \<open>
  An object by the common suffix of its macros: the short name (\<open>SN_\<close>), the long name
  (\<open>LN_\<close>), the number (\<open>NID_\<close>) and the right-hand side of its \<open>OBJ_\<close> macro, an
  optional leading \<open>OBJ_\<close> macro and the arcs that follow.
\<close>

datatype obj =
  Obj (o_macro: string) (o_sn: "string option") (o_ln: "string option") (o_nid: "int option")
    (o_def: "(string option \<times> int list) option")

text \<open>What an \<open>OBJ_\<close> macro expands to, given the macros of a header.\<close>

inductive expands :: "obj list \<Rightarrow> string \<Rightarrow> int list \<Rightarrow> bool" for tab where
  root: "Obj n sn ln nid (Some (None, arcs)) \<in> set tab \<Longrightarrow> expands tab n arcs"
| child: "Obj n sn ln nid (Some (Some p, arcs)) \<in> set tab \<Longrightarrow> expands tab p as \<Longrightarrow> expands tab n (as @ arcs)"

text \<open>An object identifier: a first arc of 0 to 2, and below 0 and 1 a second arc of less than 40.\<close>

fun valid_oid :: "int list \<Rightarrow> bool" where
  "valid_oid [] = False"
| "valid_oid [a] = (0 \<le> a \<and> a \<le> 2)"
| "valid_oid (a # b # arcs) =
     (0 \<le> a \<and> a \<le> 2 \<and> 0 \<le> b \<and> (a < 2 \<longrightarrow> b < 40) \<and> list_all (\<lambda>x. 0 \<le> x) arcs)"

section \<open>Expanding a part of the header\<close>

fun find_oid :: "string \<Rightarrow> (string \<times> int list) list \<Rightarrow> int list option" where
  "find_oid n [] = None"
| "find_oid n ((m, arcs) # env) = (if n = m then Some arcs else find_oid n env)"

text \<open>
  Read the entries from top to bottom with the macros known so far; fail when a macro uses one
  that is not yet known or when its arcs are not an object identifier.
\<close>

fun expand_all :: "(string \<times> int list) list \<Rightarrow> obj list \<Rightarrow> (string \<times> int list) list option" where
  "expand_all env [] = Some env"
| "expand_all env (Obj n sn ln nid d # os) = (case d of
     None \<Rightarrow> expand_all env os
   | Some (p, arcs) \<Rightarrow> (case p of
       None \<Rightarrow> if valid_oid arcs then expand_all ((n, arcs) # env) os else None
     | Some q \<Rightarrow> (case find_oid q env of
         None \<Rightarrow> None
       | Some as \<Rightarrow> if valid_oid (as @ arcs) then expand_all ((n, as @ arcs) # env) os else None)))"

definition part_ok :: "(string \<times> int list) list \<Rightarrow> obj list \<Rightarrow> (string \<times> int list) list \<Rightarrow> bool" where
  "part_ok known objs exports =
     (case expand_all known objs of
        None \<Rightarrow> False
      | Some env \<Rightarrow> list_all (\<lambda>(n, arcs). find_oid n env = Some arcs) exports)"

definition resolves :: "obj list \<Rightarrow> (string \<times> int list) list \<Rightarrow> bool" where
  "resolves tab env \<longleftrightarrow> (\<forall>(n, arcs) \<in> set env. expands tab n arcs)"

lemma find_oid_mem: "find_oid n env = Some arcs \<Longrightarrow> (n, arcs) \<in> set env"
  by (induction n env rule: find_oid.induct) (auto split: if_splits)

lemma resolves_simps [simp]:
  "resolves tab []"
  "resolves tab ((n, arcs) # env) \<longleftrightarrow> expands tab n arcs \<and> resolves tab env"
  by (auto simp: resolves_def)

lemma expand_all_sound:
  assumes "expand_all env objs = Some env'" "set objs \<subseteq> set tab" "resolves tab env"
  shows "resolves tab env' \<and> set env \<subseteq> set env'
    \<and> (\<forall>x \<in> set objs. o_def x \<noteq> None \<longrightarrow> (\<exists>arcs. (o_macro x, arcs) \<in> set env' \<and> valid_oid arcs))"
  using assms
proof (induction env objs arbitrary: env' rule: expand_all.induct)
  case (1 env)
  then show ?case by simp
next
  case (2 env n sn ln nid d os)
  let ?e = "Obj n sn ln nid d"
  consider "d = None" | arcs where "d = Some (None, arcs)" | q arcs where "d = Some (Some q, arcs)"
    by (metis option.exhaust surj_pair)
  then show ?case
  proof cases
    case 1
    with 2 show ?thesis by auto
  next
    case (2 arcs)
    with \<open>expand_all env (?e # os) = Some env'\<close> have s: "valid_oid arcs" "expand_all ((n, arcs) # env) os = Some env'"
      by (simp_all split: if_splits)
    have "expands tab n arcs" using 2 \<open>set (?e # os) \<subseteq> set tab\<close> expands.root by auto
    then have "resolves tab env' \<and> set ((n, arcs) # env) \<subseteq> set env'
      \<and> (\<forall>x \<in> set os. o_def x \<noteq> None \<longrightarrow> (\<exists>arcs. (o_macro x, arcs) \<in> set env' \<and> valid_oid arcs))"
      using "2.IH"(2) [OF 2 refl refl] s "2.prems"(2,3) by simp
    with s show ?thesis by auto
  next
    case (3 q arcs)
    with \<open>expand_all env (?e # os) = Some env'\<close> obtain as where s: "find_oid q env = Some as"
      "valid_oid (as @ arcs)" "expand_all ((n, as @ arcs) # env) os = Some env'"
      by (auto split: option.splits if_splits)
    have "expands tab q as" using find_oid_mem [OF s(1)] "2.prems"(3) by (auto simp: resolves_def)
    then have "expands tab n (as @ arcs)" using 3 \<open>set (?e # os) \<subseteq> set tab\<close> expands.child by auto
    then have "resolves tab env' \<and> set ((n, as @ arcs) # env) \<subseteq> set env'
      \<and> (\<forall>x \<in> set os. o_def x \<noteq> None \<longrightarrow> (\<exists>arcs. (o_macro x, arcs) \<in> set env' \<and> valid_oid arcs))"
      using "2.IH"(3) [OF 3 refl refl s(1)] s "2.prems"(2,3) by simp
    with s show ?thesis by auto
  qed
qed

text \<open>One part of the header, checked on its own: what it needs from above and what it gives below.\<close>

lemma part_sound:
  assumes "part_ok known objs exports" "set objs \<subseteq> set tab" "resolves tab known"
  shows "resolves tab exports"
    and "\<forall>x \<in> set objs. o_def x \<noteq> None \<longrightarrow> (\<exists>arcs. expands tab (o_macro x) arcs \<and> valid_oid arcs)"
proof -
  from assms(1) obtain env where env: "expand_all known objs = Some env"
    "list_all (\<lambda>(n, arcs). find_oid n env = Some arcs) exports"
    by (auto simp: part_ok_def split: option.splits)
  note s = expand_all_sound [OF env(1) assms(2,3)]
  have r: "resolves tab env" using s by blast
  show "resolves tab exports"
    using env(2) find_oid_mem r by (fastforce simp: resolves_def list_all_iff)
  show "\<forall>x \<in> set objs. o_def x \<noteq> None \<longrightarrow> (\<exists>arcs. expands tab (o_macro x) arcs \<and> valid_oid arcs)"
    using s r by (fastforce simp: resolves_def)
qed

section \<open>Keys\<close>

lemma keys_of_simps [simp]:
  "keys_of f [] = []"
  "keys_of f (x # xs) = (case f x of None \<Rightarrow> keys_of f xs | Some k \<Rightarrow> k # keys_of f xs)"
  "keys_of f (xs @ ys) = keys_of f xs @ keys_of f ys"
proof -
  show "keys_of f [] = []" by (simp add: keys_of_def map_filter_simps)
  show cons: "keys_of f (x # xs) = (case f x of None \<Rightarrow> keys_of f xs | Some k \<Rightarrow> k # keys_of f xs)" for x xs
    by (simp add: keys_of_def map_filter_simps split: option.split)
  show "keys_of f (xs @ ys) = keys_of f xs @ keys_of f ys"
    by (induction xs) (simp_all add: cons \<open>keys_of f [] = []\<close> split: option.split)
qed

text \<open>The three columns of an entry, read off without looking at the others.\<close>

lemma column_simps:
  "keys_of o_nid (Obj m sn ln None d # xs) = keys_of o_nid xs"
  "keys_of o_nid (Obj m sn ln (Some n) d # xs) = n # keys_of o_nid xs"
  "keys_of o_sn (Obj m None ln nid d # xs) = keys_of o_sn xs"
  "keys_of o_sn (Obj m (Some s) ln nid d # xs) = s # keys_of o_sn xs"
  "keys_of o_ln (Obj m sn None nid d # xs) = keys_of o_ln xs"
  "keys_of o_ln (Obj m sn (Some l) nid d # xs) = l # keys_of o_ln xs"
  by simp_all

text \<open>
  A fingerprint of a string. Strings with different fingerprints are different, so that a list
  of strings whose fingerprints are all different has no duplicates; the modulus is one for
  which this is the case for the names of the header.
\<close>

fun fingerprint :: "int \<Rightarrow> string \<Rightarrow> int" where
  "fingerprint a [] = a"
| "fingerprint a (c # s) = fingerprint ((31 * a + of_char c) mod 66002) s"

lemma distinct_fingerprints:
  assumes "increasing (<) (msort_by (<) (map (fingerprint 0) xs))"
  shows "distinct xs"
  using distinct_ints [OF assms] by (simp add: distinct_map)

end
