(* ===== verification/ObjMac1.thy ===== *)
theory ObjMac1
  imports ObjectIds
begin

text \<open>
  Objects of \<open>openssl/obj_mac.h\<close>, lines 65 to 1112, in the order of the header, each part with
  its columns and with the check that its \<open>OBJ_\<close> macros expand.
\<close>

section \<open>Tables\<close>

definition obj_mac_0 :: "obj list" where
  "obj_mac_0 =
     [Obj ''undef'' (Some ''UNDEF'') (Some ''undefined'') (Some 0) (Some (None, [0])),
      Obj ''itu_t'' (Some ''ITU-T'') (Some ''itu-t'') (Some 645) (Some (None, [0])),
      Obj ''ccitt'' None None (Some 404) (Some (Some ''itu_t'', [])),
      Obj ''iso'' (Some ''ISO'') (Some ''iso'') (Some 181) (Some (None, [1])),
      Obj ''joint_iso_itu_t'' (Some ''JOINT-ISO-ITU-T'') (Some ''joint-iso-itu-t'') (Some 646) (Some (None, [2])),
      Obj ''joint_iso_ccitt'' None None (Some 393) (Some (Some ''joint_iso_itu_t'', [])),
      Obj ''member_body'' (Some ''member-body'') (Some ''ISO Member Body'') (Some 182) (Some (Some ''iso'', [2])),
      Obj ''identified_organization'' (Some ''identified-organization'') None (Some 676) (Some (Some ''iso'', [3])),
      Obj ''hmac_md5'' (Some ''HMAC-MD5'') (Some ''hmac-md5'') (Some 780) (Some (Some ''identified_organization'', [6, 1, 5, 5, 8, 1, 1])),
      Obj ''hmac_sha1'' (Some ''HMAC-SHA1'') (Some ''hmac-sha1'') (Some 781) (Some (Some ''identified_organization'', [6, 1, 5, 5, 8, 1, 2])),
      Obj ''certicom_arc'' (Some ''certicom-arc'') None (Some 677) (Some (Some ''identified_organization'', [132])),
      Obj ''international_organizations'' (Some ''international-organizations'') (Some ''International Organizations'') (Some 647) (Some (Some ''joint_iso_itu_t'', [23])),
      Obj ''wap'' (Some ''wap'') None (Some 678) (Some (Some ''international_organizations'', [43])),
      Obj ''wap_wsg'' (Some ''wap-wsg'') None (Some 679) (Some (Some ''wap'', [1])),
      Obj ''selected_attribute_types'' (Some ''selected-attribute-types'') (Some ''Selected Attribute Types'') (Some 394) (Some (Some ''joint_iso_itu_t'', [5, 1, 5])),
      Obj ''clearance'' (Some ''clearance'') None (Some 395) (Some (Some ''selected_attribute_types'', [55])),
      Obj ''ISO_US'' (Some ''ISO-US'') (Some ''ISO US Member Body'') (Some 183) (Some (Some ''member_body'', [840])),
      Obj ''X9_57'' (Some ''X9-57'') (Some ''X9.57'') (Some 184) (Some (Some ''ISO_US'', [10040])),
      Obj ''X9cm'' (Some ''X9cm'') (Some ''X9.57 CM ?'') (Some 185) (Some (Some ''X9_57'', [4])),
      Obj ''dsa'' (Some ''DSA'') (Some ''dsaEncryption'') (Some 116) (Some (Some ''X9cm'', [1])),
      Obj ''dsaWithSHA1'' (Some ''DSA-SHA1'') (Some ''dsaWithSHA1'') (Some 113) (Some (Some ''X9cm'', [3])),
      Obj ''ansi_X9_62'' (Some ''ansi-X9-62'') (Some ''ANSI X9.62'') (Some 405) (Some (Some ''ISO_US'', [10045])),
      Obj ''X9_62_id_fieldType'' None None None (Some (Some ''ansi_X9_62'', [1])),
      Obj ''X9_62_prime_field'' (Some ''prime-field'') None (Some 406) (Some (Some ''X9_62_id_fieldType'', [1])),
      Obj ''X9_62_characteristic_two_field'' (Some ''characteristic-two-field'') None (Some 407) (Some (Some ''X9_62_id_fieldType'', [2])),
      Obj ''X9_62_id_characteristic_two_basis'' (Some ''id-characteristic-two-basis'') None (Some 680) (Some (Some ''X9_62_characteristic_two_field'', [3])),
      Obj ''X9_62_onBasis'' (Some ''onBasis'') None (Some 681) (Some (Some ''X9_62_id_characteristic_two_basis'', [1])),
      Obj ''X9_62_tpBasis'' (Some ''tpBasis'') None (Some 682) (Some (Some ''X9_62_id_characteristic_two_basis'', [2])),
      Obj ''X9_62_ppBasis'' (Some ''ppBasis'') None (Some 683) (Some (Some ''X9_62_id_characteristic_two_basis'', [3])),
      Obj ''X9_62_id_publicKeyType'' None None None (Some (Some ''ansi_X9_62'', [2])),
      Obj ''X9_62_id_ecPublicKey'' (Some ''id-ecPublicKey'') None (Some 408) (Some (Some ''X9_62_id_publicKeyType'', [1])),
      Obj ''X9_62_ellipticCurve'' None None None (Some (Some ''ansi_X9_62'', [3])),
      Obj ''X9_62_c_TwoCurve'' None None None (Some (Some ''X9_62_ellipticCurve'', [0])),
      Obj ''X9_62_c2pnb163v1'' (Some ''c2pnb163v1'') None (Some 684) (Some (Some ''X9_62_c_TwoCurve'', [1])),
      Obj ''X9_62_c2pnb163v2'' (Some ''c2pnb163v2'') None (Some 685) (Some (Some ''X9_62_c_TwoCurve'', [2])),
      Obj ''X9_62_c2pnb163v3'' (Some ''c2pnb163v3'') None (Some 686) (Some (Some ''X9_62_c_TwoCurve'', [3]))]"

definition obj_mac_1 :: "obj list" where
  "obj_mac_1 =
     [Obj ''X9_62_c2pnb176v1'' (Some ''c2pnb176v1'') None (Some 687) (Some (Some ''X9_62_c_TwoCurve'', [4])),
      Obj ''X9_62_c2tnb191v1'' (Some ''c2tnb191v1'') None (Some 688) (Some (Some ''X9_62_c_TwoCurve'', [5])),
      Obj ''X9_62_c2tnb191v2'' (Some ''c2tnb191v2'') None (Some 689) (Some (Some ''X9_62_c_TwoCurve'', [6])),
      Obj ''X9_62_c2tnb191v3'' (Some ''c2tnb191v3'') None (Some 690) (Some (Some ''X9_62_c_TwoCurve'', [7])),
      Obj ''X9_62_c2onb191v4'' (Some ''c2onb191v4'') None (Some 691) (Some (Some ''X9_62_c_TwoCurve'', [8])),
      Obj ''X9_62_c2onb191v5'' (Some ''c2onb191v5'') None (Some 692) (Some (Some ''X9_62_c_TwoCurve'', [9])),
      Obj ''X9_62_c2pnb208w1'' (Some ''c2pnb208w1'') None (Some 693) (Some (Some ''X9_62_c_TwoCurve'', [10])),
      Obj ''X9_62_c2tnb239v1'' (Some ''c2tnb239v1'') None (Some 694) (Some (Some ''X9_62_c_TwoCurve'', [11])),
      Obj ''X9_62_c2tnb239v2'' (Some ''c2tnb239v2'') None (Some 695) (Some (Some ''X9_62_c_TwoCurve'', [12])),
      Obj ''X9_62_c2tnb239v3'' (Some ''c2tnb239v3'') None (Some 696) (Some (Some ''X9_62_c_TwoCurve'', [13])),
      Obj ''X9_62_c2onb239v4'' (Some ''c2onb239v4'') None (Some 697) (Some (Some ''X9_62_c_TwoCurve'', [14])),
      Obj ''X9_62_c2onb239v5'' (Some ''c2onb239v5'') None (Some 698) (Some (Some ''X9_62_c_TwoCurve'', [15])),
      Obj ''X9_62_c2pnb272w1'' (Some ''c2pnb272w1'') None (Some 699) (Some (Some ''X9_62_c_TwoCurve'', [16])),
      Obj ''X9_62_c2pnb304w1'' (Some ''c2pnb304w1'') None (Some 700) (Some (Some ''X9_62_c_TwoCurve'', [17])),
      Obj ''X9_62_c2tnb359v1'' (Some ''c2tnb359v1'') None (Some 701) (Some (Some ''X9_62_c_TwoCurve'', [18])),
      Obj ''X9_62_c2pnb368w1'' (Some ''c2pnb368w1'') None (Some 702) (Some (Some ''X9_62_c_TwoCurve'', [19])),
      Obj ''X9_62_c2tnb431r1'' (Some ''c2tnb431r1'') None (Some 703) (Some (Some ''X9_62_c_TwoCurve'', [20])),
      Obj ''X9_62_primeCurve'' None None None (Some (Some ''X9_62_ellipticCurve'', [1])),
      Obj ''X9_62_prime192v1'' (Some ''prime192v1'') None (Some 409) (Some (Some ''X9_62_primeCurve'', [1])),
      Obj ''X9_62_prime192v2'' (Some ''prime192v2'') None (Some 410) (Some (Some ''X9_62_primeCurve'', [2])),
      Obj ''X9_62_prime192v3'' (Some ''prime192v3'') None (Some 411) (Some (Some ''X9_62_primeCurve'', [3])),
      Obj ''X9_62_prime239v1'' (Some ''prime239v1'') None (Some 412) (Some (Some ''X9_62_primeCurve'', [4])),
      Obj ''X9_62_prime239v2'' (Some ''prime239v2'') None (Some 413) (Some (Some ''X9_62_primeCurve'', [5])),
      Obj ''X9_62_prime239v3'' (Some ''prime239v3'') None (Some 414) (Some (Some ''X9_62_primeCurve'', [6])),
      Obj ''X9_62_prime256v1'' (Some ''prime256v1'') None (Some 415) (Some (Some ''X9_62_primeCurve'', [7])),
      Obj ''X9_62_id_ecSigType'' None None None (Some (Some ''ansi_X9_62'', [4])),
      Obj ''ecdsa_with_SHA1'' (Some ''ecdsa-with-SHA1'') None (Some 416) (Some (Some ''X9_62_id_ecSigType'', [1])),
      Obj ''ecdsa_with_Recommended'' (Some ''ecdsa-with-Recommended'') None (Some 791) (Some (Some ''X9_62_id_ecSigType'', [2])),
      Obj ''ecdsa_with_Specified'' (Some ''ecdsa-with-Specified'') None (Some 792) (Some (Some ''X9_62_id_ecSigType'', [3])),
      Obj ''ecdsa_with_SHA224'' (Some ''ecdsa-with-SHA224'') None (Some 793) (Some (Some ''ecdsa_with_Specified'', [1])),
      Obj ''ecdsa_with_SHA256'' (Some ''ecdsa-with-SHA256'') None (Some 794) (Some (Some ''ecdsa_with_Specified'', [2])),
      Obj ''ecdsa_with_SHA384'' (Some ''ecdsa-with-SHA384'') None (Some 795) (Some (Some ''ecdsa_with_Specified'', [3])),
      Obj ''ecdsa_with_SHA512'' (Some ''ecdsa-with-SHA512'') None (Some 796) (Some (Some ''ecdsa_with_Specified'', [4])),
      Obj ''secg_ellipticCurve'' None None None (Some (Some ''certicom_arc'', [0])),
      Obj ''secp112r1'' (Some ''secp112r1'') None (Some 704) (Some (Some ''secg_ellipticCurve'', [6])),
      Obj ''secp112r2'' (Some ''secp112r2'') None (Some 705) (Some (Some ''secg_ellipticCurve'', [7])),
      Obj ''secp128r1'' (Some ''secp128r1'') None (Some 706) (Some (Some ''secg_ellipticCurve'', [28])),
      Obj ''secp128r2'' (Some ''secp128r2'') None (Some 707) (Some (Some ''secg_ellipticCurve'', [29])),
      Obj ''secp160k1'' (Some ''secp160k1'') None (Some 708) (Some (Some ''secg_ellipticCurve'', [9]))]"

definition obj_mac_2 :: "obj list" where
  "obj_mac_2 =
     [Obj ''secp160r1'' (Some ''secp160r1'') None (Some 709) (Some (Some ''secg_ellipticCurve'', [8])),
      Obj ''secp160r2'' (Some ''secp160r2'') None (Some 710) (Some (Some ''secg_ellipticCurve'', [30])),
      Obj ''secp192k1'' (Some ''secp192k1'') None (Some 711) (Some (Some ''secg_ellipticCurve'', [31])),
      Obj ''secp224k1'' (Some ''secp224k1'') None (Some 712) (Some (Some ''secg_ellipticCurve'', [32])),
      Obj ''secp224r1'' (Some ''secp224r1'') None (Some 713) (Some (Some ''secg_ellipticCurve'', [33])),
      Obj ''secp256k1'' (Some ''secp256k1'') None (Some 714) (Some (Some ''secg_ellipticCurve'', [10])),
      Obj ''secp384r1'' (Some ''secp384r1'') None (Some 715) (Some (Some ''secg_ellipticCurve'', [34])),
      Obj ''secp521r1'' (Some ''secp521r1'') None (Some 716) (Some (Some ''secg_ellipticCurve'', [35])),
      Obj ''sect113r1'' (Some ''sect113r1'') None (Some 717) (Some (Some ''secg_ellipticCurve'', [4])),
      Obj ''sect113r2'' (Some ''sect113r2'') None (Some 718) (Some (Some ''secg_ellipticCurve'', [5])),
      Obj ''sect131r1'' (Some ''sect131r1'') None (Some 719) (Some (Some ''secg_ellipticCurve'', [22])),
      Obj ''sect131r2'' (Some ''sect131r2'') None (Some 720) (Some (Some ''secg_ellipticCurve'', [23])),
      Obj ''sect163k1'' (Some ''sect163k1'') None (Some 721) (Some (Some ''secg_ellipticCurve'', [1])),
      Obj ''sect163r1'' (Some ''sect163r1'') None (Some 722) (Some (Some ''secg_ellipticCurve'', [2])),
      Obj ''sect163r2'' (Some ''sect163r2'') None (Some 723) (Some (Some ''secg_ellipticCurve'', [15])),
      Obj ''sect193r1'' (Some ''sect193r1'') None (Some 724) (Some (Some ''secg_ellipticCurve'', [24])),
      Obj ''sect193r2'' (Some ''sect193r2'') None (Some 725) (Some (Some ''secg_ellipticCurve'', [25])),
      Obj ''sect233k1'' (Some ''sect233k1'') None (Some 726) (Some (Some ''secg_ellipticCurve'', [26])),
      Obj ''sect233r1'' (Some ''sect233r1'') None (Some 727) (Some (Some ''secg_ellipticCurve'', [27])),
      Obj ''sect239k1'' (Some ''sect239k1'') None (Some 728) (Some (Some ''secg_ellipticCurve'', [3])),
      Obj ''sect283k1'' (Some ''sect283k1'') None (Some 729) (Some (Some ''secg_ellipticCurve'', [16])),
      Obj ''sect283r1'' (Some ''sect283r1'') None (Some 730) (Some (Some ''secg_ellipticCurve'', [17])),
      Obj ''sect409k1'' (Some ''sect409k1'') None (Some 731) (Some (Some ''secg_ellipticCurve'', [36])),
      Obj ''sect409r1'' (Some ''sect409r1'') None (Some 732) (Some (Some ''secg_ellipticCurve'', [37])),
      Obj ''sect571k1'' (Some ''sect571k1'') None (Some 733) (Some (Some ''secg_ellipticCurve'', [38])),
      Obj ''sect571r1'' (Some ''sect571r1'') None (Some 734) (Some (Some ''secg_ellipticCurve'', [39])),
      Obj ''wap_wsg_idm_ecid'' None None None (Some (Some ''wap_wsg'', [4])),
      Obj ''wap_wsg_idm_ecid_wtls1'' (Some ''wap-wsg-idm-ecid-wtls1'') None (Some 735) (Some (Some ''wap_wsg_idm_ecid'', [1])),
      Obj ''wap_wsg_idm_ecid_wtls3'' (Some ''wap-wsg-idm-ecid-wtls3'') None (Some 736) (Some (Some ''wap_wsg_idm_ecid'', [3])),
      Obj ''wap_wsg_idm_ecid_wtls4'' (Some ''wap-wsg-idm-ecid-wtls4'') None (Some 737) (Some (Some ''wap_wsg_idm_ecid'', [4])),
      Obj ''wap_wsg_idm_ecid_wtls5'' (Some ''wap-wsg-idm-ecid-wtls5'') None (Some 738) (Some (Some ''wap_wsg_idm_ecid'', [5])),
      Obj ''wap_wsg_idm_ecid_wtls6'' (Some ''wap-wsg-idm-ecid-wtls6'') None (Some 739) (Some (Some ''wap_wsg_idm_ecid'', [6])),
      Obj ''wap_wsg_idm_ecid_wtls7'' (Some ''wap-wsg-idm-ecid-wtls7'') None (Some 740) (Some (Some ''wap_wsg_idm_ecid'', [7])),
      Obj ''wap_wsg_idm_ecid_wtls8'' (Some ''wap-wsg-idm-ecid-wtls8'') None (Some 741) (Some (Some ''wap_wsg_idm_ecid'', [8])),
      Obj ''wap_wsg_idm_ecid_wtls9'' (Some ''wap-wsg-idm-ecid-wtls9'') None (Some 742) (Some (Some ''wap_wsg_idm_ecid'', [9])),
      Obj ''wap_wsg_idm_ecid_wtls10'' (Some ''wap-wsg-idm-ecid-wtls10'') None (Some 743) (Some (Some ''wap_wsg_idm_ecid'', [10])),
      Obj ''wap_wsg_idm_ecid_wtls11'' (Some ''wap-wsg-idm-ecid-wtls11'') None (Some 744) (Some (Some ''wap_wsg_idm_ecid'', [11])),
      Obj ''wap_wsg_idm_ecid_wtls12'' (Some ''wap-wsg-idm-ecid-wtls12'') None (Some 745) (Some (Some ''wap_wsg_idm_ecid'', [12]))]"

definition obj_mac_3 :: "obj list" where
  "obj_mac_3 =
     [Obj ''cast5_cbc'' (Some ''CAST5-CBC'') (Some ''cast5-cbc'') (Some 108) (Some (Some ''ISO_US'', [113533, 7, 66, 10])),
      Obj ''cast5_ecb'' (Some ''CAST5-ECB'') (Some ''cast5-ecb'') (Some 109) None,
      Obj ''cast5_cfb64'' (Some ''CAST5-CFB'') (Some ''cast5-cfb'') (Some 110) None,
      Obj ''cast5_ofb64'' (Some ''CAST5-OFB'') (Some ''cast5-ofb'') (Some 111) None,
      Obj ''pbeWithMD5AndCast5_CBC'' None (Some ''pbeWithMD5AndCast5CBC'') (Some 112) (Some (Some ''ISO_US'', [113533, 7, 66, 12])),
      Obj ''id_PasswordBasedMAC'' (Some ''id-PasswordBasedMAC'') (Some ''password based MAC'') (Some 782) (Some (Some ''ISO_US'', [113533, 7, 66, 13])),
      Obj ''id_DHBasedMac'' (Some ''id-DHBasedMac'') (Some ''Diffie-Hellman based MAC'') (Some 783) (Some (Some ''ISO_US'', [113533, 7, 66, 30])),
      Obj ''rsadsi'' (Some ''rsadsi'') (Some ''RSA Data Security, Inc.'') (Some 1) (Some (Some ''ISO_US'', [113549])),
      Obj ''pkcs'' (Some ''pkcs'') (Some ''RSA Data Security, Inc. PKCS'') (Some 2) (Some (Some ''rsadsi'', [1])),
      Obj ''pkcs1'' (Some ''pkcs1'') None (Some 186) (Some (Some ''pkcs'', [1])),
      Obj ''rsaEncryption'' None (Some ''rsaEncryption'') (Some 6) (Some (Some ''pkcs1'', [1])),
      Obj ''md2WithRSAEncryption'' (Some ''RSA-MD2'') (Some ''md2WithRSAEncryption'') (Some 7) (Some (Some ''pkcs1'', [2])),
      Obj ''md4WithRSAEncryption'' (Some ''RSA-MD4'') (Some ''md4WithRSAEncryption'') (Some 396) (Some (Some ''pkcs1'', [3])),
      Obj ''md5WithRSAEncryption'' (Some ''RSA-MD5'') (Some ''md5WithRSAEncryption'') (Some 8) (Some (Some ''pkcs1'', [4])),
      Obj ''sha1WithRSAEncryption'' (Some ''RSA-SHA1'') (Some ''sha1WithRSAEncryption'') (Some 65) (Some (Some ''pkcs1'', [5])),
      Obj ''rsaesOaep'' (Some ''RSAES-OAEP'') (Some ''rsaesOaep'') (Some 919) (Some (Some ''pkcs1'', [7])),
      Obj ''mgf1'' (Some ''MGF1'') (Some ''mgf1'') (Some 911) (Some (Some ''pkcs1'', [8])),
      Obj ''pSpecified'' (Some ''PSPECIFIED'') (Some ''pSpecified'') (Some 935) (Some (Some ''pkcs1'', [9])),
      Obj ''rsassaPss'' (Some ''RSASSA-PSS'') (Some ''rsassaPss'') (Some 912) (Some (Some ''pkcs1'', [10])),
      Obj ''sha256WithRSAEncryption'' (Some ''RSA-SHA256'') (Some ''sha256WithRSAEncryption'') (Some 668) (Some (Some ''pkcs1'', [11])),
      Obj ''sha384WithRSAEncryption'' (Some ''RSA-SHA384'') (Some ''sha384WithRSAEncryption'') (Some 669) (Some (Some ''pkcs1'', [12])),
      Obj ''sha512WithRSAEncryption'' (Some ''RSA-SHA512'') (Some ''sha512WithRSAEncryption'') (Some 670) (Some (Some ''pkcs1'', [13])),
      Obj ''sha224WithRSAEncryption'' (Some ''RSA-SHA224'') (Some ''sha224WithRSAEncryption'') (Some 671) (Some (Some ''pkcs1'', [14])),
      Obj ''pkcs3'' (Some ''pkcs3'') None (Some 27) (Some (Some ''pkcs'', [3])),
      Obj ''dhKeyAgreement'' None (Some ''dhKeyAgreement'') (Some 28) (Some (Some ''pkcs3'', [1])),
      Obj ''pkcs5'' (Some ''pkcs5'') None (Some 187) (Some (Some ''pkcs'', [5])),
      Obj ''pbeWithMD2AndDES_CBC'' (Some ''PBE-MD2-DES'') (Some ''pbeWithMD2AndDES-CBC'') (Some 9) (Some (Some ''pkcs5'', [1])),
      Obj ''pbeWithMD5AndDES_CBC'' (Some ''PBE-MD5-DES'') (Some ''pbeWithMD5AndDES-CBC'') (Some 10) (Some (Some ''pkcs5'', [3])),
      Obj ''pbeWithMD2AndRC2_CBC'' (Some ''PBE-MD2-RC2-64'') (Some ''pbeWithMD2AndRC2-CBC'') (Some 168) (Some (Some ''pkcs5'', [4])),
      Obj ''pbeWithMD5AndRC2_CBC'' (Some ''PBE-MD5-RC2-64'') (Some ''pbeWithMD5AndRC2-CBC'') (Some 169) (Some (Some ''pkcs5'', [6])),
      Obj ''pbeWithSHA1AndDES_CBC'' (Some ''PBE-SHA1-DES'') (Some ''pbeWithSHA1AndDES-CBC'') (Some 170) (Some (Some ''pkcs5'', [10])),
      Obj ''pbeWithSHA1AndRC2_CBC'' (Some ''PBE-SHA1-RC2-64'') (Some ''pbeWithSHA1AndRC2-CBC'') (Some 68) (Some (Some ''pkcs5'', [11]))]"

definition obj_mac_4 :: "obj list" where
  "obj_mac_4 =
     [Obj ''id_pbkdf2'' None (Some ''PBKDF2'') (Some 69) (Some (Some ''pkcs5'', [12])),
      Obj ''pbes2'' None (Some ''PBES2'') (Some 161) (Some (Some ''pkcs5'', [13])),
      Obj ''pbmac1'' None (Some ''PBMAC1'') (Some 162) (Some (Some ''pkcs5'', [14])),
      Obj ''pkcs7'' (Some ''pkcs7'') None (Some 20) (Some (Some ''pkcs'', [7])),
      Obj ''pkcs7_data'' None (Some ''pkcs7-data'') (Some 21) (Some (Some ''pkcs7'', [1])),
      Obj ''pkcs7_signed'' None (Some ''pkcs7-signedData'') (Some 22) (Some (Some ''pkcs7'', [2])),
      Obj ''pkcs7_enveloped'' None (Some ''pkcs7-envelopedData'') (Some 23) (Some (Some ''pkcs7'', [3])),
      Obj ''pkcs7_signedAndEnveloped'' None (Some ''pkcs7-signedAndEnvelopedData'') (Some 24) (Some (Some ''pkcs7'', [4])),
      Obj ''pkcs7_digest'' None (Some ''pkcs7-digestData'') (Some 25) (Some (Some ''pkcs7'', [5])),
      Obj ''pkcs7_encrypted'' None (Some ''pkcs7-encryptedData'') (Some 26) (Some (Some ''pkcs7'', [6])),
      Obj ''pkcs9'' (Some ''pkcs9'') None (Some 47) (Some (Some ''pkcs'', [9])),
      Obj ''pkcs9_emailAddress'' None (Some ''emailAddress'') (Some 48) (Some (Some ''pkcs9'', [1])),
      Obj ''pkcs9_unstructuredName'' None (Some ''unstructuredName'') (Some 49) (Some (Some ''pkcs9'', [2])),
      Obj ''pkcs9_contentType'' None (Some ''contentType'') (Some 50) (Some (Some ''pkcs9'', [3])),
      Obj ''pkcs9_messageDigest'' None (Some ''messageDigest'') (Some 51) (Some (Some ''pkcs9'', [4])),
      Obj ''pkcs9_signingTime'' None (Some ''signingTime'') (Some 52) (Some (Some ''pkcs9'', [5])),
      Obj ''pkcs9_countersignature'' None (Some ''countersignature'') (Some 53) (Some (Some ''pkcs9'', [6])),
      Obj ''pkcs9_challengePassword'' None (Some ''challengePassword'') (Some 54) (Some (Some ''pkcs9'', [7])),
      Obj ''pkcs9_unstructuredAddress'' None (Some ''unstructuredAddress'') (Some 55) (Some (Some ''pkcs9'', [8])),
      Obj ''pkcs9_extCertAttributes'' None (Some ''extendedCertificateAttributes'') (Some 56) (Some (Some ''pkcs9'', [9])),
      Obj ''ext_req'' (Some ''extReq'') (Some ''Extension Request'') (Some 172) (Some (Some ''pkcs9'', [14])),
      Obj ''SMIMECapabilities'' (Some ''SMIME-CAPS'') (Some ''S/MIME Capabilities'') (Some 167) (Some (Some ''pkcs9'', [15])),
      Obj ''SMIME'' (Some ''SMIME'') (Some ''S/MIME'') (Some 188) (Some (Some ''pkcs9'', [16])),
      Obj ''id_smime_mod'' (Some ''id-smime-mod'') None (Some 189) (Some (Some ''SMIME'', [0])),
      Obj ''id_smime_ct'' (Some ''id-smime-ct'') None (Some 190) (Some (Some ''SMIME'', [1])),
      Obj ''id_smime_aa'' (Some ''id-smime-aa'') None (Some 191) (Some (Some ''SMIME'', [2])),
      Obj ''id_smime_alg'' (Some ''id-smime-alg'') None (Some 192) (Some (Some ''SMIME'', [3])),
      Obj ''id_smime_cd'' (Some ''id-smime-cd'') None (Some 193) (Some (Some ''SMIME'', [4])),
      Obj ''id_smime_spq'' (Some ''id-smime-spq'') None (Some 194) (Some (Some ''SMIME'', [5])),
      Obj ''id_smime_cti'' (Some ''id-smime-cti'') None (Some 195) (Some (Some ''SMIME'', [6])),
      Obj ''id_smime_mod_cms'' (Some ''id-smime-mod-cms'') None (Some 196) (Some (Some ''id_smime_mod'', [1])),
      Obj ''id_smime_mod_ess'' (Some ''id-smime-mod-ess'') None (Some 197) (Some (Some ''id_smime_mod'', [2])),
      Obj ''id_smime_mod_oid'' (Some ''id-smime-mod-oid'') None (Some 198) (Some (Some ''id_smime_mod'', [3])),
      Obj ''id_smime_mod_msg_v3'' (Some ''id-smime-mod-msg-v3'') None (Some 199) (Some (Some ''id_smime_mod'', [4])),
      Obj ''id_smime_mod_ets_eSignature_88'' (Some ''id-smime-mod-ets-eSignature-88'') None (Some 200) (Some (Some ''id_smime_mod'', [5])),
      Obj ''id_smime_mod_ets_eSignature_97'' (Some ''id-smime-mod-ets-eSignature-97'') None (Some 201) (Some (Some ''id_smime_mod'', [6])),
      Obj ''id_smime_mod_ets_eSigPolicy_88'' (Some ''id-smime-mod-ets-eSigPolicy-88'') None (Some 202) (Some (Some ''id_smime_mod'', [7]))]"

definition obj_mac_5 :: "obj list" where
  "obj_mac_5 =
     [Obj ''id_smime_mod_ets_eSigPolicy_97'' (Some ''id-smime-mod-ets-eSigPolicy-97'') None (Some 203) (Some (Some ''id_smime_mod'', [8])),
      Obj ''id_smime_ct_receipt'' (Some ''id-smime-ct-receipt'') None (Some 204) (Some (Some ''id_smime_ct'', [1])),
      Obj ''id_smime_ct_authData'' (Some ''id-smime-ct-authData'') None (Some 205) (Some (Some ''id_smime_ct'', [2])),
      Obj ''id_smime_ct_publishCert'' (Some ''id-smime-ct-publishCert'') None (Some 206) (Some (Some ''id_smime_ct'', [3])),
      Obj ''id_smime_ct_TSTInfo'' (Some ''id-smime-ct-TSTInfo'') None (Some 207) (Some (Some ''id_smime_ct'', [4])),
      Obj ''id_smime_ct_TDTInfo'' (Some ''id-smime-ct-TDTInfo'') None (Some 208) (Some (Some ''id_smime_ct'', [5])),
      Obj ''id_smime_ct_contentInfo'' (Some ''id-smime-ct-contentInfo'') None (Some 209) (Some (Some ''id_smime_ct'', [6])),
      Obj ''id_smime_ct_DVCSRequestData'' (Some ''id-smime-ct-DVCSRequestData'') None (Some 210) (Some (Some ''id_smime_ct'', [7])),
      Obj ''id_smime_ct_DVCSResponseData'' (Some ''id-smime-ct-DVCSResponseData'') None (Some 211) (Some (Some ''id_smime_ct'', [8])),
      Obj ''id_smime_ct_compressedData'' (Some ''id-smime-ct-compressedData'') None (Some 786) (Some (Some ''id_smime_ct'', [9])),
      Obj ''id_ct_asciiTextWithCRLF'' (Some ''id-ct-asciiTextWithCRLF'') None (Some 787) (Some (Some ''id_smime_ct'', [27])),
      Obj ''id_smime_aa_receiptRequest'' (Some ''id-smime-aa-receiptRequest'') None (Some 212) (Some (Some ''id_smime_aa'', [1])),
      Obj ''id_smime_aa_securityLabel'' (Some ''id-smime-aa-securityLabel'') None (Some 213) (Some (Some ''id_smime_aa'', [2])),
      Obj ''id_smime_aa_mlExpandHistory'' (Some ''id-smime-aa-mlExpandHistory'') None (Some 214) (Some (Some ''id_smime_aa'', [3])),
      Obj ''id_smime_aa_contentHint'' (Some ''id-smime-aa-contentHint'') None (Some 215) (Some (Some ''id_smime_aa'', [4])),
      Obj ''id_smime_aa_msgSigDigest'' (Some ''id-smime-aa-msgSigDigest'') None (Some 216) (Some (Some ''id_smime_aa'', [5])),
      Obj ''id_smime_aa_encapContentType'' (Some ''id-smime-aa-encapContentType'') None (Some 217) (Some (Some ''id_smime_aa'', [6])),
      Obj ''id_smime_aa_contentIdentifier'' (Some ''id-smime-aa-contentIdentifier'') None (Some 218) (Some (Some ''id_smime_aa'', [7])),
      Obj ''id_smime_aa_macValue'' (Some ''id-smime-aa-macValue'') None (Some 219) (Some (Some ''id_smime_aa'', [8])),
      Obj ''id_smime_aa_equivalentLabels'' (Some ''id-smime-aa-equivalentLabels'') None (Some 220) (Some (Some ''id_smime_aa'', [9])),
      Obj ''id_smime_aa_contentReference'' (Some ''id-smime-aa-contentReference'') None (Some 221) (Some (Some ''id_smime_aa'', [10])),
      Obj ''id_smime_aa_encrypKeyPref'' (Some ''id-smime-aa-encrypKeyPref'') None (Some 222) (Some (Some ''id_smime_aa'', [11])),
      Obj ''id_smime_aa_signingCertificate'' (Some ''id-smime-aa-signingCertificate'') None (Some 223) (Some (Some ''id_smime_aa'', [12])),
      Obj ''id_smime_aa_smimeEncryptCerts'' (Some ''id-smime-aa-smimeEncryptCerts'') None (Some 224) (Some (Some ''id_smime_aa'', [13])),
      Obj ''id_smime_aa_timeStampToken'' (Some ''id-smime-aa-timeStampToken'') None (Some 225) (Some (Some ''id_smime_aa'', [14])),
      Obj ''id_smime_aa_ets_sigPolicyId'' (Some ''id-smime-aa-ets-sigPolicyId'') None (Some 226) (Some (Some ''id_smime_aa'', [15])),
      Obj ''id_smime_aa_ets_commitmentType'' (Some ''id-smime-aa-ets-commitmentType'') None (Some 227) (Some (Some ''id_smime_aa'', [16])),
      Obj ''id_smime_aa_ets_signerLocation'' (Some ''id-smime-aa-ets-signerLocation'') None (Some 228) (Some (Some ''id_smime_aa'', [17])),
      Obj ''id_smime_aa_ets_signerAttr'' (Some ''id-smime-aa-ets-signerAttr'') None (Some 229) (Some (Some ''id_smime_aa'', [18])),
      Obj ''id_smime_aa_ets_otherSigCert'' (Some ''id-smime-aa-ets-otherSigCert'') None (Some 230) (Some (Some ''id_smime_aa'', [19])),
      Obj ''id_smime_aa_ets_contentTimestamp'' (Some ''id-smime-aa-ets-contentTimestamp'') None (Some 231) (Some (Some ''id_smime_aa'', [20])),
      Obj ''id_smime_aa_ets_CertificateRefs'' (Some ''id-smime-aa-ets-CertificateRefs'') None (Some 232) (Some (Some ''id_smime_aa'', [21])),
      Obj ''id_smime_aa_ets_RevocationRefs'' (Some ''id-smime-aa-ets-RevocationRefs'') None (Some 233) (Some (Some ''id_smime_aa'', [22])),
      Obj ''id_smime_aa_ets_certValues'' (Some ''id-smime-aa-ets-certValues'') None (Some 234) (Some (Some ''id_smime_aa'', [23])),
      Obj ''id_smime_aa_ets_revocationValues'' (Some ''id-smime-aa-ets-revocationValues'') None (Some 235) (Some (Some ''id_smime_aa'', [24])),
      Obj ''id_smime_aa_ets_escTimeStamp'' (Some ''id-smime-aa-ets-escTimeStamp'') None (Some 236) (Some (Some ''id_smime_aa'', [25])),
      Obj ''id_smime_aa_ets_certCRLTimestamp'' (Some ''id-smime-aa-ets-certCRLTimestamp'') None (Some 237) (Some (Some ''id_smime_aa'', [26]))]"

definition obj_mac_6 :: "obj list" where
  "obj_mac_6 =
     [Obj ''id_smime_aa_ets_archiveTimeStamp'' (Some ''id-smime-aa-ets-archiveTimeStamp'') None (Some 238) (Some (Some ''id_smime_aa'', [27])),
      Obj ''id_smime_aa_signatureType'' (Some ''id-smime-aa-signatureType'') None (Some 239) (Some (Some ''id_smime_aa'', [28])),
      Obj ''id_smime_aa_dvcs_dvc'' (Some ''id-smime-aa-dvcs-dvc'') None (Some 240) (Some (Some ''id_smime_aa'', [29])),
      Obj ''id_smime_alg_ESDHwith3DES'' (Some ''id-smime-alg-ESDHwith3DES'') None (Some 241) (Some (Some ''id_smime_alg'', [1])),
      Obj ''id_smime_alg_ESDHwithRC2'' (Some ''id-smime-alg-ESDHwithRC2'') None (Some 242) (Some (Some ''id_smime_alg'', [2])),
      Obj ''id_smime_alg_3DESwrap'' (Some ''id-smime-alg-3DESwrap'') None (Some 243) (Some (Some ''id_smime_alg'', [3])),
      Obj ''id_smime_alg_RC2wrap'' (Some ''id-smime-alg-RC2wrap'') None (Some 244) (Some (Some ''id_smime_alg'', [4])),
      Obj ''id_smime_alg_ESDH'' (Some ''id-smime-alg-ESDH'') None (Some 245) (Some (Some ''id_smime_alg'', [5])),
      Obj ''id_smime_alg_CMS3DESwrap'' (Some ''id-smime-alg-CMS3DESwrap'') None (Some 246) (Some (Some ''id_smime_alg'', [6])),
      Obj ''id_smime_alg_CMSRC2wrap'' (Some ''id-smime-alg-CMSRC2wrap'') None (Some 247) (Some (Some ''id_smime_alg'', [7])),
      Obj ''id_alg_PWRI_KEK'' (Some ''id-alg-PWRI-KEK'') None (Some 893) (Some (Some ''id_smime_alg'', [9])),
      Obj ''id_smime_cd_ldap'' (Some ''id-smime-cd-ldap'') None (Some 248) (Some (Some ''id_smime_cd'', [1])),
      Obj ''id_smime_spq_ets_sqt_uri'' (Some ''id-smime-spq-ets-sqt-uri'') None (Some 249) (Some (Some ''id_smime_spq'', [1])),
      Obj ''id_smime_spq_ets_sqt_unotice'' (Some ''id-smime-spq-ets-sqt-unotice'') None (Some 250) (Some (Some ''id_smime_spq'', [2])),
      Obj ''id_smime_cti_ets_proofOfOrigin'' (Some ''id-smime-cti-ets-proofOfOrigin'') None (Some 251) (Some (Some ''id_smime_cti'', [1])),
      Obj ''id_smime_cti_ets_proofOfReceipt'' (Some ''id-smime-cti-ets-proofOfReceipt'') None (Some 252) (Some (Some ''id_smime_cti'', [2])),
      Obj ''id_smime_cti_ets_proofOfDelivery'' (Some ''id-smime-cti-ets-proofOfDelivery'') None (Some 253) (Some (Some ''id_smime_cti'', [3])),
      Obj ''id_smime_cti_ets_proofOfSender'' (Some ''id-smime-cti-ets-proofOfSender'') None (Some 254) (Some (Some ''id_smime_cti'', [4])),
      Obj ''id_smime_cti_ets_proofOfApproval'' (Some ''id-smime-cti-ets-proofOfApproval'') None (Some 255) (Some (Some ''id_smime_cti'', [5])),
      Obj ''id_smime_cti_ets_proofOfCreation'' (Some ''id-smime-cti-ets-proofOfCreation'') None (Some 256) (Some (Some ''id_smime_cti'', [6])),
      Obj ''friendlyName'' None (Some ''friendlyName'') (Some 156) (Some (Some ''pkcs9'', [20])),
      Obj ''localKeyID'' None (Some ''localKeyID'') (Some 157) (Some (Some ''pkcs9'', [21])),
      Obj ''ms_csp_name'' (Some ''CSPName'') (Some ''Microsoft CSP Name'') (Some 417) (Some (None, [1, 3, 6, 1, 4, 1, 311, 17, 1])),
      Obj ''LocalKeySet'' (Some ''LocalKeySet'') (Some ''Microsoft Local Key set'') (Some 856) (Some (None, [1, 3, 6, 1, 4, 1, 311, 17, 2])),
      Obj ''certTypes'' None None None (Some (Some ''pkcs9'', [22])),
      Obj ''x509Certificate'' None (Some ''x509Certificate'') (Some 158) (Some (Some ''certTypes'', [1])),
      Obj ''sdsiCertificate'' None (Some ''sdsiCertificate'') (Some 159) (Some (Some ''certTypes'', [2])),
      Obj ''crlTypes'' None None None (Some (Some ''pkcs9'', [23])),
      Obj ''x509Crl'' None (Some ''x509Crl'') (Some 160) (Some (Some ''crlTypes'', [1])),
      Obj ''pkcs12'' None None None (Some (Some ''pkcs'', [12])),
      Obj ''pkcs12_pbeids'' None None None (Some (Some ''pkcs12'', [1])),
      Obj ''pbe_WithSHA1And128BitRC4'' (Some ''PBE-SHA1-RC4-128'') (Some ''pbeWithSHA1And128BitRC4'') (Some 144) (Some (Some ''pkcs12_pbeids'', [1])),
      Obj ''pbe_WithSHA1And40BitRC4'' (Some ''PBE-SHA1-RC4-40'') (Some ''pbeWithSHA1And40BitRC4'') (Some 145) (Some (Some ''pkcs12_pbeids'', [2])),
      Obj ''pbe_WithSHA1And3_Key_TripleDES_CBC'' (Some ''PBE-SHA1-3DES'') (Some ''pbeWithSHA1And3-KeyTripleDES-CBC'') (Some 146) (Some (Some ''pkcs12_pbeids'', [3])),
      Obj ''pbe_WithSHA1And2_Key_TripleDES_CBC'' (Some ''PBE-SHA1-2DES'') (Some ''pbeWithSHA1And2-KeyTripleDES-CBC'') (Some 147) (Some (Some ''pkcs12_pbeids'', [4])),
      Obj ''pbe_WithSHA1And128BitRC2_CBC'' (Some ''PBE-SHA1-RC2-128'') (Some ''pbeWithSHA1And128BitRC2-CBC'') (Some 148) (Some (Some ''pkcs12_pbeids'', [5])),
      Obj ''pbe_WithSHA1And40BitRC2_CBC'' (Some ''PBE-SHA1-RC2-40'') (Some ''pbeWithSHA1And40BitRC2-CBC'') (Some 149) (Some (Some ''pkcs12_pbeids'', [6])),
      Obj ''pkcs12_Version1'' None None None (Some (Some ''pkcs12'', [10]))]"

text \<open>The macros that each part takes from the parts above it and hands to those below.\<close>

definition obj_known_0 :: "(string \<times> int list) list" where
  "obj_known_0 =
     []"

definition obj_exports_0 :: "(string \<times> int list) list" where
  "obj_exports_0 =
     [(''X9_62_c_TwoCurve'', [1, 2, 840, 10045, 3, 0]),
      (''X9_62_ellipticCurve'', [1, 2, 840, 10045, 3]), (''ansi_X9_62'', [1, 2, 840, 10045]),
      (''certicom_arc'', [1, 3, 132]), (''wap_wsg'', [2, 23, 43, 1]), (''ISO_US'', [1, 2, 840]),
      (''iso'', [1]), (''X9_57'', [1, 2, 840, 10040]), (''itu_t'', [0]),
      (''international_organizations'', [2, 23]), (''member_body'', [1, 2])]"

definition obj_known_1 :: "(string \<times> int list) list" where
  "obj_known_1 =
     [(''X9_62_c_TwoCurve'', [1, 2, 840, 10045, 3, 0]),
      (''X9_62_ellipticCurve'', [1, 2, 840, 10045, 3]), (''ansi_X9_62'', [1, 2, 840, 10045]),
      (''certicom_arc'', [1, 3, 132])]"

definition obj_exports_1 :: "(string \<times> int list) list" where
  "obj_exports_1 =
     [(''secg_ellipticCurve'', [1, 3, 132, 0])]"

definition obj_known_2 :: "(string \<times> int list) list" where
  "obj_known_2 =
     [(''secg_ellipticCurve'', [1, 3, 132, 0]), (''wap_wsg'', [2, 23, 43, 1])]"

definition obj_exports_2 :: "(string \<times> int list) list" where
  "obj_exports_2 =
     []"

definition obj_known_3 :: "(string \<times> int list) list" where
  "obj_known_3 =
     [(''ISO_US'', [1, 2, 840])]"

definition obj_exports_3 :: "(string \<times> int list) list" where
  "obj_exports_3 =
     [(''pkcs5'', [1, 2, 840, 113549, 1, 5]), (''pkcs'', [1, 2, 840, 113549, 1]),
      (''rsadsi'', [1, 2, 840, 113549])]"

definition obj_known_4 :: "(string \<times> int list) list" where
  "obj_known_4 =
     [(''pkcs5'', [1, 2, 840, 113549, 1, 5]), (''pkcs'', [1, 2, 840, 113549, 1])]"

definition obj_exports_4 :: "(string \<times> int list) list" where
  "obj_exports_4 =
     [(''id_smime_mod'', [1, 2, 840, 113549, 1, 9, 16, 0]),
      (''id_smime_ct'', [1, 2, 840, 113549, 1, 9, 16, 1]),
      (''id_smime_aa'', [1, 2, 840, 113549, 1, 9, 16, 2]),
      (''id_smime_alg'', [1, 2, 840, 113549, 1, 9, 16, 3]),
      (''id_smime_cd'', [1, 2, 840, 113549, 1, 9, 16, 4]),
      (''id_smime_spq'', [1, 2, 840, 113549, 1, 9, 16, 5]),
      (''id_smime_cti'', [1, 2, 840, 113549, 1, 9, 16, 6]), (''pkcs9'', [1, 2, 840, 113549, 1, 9])]"

definition obj_known_5 :: "(string \<times> int list) list" where
  "obj_known_5 =
     [(''id_smime_mod'', [1, 2, 840, 113549, 1, 9, 16, 0]),
      (''id_smime_ct'', [1, 2, 840, 113549, 1, 9, 16, 1]),
      (''id_smime_aa'', [1, 2, 840, 113549, 1, 9, 16, 2])]"

definition obj_exports_5 :: "(string \<times> int list) list" where
  "obj_exports_5 =
     []"

definition obj_known_6 :: "(string \<times> int list) list" where
  "obj_known_6 =
     [(''id_smime_aa'', [1, 2, 840, 113549, 1, 9, 16, 2]),
      (''id_smime_alg'', [1, 2, 840, 113549, 1, 9, 16, 3]),
      (''id_smime_cd'', [1, 2, 840, 113549, 1, 9, 16, 4]),
      (''id_smime_spq'', [1, 2, 840, 113549, 1, 9, 16, 5]),
      (''id_smime_cti'', [1, 2, 840, 113549, 1, 9, 16, 6]), (''pkcs9'', [1, 2, 840, 113549, 1, 9]),
      (''pkcs'', [1, 2, 840, 113549, 1])]"

definition obj_exports_6 :: "(string \<times> int list) list" where
  "obj_exports_6 =
     [(''pkcs12_Version1'', [1, 2, 840, 113549, 1, 12, 10])]"

section \<open>Checks\<close>

lemma part_ok_0: "part_ok obj_known_0 obj_mac_0 obj_exports_0"
  by code_simp

lemma part_ok_1: "part_ok obj_known_1 obj_mac_1 obj_exports_1"
  by code_simp

lemma part_ok_2: "part_ok obj_known_2 obj_mac_2 obj_exports_2"
  by code_simp

lemma part_ok_3: "part_ok obj_known_3 obj_mac_3 obj_exports_3"
  by code_simp

lemma part_ok_4: "part_ok obj_known_4 obj_mac_4 obj_exports_4"
  by code_simp

lemma part_ok_5: "part_ok obj_known_5 obj_mac_5 obj_exports_5"
  by code_simp

lemma part_ok_6: "part_ok obj_known_6 obj_mac_6 obj_exports_6"
  by code_simp

lemma nids_0: "keys_of o_nid obj_mac_0 =
     [0, 645, 404, 181, 646, 393, 182, 676, 780, 781, 677, 647, 678, 679, 394, 395, 183, 184, 185, 116,
      113, 405, 406, 407, 680, 681, 682, 683, 408, 684, 685, 686]"
  by (simp only: obj_mac_0_def column_simps keys_of_simps(1))

lemma sns_0: "map (fingerprint 0) (keys_of o_sn obj_mac_0) =
     [38090, 40521, 6803, 13126, 22933, 59987, 28116, 64577, 49753, 23649, 51476, 45038, 55028, 32296,
      21994, 48364, 39483, 1984, 49436, 27694, 3504, 36425, 34735, 26685, 1190, 36040, 48104,
      17628, 17629, 17630]"
  by (simp only: obj_mac_0_def column_simps keys_of_simps(1)) code_simp

lemma lns_0: "map (fingerprint 0) (keys_of o_ln obj_mac_0) =
     [2690, 18363, 38579, 4136, 65459, 57378, 48663, 52498, 19924, 45683, 49325, 27230, 43929, 14583,
      44100]"
  by (simp only: obj_mac_0_def column_simps keys_of_simps(1)) code_simp

lemma nids_1: "keys_of o_nid obj_mac_1 =
     [687, 688, 689, 690, 691, 692, 693, 694, 695, 696, 697, 698, 699, 700, 701, 702, 703, 409, 410,
      411, 412, 413, 414, 415, 416, 791, 792, 793, 794, 795, 796, 704, 705, 706, 707, 708]"
  by (simp only: obj_mac_1_def column_simps keys_of_simps(1))

lemma sns_1: "map (fingerprint 0) (keys_of o_sn obj_mac_1) =
     [50302, 14759, 14760, 14761, 28659, 28660, 41217, 41200, 41201, 41202, 55100, 55101, 45982, 36866,
      34273, 21450, 32374, 61402, 61403, 61404, 20880, 20881, 20882, 11577, 6175, 32453, 1316,
      62560, 62655, 63707, 65410, 56472, 56473, 26027, 26028, 5282]"
  by (simp only: obj_mac_1_def column_simps keys_of_simps(1)) code_simp

lemma lns_1: "map (fingerprint 0) (keys_of o_ln obj_mac_1) =
     []"
  by (simp only: obj_mac_1_def column_simps keys_of_simps(1)) code_simp

lemma nids_2: "keys_of o_nid obj_mac_2 =
     [709, 710, 711, 712, 713, 714, 715, 716, 717, 718, 719, 720, 721, 722, 723, 724, 725, 726, 727,
      728, 729, 730, 731, 732, 733, 734, 735, 736, 737, 738, 739, 740, 741, 742, 743, 744, 745]"
  by (simp only: obj_mac_2_def column_simps keys_of_simps(1))

lemma sns_2: "map (fingerprint 0) (keys_of o_sn obj_mac_2) =
     [5499, 5500, 30575, 21459, 21676, 46752, 1909, 17272, 60567, 60568, 52225, 52226, 11299, 11516,
      11517, 34887, 34888, 53423, 53640, 59189, 4372, 4589, 34804, 35021, 37140, 37357, 4093, 4095,
      4096, 4097, 4098, 4099, 4100, 4101, 60929, 60930, 60931]"
  by (simp only: obj_mac_2_def column_simps keys_of_simps(1)) code_simp

lemma lns_2: "map (fingerprint 0) (keys_of o_ln obj_mac_2) =
     []"
  by (simp only: obj_mac_2_def column_simps keys_of_simps(1)) code_simp

lemma nids_3: "keys_of o_nid obj_mac_3 =
     [108, 109, 110, 111, 112, 782, 783, 1, 2, 186, 6, 7, 396, 8, 65, 919, 911, 935, 912, 668, 669, 670,
      671, 27, 28, 187, 9, 10, 168, 169, 170, 68]"
  by (simp only: obj_mac_3_def column_simps keys_of_simps(1))

lemma sns_3: "map (fingerprint 0) (keys_of o_sn obj_mac_3) =
     [26485, 28437, 26608, 38140, 39275, 65138, 17420, 10499, 61510, 57880, 57882, 57883, 63326, 43694,
      54287, 14282, 2570, 5100, 6152, 7855, 5005, 61512, 61514, 34092, 32571, 26876, 58139, 28236,
      14066]"
  by (simp only: obj_mac_3_def column_simps keys_of_simps(1)) code_simp

lemma lns_3: "map (fingerprint 0) (keys_of o_ln obj_mac_3) =
     [47321, 49273, 47444, 58976, 13856, 7533, 5633, 11404, 23981, 3413, 788, 20028, 62649, 12446,
      17693, 49313, 33740, 53985, 30662, 52596, 33959, 7789, 19883, 48294, 50105, 7485, 9296,
      25242, 50435]"
  by (simp only: obj_mac_3_def column_simps keys_of_simps(1)) code_simp

lemma nids_4: "keys_of o_nid obj_mac_4 =
     [69, 161, 162, 20, 21, 22, 23, 24, 25, 26, 47, 48, 49, 50, 51, 52, 53, 54, 55, 56, 172, 167, 188,
      189, 190, 191, 192, 193, 194, 195, 196, 197, 198, 199, 200, 201, 202]"
  by (simp only: obj_mac_4_def column_simps keys_of_simps(1))

lemma sns_4: "map (fingerprint 0) (keys_of o_sn obj_mac_4) =
     [61516, 61518, 41489, 10285, 14365, 30574, 21969, 21888, 18952, 21953, 36384, 21124, 62638, 64746,
      8029, 31378, 64706, 64736, 27061]"
  by (simp only: obj_mac_4_def column_simps keys_of_simps(1)) code_simp

lemma lns_4: "map (fingerprint 0) (keys_of o_ln obj_mac_4) =
     [21041, 14518, 11644, 33429, 29995, 23423, 6134, 30599, 18669, 9166, 36141, 58057, 65979, 28510,
      50426, 40502, 33088, 16917, 52128, 17574, 48146]"
  by (simp only: obj_mac_4_def column_simps keys_of_simps(1)) code_simp

lemma nids_5: "keys_of o_nid obj_mac_5 =
     [203, 204, 205, 206, 207, 208, 209, 210, 211, 786, 787, 212, 213, 214, 215, 216, 217, 218, 219,
      220, 221, 222, 223, 224, 225, 226, 227, 228, 229, 230, 231, 232, 233, 234, 235, 236, 237]"
  by (simp only: obj_mac_5_def column_simps keys_of_simps(1))

lemma sns_5: "map (fingerprint 0) (keys_of o_sn obj_mac_5) =
     [27091, 38828, 29832, 29517, 58065, 29812, 48225, 8009, 57391, 59613, 62623, 27308, 9125, 20514,
      17289, 8873, 5107, 56599, 11469, 44208, 19077, 7614, 13381, 9838, 11182, 41478, 1669, 49181,
      54679, 44043, 24711, 41975, 51204, 7264, 25296, 28633, 54115]"
  by (simp only: obj_mac_5_def column_simps keys_of_simps(1)) code_simp

lemma lns_5: "map (fingerprint 0) (keys_of o_ln obj_mac_5) =
     []"
  by (simp only: obj_mac_5_def column_simps keys_of_simps(1)) code_simp

lemma nids_6: "keys_of o_nid obj_mac_6 =
     [238, 239, 240, 241, 242, 243, 244, 245, 246, 247, 893, 248, 249, 250, 251, 252, 253, 254, 255,
      256, 156, 157, 417, 856, 158, 159, 160, 144, 145, 146, 147, 148, 149]"
  by (simp only: obj_mac_6_def column_simps keys_of_simps(1))

lemma sns_6: "map (fingerprint 0) (keys_of o_sn obj_mac_6) =
     [27938, 40671, 60781, 59512, 8238, 42932, 41892, 1085, 3093, 21445, 13497, 16887, 56261, 44086,
      2983, 32789, 47823, 26656, 7062, 31874, 46073, 27314, 34209, 7580, 37547, 7756, 35223, 14000]"
  by (simp only: obj_mac_6_def column_simps keys_of_simps(1)) code_simp

lemma lns_6: "map (fingerprint 0) (keys_of o_ln obj_mac_6) =
     [20500, 63611, 45697, 7250, 30575, 28730, 61285, 24518, 19109, 60473, 17852, 65819, 36098]"
  by (simp only: obj_mac_6_def column_simps keys_of_simps(1)) code_simp

end
