(* ===== verification/ObjMac2.thy ===== *)
theory ObjMac2
  imports ObjectIds
begin

text \<open>
  Objects of \<open>openssl/obj_mac.h\<close>, lines 1114 to 2150, in the order of the header, each part with
  its columns and with the check that its \<open>OBJ_\<close> macros expand.
\<close>

section \<open>Tables\<close>

definition obj_mac_7 :: "obj list" where
  "obj_mac_7 =
     [Obj ''pkcs12_BagIds'' None None None (Some (Some ''pkcs12_Version1'', [1])),
      Obj ''keyBag'' None (Some ''keyBag'') (Some 150) (Some (Some ''pkcs12_BagIds'', [1])),
      Obj ''pkcs8ShroudedKeyBag'' None (Some ''pkcs8ShroudedKeyBag'') (Some 151) (Some (Some ''pkcs12_BagIds'', [2])),
      Obj ''certBag'' None (Some ''certBag'') (Some 152) (Some (Some ''pkcs12_BagIds'', [3])),
      Obj ''crlBag'' None (Some ''crlBag'') (Some 153) (Some (Some ''pkcs12_BagIds'', [4])),
      Obj ''secretBag'' None (Some ''secretBag'') (Some 154) (Some (Some ''pkcs12_BagIds'', [5])),
      Obj ''safeContentsBag'' None (Some ''safeContentsBag'') (Some 155) (Some (Some ''pkcs12_BagIds'', [6])),
      Obj ''md2'' (Some ''MD2'') (Some ''md2'') (Some 3) (Some (Some ''rsadsi'', [2, 2])),
      Obj ''md4'' (Some ''MD4'') (Some ''md4'') (Some 257) (Some (Some ''rsadsi'', [2, 4])),
      Obj ''md5'' (Some ''MD5'') (Some ''md5'') (Some 4) (Some (Some ''rsadsi'', [2, 5])),
      Obj ''md5_sha1'' (Some ''MD5-SHA1'') (Some ''md5-sha1'') (Some 114) None,
      Obj ''hmacWithMD5'' None (Some ''hmacWithMD5'') (Some 797) (Some (Some ''rsadsi'', [2, 6])),
      Obj ''hmacWithSHA1'' None (Some ''hmacWithSHA1'') (Some 163) (Some (Some ''rsadsi'', [2, 7])),
      Obj ''hmacWithSHA224'' None (Some ''hmacWithSHA224'') (Some 798) (Some (Some ''rsadsi'', [2, 8])),
      Obj ''hmacWithSHA256'' None (Some ''hmacWithSHA256'') (Some 799) (Some (Some ''rsadsi'', [2, 9])),
      Obj ''hmacWithSHA384'' None (Some ''hmacWithSHA384'') (Some 800) (Some (Some ''rsadsi'', [2, 10])),
      Obj ''hmacWithSHA512'' None (Some ''hmacWithSHA512'') (Some 801) (Some (Some ''rsadsi'', [2, 11])),
      Obj ''rc2_cbc'' (Some ''RC2-CBC'') (Some ''rc2-cbc'') (Some 37) (Some (Some ''rsadsi'', [3, 2])),
      Obj ''rc2_ecb'' (Some ''RC2-ECB'') (Some ''rc2-ecb'') (Some 38) None,
      Obj ''rc2_cfb64'' (Some ''RC2-CFB'') (Some ''rc2-cfb'') (Some 39) None,
      Obj ''rc2_ofb64'' (Some ''RC2-OFB'') (Some ''rc2-ofb'') (Some 40) None,
      Obj ''rc2_40_cbc'' (Some ''RC2-40-CBC'') (Some ''rc2-40-cbc'') (Some 98) None,
      Obj ''rc2_64_cbc'' (Some ''RC2-64-CBC'') (Some ''rc2-64-cbc'') (Some 166) None,
      Obj ''rc4'' (Some ''RC4'') (Some ''rc4'') (Some 5) (Some (Some ''rsadsi'', [3, 4])),
      Obj ''rc4_40'' (Some ''RC4-40'') (Some ''rc4-40'') (Some 97) None,
      Obj ''des_ede3_cbc'' (Some ''DES-EDE3-CBC'') (Some ''des-ede3-cbc'') (Some 44) (Some (Some ''rsadsi'', [3, 7])),
      Obj ''rc5_cbc'' (Some ''RC5-CBC'') (Some ''rc5-cbc'') (Some 120) (Some (Some ''rsadsi'', [3, 8])),
      Obj ''rc5_ecb'' (Some ''RC5-ECB'') (Some ''rc5-ecb'') (Some 121) None,
      Obj ''rc5_cfb64'' (Some ''RC5-CFB'') (Some ''rc5-cfb'') (Some 122) None,
      Obj ''rc5_ofb64'' (Some ''RC5-OFB'') (Some ''rc5-ofb'') (Some 123) None,
      Obj ''ms_ext_req'' (Some ''msExtReq'') (Some ''Microsoft Extension Request'') (Some 171) (Some (None, [1, 3, 6, 1, 4, 1, 311, 2, 1, 14])),
      Obj ''ms_code_ind'' (Some ''msCodeInd'') (Some ''Microsoft Individual Code Signing'') (Some 134) (Some (None, [1, 3, 6, 1, 4, 1, 311, 2, 1, 21])),
      Obj ''ms_code_com'' (Some ''msCodeCom'') (Some ''Microsoft Commercial Code Signing'') (Some 135) (Some (None, [1, 3, 6, 1, 4, 1, 311, 2, 1, 22])),
      Obj ''ms_ctl_sign'' (Some ''msCTLSign'') (Some ''Microsoft Trust List Signing'') (Some 136) (Some (None, [1, 3, 6, 1, 4, 1, 311, 10, 3, 1])),
      Obj ''ms_sgc'' (Some ''msSGC'') (Some ''Microsoft Server Gated Crypto'') (Some 137) (Some (None, [1, 3, 6, 1, 4, 1, 311, 10, 3, 3]))]"

definition obj_mac_8 :: "obj list" where
  "obj_mac_8 =
     [Obj ''ms_efs'' (Some ''msEFS'') (Some ''Microsoft Encrypted File System'') (Some 138) (Some (None, [1, 3, 6, 1, 4, 1, 311, 10, 3, 4])),
      Obj ''ms_smartcard_login'' (Some ''msSmartcardLogin'') (Some ''Microsoft Smartcardlogin'') (Some 648) (Some (None, [1, 3, 6, 1, 4, 1, 311, 20, 2, 2])),
      Obj ''ms_upn'' (Some ''msUPN'') (Some ''Microsoft Universal Principal Name'') (Some 649) (Some (None, [1, 3, 6, 1, 4, 1, 311, 20, 2, 3])),
      Obj ''idea_cbc'' (Some ''IDEA-CBC'') (Some ''idea-cbc'') (Some 34) (Some (None, [1, 3, 6, 1, 4, 1, 188, 7, 1, 1, 2])),
      Obj ''idea_ecb'' (Some ''IDEA-ECB'') (Some ''idea-ecb'') (Some 36) None,
      Obj ''idea_cfb64'' (Some ''IDEA-CFB'') (Some ''idea-cfb'') (Some 35) None,
      Obj ''idea_ofb64'' (Some ''IDEA-OFB'') (Some ''idea-ofb'') (Some 46) None,
      Obj ''bf_cbc'' (Some ''BF-CBC'') (Some ''bf-cbc'') (Some 91) (Some (None, [1, 3, 6, 1, 4, 1, 3029, 1, 2])),
      Obj ''bf_ecb'' (Some ''BF-ECB'') (Some ''bf-ecb'') (Some 92) None,
      Obj ''bf_cfb64'' (Some ''BF-CFB'') (Some ''bf-cfb'') (Some 93) None,
      Obj ''bf_ofb64'' (Some ''BF-OFB'') (Some ''bf-ofb'') (Some 94) None,
      Obj ''id_pkix'' (Some ''PKIX'') None (Some 127) (Some (None, [1, 3, 6, 1, 5, 5, 7])),
      Obj ''id_pkix_mod'' (Some ''id-pkix-mod'') None (Some 258) (Some (Some ''id_pkix'', [0])),
      Obj ''id_pe'' (Some ''id-pe'') None (Some 175) (Some (Some ''id_pkix'', [1])),
      Obj ''id_qt'' (Some ''id-qt'') None (Some 259) (Some (Some ''id_pkix'', [2])),
      Obj ''id_kp'' (Some ''id-kp'') None (Some 128) (Some (Some ''id_pkix'', [3])),
      Obj ''id_it'' (Some ''id-it'') None (Some 260) (Some (Some ''id_pkix'', [4])),
      Obj ''id_pkip'' (Some ''id-pkip'') None (Some 261) (Some (Some ''id_pkix'', [5])),
      Obj ''id_alg'' (Some ''id-alg'') None (Some 262) (Some (Some ''id_pkix'', [6])),
      Obj ''id_cmc'' (Some ''id-cmc'') None (Some 263) (Some (Some ''id_pkix'', [7])),
      Obj ''id_on'' (Some ''id-on'') None (Some 264) (Some (Some ''id_pkix'', [8])),
      Obj ''id_pda'' (Some ''id-pda'') None (Some 265) (Some (Some ''id_pkix'', [9])),
      Obj ''id_aca'' (Some ''id-aca'') None (Some 266) (Some (Some ''id_pkix'', [10])),
      Obj ''id_qcs'' (Some ''id-qcs'') None (Some 267) (Some (Some ''id_pkix'', [11])),
      Obj ''id_cct'' (Some ''id-cct'') None (Some 268) (Some (Some ''id_pkix'', [12])),
      Obj ''id_ppl'' (Some ''id-ppl'') None (Some 662) (Some (Some ''id_pkix'', [21])),
      Obj ''id_ad'' (Some ''id-ad'') None (Some 176) (Some (Some ''id_pkix'', [48])),
      Obj ''id_pkix1_explicit_88'' (Some ''id-pkix1-explicit-88'') None (Some 269) (Some (Some ''id_pkix_mod'', [1])),
      Obj ''id_pkix1_implicit_88'' (Some ''id-pkix1-implicit-88'') None (Some 270) (Some (Some ''id_pkix_mod'', [2])),
      Obj ''id_pkix1_explicit_93'' (Some ''id-pkix1-explicit-93'') None (Some 271) (Some (Some ''id_pkix_mod'', [3])),
      Obj ''id_pkix1_implicit_93'' (Some ''id-pkix1-implicit-93'') None (Some 272) (Some (Some ''id_pkix_mod'', [4])),
      Obj ''id_mod_crmf'' (Some ''id-mod-crmf'') None (Some 273) (Some (Some ''id_pkix_mod'', [5])),
      Obj ''id_mod_cmc'' (Some ''id-mod-cmc'') None (Some 274) (Some (Some ''id_pkix_mod'', [6])),
      Obj ''id_mod_kea_profile_88'' (Some ''id-mod-kea-profile-88'') None (Some 275) (Some (Some ''id_pkix_mod'', [7])),
      Obj ''id_mod_kea_profile_93'' (Some ''id-mod-kea-profile-93'') None (Some 276) (Some (Some ''id_pkix_mod'', [8])),
      Obj ''id_mod_cmp'' (Some ''id-mod-cmp'') None (Some 277) (Some (Some ''id_pkix_mod'', [9]))]"

definition obj_mac_9 :: "obj list" where
  "obj_mac_9 =
     [Obj ''id_mod_qualified_cert_88'' (Some ''id-mod-qualified-cert-88'') None (Some 278) (Some (Some ''id_pkix_mod'', [10])),
      Obj ''id_mod_qualified_cert_93'' (Some ''id-mod-qualified-cert-93'') None (Some 279) (Some (Some ''id_pkix_mod'', [11])),
      Obj ''id_mod_attribute_cert'' (Some ''id-mod-attribute-cert'') None (Some 280) (Some (Some ''id_pkix_mod'', [12])),
      Obj ''id_mod_timestamp_protocol'' (Some ''id-mod-timestamp-protocol'') None (Some 281) (Some (Some ''id_pkix_mod'', [13])),
      Obj ''id_mod_ocsp'' (Some ''id-mod-ocsp'') None (Some 282) (Some (Some ''id_pkix_mod'', [14])),
      Obj ''id_mod_dvcs'' (Some ''id-mod-dvcs'') None (Some 283) (Some (Some ''id_pkix_mod'', [15])),
      Obj ''id_mod_cmp2000'' (Some ''id-mod-cmp2000'') None (Some 284) (Some (Some ''id_pkix_mod'', [16])),
      Obj ''info_access'' (Some ''authorityInfoAccess'') (Some ''Authority Information Access'') (Some 177) (Some (Some ''id_pe'', [1])),
      Obj ''biometricInfo'' (Some ''biometricInfo'') (Some ''Biometric Info'') (Some 285) (Some (Some ''id_pe'', [2])),
      Obj ''qcStatements'' (Some ''qcStatements'') None (Some 286) (Some (Some ''id_pe'', [3])),
      Obj ''ac_auditEntity'' (Some ''ac-auditEntity'') None (Some 287) (Some (Some ''id_pe'', [4])),
      Obj ''ac_targeting'' (Some ''ac-targeting'') None (Some 288) (Some (Some ''id_pe'', [5])),
      Obj ''aaControls'' (Some ''aaControls'') None (Some 289) (Some (Some ''id_pe'', [6])),
      Obj ''sbgp_ipAddrBlock'' (Some ''sbgp-ipAddrBlock'') None (Some 290) (Some (Some ''id_pe'', [7])),
      Obj ''sbgp_autonomousSysNum'' (Some ''sbgp-autonomousSysNum'') None (Some 291) (Some (Some ''id_pe'', [8])),
      Obj ''sbgp_routerIdentifier'' (Some ''sbgp-routerIdentifier'') None (Some 292) (Some (Some ''id_pe'', [9])),
      Obj ''ac_proxying'' (Some ''ac-proxying'') None (Some 397) (Some (Some ''id_pe'', [10])),
      Obj ''sinfo_access'' (Some ''subjectInfoAccess'') (Some ''Subject Information Access'') (Some 398) (Some (Some ''id_pe'', [11])),
      Obj ''proxyCertInfo'' (Some ''proxyCertInfo'') (Some ''Proxy Certificate Information'') (Some 663) (Some (Some ''id_pe'', [14])),
      Obj ''id_qt_cps'' (Some ''id-qt-cps'') (Some ''Policy Qualifier CPS'') (Some 164) (Some (Some ''id_qt'', [1])),
      Obj ''id_qt_unotice'' (Some ''id-qt-unotice'') (Some ''Policy Qualifier User Notice'') (Some 165) (Some (Some ''id_qt'', [2])),
      Obj ''textNotice'' (Some ''textNotice'') None (Some 293) (Some (Some ''id_qt'', [3])),
      Obj ''server_auth'' (Some ''serverAuth'') (Some ''TLS Web Server Authentication'') (Some 129) (Some (Some ''id_kp'', [1])),
      Obj ''client_auth'' (Some ''clientAuth'') (Some ''TLS Web Client Authentication'') (Some 130) (Some (Some ''id_kp'', [2])),
      Obj ''code_sign'' (Some ''codeSigning'') (Some ''Code Signing'') (Some 131) (Some (Some ''id_kp'', [3])),
      Obj ''email_protect'' (Some ''emailProtection'') (Some ''E-mail Protection'') (Some 132) (Some (Some ''id_kp'', [4])),
      Obj ''ipsecEndSystem'' (Some ''ipsecEndSystem'') (Some ''IPSec End System'') (Some 294) (Some (Some ''id_kp'', [5])),
      Obj ''ipsecTunnel'' (Some ''ipsecTunnel'') (Some ''IPSec Tunnel'') (Some 295) (Some (Some ''id_kp'', [6])),
      Obj ''ipsecUser'' (Some ''ipsecUser'') (Some ''IPSec User'') (Some 296) (Some (Some ''id_kp'', [7])),
      Obj ''time_stamp'' (Some ''timeStamping'') (Some ''Time Stamping'') (Some 133) (Some (Some ''id_kp'', [8])),
      Obj ''OCSP_sign'' (Some ''OCSPSigning'') (Some ''OCSP Signing'') (Some 180) (Some (Some ''id_kp'', [9])),
      Obj ''dvcs'' (Some ''DVCS'') (Some ''dvcs'') (Some 297) (Some (Some ''id_kp'', [10])),
      Obj ''id_it_caProtEncCert'' (Some ''id-it-caProtEncCert'') None (Some 298) (Some (Some ''id_it'', [1]))]"

definition obj_mac_10 :: "obj list" where
  "obj_mac_10 =
     [Obj ''id_it_signKeyPairTypes'' (Some ''id-it-signKeyPairTypes'') None (Some 299) (Some (Some ''id_it'', [2])),
      Obj ''id_it_encKeyPairTypes'' (Some ''id-it-encKeyPairTypes'') None (Some 300) (Some (Some ''id_it'', [3])),
      Obj ''id_it_preferredSymmAlg'' (Some ''id-it-preferredSymmAlg'') None (Some 301) (Some (Some ''id_it'', [4])),
      Obj ''id_it_caKeyUpdateInfo'' (Some ''id-it-caKeyUpdateInfo'') None (Some 302) (Some (Some ''id_it'', [5])),
      Obj ''id_it_currentCRL'' (Some ''id-it-currentCRL'') None (Some 303) (Some (Some ''id_it'', [6])),
      Obj ''id_it_unsupportedOIDs'' (Some ''id-it-unsupportedOIDs'') None (Some 304) (Some (Some ''id_it'', [7])),
      Obj ''id_it_subscriptionRequest'' (Some ''id-it-subscriptionRequest'') None (Some 305) (Some (Some ''id_it'', [8])),
      Obj ''id_it_subscriptionResponse'' (Some ''id-it-subscriptionResponse'') None (Some 306) (Some (Some ''id_it'', [9])),
      Obj ''id_it_keyPairParamReq'' (Some ''id-it-keyPairParamReq'') None (Some 307) (Some (Some ''id_it'', [10])),
      Obj ''id_it_keyPairParamRep'' (Some ''id-it-keyPairParamRep'') None (Some 308) (Some (Some ''id_it'', [11])),
      Obj ''id_it_revPassphrase'' (Some ''id-it-revPassphrase'') None (Some 309) (Some (Some ''id_it'', [12])),
      Obj ''id_it_implicitConfirm'' (Some ''id-it-implicitConfirm'') None (Some 310) (Some (Some ''id_it'', [13])),
      Obj ''id_it_confirmWaitTime'' (Some ''id-it-confirmWaitTime'') None (Some 311) (Some (Some ''id_it'', [14])),
      Obj ''id_it_origPKIMessage'' (Some ''id-it-origPKIMessage'') None (Some 312) (Some (Some ''id_it'', [15])),
      Obj ''id_it_suppLangTags'' (Some ''id-it-suppLangTags'') None (Some 784) (Some (Some ''id_it'', [16])),
      Obj ''id_regCtrl'' (Some ''id-regCtrl'') None (Some 313) (Some (Some ''id_pkip'', [1])),
      Obj ''id_regInfo'' (Some ''id-regInfo'') None (Some 314) (Some (Some ''id_pkip'', [2])),
      Obj ''id_regCtrl_regToken'' (Some ''id-regCtrl-regToken'') None (Some 315) (Some (Some ''id_regCtrl'', [1])),
      Obj ''id_regCtrl_authenticator'' (Some ''id-regCtrl-authenticator'') None (Some 316) (Some (Some ''id_regCtrl'', [2])),
      Obj ''id_regCtrl_pkiPublicationInfo'' (Some ''id-regCtrl-pkiPublicationInfo'') None (Some 317) (Some (Some ''id_regCtrl'', [3])),
      Obj ''id_regCtrl_pkiArchiveOptions'' (Some ''id-regCtrl-pkiArchiveOptions'') None (Some 318) (Some (Some ''id_regCtrl'', [4])),
      Obj ''id_regCtrl_oldCertID'' (Some ''id-regCtrl-oldCertID'') None (Some 319) (Some (Some ''id_regCtrl'', [5])),
      Obj ''id_regCtrl_protocolEncrKey'' (Some ''id-regCtrl-protocolEncrKey'') None (Some 320) (Some (Some ''id_regCtrl'', [6])),
      Obj ''id_regInfo_utf8Pairs'' (Some ''id-regInfo-utf8Pairs'') None (Some 321) (Some (Some ''id_regInfo'', [1])),
      Obj ''id_regInfo_certReq'' (Some ''id-regInfo-certReq'') None (Some 322) (Some (Some ''id_regInfo'', [2])),
      Obj ''id_alg_des40'' (Some ''id-alg-des40'') None (Some 323) (Some (Some ''id_alg'', [1])),
      Obj ''id_alg_noSignature'' (Some ''id-alg-noSignature'') None (Some 324) (Some (Some ''id_alg'', [2])),
      Obj ''id_alg_dh_sig_hmac_sha1'' (Some ''id-alg-dh-sig-hmac-sha1'') None (Some 325) (Some (Some ''id_alg'', [3])),
      Obj ''id_alg_dh_pop'' (Some ''id-alg-dh-pop'') None (Some 326) (Some (Some ''id_alg'', [4])),
      Obj ''id_cmc_statusInfo'' (Some ''id-cmc-statusInfo'') None (Some 327) (Some (Some ''id_cmc'', [1])),
      Obj ''id_cmc_identification'' (Some ''id-cmc-identification'') None (Some 328) (Some (Some ''id_cmc'', [2])),
      Obj ''id_cmc_identityProof'' (Some ''id-cmc-identityProof'') None (Some 329) (Some (Some ''id_cmc'', [3])),
      Obj ''id_cmc_dataReturn'' (Some ''id-cmc-dataReturn'') None (Some 330) (Some (Some ''id_cmc'', [4])),
      Obj ''id_cmc_transactionId'' (Some ''id-cmc-transactionId'') None (Some 331) (Some (Some ''id_cmc'', [5])),
      Obj ''id_cmc_senderNonce'' (Some ''id-cmc-senderNonce'') None (Some 332) (Some (Some ''id_cmc'', [6])),
      Obj ''id_cmc_recipientNonce'' (Some ''id-cmc-recipientNonce'') None (Some 333) (Some (Some ''id_cmc'', [7])),
      Obj ''id_cmc_addExtensions'' (Some ''id-cmc-addExtensions'') None (Some 334) (Some (Some ''id_cmc'', [8]))]"

definition obj_mac_11 :: "obj list" where
  "obj_mac_11 =
     [Obj ''id_cmc_encryptedPOP'' (Some ''id-cmc-encryptedPOP'') None (Some 335) (Some (Some ''id_cmc'', [9])),
      Obj ''id_cmc_decryptedPOP'' (Some ''id-cmc-decryptedPOP'') None (Some 336) (Some (Some ''id_cmc'', [10])),
      Obj ''id_cmc_lraPOPWitness'' (Some ''id-cmc-lraPOPWitness'') None (Some 337) (Some (Some ''id_cmc'', [11])),
      Obj ''id_cmc_getCert'' (Some ''id-cmc-getCert'') None (Some 338) (Some (Some ''id_cmc'', [15])),
      Obj ''id_cmc_getCRL'' (Some ''id-cmc-getCRL'') None (Some 339) (Some (Some ''id_cmc'', [16])),
      Obj ''id_cmc_revokeRequest'' (Some ''id-cmc-revokeRequest'') None (Some 340) (Some (Some ''id_cmc'', [17])),
      Obj ''id_cmc_regInfo'' (Some ''id-cmc-regInfo'') None (Some 341) (Some (Some ''id_cmc'', [18])),
      Obj ''id_cmc_responseInfo'' (Some ''id-cmc-responseInfo'') None (Some 342) (Some (Some ''id_cmc'', [19])),
      Obj ''id_cmc_queryPending'' (Some ''id-cmc-queryPending'') None (Some 343) (Some (Some ''id_cmc'', [21])),
      Obj ''id_cmc_popLinkRandom'' (Some ''id-cmc-popLinkRandom'') None (Some 344) (Some (Some ''id_cmc'', [22])),
      Obj ''id_cmc_popLinkWitness'' (Some ''id-cmc-popLinkWitness'') None (Some 345) (Some (Some ''id_cmc'', [23])),
      Obj ''id_cmc_confirmCertAcceptance'' (Some ''id-cmc-confirmCertAcceptance'') None (Some 346) (Some (Some ''id_cmc'', [24])),
      Obj ''id_on_personalData'' (Some ''id-on-personalData'') None (Some 347) (Some (Some ''id_on'', [1])),
      Obj ''id_on_permanentIdentifier'' (Some ''id-on-permanentIdentifier'') (Some ''Permanent Identifier'') (Some 858) (Some (Some ''id_on'', [3])),
      Obj ''id_pda_dateOfBirth'' (Some ''id-pda-dateOfBirth'') None (Some 348) (Some (Some ''id_pda'', [1])),
      Obj ''id_pda_placeOfBirth'' (Some ''id-pda-placeOfBirth'') None (Some 349) (Some (Some ''id_pda'', [2])),
      Obj ''id_pda_gender'' (Some ''id-pda-gender'') None (Some 351) (Some (Some ''id_pda'', [3])),
      Obj ''id_pda_countryOfCitizenship'' (Some ''id-pda-countryOfCitizenship'') None (Some 352) (Some (Some ''id_pda'', [4])),
      Obj ''id_pda_countryOfResidence'' (Some ''id-pda-countryOfResidence'') None (Some 353) (Some (Some ''id_pda'', [5])),
      Obj ''id_aca_authenticationInfo'' (Some ''id-aca-authenticationInfo'') None (Some 354) (Some (Some ''id_aca'', [1])),
      Obj ''id_aca_accessIdentity'' (Some ''id-aca-accessIdentity'') None (Some 355) (Some (Some ''id_aca'', [2])),
      Obj ''id_aca_chargingIdentity'' (Some ''id-aca-chargingIdentity'') None (Some 356) (Some (Some ''id_aca'', [3])),
      Obj ''id_aca_group'' (Some ''id-aca-group'') None (Some 357) (Some (Some ''id_aca'', [4])),
      Obj ''id_aca_role'' (Some ''id-aca-role'') None (Some 358) (Some (Some ''id_aca'', [5])),
      Obj ''id_aca_encAttrs'' (Some ''id-aca-encAttrs'') None (Some 399) (Some (Some ''id_aca'', [6])),
      Obj ''id_qcs_pkixQCSyntax_v1'' (Some ''id-qcs-pkixQCSyntax-v1'') None (Some 359) (Some (Some ''id_qcs'', [1])),
      Obj ''id_cct_crs'' (Some ''id-cct-crs'') None (Some 360) (Some (Some ''id_cct'', [1])),
      Obj ''id_cct_PKIData'' (Some ''id-cct-PKIData'') None (Some 361) (Some (Some ''id_cct'', [2])),
      Obj ''id_cct_PKIResponse'' (Some ''id-cct-PKIResponse'') None (Some 362) (Some (Some ''id_cct'', [3])),
      Obj ''id_ppl_anyLanguage'' (Some ''id-ppl-anyLanguage'') (Some ''Any language'') (Some 664) (Some (Some ''id_ppl'', [0])),
      Obj ''id_ppl_inheritAll'' (Some ''id-ppl-inheritAll'') (Some ''Inherit all'') (Some 665) (Some (Some ''id_ppl'', [1])),
      Obj ''Independent'' (Some ''id-ppl-independent'') (Some ''Independent'') (Some 667) (Some (Some ''id_ppl'', [2])),
      Obj ''ad_OCSP'' (Some ''OCSP'') (Some ''OCSP'') (Some 178) (Some (Some ''id_ad'', [1])),
      Obj ''ad_ca_issuers'' (Some ''caIssuers'') (Some ''CA Issuers'') (Some 179) (Some (Some ''id_ad'', [2])),
      Obj ''ad_timeStamping'' (Some ''ad_timestamping'') (Some ''AD Time Stamping'') (Some 363) (Some (Some ''id_ad'', [3]))]"

definition obj_mac_12 :: "obj list" where
  "obj_mac_12 =
     [Obj ''ad_dvcs'' (Some ''AD_DVCS'') (Some ''ad dvcs'') (Some 364) (Some (Some ''id_ad'', [4])),
      Obj ''caRepository'' (Some ''caRepository'') (Some ''CA Repository'') (Some 785) (Some (Some ''id_ad'', [5])),
      Obj ''id_pkix_OCSP'' None None None (Some (Some ''ad_OCSP'', [])),
      Obj ''id_pkix_OCSP_basic'' (Some ''basicOCSPResponse'') (Some ''Basic OCSP Response'') (Some 365) (Some (Some ''id_pkix_OCSP'', [1])),
      Obj ''id_pkix_OCSP_Nonce'' (Some ''Nonce'') (Some ''OCSP Nonce'') (Some 366) (Some (Some ''id_pkix_OCSP'', [2])),
      Obj ''id_pkix_OCSP_CrlID'' (Some ''CrlID'') (Some ''OCSP CRL ID'') (Some 367) (Some (Some ''id_pkix_OCSP'', [3])),
      Obj ''id_pkix_OCSP_acceptableResponses'' (Some ''acceptableResponses'') (Some ''Acceptable OCSP Responses'') (Some 368) (Some (Some ''id_pkix_OCSP'', [4])),
      Obj ''id_pkix_OCSP_noCheck'' (Some ''noCheck'') (Some ''OCSP No Check'') (Some 369) (Some (Some ''id_pkix_OCSP'', [5])),
      Obj ''id_pkix_OCSP_archiveCutoff'' (Some ''archiveCutoff'') (Some ''OCSP Archive Cutoff'') (Some 370) (Some (Some ''id_pkix_OCSP'', [6])),
      Obj ''id_pkix_OCSP_serviceLocator'' (Some ''serviceLocator'') (Some ''OCSP Service Locator'') (Some 371) (Some (Some ''id_pkix_OCSP'', [7])),
      Obj ''id_pkix_OCSP_extendedStatus'' (Some ''extendedStatus'') (Some ''Extended OCSP Status'') (Some 372) (Some (Some ''id_pkix_OCSP'', [8])),
      Obj ''id_pkix_OCSP_valid'' (Some ''valid'') None (Some 373) (Some (Some ''id_pkix_OCSP'', [9])),
      Obj ''id_pkix_OCSP_path'' (Some ''path'') None (Some 374) (Some (Some ''id_pkix_OCSP'', [10])),
      Obj ''id_pkix_OCSP_trustRoot'' (Some ''trustRoot'') (Some ''Trust Root'') (Some 375) (Some (Some ''id_pkix_OCSP'', [11])),
      Obj ''algorithm'' (Some ''algorithm'') (Some ''algorithm'') (Some 376) (Some (None, [1, 3, 14, 3, 2])),
      Obj ''md5WithRSA'' (Some ''RSA-NP-MD5'') (Some ''md5WithRSA'') (Some 104) (Some (Some ''algorithm'', [3])),
      Obj ''des_ecb'' (Some ''DES-ECB'') (Some ''des-ecb'') (Some 29) (Some (Some ''algorithm'', [6])),
      Obj ''des_cbc'' (Some ''DES-CBC'') (Some ''des-cbc'') (Some 31) (Some (Some ''algorithm'', [7])),
      Obj ''des_ofb64'' (Some ''DES-OFB'') (Some ''des-ofb'') (Some 45) (Some (Some ''algorithm'', [8])),
      Obj ''des_cfb64'' (Some ''DES-CFB'') (Some ''des-cfb'') (Some 30) (Some (Some ''algorithm'', [9])),
      Obj ''rsaSignature'' (Some ''rsaSignature'') None (Some 377) (Some (Some ''algorithm'', [11])),
      Obj ''dsa_2'' (Some ''DSA-old'') (Some ''dsaEncryption-old'') (Some 67) (Some (Some ''algorithm'', [12])),
      Obj ''dsaWithSHA'' (Some ''DSA-SHA'') (Some ''dsaWithSHA'') (Some 66) (Some (Some ''algorithm'', [13])),
      Obj ''shaWithRSAEncryption'' (Some ''RSA-SHA'') (Some ''shaWithRSAEncryption'') (Some 42) (Some (Some ''algorithm'', [15])),
      Obj ''des_ede_ecb'' (Some ''DES-EDE'') (Some ''des-ede'') (Some 32) (Some (Some ''algorithm'', [17])),
      Obj ''des_ede3_ecb'' (Some ''DES-EDE3'') (Some ''des-ede3'') (Some 33) None,
      Obj ''des_ede_cbc'' (Some ''DES-EDE-CBC'') (Some ''des-ede-cbc'') (Some 43) None,
      Obj ''des_ede_cfb64'' (Some ''DES-EDE-CFB'') (Some ''des-ede-cfb'') (Some 60) None,
      Obj ''des_ede3_cfb64'' (Some ''DES-EDE3-CFB'') (Some ''des-ede3-cfb'') (Some 61) None,
      Obj ''des_ede_ofb64'' (Some ''DES-EDE-OFB'') (Some ''des-ede-ofb'') (Some 62) None,
      Obj ''des_ede3_ofb64'' (Some ''DES-EDE3-OFB'') (Some ''des-ede3-ofb'') (Some 63) None,
      Obj ''desx_cbc'' (Some ''DESX-CBC'') (Some ''desx-cbc'') (Some 80) None]"

definition obj_mac_13 :: "obj list" where
  "obj_mac_13 =
     [Obj ''sha'' (Some ''SHA'') (Some ''sha'') (Some 41) (Some (Some ''algorithm'', [18])),
      Obj ''sha1'' (Some ''SHA1'') (Some ''sha1'') (Some 64) (Some (Some ''algorithm'', [26])),
      Obj ''dsaWithSHA1_2'' (Some ''DSA-SHA1-old'') (Some ''dsaWithSHA1-old'') (Some 70) (Some (Some ''algorithm'', [27])),
      Obj ''sha1WithRSA'' (Some ''RSA-SHA1-2'') (Some ''sha1WithRSA'') (Some 115) (Some (Some ''algorithm'', [29])),
      Obj ''ripemd160'' (Some ''RIPEMD160'') (Some ''ripemd160'') (Some 117) (Some (None, [1, 3, 36, 3, 2, 1])),
      Obj ''ripemd160WithRSA'' (Some ''RSA-RIPEMD160'') (Some ''ripemd160WithRSA'') (Some 119) (Some (None, [1, 3, 36, 3, 3, 1, 2])),
      Obj ''sxnet'' (Some ''SXNetID'') (Some ''Strong Extranet ID'') (Some 143) (Some (None, [1, 3, 101, 1, 4, 1])),
      Obj ''X500'' (Some ''X500'') (Some ''directory services (X.500)'') (Some 11) (Some (None, [2, 5])),
      Obj ''X509'' (Some ''X509'') None (Some 12) (Some (Some ''X500'', [4])),
      Obj ''commonName'' (Some ''CN'') (Some ''commonName'') (Some 13) (Some (Some ''X509'', [3])),
      Obj ''surname'' (Some ''SN'') (Some ''surname'') (Some 100) (Some (Some ''X509'', [4])),
      Obj ''serialNumber'' None (Some ''serialNumber'') (Some 105) (Some (Some ''X509'', [5])),
      Obj ''countryName'' (Some ''C'') (Some ''countryName'') (Some 14) (Some (Some ''X509'', [6])),
      Obj ''localityName'' (Some ''L'') (Some ''localityName'') (Some 15) (Some (Some ''X509'', [7])),
      Obj ''stateOrProvinceName'' (Some ''ST'') (Some ''stateOrProvinceName'') (Some 16) (Some (Some ''X509'', [8])),
      Obj ''streetAddress'' (Some ''street'') (Some ''streetAddress'') (Some 660) (Some (Some ''X509'', [9])),
      Obj ''organizationName'' (Some ''O'') (Some ''organizationName'') (Some 17) (Some (Some ''X509'', [10])),
      Obj ''organizationalUnitName'' (Some ''OU'') (Some ''organizationalUnitName'') (Some 18) (Some (Some ''X509'', [11])),
      Obj ''title'' (Some ''title'') (Some ''title'') (Some 106) (Some (Some ''X509'', [12])),
      Obj ''description'' None (Some ''description'') (Some 107) (Some (Some ''X509'', [13])),
      Obj ''searchGuide'' None (Some ''searchGuide'') (Some 859) (Some (Some ''X509'', [14])),
      Obj ''businessCategory'' None (Some ''businessCategory'') (Some 860) (Some (Some ''X509'', [15])),
      Obj ''postalAddress'' None (Some ''postalAddress'') (Some 861) (Some (Some ''X509'', [16])),
      Obj ''postalCode'' None (Some ''postalCode'') (Some 661) (Some (Some ''X509'', [17])),
      Obj ''postOfficeBox'' None (Some ''postOfficeBox'') (Some 862) (Some (Some ''X509'', [18])),
      Obj ''physicalDeliveryOfficeName'' None (Some ''physicalDeliveryOfficeName'') (Some 863) (Some (Some ''X509'', [19])),
      Obj ''telephoneNumber'' None (Some ''telephoneNumber'') (Some 864) (Some (Some ''X509'', [20])),
      Obj ''telexNumber'' None (Some ''telexNumber'') (Some 865) (Some (Some ''X509'', [21])),
      Obj ''teletexTerminalIdentifier'' None (Some ''teletexTerminalIdentifier'') (Some 866) (Some (Some ''X509'', [22])),
      Obj ''facsimileTelephoneNumber'' None (Some ''facsimileTelephoneNumber'') (Some 867) (Some (Some ''X509'', [23])),
      Obj ''x121Address'' None (Some ''x121Address'') (Some 868) (Some (Some ''X509'', [24])),
      Obj ''internationaliSDNNumber'' None (Some ''internationaliSDNNumber'') (Some 869) (Some (Some ''X509'', [25])),
      Obj ''registeredAddress'' None (Some ''registeredAddress'') (Some 870) (Some (Some ''X509'', [26]))]"

text \<open>The macros that each part takes from the parts above it and hands to those below.\<close>

definition obj_known_7 :: "(string \<times> int list) list" where
  "obj_known_7 =
     [(''pkcs12_Version1'', [1, 2, 840, 113549, 1, 12, 10]), (''rsadsi'', [1, 2, 840, 113549])]"

definition obj_exports_7 :: "(string \<times> int list) list" where
  "obj_exports_7 =
     []"

definition obj_known_8 :: "(string \<times> int list) list" where
  "obj_known_8 =
     []"

definition obj_exports_8 :: "(string \<times> int list) list" where
  "obj_exports_8 =
     [(''id_pkix_mod'', [1, 3, 6, 1, 5, 5, 7, 0]), (''id_pe'', [1, 3, 6, 1, 5, 5, 7, 1]),
      (''id_qt'', [1, 3, 6, 1, 5, 5, 7, 2]), (''id_kp'', [1, 3, 6, 1, 5, 5, 7, 3]),
      (''id_it'', [1, 3, 6, 1, 5, 5, 7, 4]), (''id_pkip'', [1, 3, 6, 1, 5, 5, 7, 5]),
      (''id_alg'', [1, 3, 6, 1, 5, 5, 7, 6]), (''id_cmc'', [1, 3, 6, 1, 5, 5, 7, 7]),
      (''id_on'', [1, 3, 6, 1, 5, 5, 7, 8]), (''id_pda'', [1, 3, 6, 1, 5, 5, 7, 9]),
      (''id_aca'', [1, 3, 6, 1, 5, 5, 7, 10]), (''id_qcs'', [1, 3, 6, 1, 5, 5, 7, 11]),
      (''id_cct'', [1, 3, 6, 1, 5, 5, 7, 12]), (''id_ppl'', [1, 3, 6, 1, 5, 5, 7, 21]),
      (''id_ad'', [1, 3, 6, 1, 5, 5, 7, 48])]"

definition obj_known_9 :: "(string \<times> int list) list" where
  "obj_known_9 =
     [(''id_pkix_mod'', [1, 3, 6, 1, 5, 5, 7, 0]), (''id_pe'', [1, 3, 6, 1, 5, 5, 7, 1]),
      (''id_qt'', [1, 3, 6, 1, 5, 5, 7, 2]), (''id_kp'', [1, 3, 6, 1, 5, 5, 7, 3]),
      (''id_it'', [1, 3, 6, 1, 5, 5, 7, 4])]"

definition obj_exports_9 :: "(string \<times> int list) list" where
  "obj_exports_9 =
     []"

definition obj_known_10 :: "(string \<times> int list) list" where
  "obj_known_10 =
     [(''id_it'', [1, 3, 6, 1, 5, 5, 7, 4]), (''id_pkip'', [1, 3, 6, 1, 5, 5, 7, 5]),
      (''id_alg'', [1, 3, 6, 1, 5, 5, 7, 6]), (''id_cmc'', [1, 3, 6, 1, 5, 5, 7, 7])]"

definition obj_exports_10 :: "(string \<times> int list) list" where
  "obj_exports_10 =
     []"

definition obj_known_11 :: "(string \<times> int list) list" where
  "obj_known_11 =
     [(''id_cmc'', [1, 3, 6, 1, 5, 5, 7, 7]), (''id_on'', [1, 3, 6, 1, 5, 5, 7, 8]),
      (''id_pda'', [1, 3, 6, 1, 5, 5, 7, 9]), (''id_aca'', [1, 3, 6, 1, 5, 5, 7, 10]),
      (''id_qcs'', [1, 3, 6, 1, 5, 5, 7, 11]), (''id_cct'', [1, 3, 6, 1, 5, 5, 7, 12]),
      (''id_ppl'', [1, 3, 6, 1, 5, 5, 7, 21]), (''id_ad'', [1, 3, 6, 1, 5, 5, 7, 48])]"

definition obj_exports_11 :: "(string \<times> int list) list" where
  "obj_exports_11 =
     [(''ad_OCSP'', [1, 3, 6, 1, 5, 5, 7, 48, 1])]"

definition obj_known_12 :: "(string \<times> int list) list" where
  "obj_known_12 =
     [(''id_ad'', [1, 3, 6, 1, 5, 5, 7, 48]), (''ad_OCSP'', [1, 3, 6, 1, 5, 5, 7, 48, 1])]"

definition obj_exports_12 :: "(string \<times> int list) list" where
  "obj_exports_12 =
     [(''algorithm'', [1, 3, 14, 3, 2])]"

definition obj_known_13 :: "(string \<times> int list) list" where
  "obj_known_13 =
     [(''algorithm'', [1, 3, 14, 3, 2])]"

definition obj_exports_13 :: "(string \<times> int list) list" where
  "obj_exports_13 =
     [(''X509'', [2, 5, 4]), (''X500'', [2, 5])]"

section \<open>Checks\<close>

lemma part_ok_7: "part_ok obj_known_7 obj_mac_7 obj_exports_7"
  by code_simp

lemma part_ok_8: "part_ok obj_known_8 obj_mac_8 obj_exports_8"
  by code_simp

lemma part_ok_9: "part_ok obj_known_9 obj_mac_9 obj_exports_9"
  by code_simp

lemma part_ok_10: "part_ok obj_known_10 obj_mac_10 obj_exports_10"
  by code_simp

lemma part_ok_11: "part_ok obj_known_11 obj_mac_11 obj_exports_11"
  by code_simp

lemma part_ok_12: "part_ok obj_known_12 obj_mac_12 obj_exports_12"
  by code_simp

lemma part_ok_13: "part_ok obj_known_13 obj_mac_13 obj_exports_13"
  by code_simp

lemma nids_7: "keys_of o_nid obj_mac_7 =
     [150, 151, 152, 153, 154, 155, 3, 257, 4, 114, 797, 163, 798, 799, 800, 801, 37, 38, 39, 40, 98,
      166, 5, 97, 44, 120, 121, 122, 123, 171, 134, 135, 136, 137]"
  by (simp only: obj_mac_7_def column_simps keys_of_simps(1))

lemma sns_7: "map (fingerprint 0) (keys_of o_sn obj_mac_7) =
     [10153, 10155, 10156, 50004, 43294, 45246, 43417, 54949, 12461, 45001, 14929, 7266, 41385, 41773,
      43725, 41896, 53428, 34865, 37880, 32154, 34716, 20629]"
  by (simp only: obj_mac_7_def column_simps keys_of_simps(1)) code_simp

lemma lns_7: "map (fingerprint 0) (keys_of o_ln obj_mac_7) =
     [24263, 46366, 41010, 20133, 29514, 21047, 41897, 41899, 41900, 33700, 25493, 49266, 23755, 23850,
      24902, 26605, 19348, 21300, 19471, 31003, 46437, 12975, 46673, 16114, 49919, 17827, 19779,
      17950, 29482, 43840, 28297, 38912, 20285, 21259]"
  by (simp only: obj_mac_7_def column_simps keys_of_simps(1)) code_simp

lemma nids_8: "keys_of o_nid obj_mac_8 =
     [138, 648, 649, 34, 36, 35, 46, 91, 92, 93, 94, 127, 258, 175, 259, 128, 260, 261, 262, 263, 264,
      265, 266, 267, 268, 662, 176, 269, 270, 271, 272, 273, 274, 275, 276, 277]"
  by (simp only: obj_mac_8_def column_simps keys_of_simps(1))

lemma sns_8: "map (fingerprint 0) (keys_of o_sn obj_mac_8) =
     [7160, 63522, 22841, 61938, 63890, 62061, 7591, 4273, 6225, 4396, 15928, 15632, 13167, 2593, 2639,
      2449, 2391, 58932, 286, 2235, 2571, 14447, 1, 15395, 1942, 14830, 2127, 2913, 46276, 2939,
      46302, 27073, 21996, 30215, 30241, 22009]"
  by (simp only: obj_mac_8_def column_simps keys_of_simps(1)) code_simp

lemma lns_8: "map (fingerprint 0) (keys_of o_ln obj_mac_8) =
     [22885, 65914, 35208, 25230, 27182, 25353, 36885, 44897, 46849, 45020, 56552]"
  by (simp only: obj_mac_8_def column_simps keys_of_simps(1)) code_simp

lemma nids_9: "keys_of o_nid obj_mac_9 =
     [278, 279, 280, 281, 282, 283, 284, 177, 285, 286, 287, 288, 289, 290, 291, 292, 397, 398, 663,
      164, 165, 293, 129, 130, 131, 132, 294, 295, 296, 133, 180, 297, 298]"
  by (simp only: obj_mac_9_def column_simps keys_of_simps(1))

lemma sns_9: "map (fingerprint 0) (keys_of o_sn obj_mac_9) =
     [12023, 12049, 7968, 58818, 40336, 60411, 14943, 46057, 11526, 7932, 6359, 10872, 62122, 63586,
      44008, 40849, 13451, 44606, 384, 35346, 3485, 22779, 37319, 2525, 15434, 55331, 43302, 19036,
      63393, 16956, 614, 64532, 55069]"
  by (simp only: obj_mac_9_def column_simps keys_of_simps(1)) code_simp

lemma lns_9: "map (fingerprint 0) (keys_of o_ln obj_mac_9) =
     [48743, 42130, 4796, 41487, 14142, 4851, 50916, 37328, 63418, 53946, 4802, 19754, 49795, 16374,
      26830, 59590]"
  by (simp only: obj_mac_9_def column_simps keys_of_simps(1)) code_simp

lemma nids_10: "keys_of o_nid obj_mac_10 =
     [299, 300, 301, 302, 303, 304, 305, 306, 307, 308, 309, 310, 311, 312, 784, 313, 314, 315, 316,
      317, 318, 319, 320, 321, 322, 323, 324, 325, 326, 327, 328, 329, 330, 331, 332, 333, 334]"
  by (simp only: obj_mac_10_def column_simps keys_of_simps(1))

lemma sns_10: "map (fingerprint 0) (keys_of o_sn obj_mac_10) =
     [41305, 30502, 19165, 46332, 22764, 64110, 48990, 912, 38694, 38693, 44593, 25949, 42968, 48592,
      54673, 63463, 38068, 65089, 1915, 56122, 14062, 41274, 4529, 12655, 14265, 36331, 27096,
      3919, 23123, 56348, 51000, 49160, 6674, 20493, 31162, 8592, 50313]"
  by (simp only: obj_mac_10_def column_simps keys_of_simps(1)) code_simp

lemma lns_10: "map (fingerprint 0) (keys_of o_ln obj_mac_10) =
     []"
  by (simp only: obj_mac_10_def column_simps keys_of_simps(1)) code_simp

lemma nids_11: "keys_of o_nid obj_mac_11 =
     [335, 336, 337, 338, 339, 340, 341, 342, 343, 344, 345, 346, 347, 858, 348, 349, 351, 352, 353,
      354, 355, 356, 357, 358, 399, 359, 360, 361, 362, 664, 665, 667, 178, 179, 363]"
  by (simp only: obj_mac_11_def column_simps keys_of_simps(1))

lemma sns_11: "map (fingerprint 0) (keys_of o_sn obj_mac_11) =
     [2885, 739, 25413, 61644, 50327, 3027, 43912, 60257, 49209, 35112, 196, 54951, 3010, 50435, 12192,
      51341, 45321, 5409, 21187, 30420, 5570, 26775, 15803, 35658, 62160, 40037, 58777, 34869,
      47180, 65739, 20075, 20579, 44457, 3838, 60546]"
  by (simp only: obj_mac_11_def column_simps keys_of_simps(1)) code_simp

lemma lns_11: "map (fingerprint 0) (keys_of o_ln obj_mac_11) =
     [60203, 34414, 16084, 11892, 44457, 25688, 42035]"
  by (simp only: obj_mac_11_def column_simps keys_of_simps(1)) code_simp

lemma nids_12: "keys_of o_nid obj_mac_12 =
     [364, 785, 365, 366, 367, 368, 369, 370, 371, 372, 373, 374, 375, 376, 104, 29, 31, 45, 30, 377,
      67, 66, 42, 32, 33, 43, 60, 61, 62, 63, 80]"
  by (simp only: obj_mac_12_def column_simps keys_of_simps(1))

lemma sns_12: "map (fingerprint 0) (keys_of o_sn obj_mac_12) =
     [14848, 4970, 62566, 10033, 36220, 42190, 32557, 46001, 61965, 64069, 32956, 1405, 31710, 20007,
      38236, 20053, 18101, 29756, 18224, 43092, 48814, 20755, 63785, 20087, 28730, 1252, 1375,
      41508, 12907, 53040, 16929]"
  by (simp only: obj_mac_12_def column_simps keys_of_simps(1)) code_simp

lemma lns_12: "map (fingerprint 0) (keys_of o_ln obj_mac_12) =
     [52127, 26596, 18786, 52730, 18117, 20117, 11546, 44198, 47544, 1210, 51498, 20007, 39768, 45885,
      43933, 55588, 44056, 35343, 26018, 55999, 45919, 37498, 4600, 4723, 50042, 16255, 61574, 46223]"
  by (simp only: obj_mac_12_def column_simps keys_of_simps(1)) code_simp

lemma nids_13: "keys_of o_nid obj_mac_13 =
     [41, 64, 70, 115, 117, 119, 143, 11, 12, 13, 100, 105, 14, 15, 16, 660, 17, 18, 106, 107, 859, 860,
      861, 661, 862, 863, 864, 865, 866, 867, 868, 869, 870]"
  by (simp only: obj_mac_13_def column_simps keys_of_simps(1))

lemma sns_13: "map (fingerprint 0) (keys_of o_sn obj_mac_13) =
     [16058, 35833, 15378, 3887, 48170, 55783, 3389, 33997, 34006, 2155, 2651, 67, 76, 2657, 46167, 79,
      2534, 16072]"
  by (simp only: obj_mac_13_def column_simps keys_of_simps(1)) code_simp

lemma lns_13: "map (fingerprint 0) (keys_of o_ln obj_mac_13) =
     [47834, 30859, 63315, 22993, 50290, 19308, 61281, 2007, 44792, 29569, 7161, 27339, 58504, 17467,
      55393, 58470, 35559, 16072, 32676, 41426, 2502, 34745, 2966, 51527, 41102, 39095, 12861,
      13202, 32978, 64376, 37025, 43268]"
  by (simp only: obj_mac_13_def column_simps keys_of_simps(1)) code_simp

end
