(* ===== verification/ObjMac3.thy ===== *)
theory ObjMac3
  imports ObjectIds
begin

text \<open>
  Objects of \<open>openssl/obj_mac.h\<close>, lines 2152 to 3196, in the order of the header, each part with
  its columns and with the check that its \<open>OBJ_\<close> macros expand.
\<close>

section \<open>Tables\<close>

definition obj_mac_14 :: "obj list" where
  "obj_mac_14 =
     [Obj ''destinationIndicator'' None (Some ''destinationIndicator'') (Some 871) (Some (Some ''X509'', [27])),
      Obj ''preferredDeliveryMethod'' None (Some ''preferredDeliveryMethod'') (Some 872) (Some (Some ''X509'', [28])),
      Obj ''presentationAddress'' None (Some ''presentationAddress'') (Some 873) (Some (Some ''X509'', [29])),
      Obj ''supportedApplicationContext'' None (Some ''supportedApplicationContext'') (Some 874) (Some (Some ''X509'', [30])),
      Obj ''member'' (Some ''member'') None (Some 875) (Some (Some ''X509'', [31])),
      Obj ''owner'' (Some ''owner'') None (Some 876) (Some (Some ''X509'', [32])),
      Obj ''roleOccupant'' None (Some ''roleOccupant'') (Some 877) (Some (Some ''X509'', [33])),
      Obj ''seeAlso'' (Some ''seeAlso'') None (Some 878) (Some (Some ''X509'', [34])),
      Obj ''userPassword'' None (Some ''userPassword'') (Some 879) (Some (Some ''X509'', [35])),
      Obj ''userCertificate'' None (Some ''userCertificate'') (Some 880) (Some (Some ''X509'', [36])),
      Obj ''cACertificate'' None (Some ''cACertificate'') (Some 881) (Some (Some ''X509'', [37])),
      Obj ''authorityRevocationList'' None (Some ''authorityRevocationList'') (Some 882) (Some (Some ''X509'', [38])),
      Obj ''certificateRevocationList'' None (Some ''certificateRevocationList'') (Some 883) (Some (Some ''X509'', [39])),
      Obj ''crossCertificatePair'' None (Some ''crossCertificatePair'') (Some 884) (Some (Some ''X509'', [40])),
      Obj ''name'' (Some ''name'') (Some ''name'') (Some 173) (Some (Some ''X509'', [41])),
      Obj ''givenName'' (Some ''GN'') (Some ''givenName'') (Some 99) (Some (Some ''X509'', [42])),
      Obj ''initials'' (Some ''initials'') (Some ''initials'') (Some 101) (Some (Some ''X509'', [43])),
      Obj ''generationQualifier'' None (Some ''generationQualifier'') (Some 509) (Some (Some ''X509'', [44])),
      Obj ''x500UniqueIdentifier'' None (Some ''x500UniqueIdentifier'') (Some 503) (Some (Some ''X509'', [45])),
      Obj ''dnQualifier'' (Some ''dnQualifier'') (Some ''dnQualifier'') (Some 174) (Some (Some ''X509'', [46])),
      Obj ''enhancedSearchGuide'' None (Some ''enhancedSearchGuide'') (Some 885) (Some (Some ''X509'', [47])),
      Obj ''protocolInformation'' None (Some ''protocolInformation'') (Some 886) (Some (Some ''X509'', [48])),
      Obj ''distinguishedName'' None (Some ''distinguishedName'') (Some 887) (Some (Some ''X509'', [49])),
      Obj ''uniqueMember'' None (Some ''uniqueMember'') (Some 888) (Some (Some ''X509'', [50])),
      Obj ''houseIdentifier'' None (Some ''houseIdentifier'') (Some 889) (Some (Some ''X509'', [51])),
      Obj ''supportedAlgorithms'' None (Some ''supportedAlgorithms'') (Some 890) (Some (Some ''X509'', [52])),
      Obj ''deltaRevocationList'' None (Some ''deltaRevocationList'') (Some 891) (Some (Some ''X509'', [53])),
      Obj ''dmdName'' (Some ''dmdName'') None (Some 892) (Some (Some ''X509'', [54])),
      Obj ''pseudonym'' None (Some ''pseudonym'') (Some 510) (Some (Some ''X509'', [65])),
      Obj ''role'' (Some ''role'') (Some ''role'') (Some 400) (Some (Some ''X509'', [72])),
      Obj ''X500algorithms'' (Some ''X500algorithms'') (Some ''directory services - algorithms'') (Some 378) (Some (Some ''X500'', [8])),
      Obj ''rsa'' (Some ''RSA'') (Some ''rsa'') (Some 19) (Some (Some ''X500algorithms'', [1, 1])),
      Obj ''mdc2WithRSA'' (Some ''RSA-MDC2'') (Some ''mdc2WithRSA'') (Some 96) (Some (Some ''X500algorithms'', [3, 100])),
      Obj ''mdc2'' (Some ''MDC2'') (Some ''mdc2'') (Some 95) (Some (Some ''X500algorithms'', [3, 101])),
      Obj ''id_ce'' (Some ''id-ce'') None (Some 81) (Some (Some ''X500'', [29]))]"

definition obj_mac_15 :: "obj list" where
  "obj_mac_15 =
     [Obj ''subject_directory_attributes'' (Some ''subjectDirectoryAttributes'') (Some ''X509v3 Subject Directory Attributes'') (Some 769) (Some (Some ''id_ce'', [9])),
      Obj ''subject_key_identifier'' (Some ''subjectKeyIdentifier'') (Some ''X509v3 Subject Key Identifier'') (Some 82) (Some (Some ''id_ce'', [14])),
      Obj ''key_usage'' (Some ''keyUsage'') (Some ''X509v3 Key Usage'') (Some 83) (Some (Some ''id_ce'', [15])),
      Obj ''private_key_usage_period'' (Some ''privateKeyUsagePeriod'') (Some ''X509v3 Private Key Usage Period'') (Some 84) (Some (Some ''id_ce'', [16])),
      Obj ''subject_alt_name'' (Some ''subjectAltName'') (Some ''X509v3 Subject Alternative Name'') (Some 85) (Some (Some ''id_ce'', [17])),
      Obj ''issuer_alt_name'' (Some ''issuerAltName'') (Some ''X509v3 Issuer Alternative Name'') (Some 86) (Some (Some ''id_ce'', [18])),
      Obj ''basic_constraints'' (Some ''basicConstraints'') (Some ''X509v3 Basic Constraints'') (Some 87) (Some (Some ''id_ce'', [19])),
      Obj ''crl_number'' (Some ''crlNumber'') (Some ''X509v3 CRL Number'') (Some 88) (Some (Some ''id_ce'', [20])),
      Obj ''crl_reason'' (Some ''CRLReason'') (Some ''X509v3 CRL Reason Code'') (Some 141) (Some (Some ''id_ce'', [21])),
      Obj ''invalidity_date'' (Some ''invalidityDate'') (Some ''Invalidity Date'') (Some 142) (Some (Some ''id_ce'', [24])),
      Obj ''delta_crl'' (Some ''deltaCRL'') (Some ''X509v3 Delta CRL Indicator'') (Some 140) (Some (Some ''id_ce'', [27])),
      Obj ''issuing_distribution_point'' (Some ''issuingDistributionPoint'') (Some ''X509v3 Issuing Distrubution Point'') (Some 770) (Some (Some ''id_ce'', [28])),
      Obj ''certificate_issuer'' (Some ''certificateIssuer'') (Some ''X509v3 Certificate Issuer'') (Some 771) (Some (Some ''id_ce'', [29])),
      Obj ''name_constraints'' (Some ''nameConstraints'') (Some ''X509v3 Name Constraints'') (Some 666) (Some (Some ''id_ce'', [30])),
      Obj ''crl_distribution_points'' (Some ''crlDistributionPoints'') (Some ''X509v3 CRL Distribution Points'') (Some 103) (Some (Some ''id_ce'', [31])),
      Obj ''certificate_policies'' (Some ''certificatePolicies'') (Some ''X509v3 Certificate Policies'') (Some 89) (Some (Some ''id_ce'', [32])),
      Obj ''any_policy'' (Some ''anyPolicy'') (Some ''X509v3 Any Policy'') (Some 746) (Some (Some ''certificate_policies'', [0])),
      Obj ''policy_mappings'' (Some ''policyMappings'') (Some ''X509v3 Policy Mappings'') (Some 747) (Some (Some ''id_ce'', [33])),
      Obj ''authority_key_identifier'' (Some ''authorityKeyIdentifier'') (Some ''X509v3 Authority Key Identifier'') (Some 90) (Some (Some ''id_ce'', [35])),
      Obj ''policy_constraints'' (Some ''policyConstraints'') (Some ''X509v3 Policy Constraints'') (Some 401) (Some (Some ''id_ce'', [36])),
      Obj ''ext_key_usage'' (Some ''extendedKeyUsage'') (Some ''X509v3 Extended Key Usage'') (Some 126) (Some (Some ''id_ce'', [37])),
      Obj ''freshest_crl'' (Some ''freshestCRL'') (Some ''X509v3 Freshest CRL'') (Some 857) (Some (Some ''id_ce'', [46])),
      Obj ''inhibit_any_policy'' (Some ''inhibitAnyPolicy'') (Some ''X509v3 Inhibit Any Policy'') (Some 748) (Some (Some ''id_ce'', [54])),
      Obj ''target_information'' (Some ''targetInformation'') (Some ''X509v3 AC Targeting'') (Some 402) (Some (Some ''id_ce'', [55])),
      Obj ''no_rev_avail'' (Some ''noRevAvail'') (Some ''X509v3 No Revocation Available'') (Some 403) (Some (Some ''id_ce'', [56])),
      Obj ''anyExtendedKeyUsage'' (Some ''anyExtendedKeyUsage'') (Some ''Any Extended Key Usage'') (Some 910) (Some (Some ''ext_key_usage'', [0])),
      Obj ''netscape'' (Some ''Netscape'') (Some ''Netscape Communications Corp.'') (Some 57) (Some (None, [2, 16, 840, 1, 113730])),
      Obj ''netscape_cert_extension'' (Some ''nsCertExt'') (Some ''Netscape Certificate Extension'') (Some 58) (Some (Some ''netscape'', [1])),
      Obj ''netscape_data_type'' (Some ''nsDataType'') (Some ''Netscape Data Type'') (Some 59) (Some (Some ''netscape'', [2])),
      Obj ''netscape_cert_type'' (Some ''nsCertType'') (Some ''Netscape Cert Type'') (Some 71) (Some (Some ''netscape_cert_extension'', [1]))]"

definition obj_mac_16 :: "obj list" where
  "obj_mac_16 =
     [Obj ''netscape_base_url'' (Some ''nsBaseUrl'') (Some ''Netscape Base Url'') (Some 72) (Some (Some ''netscape_cert_extension'', [2])),
      Obj ''netscape_revocation_url'' (Some ''nsRevocationUrl'') (Some ''Netscape Revocation Url'') (Some 73) (Some (Some ''netscape_cert_extension'', [3])),
      Obj ''netscape_ca_revocation_url'' (Some ''nsCaRevocationUrl'') (Some ''Netscape CA Revocation Url'') (Some 74) (Some (Some ''netscape_cert_extension'', [4])),
      Obj ''netscape_renewal_url'' (Some ''nsRenewalUrl'') (Some ''Netscape Renewal Url'') (Some 75) (Some (Some ''netscape_cert_extension'', [7])),
      Obj ''netscape_ca_policy_url'' (Some ''nsCaPolicyUrl'') (Some ''Netscape CA Policy Url'') (Some 76) (Some (Some ''netscape_cert_extension'', [8])),
      Obj ''netscape_ssl_server_name'' (Some ''nsSslServerName'') (Some ''Netscape SSL Server Name'') (Some 77) (Some (Some ''netscape_cert_extension'', [12])),
      Obj ''netscape_comment'' (Some ''nsComment'') (Some ''Netscape Comment'') (Some 78) (Some (Some ''netscape_cert_extension'', [13])),
      Obj ''netscape_cert_sequence'' (Some ''nsCertSequence'') (Some ''Netscape Certificate Sequence'') (Some 79) (Some (Some ''netscape_data_type'', [5])),
      Obj ''ns_sgc'' (Some ''nsSGC'') (Some ''Netscape Server Gated Crypto'') (Some 139) (Some (Some ''netscape'', [4, 1])),
      Obj ''org'' (Some ''ORG'') (Some ''org'') (Some 379) (Some (Some ''iso'', [3])),
      Obj ''dod'' (Some ''DOD'') (Some ''dod'') (Some 380) (Some (Some ''org'', [6])),
      Obj ''iana'' (Some ''IANA'') (Some ''iana'') (Some 381) (Some (Some ''dod'', [1])),
      Obj ''internet'' None None None (Some (Some ''iana'', [])),
      Obj ''Directory'' (Some ''directory'') (Some ''Directory'') (Some 382) (Some (Some ''internet'', [1])),
      Obj ''Management'' (Some ''mgmt'') (Some ''Management'') (Some 383) (Some (Some ''internet'', [2])),
      Obj ''Experimental'' (Some ''experimental'') (Some ''Experimental'') (Some 384) (Some (Some ''internet'', [3])),
      Obj ''Private'' (Some ''private'') (Some ''Private'') (Some 385) (Some (Some ''internet'', [4])),
      Obj ''Security'' (Some ''security'') (Some ''Security'') (Some 386) (Some (Some ''internet'', [5])),
      Obj ''SNMPv2'' (Some ''snmpv2'') (Some ''SNMPv2'') (Some 387) (Some (Some ''internet'', [6])),
      Obj ''Mail'' None (Some ''Mail'') (Some 388) (Some (Some ''internet'', [7])),
      Obj ''Enterprises'' (Some ''enterprises'') (Some ''Enterprises'') (Some 389) (Some (Some ''Private'', [1])),
      Obj ''dcObject'' (Some ''dcobject'') (Some ''dcObject'') (Some 390) (Some (Some ''Enterprises'', [1466, 344])),
      Obj ''mime_mhs'' (Some ''mime-mhs'') (Some ''MIME MHS'') (Some 504) (Some (Some ''Mail'', [1])),
      Obj ''mime_mhs_headings'' (Some ''mime-mhs-headings'') (Some ''mime-mhs-headings'') (Some 505) (Some (Some ''mime_mhs'', [1])),
      Obj ''mime_mhs_bodies'' (Some ''mime-mhs-bodies'') (Some ''mime-mhs-bodies'') (Some 506) (Some (Some ''mime_mhs'', [2])),
      Obj ''id_hex_partial_message'' (Some ''id-hex-partial-message'') (Some ''id-hex-partial-message'') (Some 507) (Some (Some ''mime_mhs_headings'', [1])),
      Obj ''id_hex_multipart_message'' (Some ''id-hex-multipart-message'') (Some ''id-hex-multipart-message'') (Some 508) (Some (Some ''mime_mhs_headings'', [2])),
      Obj ''rle_compression'' (Some ''RLE'') (Some ''run length compression'') (Some 124) (Some (None, [1, 1, 1, 1, 666, 1])),
      Obj ''zlib_compression'' (Some ''ZLIB'') (Some ''zlib compression'') (Some 125) (Some (Some ''id_smime_alg'', [8])),
      Obj ''csor'' None None None (Some (None, [2, 16, 840, 1, 101, 3])),
      Obj ''nistAlgorithms'' None None None (Some (Some ''csor'', [4])),
      Obj ''aes'' None None None (Some (Some ''nistAlgorithms'', [1]))]"

definition obj_mac_17 :: "obj list" where
  "obj_mac_17 =
     [Obj ''aes_128_ecb'' (Some ''AES-128-ECB'') (Some ''aes-128-ecb'') (Some 418) (Some (Some ''aes'', [1])),
      Obj ''aes_128_cbc'' (Some ''AES-128-CBC'') (Some ''aes-128-cbc'') (Some 419) (Some (Some ''aes'', [2])),
      Obj ''aes_128_ofb128'' (Some ''AES-128-OFB'') (Some ''aes-128-ofb'') (Some 420) (Some (Some ''aes'', [3])),
      Obj ''aes_128_cfb128'' (Some ''AES-128-CFB'') (Some ''aes-128-cfb'') (Some 421) (Some (Some ''aes'', [4])),
      Obj ''id_aes128_wrap'' (Some ''id-aes128-wrap'') None (Some 788) (Some (Some ''aes'', [5])),
      Obj ''aes_128_gcm'' (Some ''id-aes128-GCM'') (Some ''aes-128-gcm'') (Some 895) (Some (Some ''aes'', [6])),
      Obj ''aes_128_ccm'' (Some ''id-aes128-CCM'') (Some ''aes-128-ccm'') (Some 896) (Some (Some ''aes'', [7])),
      Obj ''id_aes128_wrap_pad'' (Some ''id-aes128-wrap-pad'') None (Some 897) (Some (Some ''aes'', [8])),
      Obj ''aes_192_ecb'' (Some ''AES-192-ECB'') (Some ''aes-192-ecb'') (Some 422) (Some (Some ''aes'', [21])),
      Obj ''aes_192_cbc'' (Some ''AES-192-CBC'') (Some ''aes-192-cbc'') (Some 423) (Some (Some ''aes'', [22])),
      Obj ''aes_192_ofb128'' (Some ''AES-192-OFB'') (Some ''aes-192-ofb'') (Some 424) (Some (Some ''aes'', [23])),
      Obj ''aes_192_cfb128'' (Some ''AES-192-CFB'') (Some ''aes-192-cfb'') (Some 425) (Some (Some ''aes'', [24])),
      Obj ''id_aes192_wrap'' (Some ''id-aes192-wrap'') None (Some 789) (Some (Some ''aes'', [25])),
      Obj ''aes_192_gcm'' (Some ''id-aes192-GCM'') (Some ''aes-192-gcm'') (Some 898) (Some (Some ''aes'', [26])),
      Obj ''aes_192_ccm'' (Some ''id-aes192-CCM'') (Some ''aes-192-ccm'') (Some 899) (Some (Some ''aes'', [27])),
      Obj ''id_aes192_wrap_pad'' (Some ''id-aes192-wrap-pad'') None (Some 900) (Some (Some ''aes'', [28])),
      Obj ''aes_256_ecb'' (Some ''AES-256-ECB'') (Some ''aes-256-ecb'') (Some 426) (Some (Some ''aes'', [41])),
      Obj ''aes_256_cbc'' (Some ''AES-256-CBC'') (Some ''aes-256-cbc'') (Some 427) (Some (Some ''aes'', [42])),
      Obj ''aes_256_ofb128'' (Some ''AES-256-OFB'') (Some ''aes-256-ofb'') (Some 428) (Some (Some ''aes'', [43])),
      Obj ''aes_256_cfb128'' (Some ''AES-256-CFB'') (Some ''aes-256-cfb'') (Some 429) (Some (Some ''aes'', [44])),
      Obj ''id_aes256_wrap'' (Some ''id-aes256-wrap'') None (Some 790) (Some (Some ''aes'', [45])),
      Obj ''aes_256_gcm'' (Some ''id-aes256-GCM'') (Some ''aes-256-gcm'') (Some 901) (Some (Some ''aes'', [46])),
      Obj ''aes_256_ccm'' (Some ''id-aes256-CCM'') (Some ''aes-256-ccm'') (Some 902) (Some (Some ''aes'', [47])),
      Obj ''id_aes256_wrap_pad'' (Some ''id-aes256-wrap-pad'') None (Some 903) (Some (Some ''aes'', [48])),
      Obj ''aes_128_cfb1'' (Some ''AES-128-CFB1'') (Some ''aes-128-cfb1'') (Some 650) None,
      Obj ''aes_192_cfb1'' (Some ''AES-192-CFB1'') (Some ''aes-192-cfb1'') (Some 651) None,
      Obj ''aes_256_cfb1'' (Some ''AES-256-CFB1'') (Some ''aes-256-cfb1'') (Some 652) None,
      Obj ''aes_128_cfb8'' (Some ''AES-128-CFB8'') (Some ''aes-128-cfb8'') (Some 653) None,
      Obj ''aes_192_cfb8'' (Some ''AES-192-CFB8'') (Some ''aes-192-cfb8'') (Some 654) None,
      Obj ''aes_256_cfb8'' (Some ''AES-256-CFB8'') (Some ''aes-256-cfb8'') (Some 655) None,
      Obj ''aes_128_ctr'' (Some ''AES-128-CTR'') (Some ''aes-128-ctr'') (Some 904) None,
      Obj ''aes_192_ctr'' (Some ''AES-192-CTR'') (Some ''aes-192-ctr'') (Some 905) None,
      Obj ''aes_256_ctr'' (Some ''AES-256-CTR'') (Some ''aes-256-ctr'') (Some 906) None]"

definition obj_mac_18 :: "obj list" where
  "obj_mac_18 =
     [Obj ''aes_128_xts'' (Some ''AES-128-XTS'') (Some ''aes-128-xts'') (Some 913) None,
      Obj ''aes_256_xts'' (Some ''AES-256-XTS'') (Some ''aes-256-xts'') (Some 914) None,
      Obj ''des_cfb1'' (Some ''DES-CFB1'') (Some ''des-cfb1'') (Some 656) None,
      Obj ''des_cfb8'' (Some ''DES-CFB8'') (Some ''des-cfb8'') (Some 657) None,
      Obj ''des_ede3_cfb1'' (Some ''DES-EDE3-CFB1'') (Some ''des-ede3-cfb1'') (Some 658) None,
      Obj ''des_ede3_cfb8'' (Some ''DES-EDE3-CFB8'') (Some ''des-ede3-cfb8'') (Some 659) None,
      Obj ''nist_hashalgs'' None None None (Some (Some ''nistAlgorithms'', [2])),
      Obj ''sha256'' (Some ''SHA256'') (Some ''sha256'') (Some 672) (Some (Some ''nist_hashalgs'', [1])),
      Obj ''sha384'' (Some ''SHA384'') (Some ''sha384'') (Some 673) (Some (Some ''nist_hashalgs'', [2])),
      Obj ''sha512'' (Some ''SHA512'') (Some ''sha512'') (Some 674) (Some (Some ''nist_hashalgs'', [3])),
      Obj ''sha224'' (Some ''SHA224'') (Some ''sha224'') (Some 675) (Some (Some ''nist_hashalgs'', [4])),
      Obj ''dsa_with_sha2'' None None None (Some (Some ''nistAlgorithms'', [3])),
      Obj ''dsa_with_SHA224'' (Some ''dsa_with_SHA224'') None (Some 802) (Some (Some ''dsa_with_sha2'', [1])),
      Obj ''dsa_with_SHA256'' (Some ''dsa_with_SHA256'') None (Some 803) (Some (Some ''dsa_with_sha2'', [2])),
      Obj ''hold_instruction_code'' (Some ''holdInstructionCode'') (Some ''Hold Instruction Code'') (Some 430) (Some (Some ''id_ce'', [23])),
      Obj ''holdInstruction'' None None None (Some (Some ''X9_57'', [2])),
      Obj ''hold_instruction_none'' (Some ''holdInstructionNone'') (Some ''Hold Instruction None'') (Some 431) (Some (Some ''holdInstruction'', [1])),
      Obj ''hold_instruction_call_issuer'' (Some ''holdInstructionCallIssuer'') (Some ''Hold Instruction Call Issuer'') (Some 432) (Some (Some ''holdInstruction'', [2])),
      Obj ''hold_instruction_reject'' (Some ''holdInstructionReject'') (Some ''Hold Instruction Reject'') (Some 433) (Some (Some ''holdInstruction'', [3])),
      Obj ''data'' (Some ''data'') None (Some 434) (Some (Some ''itu_t'', [9])),
      Obj ''pss'' (Some ''pss'') None (Some 435) (Some (Some ''data'', [2342])),
      Obj ''ucl'' (Some ''ucl'') None (Some 436) (Some (Some ''pss'', [19200300])),
      Obj ''pilot'' (Some ''pilot'') None (Some 437) (Some (Some ''ucl'', [100])),
      Obj ''pilotAttributeType'' None (Some ''pilotAttributeType'') (Some 438) (Some (Some ''pilot'', [1])),
      Obj ''pilotAttributeSyntax'' None (Some ''pilotAttributeSyntax'') (Some 439) (Some (Some ''pilot'', [3])),
      Obj ''pilotObjectClass'' None (Some ''pilotObjectClass'') (Some 440) (Some (Some ''pilot'', [4])),
      Obj ''pilotGroups'' None (Some ''pilotGroups'') (Some 441) (Some (Some ''pilot'', [10])),
      Obj ''iA5StringSyntax'' None (Some ''iA5StringSyntax'') (Some 442) (Some (Some ''pilotAttributeSyntax'', [4])),
      Obj ''caseIgnoreIA5StringSyntax'' None (Some ''caseIgnoreIA5StringSyntax'') (Some 443) (Some (Some ''pilotAttributeSyntax'', [5])),
      Obj ''pilotObject'' None (Some ''pilotObject'') (Some 444) (Some (Some ''pilotObjectClass'', [3])),
      Obj ''pilotPerson'' None (Some ''pilotPerson'') (Some 445) (Some (Some ''pilotObjectClass'', [4])),
      Obj ''account'' (Some ''account'') None (Some 446) (Some (Some ''pilotObjectClass'', [5])),
      Obj ''document'' (Some ''document'') None (Some 447) (Some (Some ''pilotObjectClass'', [6])),
      Obj ''room'' (Some ''room'') None (Some 448) (Some (Some ''pilotObjectClass'', [7])),
      Obj ''documentSeries'' None (Some ''documentSeries'') (Some 449) (Some (Some ''pilotObjectClass'', [9])),
      Obj ''Domain'' (Some ''domain'') (Some ''Domain'') (Some 392) (Some (Some ''pilotObjectClass'', [13])),
      Obj ''rFC822localPart'' None (Some ''rFC822localPart'') (Some 450) (Some (Some ''pilotObjectClass'', [14]))]"

definition obj_mac_19 :: "obj list" where
  "obj_mac_19 =
     [Obj ''dNSDomain'' None (Some ''dNSDomain'') (Some 451) (Some (Some ''pilotObjectClass'', [15])),
      Obj ''domainRelatedObject'' None (Some ''domainRelatedObject'') (Some 452) (Some (Some ''pilotObjectClass'', [17])),
      Obj ''friendlyCountry'' None (Some ''friendlyCountry'') (Some 453) (Some (Some ''pilotObjectClass'', [18])),
      Obj ''simpleSecurityObject'' None (Some ''simpleSecurityObject'') (Some 454) (Some (Some ''pilotObjectClass'', [19])),
      Obj ''pilotOrganization'' None (Some ''pilotOrganization'') (Some 455) (Some (Some ''pilotObjectClass'', [20])),
      Obj ''pilotDSA'' None (Some ''pilotDSA'') (Some 456) (Some (Some ''pilotObjectClass'', [21])),
      Obj ''qualityLabelledData'' None (Some ''qualityLabelledData'') (Some 457) (Some (Some ''pilotObjectClass'', [22])),
      Obj ''userId'' (Some ''UID'') (Some ''userId'') (Some 458) (Some (Some ''pilotAttributeType'', [1])),
      Obj ''textEncodedORAddress'' None (Some ''textEncodedORAddress'') (Some 459) (Some (Some ''pilotAttributeType'', [2])),
      Obj ''rfc822Mailbox'' (Some ''mail'') (Some ''rfc822Mailbox'') (Some 460) (Some (Some ''pilotAttributeType'', [3])),
      Obj ''info'' (Some ''info'') None (Some 461) (Some (Some ''pilotAttributeType'', [4])),
      Obj ''favouriteDrink'' None (Some ''favouriteDrink'') (Some 462) (Some (Some ''pilotAttributeType'', [5])),
      Obj ''roomNumber'' None (Some ''roomNumber'') (Some 463) (Some (Some ''pilotAttributeType'', [6])),
      Obj ''photo'' (Some ''photo'') None (Some 464) (Some (Some ''pilotAttributeType'', [7])),
      Obj ''userClass'' None (Some ''userClass'') (Some 465) (Some (Some ''pilotAttributeType'', [8])),
      Obj ''host'' (Some ''host'') None (Some 466) (Some (Some ''pilotAttributeType'', [9])),
      Obj ''manager'' (Some ''manager'') None (Some 467) (Some (Some ''pilotAttributeType'', [10])),
      Obj ''documentIdentifier'' None (Some ''documentIdentifier'') (Some 468) (Some (Some ''pilotAttributeType'', [11])),
      Obj ''documentTitle'' None (Some ''documentTitle'') (Some 469) (Some (Some ''pilotAttributeType'', [12])),
      Obj ''documentVersion'' None (Some ''documentVersion'') (Some 470) (Some (Some ''pilotAttributeType'', [13])),
      Obj ''documentAuthor'' None (Some ''documentAuthor'') (Some 471) (Some (Some ''pilotAttributeType'', [14])),
      Obj ''documentLocation'' None (Some ''documentLocation'') (Some 472) (Some (Some ''pilotAttributeType'', [15])),
      Obj ''homeTelephoneNumber'' None (Some ''homeTelephoneNumber'') (Some 473) (Some (Some ''pilotAttributeType'', [20])),
      Obj ''secretary'' (Some ''secretary'') None (Some 474) (Some (Some ''pilotAttributeType'', [21])),
      Obj ''otherMailbox'' None (Some ''otherMailbox'') (Some 475) (Some (Some ''pilotAttributeType'', [22])),
      Obj ''lastModifiedTime'' None (Some ''lastModifiedTime'') (Some 476) (Some (Some ''pilotAttributeType'', [23])),
      Obj ''lastModifiedBy'' None (Some ''lastModifiedBy'') (Some 477) (Some (Some ''pilotAttributeType'', [24])),
      Obj ''domainComponent'' (Some ''DC'') (Some ''domainComponent'') (Some 391) (Some (Some ''pilotAttributeType'', [25])),
      Obj ''aRecord'' None (Some ''aRecord'') (Some 478) (Some (Some ''pilotAttributeType'', [26])),
      Obj ''pilotAttributeType27'' None (Some ''pilotAttributeType27'') (Some 479) (Some (Some ''pilotAttributeType'', [27])),
      Obj ''mXRecord'' None (Some ''mXRecord'') (Some 480) (Some (Some ''pilotAttributeType'', [28])),
      Obj ''nSRecord'' None (Some ''nSRecord'') (Some 481) (Some (Some ''pilotAttributeType'', [29])),
      Obj ''sOARecord'' None (Some ''sOARecord'') (Some 482) (Some (Some ''pilotAttributeType'', [30])),
      Obj ''cNAMERecord'' None (Some ''cNAMERecord'') (Some 483) (Some (Some ''pilotAttributeType'', [31])),
      Obj ''associatedDomain'' None (Some ''associatedDomain'') (Some 484) (Some (Some ''pilotAttributeType'', [37])),
      Obj ''associatedName'' None (Some ''associatedName'') (Some 485) (Some (Some ''pilotAttributeType'', [38])),
      Obj ''homePostalAddress'' None (Some ''homePostalAddress'') (Some 486) (Some (Some ''pilotAttributeType'', [39]))]"

definition obj_mac_20 :: "obj list" where
  "obj_mac_20 =
     [Obj ''personalTitle'' None (Some ''personalTitle'') (Some 487) (Some (Some ''pilotAttributeType'', [40])),
      Obj ''mobileTelephoneNumber'' None (Some ''mobileTelephoneNumber'') (Some 488) (Some (Some ''pilotAttributeType'', [41])),
      Obj ''pagerTelephoneNumber'' None (Some ''pagerTelephoneNumber'') (Some 489) (Some (Some ''pilotAttributeType'', [42])),
      Obj ''friendlyCountryName'' None (Some ''friendlyCountryName'') (Some 490) (Some (Some ''pilotAttributeType'', [43])),
      Obj ''organizationalStatus'' None (Some ''organizationalStatus'') (Some 491) (Some (Some ''pilotAttributeType'', [45])),
      Obj ''janetMailbox'' None (Some ''janetMailbox'') (Some 492) (Some (Some ''pilotAttributeType'', [46])),
      Obj ''mailPreferenceOption'' None (Some ''mailPreferenceOption'') (Some 493) (Some (Some ''pilotAttributeType'', [47])),
      Obj ''buildingName'' None (Some ''buildingName'') (Some 494) (Some (Some ''pilotAttributeType'', [48])),
      Obj ''dSAQuality'' None (Some ''dSAQuality'') (Some 495) (Some (Some ''pilotAttributeType'', [49])),
      Obj ''singleLevelQuality'' None (Some ''singleLevelQuality'') (Some 496) (Some (Some ''pilotAttributeType'', [50])),
      Obj ''subtreeMinimumQuality'' None (Some ''subtreeMinimumQuality'') (Some 497) (Some (Some ''pilotAttributeType'', [51])),
      Obj ''subtreeMaximumQuality'' None (Some ''subtreeMaximumQuality'') (Some 498) (Some (Some ''pilotAttributeType'', [52])),
      Obj ''personalSignature'' None (Some ''personalSignature'') (Some 499) (Some (Some ''pilotAttributeType'', [53])),
      Obj ''dITRedirect'' None (Some ''dITRedirect'') (Some 500) (Some (Some ''pilotAttributeType'', [54])),
      Obj ''audio'' (Some ''audio'') None (Some 501) (Some (Some ''pilotAttributeType'', [55])),
      Obj ''documentPublisher'' None (Some ''documentPublisher'') (Some 502) (Some (Some ''pilotAttributeType'', [56])),
      Obj ''id_set'' (Some ''id-set'') (Some ''Secure Electronic Transactions'') (Some 512) (Some (Some ''international_organizations'', [42])),
      Obj ''set_ctype'' (Some ''set-ctype'') (Some ''content types'') (Some 513) (Some (Some ''id_set'', [0])),
      Obj ''set_msgExt'' (Some ''set-msgExt'') (Some ''message extensions'') (Some 514) (Some (Some ''id_set'', [1])),
      Obj ''set_attr'' (Some ''set-attr'') None (Some 515) (Some (Some ''id_set'', [3])),
      Obj ''set_policy'' (Some ''set-policy'') None (Some 516) (Some (Some ''id_set'', [5])),
      Obj ''set_certExt'' (Some ''set-certExt'') (Some ''certificate extensions'') (Some 517) (Some (Some ''id_set'', [7])),
      Obj ''set_brand'' (Some ''set-brand'') None (Some 518) (Some (Some ''id_set'', [8])),
      Obj ''setct_PANData'' (Some ''setct-PANData'') None (Some 519) (Some (Some ''set_ctype'', [0])),
      Obj ''setct_PANToken'' (Some ''setct-PANToken'') None (Some 520) (Some (Some ''set_ctype'', [1])),
      Obj ''setct_PANOnly'' (Some ''setct-PANOnly'') None (Some 521) (Some (Some ''set_ctype'', [2])),
      Obj ''setct_OIData'' (Some ''setct-OIData'') None (Some 522) (Some (Some ''set_ctype'', [3])),
      Obj ''setct_PI'' (Some ''setct-PI'') None (Some 523) (Some (Some ''set_ctype'', [4])),
      Obj ''setct_PIData'' (Some ''setct-PIData'') None (Some 524) (Some (Some ''set_ctype'', [5])),
      Obj ''setct_PIDataUnsigned'' (Some ''setct-PIDataUnsigned'') None (Some 525) (Some (Some ''set_ctype'', [6])),
      Obj ''setct_HODInput'' (Some ''setct-HODInput'') None (Some 526) (Some (Some ''set_ctype'', [7])),
      Obj ''setct_AuthResBaggage'' (Some ''setct-AuthResBaggage'') None (Some 527) (Some (Some ''set_ctype'', [8])),
      Obj ''setct_AuthRevReqBaggage'' (Some ''setct-AuthRevReqBaggage'') None (Some 528) (Some (Some ''set_ctype'', [9])),
      Obj ''setct_AuthRevResBaggage'' (Some ''setct-AuthRevResBaggage'') None (Some 529) (Some (Some ''set_ctype'', [10])),
      Obj ''setct_CapTokenSeq'' (Some ''setct-CapTokenSeq'') None (Some 530) (Some (Some ''set_ctype'', [11])),
      Obj ''setct_PInitResData'' (Some ''setct-PInitResData'') None (Some 531) (Some (Some ''set_ctype'', [12]))]"

text \<open>The macros that each part takes from the parts above it and hands to those below.\<close>

definition obj_known_14 :: "(string \<times> int list) list" where
  "obj_known_14 =
     [(''X509'', [2, 5, 4]), (''X500'', [2, 5])]"

definition obj_exports_14 :: "(string \<times> int list) list" where
  "obj_exports_14 =
     [(''id_ce'', [2, 5, 29])]"

definition obj_known_15 :: "(string \<times> int list) list" where
  "obj_known_15 =
     [(''id_ce'', [2, 5, 29])]"

definition obj_exports_15 :: "(string \<times> int list) list" where
  "obj_exports_15 =
     [(''netscape_cert_extension'', [2, 16, 840, 1, 113730, 1]),
      (''netscape_data_type'', [2, 16, 840, 1, 113730, 2]), (''netscape'', [2, 16, 840, 1, 113730])]"

definition obj_known_16 :: "(string \<times> int list) list" where
  "obj_known_16 =
     [(''netscape_cert_extension'', [2, 16, 840, 1, 113730, 1]),
      (''netscape_data_type'', [2, 16, 840, 1, 113730, 2]),
      (''netscape'', [2, 16, 840, 1, 113730]), (''iso'', [1]),
      (''id_smime_alg'', [1, 2, 840, 113549, 1, 9, 16, 3])]"

definition obj_exports_16 :: "(string \<times> int list) list" where
  "obj_exports_16 =
     [(''aes'', [2, 16, 840, 1, 101, 3, 4, 1]), (''nistAlgorithms'', [2, 16, 840, 1, 101, 3, 4])]"

definition obj_known_17 :: "(string \<times> int list) list" where
  "obj_known_17 =
     [(''aes'', [2, 16, 840, 1, 101, 3, 4, 1])]"

definition obj_exports_17 :: "(string \<times> int list) list" where
  "obj_exports_17 =
     []"

definition obj_known_18 :: "(string \<times> int list) list" where
  "obj_known_18 =
     [(''nistAlgorithms'', [2, 16, 840, 1, 101, 3, 4]), (''id_ce'', [2, 5, 29]),
      (''X9_57'', [1, 2, 840, 10040]), (''itu_t'', [0])]"

definition obj_exports_18 :: "(string \<times> int list) list" where
  "obj_exports_18 =
     [(''pilotObjectClass'', [0, 9, 2342, 19200300, 100, 4]),
      (''pilotAttributeType'', [0, 9, 2342, 19200300, 100, 1])]"

definition obj_known_19 :: "(string \<times> int list) list" where
  "obj_known_19 =
     [(''pilotObjectClass'', [0, 9, 2342, 19200300, 100, 4]),
      (''pilotAttributeType'', [0, 9, 2342, 19200300, 100, 1])]"

definition obj_exports_19 :: "(string \<times> int list) list" where
  "obj_exports_19 =
     []"

definition obj_known_20 :: "(string \<times> int list) list" where
  "obj_known_20 =
     [(''pilotAttributeType'', [0, 9, 2342, 19200300, 100, 1]),
      (''international_organizations'', [2, 23])]"

definition obj_exports_20 :: "(string \<times> int list) list" where
  "obj_exports_20 =
     [(''set_ctype'', [2, 23, 42, 0]), (''set_msgExt'', [2, 23, 42, 1]),
      (''set_policy'', [2, 23, 42, 5]), (''set_certExt'', [2, 23, 42, 7]),
      (''set_attr'', [2, 23, 42, 3]), (''set_brand'', [2, 23, 42, 8])]"

section \<open>Checks\<close>

lemma part_ok_14: "part_ok obj_known_14 obj_mac_14 obj_exports_14"
  by code_simp

lemma part_ok_15: "part_ok obj_known_15 obj_mac_15 obj_exports_15"
  by code_simp

lemma part_ok_16: "part_ok obj_known_16 obj_mac_16 obj_exports_16"
  by code_simp

lemma part_ok_17: "part_ok obj_known_17 obj_mac_17 obj_exports_17"
  by code_simp

lemma part_ok_18: "part_ok obj_known_18 obj_mac_18 obj_exports_18"
  by code_simp

lemma part_ok_19: "part_ok obj_known_19 obj_mac_19 obj_exports_19"
  by code_simp

lemma part_ok_20: "part_ok obj_known_20 obj_mac_20 obj_exports_20"
  by code_simp

lemma nids_14: "keys_of o_nid obj_mac_14 =
     [871, 872, 873, 874, 875, 876, 877, 878, 879, 880, 881, 882, 883, 884, 173, 99, 101, 509, 503, 174,
      885, 886, 887, 888, 889, 890, 891, 892, 510, 400, 378, 19, 96, 95, 81]"
  by (simp only: obj_mac_14_def column_simps keys_of_simps(1))

lemma sns_14: "map (fingerprint 0) (keys_of o_sn obj_mac_14) =
     [62236, 33699, 13836, 7605, 2279, 34419, 984, 49300, 8188, 547, 15438, 12803, 51312, 2190]"
  by (simp only: obj_mac_14_def column_simps keys_of_simps(1)) code_simp

lemma lns_14: "map (fingerprint 0) (keys_of o_ln obj_mac_14) =
     [58027, 31448, 51462, 10057, 58637, 29270, 28894, 21355, 45551, 7505, 50761, 7605, 27558, 34419,
      53262, 8079, 984, 65406, 27144, 7385, 56581, 15175, 12556, 54970, 59296, 8188, 55434, 47214,
      20764, 46338]"
  by (simp only: obj_mac_14_def column_simps keys_of_simps(1)) code_simp

lemma nids_15: "keys_of o_nid obj_mac_15 =
     [769, 82, 83, 84, 85, 86, 87, 88, 141, 142, 140, 770, 771, 666, 103, 89, 746, 747, 90, 401, 126,
      857, 748, 402, 403, 910, 57, 58, 59, 71]"
  by (simp only: obj_mac_15_def column_simps keys_of_simps(1))

lemma sns_15: "map (fingerprint 0) (keys_of o_sn obj_mac_15) =
     [40774, 41944, 14154, 3860, 19728, 3489, 44110, 33452, 3869, 55947, 26081, 55090, 19298, 9183,
      24904, 25727, 22418, 16721, 37375, 31604, 48199, 35663, 18399, 22875, 16469, 62997, 24965,
      30322, 25213, 1743]"
  by (simp only: obj_mac_15_def column_simps keys_of_simps(1)) code_simp

lemma lns_15: "map (fingerprint 0) (keys_of o_ln obj_mac_15) =
     [22311, 64451, 55679, 35507, 60201, 29584, 6255, 12855, 39045, 38543, 45173, 3419, 17625, 62900,
      16053, 2022, 6875, 47520, 25614, 4809, 42366, 2940, 13104, 46856, 55699, 61945, 53170, 63565,
      19445, 17897]"
  by (simp only: obj_mac_15_def column_simps keys_of_simps(1)) code_simp

lemma nids_16: "keys_of o_nid obj_mac_16 =
     [72, 73, 74, 75, 76, 77, 78, 79, 139, 379, 380, 381, 382, 383, 384, 385, 386, 387, 388, 389, 390,
      504, 505, 506, 507, 508, 124, 125]"
  by (simp only: obj_mac_16_def column_simps keys_of_simps(1))

lemma sns_16: "map (fingerprint 0) (keys_of o_sn obj_mac_16) =
     [16223, 4484, 63644, 20832, 43614, 63009, 27602, 64000, 20122, 12530, 1863, 61625, 46513, 49597,
      58574, 65457, 9380, 43290, 30244, 9832, 20903, 23301, 45676, 7973, 20696, 15225, 50473]"
  by (simp only: obj_mac_16_def column_simps keys_of_simps(1)) code_simp

lemma lns_16: "map (fingerprint 0) (keys_of o_ln obj_mac_16) =
     [60213, 50728, 5882, 16946, 53866, 17843, 45982, 20315, 3692, 44306, 33639, 56683, 5193, 54755,
      31754, 14247, 5918, 40408, 14415, 54928, 50762, 338, 23301, 45676, 7973, 20696, 46083, 52723]"
  by (simp only: obj_mac_16_def column_simps keys_of_simps(1)) code_simp

lemma nids_17: "keys_of o_nid obj_mac_17 =
     [418, 419, 420, 421, 788, 895, 896, 897, 422, 423, 424, 425, 789, 898, 899, 900, 426, 427, 428,
      429, 790, 901, 902, 903, 650, 651, 652, 653, 654, 655, 904, 905, 906]"
  by (simp only: obj_mac_17_def column_simps keys_of_simps(1))

lemma sns_17: "map (fingerprint 0) (keys_of o_sn obj_mac_17) =
     [3126, 1174, 12829, 1297, 55093, 7396, 3552, 51987, 28153, 26201, 37856, 26324, 38906, 32423,
      28579, 8546, 63780, 61828, 7481, 61951, 21309, 2048, 64206, 19955, 40256, 24069, 6472, 40263,
      24076, 6479, 1747, 26774, 62401]"
  by (simp only: obj_mac_17_def column_simps keys_of_simps(1)) code_simp

lemma lns_17: "map (fingerprint 0) (keys_of o_ln obj_mac_17) =
     [12418, 10466, 22121, 10589, 14351, 10507, 37445, 35493, 47148, 35616, 39378, 35534, 7070, 5118,
      16773, 5241, 9003, 5159, 64300, 48113, 30516, 64307, 48120, 30523, 11039, 36066, 5691]"
  by (simp only: obj_mac_17_def column_simps keys_of_simps(1)) code_simp

lemma nids_18: "keys_of o_nid obj_mac_18 =
     [913, 914, 656, 657, 658, 659, 672, 673, 674, 675, 802, 803, 430, 431, 432, 433, 434, 435, 436,
      437, 438, 439, 440, 441, 442, 443, 444, 445, 446, 447, 448, 449, 392, 450]"
  by (simp only: obj_mac_18_def column_simps keys_of_simps(1))

lemma sns_18: "map (fingerprint 0) (keys_of o_sn obj_mac_18) =
     [21929, 16581, 36977, 36984, 32759, 32766, 51129, 52181, 53884, 51034, 58644, 58739, 6074, 4075,
      11112, 46186, 39918, 45310, 49612, 10520, 30947, 41963, 8289, 65774]"
  by (simp only: obj_mac_18_def column_simps keys_of_simps(1)) code_simp

lemma lns_18: "map (fingerprint 0) (keys_of o_ln obj_mac_18) =
     [31221, 25873, 45745, 45752, 33305, 33312, 23259, 24311, 26014, 23164, 2550, 551, 53274, 25724,
      17216, 17753, 12681, 26330, 47455, 53723, 7981, 44885, 31484, 40702, 21593]"
  by (simp only: obj_mac_18_def column_simps keys_of_simps(1)) code_simp

lemma nids_19: "keys_of o_nid obj_mac_19 =
     [451, 452, 453, 454, 455, 456, 457, 458, 459, 460, 461, 462, 463, 464, 465, 466, 467, 468, 469,
      470, 471, 472, 473, 474, 475, 476, 477, 391, 478, 479, 480, 481, 482, 483, 484, 485, 486]"
  by (simp only: obj_mac_19_def column_simps keys_of_simps(1))

lemma sns_19: "map (fingerprint 0) (keys_of o_sn obj_mac_19) =
     [18014, 43699, 2940, 49764, 40520, 49461, 59850, 2175]"
  by (simp only: obj_mac_19_def column_simps keys_of_simps(1)) code_simp

lemma lns_19: "map (fingerprint 0) (keys_of o_ln obj_mac_19) =
     [45021, 35760, 39481, 14887, 23279, 25808, 64874, 35578, 24040, 21217, 2259, 51112, 52339, 6808,
      57811, 14069, 35198, 52738, 24998, 13150, 10506, 25976, 46015, 65976, 45681, 42740, 47222,
      37740, 63399, 56384, 39463, 23192]"
  by (simp only: obj_mac_19_def column_simps keys_of_simps(1)) code_simp

lemma nids_20: "keys_of o_nid obj_mac_20 =
     [487, 488, 489, 490, 491, 492, 493, 494, 495, 496, 497, 498, 499, 500, 501, 502, 512, 513, 514,
      515, 516, 517, 518, 519, 520, 521, 522, 523, 524, 525, 526, 527, 528, 529, 530, 531]"
  by (simp only: obj_mac_20_def column_simps keys_of_simps(1))

lemma sns_20: "map (fingerprint 0) (keys_of o_sn obj_mac_20) =
     [37728, 17380, 13676, 20447, 8834, 26225, 9780, 63478, 41971, 51598, 51931, 56518, 16083, 40801,
      29542, 17519, 7502, 34875, 55717, 54880, 46692]"
  by (simp only: obj_mac_20_def column_simps keys_of_simps(1)) code_simp

lemma lns_20: "map (fingerprint 0) (keys_of o_ln obj_mac_20) =
     [39812, 47921, 12280, 26062, 17146, 20622, 9765, 64173, 29267, 1155, 45835, 36117, 60962, 55577,
      36435, 8166, 808, 49771, 5391]"
  by (simp only: obj_mac_20_def column_simps keys_of_simps(1)) code_simp

end
