(* ===== verification/ObjMac4.thy ===== *)
theory ObjMac4
  imports ObjectIds
begin

text \<open>
  Objects of \<open>openssl/obj_mac.h\<close>, lines 3198 to 4194, in the order of the header, each part with
  its columns and with the check that its \<open>OBJ_\<close> macros expand.
\<close>

section \<open>Tables\<close>

definition obj_mac_21 :: "obj list" where
  "obj_mac_21 =
     [Obj ''setct_PI_TBS'' (Some ''setct-PI-TBS'') None (Some 532) (Some (Some ''set_ctype'', [13])),
      Obj ''setct_PResData'' (Some ''setct-PResData'') None (Some 533) (Some (Some ''set_ctype'', [14])),
      Obj ''setct_AuthReqTBS'' (Some ''setct-AuthReqTBS'') None (Some 534) (Some (Some ''set_ctype'', [16])),
      Obj ''setct_AuthResTBS'' (Some ''setct-AuthResTBS'') None (Some 535) (Some (Some ''set_ctype'', [17])),
      Obj ''setct_AuthResTBSX'' (Some ''setct-AuthResTBSX'') None (Some 536) (Some (Some ''set_ctype'', [18])),
      Obj ''setct_AuthTokenTBS'' (Some ''setct-AuthTokenTBS'') None (Some 537) (Some (Some ''set_ctype'', [19])),
      Obj ''setct_CapTokenData'' (Some ''setct-CapTokenData'') None (Some 538) (Some (Some ''set_ctype'', [20])),
      Obj ''setct_CapTokenTBS'' (Some ''setct-CapTokenTBS'') None (Some 539) (Some (Some ''set_ctype'', [21])),
      Obj ''setct_AcqCardCodeMsg'' (Some ''setct-AcqCardCodeMsg'') None (Some 540) (Some (Some ''set_ctype'', [22])),
      Obj ''setct_AuthRevReqTBS'' (Some ''setct-AuthRevReqTBS'') None (Some 541) (Some (Some ''set_ctype'', [23])),
      Obj ''setct_AuthRevResData'' (Some ''setct-AuthRevResData'') None (Some 542) (Some (Some ''set_ctype'', [24])),
      Obj ''setct_AuthRevResTBS'' (Some ''setct-AuthRevResTBS'') None (Some 543) (Some (Some ''set_ctype'', [25])),
      Obj ''setct_CapReqTBS'' (Some ''setct-CapReqTBS'') None (Some 544) (Some (Some ''set_ctype'', [26])),
      Obj ''setct_CapReqTBSX'' (Some ''setct-CapReqTBSX'') None (Some 545) (Some (Some ''set_ctype'', [27])),
      Obj ''setct_CapResData'' (Some ''setct-CapResData'') None (Some 546) (Some (Some ''set_ctype'', [28])),
      Obj ''setct_CapRevReqTBS'' (Some ''setct-CapRevReqTBS'') None (Some 547) (Some (Some ''set_ctype'', [29])),
      Obj ''setct_CapRevReqTBSX'' (Some ''setct-CapRevReqTBSX'') None (Some 548) (Some (Some ''set_ctype'', [30])),
      Obj ''setct_CapRevResData'' (Some ''setct-CapRevResData'') None (Some 549) (Some (Some ''set_ctype'', [31])),
      Obj ''setct_CredReqTBS'' (Some ''setct-CredReqTBS'') None (Some 550) (Some (Some ''set_ctype'', [32])),
      Obj ''setct_CredReqTBSX'' (Some ''setct-CredReqTBSX'') None (Some 551) (Some (Some ''set_ctype'', [33])),
      Obj ''setct_CredResData'' (Some ''setct-CredResData'') None (Some 552) (Some (Some ''set_ctype'', [34])),
      Obj ''setct_CredRevReqTBS'' (Some ''setct-CredRevReqTBS'') None (Some 553) (Some (Some ''set_ctype'', [35])),
      Obj ''setct_CredRevReqTBSX'' (Some ''setct-CredRevReqTBSX'') None (Some 554) (Some (Some ''set_ctype'', [36])),
      Obj ''setct_CredRevResData'' (Some ''setct-CredRevResData'') None (Some 555) (Some (Some ''set_ctype'', [37])),
      Obj ''setct_PCertReqData'' (Some ''setct-PCertReqData'') None (Some 556) (Some (Some ''set_ctype'', [38])),
      Obj ''setct_PCertResTBS'' (Some ''setct-PCertResTBS'') None (Some 557) (Some (Some ''set_ctype'', [39])),
      Obj ''setct_BatchAdminReqData'' (Some ''setct-BatchAdminReqData'') None (Some 558) (Some (Some ''set_ctype'', [40])),
      Obj ''setct_BatchAdminResData'' (Some ''setct-BatchAdminResData'') None (Some 559) (Some (Some ''set_ctype'', [41])),
      Obj ''setct_CardCInitResTBS'' (Some ''setct-CardCInitResTBS'') None (Some 560) (Some (Some ''set_ctype'', [42])),
      Obj ''setct_MeAqCInitResTBS'' (Some ''setct-MeAqCInitResTBS'') None (Some 561) (Some (Some ''set_ctype'', [43])),
      Obj ''setct_RegFormResTBS'' (Some ''setct-RegFormResTBS'') None (Some 562) (Some (Some ''set_ctype'', [44])),
      Obj ''setct_CertReqData'' (Some ''setct-CertReqData'') None (Some 563) (Some (Some ''set_ctype'', [45])),
      Obj ''setct_CertReqTBS'' (Some ''setct-CertReqTBS'') None (Some 564) (Some (Some ''set_ctype'', [46])),
      Obj ''setct_CertResData'' (Some ''setct-CertResData'') None (Some 565) (Some (Some ''set_ctype'', [47])),
      Obj ''setct_CertInqReqTBS'' (Some ''setct-CertInqReqTBS'') None (Some 566) (Some (Some ''set_ctype'', [48])),
      Obj ''setct_ErrorTBS'' (Some ''setct-ErrorTBS'') None (Some 567) (Some (Some ''set_ctype'', [49])),
      Obj ''setct_PIDualSignedTBE'' (Some ''setct-PIDualSignedTBE'') None (Some 568) (Some (Some ''set_ctype'', [50]))]"

definition obj_mac_22 :: "obj list" where
  "obj_mac_22 =
     [Obj ''setct_PIUnsignedTBE'' (Some ''setct-PIUnsignedTBE'') None (Some 569) (Some (Some ''set_ctype'', [51])),
      Obj ''setct_AuthReqTBE'' (Some ''setct-AuthReqTBE'') None (Some 570) (Some (Some ''set_ctype'', [52])),
      Obj ''setct_AuthResTBE'' (Some ''setct-AuthResTBE'') None (Some 571) (Some (Some ''set_ctype'', [53])),
      Obj ''setct_AuthResTBEX'' (Some ''setct-AuthResTBEX'') None (Some 572) (Some (Some ''set_ctype'', [54])),
      Obj ''setct_AuthTokenTBE'' (Some ''setct-AuthTokenTBE'') None (Some 573) (Some (Some ''set_ctype'', [55])),
      Obj ''setct_CapTokenTBE'' (Some ''setct-CapTokenTBE'') None (Some 574) (Some (Some ''set_ctype'', [56])),
      Obj ''setct_CapTokenTBEX'' (Some ''setct-CapTokenTBEX'') None (Some 575) (Some (Some ''set_ctype'', [57])),
      Obj ''setct_AcqCardCodeMsgTBE'' (Some ''setct-AcqCardCodeMsgTBE'') None (Some 576) (Some (Some ''set_ctype'', [58])),
      Obj ''setct_AuthRevReqTBE'' (Some ''setct-AuthRevReqTBE'') None (Some 577) (Some (Some ''set_ctype'', [59])),
      Obj ''setct_AuthRevResTBE'' (Some ''setct-AuthRevResTBE'') None (Some 578) (Some (Some ''set_ctype'', [60])),
      Obj ''setct_AuthRevResTBEB'' (Some ''setct-AuthRevResTBEB'') None (Some 579) (Some (Some ''set_ctype'', [61])),
      Obj ''setct_CapReqTBE'' (Some ''setct-CapReqTBE'') None (Some 580) (Some (Some ''set_ctype'', [62])),
      Obj ''setct_CapReqTBEX'' (Some ''setct-CapReqTBEX'') None (Some 581) (Some (Some ''set_ctype'', [63])),
      Obj ''setct_CapResTBE'' (Some ''setct-CapResTBE'') None (Some 582) (Some (Some ''set_ctype'', [64])),
      Obj ''setct_CapRevReqTBE'' (Some ''setct-CapRevReqTBE'') None (Some 583) (Some (Some ''set_ctype'', [65])),
      Obj ''setct_CapRevReqTBEX'' (Some ''setct-CapRevReqTBEX'') None (Some 584) (Some (Some ''set_ctype'', [66])),
      Obj ''setct_CapRevResTBE'' (Some ''setct-CapRevResTBE'') None (Some 585) (Some (Some ''set_ctype'', [67])),
      Obj ''setct_CredReqTBE'' (Some ''setct-CredReqTBE'') None (Some 586) (Some (Some ''set_ctype'', [68])),
      Obj ''setct_CredReqTBEX'' (Some ''setct-CredReqTBEX'') None (Some 587) (Some (Some ''set_ctype'', [69])),
      Obj ''setct_CredResTBE'' (Some ''setct-CredResTBE'') None (Some 588) (Some (Some ''set_ctype'', [70])),
      Obj ''setct_CredRevReqTBE'' (Some ''setct-CredRevReqTBE'') None (Some 589) (Some (Some ''set_ctype'', [71])),
      Obj ''setct_CredRevReqTBEX'' (Some ''setct-CredRevReqTBEX'') None (Some 590) (Some (Some ''set_ctype'', [72])),
      Obj ''setct_CredRevResTBE'' (Some ''setct-CredRevResTBE'') None (Some 591) (Some (Some ''set_ctype'', [73])),
      Obj ''setct_BatchAdminReqTBE'' (Some ''setct-BatchAdminReqTBE'') None (Some 592) (Some (Some ''set_ctype'', [74])),
      Obj ''setct_BatchAdminResTBE'' (Some ''setct-BatchAdminResTBE'') None (Some 593) (Some (Some ''set_ctype'', [75])),
      Obj ''setct_RegFormReqTBE'' (Some ''setct-RegFormReqTBE'') None (Some 594) (Some (Some ''set_ctype'', [76])),
      Obj ''setct_CertReqTBE'' (Some ''setct-CertReqTBE'') None (Some 595) (Some (Some ''set_ctype'', [77])),
      Obj ''setct_CertReqTBEX'' (Some ''setct-CertReqTBEX'') None (Some 596) (Some (Some ''set_ctype'', [78])),
      Obj ''setct_CertResTBE'' (Some ''setct-CertResTBE'') None (Some 597) (Some (Some ''set_ctype'', [79])),
      Obj ''setct_CRLNotificationTBS'' (Some ''setct-CRLNotificationTBS'') None (Some 598) (Some (Some ''set_ctype'', [80])),
      Obj ''setct_CRLNotificationResTBS'' (Some ''setct-CRLNotificationResTBS'') None (Some 599) (Some (Some ''set_ctype'', [81])),
      Obj ''setct_BCIDistributionTBS'' (Some ''setct-BCIDistributionTBS'') None (Some 600) (Some (Some ''set_ctype'', [82])),
      Obj ''setext_genCrypt'' (Some ''setext-genCrypt'') (Some ''generic cryptogram'') (Some 601) (Some (Some ''set_msgExt'', [1])),
      Obj ''setext_miAuth'' (Some ''setext-miAuth'') (Some ''merchant initiated auth'') (Some 602) (Some (Some ''set_msgExt'', [3])),
      Obj ''setext_pinSecure'' (Some ''setext-pinSecure'') None (Some 603) (Some (Some ''set_msgExt'', [4])),
      Obj ''setext_pinAny'' (Some ''setext-pinAny'') None (Some 604) (Some (Some ''set_msgExt'', [5])),
      Obj ''setext_track2'' (Some ''setext-track2'') None (Some 605) (Some (Some ''set_msgExt'', [7]))]"

definition obj_mac_23 :: "obj list" where
  "obj_mac_23 =
     [Obj ''setext_cv'' (Some ''setext-cv'') (Some ''additional verification'') (Some 606) (Some (Some ''set_msgExt'', [8])),
      Obj ''set_policy_root'' (Some ''set-policy-root'') None (Some 607) (Some (Some ''set_policy'', [0])),
      Obj ''setCext_hashedRoot'' (Some ''setCext-hashedRoot'') None (Some 608) (Some (Some ''set_certExt'', [0])),
      Obj ''setCext_certType'' (Some ''setCext-certType'') None (Some 609) (Some (Some ''set_certExt'', [1])),
      Obj ''setCext_merchData'' (Some ''setCext-merchData'') None (Some 610) (Some (Some ''set_certExt'', [2])),
      Obj ''setCext_cCertRequired'' (Some ''setCext-cCertRequired'') None (Some 611) (Some (Some ''set_certExt'', [3])),
      Obj ''setCext_tunneling'' (Some ''setCext-tunneling'') None (Some 612) (Some (Some ''set_certExt'', [4])),
      Obj ''setCext_setExt'' (Some ''setCext-setExt'') None (Some 613) (Some (Some ''set_certExt'', [5])),
      Obj ''setCext_setQualf'' (Some ''setCext-setQualf'') None (Some 614) (Some (Some ''set_certExt'', [6])),
      Obj ''setCext_PGWYcapabilities'' (Some ''setCext-PGWYcapabilities'') None (Some 615) (Some (Some ''set_certExt'', [7])),
      Obj ''setCext_TokenIdentifier'' (Some ''setCext-TokenIdentifier'') None (Some 616) (Some (Some ''set_certExt'', [8])),
      Obj ''setCext_Track2Data'' (Some ''setCext-Track2Data'') None (Some 617) (Some (Some ''set_certExt'', [9])),
      Obj ''setCext_TokenType'' (Some ''setCext-TokenType'') None (Some 618) (Some (Some ''set_certExt'', [10])),
      Obj ''setCext_IssuerCapabilities'' (Some ''setCext-IssuerCapabilities'') None (Some 619) (Some (Some ''set_certExt'', [11])),
      Obj ''setAttr_Cert'' (Some ''setAttr-Cert'') None (Some 620) (Some (Some ''set_attr'', [0])),
      Obj ''setAttr_PGWYcap'' (Some ''setAttr-PGWYcap'') (Some ''payment gateway capabilities'') (Some 621) (Some (Some ''set_attr'', [1])),
      Obj ''setAttr_TokenType'' (Some ''setAttr-TokenType'') None (Some 622) (Some (Some ''set_attr'', [2])),
      Obj ''setAttr_IssCap'' (Some ''setAttr-IssCap'') (Some ''issuer capabilities'') (Some 623) (Some (Some ''set_attr'', [3])),
      Obj ''set_rootKeyThumb'' (Some ''set-rootKeyThumb'') None (Some 624) (Some (Some ''setAttr_Cert'', [0])),
      Obj ''set_addPolicy'' (Some ''set-addPolicy'') None (Some 625) (Some (Some ''setAttr_Cert'', [1])),
      Obj ''setAttr_Token_EMV'' (Some ''setAttr-Token-EMV'') None (Some 626) (Some (Some ''setAttr_TokenType'', [1])),
      Obj ''setAttr_Token_B0Prime'' (Some ''setAttr-Token-B0Prime'') None (Some 627) (Some (Some ''setAttr_TokenType'', [2])),
      Obj ''setAttr_IssCap_CVM'' (Some ''setAttr-IssCap-CVM'') None (Some 628) (Some (Some ''setAttr_IssCap'', [3])),
      Obj ''setAttr_IssCap_T2'' (Some ''setAttr-IssCap-T2'') None (Some 629) (Some (Some ''setAttr_IssCap'', [4])),
      Obj ''setAttr_IssCap_Sig'' (Some ''setAttr-IssCap-Sig'') None (Some 630) (Some (Some ''setAttr_IssCap'', [5])),
      Obj ''setAttr_GenCryptgrm'' (Some ''setAttr-GenCryptgrm'') (Some ''generate cryptogram'') (Some 631) (Some (Some ''setAttr_IssCap_CVM'', [1])),
      Obj ''setAttr_T2Enc'' (Some ''setAttr-T2Enc'') (Some ''encrypted track 2'') (Some 632) (Some (Some ''setAttr_IssCap_T2'', [1])),
      Obj ''setAttr_T2cleartxt'' (Some ''setAttr-T2cleartxt'') (Some ''cleartext track 2'') (Some 633) (Some (Some ''setAttr_IssCap_T2'', [2])),
      Obj ''setAttr_TokICCsig'' (Some ''setAttr-TokICCsig'') (Some ''ICC or token signature'') (Some 634) (Some (Some ''setAttr_IssCap_Sig'', [1])),
      Obj ''setAttr_SecDevSig'' (Some ''setAttr-SecDevSig'') (Some ''secure device signature'') (Some 635) (Some (Some ''setAttr_IssCap_Sig'', [2])),
      Obj ''set_brand_IATA_ATA'' (Some ''set-brand-IATA-ATA'') None (Some 636) (Some (Some ''set_brand'', [1])),
      Obj ''set_brand_Diners'' (Some ''set-brand-Diners'') None (Some 637) (Some (Some ''set_brand'', [30])),
      Obj ''set_brand_AmericanExpress'' (Some ''set-brand-AmericanExpress'') None (Some 638) (Some (Some ''set_brand'', [34])),
      Obj ''set_brand_JCB'' (Some ''set-brand-JCB'') None (Some 639) (Some (Some ''set_brand'', [35])),
      Obj ''set_brand_Visa'' (Some ''set-brand-Visa'') None (Some 640) (Some (Some ''set_brand'', [4]))]"

definition obj_mac_24 :: "obj list" where
  "obj_mac_24 =
     [Obj ''set_brand_MasterCard'' (Some ''set-brand-MasterCard'') None (Some 641) (Some (Some ''set_brand'', [5])),
      Obj ''set_brand_Novus'' (Some ''set-brand-Novus'') None (Some 642) (Some (Some ''set_brand'', [6011])),
      Obj ''des_cdmf'' (Some ''DES-CDMF'') (Some ''des-cdmf'') (Some 643) (Some (Some ''rsadsi'', [3, 10])),
      Obj ''rsaOAEPEncryptionSET'' (Some ''rsaOAEPEncryptionSET'') None (Some 644) (Some (Some ''rsadsi'', [1, 1, 6])),
      Obj ''ipsec3'' (Some ''Oakley-EC2N-3'') (Some ''ipsec3'') (Some 749) None,
      Obj ''ipsec4'' (Some ''Oakley-EC2N-4'') (Some ''ipsec4'') (Some 750) None,
      Obj ''whirlpool'' (Some ''whirlpool'') None (Some 804) (Some (Some ''iso'', [0, 10118, 3, 0, 55])),
      Obj ''cryptopro'' (Some ''cryptopro'') None (Some 805) (Some (Some ''member_body'', [643, 2, 2])),
      Obj ''cryptocom'' (Some ''cryptocom'') None (Some 806) (Some (Some ''member_body'', [643, 2, 9])),
      Obj ''id_GostR3411_94_with_GostR3410_2001'' (Some ''id-GostR3411-94-with-GostR3410-2001'') (Some ''GOST R 34.11-94 with GOST R 34.10-2001'') (Some 807) (Some (Some ''cryptopro'', [3])),
      Obj ''id_GostR3411_94_with_GostR3410_94'' (Some ''id-GostR3411-94-with-GostR3410-94'') (Some ''GOST R 34.11-94 with GOST R 34.10-94'') (Some 808) (Some (Some ''cryptopro'', [4])),
      Obj ''id_GostR3411_94'' (Some ''md_gost94'') (Some ''GOST R 34.11-94'') (Some 809) (Some (Some ''cryptopro'', [9])),
      Obj ''id_HMACGostR3411_94'' (Some ''id-HMACGostR3411-94'') (Some ''HMAC GOST 34.11-94'') (Some 810) (Some (Some ''cryptopro'', [10])),
      Obj ''id_GostR3410_2001'' (Some ''gost2001'') (Some ''GOST R 34.10-2001'') (Some 811) (Some (Some ''cryptopro'', [19])),
      Obj ''id_GostR3410_94'' (Some ''gost94'') (Some ''GOST R 34.10-94'') (Some 812) (Some (Some ''cryptopro'', [20])),
      Obj ''id_Gost28147_89'' (Some ''gost89'') (Some ''GOST 28147-89'') (Some 813) (Some (Some ''cryptopro'', [21])),
      Obj ''gost89_cnt'' (Some ''gost89-cnt'') None (Some 814) None,
      Obj ''id_Gost28147_89_MAC'' (Some ''gost-mac'') (Some ''GOST 28147-89 MAC'') (Some 815) (Some (Some ''cryptopro'', [22])),
      Obj ''id_GostR3411_94_prf'' (Some ''prf-gostr3411-94'') (Some ''GOST R 34.11-94 PRF'') (Some 816) (Some (Some ''cryptopro'', [23])),
      Obj ''id_GostR3410_2001DH'' (Some ''id-GostR3410-2001DH'') (Some ''GOST R 34.10-2001 DH'') (Some 817) (Some (Some ''cryptopro'', [98])),
      Obj ''id_GostR3410_94DH'' (Some ''id-GostR3410-94DH'') (Some ''GOST R 34.10-94 DH'') (Some 818) (Some (Some ''cryptopro'', [99])),
      Obj ''id_Gost28147_89_CryptoPro_KeyMeshing'' (Some ''id-Gost28147-89-CryptoPro-KeyMeshing'') None (Some 819) (Some (Some ''cryptopro'', [14, 1])),
      Obj ''id_Gost28147_89_None_KeyMeshing'' (Some ''id-Gost28147-89-None-KeyMeshing'') None (Some 820) (Some (Some ''cryptopro'', [14, 0])),
      Obj ''id_GostR3411_94_TestParamSet'' (Some ''id-GostR3411-94-TestParamSet'') None (Some 821) (Some (Some ''cryptopro'', [30, 0])),
      Obj ''id_GostR3411_94_CryptoProParamSet'' (Some ''id-GostR3411-94-CryptoProParamSet'') None (Some 822) (Some (Some ''cryptopro'', [30, 1])),
      Obj ''id_Gost28147_89_TestParamSet'' (Some ''id-Gost28147-89-TestParamSet'') None (Some 823) (Some (Some ''cryptopro'', [31, 0])),
      Obj ''id_Gost28147_89_CryptoPro_A_ParamSet'' (Some ''id-Gost28147-89-CryptoPro-A-ParamSet'') None (Some 824) (Some (Some ''cryptopro'', [31, 1])),
      Obj ''id_Gost28147_89_CryptoPro_B_ParamSet'' (Some ''id-Gost28147-89-CryptoPro-B-ParamSet'') None (Some 825) (Some (Some ''cryptopro'', [31, 2])),
      Obj ''id_Gost28147_89_CryptoPro_C_ParamSet'' (Some ''id-Gost28147-89-CryptoPro-C-ParamSet'') None (Some 826) (Some (Some ''cryptopro'', [31, 3])),
      Obj ''id_Gost28147_89_CryptoPro_D_ParamSet'' (Some ''id-Gost28147-89-CryptoPro-D-ParamSet'') None (Some 827) (Some (Some ''cryptopro'', [31, 4])),
      Obj ''id_Gost28147_89_CryptoPro_Oscar_1_1_ParamSet'' (Some ''id-Gost28147-89-CryptoPro-Oscar-1-1-ParamSet'') None (Some 828) (Some (Some ''cryptopro'', [31, 5])),
      Obj ''id_Gost28147_89_CryptoPro_Oscar_1_0_ParamSet'' (Some ''id-Gost28147-89-CryptoPro-Oscar-1-0-ParamSet'') None (Some 829) (Some (Some ''cryptopro'', [31, 6])),
      Obj ''id_Gost28147_89_CryptoPro_RIC_1_ParamSet'' (Some ''id-Gost28147-89-CryptoPro-RIC-1-ParamSet'') None (Some 830) (Some (Some ''cryptopro'', [31, 7])),
      Obj ''id_GostR3410_94_TestParamSet'' (Some ''id-GostR3410-94-TestParamSet'') None (Some 831) (Some (Some ''cryptopro'', [32, 0])),
      Obj ''id_GostR3410_94_CryptoPro_A_ParamSet'' (Some ''id-GostR3410-94-CryptoPro-A-ParamSet'') None (Some 832) (Some (Some ''cryptopro'', [32, 2]))]"

definition obj_mac_25 :: "obj list" where
  "obj_mac_25 =
     [Obj ''id_GostR3410_94_CryptoPro_B_ParamSet'' (Some ''id-GostR3410-94-CryptoPro-B-ParamSet'') None (Some 833) (Some (Some ''cryptopro'', [32, 3])),
      Obj ''id_GostR3410_94_CryptoPro_C_ParamSet'' (Some ''id-GostR3410-94-CryptoPro-C-ParamSet'') None (Some 834) (Some (Some ''cryptopro'', [32, 4])),
      Obj ''id_GostR3410_94_CryptoPro_D_ParamSet'' (Some ''id-GostR3410-94-CryptoPro-D-ParamSet'') None (Some 835) (Some (Some ''cryptopro'', [32, 5])),
      Obj ''id_GostR3410_94_CryptoPro_XchA_ParamSet'' (Some ''id-GostR3410-94-CryptoPro-XchA-ParamSet'') None (Some 836) (Some (Some ''cryptopro'', [33, 1])),
      Obj ''id_GostR3410_94_CryptoPro_XchB_ParamSet'' (Some ''id-GostR3410-94-CryptoPro-XchB-ParamSet'') None (Some 837) (Some (Some ''cryptopro'', [33, 2])),
      Obj ''id_GostR3410_94_CryptoPro_XchC_ParamSet'' (Some ''id-GostR3410-94-CryptoPro-XchC-ParamSet'') None (Some 838) (Some (Some ''cryptopro'', [33, 3])),
      Obj ''id_GostR3410_2001_TestParamSet'' (Some ''id-GostR3410-2001-TestParamSet'') None (Some 839) (Some (Some ''cryptopro'', [35, 0])),
      Obj ''id_GostR3410_2001_CryptoPro_A_ParamSet'' (Some ''id-GostR3410-2001-CryptoPro-A-ParamSet'') None (Some 840) (Some (Some ''cryptopro'', [35, 1])),
      Obj ''id_GostR3410_2001_CryptoPro_B_ParamSet'' (Some ''id-GostR3410-2001-CryptoPro-B-ParamSet'') None (Some 841) (Some (Some ''cryptopro'', [35, 2])),
      Obj ''id_GostR3410_2001_CryptoPro_C_ParamSet'' (Some ''id-GostR3410-2001-CryptoPro-C-ParamSet'') None (Some 842) (Some (Some ''cryptopro'', [35, 3])),
      Obj ''id_GostR3410_2001_CryptoPro_XchA_ParamSet'' (Some ''id-GostR3410-2001-CryptoPro-XchA-ParamSet'') None (Some 843) (Some (Some ''cryptopro'', [36, 0])),
      Obj ''id_GostR3410_2001_CryptoPro_XchB_ParamSet'' (Some ''id-GostR3410-2001-CryptoPro-XchB-ParamSet'') None (Some 844) (Some (Some ''cryptopro'', [36, 1])),
      Obj ''id_GostR3410_94_a'' (Some ''id-GostR3410-94-a'') None (Some 845) (Some (Some ''id_GostR3410_94'', [1])),
      Obj ''id_GostR3410_94_aBis'' (Some ''id-GostR3410-94-aBis'') None (Some 846) (Some (Some ''id_GostR3410_94'', [2])),
      Obj ''id_GostR3410_94_b'' (Some ''id-GostR3410-94-b'') None (Some 847) (Some (Some ''id_GostR3410_94'', [3])),
      Obj ''id_GostR3410_94_bBis'' (Some ''id-GostR3410-94-bBis'') None (Some 848) (Some (Some ''id_GostR3410_94'', [4])),
      Obj ''id_Gost28147_89_cc'' (Some ''id-Gost28147-89-cc'') (Some ''GOST 28147-89 Cryptocom ParamSet'') (Some 849) (Some (Some ''cryptocom'', [1, 6, 1])),
      Obj ''id_GostR3410_94_cc'' (Some ''gost94cc'') (Some ''GOST 34.10-94 Cryptocom'') (Some 850) (Some (Some ''cryptocom'', [1, 5, 3])),
      Obj ''id_GostR3410_2001_cc'' (Some ''gost2001cc'') (Some ''GOST 34.10-2001 Cryptocom'') (Some 851) (Some (Some ''cryptocom'', [1, 5, 4])),
      Obj ''id_GostR3411_94_with_GostR3410_94_cc'' (Some ''id-GostR3411-94-with-GostR3410-94-cc'') (Some ''GOST R 34.11-94 with GOST R 34.10-94 Cryptocom'') (Some 852) (Some (Some ''cryptocom'', [1, 3, 3])),
      Obj ''id_GostR3411_94_with_GostR3410_2001_cc'' (Some ''id-GostR3411-94-with-GostR3410-2001-cc'') (Some ''GOST R 34.11-94 with GOST R 34.10-2001 Cryptocom'') (Some 853) (Some (Some ''cryptocom'', [1, 3, 4])),
      Obj ''id_GostR3410_2001_ParamSet_cc'' (Some ''id-GostR3410-2001-ParamSet-cc'') (Some ''GOST R 3410-2001 Parameter Set Cryptocom'') (Some 854) (Some (Some ''cryptocom'', [1, 8, 1])),
      Obj ''camellia_128_cbc'' (Some ''CAMELLIA-128-CBC'') (Some ''camellia-128-cbc'') (Some 751) (Some (None, [1, 2, 392, 200011, 61, 1, 1, 1, 2])),
      Obj ''camellia_192_cbc'' (Some ''CAMELLIA-192-CBC'') (Some ''camellia-192-cbc'') (Some 752) (Some (None, [1, 2, 392, 200011, 61, 1, 1, 1, 3])),
      Obj ''camellia_256_cbc'' (Some ''CAMELLIA-256-CBC'') (Some ''camellia-256-cbc'') (Some 753) (Some (None, [1, 2, 392, 200011, 61, 1, 1, 1, 4])),
      Obj ''id_camellia128_wrap'' (Some ''id-camellia128-wrap'') None (Some 907) (Some (None, [1, 2, 392, 200011, 61, 1, 1, 3, 2])),
      Obj ''id_camellia192_wrap'' (Some ''id-camellia192-wrap'') None (Some 908) (Some (None, [1, 2, 392, 200011, 61, 1, 1, 3, 3])),
      Obj ''id_camellia256_wrap'' (Some ''id-camellia256-wrap'') None (Some 909) (Some (None, [1, 2, 392, 200011, 61, 1, 1, 3, 4])),
      Obj ''ntt_ds'' None None None (Some (None, [0, 3, 4401, 5])),
      Obj ''camellia'' None None None (Some (Some ''ntt_ds'', [3, 1, 9])),
      Obj ''camellia_128_ecb'' (Some ''CAMELLIA-128-ECB'') (Some ''camellia-128-ecb'') (Some 754) (Some (Some ''camellia'', [1])),
      Obj ''camellia_128_ofb128'' (Some ''CAMELLIA-128-OFB'') (Some ''camellia-128-ofb'') (Some 766) (Some (Some ''camellia'', [3])),
      Obj ''camellia_128_cfb128'' (Some ''CAMELLIA-128-CFB'') (Some ''camellia-128-cfb'') (Some 757) (Some (Some ''camellia'', [4])),
      Obj ''camellia_192_ecb'' (Some ''CAMELLIA-192-ECB'') (Some ''camellia-192-ecb'') (Some 755) (Some (Some ''camellia'', [21])),
      Obj ''camellia_192_ofb128'' (Some ''CAMELLIA-192-OFB'') (Some ''camellia-192-ofb'') (Some 767) (Some (Some ''camellia'', [23]))]"

definition obj_mac_26 :: "obj list" where
  "obj_mac_26 =
     [Obj ''camellia_192_cfb128'' (Some ''CAMELLIA-192-CFB'') (Some ''camellia-192-cfb'') (Some 758) (Some (Some ''camellia'', [24])),
      Obj ''camellia_256_ecb'' (Some ''CAMELLIA-256-ECB'') (Some ''camellia-256-ecb'') (Some 756) (Some (Some ''camellia'', [41])),
      Obj ''camellia_256_ofb128'' (Some ''CAMELLIA-256-OFB'') (Some ''camellia-256-ofb'') (Some 768) (Some (Some ''camellia'', [43])),
      Obj ''camellia_256_cfb128'' (Some ''CAMELLIA-256-CFB'') (Some ''camellia-256-cfb'') (Some 759) (Some (Some ''camellia'', [44])),
      Obj ''camellia_128_cfb1'' (Some ''CAMELLIA-128-CFB1'') (Some ''camellia-128-cfb1'') (Some 760) None,
      Obj ''camellia_192_cfb1'' (Some ''CAMELLIA-192-CFB1'') (Some ''camellia-192-cfb1'') (Some 761) None,
      Obj ''camellia_256_cfb1'' (Some ''CAMELLIA-256-CFB1'') (Some ''camellia-256-cfb1'') (Some 762) None,
      Obj ''camellia_128_cfb8'' (Some ''CAMELLIA-128-CFB8'') (Some ''camellia-128-cfb8'') (Some 763) None,
      Obj ''camellia_192_cfb8'' (Some ''CAMELLIA-192-CFB8'') (Some ''camellia-192-cfb8'') (Some 764) None,
      Obj ''camellia_256_cfb8'' (Some ''CAMELLIA-256-CFB8'') (Some ''camellia-256-cfb8'') (Some 765) None,
      Obj ''kisa'' (Some ''KISA'') (Some ''kisa'') (Some 773) (Some (Some ''member_body'', [410, 200004])),
      Obj ''seed_ecb'' (Some ''SEED-ECB'') (Some ''seed-ecb'') (Some 776) (Some (Some ''kisa'', [1, 3])),
      Obj ''seed_cbc'' (Some ''SEED-CBC'') (Some ''seed-cbc'') (Some 777) (Some (Some ''kisa'', [1, 4])),
      Obj ''seed_cfb128'' (Some ''SEED-CFB'') (Some ''seed-cfb'') (Some 779) (Some (Some ''kisa'', [1, 5])),
      Obj ''seed_ofb128'' (Some ''SEED-OFB'') (Some ''seed-ofb'') (Some 778) (Some (Some ''kisa'', [1, 6])),
      Obj ''hmac'' (Some ''HMAC'') (Some ''hmac'') (Some 855) None,
      Obj ''cmac'' (Some ''CMAC'') (Some ''cmac'') (Some 894) None,
      Obj ''rc4_hmac_md5'' (Some ''RC4-HMAC-MD5'') (Some ''rc4-hmac-md5'') (Some 915) None,
      Obj ''aes_128_cbc_hmac_sha1'' (Some ''AES-128-CBC-HMAC-SHA1'') (Some ''aes-128-cbc-hmac-sha1'') (Some 916) None,
      Obj ''aes_192_cbc_hmac_sha1'' (Some ''AES-192-CBC-HMAC-SHA1'') (Some ''aes-192-cbc-hmac-sha1'') (Some 917) None,
      Obj ''aes_256_cbc_hmac_sha1'' (Some ''AES-256-CBC-HMAC-SHA1'') (Some ''aes-256-cbc-hmac-sha1'') (Some 918) None,
      Obj ''aes_128_cbc_hmac_sha256'' (Some ''AES-128-CBC-HMAC-SHA256'') (Some ''aes-128-cbc-hmac-sha256'') (Some 948) None,
      Obj ''aes_192_cbc_hmac_sha256'' (Some ''AES-192-CBC-HMAC-SHA256'') (Some ''aes-192-cbc-hmac-sha256'') (Some 949) None,
      Obj ''aes_256_cbc_hmac_sha256'' (Some ''AES-256-CBC-HMAC-SHA256'') (Some ''aes-256-cbc-hmac-sha256'') (Some 950) None,
      Obj ''dhpublicnumber'' (Some ''dhpublicnumber'') (Some ''X9.42 DH'') (Some 920) (Some (Some ''ISO_US'', [10046, 2, 1])),
      Obj ''brainpoolP160r1'' (Some ''brainpoolP160r1'') None (Some 921) (Some (None, [1, 3, 36, 3, 3, 2, 8, 1, 1, 1])),
      Obj ''brainpoolP160t1'' (Some ''brainpoolP160t1'') None (Some 922) (Some (None, [1, 3, 36, 3, 3, 2, 8, 1, 1, 2])),
      Obj ''brainpoolP192r1'' (Some ''brainpoolP192r1'') None (Some 923) (Some (None, [1, 3, 36, 3, 3, 2, 8, 1, 1, 3])),
      Obj ''brainpoolP192t1'' (Some ''brainpoolP192t1'') None (Some 924) (Some (None, [1, 3, 36, 3, 3, 2, 8, 1, 1, 4])),
      Obj ''brainpoolP224r1'' (Some ''brainpoolP224r1'') None (Some 925) (Some (None, [1, 3, 36, 3, 3, 2, 8, 1, 1, 5])),
      Obj ''brainpoolP224t1'' (Some ''brainpoolP224t1'') None (Some 926) (Some (None, [1, 3, 36, 3, 3, 2, 8, 1, 1, 6])),
      Obj ''brainpoolP256r1'' (Some ''brainpoolP256r1'') None (Some 927) (Some (None, [1, 3, 36, 3, 3, 2, 8, 1, 1, 7])),
      Obj ''brainpoolP256t1'' (Some ''brainpoolP256t1'') None (Some 928) (Some (None, [1, 3, 36, 3, 3, 2, 8, 1, 1, 8])),
      Obj ''brainpoolP320r1'' (Some ''brainpoolP320r1'') None (Some 929) (Some (None, [1, 3, 36, 3, 3, 2, 8, 1, 1, 9])),
      Obj ''brainpoolP320t1'' (Some ''brainpoolP320t1'') None (Some 930) (Some (None, [1, 3, 36, 3, 3, 2, 8, 1, 1, 10]))]"

definition obj_mac_27 :: "obj list" where
  "obj_mac_27 =
     [Obj ''brainpoolP384r1'' (Some ''brainpoolP384r1'') None (Some 931) (Some (None, [1, 3, 36, 3, 3, 2, 8, 1, 1, 11])),
      Obj ''brainpoolP384t1'' (Some ''brainpoolP384t1'') None (Some 932) (Some (None, [1, 3, 36, 3, 3, 2, 8, 1, 1, 12])),
      Obj ''brainpoolP512r1'' (Some ''brainpoolP512r1'') None (Some 933) (Some (None, [1, 3, 36, 3, 3, 2, 8, 1, 1, 13])),
      Obj ''brainpoolP512t1'' (Some ''brainpoolP512t1'') None (Some 934) (Some (None, [1, 3, 36, 3, 3, 2, 8, 1, 1, 14])),
      Obj ''x9_63_scheme'' None None None (Some (None, [1, 3, 133, 16, 840, 63, 0])),
      Obj ''secg_scheme'' None None None (Some (Some ''certicom_arc'', [1])),
      Obj ''dhSinglePass_stdDH_sha1kdf_scheme'' (Some ''dhSinglePass-stdDH-sha1kdf-scheme'') None (Some 936) (Some (Some ''x9_63_scheme'', [2])),
      Obj ''dhSinglePass_stdDH_sha224kdf_scheme'' (Some ''dhSinglePass-stdDH-sha224kdf-scheme'') None (Some 937) (Some (Some ''secg_scheme'', [11, 0])),
      Obj ''dhSinglePass_stdDH_sha256kdf_scheme'' (Some ''dhSinglePass-stdDH-sha256kdf-scheme'') None (Some 938) (Some (Some ''secg_scheme'', [11, 1])),
      Obj ''dhSinglePass_stdDH_sha384kdf_scheme'' (Some ''dhSinglePass-stdDH-sha384kdf-scheme'') None (Some 939) (Some (Some ''secg_scheme'', [11, 2])),
      Obj ''dhSinglePass_stdDH_sha512kdf_scheme'' (Some ''dhSinglePass-stdDH-sha512kdf-scheme'') None (Some 940) (Some (Some ''secg_scheme'', [11, 3])),
      Obj ''dhSinglePass_cofactorDH_sha1kdf_scheme'' (Some ''dhSinglePass-cofactorDH-sha1kdf-scheme'') None (Some 941) (Some (Some ''x9_63_scheme'', [3])),
      Obj ''dhSinglePass_cofactorDH_sha224kdf_scheme'' (Some ''dhSinglePass-cofactorDH-sha224kdf-scheme'') None (Some 942) (Some (Some ''secg_scheme'', [14, 0])),
      Obj ''dhSinglePass_cofactorDH_sha256kdf_scheme'' (Some ''dhSinglePass-cofactorDH-sha256kdf-scheme'') None (Some 943) (Some (Some ''secg_scheme'', [14, 1])),
      Obj ''dhSinglePass_cofactorDH_sha384kdf_scheme'' (Some ''dhSinglePass-cofactorDH-sha384kdf-scheme'') None (Some 944) (Some (Some ''secg_scheme'', [14, 2])),
      Obj ''dhSinglePass_cofactorDH_sha512kdf_scheme'' (Some ''dhSinglePass-cofactorDH-sha512kdf-scheme'') None (Some 945) (Some (Some ''secg_scheme'', [14, 3])),
      Obj ''dh_std_kdf'' (Some ''dh-std-kdf'') None (Some 946) None,
      Obj ''dh_cofactor_kdf'' (Some ''dh-cofactor-kdf'') None (Some 947) None,
      Obj ''ct_precert_scts'' (Some ''ct_precert_scts'') (Some ''CT Precertificate SCTs'') (Some 951) (Some (None, [1, 3, 6, 1, 4, 1, 11129, 2, 4, 2])),
      Obj ''ct_precert_poison'' (Some ''ct_precert_poison'') (Some ''CT Precertificate Poison'') (Some 952) (Some (None, [1, 3, 6, 1, 4, 1, 11129, 2, 4, 3])),
      Obj ''ct_precert_signer'' (Some ''ct_precert_signer'') (Some ''CT Precertificate Signer'') (Some 953) (Some (None, [1, 3, 6, 1, 4, 1, 11129, 2, 4, 4])),
      Obj ''ct_cert_scts'' (Some ''ct_cert_scts'') (Some ''CT Certificate SCTs'') (Some 954) (Some (None, [1, 3, 6, 1, 4, 1, 11129, 2, 4, 5])),
      Obj ''jurisdictionLocalityName'' (Some ''jurisdictionL'') (Some ''jurisdictionLocalityName'') (Some 955) (Some (None, [1, 3, 6, 1, 4, 1, 311, 60, 2, 1, 1])),
      Obj ''jurisdictionStateOrProvinceName'' (Some ''jurisdictionST'') (Some ''jurisdictionStateOrProvinceName'') (Some 956) (Some (None, [1, 3, 6, 1, 4, 1, 311, 60, 2, 1, 2])),
      Obj ''jurisdictionCountryName'' (Some ''jurisdictionC'') (Some ''jurisdictionCountryName'') (Some 957) (Some (None, [1, 3, 6, 1, 4, 1, 311, 60, 2, 1, 3]))]"

text \<open>The macros that each part takes from the parts above it and hands to those below.\<close>

definition obj_known_21 :: "(string \<times> int list) list" where
  "obj_known_21 =
     [(''set_ctype'', [2, 23, 42, 0])]"

definition obj_exports_21 :: "(string \<times> int list) list" where
  "obj_exports_21 =
     []"

definition obj_known_22 :: "(string \<times> int list) list" where
  "obj_known_22 =
     [(''set_ctype'', [2, 23, 42, 0]), (''set_msgExt'', [2, 23, 42, 1])]"

definition obj_exports_22 :: "(string \<times> int list) list" where
  "obj_exports_22 =
     []"

definition obj_known_23 :: "(string \<times> int list) list" where
  "obj_known_23 =
     [(''set_msgExt'', [2, 23, 42, 1]), (''set_policy'', [2, 23, 42, 5]),
      (''set_certExt'', [2, 23, 42, 7]), (''set_attr'', [2, 23, 42, 3]),
      (''set_brand'', [2, 23, 42, 8])]"

definition obj_exports_23 :: "(string \<times> int list) list" where
  "obj_exports_23 =
     []"

definition obj_known_24 :: "(string \<times> int list) list" where
  "obj_known_24 =
     [(''set_brand'', [2, 23, 42, 8]), (''rsadsi'', [1, 2, 840, 113549]), (''iso'', [1]),
      (''member_body'', [1, 2])]"

definition obj_exports_24 :: "(string \<times> int list) list" where
  "obj_exports_24 =
     [(''cryptopro'', [1, 2, 643, 2, 2]), (''id_GostR3410_94'', [1, 2, 643, 2, 2, 20]),
      (''cryptocom'', [1, 2, 643, 2, 9])]"

definition obj_known_25 :: "(string \<times> int list) list" where
  "obj_known_25 =
     [(''cryptopro'', [1, 2, 643, 2, 2]), (''id_GostR3410_94'', [1, 2, 643, 2, 2, 20]),
      (''cryptocom'', [1, 2, 643, 2, 9])]"

definition obj_exports_25 :: "(string \<times> int list) list" where
  "obj_exports_25 =
     [(''camellia'', [0, 3, 4401, 5, 3, 1, 9])]"

definition obj_known_26 :: "(string \<times> int list) list" where
  "obj_known_26 =
     [(''camellia'', [0, 3, 4401, 5, 3, 1, 9]), (''member_body'', [1, 2]), (''ISO_US'', [1, 2, 840])]"

definition obj_exports_26 :: "(string \<times> int list) list" where
  "obj_exports_26 =
     []"

definition obj_known_27 :: "(string \<times> int list) list" where
  "obj_known_27 =
     [(''certicom_arc'', [1, 3, 132])]"

definition obj_exports_27 :: "(string \<times> int list) list" where
  "obj_exports_27 =
     []"

section \<open>Checks\<close>

lemma part_ok_21: "part_ok obj_known_21 obj_mac_21 obj_exports_21"
  by code_simp

lemma part_ok_22: "part_ok obj_known_22 obj_mac_22 obj_exports_22"
  by code_simp

lemma part_ok_23: "part_ok obj_known_23 obj_mac_23 obj_exports_23"
  by code_simp

lemma part_ok_24: "part_ok obj_known_24 obj_mac_24 obj_exports_24"
  by code_simp

lemma part_ok_25: "part_ok obj_known_25 obj_mac_25 obj_exports_25"
  by code_simp

lemma part_ok_26: "part_ok obj_known_26 obj_mac_26 obj_exports_26"
  by code_simp

lemma part_ok_27: "part_ok obj_known_27 obj_mac_27 obj_exports_27"
  by code_simp

lemma nids_21: "keys_of o_nid obj_mac_21 =
     [532, 533, 534, 535, 536, 537, 538, 539, 540, 541, 542, 543, 544, 545, 546, 547, 548, 549, 550,
      551, 552, 553, 554, 555, 556, 557, 558, 559, 560, 561, 562, 563, 564, 565, 566, 567, 568]"
  by (simp only: obj_mac_21_def column_simps keys_of_simps(1))

lemma sns_21: "map (fingerprint 0) (keys_of o_sn obj_mac_21) =
     [1571, 1660, 13343, 6923, 16695, 64490, 62725, 54726, 26359, 43450, 42165, 37030, 43827, 38685,
      53852, 4774, 16078, 31245, 9313, 24783, 39950, 43358, 24146, 39313, 8956, 57217, 10081, 9067,
      24982, 37712, 58715, 17622, 29851, 16608, 4851, 36243, 9190]"
  by (simp only: obj_mac_21_def column_simps keys_of_simps(1)) code_simp

lemma lns_21: "map (fingerprint 0) (keys_of o_ln obj_mac_21) =
     []"
  by (simp only: obj_mac_21_def column_simps keys_of_simps(1)) code_simp

lemma nids_22: "keys_of o_nid obj_mac_22 =
     [569, 570, 571, 572, 573, 574, 575, 576, 577, 578, 579, 580, 581, 582, 583, 584, 585, 586, 587,
      588, 589, 590, 591, 592, 593, 594, 595, 596, 597, 598, 599, 600, 601, 602, 603, 604, 605]"
  by (simp only: obj_mac_22_def column_simps keys_of_simps(1))

lemma sns_22: "map (fingerprint 0) (keys_of o_sn obj_mac_22) =
     [31495, 13329, 6909, 16261, 64476, 54712, 46110, 52012, 43436, 37016, 25528, 43813, 38251, 37393,
      4760, 15644, 64342, 9299, 24349, 2879, 43344, 23712, 36924, 57272, 50852, 65121, 29837, 1007,
      23417, 56643, 38303, 26563, 18304, 33628, 47050, 22893, 62703]"
  by (simp only: obj_mac_22_def column_simps keys_of_simps(1)) code_simp

lemma lns_22: "map (fingerprint 0) (keys_of o_ln obj_mac_22) =
     [29739, 46863]"
  by (simp only: obj_mac_22_def column_simps keys_of_simps(1)) code_simp

lemma nids_23: "keys_of o_nid obj_mac_23 =
     [606, 607, 608, 609, 610, 611, 612, 613, 614, 615, 616, 617, 618, 619, 620, 621, 622, 623, 624,
      625, 626, 627, 628, 629, 630, 631, 632, 633, 634, 635, 636, 637, 638, 639, 640]"
  by (simp only: obj_mac_23_def column_simps keys_of_simps(1))

lemma sns_23: "map (fingerprint 0) (keys_of o_sn obj_mac_23) =
     [39485, 55648, 576, 8751, 54000, 39127, 46619, 24496, 65682, 53926, 6521, 5886, 49772, 19680,
      53176, 31561, 10725, 33013, 64768, 34404, 51842, 59815, 48600, 40380, 64591, 65540, 11162,
      31977, 26176, 30515, 32811, 31304, 29439, 53440, 6204]"
  by (simp only: obj_mac_23_def column_simps keys_of_simps(1)) code_simp

lemma lns_23: "map (fingerprint 0) (keys_of o_ln obj_mac_23) =
     [46204, 57200, 50263, 41063, 41941, 45577, 36701, 6105]"
  by (simp only: obj_mac_23_def column_simps keys_of_simps(1)) code_simp

lemma nids_24: "keys_of o_nid obj_mac_24 =
     [641, 642, 643, 644, 749, 750, 804, 805, 806, 807, 808, 809, 810, 811, 812, 813, 814, 815, 816,
      817, 818, 819, 820, 821, 822, 823, 824, 825, 826, 827, 828, 829, 830, 831, 832]"
  by (simp only: obj_mac_24_def column_simps keys_of_simps(1))

lemma sns_24: "map (fingerprint 0) (keys_of o_sn obj_mac_24) =
     [55049, 48734, 35417, 49286, 37130, 37131, 640, 37272, 24684, 12215, 1331, 16474, 56471, 57732,
      16076, 16050, 34114, 34969, 33869, 15659, 6653, 24067, 60635, 39584, 36052, 53741, 53846,
      36123, 18400, 677, 51113, 2834, 37217, 57371, 5440]"
  by (simp only: obj_mac_24_def column_simps keys_of_simps(1)) code_simp

lemma lns_24: "map (fingerprint 0) (keys_of o_ln obj_mac_24) =
     [44217, 37023, 37024, 411, 42321, 29772, 2767, 34905, 65983, 36771, 9028, 62828, 26277, 60921]"
  by (simp only: obj_mac_24_def column_simps keys_of_simps(1)) code_simp

lemma nids_25: "keys_of o_nid obj_mac_25 =
     [833, 834, 835, 836, 837, 838, 839, 840, 841, 842, 843, 844, 845, 846, 847, 848, 849, 850, 851,
      852, 853, 854, 751, 752, 753, 907, 908, 909, 754, 766, 757, 755, 767]"
  by (simp only: obj_mac_25_def column_simps keys_of_simps(1))

lemma sns_25: "map (fingerprint 0) (keys_of o_sn obj_mac_25) =
     [53719, 35996, 18273, 63529, 45806, 28083, 23545, 37442, 19719, 1996, 36221, 18498, 5965, 26725,
      5966, 56516, 14252, 7736, 41940, 31032, 8450, 15636, 6417, 31444, 1069, 15586, 65401, 47804,
      8369, 18072, 6540, 33396, 43099]"
  by (simp only: obj_mac_25_def column_simps keys_of_simps(1)) code_simp

lemma lns_25: "map (fingerprint 0) (keys_of o_ln obj_mac_25) =
     [20580, 62215, 49305, 15249, 60347, 8468, 22243, 47270, 16895, 24195, 33898, 22366, 49222, 58925]"
  by (simp only: obj_mac_25_def column_simps keys_of_simps(1)) code_simp

lemma nids_26: "keys_of o_nid obj_mac_26 =
     [758, 756, 768, 759, 760, 761, 762, 763, 764, 765, 773, 776, 777, 779, 778, 855, 894, 915, 916,
      917, 918, 948, 949, 950, 920, 921, 922, 923, 924, 925, 926, 927, 928, 929, 930]"
  by (simp only: obj_mac_26_def column_simps keys_of_simps(1))

lemma sns_26: "map (fingerprint 0) (keys_of o_sn obj_mac_26) =
     [31567, 3021, 12724, 1192, 4783, 54598, 37001, 4790, 54605, 37008, 63048, 9362, 7410, 7533, 19065,
      42965, 26014, 60322, 19748, 57257, 3436, 37912, 46969, 4554, 42616, 10252, 10314, 35545,
      35607, 26429, 26491, 51722, 51784, 22078, 22140]"
  by (simp only: obj_mac_26_def column_simps keys_of_simps(1)) code_simp

lemma lns_26: "map (fingerprint 0) (keys_of o_ln obj_mac_26) =
     [47393, 18847, 28550, 17018, 33375, 17188, 65593, 33382, 17195, 65600, 58106, 38656, 36704, 36827,
      48359, 38023, 21072, 25718, 46936, 18443, 30624, 28788, 37845, 61432, 55037]"
  by (simp only: obj_mac_26_def column_simps keys_of_simps(1)) code_simp

lemma nids_27: "keys_of o_nid obj_mac_27 =
     [931, 932, 933, 934, 936, 937, 938, 939, 940, 941, 942, 943, 944, 945, 946, 947, 951, 952, 953,
      954, 955, 956, 957]"
  by (simp only: obj_mac_27_def column_simps keys_of_simps(1))

lemma sns_27: "map (fingerprint 0) (keys_of o_sn obj_mac_27) =
     [6662, 6724, 59197, 59259, 28744, 65941, 13286, 10324, 4337, 42900, 7443, 20790, 17828, 11841,
      58330, 56016, 62165, 55682, 12882, 63790, 34527, 14606, 34518]"
  by (simp only: obj_mac_27_def column_simps keys_of_simps(1)) code_simp

lemma lns_27: "map (fingerprint 0) (keys_of o_ln obj_mac_27) =
     [9826, 64487, 21687, 27887, 50679, 51614, 14312]"
  by (simp only: obj_mac_27_def column_simps keys_of_simps(1)) code_simp

end
