(* ===== verification/ObjRegistry.thy ===== *)
theory ObjRegistry
  imports ObjMac1 ObjMac2 ObjMac3 ObjMac4
begin

text \<open>
  The whole of \<open>openssl/obj_mac.h\<close>: its parts put together, the expansion of every
  \<open>OBJ_\<close> macro, and the three keys of the registry as instances of \<open>keyed_table\<close>.
\<close>

section \<open>The header\<close>

definition obj_mac :: "obj list" where
  "obj_mac =
     obj_mac_0 @ obj_mac_1 @ obj_mac_2 @ obj_mac_3 @ obj_mac_4 @ obj_mac_5 @ obj_mac_6 @
      obj_mac_7 @ obj_mac_8 @ obj_mac_9 @ obj_mac_10 @ obj_mac_11 @ obj_mac_12 @ obj_mac_13 @
      obj_mac_14 @ obj_mac_15 @ obj_mac_16 @ obj_mac_17 @ obj_mac_18 @ obj_mac_19 @ obj_mac_20 @
      obj_mac_21 @ obj_mac_22 @ obj_mac_23 @ obj_mac_24 @ obj_mac_25 @ obj_mac_26 @ obj_mac_27"

lemma obj_mac_parts:
  "set obj_mac_0 \<subseteq> set obj_mac"
  "set obj_mac_1 \<subseteq> set obj_mac"
  "set obj_mac_2 \<subseteq> set obj_mac"
  "set obj_mac_3 \<subseteq> set obj_mac"
  "set obj_mac_4 \<subseteq> set obj_mac"
  "set obj_mac_5 \<subseteq> set obj_mac"
  "set obj_mac_6 \<subseteq> set obj_mac"
  "set obj_mac_7 \<subseteq> set obj_mac"
  "set obj_mac_8 \<subseteq> set obj_mac"
  "set obj_mac_9 \<subseteq> set obj_mac"
  "set obj_mac_10 \<subseteq> set obj_mac"
  "set obj_mac_11 \<subseteq> set obj_mac"
  "set obj_mac_12 \<subseteq> set obj_mac"
  "set obj_mac_13 \<subseteq> set obj_mac"
  "set obj_mac_14 \<subseteq> set obj_mac"
  "set obj_mac_15 \<subseteq> set obj_mac"
  "set obj_mac_16 \<subseteq> set obj_mac"
  "set obj_mac_17 \<subseteq> set obj_mac"
  "set obj_mac_18 \<subseteq> set obj_mac"
  "set obj_mac_19 \<subseteq> set obj_mac"
  "set obj_mac_20 \<subseteq> set obj_mac"
  "set obj_mac_21 \<subseteq> set obj_mac"
  "set obj_mac_22 \<subseteq> set obj_mac"
  "set obj_mac_23 \<subseteq> set obj_mac"
  "set obj_mac_24 \<subseteq> set obj_mac"
  "set obj_mac_25 \<subseteq> set obj_mac"
  "set obj_mac_26 \<subseteq> set obj_mac"
  "set obj_mac_27 \<subseteq> set obj_mac"
  by (auto simp: obj_mac_def)

section \<open>Expansion, part by part\<close>

lemma known_0: "resolves obj_mac obj_known_0"
  by (simp add: obj_known_0_def)

lemma exports_0: "resolves obj_mac obj_exports_0"
  by (rule part_sound(1) [OF part_ok_0 obj_mac_parts(1) known_0])

lemma known_1: "resolves obj_mac obj_known_1"
  using exports_0 by (simp add: obj_known_1_def obj_exports_0_def)

lemma exports_1: "resolves obj_mac obj_exports_1"
  by (rule part_sound(1) [OF part_ok_1 obj_mac_parts(2) known_1])

lemma known_2: "resolves obj_mac obj_known_2"
  using exports_0 exports_1 by (simp add: obj_known_2_def obj_exports_0_def obj_exports_1_def)

lemma known_3: "resolves obj_mac obj_known_3"
  using exports_0 by (simp add: obj_known_3_def obj_exports_0_def)

lemma exports_3: "resolves obj_mac obj_exports_3"
  by (rule part_sound(1) [OF part_ok_3 obj_mac_parts(4) known_3])

lemma known_4: "resolves obj_mac obj_known_4"
  using exports_3 by (simp add: obj_known_4_def obj_exports_3_def)

lemma exports_4: "resolves obj_mac obj_exports_4"
  by (rule part_sound(1) [OF part_ok_4 obj_mac_parts(5) known_4])

lemma known_5: "resolves obj_mac obj_known_5"
  using exports_4 by (simp add: obj_known_5_def obj_exports_4_def)

lemma known_6: "resolves obj_mac obj_known_6"
  using exports_3 exports_4 by (simp add: obj_known_6_def obj_exports_3_def obj_exports_4_def)

lemma exports_6: "resolves obj_mac obj_exports_6"
  by (rule part_sound(1) [OF part_ok_6 obj_mac_parts(7) known_6])

lemma known_7: "resolves obj_mac obj_known_7"
  using exports_3 exports_6 by (simp add: obj_known_7_def obj_exports_3_def obj_exports_6_def)

lemma known_8: "resolves obj_mac obj_known_8"
  by (simp add: obj_known_8_def)

lemma exports_8: "resolves obj_mac obj_exports_8"
  by (rule part_sound(1) [OF part_ok_8 obj_mac_parts(9) known_8])

lemma known_9: "resolves obj_mac obj_known_9"
  using exports_8 by (simp add: obj_known_9_def obj_exports_8_def)

lemma known_10: "resolves obj_mac obj_known_10"
  using exports_8 by (simp add: obj_known_10_def obj_exports_8_def)

lemma known_11: "resolves obj_mac obj_known_11"
  using exports_8 by (simp add: obj_known_11_def obj_exports_8_def)

lemma exports_11: "resolves obj_mac obj_exports_11"
  by (rule part_sound(1) [OF part_ok_11 obj_mac_parts(12) known_11])

lemma known_12: "resolves obj_mac obj_known_12"
  using exports_8 exports_11 by (simp add: obj_known_12_def obj_exports_8_def obj_exports_11_def)

lemma exports_12: "resolves obj_mac obj_exports_12"
  by (rule part_sound(1) [OF part_ok_12 obj_mac_parts(13) known_12])

lemma known_13: "resolves obj_mac obj_known_13"
  using exports_12 by (simp add: obj_known_13_def obj_exports_12_def)

lemma exports_13: "resolves obj_mac obj_exports_13"
  by (rule part_sound(1) [OF part_ok_13 obj_mac_parts(14) known_13])

lemma known_14: "resolves obj_mac obj_known_14"
  using exports_13 by (simp add: obj_known_14_def obj_exports_13_def)

lemma exports_14: "resolves obj_mac obj_exports_14"
  by (rule part_sound(1) [OF part_ok_14 obj_mac_parts(15) known_14])

lemma known_15: "resolves obj_mac obj_known_15"
  using exports_14 by (simp add: obj_known_15_def obj_exports_14_def)

lemma exports_15: "resolves obj_mac obj_exports_15"
  by (rule part_sound(1) [OF part_ok_15 obj_mac_parts(16) known_15])

lemma known_16: "resolves obj_mac obj_known_16"
  using exports_0 exports_4 exports_15 by (simp add: obj_known_16_def obj_exports_0_def obj_exports_4_def obj_exports_15_def)

lemma exports_16: "resolves obj_mac obj_exports_16"
  by (rule part_sound(1) [OF part_ok_16 obj_mac_parts(17) known_16])

lemma known_17: "resolves obj_mac obj_known_17"
  using exports_16 by (simp add: obj_known_17_def obj_exports_16_def)

lemma known_18: "resolves obj_mac obj_known_18"
  using exports_0 exports_14 exports_16 by (simp add: obj_known_18_def obj_exports_0_def obj_exports_14_def obj_exports_16_def)

lemma exports_18: "resolves obj_mac obj_exports_18"
  by (rule part_sound(1) [OF part_ok_18 obj_mac_parts(19) known_18])

lemma known_19: "resolves obj_mac obj_known_19"
  using exports_18 by (simp add: obj_known_19_def obj_exports_18_def)

lemma known_20: "resolves obj_mac obj_known_20"
  using exports_0 exports_18 by (simp add: obj_known_20_def obj_exports_0_def obj_exports_18_def)

lemma exports_20: "resolves obj_mac obj_exports_20"
  by (rule part_sound(1) [OF part_ok_20 obj_mac_parts(21) known_20])

lemma known_21: "resolves obj_mac obj_known_21"
  using exports_20 by (simp add: obj_known_21_def obj_exports_20_def)

lemma known_22: "resolves obj_mac obj_known_22"
  using exports_20 by (simp add: obj_known_22_def obj_exports_20_def)

lemma known_23: "resolves obj_mac obj_known_23"
  using exports_20 by (simp add: obj_known_23_def obj_exports_20_def)

lemma known_24: "resolves obj_mac obj_known_24"
  using exports_0 exports_3 exports_20 by (simp add: obj_known_24_def obj_exports_0_def obj_exports_3_def obj_exports_20_def)

lemma exports_24: "resolves obj_mac obj_exports_24"
  by (rule part_sound(1) [OF part_ok_24 obj_mac_parts(25) known_24])

lemma known_25: "resolves obj_mac obj_known_25"
  using exports_24 by (simp add: obj_known_25_def obj_exports_24_def)

lemma exports_25: "resolves obj_mac obj_exports_25"
  by (rule part_sound(1) [OF part_ok_25 obj_mac_parts(26) known_25])

lemma known_26: "resolves obj_mac obj_known_26"
  using exports_0 exports_25 by (simp add: obj_known_26_def obj_exports_0_def obj_exports_25_def)

lemma known_27: "resolves obj_mac obj_known_27"
  using exports_0 by (simp add: obj_known_27_def obj_exports_0_def)

lemma expands_parts:
  "\<forall>x \<in> set obj_mac_0. o_def x \<noteq> None \<longrightarrow> (\<exists>arcs. expands obj_mac (o_macro x) arcs \<and> valid_oid arcs)"
  "\<forall>x \<in> set obj_mac_1. o_def x \<noteq> None \<longrightarrow> (\<exists>arcs. expands obj_mac (o_macro x) arcs \<and> valid_oid arcs)"
  "\<forall>x \<in> set obj_mac_2. o_def x \<noteq> None \<longrightarrow> (\<exists>arcs. expands obj_mac (o_macro x) arcs \<and> valid_oid arcs)"
  "\<forall>x \<in> set obj_mac_3. o_def x \<noteq> None \<longrightarrow> (\<exists>arcs. expands obj_mac (o_macro x) arcs \<and> valid_oid arcs)"
  "\<forall>x \<in> set obj_mac_4. o_def x \<noteq> None \<longrightarrow> (\<exists>arcs. expands obj_mac (o_macro x) arcs \<and> valid_oid arcs)"
  "\<forall>x \<in> set obj_mac_5. o_def x \<noteq> None \<longrightarrow> (\<exists>arcs. expands obj_mac (o_macro x) arcs \<and> valid_oid arcs)"
  "\<forall>x \<in> set obj_mac_6. o_def x \<noteq> None \<longrightarrow> (\<exists>arcs. expands obj_mac (o_macro x) arcs \<and> valid_oid arcs)"
  "\<forall>x \<in> set obj_mac_7. o_def x \<noteq> None \<longrightarrow> (\<exists>arcs. expands obj_mac (o_macro x) arcs \<and> valid_oid arcs)"
  "\<forall>x \<in> set obj_mac_8. o_def x \<noteq> None \<longrightarrow> (\<exists>arcs. expands obj_mac (o_macro x) arcs \<and> valid_oid arcs)"
  "\<forall>x \<in> set obj_mac_9. o_def x \<noteq> None \<longrightarrow> (\<exists>arcs. expands obj_mac (o_macro x) arcs \<and> valid_oid arcs)"
  "\<forall>x \<in> set obj_mac_10. o_def x \<noteq> None \<longrightarrow> (\<exists>arcs. expands obj_mac (o_macro x) arcs \<and> valid_oid arcs)"
  "\<forall>x \<in> set obj_mac_11. o_def x \<noteq> None \<longrightarrow> (\<exists>arcs. expands obj_mac (o_macro x) arcs \<and> valid_oid arcs)"
  "\<forall>x \<in> set obj_mac_12. o_def x \<noteq> None \<longrightarrow> (\<exists>arcs. expands obj_mac (o_macro x) arcs \<and> valid_oid arcs)"
  "\<forall>x \<in> set obj_mac_13. o_def x \<noteq> None \<longrightarrow> (\<exists>arcs. expands obj_mac (o_macro x) arcs \<and> valid_oid arcs)"
  "\<forall>x \<in> set obj_mac_14. o_def x \<noteq> None \<longrightarrow> (\<exists>arcs. expands obj_mac (o_macro x) arcs \<and> valid_oid arcs)"
  "\<forall>x \<in> set obj_mac_15. o_def x \<noteq> None \<longrightarrow> (\<exists>arcs. expands obj_mac (o_macro x) arcs \<and> valid_oid arcs)"
  "\<forall>x \<in> set obj_mac_16. o_def x \<noteq> None \<longrightarrow> (\<exists>arcs. expands obj_mac (o_macro x) arcs \<and> valid_oid arcs)"
  "\<forall>x \<in> set obj_mac_17. o_def x \<noteq> None \<longrightarrow> (\<exists>arcs. expands obj_mac (o_macro x) arcs \<and> valid_oid arcs)"
  "\<forall>x \<in> set obj_mac_18. o_def x \<noteq> None \<longrightarrow> (\<exists>arcs. expands obj_mac (o_macro x) arcs \<and> valid_oid arcs)"
  "\<forall>x \<in> set obj_mac_19. o_def x \<noteq> None \<longrightarrow> (\<exists>arcs. expands obj_mac (o_macro x) arcs \<and> valid_oid arcs)"
  "\<forall>x \<in> set obj_mac_20. o_def x \<noteq> None \<longrightarrow> (\<exists>arcs. expands obj_mac (o_macro x) arcs \<and> valid_oid arcs)"
  "\<forall>x \<in> set obj_mac_21. o_def x \<noteq> None \<longrightarrow> (\<exists>arcs. expands obj_mac (o_macro x) arcs \<and> valid_oid arcs)"
  "\<forall>x \<in> set obj_mac_22. o_def x \<noteq> None \<longrightarrow> (\<exists>arcs. expands obj_mac (o_macro x) arcs \<and> valid_oid arcs)"
  "\<forall>x \<in> set obj_mac_23. o_def x \<noteq> None \<longrightarrow> (\<exists>arcs. expands obj_mac (o_macro x) arcs \<and> valid_oid arcs)"
  "\<forall>x \<in> set obj_mac_24. o_def x \<noteq> None \<longrightarrow> (\<exists>arcs. expands obj_mac (o_macro x) arcs \<and> valid_oid arcs)"
  "\<forall>x \<in> set obj_mac_25. o_def x \<noteq> None \<longrightarrow> (\<exists>arcs. expands obj_mac (o_macro x) arcs \<and> valid_oid arcs)"
  "\<forall>x \<in> set obj_mac_26. o_def x \<noteq> None \<longrightarrow> (\<exists>arcs. expands obj_mac (o_macro x) arcs \<and> valid_oid arcs)"
  "\<forall>x \<in> set obj_mac_27. o_def x \<noteq> None \<longrightarrow> (\<exists>arcs. expands obj_mac (o_macro x) arcs \<and> valid_oid arcs)"
  apply (rule part_sound(2) [OF part_ok_0 obj_mac_parts(1) known_0])
  apply (rule part_sound(2) [OF part_ok_1 obj_mac_parts(2) known_1])
  apply (rule part_sound(2) [OF part_ok_2 obj_mac_parts(3) known_2])
  apply (rule part_sound(2) [OF part_ok_3 obj_mac_parts(4) known_3])
  apply (rule part_sound(2) [OF part_ok_4 obj_mac_parts(5) known_4])
  apply (rule part_sound(2) [OF part_ok_5 obj_mac_parts(6) known_5])
  apply (rule part_sound(2) [OF part_ok_6 obj_mac_parts(7) known_6])
  apply (rule part_sound(2) [OF part_ok_7 obj_mac_parts(8) known_7])
  apply (rule part_sound(2) [OF part_ok_8 obj_mac_parts(9) known_8])
  apply (rule part_sound(2) [OF part_ok_9 obj_mac_parts(10) known_9])
  apply (rule part_sound(2) [OF part_ok_10 obj_mac_parts(11) known_10])
  apply (rule part_sound(2) [OF part_ok_11 obj_mac_parts(12) known_11])
  apply (rule part_sound(2) [OF part_ok_12 obj_mac_parts(13) known_12])
  apply (rule part_sound(2) [OF part_ok_13 obj_mac_parts(14) known_13])
  apply (rule part_sound(2) [OF part_ok_14 obj_mac_parts(15) known_14])
  apply (rule part_sound(2) [OF part_ok_15 obj_mac_parts(16) known_15])
  apply (rule part_sound(2) [OF part_ok_16 obj_mac_parts(17) known_16])
  apply (rule part_sound(2) [OF part_ok_17 obj_mac_parts(18) known_17])
  apply (rule part_sound(2) [OF part_ok_18 obj_mac_parts(19) known_18])
  apply (rule part_sound(2) [OF part_ok_19 obj_mac_parts(20) known_19])
  apply (rule part_sound(2) [OF part_ok_20 obj_mac_parts(21) known_20])
  apply (rule part_sound(2) [OF part_ok_21 obj_mac_parts(22) known_21])
  apply (rule part_sound(2) [OF part_ok_22 obj_mac_parts(23) known_22])
  apply (rule part_sound(2) [OF part_ok_23 obj_mac_parts(24) known_23])
  apply (rule part_sound(2) [OF part_ok_24 obj_mac_parts(25) known_24])
  apply (rule part_sound(2) [OF part_ok_25 obj_mac_parts(26) known_25])
  apply (rule part_sound(2) [OF part_ok_26 obj_mac_parts(27) known_26])
  apply (rule part_sound(2) [OF part_ok_27 obj_mac_parts(28) known_27])
  done

section \<open>The keys are unique\<close>

lemma nids_distinct: "distinct (keys_of o_nid obj_mac)"
proof (rule distinct_ints)
  show "increasing (<) (msort_by (<) (keys_of o_nid obj_mac))"
    unfolding obj_mac_def keys_of_simps(3) nids_0 nids_1 nids_2 nids_3 nids_4 nids_5 nids_6 nids_7 nids_8 nids_9 nids_10
      nids_11 nids_12 nids_13 nids_14 nids_15 nids_16 nids_17 nids_18 nids_19 nids_20
      nids_21 nids_22 nids_23 nids_24 nids_25 nids_26 nids_27
    by code_simp
qed

lemma sns_distinct: "distinct (keys_of o_sn obj_mac)"
proof (rule distinct_fingerprints)
  show "increasing (<) (msort_by (<) (map (fingerprint 0) (keys_of o_sn obj_mac)))"
    unfolding obj_mac_def keys_of_simps(3) map_append sns_0 sns_1 sns_2 sns_3 sns_4 sns_5 sns_6 sns_7 sns_8 sns_9 sns_10 sns_11
      sns_12 sns_13 sns_14 sns_15 sns_16 sns_17 sns_18 sns_19 sns_20 sns_21 sns_22
      sns_23 sns_24 sns_25 sns_26 sns_27
    by code_simp
qed

lemma lns_distinct: "distinct (keys_of o_ln obj_mac)"
proof (rule distinct_fingerprints)
  show "increasing (<) (msort_by (<) (map (fingerprint 0) (keys_of o_ln obj_mac)))"
    unfolding obj_mac_def keys_of_simps(3) map_append lns_0 lns_1 lns_2 lns_3 lns_4 lns_5 lns_6 lns_7 lns_8 lns_9 lns_10 lns_11
      lns_12 lns_13 lns_14 lns_15 lns_16 lns_17 lns_18 lns_19 lns_20 lns_21 lns_22
      lns_23 lns_24 lns_25 lns_26 lns_27
    by code_simp
qed

interpretation by_nid: keyed_table obj_mac o_nid
  by unfold_locales (rule nids_distinct)

interpretation by_sn: keyed_table obj_mac o_sn
  by unfold_locales (rule sns_distinct)

interpretation by_ln: keyed_table obj_mac o_ln
  by unfold_locales (rule lns_distinct)

section \<open>Properties\<close>

text \<open>
  Every \<open>OBJ_\<close> macro of the header expands, over macros defined above it, to the arcs of an
  object identifier.
\<close>

theorem obj_macros_expand:
  "list_all (\<lambda>x. o_def x \<noteq> None \<longrightarrow> (\<exists>arcs. expands obj_mac (o_macro x) arcs \<and> valid_oid arcs)) obj_mac"
proof -
  have "list_all P (xs @ ys) \<longleftrightarrow> list_all P xs \<and> list_all P ys" for P :: "obj \<Rightarrow> bool" and xs ys by simp
  then show ?thesis
    using expands_parts unfolding list_all_iff by (simp only: obj_mac_def set_append ball_Un simp_thms)
qed

theorem obj_macros_expand_witness:
  "\<exists>arcs. expands obj_mac ''X9_62_prime256v1'' arcs \<and> valid_oid arcs"
proof -
  have "Obj ''X9_62_prime256v1'' (Some ''prime256v1'') None (Some 415) (Some (Some ''X9_62_primeCurve'', [7])) \<in> set obj_mac_1"
    unfolding obj_mac_1_def by simp
  then have "Obj ''X9_62_prime256v1'' (Some ''prime256v1'') None (Some 415) (Some (Some ''X9_62_primeCurve'', [7])) \<in> set obj_mac"
    using obj_mac_parts(2) by blast
  with obj_macros_expand show ?thesis unfolding list_all_iff by force
qed

text \<open>
  The registry is keyed by its numbers and by both kinds of names: no two objects share a NID, a
  short name or a long name.
\<close>

theorem obj_registry_keyed:
  assumes "x \<in> set obj_mac" "y \<in> set obj_mac"
  shows "(o_nid x = Some n \<and> o_nid y = Some n \<longrightarrow> x = y) \<and> (o_sn x = Some sn \<and> o_sn y = Some sn \<longrightarrow> x = y)
    \<and> (o_ln x = Some ln \<and> o_ln y = Some ln \<longrightarrow> x = y)"
  using by_nid.same_key [OF assms] by_sn.same_key [OF assms] by_ln.same_key [OF assms] by blast

end
