(* ===== verification/Queues.thy ===== *)
theory Queues
  imports Prelude "HOL-Library.Sublist"
begin

text \<open>
  Ground of the models of reSIProcate's utility templates (\<open>rutil\<close>): the machine
  integers they use, the outcome of a call (it returns, it blocks, or it breaks a rule of
  C++), and the interface of a message queue.

  The interface \<open>message_queue\<close> is what a producer and a consumer on different threads rely
  on: a put that is accepted appends its message, a put that is refused changes nothing that
  can be seen, a take delivers the oldest message or nothing. Each operation is one section
  under the queue's mutex, so a schedule of threads is a list of operations. What is proved
  in it, that nothing is lost, doubled or reordered, holds for every queue class that is an
  instance.
\<close>

type_synonym uint32 = "32 word"
type_synonym uint64 = "64 word"

section \<open>Machine integers and outcomes\<close>

lemma unat_less_bound: "unat (w :: 'a::len word) < 2 ^ LENGTH('a)"
  by (rule unsigned_less)

lemma unat_widen: "unat (ucast (w :: uint32) :: uint64) = unat w"
  using unat_less_bound [of w] by (simp add: unsigned_ucast_eq take_bit_nat_eq_self)

lemma unat_narrow: "unat (w :: uint64) < 2 ^ 32 \<Longrightarrow> unat (ucast w :: uint32) = unat w"
  by (simp add: unsigned_ucast_eq take_bit_nat_eq_self)

datatype rutil_error =
    AssertFailed    \<comment> \<open>a \<open>resip_assert\<close> that does not hold\<close>
  | EmptyDeque      \<comment> \<open>\<open>front\<close> or \<open>pop_front\<close> of an empty container\<close>
  | NullAccess      \<comment> \<open>a member access through a null pointer\<close>
  | Dangling        \<comment> \<open>a member access to an object that was deleted\<close>
  | BadWeakPtr      \<comment> \<open>the exception \<open>bad_weak_ptr\<close>\<close>
  | BadCast         \<comment> \<open>the exception \<open>std::bad_cast\<close>\<close>
  | BadAlloc        \<comment> \<open>the exception \<open>std::bad_alloc\<close>\<close>
  | ConversionRange \<comment> \<open>a floating-point value converted to an integer type that cannot hold it\<close>
  | InvalidFree     \<comment> \<open>\<open>operator delete\<close> of a pointer that \<open>operator new\<close> did not return\<close>

datatype 'a outcome = Done 'a | Blocked | Fault rutil_error

definition andthen :: "'a outcome \<Rightarrow> ('a \<Rightarrow> 'b outcome) \<Rightarrow> 'b outcome" where
  "andthen r k = (case r of Done a \<Rightarrow> k a | Blocked \<Rightarrow> Blocked | Fault e \<Rightarrow> Fault e)"

lemma andthen_simps [simp]:
  "andthen (Done a) k = k a"
  "andthen Blocked k = Blocked"
  "andthen (Fault e) k = Fault e"
  by (simp_all add: andthen_def)

lemma andthen_eq_Done: "andthen r k = Done b \<longleftrightarrow> (\<exists>a. r = Done a \<and> k a = Done b)"
  by (cases r) auto

lemma andthen_eq_Fault:
  "andthen r k = Fault e \<longleftrightarrow> r = Fault e \<or> (\<exists>a. r = Done a \<and> k a = Fault e)"
  by (cases r) auto

section \<open>Schedules of a queue\<close>

datatype ('i, 'j) qop = Put 'i | Take 'j

text \<open>One schedule: the messages accepted, the messages delivered, the state at the end.\<close>

fun run_queue ::
  "('i \<Rightarrow> 'm) \<Rightarrow> ('i \<Rightarrow> 's \<Rightarrow> bool \<times> 's) \<Rightarrow> ('j \<Rightarrow> 's \<Rightarrow> 'm option \<times> 's) \<Rightarrow>
   ('i, 'j) qop list \<Rightarrow> 's \<Rightarrow> 'm list \<times> 'm list \<times> 's" where
  "run_queue msg put pull [] s = ([], [], s)"
| "run_queue msg put pull (Put i # ops) s =
     (case put i s of (b, s1) \<Rightarrow>
      case run_queue msg put pull ops s1 of (acc, del, s2) \<Rightarrow>
        ((if b then msg i # acc else acc), del, s2))"
| "run_queue msg put pull (Take j # ops) s =
     (case pull j s of (r, s1) \<Rightarrow>
      case run_queue msg put pull ops s1 of (acc, del, s2) \<Rightarrow>
        (acc, (case r of None \<Rightarrow> del | Some m \<Rightarrow> m # del), s2))"

primrec offered :: "('i \<Rightarrow> 'm) \<Rightarrow> ('i, 'j) qop list \<Rightarrow> 'm list" where
  "offered msg [] = []"
| "offered msg (p # ops) = (case p of Put i \<Rightarrow> msg i # offered msg ops | Take j \<Rightarrow> offered msg ops)"

locale message_queue =
  fixes content :: "'s \<Rightarrow> 'm list"
    and inv :: "'s \<Rightarrow> bool"
    and msg :: "'i \<Rightarrow> 'm"
    and put :: "'i \<Rightarrow> 's \<Rightarrow> bool \<times> 's"
    and pull :: "'j \<Rightarrow> 's \<Rightarrow> 'm option \<times> 's"
  assumes put_content: "inv s \<Longrightarrow> put i s = (b, s') \<Longrightarrow>
            content s' = (if b then content s @ [msg i] else content s) \<and> inv s'"
    and pull_content: "inv s \<Longrightarrow> pull j s = (r, s') \<Longrightarrow>
            content s = (case r of None \<Rightarrow> content s' | Some m \<Rightarrow> m # content s') \<and> inv s'"
begin

lemma conserved:
  "inv s \<Longrightarrow> run_queue msg put pull ops s = (acc, del, s') \<Longrightarrow>
     content s @ acc = del @ content s' \<and> inv s'"
proof (induction ops arbitrary: s acc del s')
  case Nil
  then show ?case by simp
next
  case (Cons p ops)
  show ?case
  proof (cases p)
    case (Put i)
    obtain b s1 where put: "put i s = (b, s1)" by (cases "put i s")
    obtain acc1 del1 s2 where rest: "run_queue msg put pull ops s1 = (acc1, del1, s2)"
      by (cases "run_queue msg put pull ops s1") auto
    from put_content [OF Cons.prems(1) put] Cons.IH [OF _ rest]
    have "content s1 @ acc1 = del1 @ content s2" "inv s2"
      and "content s1 = (if b then content s @ [msg i] else content s)" by auto
    with Cons.prems(2) Put put rest show ?thesis by (cases b) auto
  next
    case (Take j)
    obtain r s1 where pull: "pull j s = (r, s1)" by (cases "pull j s")
    obtain acc1 del1 s2 where rest: "run_queue msg put pull ops s1 = (acc1, del1, s2)"
      by (cases "run_queue msg put pull ops s1") auto
    from pull_content [OF Cons.prems(1) pull] Cons.IH [OF _ rest]
    have "content s1 @ acc1 = del1 @ content s2" "inv s2"
      and "content s = (case r of None \<Rightarrow> content s1 | Some m \<Rightarrow> m # content s1)" by auto
    with Cons.prems(2) Take pull rest show ?thesis by (cases r) auto
  qed
qed

lemma delivered_in_order:
  assumes "inv s" and "content s = []" and "run_queue msg put pull ops s = (acc, del, s')"
  shows "prefix del acc"
  using conserved [OF assms(1,3)] assms(2) by (auto intro: prefixI)

end

lemma accepted_subseq:
  "run_queue msg put pull ops s = (acc, del, s') \<Longrightarrow> subseq acc (offered msg ops)"
proof (induction ops arbitrary: s acc del s')
  case (Cons p ops)
  then show ?case by (cases p) (fastforce split: prod.splits if_splits)+
qed simp

lemma run_queue_keeps:
  assumes "\<forall>i s. Put i \<in> set ops \<longrightarrow> P s \<longrightarrow> P (snd (put i s))"
    and "\<forall>j s. P s \<longrightarrow> P (snd (pull j s))"
    and "P s"
  shows "P (snd (snd (run_queue msg put pull ops s)))"
  using assms(1,3)
proof (induction ops arbitrary: s)
  case Nil
  then show ?case by simp
next
  case (Cons p ops)
  have rest: "P t \<Longrightarrow> P (snd (snd (run_queue msg put pull ops t)))" for t
    using Cons.IH Cons.prems(1) by simp
  show ?case
  proof (cases p)
    case (Put i)
    with Cons.prems have "P (snd (put i s))" by simp
    from rest [OF this] Put show ?thesis by (simp add: case_prod_unfold)
  next
    case (Take j)
    with assms(2) Cons.prems have "P (snd (pull j s))" by simp
    from rest [OF this] Take show ?thesis by (simp add: case_prod_unfold)
  qed
qed

text \<open>A queue that refuses nothing.\<close>

locale unbounded_queue = message_queue +
  assumes put_accepts: "inv s \<Longrightarrow> fst (put i s)"
begin

lemma accepts_all:
  "inv s \<Longrightarrow> run_queue msg put pull ops s = (acc, del, s') \<Longrightarrow> acc = offered msg ops"
proof (induction ops arbitrary: s acc del s')
  case Nil
  then show ?case by simp
next
  case (Cons p ops)
  show ?case
  proof (cases p)
    case (Put i)
    obtain b s1 where put: "put i s = (b, s1)" by (cases "put i s")
    with put_accepts [OF Cons.prems(1), of i] have b by simp
    have "inv s1" using put_content [OF Cons.prems(1) put] by simp
    with Cons Put put \<open>b\<close> show ?thesis by (auto split: prod.splits)
  next
    case (Take j)
    obtain r s1 where pull: "pull j s = (r, s1)" by (cases "pull j s")
    have "inv s1" using pull_content [OF Cons.prems(1) pull] by simp
    with Cons Take pull show ?thesis by (auto split: prod.splits)
  qed
qed

lemma all_accounted:
  "inv s \<Longrightarrow> run_queue msg put pull ops s = (acc, del, s') \<Longrightarrow>
     content s @ offered msg ops = del @ content s'"
  using conserved accepts_all by blast

end

text \<open>A queue whose take delivers whenever there is something to deliver.\<close>

locale serving_queue = message_queue +
  assumes pull_serves: "inv s \<Longrightarrow> content s \<noteq> [] \<Longrightarrow> fst (pull j s) \<noteq> None"
begin

lemma drains:
  assumes "inv s"
  shows "\<exists>s'. run_queue msg put pull (map Take js) s = ([], List.take (length js) (content s), s')
           \<and> content s' = drop (length js) (content s) \<and> inv s'"
  using assms
proof (induction js arbitrary: s)
  case Nil
  then show ?case by simp
next
  case (Cons j js)
  obtain r s1 where pull: "pull j s = (r, s1)" by (cases "pull j s")
  note law = pull_content [OF Cons.prems pull]
  then obtain s2 where s2: "run_queue msg put pull (map Take js) s1 =
      ([], List.take (length js) (content s1), s2)"
      "content s2 = drop (length js) (content s1)" "inv s2"
    using Cons.IH by blast
  show ?case
  proof (cases r)
    case None
    with law pull pull_serves [OF Cons.prems, of j] have "content s = []" "content s1 = []" by auto
    with None pull s2 show ?thesis by simp
  next
    case (Some m)
    with law have "content s = m # content s1" by simp
    with Some pull s2 show ?thesis by simp
  qed
qed

end

end
