(* ===== verification/SharedPtrs.thy ===== *)
theory SharedPtrs
  imports Queues "HOL-Library.Multiset"
begin

text \<open>
  The reference counting of \<open>rutil/SharedCount.hxx\<close> and \<open>rutil/SharedPtr.hxx\<close>, which
  holds the profiles, messages and bodies that the endpoint passes to the stack.

  \<open>blocks\<close> is the heap of \<open>sp_counted_base\<close> objects, by address; \<open>deleted\<close> lists the
  objects whose deleter ran, in order; \<open>vars\<close> are the program's \<open>SharedPtr\<close> variables, a
  null one for each that is not alive. A member call on a block that was destructed is the
  failure \<open>Dangling\<close>. Counters are integers: a \<open>long\<close> cannot count more handles than
  fit into memory. An allocation may fail; whether it does is the argument \<open>ok\<close>. The deleter
  is \<open>checked_deleter\<close>, and destructors of the managed objects do not touch the variables.
\<close>

section \<open>sp_counted_base\<close>

record 'p block =
  useCount :: int
  weakCount :: int
  block_ptr :: "'p option"

record 'p sptr =
  px :: "'p option"
  pn :: "nat option"

record 'p sp_state =
  blocks :: "nat \<Rightarrow> 'p block option"
  next_block :: nat
  deleted :: "'p list"
  vars :: "'p sptr list"

definition new_block :: "'p option \<Rightarrow> 'p block" where
  "new_block p = \<lparr>useCount = 1, weakCount = 1, block_ptr = p\<rparr>"

definition with_block ::
  "nat \<Rightarrow> ('p block \<Rightarrow> 'p sp_state \<Rightarrow> rutil_error + 'a) \<Rightarrow> 'p sp_state \<Rightarrow> rutil_error + 'a" where
  "with_block a k s = (case blocks s a of None \<Rightarrow> Inl Dangling | Some b \<Rightarrow> k b s)"

definition set_block :: "nat \<Rightarrow> 'p block \<Rightarrow> 'p sp_state \<Rightarrow> 'p sp_state" where
  "set_block a b s = s\<lparr>blocks := (blocks s)(a \<mapsto> b)\<rparr>"

text \<open>\<open>delete\<close> of a null pointer does nothing.\<close>

definition checked_delete :: "'p option \<Rightarrow> 'p sp_state \<Rightarrow> 'p sp_state" where
  "checked_delete p s = (case p of None \<Rightarrow> s | Some x \<Rightarrow> s\<lparr>deleted := deleted s @ [x]\<rparr>)"

definition dispose :: "'p block \<Rightarrow> 'p sp_state \<Rightarrow> 'p sp_state" where
  "dispose b s = checked_delete (block_ptr b) s"

definition destruct :: "nat \<Rightarrow> 'p sp_state \<Rightarrow> 'p sp_state" where
  "destruct a s = s\<lparr>blocks := (blocks s)(a := None)\<rparr>"

definition add_ref_copy :: "nat \<Rightarrow> 'p sp_state \<Rightarrow> rutil_error + 'p sp_state" where
  "add_ref_copy a = with_block a (\<lambda>b s. Inr (set_block a (b\<lparr>useCount := useCount b + 1\<rparr>) s))"

definition add_ref_lock :: "nat \<Rightarrow> 'p sp_state \<Rightarrow> rutil_error + 'p sp_state" where
  "add_ref_lock a = with_block a (\<lambda>b s.
     if useCount b = 0 then Inl BadWeakPtr
     else Inr (set_block a (b\<lparr>useCount := useCount b + 1\<rparr>) s))"

definition weak_add_ref :: "nat \<Rightarrow> 'p sp_state \<Rightarrow> rutil_error + 'p sp_state" where
  "weak_add_ref a = with_block a (\<lambda>b s. Inr (set_block a (b\<lparr>weakCount := weakCount b + 1\<rparr>) s))"

definition weak_release :: "nat \<Rightarrow> 'p sp_state \<Rightarrow> rutil_error + 'p sp_state" where
  "weak_release a = with_block a (\<lambda>b s.
     let new_weak_count = weakCount b - 1;
         s = set_block a (b\<lparr>weakCount := new_weak_count\<rparr>) s
     in if new_weak_count = 0 then Inr (destruct a s) else Inr s)"

definition release :: "nat \<Rightarrow> 'p sp_state \<Rightarrow> rutil_error + 'p sp_state" where
  "release a = with_block a (\<lambda>b s.
     let new_use_count = useCount b - 1;
         s = set_block a (b\<lparr>useCount := new_use_count\<rparr>) s
     in if new_use_count \<noteq> 0 then Inr s else weak_release a (dispose b s))"

definition block_use_count :: "nat \<Rightarrow> 'p sp_state \<Rightarrow> rutil_error + int" where
  "block_use_count a = with_block a (\<lambda>b s. Inr (useCount b))"

section \<open>shared_count\<close>

text \<open>The constructor deletes the object itself and rethrows when there is no memory for the
  block; the one for \<open>auto_ptr\<close> leaves the object with its owner in that case.\<close>

definition alloc_block :: "'p option \<Rightarrow> 'p sp_state \<Rightarrow> nat \<times> 'p sp_state" where
  "alloc_block p s =
     (next_block s, (set_block (next_block s) (new_block p) s)\<lparr>next_block := Suc (next_block s)\<rparr>)"

definition shared_count_new ::
  "bool \<Rightarrow> 'p option \<Rightarrow> 'p sp_state \<Rightarrow> (rutil_error + nat option) \<times> 'p sp_state" where
  "shared_count_new ok p s =
     (if ok then (case alloc_block p s of (a, s') \<Rightarrow> (Inr (Some a), s'))
      else (Inl BadAlloc, checked_delete p s))"

definition shared_count_auto ::
  "bool \<Rightarrow> 'p option \<Rightarrow> 'p sp_state \<Rightarrow> ((rutil_error + nat option) \<times> 'p option) \<times> 'p sp_state" where
  "shared_count_auto ok r s =
     (if ok then (case alloc_block r s of (a, s') \<Rightarrow> ((Inr (Some a), None), s'))
      else ((Inl BadAlloc, r), s))"

definition shared_count_copy :: "nat option \<Rightarrow> 'p sp_state \<Rightarrow> rutil_error + 'p sp_state" where
  "shared_count_copy r s = (case r of None \<Rightarrow> Inr s | Some a \<Rightarrow> add_ref_copy a s)"

definition shared_count_destroy :: "nat option \<Rightarrow> 'p sp_state \<Rightarrow> rutil_error + 'p sp_state" where
  "shared_count_destroy r s = (case r of None \<Rightarrow> Inr s | Some a \<Rightarrow> release a s)"

definition shared_count_assign ::
  "nat option \<Rightarrow> nat option \<Rightarrow> 'p sp_state \<Rightarrow> rutil_error + nat option \<times> 'p sp_state" where
  "shared_count_assign this r s =
     bindr (shared_count_copy r s) (\<lambda>s.
     bindr (shared_count_destroy this s) (\<lambda>s. Inr (r, s)))"

definition shared_count_use_count :: "nat option \<Rightarrow> 'p sp_state \<Rightarrow> rutil_error + int" where
  "shared_count_use_count r s = (case r of None \<Rightarrow> Inr 0 | Some a \<Rightarrow> block_use_count a s)"

definition shared_count_unique :: "nat option \<Rightarrow> 'p sp_state \<Rightarrow> rutil_error + bool" where
  "shared_count_unique r s = bindr (shared_count_use_count r s) (\<lambda>n. Inr (n = 1))"

section \<open>SharedPtr\<close>

definition null_ptr :: "'p sptr" where
  "null_ptr = \<lparr>px = None, pn = None\<rparr>"

definition SharedPtr_new ::
  "bool \<Rightarrow> 'p option \<Rightarrow> 'p sp_state \<Rightarrow> (rutil_error + 'p sptr) \<times> 'p sp_state" where
  "SharedPtr_new ok p s = (case shared_count_new ok p s of
       (Inr n, s') \<Rightarrow> (Inr \<lparr>px = p, pn = n\<rparr>, s')
     | (Inl e, s') \<Rightarrow> (Inl e, s'))"

text \<open>The result also holds what the \<open>auto_ptr\<close> owns afterwards.\<close>

definition SharedPtr_auto ::
  "bool \<Rightarrow> 'p option \<Rightarrow> 'p sp_state \<Rightarrow> ((rutil_error + 'p sptr) \<times> 'p option) \<times> 'p sp_state" where
  "SharedPtr_auto ok r s = (case shared_count_auto ok r s of
       ((Inr n, r'), s') \<Rightarrow> ((Inr \<lparr>px = r, pn = n\<rparr>, r'), s')
     | ((Inl e, r'), s') \<Rightarrow> ((Inl e, r'), s'))"

definition SharedPtr_copy :: "'p sptr \<Rightarrow> 'p sp_state \<Rightarrow> rutil_error + 'p sptr \<times> 'p sp_state" where
  "SharedPtr_copy r s = bindr (shared_count_copy (pn r) s) (\<lambda>s. Inr (\<lparr>px = px r, pn = pn r\<rparr>, s))"

definition SharedPtr_destroy :: "'p sptr \<Rightarrow> 'p sp_state \<Rightarrow> rutil_error + 'p sp_state" where
  "SharedPtr_destroy this s = shared_count_destroy (pn this) s"

definition SharedPtr_assign ::
  "'p sptr \<Rightarrow> 'p sptr \<Rightarrow> 'p sp_state \<Rightarrow> rutil_error + 'p sptr \<times> 'p sp_state" where
  "SharedPtr_assign this r s =
     bindr (shared_count_assign (pn this) (pn r) s) (\<lambda>(n, s). Inr (\<lparr>px = px r, pn = n\<rparr>, s))"

definition SharedPtr_swap :: "'p sptr \<Rightarrow> 'p sptr \<Rightarrow> 'p sptr \<times> 'p sptr" where
  "SharedPtr_swap this other =
     (\<lparr>px = px other, pn = pn other\<rparr>, \<lparr>px = px this, pn = pn this\<rparr>)"

definition SharedPtr_reset :: "'p sptr \<Rightarrow> 'p sp_state \<Rightarrow> rutil_error + 'p sptr \<times> 'p sp_state" where
  "SharedPtr_reset this s =
     (case SharedPtr_swap null_ptr this of (temp, this) \<Rightarrow>
      bindr (SharedPtr_destroy temp s) (\<lambda>s. Inr (this, s)))"

text \<open>An exception of the allocation leaves the variable as it was.\<close>

definition SharedPtr_reset_to ::
  "bool \<Rightarrow> 'p sptr \<Rightarrow> 'p option \<Rightarrow> 'p sp_state \<Rightarrow> rutil_error + 'p sptr \<times> 'p sp_state" where
  "SharedPtr_reset_to ok this p s =
     (if \<not> (p = None \<or> p \<noteq> px this) then Inl AssertFailed
      else case SharedPtr_new ok p s of
        (Inl e, s) \<Rightarrow> Inr (this, s)
      | (Inr temp, s) \<Rightarrow>
          (case SharedPtr_swap temp this of (temp, this) \<Rightarrow>
           bindr (SharedPtr_destroy temp s) (\<lambda>s. Inr (this, s))))"

definition SharedPtr_deref :: "'p sptr \<Rightarrow> rutil_error + 'p" where
  "SharedPtr_deref this = (case px this of None \<Rightarrow> Inl AssertFailed | Some p \<Rightarrow> Inr p)"

definition SharedPtr_use_count :: "'p sptr \<Rightarrow> 'p sp_state \<Rightarrow> rutil_error + int" where
  "SharedPtr_use_count this s = shared_count_use_count (pn this) s"

definition SharedPtr_unique :: "'p sptr \<Rightarrow> 'p sp_state \<Rightarrow> rutil_error + bool" where
  "SharedPtr_unique this s = shared_count_unique (pn this) s"

text \<open>The casts take the conversion of the raw pointer as an argument: the pointer itself, or
  null when the object is not of the type.\<close>

definition dynamic_pointer_cast ::
  "bool \<Rightarrow> 'p sptr \<Rightarrow> 'p sp_state \<Rightarrow> rutil_error + 'p sptr \<times> 'p sp_state" where
  "dynamic_pointer_cast is_a r s =
     bindr (SharedPtr_copy r s) (\<lambda>(q, s).
     let q = q\<lparr>px := (if is_a then px r else None)\<rparr> in
     if px q = None
     then bindr (shared_count_assign (pn q) None s) (\<lambda>(n, s). Inr (q\<lparr>pn := n\<rparr>, s))
     else Inr (q, s))"

definition polymorphic_cast ::
  "bool \<Rightarrow> 'p sptr \<Rightarrow> 'p sp_state \<Rightarrow> rutil_error + (rutil_error + 'p sptr) \<times> 'p sp_state" where
  "polymorphic_cast is_a r s =
     bindr (SharedPtr_copy r s) (\<lambda>(q, s).
     let q = q\<lparr>px := (if is_a then px r else None)\<rparr> in
     if px q = None then bindr (SharedPtr_destroy q s) (\<lambda>s. Inr (Inl BadCast, s))
     else Inr (Inr q, s))"

section \<open>A program with SharedPtr variables\<close>

text \<open>A constructor and a cast fill a variable that is not alive yet; \<open>Destroy\<close> ends its
  life. The flags say whether the allocation succeeds and whether the object is of the type.\<close>

datatype 'p sp_op =
    Construct nat "'p option" bool
  | Adopt nat "'p option" bool
  | CopyConstruct nat nat
  | Assign nat nat
  | Reset nat
  | ResetTo nat "'p option" bool
  | SwapVars nat nat
  | DynamicCast nat nat bool
  | PolymorphicCast nat nat bool
  | Destroy nat

definition set_var :: "nat \<Rightarrow> 'p sptr \<times> 'p sp_state \<Rightarrow> rutil_error + 'p sp_state" where
  "set_var v = (\<lambda>(q, s). Inr (s\<lparr>vars := (vars s)[v := q]\<rparr>))"

fun sp_exec :: "'p sp_state \<Rightarrow> 'p sp_op \<Rightarrow> rutil_error + 'p sp_state" where
  "sp_exec s (Construct v p ok) =
     (case SharedPtr_new ok p s of (Inr q, s') \<Rightarrow> set_var v (q, s') | (Inl e, s') \<Rightarrow> Inr s')"
| "sp_exec s (Adopt v p ok) =
     (case SharedPtr_auto ok p s of ((Inr q, r), s') \<Rightarrow> set_var v (q, s') | ((Inl e, r), s') \<Rightarrow> Inr s')"
| "sp_exec s (CopyConstruct v w) = bindr (SharedPtr_copy (vars s ! w) s) (set_var v)"
| "sp_exec s (Assign v w) = bindr (SharedPtr_assign (vars s ! v) (vars s ! w) s) (set_var v)"
| "sp_exec s (Reset v) = bindr (SharedPtr_reset (vars s ! v) s) (set_var v)"
| "sp_exec s (ResetTo v p ok) = bindr (SharedPtr_reset_to ok (vars s ! v) p s) (set_var v)"
| "sp_exec s (SwapVars v w) =
     (case SharedPtr_swap (vars s ! v) (vars s ! w) of
        (q, r) \<Rightarrow> Inr (s\<lparr>vars := (vars s)[v := q, w := r]\<rparr>))"
| "sp_exec s (DynamicCast v w is_a) = bindr (dynamic_pointer_cast is_a (vars s ! w) s) (set_var v)"
| "sp_exec s (PolymorphicCast v w is_a) =
     bindr (polymorphic_cast is_a (vars s ! w) s) (\<lambda>(r, s').
     case r of Inr q \<Rightarrow> set_var v (q, s') | Inl e \<Rightarrow> Inr s')"
| "sp_exec s (Destroy v) = bindr (SharedPtr_destroy (vars s ! v) s) (\<lambda>s'. set_var v (null_ptr, s'))"

text \<open>What the program has to keep to: variables exist, a new variable is not alive, and a raw
  pointer is handed over once.\<close>

definition unowned :: "'p option \<Rightarrow> 'p sp_state \<Rightarrow> bool" where
  "unowned p s = (case p of None \<Rightarrow> True | Some x \<Rightarrow> x \<notin> set (deleted s) \<and> Some x \<notin> px ` set (vars s))"

definition var :: "nat \<Rightarrow> 'p sp_state \<Rightarrow> bool" where
  "var v s = (v < length (vars s))"

definition dead :: "nat \<Rightarrow> 'p sp_state \<Rightarrow> bool" where
  "dead v s = (v < length (vars s) \<and> vars s ! v = null_ptr)"

fun sp_guard :: "'p sp_state \<Rightarrow> 'p sp_op \<Rightarrow> bool" where
  "sp_guard s (Construct v p ok) = (dead v s \<and> unowned p s)"
| "sp_guard s (Adopt v p ok) = (dead v s \<and> unowned p s)"
| "sp_guard s (CopyConstruct v w) = (dead v s \<and> var w s)"
| "sp_guard s (Assign v w) = (var v s \<and> var w s)"
| "sp_guard s (Reset v) = var v s"
| "sp_guard s (ResetTo v p ok) = (var v s \<and> unowned p s)"
| "sp_guard s (SwapVars v w) = (var v s \<and> var w s)"
| "sp_guard s (DynamicCast v w is_a) = (dead v s \<and> var w s)"
| "sp_guard s (PolymorphicCast v w is_a) = (dead v s \<and> var w s)"
| "sp_guard s (Destroy v) = var v s"

definition sp_start :: "nat \<Rightarrow> 'p sp_state" where
  "sp_start n = \<lparr>blocks = (\<lambda>a. None), next_block = 0, deleted = [], vars = replicate n null_ptr\<rparr>"

section \<open>The invariant\<close>

definition refs :: "'p sptr multiset \<Rightarrow> nat \<Rightarrow> nat" where
  "refs H a = size {# q \<in># H. pn q = Some a #}"

definition owner :: "'p sp_state \<Rightarrow> nat \<Rightarrow> 'p \<Rightarrow> bool" where
  "owner s a p = (\<exists>b. blocks s a = Some b \<and> block_ptr b = Some p)"

text \<open>\<open>sp_inv H s\<close>: \<open>H\<close> are all handles there are, temporaries included.\<close>

definition sp_inv :: "'p sptr multiset \<Rightarrow> 'p sp_state \<Rightarrow> bool" where
  "sp_inv H s =
    ((\<forall>a. blocks s a = None \<longrightarrow> refs H a = 0) \<and>
     (\<forall>a b. blocks s a = Some b \<longrightarrow> 0 < refs H a \<and> useCount b = int (refs H a)
        \<and> weakCount b = 1 \<and> a < next_block s) \<and>
     (\<forall>q \<in># H. pn q = None \<longrightarrow> px q = None) \<and>
     (\<forall>q \<in># H. \<forall>a. pn q = Some a \<longrightarrow> (\<exists>b. blocks s a = Some b \<and> block_ptr b = px q)) \<and>
     (\<forall>a a' p. owner s a p \<longrightarrow> owner s a' p \<longrightarrow> a = a') \<and>
     (\<forall>a p. owner s a p \<longrightarrow> p \<notin> set (deleted s)) \<and>
     distinct (deleted s))"

definition sp_wf :: "'p sp_state \<Rightarrow> bool" where
  "sp_wf s = sp_inv (mset (vars s)) s"

lemma refs_simps [simp]:
  "refs {#} a = 0"
  "refs (add_mset q H) a = refs H a + (if pn q = Some a then 1 else 0)"
  by (simp_all add: refs_def)

lemma refs_0: "refs H a = 0 \<longleftrightarrow> (\<forall>q \<in># H. pn q \<noteq> Some a)"
  by (auto simp: refs_def filter_mset_eq_mempty_iff)

lemma sp_inv_vars [simp]: "sp_inv H (s\<lparr>vars := vs\<rparr>) = sp_inv H s"
  by (simp add: sp_inv_def owner_def)

lemma sp_inv_null [simp]: "sp_inv (add_mset null_ptr H) s = sp_inv H s"
  by (auto simp: sp_inv_def null_ptr_def)

lemma sp_invD:
  assumes "sp_inv H s"
  shows "blocks s a = None \<Longrightarrow> refs H a = 0"
    and "blocks s a = Some b \<Longrightarrow>
      0 < refs H a \<and> useCount b = int (refs H a) \<and> weakCount b = 1 \<and> a < next_block s"
    and "q \<in># H \<Longrightarrow> pn q = None \<Longrightarrow> px q = None"
    and "q \<in># H \<Longrightarrow> pn q = Some a \<Longrightarrow> \<exists>b. blocks s a = Some b \<and> block_ptr b = px q"
    and "owner s a p \<Longrightarrow> owner s a' p \<Longrightarrow> a = a'"
    and "owner s a p \<Longrightarrow> p \<notin> set (deleted s)"
    and "distinct (deleted s)"
  using assms by (auto simp: sp_inv_def)

lemma sp_invI:
  assumes "\<And>a. blocks s a = None \<Longrightarrow> refs H a = 0"
    and "\<And>a b. blocks s a = Some b \<Longrightarrow>
      0 < refs H a \<and> useCount b = int (refs H a) \<and> weakCount b = 1 \<and> a < next_block s"
    and "\<And>q. q \<in># H \<Longrightarrow> pn q = None \<Longrightarrow> px q = None"
    and "\<And>q a. q \<in># H \<Longrightarrow> pn q = Some a \<Longrightarrow> \<exists>b. blocks s a = Some b \<and> block_ptr b = px q"
    and "\<And>a a' p. owner s a p \<Longrightarrow> owner s a' p \<Longrightarrow> a = a'"
    and "\<And>a p. owner s a p \<Longrightarrow> p \<notin> set (deleted s)"
    and "distinct (deleted s)"
  shows "sp_inv H s"
  unfolding sp_inv_def using assms by blast

lemma handle_of_block:
  assumes "sp_inv H s" and "blocks s a = Some b"
  shows "\<exists>q \<in># H. pn q = Some a \<and> px q = block_ptr b"
proof -
  from sp_invD(2) [OF assms] obtain q where "q \<in># H" "pn q = Some a"
    using refs_0 [of H a] by auto
  with sp_invD(4) [OF assms(1) this] assms(2) show ?thesis by auto
qed

text \<open>The objects that were handed over: deleted, or held by a handle.\<close>

definition objects :: "'p sptr multiset \<Rightarrow> 'p sp_state \<Rightarrow> 'p set" where
  "objects H s = set (deleted s) \<union> {p. \<exists>q \<in># H. px q = Some p}"

lemma copy_keeps:
  assumes "sp_inv H s" and "q \<in># H"
  shows "\<exists>s'. shared_count_copy (pn q) s = Inr s' \<and> sp_inv (add_mset q H) s' \<and> vars s' = vars s
    \<and> deleted s' = deleted s"
proof (cases "pn q")
  case None
  with assms show ?thesis by (auto simp: shared_count_copy_def sp_inv_def)
next
  case (Some a)
  then obtain b where b: "blocks s a = Some b" "block_ptr b = px q"
    using sp_invD(4) [OF assms] by blast
  let ?s = "set_block a (b\<lparr>useCount := useCount b + 1\<rparr>) s"
  have owner: "owner ?s a' p = owner s a' p" for a' p
    using b by (auto simp: owner_def set_block_def)
  have "sp_inv (add_mset q H) ?s"
    unfolding sp_inv_def owner using assms(1) b Some
    by (auto simp: sp_inv_def set_block_def split: if_splits)
  then show ?thesis using b Some
    by (auto simp: shared_count_copy_def add_ref_copy_def with_block_def set_block_def)
qed

text \<open>Destroying a handle deletes the object exactly when it was the last handle on its block.\<close>

definition last_object :: "'p sptr \<Rightarrow> 'p sptr multiset \<Rightarrow> 'p list" where
  "last_object q H = (case (pn q, px q) of
     (Some a, Some p) \<Rightarrow> if \<forall>r \<in># H. pn r \<noteq> Some a then [p] else [] | _ \<Rightarrow> [])"

lemma destroy_shared:
  assumes inv: "sp_inv (add_mset q H) s" and a: "pn q = Some a" and b: "blocks s a = Some b"
    and more: "refs H a \<noteq> 0"
  shows "release a s = Inr (set_block a (b\<lparr>useCount := useCount b - 1\<rparr>) s)"
    and "sp_inv H (set_block a (b\<lparr>useCount := useCount b - 1\<rparr>) s)"
proof -
  have use: "useCount b = int (refs H a) + 1" "weakCount b = 1"
    using sp_invD(2) [OF inv b] a by simp_all
  then show "release a s = Inr (set_block a (b\<lparr>useCount := useCount b - 1\<rparr>) s)"
    using b more by (simp add: release_def with_block_def Let_def)
  let ?s = "set_block a (b\<lparr>useCount := useCount b - 1\<rparr>) s"
  have owner: "owner ?s a' p = owner s a' p" for a' p
    using b by (auto simp: owner_def set_block_def)
  show "sp_inv H ?s"
    unfolding sp_inv_def owner using inv b a more use
    by (auto simp: sp_inv_def set_block_def split: if_splits)
qed

lemma destroy_last:
  assumes inv: "sp_inv (add_mset q H) s" and a: "pn q = Some a" and b: "blocks s a = Some b"
    and last: "refs H a = 0"
  shows "release a s = Inr (destruct a (dispose b s))"
    and "sp_inv H (destruct a (dispose b s))"
proof -
  have use: "useCount b = 1" "weakCount b = 1"
    using sp_invD(2) [OF inv b] a last by simp_all
  show "release a s = Inr (destruct a (dispose b s))"
    using b use
    by (auto simp: release_def weak_release_def with_block_def Let_def set_block_def dispose_def
        checked_delete_def destruct_def split: option.split)
  let ?s = "destruct a (dispose b s)"
  have blocks: "blocks ?s = (blocks s)(a := None)" "next_block ?s = next_block s"
    and deleted: "deleted ?s = deleted s @ (case block_ptr b of None \<Rightarrow> [] | Some p \<Rightarrow> [p])"
    by (auto simp: destruct_def dispose_def checked_delete_def split: option.split)
  have owner: "owner ?s a' p \<longleftrightarrow> owner s a' p \<and> a' \<noteq> a" for a' p
    by (auto simp: owner_def blocks)
  have mine: "block_ptr b = Some p \<Longrightarrow> owner s a p" for p using b by (auto simp: owner_def)
  have "p \<notin> set (deleted ?s)" if "owner ?s a' p" for a' p
    using that sp_invD(5,6) [OF inv] mine by (auto simp: owner deleted split: option.splits)
  moreover have "distinct (deleted ?s)"
    using sp_invD(6,7) [OF inv] mine by (auto simp: deleted split: option.split)
  moreover have "\<forall>q \<in># H. pn q \<noteq> Some a" using last refs_0 by metis
  ultimately show "sp_inv H ?s"
    using inv last a by (auto simp: sp_inv_def blocks owner split: if_splits)
qed

lemma destroy_keeps:
  assumes inv: "sp_inv (add_mset q H) s"
  shows "\<exists>s'. shared_count_destroy (pn q) s = Inr s' \<and> sp_inv H s' \<and> vars s' = vars s
    \<and> deleted s' = deleted s @ last_object q H"
proof (cases "pn q")
  case None
  with inv show ?thesis by (auto simp: shared_count_destroy_def sp_inv_def last_object_def)
next
  case (Some a)
  then obtain b where b: "blocks s a = Some b" "block_ptr b = px q"
    using sp_invD(4) [OF inv, of q a] by auto
  show ?thesis
  proof (cases "refs H a = 0")
    case True
    then have "\<forall>r \<in># H. pn r \<noteq> Some a" using refs_0 by metis
    then show ?thesis using destroy_last [OF inv Some b(1) True] Some b(2)
      by (auto simp: shared_count_destroy_def last_object_def destruct_def dispose_def
          checked_delete_def split: option.split)
  next
    case False
    then have "\<not> (\<forall>r \<in># H. pn r \<noteq> Some a)" using refs_0 by metis
    then show ?thesis using destroy_shared [OF inv Some b(1) False] Some
      by (auto simp: shared_count_destroy_def last_object_def set_block_def split: option.split)
  qed
qed

lemma destroy_objects:
  assumes inv: "sp_inv (add_mset q H) s"
  shows "set (deleted s @ last_object q H) \<union> {p. \<exists>r \<in># H. px r = Some p} = objects (add_mset q H) s"
proof -
  have "(\<exists>r \<in># H. px r = Some p) \<or> p \<in> set (last_object q H)" if held: "px q = Some p" for p
  proof -
    obtain a where a: "pn q = Some a" using sp_invD(3) [OF inv, of q] held by (cases "pn q") auto
    then obtain b where b: "blocks s a = Some b" "block_ptr b = Some p"
      using sp_invD(4) [OF inv, of q a] held by auto
    show ?thesis
    proof (cases "\<forall>r \<in># H. pn r \<noteq> Some a")
      case True
      with a held show ?thesis by (simp add: last_object_def)
    next
      case False
      then obtain r where "r \<in># H" "pn r = Some a" by blast
      with sp_invD(4) [OF inv, of r a] b show ?thesis by auto
    qed
  qed
  moreover have "p \<in> set (last_object q H) \<Longrightarrow> px q = Some p" for p
    by (auto simp: last_object_def split: option.splits if_splits)
  ultimately show ?thesis by (auto simp: objects_def)
qed

definition free_for :: "'p option \<Rightarrow> 'p sptr multiset \<Rightarrow> 'p sp_state \<Rightarrow> bool" where
  "free_for p H s = (\<forall>x. p = Some x \<longrightarrow> x \<notin> objects H s)"

lemma alloc_keeps:
  assumes inv: "sp_inv H s" and "free_for p H s"
  shows "\<exists>s'. alloc_block p s = (next_block s, s') \<and> vars s' = vars s \<and> deleted s' = deleted s
    \<and> sp_inv (add_mset \<lparr>px = p, pn = Some (next_block s)\<rparr> H) s'"
proof -
  let ?n = "next_block s" and ?s = "snd (alloc_block p s)"
  have blocks: "blocks ?s = (blocks s)(?n \<mapsto> new_block p)" "next_block ?s = Suc ?n" "deleted ?s = deleted s"
    by (simp_all add: alloc_block_def set_block_def)
  have none: "blocks s ?n = None" using sp_invD(2) [OF inv, of ?n] by (cases "blocks s ?n") auto
  then have refs: "refs H ?n = 0" using sp_invD(1) [OF inv] by blast
  have owner: "owner ?s a x \<longleftrightarrow> (if a = ?n then p = Some x else owner s a x)" for a x
    by (auto simp: owner_def blocks new_block_def)
  have fresh: "\<not> owner s a x \<and> x \<notin> set (deleted s)" if "p = Some x" for a x
    using assms(2) that handle_of_block [OF inv, of a]
    by (fastforce simp: free_for_def objects_def owner_def)
  have "sp_inv (add_mset \<lparr>px = p, pn = Some ?n\<rparr> H) ?s"
  proof (rule sp_invI)
    show "0 < refs (add_mset \<lparr>px = p, pn = Some ?n\<rparr> H) a
        \<and> useCount b = int (refs (add_mset \<lparr>px = p, pn = Some ?n\<rparr> H) a)
        \<and> weakCount b = 1 \<and> a < next_block ?s" if "blocks ?s a = Some b" for a b
      using that sp_invD(2) [OF inv, of a b] refs
      by (cases "a = ?n") (auto simp: blocks new_block_def)
    show "\<exists>b. blocks ?s a = Some b \<and> block_ptr b = px q"
      if "q \<in># add_mset \<lparr>px = p, pn = Some ?n\<rparr> H" "pn q = Some a" for q a
      using that sp_invD(4) [OF inv, of q a] none by (cases "a = ?n") (auto simp: blocks new_block_def)
    show "a = a'" if "owner ?s a x" "owner ?s a' x" for a a' x
      using that sp_invD(5) [OF inv, of a x a'] fresh by (auto simp: owner split: if_splits)
    show "x \<notin> set (deleted ?s)" if "owner ?s a x" for a x
      using that sp_invD(6) [OF inv, of a x] fresh by (auto simp: owner blocks split: if_splits)
  qed (insert sp_invD(1,3,7) [OF inv], auto simp: blocks split: if_splits)
  then show ?thesis by (auto simp: alloc_block_def set_block_def)
qed

lemma fail_keeps:
  assumes inv: "sp_inv H s" and "free_for p H s"
  shows "sp_inv H (checked_delete p s)"
    and "objects H (checked_delete p s) = objects H s \<union> set_option p"
proof -
  have "\<not> owner s a x \<and> x \<notin> set (deleted s)" if "p = Some x" for a x
    using assms(2) that handle_of_block [OF inv, of a]
    by (fastforce simp: free_for_def objects_def owner_def)
  then show "sp_inv H (checked_delete p s)"
    using inv by (auto simp: sp_inv_def checked_delete_def owner_def split: option.split)
  show "objects H (checked_delete p s) = objects H s \<union> set_option p"
    by (auto simp: checked_delete_def objects_def split: option.split)
qed

text \<open>The contract of an operation that replaces the handles \<open>H\<close> by \<open>H'\<close> and takes over \<open>new\<close>.\<close>

definition moves :: "'p sptr multiset \<Rightarrow> 'p set \<Rightarrow> 'p sptr multiset \<Rightarrow> 'p sp_state \<Rightarrow> 'p sp_state \<Rightarrow> bool" where
  "moves H new H' s s' = (sp_inv H' s' \<and> vars s' = vars s \<and> objects H' s' = objects H s \<union> new)"

lemma moves_copy:
  assumes "sp_inv H s" and "q \<in># H"
  shows "\<exists>s'. SharedPtr_copy q s = Inr (q, s') \<and> moves H {} (add_mset q H) s s'"
  using copy_keeps [OF assms] assms(2)
  by (auto simp: SharedPtr_copy_def moves_def objects_def)

lemma moves_destroy:
  assumes "sp_inv (add_mset q H) s"
  shows "\<exists>s'. SharedPtr_destroy q s = Inr s' \<and> moves (add_mset q H) {} H s s'"
  using destroy_keeps [OF assms] destroy_objects [OF assms]
  by (auto simp: SharedPtr_destroy_def moves_def objects_def)

lemma moves_new:
  assumes "sp_inv H s" and "free_for p H s"
  shows "\<exists>q s'. SharedPtr_new True p s = (Inr q, s') \<and> px q = p
      \<and> moves H (set_option p) (add_mset q H) s s'"
    and "\<exists>s'. SharedPtr_new False p s = (Inl BadAlloc, s') \<and> moves H (set_option p) H s s'"
    and "\<exists>q s'. SharedPtr_auto True p s = ((Inr q, None), s') \<and> px q = p
      \<and> moves H (set_option p) (add_mset q H) s s'"
proof -
  obtain s' where s': "alloc_block p s = (next_block s, s')" "vars s' = vars s" "deleted s' = deleted s"
    "sp_inv (add_mset \<lparr>px = p, pn = Some (next_block s)\<rparr> H) s'"
    using alloc_keeps [OF assms] by blast
  then have "moves H (set_option p) (add_mset \<lparr>px = p, pn = Some (next_block s)\<rparr> H) s s'"
    by (auto simp: moves_def objects_def)
  then show "\<exists>q s'. SharedPtr_new True p s = (Inr q, s') \<and> px q = p
      \<and> moves H (set_option p) (add_mset q H) s s'"
    and "\<exists>q s'. SharedPtr_auto True p s = ((Inr q, None), s') \<and> px q = p
      \<and> moves H (set_option p) (add_mset q H) s s'"
    by (auto simp: SharedPtr_new_def SharedPtr_auto_def shared_count_new_def shared_count_auto_def s'(1))
  show "\<exists>s'. SharedPtr_new False p s = (Inl BadAlloc, s') \<and> moves H (set_option p) H s s'"
    using fail_keeps [OF assms]
    by (auto simp: SharedPtr_new_def shared_count_new_def moves_def checked_delete_def split: option.split)
qed

lemma moves_trans:
  "moves H N H' s s' \<Longrightarrow> moves H' N' H'' s' s'' \<Longrightarrow> moves H (N \<union> N') H'' s s''"
  by (auto simp: moves_def)

lemma moves_assign:
  assumes "sp_inv H s" and "this \<in># H" and "r \<in># H"
  shows "\<exists>s'. SharedPtr_assign this r s = Inr (r, s') \<and> moves H {} (add_mset r (H - {#this#})) s s'"
proof -
  obtain s1 where s1: "SharedPtr_copy r s = Inr (r, s1)" "moves H {} (add_mset r H) s s1"
    using moves_copy [OF assms(1,3)] by blast
  then have copy: "shared_count_copy (pn r) s = Inr s1"
    by (auto simp: SharedPtr_copy_def bindr_eq_Inr)
  have H: "add_mset r H = add_mset this (add_mset r (H - {#this#}))" using assms(2) by simp
  obtain s2 where s2: "SharedPtr_destroy this s1 = Inr s2"
      "moves (add_mset this (add_mset r (H - {#this#}))) {} (add_mset r (H - {#this#})) s1 s2"
    using moves_destroy [of this "add_mset r (H - {#this#})" s1] s1(2) H by (auto simp: moves_def)
  have "moves H {} (add_mset r (H - {#this#})) s s2"
    using moves_trans [OF s1(2) s2(2) [folded H]] by simp
  then show ?thesis using copy s2(1)
    by (auto simp: SharedPtr_assign_def shared_count_assign_def SharedPtr_destroy_def)
qed

lemma swap_value: "SharedPtr_swap q r = (r, q)"
  by (simp add: SharedPtr_swap_def)

lemma moves_reset:
  assumes "sp_inv H s" and "this \<in># H"
  shows "\<exists>s'. SharedPtr_reset this s = Inr (null_ptr, s') \<and> moves H {} (H - {#this#}) s s'"
  using moves_destroy [of this "H - {#this#}" s] assms
  by (auto simp: SharedPtr_reset_def swap_value)

lemma moves_reset_to:
  assumes inv: "sp_inv H s" and mem: "this \<in># H" and free: "free_for p H s"
  shows "\<exists>q s'. SharedPtr_reset_to ok this p s = Inr (q, s')
    \<and> moves H (set_option p) (add_mset q (H - {#this#})) s s'"
proof -
  have "p = None \<or> p \<noteq> px this"
    using free mem by (cases p) (auto simp: free_for_def objects_def)
  show ?thesis
  proof (cases ok)
    case True
    obtain q s1 where new: "SharedPtr_new True p s = (Inr q, s1)" "moves H (set_option p) (add_mset q H) s s1"
      using moves_new(1) [OF inv free] by blast
    have H: "add_mset q H = add_mset this (add_mset q (H - {#this#}))" using mem by simp
    obtain s2 where s2: "SharedPtr_destroy this s1 = Inr s2"
        "moves (add_mset this (add_mset q (H - {#this#}))) {} (add_mset q (H - {#this#})) s1 s2"
      using moves_destroy [of this "add_mset q (H - {#this#})" s1] new(2) H by (auto simp: moves_def)
    have "moves H (set_option p) (add_mset q (H - {#this#})) s s2"
      using moves_trans [OF new(2) s2(2) [folded H]] by simp
    then show ?thesis using new(1) s2(1) True \<open>p = None \<or> p \<noteq> px this\<close>
      by (auto simp: SharedPtr_reset_to_def swap_value)
  next
    case False
    then show ?thesis using moves_new(2) [OF inv free] mem \<open>p = None \<or> p \<noteq> px this\<close>
      by (auto simp: SharedPtr_reset_to_def)
  qed
qed

lemma moves_cast:
  assumes inv: "sp_inv H s" and r: "r \<in># H"
  shows "\<exists>q s'. dynamic_pointer_cast is_a r s = Inr (q, s') \<and> moves H {} (add_mset q H) s s'"
    and "\<exists>q s'. polymorphic_cast is_a r s = Inr (q, s') \<and>
      (case q of Inr q \<Rightarrow> moves H {} (add_mset q H) s s' | Inl e \<Rightarrow> moves H {} H s s')"
proof -
  obtain s1 where s1: "SharedPtr_copy r s = Inr (r, s1)" "moves H {} (add_mset r H) s s1"
    using moves_copy [OF inv r] by blast
  obtain s2 where s2: "SharedPtr_destroy r s1 = Inr s2" "moves (add_mset r H) {} H s1 s2"
    using moves_destroy [of r H s1] s1(2) by (auto simp: moves_def)
  have undone: "moves H {} H s s2" using moves_trans [OF s1(2) s2(2)] by simp
  have null: "moves H {} (add_mset null_ptr H) s s2"
    using undone by (simp add: moves_def objects_def null_ptr_def [symmetric]) (simp add: null_ptr_def)
  have dropped: "shared_count_assign (pn r) None s1 = Inr (None, s2)"
    using s2(1) by (simp add: shared_count_assign_def shared_count_copy_def SharedPtr_destroy_def)
  show "\<exists>q s'. dynamic_pointer_cast is_a r s = Inr (q, s') \<and> moves H {} (add_mset q H) s s'"
  proof (cases "is_a \<and> px r \<noteq> None")
    case True
    then show ?thesis using s1 by (auto simp: dynamic_pointer_cast_def)
  next
    case False
    have "r\<lparr>px := None, pn := None\<rparr> = null_ptr" by (cases r) (simp add: null_ptr_def)
    then show ?thesis using False s1(1) dropped null by (auto simp: dynamic_pointer_cast_def)
  qed
  show "\<exists>q s'. polymorphic_cast is_a r s = Inr (q, s') \<and>
      (case q of Inr q \<Rightarrow> moves H {} (add_mset q H) s s' | Inl e \<Rightarrow> moves H {} H s s')"
  proof (cases "is_a \<and> px r \<noteq> None")
    case True
    then show ?thesis using s1 by (auto simp: polymorphic_cast_def)
  next
    case False
    have "SharedPtr_destroy (r\<lparr>px := x\<rparr>) s1 = Inr s2" for x
      using s2(1) by (simp add: SharedPtr_destroy_def)
    then show ?thesis using False s1(1) undone by (auto simp: polymorphic_cast_def)
  qed
qed

section \<open>Whole programs\<close>

text \<open>The raw pointers an operation hands over.\<close>

fun handed :: "'p sp_op \<Rightarrow> 'p set" where
  "handed (Construct v p ok) = set_option p"
| "handed (Adopt v p ok) = (if ok then set_option p else {})"
| "handed (ResetTo v p ok) = set_option p"
| "handed _ = {}"

definition sp_objects :: "'p sp_state \<Rightarrow> 'p set" where
  "sp_objects s = objects (mset (vars s)) s"

lemma sp_objects_eq: "sp_objects s = set (deleted s) \<union> {p. \<exists>q \<in> set (vars s). px q = Some p}"
  by (simp add: sp_objects_def objects_def)

lemma unowned_free: "unowned p s = free_for p (mset (vars s)) s"
  by (cases p) (force simp: unowned_def free_for_def objects_def)+

lemma objects_vars [simp]: "objects H (s\<lparr>vars := vs\<rparr>) = objects H s"
  by (simp add: objects_def)

lemma mset_set_var:
  "v < length (vars s) \<Longrightarrow> mset ((vars s)[v := q]) = add_mset q (mset (vars s) - {#vars s ! v#})"
  by (simp add: mset_update)

text \<open>The step contract: filling variable \<open>v\<close> after the handles were moved.\<close>

lemma set_var_step:
  assumes "var v s" and "moves (mset (vars s)) N (add_mset q (mset (vars s) - {#vars s ! v#})) s s'"
  shows "\<exists>t. set_var v (q, s') = Inr t \<and> sp_wf t \<and> sp_objects t = sp_objects s \<union> N"
  using assms by (auto simp: set_var_def sp_wf_def sp_objects_def moves_def var_def mset_set_var)

lemma set_dead_step:
  assumes "dead v s" and "moves (mset (vars s)) N (add_mset q (mset (vars s))) s s'"
  shows "\<exists>t. set_var v (q, s') = Inr t \<and> sp_wf t \<and> sp_objects t = sp_objects s \<union> N"
proof -
  have "null_ptr \<in># mset (vars s)" using assms(1) by (auto simp: dead_def in_set_conv_nth)
  then have H: "add_mset q (mset (vars s)) = add_mset null_ptr (add_mset q (mset (vars s) - {#null_ptr#}))"
    by simp
  have "moves (mset (vars s)) N (add_mset q (mset (vars s) - {#null_ptr#})) s s'"
    using assms(2) unfolding H by (simp add: moves_def objects_def) (simp add: null_ptr_def)
  then show ?thesis using assms(1) set_var_step [of v s N q s'] by (auto simp: dead_def var_def)
qed

lemma no_var_step:
  "moves (mset (vars s)) N (mset (vars s)) s s' \<Longrightarrow> sp_wf s' \<and> sp_objects s' = sp_objects s \<union> N"
  by (auto simp: sp_wf_def sp_objects_def moves_def)

lemma var_mem: "var v s \<Longrightarrow> vars s ! v \<in># mset (vars s)" "dead v s \<Longrightarrow> var v s"
  by (auto simp: var_def dead_def)

lemma swap_step:
  assumes "sp_wf s" and "var v s" and "var w s"
  shows "\<exists>t. sp_exec s (SwapVars v w) = Inr t \<and> sp_wf t \<and> sp_objects t = sp_objects s"
proof -
  have "mset ((vars s)[v := vars s ! w, w := vars s ! v]) = mset (vars s)"
    using assms(2,3) by (simp add: var_def mset_swap)
  then show ?thesis using assms(1)
    by (simp add: swap_value sp_wf_def sp_objects_def)
qed

lemma sp_exec_step:
  assumes wf: "sp_wf s" and "sp_guard s e"
  shows "\<exists>t. sp_exec s e = Inr t \<and> sp_wf t \<and> sp_objects t = sp_objects s \<union> handed e"
proof -
  have inv: "sp_inv (mset (vars s)) s" using wf by (simp add: sp_wf_def)
  show ?thesis
  proof (cases e)
    case (Construct v p ok)
    with assms have g: "dead v s" "free_for p (mset (vars s)) s" by (simp_all add: unowned_free)
    show ?thesis
    proof (cases ok)
      case True
      then show ?thesis using moves_new(1) [OF inv g(2)] set_dead_step [OF g(1)] Construct by fastforce
    next
      case False
      then show ?thesis using moves_new(2) [OF inv g(2)] no_var_step Construct by fastforce
    qed
  next
    case (Adopt v p ok)
    with assms have g: "dead v s" "free_for p (mset (vars s)) s" by (simp_all add: unowned_free)
    show ?thesis
    proof (cases ok)
      case True
      then show ?thesis using moves_new(3) [OF inv g(2)] set_dead_step [OF g(1)] Adopt by fastforce
    next
      case False
      then show ?thesis using Adopt wf by (simp add: SharedPtr_auto_def shared_count_auto_def)
    qed
  next
    case (CopyConstruct v w)
    then show ?thesis using assms moves_copy [OF inv var_mem(1), of w] set_dead_step [of v s] by fastforce
  next
    case (Assign v w)
    then show ?thesis
      using assms moves_assign [OF inv var_mem(1) var_mem(1), of v w] set_var_step [of v s] by fastforce
  next
    case (Reset v)
    then obtain s' where "SharedPtr_reset (vars s ! v) s = Inr (null_ptr, s')"
        "moves (mset (vars s)) {} (mset (vars s) - {#vars s ! v#}) s s'"
      using assms moves_reset [OF inv var_mem(1), of v] by auto
    then show ?thesis using Reset assms set_var_step [of v s "{}" null_ptr s']
      by (simp add: moves_def objects_def) (simp add: null_ptr_def)
  next
    case (ResetTo v p ok)
    then show ?thesis
      using assms moves_reset_to [OF inv var_mem(1), of v p ok] set_var_step [of v s]
      by (fastforce simp: unowned_free)
  next
    case (SwapVars v w)
    then show ?thesis using swap_step [OF wf, of v w] assms by auto
  next
    case (DynamicCast v w is_a)
    then show ?thesis using assms moves_cast(1) [OF inv var_mem(1), of w is_a] set_dead_step [of v s] by fastforce
  next
    case (PolymorphicCast v w is_a)
    then obtain q s' where q: "polymorphic_cast is_a (vars s ! w) s = Inr (q, s')"
      "case q of Inr q \<Rightarrow> moves (mset (vars s)) {} (add_mset q (mset (vars s))) s s'
        | Inl e \<Rightarrow> moves (mset (vars s)) {} (mset (vars s)) s s'"
      using assms moves_cast(2) [OF inv var_mem(1), of w is_a] by auto
    then show ?thesis
      using PolymorphicCast assms set_dead_step [of v s] no_var_step [of s "{}" s'] by (cases q) fastforce+
  next
    case (Destroy v)
    then obtain s' where "SharedPtr_destroy (vars s ! v) s = Inr s'"
        "moves (mset (vars s)) {} (mset (vars s) - {#vars s ! v#}) s s'"
      using assms moves_destroy [of "vars s ! v" "mset (vars s) - {#vars s ! v#}" s] inv var_mem(1) [of v s]
      by auto
    then show ?thesis using Destroy assms set_var_step [of v s "{}" null_ptr s']
      by (simp add: moves_def objects_def) (simp add: null_ptr_def)
  qed
qed

interpretation sp: guarded_machine sp_exec sp_wf sp_guard
  using sp_exec_step by unfold_locales blast

lemma sp_start_wf: "sp_wf (sp_start n)" and sp_start_objects: "sp_objects (sp_start n) = {}"
  by (auto simp: sp_wf_def sp_inv_def sp_start_def null_ptr_def refs_0 owner_def sp_objects_eq)

lemma sp_run:
  assumes "sp_wf s" and "guarded_run sp_exec sp_guard s es"
  shows "\<exists>t. run_events sp_exec s es = Inr t \<and> sp_wf t \<and> sp_objects t = sp_objects s \<union> (\<Union>e \<in> set es. handed e)"
  using assms
proof (induction es arbitrary: s)
  case Nil
  then show ?case by simp
next
  case (Cons e es)
  then obtain s1 where s1: "sp_exec s e = Inr s1" "sp_wf s1" "sp_objects s1 = sp_objects s \<union> handed e"
    using sp_exec_step [of s e] by auto
  with Cons.prems have "guarded_run sp_exec sp_guard s1 es" by simp
  from Cons.IH [OF s1(2) this] s1 show ?case by auto
qed

lemma held_block:
  assumes "sp_wf s" and "q \<in> set (vars s)" and "px q = Some p"
  shows "\<exists>a b. pn q = Some a \<and> blocks s a = Some b \<and> block_ptr b = Some p \<and> owner s a p"
proof -
  have inv: "sp_inv (mset (vars s)) s" using assms(1) by (simp add: sp_wf_def)
  obtain a where a: "pn q = Some a" using sp_invD(3) [OF inv, of q] assms(2,3) by (cases "pn q") auto
  with sp_invD(4) [OF inv, of q a] assms(2,3) show ?thesis by (auto simp: owner_def)
qed

lemma same_block_iff:
  assumes wf: "sp_wf s" and q: "q \<in> set (vars s)" "px q = Some p" and r: "r \<in> set (vars s)"
  shows "pn r = pn q \<longleftrightarrow> px r = Some p"
proof -
  have inv: "sp_inv (mset (vars s)) s" using wf by (simp add: sp_wf_def)
  obtain a b where a: "pn q = Some a" "blocks s a = Some b" "block_ptr b = Some p" "owner s a p"
    using held_block [OF wf q] by blast
  show ?thesis
  proof
    assume "pn r = pn q"
    then show "px r = Some p" using sp_invD(4) [OF inv, of r a] r a by auto
  next
    assume "px r = Some p"
    then obtain a' where "pn r = Some a'" "owner s a' p" using held_block [OF wf r] by blast
    then show "pn r = pn q" using sp_invD(5) [OF inv] a by auto
  qed
qed

text \<open>
  (C14) Ownership, for every program over \<open>SharedPtr\<close> variables that hands each raw pointer
  over once, allocation failures and failing casts included: no operation touches a counter
  block that is gone, and at the end every object that was handed over is either still held
  by a variable or was deleted, once, and never both.
\<close>

theorem shared_ptr_ownership:
  assumes "guarded_run sp_exec sp_guard (sp_start n) es"
  shows "\<exists>s. run_events sp_exec (sp_start n) es = Inr s \<and> distinct (deleted s) \<and>
    set (deleted s) \<union> {p. \<exists>q \<in> set (vars s). px q = Some p} = (\<Union>e \<in> set es. handed e) \<and>
    set (deleted s) \<inter> {p. \<exists>q \<in> set (vars s). px q = Some p} = {}"
proof -
  obtain s where s: "run_events sp_exec (sp_start n) es = Inr s" "sp_wf s"
      "sp_objects s = (\<Union>e \<in> set es. handed e)"
    using sp_run [OF sp_start_wf assms] by (auto simp: sp_start_objects)
  then have "sp_inv (mset (vars s)) s" by (simp add: sp_wf_def)
  note sp_invD(6,7) [OF this]
  moreover have "p \<notin> set (deleted s)" if "q \<in> set (vars s)" "px q = Some p" for q p
    using held_block [OF s(2) that] calculation(1) by blast
  ultimately show ?thesis using s(1,3) unfolding sp_objects_eq by blast
qed

text \<open>
  (C36) Every \<open>SharedPtr\<close> stays well typed: after any such program a variable is null in both
  fields, or refers to a live counter block that manages the very object the variable points
  to, whose weak count is one.
\<close>

theorem shared_ptr_typed:
  assumes "guarded_run sp_exec sp_guard (sp_start n) es" and "run_events sp_exec (sp_start n) es = Inr s"
    and "q \<in> set (vars s)"
  shows "q = null_ptr \<or> (\<exists>a b. pn q = Some a \<and> blocks s a = Some b \<and> block_ptr b = px q \<and>
    0 < useCount b \<and> weakCount b = 1)"
proof -
  have "sp_wf s" using sp_run [OF sp_start_wf assms(1)] assms(2) by auto
  then have inv: "sp_inv (mset (vars s)) s" by (simp add: sp_wf_def)
  show ?thesis
  proof (cases "pn q")
    case None
    with sp_invD(3) [OF inv, of q] assms(3) show ?thesis by (cases q) (simp add: null_ptr_def)
  next
    case (Some a)
    then obtain b where "blocks s a = Some b" "block_ptr b = px q"
      using sp_invD(4) [OF inv, of q a] assms(3) by auto
    with Some sp_invD(2) [OF inv] show ?thesis by fastforce
  qed
qed

text \<open>
  \<open>use_count()\<close> is exact: it is the number of variables that hold the object, and
  \<open>unique()\<close> says whether there is only one.
\<close>

theorem use_count_exact:
  assumes "sp_wf s" and "q \<in> set (vars s)" and "px q = Some p"
  shows "SharedPtr_use_count q s = Inr (int (length (filter (\<lambda>r. px r = Some p) (vars s)))) \<and>
    SharedPtr_unique q s = Inr (length (filter (\<lambda>r. px r = Some p) (vars s)) = 1)"
proof -
  have inv: "sp_inv (mset (vars s)) s" using assms(1) by (simp add: sp_wf_def)
  obtain a b where a: "pn q = Some a" "blocks s a = Some b" using held_block [OF assms] by blast
  have "filter (\<lambda>r. pn r = Some a) (vars s) = filter (\<lambda>r. px r = Some p) (vars s)"
    using same_block_iff [OF assms] a(1) by (intro filter_cong) auto
  then have "refs (mset (vars s)) a = length (filter (\<lambda>r. px r = Some p) (vars s))"
    by (simp add: refs_def flip: mset_filter)
  then show ?thesis using sp_invD(2) [OF inv a(2)] a
    by (simp add: SharedPtr_use_count_def SharedPtr_unique_def shared_count_unique_def
        shared_count_use_count_def block_use_count_def with_block_def)
qed

lemma last_object_vars:
  assumes wf: "sp_wf s" and "var v s" and p: "px (vars s ! v) = Some p"
  shows "last_object (vars s ! v) (mset (vars s) - {#vars s ! v#}) =
    (if length (filter (\<lambda>r. px r = Some p) (vars s)) = 1 then [p] else [])"
proof -
  let ?q = "vars s ! v" and ?H = "mset (vars s) - {#vars s ! v#}"
  have mem: "?q \<in> set (vars s)" using assms(2) by (simp add: var_def)
  obtain a b where a: "pn ?q = Some a" using held_block [OF wf mem p] by blast
  have same: "pn r = Some a \<longleftrightarrow> px r = Some p" if "r \<in># mset (vars s)" for r
    using same_block_iff [OF wf mem p, of r] that a by simp
  have all: "add_mset ?q ?H = mset (vars s)" using mem by simp
  have "size {# r \<in># add_mset ?q ?H. px r = Some p #} = Suc (size {# r \<in># ?H. px r = Some p #})"
    using p by (simp only: filter_mset_add_mset if_True size_add_mset simp_thms)
  then have "size {# r \<in># mset (vars s). px r = Some p #} = Suc (size {# r \<in># ?H. px r = Some p #})"
    by (simp only: all)
  then have "length (filter (\<lambda>r. px r = Some p) (vars s)) = 1 \<longleftrightarrow> {# r \<in># ?H. px r = Some p #} = {#}"
    by (simp flip: mset_filter)
  also have "\<dots> \<longleftrightarrow> (\<forall>r \<in># ?H. pn r \<noteq> Some a)"
    unfolding filter_mset_eq_mempty_iff by (metis in_diffD same)
  finally show ?thesis using a p by (simp add: last_object_def)
qed

text \<open>
  The object goes with its last handle: \<open>reset()\<close> and the destructor delete it exactly
  when no other variable holds it; so does an assignment to the variable from another one
  that holds something else, while assigning a variable that holds the same object, itself
  included, deletes nothing.
\<close>

theorem last_handle_deletes:
  assumes "sp_wf s" and "var v s" and "px (vars s ! v) = Some p"
  shows "(\<exists>t. sp_exec s (Reset v) = Inr t \<and>
      deleted t = deleted s @ (if length (filter (\<lambda>r. px r = Some p) (vars s)) = 1 then [p] else [])) \<and>
    (\<exists>t. sp_exec s (Destroy v) = Inr t \<and>
      deleted t = deleted s @ (if length (filter (\<lambda>r. px r = Some p) (vars s)) = 1 then [p] else [])) \<and>
    (\<forall>w. var w s \<longrightarrow> (\<exists>t. sp_exec s (Assign v w) = Inr t \<and> vars t ! v = vars s ! w \<and>
      deleted t = deleted s @ (if length (filter (\<lambda>r. px r = Some p) (vars s)) = 1
        \<and> px (vars s ! w) \<noteq> Some p then [p] else [])))"
proof -
  let ?q = "vars s ! v" and ?H = "mset (vars s) - {#vars s ! v#}"
  have mem: "?q \<in># mset (vars s)" using assms(2) by (simp add: var_def)
  have inv: "sp_inv (mset (vars s)) s" using assms(1) by (simp add: sp_wf_def)
  then have "sp_inv (add_mset ?q ?H) s" using mem by simp
  then obtain s1 where s1: "shared_count_destroy (pn ?q) s = Inr s1" "deleted s1 = deleted s @ last_object ?q ?H"
    using destroy_keeps by blast
  have "\<exists>t. sp_exec s (Assign v w) = Inr t \<and> vars t ! v = vars s ! w \<and>
      deleted t = deleted s @ (if length (filter (\<lambda>r. px r = Some p) (vars s)) = 1
        \<and> px (vars s ! w) \<noteq> Some p then [p] else [])" if w: "var w s" for w
  proof -
    let ?r = "vars s ! w"
    have r: "?r \<in># mset (vars s)" using w by (simp add: var_def)
    obtain s2 where s2: "shared_count_copy (pn ?r) s = Inr s2" "sp_inv (add_mset ?r (mset (vars s))) s2"
        "vars s2 = vars s" "deleted s2 = deleted s"
      using copy_keeps [OF inv r] by blast
    have "add_mset ?r (mset (vars s)) = add_mset ?q (add_mset ?r ?H)" using mem by simp
    with s2(2) have "sp_inv (add_mset ?q (add_mset ?r ?H)) s2" by (simp only:)
    then obtain s3 where s3: "shared_count_destroy (pn ?q) s2 = Inr s3" "vars s3 = vars s2"
        "deleted s3 = deleted s2 @ last_object ?q (add_mset ?r ?H)"
      using destroy_keeps by blast
    have "pn ?r = pn ?q \<longleftrightarrow> px ?r = Some p"
      using same_block_iff [OF assms(1) _ assms(3), of ?r] mem r by simp
    then have "last_object ?q (add_mset ?r ?H) = (if px ?r = Some p then [] else last_object ?q ?H)"
      by (auto simp: last_object_def split: option.splits)
    then show ?thesis using s2 s3 assms(2) last_object_vars [OF assms]
      by (auto simp: SharedPtr_assign_def shared_count_assign_def set_var_def var_def)
  qed
  then show ?thesis using s1 last_object_vars [OF assms]
    by (auto simp: SharedPtr_reset_def SharedPtr_destroy_def swap_value set_var_def)
qed

text \<open>
  When the counter block cannot be allocated, a constructor from a raw pointer deletes
  the object and a constructor from an \<open>auto_ptr\<close> leaves it with its owner; neither changes
  any variable or any other object.
\<close>

theorem allocation_failure:
  "sp_exec s (Construct v (Some p) False) = Inr (s\<lparr>deleted := deleted s @ [p]\<rparr>) \<and>
   sp_exec s (Adopt v (Some p) False) = Inr s \<and>
   SharedPtr_auto False (Some p) s = ((Inl BadAlloc, Some p), s)"
  by (simp add: SharedPtr_new_def SharedPtr_auto_def shared_count_new_def shared_count_auto_def
      checked_delete_def)

section \<open>Witnesses\<close>

definition sp_program :: "nat sp_op list" where
  "sp_program = [Construct 0 (Some 70) True, CopyConstruct 1 0, ResetTo 0 (Some 80) True,
     DynamicCast 2 1 True, Reset 1, Assign 0 0]"

lemmas sp_eval = sp_program_def sp_start_def SharedPtr_new_def shared_count_new_def alloc_block_def
  set_block_def new_block_def set_var_def SharedPtr_copy_def shared_count_copy_def add_ref_copy_def
  with_block_def SharedPtr_reset_to_def swap_value SharedPtr_destroy_def shared_count_destroy_def
  release_def weak_release_def dispose_def checked_delete_def destruct_def dynamic_pointer_cast_def
  SharedPtr_reset_def SharedPtr_assign_def shared_count_assign_def null_ptr_def unowned_def var_def
  dead_def

lemma sp_program_guarded: "guarded_run sp_exec sp_guard (sp_start 3) sp_program"
  by (simp add: sp_eval numeral_3_eq_3)

lemma sp_program_result:
  "\<exists>s. run_events sp_exec (sp_start 3) sp_program = Inr s \<and> deleted s = [] \<and>
     map px (vars s) = [Some 80, None, Some 70] \<and> length (vars s) = 3 \<and> px (vars s ! 2) = Some 70
     \<and> length (filter (\<lambda>r. px r = Some 70) (vars s)) = 1"
  by (simp add: sp_eval numeral_3_eq_3)


theorem shared_ptr_ownership_witness:
  "\<exists>s. run_events sp_exec (sp_start 3) sp_program = Inr s \<and> deleted s = [] \<and>
     {p. \<exists>q \<in> set (vars s). px q = Some p} = {70, 80}"
  using shared_ptr_ownership [OF sp_program_guarded] sp_program_result
  by (auto simp: sp_program_def)

lemma sp_program_state: "\<exists>s. run_events sp_exec (sp_start 3) sp_program = Inr s \<and> sp_wf s \<and>
     map px (vars s) = [Some 80, None, Some 70] \<and> deleted s = [] \<and> var 2 s
     \<and> vars s ! 2 \<in> set (vars s) \<and> px (vars s ! 2) = Some 70
     \<and> length (filter (\<lambda>r. px r = Some 70) (vars s)) = 1"
  using sp_run [OF sp_start_wf sp_program_guarded] sp_program_result by (auto simp: var_def)

theorem shared_ptr_typed_witness:
  "\<exists>s q. run_events sp_exec (sp_start 3) sp_program = Inr s \<and> q \<in> set (vars s) \<and> px q = Some 70 \<and>
     (\<exists>a b. pn q = Some a \<and> blocks s a = Some b \<and> block_ptr b = Some 70)"
proof -
  obtain s where s: "run_events sp_exec (sp_start 3) sp_program = Inr s"
      "vars s ! 2 \<in> set (vars s)" "px (vars s ! 2) = Some 70"
    using sp_program_state by blast
  with shared_ptr_typed [OF sp_program_guarded s(1,2)] show ?thesis by (auto simp: null_ptr_def)
qed

theorem use_count_exact_witness:
  "\<exists>s. run_events sp_exec (sp_start 3) sp_program = Inr s \<and> SharedPtr_use_count (vars s ! 2) s = Inr 1"
proof -
  obtain s where s: "run_events sp_exec (sp_start 3) sp_program = Inr s" "sp_wf s"
      "vars s ! 2 \<in> set (vars s)" "px (vars s ! 2) = Some 70" "length (filter (\<lambda>r. px r = Some 70) (vars s)) = 1"
    using sp_program_state by blast
  from use_count_exact [OF s(2,3,4)] have "SharedPtr_use_count (vars s ! 2) s = Inr 1"
    unfolding s(5) by simp
  with s(1) show ?thesis by blast
qed

theorem last_handle_deletes_witness:
  "\<exists>s t. run_events sp_exec (sp_start 3) sp_program = Inr s \<and> sp_exec s (Destroy 2) = Inr t \<and> deleted t = [70]"
proof -
  obtain s where s: "run_events sp_exec (sp_start 3) sp_program = Inr s" "sp_wf s"
      "deleted s = []" "var 2 s" "px (vars s ! 2) = Some 70" "length (filter (\<lambda>r. px r = Some 70) (vars s)) = 1"
    using sp_program_state by blast
  from last_handle_deletes [OF s(2,4,5)] have "\<exists>t. sp_exec s (Destroy 2) = Inr t \<and> deleted t = [70]"
    unfolding s(3,6) by auto
  with s(1) show ?thesis by blast
qed

end
