(* ===== verification/Fifos.thy ===== *)
theory Fifos
  imports Queues
begin

text \<open>
  The message queues of \<open>rutil/AbstractFifo.hxx\<close> and \<open>rutil/Fifo.hxx\<close>. The members of
  \<open>AbstractFifo<T>\<close> are the record \<open>afifo\<close>; its operations are defined on every
  extension of that record, the way the class is a base class, and \<open>fifo\<close> extends it with
  the members of \<open>Fifo<Msg>\<close>. Counters have the width the class gives them.

  The system clock is read at most once by \<open>onFifoPolled\<close> and by \<open>onMessagePushed\<close>; the
  reading is their argument \<open>now\<close>. A wait on the condition variable releases the mutex, so
  what the other threads do to the queue meanwhile is an argument as well: a \<open>wake\<close> is one
  return from the wait, with that effect on the state, and a call whose wakes are used up is
  \<open>Blocked\<close>. Messages are non-null pointers; a null result is \<open>None\<close>.
\<close>

section \<open>AbstractFifo\<close>

record 'm afifo =
  mFifo :: "'m list"
  mLastSampleTakenMicroSec :: uint64
  mCounter :: uint32
  mAverageServiceTimeMicroSec :: uint32
  mSize :: uint32

definition AbstractFifo :: "'m afifo" where
  "AbstractFifo = \<lparr>mFifo = [], mLastSampleTakenMicroSec = 0, mCounter = 0,
     mAverageServiceTimeMicroSec = 0, mSize = 0\<rparr>"

definition fifo_empty :: "('m, 'z) afifo_scheme \<Rightarrow> bool" where
  "fifo_empty s = (mFifo s = [])"

definition fifo_size :: "('m, 'z) afifo_scheme \<Rightarrow> uint32" where
  "fifo_size s = of_nat (length (mFifo s))"

definition messageAvailable :: "('m, 'z) afifo_scheme \<Rightarrow> bool" where
  "messageAvailable s = (\<not> mFifo s = [])"

definition getCountDepth :: "('m, 'z) afifo_scheme \<Rightarrow> uint32" where
  "getCountDepth s = mSize s"

definition expectedWaitTimeMilliSec :: "('m, 'z) afifo_scheme \<Rightarrow> uint32" where
  "expectedWaitTimeMilliSec s = (mAverageServiceTimeMicroSec s * mSize s + 500) div 1000"

definition averageServiceTimeMicroSec :: "('m, 'z) afifo_scheme \<Rightarrow> uint32" where
  "averageServiceTimeMicroSec s = mAverageServiceTimeMicroSec s"

definition resipIntDiv :: "uint64 \<Rightarrow> uint64 \<Rightarrow> uint64" where
  "resipIntDiv a b = (if a mod b > b div 2 then a div b + 1 else a div b)"

text \<open>The product below is computed in 32 bits, as both factors are \<open>UInt32\<close>.\<close>

definition onFifoPolled :: "uint64 \<Rightarrow> ('m, 'z) afifo_scheme \<Rightarrow> ('m, 'z) afifo_scheme" where
  "onFifoPolled now s =
     (if mLastSampleTakenMicroSec s \<noteq> 0 \<and> mCounter s \<noteq> 0 \<and> (mCounter s \<ge> 64 \<or> mFifo s = [])
      then
        let diff = now - mLastSampleTakenMicroSec s;
            average =
              (if mCounter s \<ge> 4096
               then ucast (resipIntDiv diff (ucast (mCounter s)))
               else ucast (resipIntDiv
                      (diff + ucast ((4096 - mCounter s) * mAverageServiceTimeMicroSec s)) 4096))
        in s\<lparr>mAverageServiceTimeMicroSec := average, mCounter := 0,
             mLastSampleTakenMicroSec := (if mFifo s = [] then 0 else now)\<rparr>
      else s)"

definition onMessagePopped :: "uint32 \<Rightarrow> ('m, 'z) afifo_scheme \<Rightarrow> ('m, 'z) afifo_scheme" where
  "onMessagePopped num s = s\<lparr>mCounter := mCounter s + num, mSize := mSize s - num\<rparr>"

definition onMessagePushed ::
  "uint64 \<Rightarrow> uint32 \<Rightarrow> ('m, 'z) afifo_scheme \<Rightarrow> ('m, 'z) afifo_scheme" where
  "onMessagePushed now num s =
     (let s = (if mSize s = 0 then s\<lparr>mLastSampleTakenMicroSec := now\<rparr> else s)
      in s\<lparr>mSize := mSize s + num\<rparr>)"

definition front_pop :: "('m, 'z) afifo_scheme \<Rightarrow> ('m \<times> ('m, 'z) afifo_scheme) outcome" where
  "front_pop s = (case mFifo s of [] \<Rightarrow> Fault EmptyDeque | m # q \<Rightarrow> Done (m, s\<lparr>mFifo := q\<rparr>))"

text \<open>One return from a wait: the clock reading before it, whether it was signalled, and what
  other threads did to the queue while the mutex was released.\<close>

datatype 's wake = Wake (clock: uint64) (signaled: bool) (others: "'s \<Rightarrow> 's")

fun wait_available ::
  "('m, 'z) afifo_scheme wake list \<Rightarrow> ('m, 'z) afifo_scheme \<Rightarrow> ('m, 'z) afifo_scheme outcome"
where
  "wait_available [] s = (if mFifo s = [] then Blocked else Done s)"
| "wait_available (w # ws) s = (if mFifo s = [] then wait_available ws (others w s) else Done s)"

fun wait_until ::
  "bool \<Rightarrow> uint64 \<Rightarrow> ('m, 'z) afifo_scheme wake list \<Rightarrow> ('m, 'z) afifo_scheme \<Rightarrow>
   (bool \<times> ('m, 'z) afifo_scheme) outcome" where
  "wait_until bail end [] s =
     (if mFifo s \<noteq> [] then Done (True, s) else if bail then Done (False, s) else Blocked)"
| "wait_until bail end (w # ws) s =
     (if mFifo s \<noteq> [] then Done (True, s)
      else if bail then Done (False, s)
      else if clock w \<ge> end then Done (False, s)
      else if \<not> signaled w then Done (False, others w s)
      else wait_until bail end ws (others w s))"

definition abstract_getNext ::
  "uint64 \<Rightarrow> ('m, 'z) afifo_scheme wake list \<Rightarrow> ('m, 'z) afifo_scheme \<Rightarrow>
   ('m \<times> ('m, 'z) afifo_scheme) outcome" where
  "abstract_getNext now ws s =
     andthen (wait_available ws (onFifoPolled now s)) (\<lambda>s.
     andthen (front_pop s) (\<lambda>(m, s). Done (m, onMessagePopped 1 s)))"

definition abstract_getNext_ms ::
  "int \<Rightarrow> uint64 \<Rightarrow> uint64 \<Rightarrow> ('m, 'z) afifo_scheme wake list \<Rightarrow> ('m, 'z) afifo_scheme \<Rightarrow>
   ('m option \<times> ('m, 'z) afifo_scheme) outcome" where
  "abstract_getNext_ms ms begin now ws s =
     (if ms = 0 then andthen (abstract_getNext now ws s) (\<lambda>(m, s). Done (Some m, s))
      else if ms < 0 then
        (let s = onFifoPolled now s in
         if mFifo s = [] then Done (None, s)
         else andthen (front_pop s) (\<lambda>(m, s). Done (Some m, s)))
      else
        (let end = begin + ucast (word_of_int ms :: uint32) in
         andthen (wait_until (ms = 0) end ws (onFifoPolled now s)) (\<lambda>(ok, s).
         if \<not> ok then Done (None, s)
         else andthen (front_pop s) (\<lambda>(m, s). Done (Some m, onMessagePopped 1 s)))))"

fun move_front :: "nat \<Rightarrow> 'm list \<Rightarrow> 'm list \<Rightarrow> ('m list \<times> 'm list) outcome" where
  "move_front 0 other q = Done (other, q)"
| "move_front (Suc n) other [] = Fault EmptyDeque"
| "move_front (Suc n) other (m # q) = move_front n (other @ [m]) q"

definition take_available ::
  "uint32 \<Rightarrow> 'm list \<Rightarrow> ('m, 'z) afifo_scheme \<Rightarrow> ('m list \<times> ('m, 'z) afifo_scheme) outcome" where
  "take_available mx other s =
     (if length (mFifo s) \<le> unat mx
      then Done (mFifo s, onMessagePopped (mSize s) (s\<lparr>mFifo := other\<rparr>))
      else andthen (move_front (unat mx) other (mFifo s)) (\<lambda>(other, q).
           Done (other, onMessagePopped mx (s\<lparr>mFifo := q\<rparr>))))"

definition abstract_getMultiple ::
  "'m list \<Rightarrow> uint32 \<Rightarrow> uint64 \<Rightarrow> ('m, 'z) afifo_scheme wake list \<Rightarrow> ('m, 'z) afifo_scheme \<Rightarrow>
   ('m list \<times> ('m, 'z) afifo_scheme) outcome" where
  "abstract_getMultiple other mx now ws s =
     (let s = onFifoPolled now s in
      if other \<noteq> [] then Fault AssertFailed
      else andthen (wait_available ws s) (take_available mx other))"

definition abstract_getMultiple_ms ::
  "int \<Rightarrow> uint64 \<Rightarrow> 'm list \<Rightarrow> uint32 \<Rightarrow> uint64 \<Rightarrow> ('m, 'z) afifo_scheme wake list \<Rightarrow>
   ('m, 'z) afifo_scheme \<Rightarrow> (bool \<times> 'm list \<times> ('m, 'z) afifo_scheme) outcome" where
  "abstract_getMultiple_ms ms begin other mx now ws s =
     (if ms = 0 then
        andthen (abstract_getMultiple other mx now ws s) (\<lambda>(other, s). Done (True, other, s))
      else if other \<noteq> [] then Fault AssertFailed
      else
        (let end = begin + ucast (word_of_int ms :: uint32) in
         andthen (wait_until (ms < 0) end ws (onFifoPolled now s)) (\<lambda>(ok, s).
         if \<not> ok then Done (False, other, s)
         else andthen (take_available mx other s) (\<lambda>(other, s). Done (True, other, s)))))"

definition abstract_add ::
  "uint64 \<Rightarrow> 'm \<Rightarrow> ('m, 'z) afifo_scheme \<Rightarrow> nat \<times> ('m, 'z) afifo_scheme" where
  "abstract_add now item s =
     (let s = s\<lparr>mFifo := mFifo s @ [item]\<rparr>; s = onMessagePushed now 1 s
      in (length (mFifo s), s))"

fun push_all :: "'m list \<Rightarrow> 'm list \<Rightarrow> 'm list \<times> 'm list" where
  "push_all q [] = (q, [])"
| "push_all q (m # items) = push_all (q @ [m]) items"

text \<open>The result also holds what is left in the caller's container.\<close>

definition abstract_addMultiple ::
  "uint64 \<Rightarrow> 'm list \<Rightarrow> ('m, 'z) afifo_scheme \<Rightarrow> nat \<times> 'm list \<times> ('m, 'z) afifo_scheme" where
  "abstract_addMultiple now items s =
     (let size = length items;
          (q, rest) = (if mFifo s = [] then (items, mFifo s) else push_all (mFifo s) items);
          s = onMessagePushed now (of_nat size) (s\<lparr>mFifo := q\<rparr>)
      in (length (mFifo s), rest, s))"

section \<open>Fifo\<close>

text \<open>\<open>notified\<close> lists the handlers whose \<open>handleProcessNotification\<close> was called.\<close>

record 'm fifo = "'m afifo" +
  mInterruptor :: "nat option"
  notified :: "nat list"

definition Fifo :: "nat option \<Rightarrow> 'm fifo" where
  "Fifo interruptor = afifo.extend AbstractFifo (fifo.fields interruptor [])"

definition setInterruptor :: "nat option \<Rightarrow> 'm fifo \<Rightarrow> 'm fifo" where
  "setInterruptor interruptor s = s\<lparr>mInterruptor := interruptor\<rparr>"

text \<open>Both clearing loops (also that of \<open>TimeLimitFifo\<close>) delete the front until none is left.\<close>

fun delete_all :: "'m list \<Rightarrow> 'm list \<Rightarrow> 'm list \<times> 'm list" where
  "delete_all deleted [] = (deleted, [])"
| "delete_all deleted (m # q) = delete_all (deleted @ [m]) q"

definition fifo_clear :: "('m, 'z) afifo_scheme \<Rightarrow> ('m list \<times> ('m, 'z) afifo_scheme) outcome" where
  "fifo_clear s =
     (let (deleted, q) = delete_all [] (mFifo s); s = s\<lparr>mFifo := q\<rparr> in
      if mFifo s = [] then Done (deleted, s) else Fault AssertFailed)"

definition notify :: "bool \<Rightarrow> 'm fifo \<Rightarrow> 'm fifo" where
  "notify b s = (case mInterruptor s of
       None \<Rightarrow> s
     | Some h \<Rightarrow> if b then s\<lparr>notified := notified s @ [h]\<rparr> else s)"

definition fifo_add :: "uint64 \<Rightarrow> 'm \<Rightarrow> 'm fifo \<Rightarrow> nat \<times> 'm fifo" where
  "fifo_add now msg s =
     (let (size, s) = abstract_add now msg s in (size, notify (size = 1) s))"

definition fifo_addMultiple :: "uint64 \<Rightarrow> 'm list \<Rightarrow> 'm fifo \<Rightarrow> nat \<times> 'm list \<times> 'm fifo" where
  "fifo_addMultiple now msgs s =
     (let inSize = length msgs; (size, rest, s) = abstract_addMultiple now msgs s
      in (size, rest, notify (size = inSize \<and> inSize \<noteq> 0) s))"

definition fifo_getNext ::
  "uint64 \<Rightarrow> 'm fifo wake list \<Rightarrow> 'm fifo \<Rightarrow> ('m \<times> 'm fifo) outcome" where
  "fifo_getNext now ws s = abstract_getNext now ws s"

definition fifo_getNext_ms ::
  "int \<Rightarrow> uint64 \<Rightarrow> uint64 \<Rightarrow> 'm fifo wake list \<Rightarrow> 'm fifo \<Rightarrow> ('m option \<times> 'm fifo) outcome" where
  "fifo_getNext_ms ms begin now ws s = abstract_getNext_ms ms begin now ws s"

definition fifo_getMultiple ::
  "'m list \<Rightarrow> uint32 \<Rightarrow> uint64 \<Rightarrow> 'm fifo wake list \<Rightarrow> 'm fifo \<Rightarrow> ('m list \<times> 'm fifo) outcome" where
  "fifo_getMultiple other mx now ws s = abstract_getMultiple other mx now ws s"

definition fifo_getMultiple_ms ::
  "int \<Rightarrow> uint64 \<Rightarrow> 'm list \<Rightarrow> uint32 \<Rightarrow> uint64 \<Rightarrow> 'm fifo wake list \<Rightarrow> 'm fifo \<Rightarrow>
   (bool \<times> 'm list \<times> 'm fifo) outcome" where
  "fifo_getMultiple_ms ms begin other mx now ws s = abstract_getMultiple_ms ms begin other mx now ws s"

section \<open>Content\<close>

text \<open>The bookkeeping never touches the messages.\<close>

lemma onFifoPolled_frame [simp]:
  "mFifo (onFifoPolled now s) = mFifo s"
  "mSize (onFifoPolled now s) = mSize s"
  "afifo.more (onFifoPolled now s) = afifo.more s"
  by (simp_all add: onFifoPolled_def Let_def)

lemma onMessagePopped_frame [simp]:
  "mFifo (onMessagePopped n s) = mFifo s"
  "mSize (onMessagePopped n s) = mSize s - n"
  "afifo.more (onMessagePopped n s) = afifo.more s"
  by (simp_all add: onMessagePopped_def)

lemma onMessagePushed_frame [simp]:
  "mFifo (onMessagePushed now n s) = mFifo s"
  "mSize (onMessagePushed now n s) = mSize s + n"
  "afifo.more (onMessagePushed now n s) = afifo.more s"
  by (simp_all add: onMessagePushed_def Let_def)

lemma notify_frame [simp]:
  "mFifo (notify b s) = mFifo s"
  "mSize (notify b s) = mSize s"
  "mInterruptor (notify b s) = mInterruptor s"
  by (simp_all add: notify_def split: option.split)

lemma front_pop_eq: "mFifo s = m # q \<Longrightarrow> front_pop s = Done (m, s\<lparr>mFifo := q\<rparr>)"
  by (simp add: front_pop_def)

lemma move_front_eq:
  "n \<le> length q \<Longrightarrow> move_front n other q = Done (other @ take n q, drop n q)"
  by (induction n other q rule: move_front.induct) auto

lemma push_all_eq: "push_all q items = (q @ items, [])"
  by (induction q items rule: push_all.induct) auto

lemma delete_all_eq: "delete_all deleted q = (deleted @ q, [])"
  by (induction deleted q rule: delete_all.induct) auto

lemma fifo_clear_eq: "fifo_clear s = Done (mFifo s, s\<lparr>mFifo := []\<rparr>)"
  by (simp add: fifo_clear_def delete_all_eq)

lemma abstract_add_content:
  "abstract_add now m s = (n, s') \<Longrightarrow>
     mFifo s' = mFifo s @ [m] \<and> n = length (mFifo s') \<and> mSize s' = mSize s + 1"
  by (auto simp: abstract_add_def Let_def)

lemma abstract_addMultiple_content:
  "abstract_addMultiple now items s = (n, rest, s') \<Longrightarrow>
     mFifo s' = mFifo s @ items \<and> rest = [] \<and> n = length (mFifo s')
     \<and> mSize s' = mSize s + of_nat (length items)"
  by (auto simp: abstract_addMultiple_def Let_def push_all_eq split: if_splits)

lemma wait_available_Done:
  "wait_available ws s = Done s' \<Longrightarrow> mFifo s' \<noteq> []"
  by (induction ws s rule: wait_available.induct) (auto split: if_splits)

lemma wait_available_no_fault: "wait_available ws s \<noteq> Fault e"
  by (induction ws s rule: wait_available.induct) auto

lemma wait_until_Done:
  "wait_until bail end ws s = Done (True, s') \<Longrightarrow> mFifo s' \<noteq> []"
  by (induction bail "end" ws s rule: wait_until.induct) (auto split: if_splits)

lemma wait_until_no_fault: "wait_until bail end ws s \<noteq> Fault e"
  by (induction bail "end" ws s rule: wait_until.induct) auto

lemma take_available_eq:
  "\<exists>s'. take_available mx [] s = Done (take (unat mx) (mFifo s), s')
      \<and> mFifo s' = drop (unat mx) (mFifo s)
      \<and> mSize s' = (if length (mFifo s) \<le> unat mx then 0 else mSize s - mx)"
  by (simp add: take_available_def move_front_eq)

section \<open>Waiting\<close>

text \<open>The queue as a waiting consumer finds it after \<open>k\<close> returns from the wait.\<close>

definition after_wakes ::
  "nat \<Rightarrow> ('m, 'z) afifo_scheme wake list \<Rightarrow> ('m, 'z) afifo_scheme \<Rightarrow> ('m, 'z) afifo_scheme" where
  "after_wakes k ws s = fold others (take k ws) s"

lemma after_wakes_0 [simp]: "after_wakes 0 ws s = s"
  by (simp add: after_wakes_def)

lemma after_wakes_Suc [simp]: "after_wakes (Suc k) (w # ws) s = after_wakes k ws (others w s)"
  by (simp add: after_wakes_def)

lemma wait_available_blocked:
  "(\<forall>k \<le> length ws. mFifo (after_wakes k ws s) = []) \<Longrightarrow> wait_available ws s = Blocked"
proof (induction ws arbitrary: s)
  case Nil
  then show ?case by simp
next
  case (Cons w ws)
  have "\<forall>k \<le> length ws. mFifo (after_wakes k ws (others w s)) = []"
    using Cons.prems by (metis Suc_le_mono after_wakes_Suc length_Cons)
  moreover have "mFifo s = []" using Cons.prems [rule_format, of 0] by simp
  ultimately show ?case using Cons.IH by simp
qed

lemma wait_available_first:
  "k \<le> length ws \<Longrightarrow> mFifo (after_wakes k ws s) \<noteq> [] \<Longrightarrow>
   (\<forall>j < k. mFifo (after_wakes j ws s) = []) \<Longrightarrow>
   wait_available ws s = Done (after_wakes k ws s)"
proof (induction ws arbitrary: s k)
  case Nil
  then show ?case by simp
next
  case (Cons w ws)
  show ?case
  proof (cases k)
    case 0
    with Cons.prems show ?thesis by simp
  next
    case (Suc k')
    have "mFifo s = []" using Cons.prems(3) [rule_format, of 0] Suc by simp
    moreover have "\<forall>j < k'. mFifo (after_wakes j ws (others w s)) = []"
      using Cons.prems(3) Suc by (metis Suc_less_eq after_wakes_Suc)
    ultimately show ?thesis using Cons Suc by simp
  qed
qed

lemma wait_until_returns:
  assumes "\<exists>w \<in> set ws. clock w \<ge> end \<or> \<not> signaled w"
  shows "\<exists>ok s'. wait_until bail end ws s = Done (ok, s')"
  using assms by (induction bail "end" ws s rule: wait_until.induct) auto

text \<open>
  The blocking \<open>getNext\<close> against whatever other threads do while it waits: as long as
  every return from the wait finds the queue empty it stays blocked, and at the first one
  that does not, it returns the message at the front, removes that message alone and counts
  it once.
\<close>

theorem getNext_waits_for_front:
  "((\<forall>k \<le> length ws. mFifo (after_wakes k ws (onFifoPolled now s)) = []) \<longrightarrow>
      abstract_getNext now ws s = Blocked) \<and>
   (\<forall>k m q. k \<le> length ws \<longrightarrow> mFifo (after_wakes k ws (onFifoPolled now s)) = m # q \<longrightarrow>
      (\<forall>j < k. mFifo (after_wakes j ws (onFifoPolled now s)) = []) \<longrightarrow>
      (\<exists>s'. abstract_getNext now ws s = Done (m, s') \<and> mFifo s' = q \<and>
            mSize s' = mSize (after_wakes k ws (onFifoPolled now s)) - 1))"
  by (simp add: abstract_getNext_def wait_available_blocked wait_available_first front_pop_eq)

text \<open>
  \<open>getNext(ms)\<close> with a time limit returns: the wait loop ends at the latest when the
  clock has passed the limit or a wait was not signalled, whatever other threads do to the
  queue and however often they wake the caller without leaving a message.
\<close>

theorem timed_getNext_returns:
  assumes "ms \<noteq> 0"
    and "ms < 0 \<or> (\<exists>w \<in> set ws. clock w \<ge> begin + ucast (word_of_int ms :: uint32) \<or> \<not> signaled w)"
  shows "\<exists>r s'. abstract_getNext_ms ms begin now ws s = Done (r, s')"
proof (cases "ms < 0")
  case True
  then show ?thesis
    by (cases "mFifo s") (auto simp: abstract_getNext_ms_def Let_def front_pop_def)
next
  case False
  let ?until = "begin + ucast (word_of_int ms :: uint32)"
  obtain ok s1 where w: "wait_until (ms = 0) ?until ws (onFifoPolled now s) = Done (ok, s1)"
    using assms False wait_until_returns by blast
  show ?thesis
  proof (cases ok)
    case True
    with w wait_until_Done have "mFifo s1 \<noteq> []" by metis
    with w True False \<open>ms \<noteq> 0\<close> show ?thesis
      by (cases "mFifo s1") (auto simp: abstract_getNext_ms_def Let_def front_pop_def)
  next
    case False
    with w \<open>\<not> ms < 0\<close> \<open>ms \<noteq> 0\<close> show ?thesis by (simp add: abstract_getNext_ms_def)
  qed
qed

lemma front_pop_after_wait:
  "wait_available ws s = Done s1 \<Longrightarrow> \<exists>m q. mFifo s1 = m # q \<and> front_pop s1 = Done (m, s1\<lparr>mFifo := q\<rparr>)"
  "wait_until bail end ws s = Done (True, s1) \<Longrightarrow>
     \<exists>m q. mFifo s1 = m # q \<and> front_pop s1 = Done (m, s1\<lparr>mFifo := q\<rparr>)"
  by (metis front_pop_eq list.exhaust wait_available_Done)
     (metis front_pop_eq list.exhaust wait_until_Done)

lemma take_available_no_fault: "take_available mx [] s \<noteq> Fault e"
  using take_available_eq [of mx s] by auto

lemmas no_faults = andthen_eq_Fault wait_available_no_fault wait_until_no_fault take_available_no_fault

lemma getNext_no_fault: "abstract_getNext now ws s \<noteq> Fault e"
  by (auto simp: abstract_getNext_def no_faults split: prod.splits dest: front_pop_after_wait)

lemma getMultiple_fault:
  "abstract_getMultiple other mx now ws s = Fault e \<longleftrightarrow> other \<noteq> [] \<and> e = AssertFailed"
  by (auto simp: abstract_getMultiple_def Let_def no_faults)

lemma getNext_ms_no_fault: "abstract_getNext_ms ms begin now ws s \<noteq> Fault e"
  by (auto simp: abstract_getNext_ms_def Let_def no_faults getNext_no_fault front_pop_def
      split: prod.splits if_splits list.splits dest: wait_until_Done)

lemma getMultiple_ms_fault:
  "abstract_getMultiple_ms ms begin other mx now ws s = Fault e \<longleftrightarrow> other \<noteq> [] \<and> e = AssertFailed"
  by (auto simp: abstract_getMultiple_ms_def Let_def no_faults getMultiple_fault
      split: prod.splits if_splits)

text \<open>
  No call takes from an empty container, under any interference while it waits: the only
  failure is the assertion of \<open>getMultiple\<close> that the caller's container is empty.
\<close>

theorem fifo_never_pops_empty:
  "abstract_getNext now ws s \<noteq> Fault e \<and>
   abstract_getNext_ms ms begin now ws' s \<noteq> Fault e \<and>
   (abstract_getMultiple other mx now ws s = Fault e \<longleftrightarrow> other \<noteq> [] \<and> e = AssertFailed) \<and>
   (abstract_getMultiple_ms ms begin other mx now ws' s = Fault e \<longleftrightarrow> other \<noteq> [] \<and> e = AssertFailed)"
  by (simp add: getNext_no_fault getNext_ms_no_fault getMultiple_fault getMultiple_ms_fault)

section \<open>The depth counter\<close>

text \<open>What \<open>getCountDepth\<close> reports beyond the messages that are there.\<close>

definition overcount :: "('m, 'z) afifo_scheme \<Rightarrow> uint32" where
  "overcount s = mSize s - of_nat (length (mFifo s))"

definition wakes_keep :: "('s \<Rightarrow> bool) \<Rightarrow> 's wake list \<Rightarrow> bool" where
  "wakes_keep P ws = (\<forall>w \<in> set ws. \<forall>s. P s \<longrightarrow> P (others w s))"

lemma wait_available_keeps:
  "wakes_keep P ws \<Longrightarrow> P s \<Longrightarrow> wait_available ws s = Done s' \<Longrightarrow> P s'"
  by (induction ws s rule: wait_available.induct) (auto simp: wakes_keep_def split: if_splits)

lemma wait_until_keeps:
  "wakes_keep P ws \<Longrightarrow> P s \<Longrightarrow> wait_until bail end ws s = Done (ok, s') \<Longrightarrow> P s'"
  by (induction bail "end" ws s rule: wait_until.induct) (auto simp: wakes_keep_def split: if_splits)

lemma overcount_polled [simp]: "overcount (onFifoPolled now s) = overcount s"
  by (simp add: overcount_def)

lemma front_pop_overcount:
  "front_pop s = Done (m, s') \<Longrightarrow> overcount (onMessagePopped 1 s') = overcount s"
  by (auto simp: front_pop_def overcount_def split: list.splits)

lemma take_available_overcount:
  assumes "take_available mx [] s = Done (ms, s')"
  shows "overcount s' = (if length (mFifo s) \<le> unat mx then 0 else overcount s)"
proof -
  obtain s1 where s1: "take_available mx [] s = Done (take (unat mx) (mFifo s), s1)"
    "mFifo s1 = drop (unat mx) (mFifo s)"
    "mSize s1 = (if length (mFifo s) \<le> unat mx then 0 else mSize s - mx)"
    using take_available_eq by blast
  with assms have "s1 = s'" by simp
  with s1 show ?thesis by (simp add: overcount_def of_nat_diff)
qed

lemma depth_exact_ops:
  assumes "overcount s = 0" and "wakes_keep (\<lambda>s. overcount s = 0) ws" and "0 \<le> ms"
  shows "overcount (snd (abstract_add now m s)) = 0"
    and "overcount (snd (snd (abstract_addMultiple now items s))) = 0"
    and "abstract_getNext now ws s = Done (m, s1) \<Longrightarrow> overcount s1 = 0"
    and "abstract_getNext_ms ms begin now ws s = Done (r, s2) \<Longrightarrow> overcount s2 = 0"
    and "abstract_getMultiple [] mx now ws s = Done (out, s3) \<Longrightarrow> overcount s3 = 0"
    and "abstract_getMultiple_ms ms begin [] mx now ws s = Done (b, out, s4) \<Longrightarrow> overcount s4 = 0"
proof -
  show "overcount (snd (abstract_add now m s)) = 0"
    using assms(1) by (simp add: abstract_add_def Let_def overcount_def)
  show "overcount (snd (snd (abstract_addMultiple now items s))) = 0"
    using assms(1) by (simp add: abstract_addMultiple_def Let_def overcount_def push_all_eq)
  have avail: "overcount t = 0" if "wait_available ws (onFifoPolled now s) = Done t" for t
    using wait_available_keeps [OF assms(2) _ that] assms(1) by simp
  have until: "overcount t = 0" if "wait_until b d ws (onFifoPolled now s) = Done (ok, t)" for b d ok t
    using wait_until_keeps [OF assms(2) _ that] assms(1) by simp
  show getNext: "overcount s1 = 0" if "abstract_getNext now ws s = Done (m, s1)" for m s1
    using that avail by (auto simp: abstract_getNext_def andthen_eq_Done front_pop_overcount)
  show "overcount s2 = 0" if "abstract_getNext_ms ms begin now ws s = Done (r, s2)"
    using that until getNext assms(3)
    by (auto simp: abstract_getNext_ms_def Let_def andthen_eq_Done front_pop_overcount
        split: if_splits)
  show getMultiple: "overcount s3 = 0" if "abstract_getMultiple [] mx now ws s = Done (out, s3)" for out s3
    using that avail by (auto simp: abstract_getMultiple_def Let_def andthen_eq_Done take_available_overcount)
  show "overcount s4 = 0" if "abstract_getMultiple_ms ms begin [] mx now ws s = Done (b, out, s4)"
    using that until getMultiple
    by (auto simp: abstract_getMultiple_ms_def Let_def andthen_eq_Done take_available_overcount
        split: if_splits)
qed

text \<open>
  The depth that the queue reports stays exact under every operation that waits or adds,
  whatever the threads that run during a wait do as long as they keep it exact: after
  \<open>add\<close>, \<open>addMultiple\<close>, \<open>getNext()\<close>, \<open>getNext(ms)\<close> with \<open>ms \<ge> 0\<close> and both
  forms of \<open>getMultiple\<close> the counter \<open>mSize\<close> is the number of messages.
\<close>

theorem depth_stays_exact:
  assumes "overcount s = 0" and "wakes_keep (\<lambda>s. overcount s = 0) ws" and "0 \<le> ms"
  shows "overcount (snd (abstract_add now item s)) = 0 \<and>
    overcount (snd (snd (abstract_addMultiple now items s))) = 0 \<and>
    (\<forall>m s'. abstract_getNext now ws s = Done (m, s') \<longrightarrow> overcount s' = 0) \<and>
    (\<forall>r s'. abstract_getNext_ms ms begin now ws s = Done (r, s') \<longrightarrow> overcount s' = 0) \<and>
    (\<forall>out s'. abstract_getMultiple [] mx now ws s = Done (out, s') \<longrightarrow> overcount s' = 0) \<and>
    (\<forall>b out s'. abstract_getMultiple_ms ms begin [] mx now ws s = Done (b, out, s') \<longrightarrow> overcount s' = 0)"
  by (intro conjI allI impI) (erule depth_exact_ops [OF assms] | rule depth_exact_ops [OF assms])+

text \<open>
  The two operations that do not count what they remove. \<open>getNext\<close> without waiting
  (\<open>ms < 0\<close>) delivers the front message and leaves \<open>mSize\<close> as it was, and \<open>clear\<close>
  deletes every message and leaves it too; from then on the reported depth is too large by
  the number of messages removed, until a \<open>getMultiple\<close> that empties the queue sets it to
  zero.
\<close>

theorem uncounted_removals:
  assumes "mFifo s = m # q" and "ms < 0"
  shows "\<exists>s1 s2. abstract_getNext_ms ms begin now ws s = Done (Some m, s1) \<and> mFifo s1 = q \<and>
      overcount s1 = overcount s + 1 \<and>
    fifo_clear s = Done (m # q, s2) \<and> mFifo s2 = [] \<and>
      overcount s2 = overcount s + of_nat (Suc (length q))"
  using assms
  by (simp add: abstract_getNext_ms_def Let_def front_pop_def fifo_clear_eq overcount_def)

definition example_wakes :: "'m \<Rightarrow> 'm fifo wake list" where
  "example_wakes m = [Wake 0 True id, Wake 5 True (\<lambda>s. snd (fifo_add 7 m s))]"

lemma fifo_add_overcount: "overcount (snd (fifo_add now m s)) = overcount s"
  by (simp add: fifo_add_def abstract_add_def Let_def overcount_def)

lemma wakes_keep_example: "wakes_keep (\<lambda>s. overcount s = 0) (example_wakes m)"
  by (simp add: wakes_keep_def example_wakes_def fifo_add_overcount)

lemma Fifo_simps [simp]:
  "mFifo (Fifo h) = []" "mSize (Fifo h) = 0" "mInterruptor (Fifo h) = h" "notified (Fifo h) = []"
  "mCounter (Fifo h) = 0" "mLastSampleTakenMicroSec (Fifo h) = 0"
  by (simp_all add: Fifo_def AbstractFifo_def afifo.defs fifo.defs)

theorem depth_stays_exact_witness:
  "\<exists>s'. abstract_getNext_ms 10 0 1 (example_wakes (4 :: nat)) (Fifo (Some 1)) = Done (Some 4, s')
      \<and> overcount s' = 0"
proof -
  have "overcount (Fifo (Some 1) :: nat fifo) = 0" by (simp add: overcount_def)
  note * = depth_stays_exact [OF this wakes_keep_example [of 4], of 10 1 _ _ 0]
  have "\<exists>s'. abstract_getNext_ms 10 0 1 (example_wakes (4 :: nat)) (Fifo (Some 1)) = Done (Some 4, s')"
    by (simp add: abstract_getNext_ms_def example_wakes_def fifo_add_def abstract_add_def Let_def
        front_pop_def)
  with * show ?thesis by auto
qed

theorem uncounted_removals_witness:
  "\<exists>s1. abstract_getNext_ms (-1) 0 1 [] (snd (fifo_add 0 (4 :: nat) (Fifo None))) = Done (Some 4, s1)
      \<and> mFifo s1 = [] \<and> overcount s1 = 1"
proof -
  let ?s = "snd (fifo_add 0 (4 :: nat) (Fifo None))"
  have "mFifo ?s = 4 # []" by (simp add: fifo_add_def abstract_add_def Let_def)
  moreover have "overcount ?s = 0" by (simp add: fifo_add_overcount) (simp add: overcount_def)
  ultimately show ?thesis using uncounted_removals [of ?s 4 "[]" "-1" 0 1 "[]"] by auto
qed

theorem getNext_waits_for_front_witness:
  "\<exists>s'. abstract_getNext 1 (example_wakes (4 :: nat)) (Fifo (Some 1)) = Done (4, s') \<and> mFifo s' = []"
proof -
  have ks: "mFifo (after_wakes 2 (example_wakes (4 :: nat)) (onFifoPolled 1 (Fifo (Some 1)))) = 4 # []"
    "\<forall>j < 2. mFifo (after_wakes j (example_wakes (4 :: nat)) (onFifoPolled 1 (Fifo (Some 1)))) = []"
    by (auto simp: after_wakes_def example_wakes_def fifo_add_def abstract_add_def Let_def dest: less_2_cases)
  have "2 \<le> length (example_wakes (4 :: nat))" by (simp add: example_wakes_def)
  with getNext_waits_for_front [of "example_wakes (4 :: nat)" 1 "Fifo (Some 1)"] ks show ?thesis by blast
qed

theorem timed_getNext_returns_witness:
  "\<exists>r s'. abstract_getNext_ms 10 100 0 [Wake 100 True id, Wake 110 True id] (Fifo None :: nat fifo)
     = Done (r, s')"
  by (rule timed_getNext_returns) simp_all

section \<open>Taking many at once\<close>

fun getNext_times ::
  "nat \<Rightarrow> uint64 \<Rightarrow> ('m, 'z) afifo_scheme \<Rightarrow> ('m list \<times> ('m, 'z) afifo_scheme) outcome" where
  "getNext_times 0 now s = Done ([], s)"
| "getNext_times (Suc n) now s = andthen (abstract_getNext now [] s) (\<lambda>(m, s).
     andthen (getNext_times n now s) (\<lambda>(ms, s). Done (m # ms, s)))"

lemma getNext_times_eq:
  "n \<le> length (mFifo s) \<Longrightarrow> \<exists>s'. getNext_times n now s = Done (take n (mFifo s), s')
     \<and> mFifo s' = drop n (mFifo s) \<and> mSize s' = mSize s - of_nat n"
proof (induction n arbitrary: s)
  case 0
  then show ?case by simp
next
  case (Suc n)
  then obtain m q where s: "mFifo s = m # q" by (cases "mFifo s") auto
  define t where "t = onMessagePopped 1 ((onFifoPolled now s)\<lparr>mFifo := q\<rparr>)"
  have "abstract_getNext now [] s = Done (m, t)"
    by (simp add: abstract_getNext_def front_pop_def s t_def)
  moreover have "mFifo t = q" "mSize t = mSize s - 1" by (simp_all add: t_def)
  ultimately show ?case using Suc s by (fastforce simp: diff_diff_eq)
qed

text \<open>
  \<open>getMultiple\<close> is \<open>getNext\<close> in bulk: on a queue with an exact depth that is not
  empty it delivers the messages, leaves the queue and reports the depth that as many single
  calls would.
\<close>

theorem getMultiple_as_getNexts:
  assumes "mFifo s \<noteq> []" and "overcount s = 0"
  shows "\<exists>out s1 s2. abstract_getMultiple [] mx now [] s = Done (out, s1) \<and>
    getNext_times (min (unat mx) (length (mFifo s))) now s = Done (out, s2) \<and>
    out = take (unat mx) (mFifo s) \<and> mFifo s1 = mFifo s2 \<and> mSize s1 = mSize s2"
proof -
  let ?n = "min (unat mx) (length (mFifo s))"
  obtain s2 where s2: "getNext_times ?n now s = Done (take ?n (mFifo s), s2)"
    "mFifo s2 = drop ?n (mFifo s)" "mSize s2 = mSize s - of_nat ?n"
    using getNext_times_eq [of ?n s now] by auto
  obtain s1 where s1: "take_available mx [] (onFifoPolled now s) = Done (take (unat mx) (mFifo s), s1)"
    "mFifo s1 = drop (unat mx) (mFifo s)"
    "mSize s1 = (if length (mFifo s) \<le> unat mx then 0 else mSize s - mx)"
    using take_available_eq [of mx "onFifoPolled now s"] by auto
  have "abstract_getMultiple [] mx now [] s = Done (take (unat mx) (mFifo s), s1)"
    using assms(1) s1(1) by (simp add: abstract_getMultiple_def)
  moreover have "mSize s1 = mSize s2"
    using s1(3) s2(3) assms(2) by (auto simp: overcount_def min_def)
  moreover have "take ?n (mFifo s) = take (unat mx) (mFifo s)" "drop ?n (mFifo s) = drop (unat mx) (mFifo s)"
    by (simp_all add: min_def)
  ultimately show ?thesis using s1(2) s2 by auto
qed

theorem getMultiple_as_getNexts_witness:
  "\<exists>s1. abstract_getMultiple [] 2 0 [] (snd (snd (fifo_addMultiple 1 [5, 6, 7 :: nat] (Fifo None))))
     = Done ([5, 6], s1) \<and> mFifo s1 = [7]"
proof -
  let ?s = "snd (snd (fifo_addMultiple 1 [5, 6, 7 :: nat] (Fifo None)))"
  have s: "mFifo ?s = [5, 6, 7]" "mSize ?s = 3"
    by (simp_all add: fifo_addMultiple_def abstract_addMultiple_def Let_def)
  then have "overcount ?s = 0" by (simp add: overcount_def)
  with s getMultiple_as_getNexts [of ?s 2 0] getNext_times_eq [of "Suc (Suc 0)" ?s 0] show ?thesis
    by (auto simp del: getNext_times.simps)
qed

section \<open>Wake-up of the process loop\<close>

text \<open>
  The registered handler is notified exactly when the queue goes from empty to not empty:
  by an \<open>add\<close> to an empty queue, by an \<open>addMultiple\<close> of something to an empty queue, and
  by no other call.
\<close>

theorem notified_iff_becomes_nonempty:
  "notified (snd (fifo_add now m s)) = notified s @
     (case mInterruptor s of Some h \<Rightarrow> if mFifo s = [] then [h] else [] | None \<Rightarrow> []) \<and>
   notified (snd (snd (fifo_addMultiple now items s))) = notified s @
     (case mInterruptor s of Some h \<Rightarrow> if mFifo s = [] \<and> items \<noteq> [] then [h] else [] | None \<Rightarrow> [])"
proof -
  have frame: "notified (onMessagePushed now n t) = notified t"
    "mInterruptor (onMessagePushed now n t) = mInterruptor t" for n and t :: "'a fifo"
    by (simp_all add: onMessagePushed_def Let_def)
  show ?thesis
    by (auto simp: fifo_add_def abstract_add_def fifo_addMultiple_def abstract_addMultiple_def
        push_all_eq notify_def frame Let_def split: option.split)
qed

section \<open>Schedules\<close>

text \<open>A call of \<open>getNext(ms)\<close> that no other thread interferes with; an empty queue lets it
  time out.\<close>

definition fifo_pull :: "int \<times> uint64 \<times> uint64 \<Rightarrow> 'm fifo \<Rightarrow> 'm option \<times> 'm fifo" where
  "fifo_pull = (\<lambda>(ms, begin, now) s.
     case fifo_getNext_ms ms begin now [Wake begin False id] s of
       Done (r, s') \<Rightarrow> (r, s') | _ \<Rightarrow> (None, s))"

definition fifo_put :: "uint64 \<times> 'm \<Rightarrow> 'm fifo \<Rightarrow> bool \<times> 'm fifo" where
  "fifo_put = (\<lambda>(now, m) s. (True, snd (fifo_add now m s)))"

lemma getNext_ms_content:
  "abstract_getNext_ms ms begin now [Wake t False id] s = Done (r, s') \<Longrightarrow>
     mFifo s = (case r of None \<Rightarrow> mFifo s' | Some m \<Rightarrow> m # mFifo s')"
  by (cases "mFifo s")
     (auto simp: abstract_getNext_ms_def abstract_getNext_def Let_def front_pop_def split: if_splits)

lemma getNext_ms_serves:
  "mFifo s = m # q \<Longrightarrow>
     \<exists>s'. abstract_getNext_ms ms begin now ws s = Done (Some m, s') \<and> mFifo s' = q"
  by (cases ws) (auto simp: abstract_getNext_ms_def abstract_getNext_def Let_def front_pop_def)

interpretation fq: message_queue mFifo "\<lambda>s. True" snd fifo_put fifo_pull
proof
  fix s s' :: "'a fifo" and i b
  assume "fifo_put i s = (b, s')"
  then show "mFifo s' = (if b then mFifo s @ [snd i] else mFifo s) \<and> True"
    by (auto simp: fifo_put_def fifo_add_def abstract_add_def Let_def split: prod.splits)
next
  fix s s' :: "'a fifo" and j r
  assume "fifo_pull j s = (r, s')"
  then show "mFifo s = (case r of None \<Rightarrow> mFifo s' | Some m \<Rightarrow> m # mFifo s') \<and> True"
    by (auto simp: fifo_pull_def fifo_getNext_ms_def dest: getNext_ms_content
        split: prod.splits outcome.splits)
qed

interpretation fq: unbounded_queue mFifo "\<lambda>s. True" snd fifo_put fifo_pull
  by unfold_locales (auto simp: fifo_put_def)

interpretation fq: serving_queue mFifo "\<lambda>s. True" snd fifo_put fifo_pull
proof
  fix s :: "'a fifo" and j :: "int \<times> uint64 \<times> uint64"
  assume "mFifo s \<noteq> []"
  then obtain m q where s: "mFifo s = m # q" by (cases "mFifo s") auto
  obtain ms t0 now where j: "j = (ms, t0, now)" by (cases j)
  show "fst (fifo_pull j s) \<noteq> None"
    using getNext_ms_serves [OF s, of ms t0 now "[Wake t0 False id]"]
    by (auto simp: j fifo_pull_def fifo_getNext_ms_def)
qed

text \<open>
  (C15) First in, first out, over every schedule of producers and consumers: the messages
  delivered, followed by the ones still queued, are the ones queued at the start followed by
  the ones added, so that no message is lost, doubled or overtaken; and as many takes as
  there are messages deliver them all.
\<close>

theorem fifo_schedule:
  assumes "run_queue snd fifo_put fifo_pull ops s = (acc, del, s')"
  shows "acc = offered snd ops \<and> mFifo s @ offered snd ops = del @ mFifo s' \<and>
    (\<forall>js. length js = length (mFifo s') \<longrightarrow>
       (\<exists>s2. run_queue snd fifo_put fifo_pull (map Take js) s' = ([], mFifo s', s2) \<and> mFifo s2 = []))"
proof (intro conjI allI impI)
  show "acc = offered snd ops" by (rule fq.accepts_all [OF TrueI assms])
  show "mFifo s @ offered snd ops = del @ mFifo s'" by (rule fq.all_accounted [OF TrueI assms])
  show "\<exists>s2. run_queue snd fifo_put fifo_pull (map Take js) s' = ([], mFifo s', s2) \<and> mFifo s2 = []"
    if "length js = length (mFifo s')" for js
    using fq.drains [OF TrueI, of js s'] that by auto
qed

theorem fifo_schedule_witness:
  "\<exists>s'. run_queue snd fifo_put fifo_pull
     [Put (1, 10), Put (2, 20), Take (-1, 0, 3), Put (4, 30)] (Fifo None :: nat fifo)
       = ([10, 20, 30], [10], s') \<and> mFifo s' = [20, 30]"
proof -
  obtain acc del s' where r: "run_queue snd fifo_put fifo_pull
     [Put (1, 10), Put (2, 20), Take (-1, 0, 3), Put (4, 30)] (Fifo None :: nat fifo) = (acc, del, s')"
    by (cases "run_queue snd fifo_put fifo_pull
     [Put (1, 10), Put (2, 20), Take (-1, 0, 3), Put (4, 30)] (Fifo None :: nat fifo)") auto
  moreover have "del = [10]"
    using r by (auto simp: fifo_put_def fifo_pull_def fifo_add_def abstract_add_def Let_def
        fifo_getNext_ms_def abstract_getNext_ms_def front_pop_def split: prod.splits)
  ultimately show ?thesis using fifo_schedule [OF r] by simp
qed

section \<open>Service times\<close>

lemma resipIntDiv_nat:
  assumes "b \<noteq> 0"
  shows "unat (resipIntDiv a b) = unat a div unat b + (if unat b div 2 < unat a mod unat b then 1 else 0)"
proof (cases "b div 2 < a mod b")
  case True
  then have m: "unat b div 2 < unat a mod unat b"
    by (simp add: word_less_nat_alt unat_div_distrib unat_mod_distrib)
  have "0 < unat b" using assms by (simp add: unat_gt_0)
  moreover have "unat b \<noteq> 1" using m by auto
  ultimately have "2 \<le> unat b" by linarith
  then have "unat a div unat b * 2 \<le> unat a"
    using div_times_less_eq_dividend [of "unat a" "unat b"] by (meson le_trans mult_le_mono2)
  then have "unat a div unat b + 1 < 2 ^ 64" using unat_less_bound [of a] by simp
  then show ?thesis using True m
    by (simp add: resipIntDiv_def unat_div_distrib unat_word_ariths(1))
next
  case False
  then show ?thesis
    by (simp add: resipIntDiv_def word_less_nat_alt unat_div_distrib unat_mod_distrib)
qed

lemma resipIntDiv_between:
  assumes "b \<noteq> 0" and "lo * unat b \<le> unat a" and "unat a \<le> hi * unat b"
  shows "lo \<le> unat (resipIntDiv a b) \<and> unat (resipIntDiv a b) \<le> hi"
proof -
  have pos: "0 < unat b" using assms(1) by (simp add: unat_gt_0)
  have "lo \<le> unat a div unat b" using assms(2) pos by (simp add: less_eq_div_iff_mult_less_eq)
  moreover have "unat a div unat b + (if unat b div 2 < unat a mod unat b then 1 else 0) \<le> hi"
  proof (cases "unat a mod unat b = 0")
    case True
    then have "unat a div unat b \<le> hi"
      using div_le_mono [OF assms(3), of "unat b"] pos by simp
    with True show ?thesis by simp
  next
    case False
    then have "unat a \<noteq> hi * unat b" by auto
    with assms(3) have "unat a div unat b < hi" by (simp add: div_less_iff_less_mult pos)
    then show ?thesis by simp
  qed
  ultimately show ?thesis using resipIntDiv_nat [OF assms(1)] by simp
qed

text \<open>
  The estimate of the service time is a mean: when the messages taken since the last
  sample took between \<open>lo\<close> and \<open>hi\<close> microseconds each, and the previous estimate was
  between the two, so is the new one, rounding included. This holds as long as \<open>hi\<close> is
  below \<open>2^32 / 4096\<close> microseconds, about one second.
\<close>

theorem average_stays_between:
  assumes "mLastSampleTakenMicroSec s \<noteq> 0" and "mCounter s \<noteq> 0"
    and "64 \<le> mCounter s \<or> mFifo s = []"
    and "mLastSampleTakenMicroSec s \<le> now"
    and "unat (mCounter s) * lo \<le> unat (now - mLastSampleTakenMicroSec s)"
    and "unat (now - mLastSampleTakenMicroSec s) \<le> unat (mCounter s) * hi"
    and "lo \<le> unat (mAverageServiceTimeMicroSec s)" and "unat (mAverageServiceTimeMicroSec s) \<le> hi"
    and "4096 * hi < 2 ^ 32"
  shows "lo \<le> unat (mAverageServiceTimeMicroSec (onFifoPolled now s)) \<and>
    unat (mAverageServiceTimeMicroSec (onFifoPolled now s)) \<le> hi"
proof -
  let ?c = "mCounter s" and ?a = "mAverageServiceTimeMicroSec s"
  let ?d = "now - mLastSampleTakenMicroSec s"
  let ?q = "if ?c \<ge> 4096 then resipIntDiv ?d (ucast ?c) else resipIntDiv (?d + ucast ((4096 - ?c) * ?a)) 4096"
  have q: "lo \<le> unat ?q \<and> unat ?q \<le> hi"
  proof (cases "?c \<ge> 4096")
    case True
    have "unat (ucast ?c :: uint64) = unat ?c" by (simp add: unat_widen)
    moreover have "(ucast ?c :: uint64) \<noteq> 0" using assms(2) calculation by (metis unat_eq_zero)
    ultimately show ?thesis
      using True resipIntDiv_between [of "ucast ?c" lo ?d hi] assms(5,6) by (simp add: mult.commute)
  next
    case False
    then have c: "unat ?c < 4096" by (simp add: word_le_nat_alt)
    then have sub: "unat (4096 - ?c) = 4096 - unat ?c" by (simp add: unat_sub word_le_nat_alt)
    have prod: "(4096 - unat ?c) * unat ?a \<le> 4096 * hi"
      using assms(8) by (intro mult_le_mono) auto
    then have m: "unat ((4096 - ?c) * ?a) = (4096 - unat ?c) * unat ?a"
      using assms(9) by (simp add: unat_word_ariths(2) sub)
    have d: "unat ?d \<le> 4096 * hi"
      using assms(6) c by (meson le_trans less_imp_le mult_le_mono1)
    let ?sum = "?d + ucast ((4096 - ?c) * ?a)"
    have sum: "unat ?sum = unat ?d + (4096 - unat ?c) * unat ?a"
      using d prod assms(9) by (simp add: unat_word_ariths(1) unat_widen m)
    have split: "n * 4096 = unat ?c * n + (4096 - unat ?c) * n" for n
      using c by (simp flip: add_mult_distrib)
    have "lo * 4096 \<le> unat ?sum" "unat ?sum \<le> hi * 4096"
      unfolding sum split using assms(5-8) by (intro add_le_mono mult_le_mono; simp)+
    then show ?thesis using False resipIntDiv_between [of 4096 lo ?sum hi] by simp
  qed
  then have "unat (ucast ?q :: uint32) = unat ?q"
    using assms(9) by (intro unat_narrow) simp
  moreover have "mAverageServiceTimeMicroSec (onFifoPolled now s) = ucast ?q"
    using assms(1-3) by (simp add: onFifoPolled_def Let_def)
  ultimately show ?thesis using q by simp
qed

definition slow_consumer :: "nat afifo" where
  "slow_consumer = \<lparr>mFifo = [], mLastSampleTakenMicroSec = 1000, mCounter = 2,
     mAverageServiceTimeMicroSec = 2000000, mSize = 0\<rparr>"

text \<open>
  Beyond that limit the estimate is wrong: the product of the previous estimate and its
  weight is computed in 32 bits. A consumer that has needed two seconds for each message, and
  needs two seconds for each of the next two, is then estimated at less than one second.
\<close>

theorem average_overflows:
  "unat (mAverageServiceTimeMicroSec (onFifoPolled 4001000 slow_consumer)) = 951424"
  by (simp add: slow_consumer_def onFifoPolled_def resipIntDiv_def Let_def unsigned_ucast_eq)

text \<open>
  The expected waiting time is the estimate times the depth, rounded to milliseconds,
  as long as the product in microseconds fits into 32 bits (about 71 minutes); beyond that
  it wraps, and a backlog of 71 minutes is reported as 33 milliseconds.
\<close>

theorem expectedWait_exact:
  "(unat (mAverageServiceTimeMicroSec s) * unat (mSize s) + 500 < 2 ^ 32 \<longrightarrow>
     unat (expectedWaitTimeMilliSec s) =
       (unat (mAverageServiceTimeMicroSec s) * unat (mSize s) + 500) div 1000) \<and>
   unat (expectedWaitTimeMilliSec (AbstractFifo \<lparr>mAverageServiceTimeMicroSec := 100000, mSize := 42950\<rparr>)) = 33"
  by (simp add: expectedWaitTimeMilliSec_def AbstractFifo_def unat_div_distrib unat_word_ariths(1,2))

definition steady_consumer :: "nat afifo" where
  "steady_consumer = \<lparr>mFifo = [], mLastSampleTakenMicroSec = 1000, mCounter = 100,
     mAverageServiceTimeMicroSec = 3, mSize = 0\<rparr>"

theorem average_stays_between_witness:
  "unat (mAverageServiceTimeMicroSec (onFifoPolled 1300 steady_consumer)) = 3"
  using average_stays_between [of steady_consumer 1300 3 3] by (simp add: steady_consumer_def)

theorem expectedWait_exact_witness:
  "unat (expectedWaitTimeMilliSec
     (AbstractFifo \<lparr>mAverageServiceTimeMicroSec := 2500, mSize := 10\<rparr>)) = 25"
  using expectedWait_exact [of "AbstractFifo \<lparr>mAverageServiceTimeMicroSec := 2500, mSize := 10\<rparr>"]
  by (auto simp: AbstractFifo_def)

end
