(* ===== verification/LimitedFifos.thy ===== *)
theory LimitedFifos
  imports Fifos
begin

text \<open>
  The queues with limits: \<open>TimeLimitFifo\<close>, which refuses messages by number, by kind and by
  the age of the oldest message, and \<open>FiniteFifo\<close>, which refuses them by number alone. Both
  extend the record of \<open>AbstractFifo\<close>. \<open>time_t\<close> is a 64-bit type, so seconds are
  integers; each call of \<open>time(0)\<close> is an argument.
\<close>

section \<open>TimeLimitFifo\<close>

datatype 'm timestamped = Timestamped (getMsg: 'm) (getTime: int)

datatype depth_usage = EnforceTimeDepth | IgnoreTimeDepth | InternalElement

record 'm tlfifo = "'m timestamped afifo" +
  mMaxDurationSecs :: int
  mMaxSize :: uint32
  mUnreservedMaxSize :: uint32

definition TimeLimitFifo :: "uint32 \<Rightarrow> uint32 \<Rightarrow> 'm tlfifo" where
  "TimeLimitFifo maxDurationSecs maxSize =
     afifo.extend AbstractFifo
       (tlfifo.fields (uint maxDurationSecs) maxSize ((maxSize * 8) div 10))"

definition timeDepthInternal :: "int \<Rightarrow> 'm tlfifo \<Rightarrow> int" where
  "timeDepthInternal t s = (case mFifo s of [] \<Rightarrow> 0 | m # q \<Rightarrow> t - getTime m)"

definition wouldAcceptInteral :: "int \<Rightarrow> depth_usage \<Rightarrow> 'm tlfifo \<Rightarrow> bool" where
  "wouldAcceptInteral t usage s =
     (if mMaxSize s \<noteq> 0 \<and> length (mFifo s) \<ge> unat (mMaxSize s) then False
      else if usage = InternalElement then True
      else if mUnreservedMaxSize s \<noteq> 0 \<and> length (mFifo s) \<ge> unat (mUnreservedMaxSize s) then False
      else if usage = IgnoreTimeDepth then True
      else length (mFifo s) = 0 \<or> mMaxDurationSecs s = 0 \<or> timeDepthInternal t s < mMaxDurationSecs s)"

definition wouldAccept :: "int \<Rightarrow> depth_usage \<Rightarrow> 'm tlfifo \<Rightarrow> bool" where
  "wouldAccept t usage s = wouldAcceptInteral t usage s"

text \<open>\<open>t\<close> is the time read for the decision, \<open>n\<close> the time stamped on the message.\<close>

definition tl_add :: "int \<Rightarrow> int \<Rightarrow> uint64 \<Rightarrow> 'm \<Rightarrow> depth_usage \<Rightarrow> 'm tlfifo \<Rightarrow> bool \<times> 'm tlfifo" where
  "tl_add t n now msg usage s =
     (if wouldAcceptInteral t usage s
      then (True, onMessagePushed now 1 (s\<lparr>mFifo := mFifo s @ [Timestamped msg n]\<rparr>))
      else (False, s))"

definition tl_getNext :: "uint64 \<Rightarrow> 'm tlfifo wake list \<Rightarrow> 'm tlfifo \<Rightarrow> ('m \<times> 'm tlfifo) outcome" where
  "tl_getNext now ws s = andthen (abstract_getNext now ws s) (\<lambda>(tm, s). Done (getMsg tm, s))"

definition tl_getNext_ms ::
  "int \<Rightarrow> uint64 \<Rightarrow> uint64 \<Rightarrow> 'm tlfifo wake list \<Rightarrow> 'm tlfifo \<Rightarrow> ('m option \<times> 'm tlfifo) outcome" where
  "tl_getNext_ms ms begin now ws s =
     andthen (abstract_getNext_ms ms begin now ws s) (\<lambda>(r, s).
     case r of Some tm \<Rightarrow> Done (Some (getMsg tm), s) | None \<Rightarrow> Done (None, s))"

definition timeDepth :: "int \<Rightarrow> 'm tlfifo \<Rightarrow> int" where
  "timeDepth t s = timeDepthInternal t s"

definition tl_clear :: "'m tlfifo \<Rightarrow> 'm list \<times> 'm tlfifo" where
  "tl_clear s = (let (deleted, q) = delete_all [] (mFifo s) in (map getMsg deleted, s\<lparr>mFifo := q\<rparr>))"

definition tl_getCountDepth :: "'m tlfifo \<Rightarrow> uint32" where
  "tl_getCountDepth s = fifo_size s"

definition getCountDepthTolerance :: "'m tlfifo \<Rightarrow> uint32" where
  "getCountDepthTolerance s = mUnreservedMaxSize s"

definition getTimeDepth :: "int \<Rightarrow> 'm tlfifo \<Rightarrow> int" where
  "getTimeDepth t s = timeDepth t s"

definition getTimeDepthTolerance :: "'m tlfifo \<Rightarrow> int" where
  "getTimeDepthTolerance s = mMaxDurationSecs s"

text \<open>\<open>int(maxCount * 0.8)\<close>: the product of a 32-bit count and the double nearest to 0.8
  truncates to the integer quotient, and the conversion is undefined from \<open>2^31\<close> on.\<close>

definition setCountDepthTolerance :: "uint32 \<Rightarrow> 'm tlfifo \<Rightarrow> 'm tlfifo outcome" where
  "setCountDepthTolerance maxCount s =
     (let v = unat maxCount * 8 div 10 in
      if v < 2 ^ 31 then Done (s\<lparr>mUnreservedMaxSize := of_nat v\<rparr>) else Fault ConversionRange)"

definition setTimeDepthTolerance :: "uint32 \<Rightarrow> 'm tlfifo \<Rightarrow> 'm tlfifo" where
  "setTimeDepthTolerance maxSecs s = s\<lparr>mMaxDurationSecs := uint maxSecs\<rparr>"

section \<open>FiniteFifo\<close>

record 'm finfifo = "'m afifo" +
  mFiniteMaxSize :: uint32

definition FiniteFifo :: "uint32 \<Rightarrow> 'm finfifo" where
  "FiniteFifo maxSize = afifo.extend AbstractFifo (finfifo.fields maxSize)"

definition destroy_FiniteFifo :: "'m finfifo \<Rightarrow> 'm list \<times> 'm finfifo" where
  "destroy_FiniteFifo s = (let (deleted, q) = delete_all [] (mFifo s) in (deleted, s\<lparr>mFifo := q\<rparr>))"

definition finite_add :: "'m \<Rightarrow> 'm finfifo \<Rightarrow> bool \<times> 'm finfifo" where
  "finite_add msg s =
     (if length (mFifo s) \<ge> unat (mFiniteMaxSize s) then (False, s)
      else (True, s\<lparr>mFifo := mFifo s @ [msg]\<rparr>))"

definition finite_getNext :: "uint64 \<Rightarrow> 'm finfifo wake list \<Rightarrow> 'm finfifo \<Rightarrow> ('m \<times> 'm finfifo) outcome" where
  "finite_getNext now ws s = abstract_getNext now ws s"

definition finite_getNext_ms ::
  "int \<Rightarrow> uint64 \<Rightarrow> uint64 \<Rightarrow> 'm finfifo wake list \<Rightarrow> 'm finfifo \<Rightarrow> ('m option \<times> 'm finfifo) outcome" where
  "finite_getNext_ms ms begin now ws s = abstract_getNext_ms ms begin now ws s"

section \<open>Acceptance\<close>

text \<open>
  Which messages a \<open>TimeLimitFifo\<close> accepts: no message beyond \<open>mMaxSize\<close>; below it
  every internal element; an external message only below \<open>mUnreservedMaxSize\<close>; and a request
  that enforces the time depth only if moreover the oldest message is younger than
  \<open>mMaxDurationSecs\<close>. A limit of zero is no limit. So whatever is accepted under one
  usage is accepted under every later one of the enumeration.
\<close>

theorem acceptance_exact:
  "(wouldAccept t InternalElement s \<longleftrightarrow> mMaxSize s = 0 \<or> length (mFifo s) < unat (mMaxSize s)) \<and>
   (wouldAccept t IgnoreTimeDepth s \<longleftrightarrow> wouldAccept t InternalElement s \<and>
      (mUnreservedMaxSize s = 0 \<or> length (mFifo s) < unat (mUnreservedMaxSize s))) \<and>
   (wouldAccept t EnforceTimeDepth s \<longleftrightarrow> wouldAccept t IgnoreTimeDepth s \<and>
      (mFifo s = [] \<or> mMaxDurationSecs s = 0 \<or>
       t - getTime (hd (mFifo s)) < mMaxDurationSecs s))"
  by (auto simp: wouldAccept_def wouldAcceptInteral_def timeDepthInternal_def split: list.splits)

section \<open>Schedules of a TimeLimitFifo\<close>

text \<open>One attempt to add: the two times, the clock of the statistics, message and usage.\<close>

type_synonym 'm tl_input = "int \<times> int \<times> uint64 \<times> 'm \<times> depth_usage"

definition tl_msg :: "'m tl_input \<Rightarrow> 'm" where
  "tl_msg = (\<lambda>(t, n, now, m, u). m)"

definition tl_put :: "'m tl_input \<Rightarrow> 'm tlfifo \<Rightarrow> bool \<times> 'm tlfifo" where
  "tl_put = (\<lambda>(t, n, now, m, u) s. tl_add t n now m u s)"

definition tl_pull :: "int \<times> uint64 \<times> uint64 \<Rightarrow> 'm tlfifo \<Rightarrow> 'm option \<times> 'm tlfifo" where
  "tl_pull = (\<lambda>(ms, begin, now) s.
     case tl_getNext_ms ms begin now [Wake begin False id] s of
       Done (r, s') \<Rightarrow> (r, s') | _ \<Rightarrow> (None, s))"

text \<open>The same take, with the time stamp that the wrapper strips.\<close>

definition tl_pull_stamped :: "int \<times> uint64 \<times> uint64 \<Rightarrow> 'm tlfifo \<Rightarrow> 'm timestamped option \<times> 'm tlfifo" where
  "tl_pull_stamped = (\<lambda>(ms, begin, now) s.
     case abstract_getNext_ms ms begin now [Wake begin False id] s of
       Done (r, s') \<Rightarrow> (r, s') | _ \<Rightarrow> (None, s))"

definition tl_stamped :: "'m tl_input \<Rightarrow> 'm timestamped" where
  "tl_stamped = (\<lambda>(t, n, now, m, u). Timestamped m n)"

definition within_limit :: "'m tlfifo \<Rightarrow> bool" where
  "within_limit s = (mMaxSize s = 0 \<or> length (mFifo s) \<le> unat (mMaxSize s))"

lemma onMessagePushed_limits [simp]:
  "mMaxSize (onMessagePushed now k s) = mMaxSize s"
  "mUnreservedMaxSize (onMessagePushed now k s) = mUnreservedMaxSize s"
  by (simp_all add: onMessagePushed_def Let_def)

lemma getNext_ms_limits:
  "abstract_getNext_ms ms begin now [Wake t False id] s = Done (r, s') \<Longrightarrow>
     mMaxSize s' = mMaxSize s \<and> mUnreservedMaxSize s' = mUnreservedMaxSize s"
proof -
  have polled: "mMaxSize (onFifoPolled now s) = mMaxSize s"
    "mUnreservedMaxSize (onFifoPolled now s) = mUnreservedMaxSize s"
    by (simp_all add: onFifoPolled_def Let_def)
  show "abstract_getNext_ms ms begin now [Wake t False id] s = Done (r, s') \<Longrightarrow> ?thesis"
    by (cases "mFifo s")
       (auto simp: abstract_getNext_ms_def abstract_getNext_def Let_def front_pop_def
          onMessagePopped_def polled split: if_splits)
qed

lemma tl_pull_stamped_eq:
  "tl_pull_stamped j s = (r, s') \<Longrightarrow>
     mFifo s = (case r of None \<Rightarrow> mFifo s' | Some m \<Rightarrow> m # mFifo s') \<and>
     mMaxSize s' = mMaxSize s \<and> mUnreservedMaxSize s' = mUnreservedMaxSize s"
  by (auto simp: tl_pull_stamped_def dest: getNext_ms_content getNext_ms_limits
      split: prod.splits outcome.splits)

lemma tl_pull_eq: "tl_pull j s = (map_option getMsg (fst (tl_pull_stamped j s)), snd (tl_pull_stamped j s))"
  by (auto simp: tl_pull_def tl_pull_stamped_def tl_getNext_ms_def split: prod.splits outcome.splits option.splits)

lemma tl_put_eq:
  "tl_put i s = (b, s') \<Longrightarrow> within_limit s \<Longrightarrow>
     mFifo s' = (if b then mFifo s @ [tl_stamped i] else mFifo s) \<and> within_limit s'
     \<and> mMaxSize s' = mMaxSize s \<and> mUnreservedMaxSize s' = mUnreservedMaxSize s"
  by (cases i)
     (auto simp: tl_put_def tl_add_def tl_stamped_def within_limit_def wouldAcceptInteral_def
        split: if_splits)

interpretation tq: message_queue mFifo within_limit tl_stamped tl_put tl_pull_stamped
proof
  fix s s' :: "'a tlfifo" and i b
  assume "within_limit s" "tl_put i s = (b, s')"
  then show "mFifo s' = (if b then mFifo s @ [tl_stamped i] else mFifo s) \<and> within_limit s'"
    using tl_put_eq by blast
next
  fix s s' :: "'a tlfifo" and j r
  assume "within_limit s" "tl_pull_stamped j s = (r, s')"
  then show "mFifo s = (case r of None \<Rightarrow> mFifo s' | Some m \<Rightarrow> m # mFifo s') \<and> within_limit s'"
    using tl_pull_stamped_eq [of j s r s'] by (auto simp: within_limit_def split: option.splits)
qed

interpretation tm: message_queue "\<lambda>s. map getMsg (mFifo s)" within_limit tl_msg tl_put tl_pull
proof
  fix s s' :: "'a tlfifo" and i b
  assume "within_limit s" "tl_put i s = (b, s')"
  then show "map getMsg (mFifo s') =
      (if b then map getMsg (mFifo s) @ [tl_msg i] else map getMsg (mFifo s)) \<and> within_limit s'"
    using tl_put_eq [of i s b s'] by (cases i) (simp add: tl_stamped_def tl_msg_def)
next
  fix s s' :: "'a tlfifo" and j r
  assume *: "within_limit s" "tl_pull j s = (r, s')"
  obtain r0 where "tl_pull_stamped j s = (r0, s')" and "r = map_option getMsg r0"
    using *(2) tl_pull_eq [of j s] by (cases "tl_pull_stamped j s") simp
  with *(1) tl_pull_stamped_eq [of j s r0 s']
  show "map getMsg (mFifo s) = (case r of None \<Rightarrow> map getMsg (mFifo s')
      | Some m \<Rightarrow> m # map getMsg (mFifo s')) \<and> within_limit s'"
    by (auto simp: within_limit_def split: option.splits)
qed

text \<open>
  Over every schedule of producers and consumers a \<open>TimeLimitFifo\<close> never holds more
  than \<open>mMaxSize\<close> messages, delivers the accepted ones in the order in which they were
  accepted, and loses only messages whose \<open>add\<close> returned false.
\<close>

theorem time_limit_fifo_schedule:
  assumes "within_limit s" and "run_queue tl_msg tl_put tl_pull ops s = (acc, del, s')"
  shows "within_limit s' \<and> map getMsg (mFifo s) @ acc = del @ map getMsg (mFifo s') \<and>
    subseq acc (offered tl_msg ops)"
  using tm.conserved [OF assms] accepted_subseq [OF assms(2)] by blast

definition external_only :: "('m tl_input, 'j) qop list \<Rightarrow> bool" where
  "external_only ops = list_all (\<lambda>p. case p of Put (t, n, now, m, u) \<Rightarrow> u \<noteq> InternalElement | Take j \<Rightarrow> True) ops"

definition reserve_free :: "'m tlfifo \<Rightarrow> bool" where
  "reserve_free s = (mUnreservedMaxSize s \<noteq> 0 \<and> mUnreservedMaxSize s < mMaxSize s
     \<and> length (mFifo s) \<le> unat (mUnreservedMaxSize s))"

lemma reserve_free_put:
  assumes "reserve_free s" and "u \<noteq> InternalElement"
  shows "reserve_free (snd (tl_put (t, n, now, m, u) s))"
proof -
  obtain b s' where put: "tl_put (t, n, now, m, u) s = (b, s')" by (cases "tl_put (t, n, now, m, u) s")
  have "b \<Longrightarrow> length (mFifo s) < unat (mUnreservedMaxSize s)"
    using put assms
    by (auto simp: tl_put_def tl_add_def wouldAcceptInteral_def reserve_free_def split: if_splits)
  moreover have "within_limit s" using assms(1) by (simp add: reserve_free_def within_limit_def word_less_nat_alt)
  ultimately show ?thesis using tl_put_eq [OF put] assms(1) put by (auto simp: reserve_free_def)
qed

lemma reserve_free_pull: "reserve_free s \<Longrightarrow> reserve_free (snd (tl_pull j s))"
  using tl_pull_stamped_eq [of j s "fst (tl_pull_stamped j s)" "snd (tl_pull_stamped j s)"]
  by (auto simp: tl_pull_eq reserve_free_def split: option.splits)

text \<open>
  The reserve: external messages alone never fill the queue beyond
  \<open>mUnreservedMaxSize\<close>, so that after any schedule of them there is room for an internal
  element, whatever the time.
\<close>

theorem reserve_kept_for_internal:
  assumes "external_only ops" and "reserve_free s"
    and "run_queue tl_msg tl_put tl_pull ops s = (acc, del, s')"
  shows "length (mFifo s') \<le> unat (mUnreservedMaxSize s') \<and> wouldAccept t InternalElement s'"
proof -
  have "reserve_free (snd (snd (run_queue tl_msg tl_put tl_pull ops s)))"
  proof (rule run_queue_keeps)
    show "\<forall>i s. Put i \<in> set ops \<longrightarrow> reserve_free s \<longrightarrow> reserve_free (snd (tl_put i s))"
      using assms(1) by (auto simp: external_only_def list_all_iff intro!: reserve_free_put)
  qed (use assms(2) reserve_free_pull in blast)+
  then show ?thesis using assms(3)
    by (auto simp: reserve_free_def wouldAccept_def wouldAcceptInteral_def word_less_nat_alt)
qed

lemma sorted_subseq: "subseq xs ys \<Longrightarrow> sorted ys \<Longrightarrow> sorted xs"
  for xs :: "'a::linorder list"
proof (induction rule: list_emb.induct)
  case (list_emb_Cons2 x y xs ys)
  then have "set xs \<subseteq> set ys" by (auto dest: list_emb_set)
  with list_emb_Cons2 show ?case by auto
qed simp_all

text \<open>
  The time depth is the age of the oldest message: when the clock that stamps the
  messages does not run backwards, no queued message is older than \<open>timeDepth\<close> says, over
  every schedule.
\<close>

theorem time_depth_is_oldest:
  assumes "within_limit s"
    and "sorted (map getTime (mFifo s @ offered tl_stamped ops))"
    and "run_queue tl_stamped tl_put tl_pull_stamped ops s = (acc, del, s')"
  shows "sorted (map getTime (mFifo s')) \<and> (\<forall>m \<in> set (mFifo s'). t - getTime m \<le> timeDepth t s')"
proof -
  have "subseq (map getTime (mFifo s @ acc)) (map getTime (mFifo s @ offered tl_stamped ops))"
    by (intro subseq_map list_emb_append_mono subseq_order.refl accepted_subseq [OF assms(3)])
  then have "sorted (map getTime (del @ mFifo s'))"
    using assms(2) tq.conserved [OF assms(1,3)] by (metis sorted_subseq)
  then have sorted: "sorted (map getTime (mFifo s'))" by (simp add: sorted_append)
  then show ?thesis
    by (auto simp: timeDepth_def timeDepthInternal_def split: list.split)
qed

text \<open>
  The constructor reserves a fifth of the queue: \<open>mUnreservedMaxSize\<close> is eight tenths
  of the size, as a later \<open>setCountDepthTolerance\<close> with the same number would set it, for
  sizes below \<open>2^29\<close>. From there on the product of the constructor wraps, and at \<open>2^29\<close>
  the limit becomes zero, which means that there is none.
\<close>

theorem unreserved_is_eight_tenths:
  "(maxSize < 2 ^ 29 \<longrightarrow>
     unat (mUnreservedMaxSize (TimeLimitFifo secs maxSize :: 'm tlfifo)) = unat maxSize * 8 div 10 \<and>
     setCountDepthTolerance maxSize (TimeLimitFifo secs maxSize) = Done (TimeLimitFifo secs maxSize :: 'm tlfifo)) \<and>
   mUnreservedMaxSize (TimeLimitFifo secs (2 ^ 29) :: 'm tlfifo) = 0"
proof -
  have fields: "mUnreservedMaxSize (TimeLimitFifo secs n :: 'm tlfifo) = n * 8 div 10" for n
    by (simp add: TimeLimitFifo_def AbstractFifo_def afifo.defs tlfifo.defs)
  have *: "unat (maxSize * 8 div 10) = unat maxSize * 8 div 10" if "maxSize < 2 ^ 29"
    using that by (simp add: word_less_nat_alt unat_div_distrib unat_word_ariths(2))
  have "setCountDepthTolerance maxSize (TimeLimitFifo secs maxSize) = Done (TimeLimitFifo secs maxSize :: 'm tlfifo)"
    if less: "maxSize < 2 ^ 29"
  proof -
    have "unat maxSize * 8 div 10 < 2 ^ 31" using less by (simp add: word_less_nat_alt)
    moreover have "of_nat (unat maxSize * 8 div 10) = maxSize * 8 div 10"
      by (simp flip: * [OF less])
    ultimately show ?thesis
      by (simp add: setCountDepthTolerance_def TimeLimitFifo_def AbstractFifo_def afifo.defs tlfifo.defs)
  qed
  with * fields show ?thesis by simp
qed

section \<open>Schedules of a FiniteFifo\<close>

definition finite_pull :: "int \<times> uint64 \<times> uint64 \<Rightarrow> 'm finfifo \<Rightarrow> 'm option \<times> 'm finfifo" where
  "finite_pull = (\<lambda>(ms, begin, now) s.
     case finite_getNext_ms ms begin now [Wake begin False id] s of
       Done (r, s') \<Rightarrow> (r, s') | _ \<Rightarrow> (None, s))"

definition finite_within :: "'m finfifo \<Rightarrow> bool" where
  "finite_within s = (length (mFifo s) \<le> unat (mFiniteMaxSize s))"

lemma getNext_ms_finite_limit:
  "abstract_getNext_ms ms begin now [Wake t False id] s = Done (r, s') \<Longrightarrow>
     mFiniteMaxSize s' = mFiniteMaxSize s"
  by (cases "mFifo s")
     (auto simp: abstract_getNext_ms_def abstract_getNext_def Let_def front_pop_def
        onMessagePopped_def onFifoPolled_def split: if_splits)

interpretation ff: message_queue mFifo finite_within id finite_add finite_pull
proof
  fix s s' :: "'a finfifo" and i b
  assume "finite_within s" "finite_add i s = (b, s')"
  then show "mFifo s' = (if b then mFifo s @ [id i] else mFifo s) \<and> finite_within s'"
    by (auto simp: finite_add_def finite_within_def split: if_splits)
next
  fix s s' :: "'a finfifo" and j r
  assume within: "finite_within s" and pull: "finite_pull j s = (r, s')"
  have "mFifo s = (case r of None \<Rightarrow> mFifo s' | Some m \<Rightarrow> m # mFifo s')
      \<and> mFiniteMaxSize s' = mFiniteMaxSize s"
    using pull by (auto simp: finite_pull_def finite_getNext_ms_def
        split: prod.splits outcome.splits dest: getNext_ms_content getNext_ms_finite_limit)
  with within show "mFifo s = (case r of None \<Rightarrow> mFifo s' | Some m \<Rightarrow> m # mFifo s') \<and> finite_within s'"
    by (auto simp: finite_within_def split: option.splits)
qed

text \<open>
  A \<open>FiniteFifo\<close> holds at most its maximum, over every schedule, and delivers what it
  accepted in order. Its \<open>add\<close> does not count the message though, while its \<open>getNext\<close>
  counts it as removed: after one message has passed through a new queue, the reported depth
  is \<open>2^32 - 1\<close>.
\<close>

theorem finite_fifo_schedule:
  "(finite_within s \<and> run_queue id finite_add finite_pull ops s = (acc, del, s') \<longrightarrow>
     finite_within s' \<and> mFifo s @ acc = del @ mFifo s') \<and>
   (0 < maxSize \<longrightarrow> (\<exists>s2. finite_getNext now [] (snd (finite_add m (FiniteFifo maxSize))) = Done (m, s2)
     \<and> mFifo s2 = [] \<and> getCountDepth s2 = 2 ^ 32 - 1))"
proof -
  have "finite_getNext now [] (snd (finite_add m (FiniteFifo maxSize))) =
      Done (m, onMessagePopped 1 (FiniteFifo maxSize))" if "0 < maxSize"
    using that
    by (simp add: finite_getNext_def finite_add_def FiniteFifo_def AbstractFifo_def afifo.defs finfifo.defs
        abstract_getNext_def onFifoPolled_def front_pop_def word_less_nat_alt onMessagePopped_def)
  moreover have "getCountDepth (onMessagePopped 1 (FiniteFifo maxSize)) = 2 ^ 32 - 1"
    "mFifo (onMessagePopped 1 (FiniteFifo maxSize)) = []"
    by (simp_all add: getCountDepth_def FiniteFifo_def AbstractFifo_def afifo.defs finfifo.defs)
  ultimately show ?thesis using ff.conserved [of s ops acc del s'] by auto
qed

section \<open>Witnesses\<close>

lemma TimeLimitFifo_simps [simp]:
  "mFifo (TimeLimitFifo d n) = []" "mMaxSize (TimeLimitFifo d n) = n"
  "mUnreservedMaxSize (TimeLimitFifo d n) = n * 8 div 10"
  "mMaxDurationSecs (TimeLimitFifo d n) = uint d"
  by (simp_all add: TimeLimitFifo_def AbstractFifo_def afifo.defs tlfifo.defs)

definition two_requests :: "(nat tl_input, int \<times> uint64 \<times> uint64) qop list" where
  "two_requests = [Put (5, 5, 0, 10, IgnoreTimeDepth), Put (6, 6, 0, 20, EnforceTimeDepth)]"

lemma run_two_requests:
  "\<exists>s'. run_queue tl_msg tl_put tl_pull two_requests (TimeLimitFifo 9 10) = ([10, 20], [], s')"
  "\<exists>s'. run_queue tl_stamped tl_put tl_pull_stamped two_requests (TimeLimitFifo 9 10)
     = ([Timestamped 10 5, Timestamped 20 6], [], s')"
  by (simp_all add: two_requests_def tl_put_def tl_add_def wouldAcceptInteral_def timeDepthInternal_def
      tl_msg_def tl_stamped_def onMessagePushed_def)

theorem time_limit_fifo_schedule_witness:
  "\<exists>s'. run_queue tl_msg tl_put tl_pull two_requests (TimeLimitFifo 9 10) = ([10, 20], [], s')
     \<and> map getMsg (mFifo s') = [10, 20]"
proof -
  obtain s' where r: "run_queue tl_msg tl_put tl_pull two_requests (TimeLimitFifo 9 10) = ([10, 20], [], s')"
    using run_two_requests(1) by blast
  from time_limit_fifo_schedule [OF _ r] r show ?thesis by (simp add: within_limit_def)
qed

theorem reserve_kept_for_internal_witness:
  "\<exists>s'. run_queue tl_msg tl_put tl_pull two_requests (TimeLimitFifo 9 10) = ([10, 20], [], s')
     \<and> wouldAccept 99 InternalElement s'"
proof -
  obtain s' where r: "run_queue tl_msg tl_put tl_pull two_requests (TimeLimitFifo 9 10) = ([10, 20], [], s')"
    using run_two_requests(1) by blast
  have "external_only two_requests" by (simp add: external_only_def two_requests_def)
  moreover have "reserve_free (TimeLimitFifo 9 10 :: nat tlfifo)" by (simp add: reserve_free_def)
  ultimately show ?thesis using reserve_kept_for_internal [OF _ _ r, of 99] r by blast
qed

theorem time_depth_is_oldest_witness:
  "\<exists>s'. run_queue tl_stamped tl_put tl_pull_stamped two_requests (TimeLimitFifo 9 10)
     = ([Timestamped 10 5, Timestamped 20 6], [], s') \<and> sorted (map getTime (mFifo s'))"
proof -
  obtain s' where r: "run_queue tl_stamped tl_put tl_pull_stamped two_requests (TimeLimitFifo 9 10)
      = ([Timestamped 10 5, Timestamped 20 6], [], s')"
    using run_two_requests(2) by blast
  from time_depth_is_oldest [OF _ _ r] r show ?thesis
    by (simp add: within_limit_def two_requests_def tl_stamped_def)
qed

theorem unreserved_is_eight_tenths_witness:
  "unat (mUnreservedMaxSize (TimeLimitFifo 0 1000 :: nat tlfifo)) = 800"
  using unreserved_is_eight_tenths [of 1000 0, where 'm = nat] by simp

theorem finite_fifo_schedule_witness:
  "\<exists>s2. finite_getNext 0 [] (snd (finite_add (3 :: nat) (FiniteFifo 5))) = Done (3, s2)
     \<and> getCountDepth s2 = 2 ^ 32 - 1"
  using finite_fifo_schedule [of "FiniteFifo 5 :: nat finfifo" "[]" "[]" "[]" "FiniteFifo 5" 5 0 3] by auto

end
