(* ===== verification/FifoBuffers.thy ===== *)
theory FifoBuffers
  imports Fifos
begin

text \<open>
  The buffers that a single producer and a single consumer put before and behind a \<open>Fifo\<close>
  (\<open>rutil/ProducerFifoBuffer.hxx\<close>, \<open>rutil/ConsumerFifoBuffer.hxx\<close>). Both hold a
  reference to the queue, so their operations act on the buffer and the queue together; a
  \<open>pipeline\<close> is a producer, a queue and a consumer.
\<close>

section \<open>ProducerFifoBuffer\<close>

record 'm producer =
  pBuffer :: "'m list"
  pBufferSize :: nat

definition ProducerFifoBuffer :: "nat \<Rightarrow> 'm producer" where
  "ProducerFifoBuffer bufferSize = \<lparr>pBuffer = [], pBufferSize = bufferSize\<rparr>"

definition producer_flush :: "uint64 \<Rightarrow> 'm producer \<times> 'm fifo \<Rightarrow> 'm producer \<times> 'm fifo" where
  "producer_flush now = (\<lambda>(p, f).
     if length (pBuffer p) > 0
     then (case fifo_addMultiple now (pBuffer p) f of (n, rest, f') \<Rightarrow> (p\<lparr>pBuffer := rest\<rparr>, f'))
     else (p, f))"

definition producer_add :: "uint64 \<Rightarrow> 'm \<Rightarrow> 'm producer \<times> 'm fifo \<Rightarrow> 'm producer \<times> 'm fifo" where
  "producer_add now msg = (\<lambda>(p, f).
     let p = p\<lparr>pBuffer := pBuffer p @ [msg]\<rparr> in
     if length (pBuffer p) \<ge> pBufferSize p then producer_flush now (p, f) else (p, f))"

definition getBufferSize :: "'m producer \<Rightarrow> nat" where
  "getBufferSize p = pBufferSize p"

definition setBufferSize :: "uint64 \<Rightarrow> nat \<Rightarrow> 'm producer \<times> 'm fifo \<Rightarrow> 'm producer \<times> 'm fifo" where
  "setBufferSize now bufferSize = (\<lambda>(p, f).
     let p = p\<lparr>pBufferSize := bufferSize\<rparr> in
     if length (pBuffer p) \<ge> pBufferSize p then producer_flush now (p, f) else (p, f))"

definition destroy_ProducerFifoBuffer :: "uint64 \<Rightarrow> 'm producer \<times> 'm fifo \<Rightarrow> 'm producer \<times> 'm fifo" where
  "destroy_ProducerFifoBuffer now pf = producer_flush now pf"

section \<open>ConsumerFifoBuffer\<close>

record 'm consumer =
  cBuffer :: "'m list"
  cBufferSize :: uint32

definition ConsumerFifoBuffer :: "uint32 \<Rightarrow> 'm consumer" where
  "ConsumerFifoBuffer bufferSize = \<lparr>cBuffer = [], cBufferSize = bufferSize\<rparr>"

definition consumer_getNext ::
  "int \<Rightarrow> uint64 \<Rightarrow> uint64 \<Rightarrow> 'm fifo wake list \<Rightarrow> 'm consumer \<times> 'm fifo \<Rightarrow>
   ('m option \<times> 'm consumer \<times> 'm fifo) outcome" where
  "consumer_getNext ms begin now ws = (\<lambda>(c, f).
     andthen
       (if cBuffer c = []
        then andthen (fifo_getMultiple_ms ms begin (cBuffer c) (cBufferSize c) now ws f)
               (\<lambda>(ok, other, f). Done (c\<lparr>cBuffer := other\<rparr>, f))
        else Done (c, f))
       (\<lambda>(c, f). case cBuffer c of
          [] \<Rightarrow> Done (None, c, f)
        | m # q \<Rightarrow> Done (Some m, c\<lparr>cBuffer := q\<rparr>, f)))"

definition consumer_messageAvailable :: "'m consumer \<times> 'm fifo \<Rightarrow> bool" where
  "consumer_messageAvailable = (\<lambda>(c, f). if cBuffer c = [] then messageAvailable f else True)"

definition consumer_size :: "'m consumer \<times> 'm fifo \<Rightarrow> uint32" where
  "consumer_size = (\<lambda>(c, f). of_nat (length (cBuffer c) + unat (fifo_size f)))"

section \<open>What the buffers do\<close>

lemma producer_flush_eq:
  "producer_flush now (p, f) = (p', f') \<Longrightarrow>
     mFifo f' = mFifo f @ pBuffer p \<and> pBuffer p' = [] \<and> pBufferSize p' = pBufferSize p"
  by (auto simp: producer_flush_def fifo_addMultiple_def abstract_addMultiple_def push_all_eq
      Let_def split: if_splits prod.splits)

lemma producer_add_eq:
  "producer_add now m (p, f) = (p', f') \<Longrightarrow>
     mFifo f' @ pBuffer p' = mFifo f @ pBuffer p @ [m] \<and> pBufferSize p' = pBufferSize p \<and>
     (pBuffer p' = [] \<or> length (pBuffer p') < pBufferSize p')"
  by (auto simp: producer_add_def Let_def dest!: producer_flush_eq split: if_splits)

text \<open>A take that is not interfered with; an empty queue lets it time out.\<close>

abbreviation quiet :: "uint64 \<Rightarrow> 'm fifo wake list" where
  "quiet t \<equiv> [Wake t False id]"

lemma getMultiple_ms_quiet:
  "ms \<noteq> 0 \<or> mFifo f \<noteq> [] \<Longrightarrow>
   \<exists>ok f'. abstract_getMultiple_ms ms begin [] mx now (quiet begin) f = Done (ok, take (unat mx) (mFifo f), f')
      \<and> mFifo f' = drop (unat mx) (mFifo f)"
  using take_available_eq [of mx "onFifoPolled now f"]
  by (cases "mFifo f")
     (auto simp: abstract_getMultiple_ms_def abstract_getMultiple_def Let_def)

lemma consumer_getNext_quiet:
  assumes "ms \<noteq> 0 \<or> cBuffer c \<noteq> [] \<or> mFifo f \<noteq> []"
  shows "\<exists>c' f'. consumer_getNext ms begin now (quiet begin) (c, f) =
      Done (if cBuffer c = [] \<and> (cBufferSize c = 0 \<or> mFifo f = []) then None
            else Some (hd (cBuffer c @ mFifo f)), c', f')
    \<and> cBufferSize c' = cBufferSize c
    \<and> cBuffer c' @ mFifo f' = (if cBuffer c = [] \<and> (cBufferSize c = 0 \<or> mFifo f = [])
         then cBuffer c @ mFifo f else tl (cBuffer c @ mFifo f))"
proof (cases "cBuffer c")
  case Nil
  obtain ok f' where g: "abstract_getMultiple_ms ms begin [] (cBufferSize c) now (quiet begin) f
      = Done (ok, take (unat (cBufferSize c)) (mFifo f), f')"
      "mFifo f' = drop (unat (cBufferSize c)) (mFifo f)"
    using getMultiple_ms_quiet [of ms f] assms Nil by blast
  show ?thesis
  proof (cases "cBufferSize c = 0 \<or> mFifo f = []")
    case True
    then show ?thesis using Nil g by (auto simp: consumer_getNext_def fifo_getMultiple_ms_def)
  next
    case False
    then obtain n m q where "unat (cBufferSize c) = Suc n" "mFifo f = m # q"
      by (metis list.exhaust not0_implies_Suc unat_eq_zero)
    then show ?thesis using Nil g False by (auto simp: consumer_getNext_def fifo_getMultiple_ms_def)
  qed
qed (auto simp: consumer_getNext_def)

section \<open>The pipeline\<close>

record 'm pipeline =
  producer :: "'m producer"
  queue :: "'m fifo"
  consumer :: "'m consumer"

definition in_transit :: "'m pipeline \<Rightarrow> 'm list" where
  "in_transit s = cBuffer (consumer s) @ mFifo (queue s) @ pBuffer (producer s)"

definition pipe_put :: "uint64 \<times> 'm \<Rightarrow> 'm pipeline \<Rightarrow> bool \<times> 'm pipeline" where
  "pipe_put = (\<lambda>(now, m) s.
     case producer_add now m (producer s, queue s) of
       (p, f) \<Rightarrow> (True, s\<lparr>producer := p, queue := f\<rparr>))"

definition pipe_pull :: "int \<times> uint64 \<times> uint64 \<Rightarrow> 'm pipeline \<Rightarrow> 'm option \<times> 'm pipeline" where
  "pipe_pull = (\<lambda>(ms, begin, now) s.
     case consumer_getNext ms begin now (quiet begin) (consumer s, queue s) of
       Done (r, c, f) \<Rightarrow> (r, s\<lparr>queue := f, consumer := c\<rparr>) | _ \<Rightarrow> (None, s))"

text \<open>Between calls the producer holds back less than its buffer size.\<close>

definition pipe_ok :: "'m pipeline \<Rightarrow> bool" where
  "pipe_ok s = (pBuffer (producer s) = [] \<or> length (pBuffer (producer s)) < pBufferSize (producer s))"

lemma consumer_blocked:
  "consumer_getNext 0 begin now (quiet begin) (c, f) = Blocked" if "cBuffer c = []" "mFifo f = []"
  using that
  by (simp add: consumer_getNext_def fifo_getMultiple_ms_def abstract_getMultiple_ms_def abstract_getMultiple_def)

lemma pipe_pull_cases:
  assumes "pipe_pull (ms, begin, now) s = (r, s')"
  shows "in_transit s = (case r of None \<Rightarrow> in_transit s' | Some m \<Rightarrow> m # in_transit s')
    \<and> producer s' = producer s \<and> cBufferSize (consumer s') = cBufferSize (consumer s)
    \<and> (r = None \<longrightarrow> cBufferSize (consumer s) = 0 \<or> cBuffer (consumer s) @ mFifo (queue s) = [])"
proof (cases "ms \<noteq> 0 \<or> cBuffer (consumer s) \<noteq> [] \<or> mFifo (queue s) \<noteq> []")
  case True
  show ?thesis
    using consumer_getNext_quiet [OF True, of "begin" now] assms
    by (cases "cBuffer (consumer s) @ mFifo (queue s)")
       (auto simp: pipe_pull_def in_transit_def split: if_splits)
next
  case False
  then show ?thesis using assms by (auto simp: pipe_pull_def consumer_blocked)
qed

lemma pipe_pull_producer: "producer (snd (pipe_pull j s)) = producer s"
  using pipe_pull_cases [of "fst j" "fst (snd j)" "snd (snd j)" s "fst (pipe_pull j s)" "snd (pipe_pull j s)"]
  by simp

interpretation pipe: message_queue in_transit pipe_ok snd pipe_put pipe_pull
proof
  fix s s' :: "'a pipeline" and i b
  assume "pipe_ok s" "pipe_put i s = (b, s')"
  then show "in_transit s' = (if b then in_transit s @ [snd i] else in_transit s) \<and> pipe_ok s'"
    by (auto simp: pipe_put_def in_transit_def pipe_ok_def split: prod.splits dest!: producer_add_eq)
next
  fix s s' :: "'a pipeline" and j :: "int \<times> uint64 \<times> uint64" and r
  assume "pipe_ok s" "pipe_pull j s = (r, s')"
  then show "in_transit s = (case r of None \<Rightarrow> in_transit s' | Some m \<Rightarrow> m # in_transit s') \<and> pipe_ok s'"
    using pipe_pull_cases [of "fst j" "fst (snd j)" "snd (snd j)" s r s'] by (auto simp: pipe_ok_def)
qed

interpretation pipe: unbounded_queue in_transit pipe_ok snd pipe_put pipe_pull
  by unfold_locales (auto simp: pipe_put_def split: prod.split)

text \<open>The part behind the producer, fed directly: it serves whenever it can.\<close>

definition served :: "'m pipeline \<Rightarrow> 'm list" where
  "served s = cBuffer (consumer s) @ mFifo (queue s)"

definition direct_put :: "uint64 \<times> 'm \<Rightarrow> 'm pipeline \<Rightarrow> bool \<times> 'm pipeline" where
  "direct_put = (\<lambda>(now, m) s. (True, s\<lparr>queue := snd (fifo_add now m (queue s))\<rparr>))"

definition can_buffer :: "'m pipeline \<Rightarrow> bool" where
  "can_buffer s = (cBufferSize (consumer s) \<noteq> 0)"

interpretation behind: serving_queue served can_buffer snd direct_put pipe_pull
proof
  fix s s' :: "'a pipeline" and i b
  assume "can_buffer s" "direct_put i s = (b, s')"
  then show "served s' = (if b then served s @ [snd i] else served s) \<and> can_buffer s'"
    by (auto simp: direct_put_def served_def can_buffer_def fifo_add_def abstract_add_def Let_def
        split: prod.splits)
next
  fix s s' :: "'a pipeline" and j :: "int \<times> uint64 \<times> uint64" and r
  assume "can_buffer s" "pipe_pull j s = (r, s')"
  then show "served s = (case r of None \<Rightarrow> served s' | Some m \<Rightarrow> m # served s') \<and> can_buffer s'"
    using pipe_pull_cases [of "fst j" "fst (snd j)" "snd (snd j)" s r s']
    by (auto simp: can_buffer_def served_def in_transit_def split: option.splits)
next
  fix s :: "'a pipeline" and j :: "int \<times> uint64 \<times> uint64"
  assume "can_buffer s" "served s \<noteq> []"
  then show "fst (pipe_pull j s) \<noteq> None"
    using pipe_pull_cases [of "fst j" "fst (snd j)" "snd (snd j)" s "fst (pipe_pull j s)" "snd (pipe_pull j s)"]
    by (auto simp: can_buffer_def served_def)
qed

text \<open>
  (C29) Producer buffer, queue and consumer buffer together are one queue: over every schedule
  the messages delivered, followed by those in transit, are the ones in transit at the start
  followed by those added, and the producer never holds back as many as its buffer size.
\<close>

theorem pipeline_schedule:
  assumes "pipe_ok s" and "run_queue snd pipe_put pipe_pull ops s = (acc, del, s')"
  shows "acc = offered snd ops \<and> in_transit s @ offered snd ops = del @ in_transit s' \<and> pipe_ok s'"
  using pipe.conserved [OF assms] pipe.accepts_all [OF assms] by simp

text \<open>
  Destroying the producer hands over what it held back, and then as many takes as there
  are messages in transit deliver all of them to a consumer whose buffer size is not zero.
\<close>

theorem pipeline_drains:
  assumes "can_buffer s" and "destroy_ProducerFifoBuffer now (producer s, queue s) = (p, f)"
    and "length js = length (in_transit s)"
  shows "\<exists>s'. run_queue snd direct_put pipe_pull (map Take js) (s\<lparr>producer := p, queue := f\<rparr>) =
    ([], in_transit s, s') \<and> in_transit s' = []"
proof -
  let ?s = "s\<lparr>producer := p, queue := f\<rparr>"
  have p: "served ?s = in_transit s" "pBuffer p = []"
    using producer_flush_eq [of now "producer s" "queue s" p f] assms(2)
    by (simp_all add: destroy_ProducerFifoBuffer_def served_def in_transit_def)
  have can: "can_buffer ?s" using assms(1) by (simp add: can_buffer_def)
  obtain s' where s': "run_queue snd direct_put pipe_pull (map Take js) ?s = ([], in_transit s, s')"
    "served s' = []"
    using behind.drains [OF can, of js] assms(3) p(1) by auto
  have "producer (snd (snd (run_queue snd direct_put pipe_pull (map Take js) ?s))) = p"
    by (rule run_queue_keeps) (auto simp: pipe_pull_producer)
  with s' p show ?thesis by (auto simp: in_transit_def served_def)
qed

text \<open>
  A consumer whose buffer size is zero never gets a message: its \<open>getNext\<close> returns
  null on a queue that is not empty, and leaves the messages where they are.
\<close>

theorem zero_buffer_starves:
  assumes "cBufferSize c = 0" and "cBuffer c = []" and "mFifo f \<noteq> []"
  shows "\<exists>c' f'. consumer_getNext ms begin now (quiet begin) (c, f) = Done (None, c', f') \<and>
    mFifo f' = mFifo f \<and> cBuffer c' = [] \<and> consumer_messageAvailable (c', f')"
  using getMultiple_ms_quiet [of ms f "begin" 0 now] assms
  by (auto simp: consumer_getNext_def fifo_getMultiple_ms_def consumer_messageAvailable_def
      messageAvailable_def)

section \<open>Witnesses\<close>

definition example_pipeline :: "nat pipeline" where
  "example_pipeline = \<lparr>producer = \<lparr>pBuffer = [30], pBufferSize = 2\<rparr>,
     queue = snd (fifo_add 0 20 (Fifo None)), consumer = \<lparr>cBuffer = [10], cBufferSize = 8\<rparr>\<rparr>"

lemma example_pipeline_ok:
  "pipe_ok example_pipeline" "can_buffer example_pipeline" "in_transit example_pipeline = [10, 20, 30]"
  by (simp_all add: example_pipeline_def pipe_ok_def can_buffer_def in_transit_def fifo_add_def
      abstract_add_def Let_def)

theorem pipeline_schedule_witness:
  "\<exists>s'. run_queue snd pipe_put pipe_pull [Put (0, 40), Take (-1, 0, 0)] example_pipeline = ([40], [10], s')
     \<and> in_transit s' = [20, 30, 40]"
proof -
  have "\<exists>s'. run_queue snd pipe_put pipe_pull [Put (0, 40), Take (-1, 0, 0)] example_pipeline = ([40], [10], s')"
    by (auto simp: pipe_put_def pipe_pull_def example_pipeline_def consumer_getNext_def split: prod.splits)
  then obtain s' where r: "run_queue snd pipe_put pipe_pull [Put (0, 40), Take (-1, 0, 0)] example_pipeline
      = ([40], [10], s')" by blast
  from pipeline_schedule [OF example_pipeline_ok(1) r] example_pipeline_ok(3)
  have "in_transit s' = [20, 30, 40]" by simp
  with r show ?thesis by blast
qed

theorem pipeline_drains_witness:
  "\<exists>s s'. run_queue snd direct_put pipe_pull [Take (0, 0, 0), Take (0, 0, 0), Take (0, 0, 0)] s
     = ([], [10, 20, 30 :: nat], s')"
proof -
  obtain p f where d: "destroy_ProducerFifoBuffer 0 (producer example_pipeline, queue example_pipeline) = (p, f)"
    by (cases "destroy_ProducerFifoBuffer 0 (producer example_pipeline, queue example_pipeline)")
  from pipeline_drains [OF example_pipeline_ok(2) d, of "[(0, 0, 0), (0, 0, 0), (0, 0, 0)]"] example_pipeline_ok(3)
  show ?thesis by auto
qed

theorem zero_buffer_starves_witness:
  "\<exists>c' f'. consumer_getNext (-1) 0 0 (quiet 0) (ConsumerFifoBuffer 0, snd (fifo_add 0 (7 :: nat) (Fifo None)))
     = Done (None, c', f') \<and> mFifo f' = [7]"
  using zero_buffer_starves [of "ConsumerFifoBuffer 0" "snd (fifo_add 0 (7 :: nat) (Fifo None))" "-1" 0 0]
  by (auto simp: ConsumerFifoBuffer_def fifo_add_def abstract_add_def Let_def)

end
