(* ===== verification/IntrusiveLists.thy ===== *)
theory IntrusiveLists
  imports Queues
begin

text \<open>
  The intrusive doubly linked lists of \<open>rutil/IntrusiveListElement.hxx\<close>. \<open>links\<close> are the
  members \<open>mNext\<close> and \<open>mPrev\<close> of every element, by address; a list is a cycle through
  its head. The header repeats the class four times so that an object can be in four lists
  at once; \<open>elem_heap\<close> has the members of each copy, and the operations of the copies
  \<open>IntrusiveListElement1\<close> to \<open>3\<close> are those of the first on their own members.

  The interface \<open>linked_list\<close> is what the users of a list rely on (sequence of the elements
  after each operation, lists apart stay apart). It is interpreted for all four copies.
\<close>

section \<open>IntrusiveListElement\<close>

record 'e links =
  mNext :: "'e \<Rightarrow> 'e option"
  mPrev :: "'e \<Rightarrow> 'e option"

definition set_next :: "'e \<Rightarrow> 'e option \<Rightarrow> 'e links \<Rightarrow> 'e links" where
  "set_next e n h = h\<lparr>mNext := (mNext h)(e := n)\<rparr>"

definition set_prev :: "'e \<Rightarrow> 'e option \<Rightarrow> 'e links \<Rightarrow> 'e links" where
  "set_prev e p h = h\<lparr>mPrev := (mPrev h)(e := p)\<rparr>"

text \<open>A member access through a pointer that may be null.\<close>

definition through :: "'e option \<Rightarrow> ('e \<Rightarrow> rutil_error + 'a) \<Rightarrow> rutil_error + 'a" where
  "through p k = (case p of None \<Rightarrow> Inl NullAccess | Some e \<Rightarrow> k e)"

definition asserting :: "bool \<Rightarrow> (rutil_error + 'a) \<Rightarrow> rutil_error + 'a" where
  "asserting b r = (if b then r else Inl AssertFailed)"

definition IntrusiveListElement :: "'e \<Rightarrow> 'e links \<Rightarrow> 'e links" where
  "IntrusiveListElement this h = set_prev this None (set_next this None h)"

definition makeList :: "'e \<Rightarrow> 'e links \<Rightarrow> rutil_error + 'e links" where
  "makeList elem h =
     asserting (mNext h elem = None) (Inr (set_next elem (Some elem) (set_prev elem (Some elem) h)))"

definition list_empty :: "'e \<Rightarrow> 'e links \<Rightarrow> rutil_error + bool" where
  "list_empty this h =
     asserting (mPrev h this \<noteq> None) (asserting (mNext h this \<noteq> None)
       (Inr (mNext h this = Some this)))"

definition iterator_next :: "'e option \<Rightarrow> 'e links \<Rightarrow> rutil_error + 'e option" where
  "iterator_next pos h = through pos (\<lambda>e. Inr (mNext h e))"

definition list_begin :: "'e \<Rightarrow> 'e links \<Rightarrow> rutil_error + 'e option" where
  "list_begin this h =
     asserting (mPrev h this \<noteq> None) (asserting (mNext h this \<noteq> None) (Inr (mNext h this)))"

definition list_end :: "'e \<Rightarrow> 'e links \<Rightarrow> rutil_error + 'e option" where
  "list_end this h =
     asserting (mPrev h this \<noteq> None) (asserting (mNext h this \<noteq> None) (Inr (Some this)))"

definition push_front :: "'e \<Rightarrow> 'e \<Rightarrow> 'e links \<Rightarrow> rutil_error + 'e links" where
  "push_front this elem h =
     asserting (mPrev h this \<noteq> None) (asserting (mNext h this \<noteq> None)
      (let h = set_next elem (mNext h this) h;
           h = set_prev elem (Some this) h in
       through (mNext h elem) (\<lambda>n. let h = set_prev n (Some elem) h in
       through (mPrev h elem) (\<lambda>p. Inr (set_next p (Some elem) h)))))"

definition push_back :: "'e \<Rightarrow> 'e \<Rightarrow> 'e links \<Rightarrow> rutil_error + 'e links" where
  "push_back this elem h =
     asserting (mPrev h this \<noteq> None) (asserting (mNext h this \<noteq> None)
      (let h = set_prev elem (mPrev h this) h;
           h = set_next elem (Some this) h in
       through (mPrev h elem) (\<lambda>p. let h = set_next p (Some elem) h in
       through (mNext h elem) (\<lambda>n. Inr (set_prev n (Some elem) h)))))"

definition remove :: "'e \<Rightarrow> 'e links \<Rightarrow> rutil_error + 'e links" where
  "remove this h =
     bindr
       (if mNext h this \<noteq> None
        then through (mNext h this) (\<lambda>n. let h = set_prev n (mPrev h this) h in
             through (mPrev h this) (\<lambda>p. Inr (set_next p (mNext h this) h)))
        else Inr h)
       (\<lambda>h. Inr (set_prev this None (set_next this None h)))"

definition destroy_IntrusiveListElement :: "'e \<Rightarrow> 'e links \<Rightarrow> rutil_error + 'e links" where
  "destroy_IntrusiveListElement this h = remove this h"

text \<open>The loop \<open>for (i = begin(); i != end(); ++i)\<close> as its users write it; \<open>None\<close> if it
  does not end.\<close>

partial_function (option) walk :: "'e links \<Rightarrow> 'e option \<Rightarrow> 'e option \<Rightarrow> (rutil_error + 'e list) option" where
  "walk h pos stop =
     (if pos = stop then Some (Inr [])
      else case pos of
        None \<Rightarrow> Some (Inl NullAccess)
      | Some e \<Rightarrow> Option.bind (walk h (mNext h e) stop) (\<lambda>r. Some (bindr r (\<lambda>es. Inr (e # es)))))"

definition elements :: "'e \<Rightarrow> 'e links \<Rightarrow> (rutil_error + 'e list) option" where
  "elements this h = (case (list_begin this h, list_end this h) of
       (Inr b, Inr e) \<Rightarrow> walk h b e | (Inl x, _) \<Rightarrow> Some (Inl x) | (_, Inl x) \<Rightarrow> Some (Inl x))"

section \<open>The copies of the class\<close>

record 'e elem_heap =
  links0 :: "'e links"
  links1 :: "'e links"
  links2 :: "'e links"
  links3 :: "'e links"

definition on0 :: "('e links \<Rightarrow> rutil_error + 'e links) \<Rightarrow> 'e elem_heap \<Rightarrow> rutil_error + 'e elem_heap" where
  "on0 f H = bindr (f (links0 H)) (\<lambda>h. Inr (H\<lparr>links0 := h\<rparr>))"

definition on1 :: "('e links \<Rightarrow> rutil_error + 'e links) \<Rightarrow> 'e elem_heap \<Rightarrow> rutil_error + 'e elem_heap" where
  "on1 f H = bindr (f (links1 H)) (\<lambda>h. Inr (H\<lparr>links1 := h\<rparr>))"

definition on2 :: "('e links \<Rightarrow> rutil_error + 'e links) \<Rightarrow> 'e elem_heap \<Rightarrow> rutil_error + 'e elem_heap" where
  "on2 f H = bindr (f (links2 H)) (\<lambda>h. Inr (H\<lparr>links2 := h\<rparr>))"

definition on3 :: "('e links \<Rightarrow> rutil_error + 'e links) \<Rightarrow> 'e elem_heap \<Rightarrow> rutil_error + 'e elem_heap" where
  "on3 f H = bindr (f (links3 H)) (\<lambda>h. Inr (H\<lparr>links3 := h\<rparr>))"

definition IntrusiveListElement1 :: "'e \<Rightarrow> 'e elem_heap \<Rightarrow> 'e elem_heap" where
  "IntrusiveListElement1 this H = H\<lparr>links1 := IntrusiveListElement this (links1 H)\<rparr>"

definition makeList_1 :: "'e \<Rightarrow> 'e elem_heap \<Rightarrow> rutil_error + 'e elem_heap" where
  "makeList_1 elem = on1 (makeList elem)"

definition empty_1 :: "'e \<Rightarrow> 'e elem_heap \<Rightarrow> rutil_error + bool" where
  "empty_1 this H = list_empty this (links1 H)"

definition iterator_next_1 :: "'e option \<Rightarrow> 'e elem_heap \<Rightarrow> rutil_error + 'e option" where
  "iterator_next_1 pos H = iterator_next pos (links1 H)"

definition begin_1 :: "'e \<Rightarrow> 'e elem_heap \<Rightarrow> rutil_error + 'e option" where
  "begin_1 this H = list_begin this (links1 H)"

definition end_1 :: "'e \<Rightarrow> 'e elem_heap \<Rightarrow> rutil_error + 'e option" where
  "end_1 this H = list_end this (links1 H)"

definition push_front_1 :: "'e \<Rightarrow> 'e \<Rightarrow> 'e elem_heap \<Rightarrow> rutil_error + 'e elem_heap" where
  "push_front_1 this elem = on1 (push_front this elem)"

definition push_back_1 :: "'e \<Rightarrow> 'e \<Rightarrow> 'e elem_heap \<Rightarrow> rutil_error + 'e elem_heap" where
  "push_back_1 this elem = on1 (push_back this elem)"

definition remove_1 :: "'e \<Rightarrow> 'e elem_heap \<Rightarrow> rutil_error + 'e elem_heap" where
  "remove_1 this = on1 (remove this)"

definition destroy_IntrusiveListElement1 :: "'e \<Rightarrow> 'e elem_heap \<Rightarrow> rutil_error + 'e elem_heap" where
  "destroy_IntrusiveListElement1 this = on1 (destroy_IntrusiveListElement this)"

definition IntrusiveListElement2 :: "'e \<Rightarrow> 'e elem_heap \<Rightarrow> 'e elem_heap" where
  "IntrusiveListElement2 this H = H\<lparr>links2 := IntrusiveListElement this (links2 H)\<rparr>"

definition makeList_2 :: "'e \<Rightarrow> 'e elem_heap \<Rightarrow> rutil_error + 'e elem_heap" where
  "makeList_2 elem = on2 (makeList elem)"

definition empty_2 :: "'e \<Rightarrow> 'e elem_heap \<Rightarrow> rutil_error + bool" where
  "empty_2 this H = list_empty this (links2 H)"

definition iterator_next_2 :: "'e option \<Rightarrow> 'e elem_heap \<Rightarrow> rutil_error + 'e option" where
  "iterator_next_2 pos H = iterator_next pos (links2 H)"

definition begin_2 :: "'e \<Rightarrow> 'e elem_heap \<Rightarrow> rutil_error + 'e option" where
  "begin_2 this H = list_begin this (links2 H)"

definition end_2 :: "'e \<Rightarrow> 'e elem_heap \<Rightarrow> rutil_error + 'e option" where
  "end_2 this H = list_end this (links2 H)"

definition push_front_2 :: "'e \<Rightarrow> 'e \<Rightarrow> 'e elem_heap \<Rightarrow> rutil_error + 'e elem_heap" where
  "push_front_2 this elem = on2 (push_front this elem)"

definition push_back_2 :: "'e \<Rightarrow> 'e \<Rightarrow> 'e elem_heap \<Rightarrow> rutil_error + 'e elem_heap" where
  "push_back_2 this elem = on2 (push_back this elem)"

definition remove_2 :: "'e \<Rightarrow> 'e elem_heap \<Rightarrow> rutil_error + 'e elem_heap" where
  "remove_2 this = on2 (remove this)"

definition destroy_IntrusiveListElement2 :: "'e \<Rightarrow> 'e elem_heap \<Rightarrow> rutil_error + 'e elem_heap" where
  "destroy_IntrusiveListElement2 this = on2 (destroy_IntrusiveListElement this)"

definition IntrusiveListElement3 :: "'e \<Rightarrow> 'e elem_heap \<Rightarrow> 'e elem_heap" where
  "IntrusiveListElement3 this H = H\<lparr>links3 := IntrusiveListElement this (links3 H)\<rparr>"

definition makeList_3 :: "'e \<Rightarrow> 'e elem_heap \<Rightarrow> rutil_error + 'e elem_heap" where
  "makeList_3 elem = on3 (makeList elem)"

definition empty_3 :: "'e \<Rightarrow> 'e elem_heap \<Rightarrow> rutil_error + bool" where
  "empty_3 this H = list_empty this (links3 H)"

definition iterator_next_3 :: "'e option \<Rightarrow> 'e elem_heap \<Rightarrow> rutil_error + 'e option" where
  "iterator_next_3 pos H = iterator_next pos (links3 H)"

definition begin_3 :: "'e \<Rightarrow> 'e elem_heap \<Rightarrow> rutil_error + 'e option" where
  "begin_3 this H = list_begin this (links3 H)"

definition end_3 :: "'e \<Rightarrow> 'e elem_heap \<Rightarrow> rutil_error + 'e option" where
  "end_3 this H = list_end this (links3 H)"

definition push_front_3 :: "'e \<Rightarrow> 'e \<Rightarrow> 'e elem_heap \<Rightarrow> rutil_error + 'e elem_heap" where
  "push_front_3 this elem = on3 (push_front this elem)"

definition push_back_3 :: "'e \<Rightarrow> 'e \<Rightarrow> 'e elem_heap \<Rightarrow> rutil_error + 'e elem_heap" where
  "push_back_3 this elem = on3 (push_back this elem)"

definition remove_3 :: "'e \<Rightarrow> 'e elem_heap \<Rightarrow> rutil_error + 'e elem_heap" where
  "remove_3 this = on3 (remove this)"

definition destroy_IntrusiveListElement3 :: "'e \<Rightarrow> 'e elem_heap \<Rightarrow> rutil_error + 'e elem_heap" where
  "destroy_IntrusiveListElement3 this = on3 (destroy_IntrusiveListElement this)"

section \<open>Lists in the heap\<close>

primrec dpath :: "'e links \<Rightarrow> 'e \<Rightarrow> 'e list \<Rightarrow> 'e \<Rightarrow> bool" where
  "dpath h a [] b = (mNext h a = Some b \<and> mPrev h b = Some a)"
| "dpath h a (x # xs) b = (mNext h a = Some x \<and> mPrev h x = Some a \<and> dpath h x xs b)"

definition is_list :: "'e links \<Rightarrow> 'e \<Rightarrow> 'e list \<Rightarrow> bool" where
  "is_list h l xs = (distinct (l # xs) \<and> dpath h l xs l)"

lemma dpath_append: "dpath h a (xs @ x # ys) b \<longleftrightarrow> dpath h a xs x \<and> dpath h x ys b"
  by (induction xs arbitrary: a) auto

lemma set_simps [simp]:
  "mNext (set_next e n h) a = (if a = e then n else mNext h a)"
  "mPrev (set_next e n h) = mPrev h"
  "mPrev (set_prev e p h) a = (if a = e then p else mPrev h a)"
  "mNext (set_prev e p h) = mNext h"
  by (simp_all add: set_next_def set_prev_def)

text \<open>A path depends on the next links of its elements but the last, and on the previous links
  of its elements but the first.\<close>

lemma dpath_cong:
  "(\<And>e. e \<in> set (a # xs) \<Longrightarrow> mNext h' e = mNext h e) \<Longrightarrow>
   (\<And>e. e \<in> set (xs @ [b]) \<Longrightarrow> mPrev h' e = mPrev h e) \<Longrightarrow> dpath h' a xs b = dpath h a xs b"
  by (induction xs arbitrary: a) auto

lemma dpath_ends:
  "dpath h a xs b \<Longrightarrow> mNext h a = Some (hd (xs @ [b])) \<and> mPrev h b = Some (last (a # xs))"
  by (induction xs arbitrary: a) auto

section \<open>What each operation does to the list\<close>

lemma list_ends:
  "is_list h l xs \<Longrightarrow> mNext h l = Some (hd (xs @ [l])) \<and> mPrev h l = Some (last (l # xs))"
  by (rule dpath_ends) (simp add: is_list_def)

lemma makeList_list:
  "mNext h l = None \<Longrightarrow> \<exists>h'. makeList l h = Inr h' \<and> is_list h' l []"
  by (simp add: makeList_def asserting_def is_list_def)

lemma list_empty_iff: "is_list h l xs \<Longrightarrow> list_empty l h = Inr (xs = [])"
  using list_ends [of h l xs]
  by (cases xs) (auto simp del: dpath.simps simp: list_empty_def asserting_def is_list_def)

lemma push_front_list:
  assumes "is_list h l xs" and "e \<notin> set (l # xs)"
  shows "\<exists>h'. push_front l e h = Inr h' \<and> is_list h' l (e # xs) \<and>
    (\<forall>a. a \<notin> set (l # e # xs) \<longrightarrow> mNext h' a = mNext h a \<and> mPrev h' a = mPrev h a)"
proof (cases xs)
  case Nil
  with assms show ?thesis by (auto simp: push_front_def asserting_def through_def is_list_def Let_def)
next
  case (Cons x ys)
  let ?h = "set_next l (Some e) (set_prev x (Some e) (set_prev e (Some l) (set_next e (Some x) h)))"
  have push: "push_front l e h = Inr ?h"
    using assms Cons list_ends [OF assms(1)]
    by (auto simp: push_front_def asserting_def through_def Let_def)
  have "dpath ?h x ys l = dpath h x ys l"
    using assms Cons by (intro dpath_cong) (auto simp: is_list_def)
  then have "is_list ?h l (e # xs)" using assms Cons by (auto simp: is_list_def)
  then show ?thesis using push Cons by auto
qed

lemma push_back_list:
  assumes "is_list h l xs" and "e \<notin> set (l # xs)"
  shows "\<exists>h'. push_back l e h = Inr h' \<and> is_list h' l (xs @ [e]) \<and>
    (\<forall>a. a \<notin> set (l # e # xs) \<longrightarrow> mNext h' a = mNext h a \<and> mPrev h' a = mPrev h a)"
proof (cases xs rule: rev_cases)
  case Nil
  with assms show ?thesis by (auto simp: push_back_def asserting_def through_def is_list_def Let_def)
next
  case (snoc ys x)
  let ?h = "set_prev l (Some e) (set_next x (Some e) (set_next e (Some l) (set_prev e (Some x) h)))"
  have push: "push_back l e h = Inr ?h"
    using assms snoc list_ends [OF assms(1)]
    by (auto simp: push_back_def asserting_def through_def Let_def)
  have path: "dpath h l ys x" using assms(1) snoc by (simp add: is_list_def dpath_append)
  have "dpath ?h l ys x = dpath h l ys x"
    using assms snoc by (intro dpath_cong) (auto simp: is_list_def)
  then have "is_list ?h l (xs @ [e])" using assms snoc path by (auto simp: is_list_def dpath_append)
  then show ?thesis using push snoc by auto
qed

lemma dpath_retarget:
  "dpath h a xs e \<Longrightarrow> (\<And>x. x \<in> set (butlast (a # xs)) \<Longrightarrow> mNext h' x = mNext h x) \<Longrightarrow>
   (\<And>x. x \<in> set xs \<Longrightarrow> mPrev h' x = mPrev h x) \<Longrightarrow> mNext h' (last (a # xs)) = Some b \<Longrightarrow>
   mPrev h' b = Some (last (a # xs)) \<Longrightarrow> dpath h' a xs b"
proof (induction xs arbitrary: a)
  case Nil
  then show ?case by simp
next
  case (Cons x xs)
  have "dpath h' x xs b" by (rule Cons.IH) (use Cons.prems in auto)
  then show ?case using Cons.prems by auto
qed

lemma last_hd_in: "last (l # xs) \<in> set (l # xs)" "hd (ys @ [l]) \<in> set (l # ys)"
  by (simp_all, cases ys) auto

lemma not_in_butlast: "distinct xs \<Longrightarrow> x \<in> set (butlast xs) \<Longrightarrow> x \<noteq> last xs"
  by (induction xs) auto

lemma remove_eq:
  assumes d: "distinct (l # xs @ e # ys)" and paths: "dpath h l xs e" "dpath h e ys l"
  shows "remove e h = Inr (set_prev e None (set_next e None
    (set_next (last (l # xs)) (Some (hd (ys @ [l]))) (set_prev (hd (ys @ [l])) (Some (last (l # xs))) h))))"
proof -
  have "e \<noteq> hd (ys @ [l])" using d by (cases ys) auto
  then show ?thesis using dpath_ends [OF paths(1)] dpath_ends [OF paths(2)]
    by (simp add: remove_def through_def Let_def)
qed

lemma remove_list:
  assumes "is_list h l (xs @ e # ys)"
  shows "\<exists>h'. remove e h = Inr h' \<and> is_list h' l (xs @ ys) \<and> mNext h' e = None \<and> mPrev h' e = None \<and>
    (\<forall>a. a \<notin> set (l # xs @ e # ys) \<longrightarrow> mNext h' a = mNext h a \<and> mPrev h' a = mPrev h a)"
proof -
  let ?p = "last (l # xs)" and ?n = "hd (ys @ [l])"
  have d: "distinct (l # xs @ e # ys)" and paths: "dpath h l xs e" "dpath h e ys l"
    using assms by (auto simp: is_list_def dpath_append)
  let ?h = "set_prev e None (set_next e None (set_next ?p (Some ?n) (set_prev ?n (Some ?p) h)))"
  have p: "?p \<in> set (l # xs)" and n: "?n \<in> set (l # ys)" by (rule last_hd_in)+
  have ne: "e \<noteq> ?p" "e \<noteq> ?n" using p n d by auto
  have left: "dpath ?h l xs ?n"
  proof (rule dpath_retarget [OF paths(1)])
    fix x assume "x \<in> set (butlast (l # xs))"
    then have "x \<noteq> ?p" "x \<in> set (l # xs)"
      using not_in_butlast [of "l # xs" x] d in_set_butlastD [of x "l # xs"] by simp_all
    moreover have "x \<noteq> e" using calculation(2) d by auto
    ultimately show "mNext ?h x = mNext h x" by simp
  next
    fix x assume "x \<in> set xs"
    then have "x \<noteq> ?n" "x \<noteq> e" using n d by auto
    then show "mPrev ?h x = mPrev h x" by simp
  qed (use ne in auto)
  have "is_list ?h l (xs @ ys)"
  proof (cases ys)
    case Nil
    then show ?thesis using left d by (simp add: is_list_def)
  next
    case (Cons y ys')
    have "dpath ?h y ys' l = dpath h y ys' l"
      using Cons d p by (intro dpath_cong) auto
    then show ?thesis using left paths(2) d Cons by (simp add: is_list_def dpath_append)
  qed
  then show ?thesis using remove_eq [OF d paths] p n by auto
qed

lemma remove_unlinked: "mNext h e = None \<Longrightarrow> mPrev h e = None \<Longrightarrow> remove e h = Inr h"
  by (simp add: remove_def set_next_def set_prev_def fun_upd_idem)

lemma walk_path: "dpath h a xs b \<Longrightarrow> distinct (xs @ [b]) \<Longrightarrow> walk h (mNext h a) (Some b) = Some (Inr xs)"
proof (induction xs arbitrary: a)
  case Nil
  then show ?case by (simp add: walk.simps)
next
  case (Cons x xs)
  then have "walk h (mNext h x) (Some b) = Some (Inr xs)" by simp
  then show ?case using Cons.prems by (auto simp: walk.simps [of h "Some x"])
qed

section \<open>The interface\<close>

datatype 'e list_op = PushFront 'e | PushBack 'e | Remove 'e

fun spec_op :: "'e list_op \<Rightarrow> 'e list \<Rightarrow> 'e list" where
  "spec_op (PushFront e) xs = e # xs"
| "spec_op (PushBack e) xs = xs @ [e]"
| "spec_op (Remove e) xs = remove1 e xs"

text \<open>An element is pushed when it is not in the list, and removed when it is.\<close>

fun legal_op :: "'e \<Rightarrow> 'e list_op \<Rightarrow> 'e list \<Rightarrow> bool" where
  "legal_op l (PushFront e) xs = (e \<notin> set (l # xs))"
| "legal_op l (PushBack e) xs = (e \<notin> set (l # xs))"
| "legal_op l (Remove e) xs = (e \<in> set xs)"

primrec legal_ops :: "'e \<Rightarrow> 'e list_op list \<Rightarrow> 'e list \<Rightarrow> bool" where
  "legal_ops l [] xs = True"
| "legal_ops l (p # ps) xs = (legal_op l p xs \<and> legal_ops l ps (spec_op p xs))"

fun exec_op ::
  "('e \<Rightarrow> 'e \<Rightarrow> 'h \<Rightarrow> rutil_error + 'h) \<Rightarrow> ('e \<Rightarrow> 'e \<Rightarrow> 'h \<Rightarrow> rutil_error + 'h) \<Rightarrow>
   ('e \<Rightarrow> 'h \<Rightarrow> rutil_error + 'h) \<Rightarrow> 'e \<Rightarrow> 'h \<Rightarrow> 'e list_op \<Rightarrow> rutil_error + 'h" where
  "exec_op front rear unlink l h (PushFront e) = front l e h"
| "exec_op front rear unlink l h (PushBack e) = rear l e h"
| "exec_op front rear unlink l h (Remove e) = unlink e h"

locale linked_list =
  fixes holds :: "'h \<Rightarrow> 'e \<Rightarrow> 'e list \<Rightarrow> bool"
    and front :: "'e \<Rightarrow> 'e \<Rightarrow> 'h \<Rightarrow> rutil_error + 'h"
    and rear :: "'e \<Rightarrow> 'e \<Rightarrow> 'h \<Rightarrow> rutil_error + 'h"
    and unlink :: "'e \<Rightarrow> 'h \<Rightarrow> rutil_error + 'h"
  assumes holds_distinct: "holds h l xs \<Longrightarrow> distinct (l # xs)"
    and front_law: "holds h l xs \<Longrightarrow> e \<notin> set (l # xs) \<Longrightarrow> \<exists>h'. front l e h = Inr h' \<and> holds h' l (e # xs) \<and>
      (\<forall>m ys. holds h m ys \<longrightarrow> set (m # ys) \<inter> set (l # e # xs) = {} \<longrightarrow> holds h' m ys)"
    and rear_law: "holds h l xs \<Longrightarrow> e \<notin> set (l # xs) \<Longrightarrow> \<exists>h'. rear l e h = Inr h' \<and> holds h' l (xs @ [e]) \<and>
      (\<forall>m ys. holds h m ys \<longrightarrow> set (m # ys) \<inter> set (l # e # xs) = {} \<longrightarrow> holds h' m ys)"
    and unlink_law: "holds h l (xs @ e # ys) \<Longrightarrow> \<exists>h'. unlink e h = Inr h' \<and> holds h' l (xs @ ys) \<and>
      (\<forall>m zs. holds h m zs \<longrightarrow> set (m # zs) \<inter> set (l # xs @ e # ys) = {} \<longrightarrow> holds h' m zs)"
begin

lemma exec_refines:
  assumes "holds h l xs" and "legal_op l p xs"
  shows "\<exists>h'. exec_op front rear unlink l h p = Inr h' \<and> holds h' l (spec_op p xs)"
proof (cases p)
  case (PushFront e)
  then show ?thesis using front_law [OF assms(1), of e] assms(2) by auto
next
  case (PushBack e)
  then show ?thesis using rear_law [OF assms(1), of e] assms(2) by auto
next
  case (Remove e)
  then obtain ys zs where xs: "xs = ys @ e # zs" using assms(2) by (auto simp: in_set_conv_decomp)
  moreover have "e \<notin> set ys" using holds_distinct [OF assms(1)] xs by auto
  ultimately show ?thesis using unlink_law [of h l ys e zs] assms(1) Remove
    by (auto simp: remove1_append)
qed

lemma run_refines:
  "holds h l xs \<Longrightarrow> legal_ops l ps xs \<Longrightarrow>
   \<exists>h'. run_events (exec_op front rear unlink l) h ps = Inr h' \<and> holds h' l (fold spec_op ps xs)"
proof (induction ps arbitrary: h xs)
  case Nil
  then show ?case by simp
next
  case (Cons p ps)
  then obtain h1 where "exec_op front rear unlink l h p = Inr h1" "holds h1 l (spec_op p xs)"
    using exec_refines [of h l xs p] by auto
  with Cons show ?case by simp
qed

lemma move_to_back:
  assumes "holds h l (xs @ e # ys)"
  shows "\<exists>h'. bindr (unlink e h) (rear l e) = Inr h' \<and> holds h' l (xs @ ys @ [e])"
proof -
  obtain h1 where "unlink e h = Inr h1" "holds h1 l (xs @ ys)" using unlink_law [OF assms] by blast
  moreover have "e \<notin> set (l # xs @ ys)" using holds_distinct [OF assms] by auto
  ultimately show ?thesis using rear_law [of h1 l "xs @ ys" e] by auto
qed

lemma transfer:
  assumes "holds h l (xs @ e # ys)" and "holds h m zs" and "set (m # zs) \<inter> set (l # xs @ e # ys) = {}"
  shows "\<exists>h'. bindr (unlink e h) (rear m e) = Inr h' \<and> holds h' l (xs @ ys) \<and> holds h' m (zs @ [e])"
proof -
  obtain h1 where h1: "unlink e h = Inr h1" "holds h1 l (xs @ ys)" "holds h1 m zs"
    using unlink_law [OF assms(1)] assms(2,3) by metis
  have "e \<notin> set (m # zs)" using assms(3) by auto
  moreover have "set (l # xs @ ys) \<inter> set (m # e # zs) = {}"
    using assms(3) holds_distinct [OF assms(1)] by auto
  ultimately show ?thesis using rear_law [OF h1(3), of e] h1(1,2) by auto
qed

end

text \<open>Lists that share no element are not changed.\<close>

lemma is_list_frame:
  assumes "is_list h m ys" and "\<forall>a. a \<notin> S \<longrightarrow> mNext h' a = mNext h a \<and> mPrev h' a = mPrev h a"
    and "set (m # ys) \<inter> S = {}"
  shows "is_list h' m ys"
proof -
  have "dpath h' m ys m = dpath h m ys m" using assms(2,3) by (intro dpath_cong) auto
  then show ?thesis using assms(1) by (simp add: is_list_def)
qed

interpretation il: linked_list is_list push_front push_back remove
proof
  show "is_list h l xs \<Longrightarrow> distinct (l # xs)" for h :: "'a links" and l xs by (simp add: is_list_def)
  show "\<exists>h'. push_front l e h = Inr h' \<and> is_list h' l (e # xs) \<and>
      (\<forall>m ys. is_list h m ys \<longrightarrow> set (m # ys) \<inter> set (l # e # xs) = {} \<longrightarrow> is_list h' m ys)"
    if "is_list h l xs" "e \<notin> set (l # xs)" for h :: "'a links" and l xs e
    using push_front_list [OF that] is_list_frame [of h _ _ "set (l # e # xs)"] by metis
  show "\<exists>h'. push_back l e h = Inr h' \<and> is_list h' l (xs @ [e]) \<and>
      (\<forall>m ys. is_list h m ys \<longrightarrow> set (m # ys) \<inter> set (l # e # xs) = {} \<longrightarrow> is_list h' m ys)"
    if "is_list h l xs" "e \<notin> set (l # xs)" for h :: "'a links" and l xs e
    using push_back_list [OF that] is_list_frame [of h _ _ "set (l # e # xs)"] by metis
  show "\<exists>h'. remove e h = Inr h' \<and> is_list h' l (xs @ ys) \<and>
      (\<forall>m zs. is_list h m zs \<longrightarrow> set (m # zs) \<inter> set (l # xs @ e # ys) = {} \<longrightarrow> is_list h' m zs)"
    if "is_list h l (xs @ e # ys)" for h :: "'a links" and l xs e ys
    using remove_list [OF that] is_list_frame [of h _ _ "set (l # xs @ e # ys)"] by metis
qed

interpretation il1: linked_list "\<lambda>H. is_list (links1 H)" push_front_1 push_back_1 remove_1
proof
  fix H :: "'a elem_heap" and l xs e ys
  show "is_list (links1 H) l xs \<Longrightarrow> distinct (l # xs)" by (rule il.holds_distinct)
  show "is_list (links1 H) l xs \<Longrightarrow> e \<notin> set (l # xs) \<Longrightarrow> \<exists>H'. push_front_1 l e H = Inr H' \<and>
      is_list (links1 H') l (e # xs) \<and> (\<forall>m ys. is_list (links1 H) m ys \<longrightarrow>
      set (m # ys) \<inter> set (l # e # xs) = {} \<longrightarrow> is_list (links1 H') m ys)"
    by (drule (1) il.front_law) (auto simp: push_front_1_def on1_def)
  show "is_list (links1 H) l xs \<Longrightarrow> e \<notin> set (l # xs) \<Longrightarrow> \<exists>H'. push_back_1 l e H = Inr H' \<and>
      is_list (links1 H') l (xs @ [e]) \<and> (\<forall>m ys. is_list (links1 H) m ys \<longrightarrow>
      set (m # ys) \<inter> set (l # e # xs) = {} \<longrightarrow> is_list (links1 H') m ys)"
    by (drule (1) il.rear_law) (auto simp: push_back_1_def on1_def)
  show "is_list (links1 H) l (xs @ e # ys) \<Longrightarrow> \<exists>H'. remove_1 e H = Inr H' \<and>
      is_list (links1 H') l (xs @ ys) \<and> (\<forall>m zs. is_list (links1 H) m zs \<longrightarrow>
      set (m # zs) \<inter> set (l # xs @ e # ys) = {} \<longrightarrow> is_list (links1 H') m zs)"
    by (drule il.unlink_law) (auto simp: remove_1_def on1_def)
qed

interpretation il2: linked_list "\<lambda>H. is_list (links2 H)" push_front_2 push_back_2 remove_2
proof
  fix H :: "'a elem_heap" and l xs e ys
  show "is_list (links2 H) l xs \<Longrightarrow> distinct (l # xs)" by (rule il.holds_distinct)
  show "is_list (links2 H) l xs \<Longrightarrow> e \<notin> set (l # xs) \<Longrightarrow> \<exists>H'. push_front_2 l e H = Inr H' \<and>
      is_list (links2 H') l (e # xs) \<and> (\<forall>m ys. is_list (links2 H) m ys \<longrightarrow>
      set (m # ys) \<inter> set (l # e # xs) = {} \<longrightarrow> is_list (links2 H') m ys)"
    by (drule (1) il.front_law) (auto simp: push_front_2_def on2_def)
  show "is_list (links2 H) l xs \<Longrightarrow> e \<notin> set (l # xs) \<Longrightarrow> \<exists>H'. push_back_2 l e H = Inr H' \<and>
      is_list (links2 H') l (xs @ [e]) \<and> (\<forall>m ys. is_list (links2 H) m ys \<longrightarrow>
      set (m # ys) \<inter> set (l # e # xs) = {} \<longrightarrow> is_list (links2 H') m ys)"
    by (drule (1) il.rear_law) (auto simp: push_back_2_def on2_def)
  show "is_list (links2 H) l (xs @ e # ys) \<Longrightarrow> \<exists>H'. remove_2 e H = Inr H' \<and>
      is_list (links2 H') l (xs @ ys) \<and> (\<forall>m zs. is_list (links2 H) m zs \<longrightarrow>
      set (m # zs) \<inter> set (l # xs @ e # ys) = {} \<longrightarrow> is_list (links2 H') m zs)"
    by (drule il.unlink_law) (auto simp: remove_2_def on2_def)
qed

interpretation il3: linked_list "\<lambda>H. is_list (links3 H)" push_front_3 push_back_3 remove_3
proof
  fix H :: "'a elem_heap" and l xs e ys
  show "is_list (links3 H) l xs \<Longrightarrow> distinct (l # xs)" by (rule il.holds_distinct)
  show "is_list (links3 H) l xs \<Longrightarrow> e \<notin> set (l # xs) \<Longrightarrow> \<exists>H'. push_front_3 l e H = Inr H' \<and>
      is_list (links3 H') l (e # xs) \<and> (\<forall>m ys. is_list (links3 H) m ys \<longrightarrow>
      set (m # ys) \<inter> set (l # e # xs) = {} \<longrightarrow> is_list (links3 H') m ys)"
    by (drule (1) il.front_law) (auto simp: push_front_3_def on3_def)
  show "is_list (links3 H) l xs \<Longrightarrow> e \<notin> set (l # xs) \<Longrightarrow> \<exists>H'. push_back_3 l e H = Inr H' \<and>
      is_list (links3 H') l (xs @ [e]) \<and> (\<forall>m ys. is_list (links3 H) m ys \<longrightarrow>
      set (m # ys) \<inter> set (l # e # xs) = {} \<longrightarrow> is_list (links3 H') m ys)"
    by (drule (1) il.rear_law) (auto simp: push_back_3_def on3_def)
  show "is_list (links3 H) l (xs @ e # ys) \<Longrightarrow> \<exists>H'. remove_3 e H = Inr H' \<and>
      is_list (links3 H') l (xs @ ys) \<and> (\<forall>m zs. is_list (links3 H) m zs \<longrightarrow>
      set (m # zs) \<inter> set (l # xs @ e # ys) = {} \<longrightarrow> is_list (links3 H') m zs)"
    by (drule il.unlink_law) (auto simp: remove_3_def on3_def)
qed

section \<open>Properties\<close>

text \<open>
  (C17) The intrusive list implements a sequence: for every legal series of \<open>push_front\<close>,
  \<open>push_back\<close> and \<open>remove\<close> on a list that \<open>makeList\<close> made, no pointer is null when it
  is followed, no assertion fails, and the loop from \<open>begin()\<close> to \<open>end()\<close> ends after
  visiting exactly the elements of the sequence, in order.
\<close>

theorem intrusive_list_refines:
  assumes "mNext h l = None" and "legal_ops l ps []"
  shows "\<exists>h1 h2. makeList l h = Inr h1 \<and> run_events (exec_op push_front push_back remove l) h1 ps = Inr h2 \<and>
    elements l h2 = Some (Inr (fold spec_op ps [])) \<and>
    list_empty l h2 = Inr (fold spec_op ps [] = [])"
proof -
  obtain h1 where h1: "makeList l h = Inr h1" "is_list h1 l []" using makeList_list [OF assms(1)] by blast
  obtain h2 where h2: "run_events (exec_op push_front push_back remove l) h1 ps = Inr h2"
      "is_list h2 l (fold spec_op ps [])"
    using il.run_refines [OF h1(2) assms(2)] by blast
  have "elements l h2 = walk h2 (mNext h2 l) (Some l)"
    using list_ends [OF h2(2)] by (simp add: elements_def list_begin_def list_end_def asserting_def)
  also have "\<dots> = Some (Inr (fold spec_op ps []))"
    using h2(2) by (intro walk_path) (auto simp: is_list_def)
  finally show ?thesis using h1 h2 list_empty_iff [OF h2(2)] by blast
qed

text \<open>
  Destroying an element takes it out of the list it is in and leaves the other elements
  in order; a second destruction, or the destruction of an element that is in no list,
  changes nothing. Removing an element and pushing it rear moves it to the end, which is how
  the least recently used element is kept at the front.
\<close>

theorem element_leaves_list:
  assumes "is_list h l (xs @ e # ys)"
  shows "\<exists>h1 h2. destroy_IntrusiveListElement e h = Inr h1 \<and> is_list h1 l (xs @ ys) \<and>
    destroy_IntrusiveListElement e h1 = Inr h1 \<and>
    bindr (remove e h) (push_back l e) = Inr h2 \<and> is_list h2 l (xs @ ys @ [e])"
  using remove_list [OF assms] il.move_to_back [OF assms] remove_unlinked
  by (auto simp: destroy_IntrusiveListElement_def)

text \<open>
  An object can be in a list of every copy of the class at once: moving it between two
  lists of \<open>IntrusiveListElement1\<close> updates both lists and leaves the lists of the other
  copies exactly as they were.
\<close>

theorem copies_are_independent:
  assumes "is_list (links1 H) l (xs @ e # ys)" and "is_list (links1 H) m zs"
    and "set (m # zs) \<inter> set (l # xs @ e # ys) = {}"
  shows "\<exists>H'. bindr (remove_1 e H) (push_back_1 m e) = Inr H' \<and>
    is_list (links1 H') l (xs @ ys) \<and> is_list (links1 H') m (zs @ [e]) \<and>
    links0 H' = links0 H \<and> links2 H' = links2 H \<and> links3 H' = links3 H"
proof -
  obtain H' where H': "bindr (remove_1 e H) (push_back_1 m e) = Inr H'"
      "is_list (links1 H') l (xs @ ys)" "is_list (links1 H') m (zs @ [e])"
    using il1.transfer [OF assms] by blast
  then have "links0 H' = links0 H \<and> links2 H' = links2 H \<and> links3 H' = links3 H"
    by (auto simp: remove_1_def push_back_1_def on1_def bindr_eq_Inr)
  with H' show ?thesis by blast
qed

section \<open>Witnesses\<close>

definition blank :: "nat links" where
  "blank = \<lparr>mNext = (\<lambda>e. None), mPrev = (\<lambda>e. None)\<rparr>"

definition three :: "nat links" where
  "three = \<lparr>mNext = [0 \<mapsto> 1, 1 \<mapsto> 2, 2 \<mapsto> 3, 3 \<mapsto> 0, 9 \<mapsto> 9],
            mPrev = [0 \<mapsto> 3, 1 \<mapsto> 0, 2 \<mapsto> 1, 3 \<mapsto> 2, 9 \<mapsto> 9]\<rparr>"

lemma three_lists: "is_list three 0 ([1] @ 2 # [3])" "is_list three 9 []"
  by (simp_all add: is_list_def three_def)

theorem intrusive_list_refines_witness:
  "\<exists>h1 h2. makeList 0 blank = Inr h1 \<and>
     run_events (exec_op push_front push_back remove 0) h1 [PushBack 5, PushFront 4, PushBack 6, Remove 5] = Inr h2 \<and>
     elements 0 h2 = Some (Inr [4, 6])"
  using intrusive_list_refines [of blank 0 "[PushBack 5, PushFront 4, PushBack 6, Remove 5]"]
  by (auto simp: blank_def)

theorem element_leaves_list_witness:
  "\<exists>h1 h2. destroy_IntrusiveListElement 2 three = Inr h1 \<and> is_list h1 0 [1, 3] \<and>
     bindr (remove 2 three) (push_back 0 2) = Inr h2 \<and> is_list h2 0 [1, 3, 2]"
  using element_leaves_list [OF three_lists(1)] by auto

theorem copies_are_independent_witness:
  "\<exists>H'. bindr (remove_1 2 \<lparr>links0 = three, links1 = three, links2 = blank, links3 = blank\<rparr>) (push_back_1 9 2) = Inr H' \<and>
     is_list (links1 H') 0 [1, 3] \<and> is_list (links1 H') 9 [2] \<and> is_list (links0 H') 0 [1, 2, 3]"
  using copies_are_independent [of "\<lparr>links0 = three, links1 = three, links2 = blank, links3 = blank\<rparr>"
      0 "[1]" 2 "[3]" 9 "[]"] three_lists by auto

end
