(* ===== verification/TimerQueues.thy ===== *)
theory TimerQueues
  imports Queues
begin

text \<open>
  The timer queue of \<open>rutil/GenericTimerQueue.hxx\<close>. Its \<open>std::multiset\<close> of entries is a
  list of nodes in the order of \<open>operator<\<close>, equal ones in the order of their insertion;
  every node has an identity, as the iterators that \<open>process\<close> keeps refer to nodes.
  \<open>processTimer\<close> is pure virtual and so an argument: what it does to the state of the
  client, and the timers it adds to the queue meanwhile, each with the reading of the clock.
\<close>

section \<open>GenericTimerQueue\<close>

record 'e node =
  nid :: nat
  mWhen :: uint64
  mEvent :: "'e option"

record 'e timerq =
  mTimers :: "'e node list"
  next_id :: nat

text \<open>A client's answer to an event: its new state, and the timers it adds (offset, clock, event).\<close>

type_synonym ('e, 'c) handler = "'e \<Rightarrow> 'c \<Rightarrow> 'c \<times> (uint64 \<times> uint64 \<times> 'e option) list"

definition TimerEntry :: "nat \<Rightarrow> uint64 \<Rightarrow> uint64 \<Rightarrow> 'e option \<Rightarrow> 'e node" where
  "TimerEntry i clk tms event = \<lparr>nid = i, mWhen = tms + clk, mEvent = event\<rparr>"

definition entry_less :: "'e node \<Rightarrow> 'e node \<Rightarrow> bool" where
  "entry_less a b = (mWhen a < mWhen b)"

fun multiset_insert :: "'e node \<Rightarrow> 'e node list \<Rightarrow> 'e node list" where
  "multiset_insert x [] = [x]"
| "multiset_insert x (y # ys) = (if entry_less x y then x # y # ys else y # multiset_insert x ys)"

definition timer_add :: "uint64 \<Rightarrow> 'e option \<Rightarrow> uint64 \<Rightarrow> 'e timerq \<Rightarrow> 'e timerq" where
  "timer_add clk event msOffset s =
     s\<lparr>mTimers := multiset_insert (TimerEntry (next_id s) clk msOffset event) (mTimers s),
       next_id := Suc (next_id s)\<rparr>"

definition timer_size :: "'e timerq \<Rightarrow> int" where
  "timer_size s = int (length (mTimers s))"

definition timer_empty :: "'e timerq \<Rightarrow> bool" where
  "timer_empty s = (mTimers s = [])"

definition INT_MAX :: uint64 where
  "INT_MAX = 2147483647"

definition msTillNextTimer :: "uint64 \<Rightarrow> 'e timerq \<Rightarrow> uint32" where
  "msTillNextTimer now s = (case mTimers s of
       [] \<Rightarrow> ucast INT_MAX
     | n # ns \<Rightarrow>
         (let next_time = mWhen n in
          if now > next_time then 0
          else let ret64 = next_time - now in
            if ret64 > INT_MAX then ucast INT_MAX else ucast ret64))"

text \<open>The entries before \<open>upper_bound(now)\<close>.\<close>

definition before_upper_bound :: "'e node \<Rightarrow> 'e node list \<Rightarrow> 'e node list" where
  "before_upper_bound now ns = takeWhile (\<lambda>n. \<not> entry_less now n) ns"

definition add_all :: "(uint64 \<times> uint64 \<times> 'e option) list \<Rightarrow> 'e timerq \<Rightarrow> 'e timerq" where
  "add_all adds s = fold (\<lambda>(off, clk, ev). timer_add clk ev off) adds s"

fun process_timers ::
  "('e, 'c) handler \<Rightarrow> 'e node list \<Rightarrow> 'c \<times> 'e timerq \<Rightarrow> rutil_error + 'c \<times> 'e timerq" where
  "process_timers cb [] cs = Inr cs"
| "process_timers cb (i # is) cs = (case mEvent i of
       None \<Rightarrow> Inl AssertFailed
     | Some e \<Rightarrow> (case cb e (fst cs) of (c, adds) \<Rightarrow> process_timers cb is (c, add_all adds (snd cs))))"

definition erase :: "'e node \<Rightarrow> 'e timerq \<Rightarrow> 'e timerq" where
  "erase i s = s\<lparr>mTimers := filter (\<lambda>n. nid n \<noteq> nid i) (mTimers s)\<rparr>"

text \<open>\<open>t1\<close> and \<open>t2\<close> are the two readings of the clock.\<close>

definition process ::
  "('e, 'c) handler \<Rightarrow> uint64 \<Rightarrow> uint64 \<Rightarrow> 'c \<Rightarrow> 'e timerq \<Rightarrow> rutil_error + 'c \<times> 'e timerq" where
  "process cb t1 t2 c s =
     (if mTimers s \<noteq> [] \<and> msTillNextTimer t1 s = 0
      then
        let now = TimerEntry 0 t2 0 None;
            iterators = before_upper_bound now (mTimers s)
        in bindr (process_timers cb iterators (c, s)) (\<lambda>(c, s). Inr (c, fold erase iterators s))
      else Inr (c, s))"

definition destroy_GenericTimerQueue :: "'e timerq \<Rightarrow> 'e option list" where
  "destroy_GenericTimerQueue s = map mEvent (mTimers s)"

section \<open>The invariant\<close>

definition tq_ok :: "'e timerq \<Rightarrow> bool" where
  "tq_ok s = (sorted (map mWhen (mTimers s)) \<and> distinct (map nid (mTimers s)) \<and>
     (\<forall>n \<in> set (mTimers s). nid n < next_id s))"

lemma set_multiset_insert [simp]: "set (multiset_insert x ns) = insert x (set ns)"
  by (induction x ns rule: multiset_insert.induct) auto

lemma sorted_multiset_insert:
  "sorted (map mWhen ns) \<Longrightarrow> sorted (map mWhen (multiset_insert x ns))"
  by (induction x ns rule: multiset_insert.induct) (auto simp: entry_less_def not_less)

lemma distinct_multiset_insert:
  "distinct (map nid ns) \<Longrightarrow> nid x \<notin> nid ` set ns \<Longrightarrow> distinct (map nid (multiset_insert x ns))"
  by (induction x ns rule: multiset_insert.induct) auto

lemma timer_add_ok: "tq_ok s \<Longrightarrow> tq_ok (timer_add clk ev off s)"
  by (auto simp: tq_ok_def timer_add_def TimerEntry_def sorted_multiset_insert
      intro!: distinct_multiset_insert less_SucI)

lemma add_all_ok: "tq_ok s \<Longrightarrow> tq_ok (add_all adds s)"
  unfolding add_all_def by (induction adds arbitrary: s) (auto simp: timer_add_ok)

text \<open>Erasing some nodes and inserting others commute, as the order decides the place.\<close>

lemma multiset_insert_filter:
  "sorted (map mWhen ns) \<Longrightarrow> P x \<Longrightarrow>
   filter P (multiset_insert x ns) = multiset_insert x (filter P ns)"
proof (induction x ns rule: multiset_insert.induct)
  case (2 x y ys)
  show ?case
  proof (cases "entry_less x y")
    case True
    then have "\<forall>n \<in> set (filter P ys). entry_less x n" using 2 by (auto simp: entry_less_def)
    then have "multiset_insert x (filter P ys) = x # filter P ys" by (cases "filter P ys") auto
    then show ?thesis using True 2 by simp
  qed (use 2 in auto)
qed simp

section \<open>One call of process\<close>

text \<open>What a client makes of a list of events, one after the other.\<close>

fun answers :: "('e, 'c) handler \<Rightarrow> 'e list \<Rightarrow> 'c \<Rightarrow> 'c \<times> (uint64 \<times> uint64 \<times> 'e option) list" where
  "answers cb [] c = (c, [])"
| "answers cb (e # es) c = (case cb e c of (c1, adds) \<Rightarrow>
     case answers cb es c1 of (c2, later) \<Rightarrow> (c2, adds @ later))"

lemma add_all_append: "add_all (xs @ ys) s = add_all ys (add_all xs s)"
  by (simp add: add_all_def)

lemma process_timers_eq:
  "(\<forall>i \<in> set is. mEvent i \<noteq> None) \<Longrightarrow> process_timers cb is (c, s) =
     (case answers cb (map (the \<circ> mEvent) is) c of (c', adds) \<Rightarrow> Inr (c', add_all adds s))"
proof (induction "is" arbitrary: c s)
  case Nil
  then show ?case by (simp add: add_all_def)
next
  case (Cons i "is")
  then obtain e where e: "mEvent i = Some e" by auto
  obtain c1 adds where cb: "cb e c = (c1, adds)" by (cases "cb e c")
  show ?case using Cons e cb by (simp add: add_all_append split: prod.split)
qed

lemma fold_erase:
  "fold erase is s = s\<lparr>mTimers := filter (\<lambda>n. nid n \<notin> nid ` set is) (mTimers s)\<rparr>"
  by (induction "is" arbitrary: s) (auto simp: erase_def intro!: arg_cong2 [where f = filter])

lemma add_all_filter:
  assumes "tq_ok s" and "\<And>n. next_id s \<le> nid n \<Longrightarrow> P n"
  shows "(add_all adds s)\<lparr>mTimers := filter P (mTimers (add_all adds s))\<rparr> =
    add_all adds (s\<lparr>mTimers := filter P (mTimers s)\<rparr>)"
  using assms
proof (induction adds arbitrary: s)
  case Nil
  then show ?case by (simp add: add_all_def)
next
  case (Cons a adds)
  obtain off clk ev where a: "a = (off, clk, ev)" by (cases a)
  let ?s = "timer_add clk ev off s"
  have "filter P (mTimers ?s) = mTimers (timer_add clk ev off (s\<lparr>mTimers := filter P (mTimers s)\<rparr>))"
    using Cons.prems
    by (auto simp: timer_add_def tq_ok_def TimerEntry_def intro!: multiset_insert_filter)
  then have "?s\<lparr>mTimers := filter P (mTimers ?s)\<rparr> = timer_add clk ev off (s\<lparr>mTimers := filter P (mTimers s)\<rparr>)"
    by (simp add: timer_add_def)
  moreover have "next_id ?s = Suc (next_id s)" by (simp add: timer_add_def)
  ultimately show ?case
    using Cons.IH [OF timer_add_ok [OF Cons.prems(1)], of clk ev off] Cons.prems(2)
    by (simp add: add_all_def a)
qed

lemma takeWhile_sorted:
  "sorted (map f ns) \<Longrightarrow> takeWhile (\<lambda>n. f n \<le> t) ns = filter (\<lambda>n. f n \<le> t) ns" for t :: "'a::linorder"
proof (induction ns)
  case (Cons n ns)
  show ?case
  proof (cases "f n \<le> t")
    case False
    then have "filter (\<lambda>n. f n \<le> t) ns = []" using Cons.prems by (auto simp: filter_empty_conv)
    then show ?thesis using False by simp
  qed (use Cons in simp)
qed simp

definition due :: "uint64 \<Rightarrow> 'e timerq \<Rightarrow> 'e node list" where
  "due t s = filter (\<lambda>n. mWhen n \<le> t) (mTimers s)"

lemma before_upper_bound_due:
  "tq_ok s \<Longrightarrow> before_upper_bound (TimerEntry 0 t 0 None) (mTimers s) = due t s"
  by (simp add: before_upper_bound_def entry_less_def TimerEntry_def due_def not_less tq_ok_def
      takeWhile_sorted)

lemma msTill_zero:
  "mTimers s = n # ns \<Longrightarrow> msTillNextTimer now s = 0 \<longleftrightarrow> mWhen n \<le> now"
proof -
  assume s: "mTimers s = n # ns"
  have "(ucast x :: uint32) \<noteq> 0" if "x \<noteq> 0" "x \<le> INT_MAX" for x :: uint64
  proof -
    have "unat x < 2 ^ 32" using that(2) by (simp add: INT_MAX_def word_le_nat_alt)
    then have "unat (ucast x :: uint32) = unat x" by (rule unat_narrow)
    then show ?thesis using that(1) by (metis unat_0 unat_eq_zero)
  qed
  moreover have "mWhen n - now \<noteq> 0 \<longleftrightarrow> mWhen n \<noteq> now" by simp
  moreover have "(ucast INT_MAX :: uint32) \<noteq> 0" by (simp add: INT_MAX_def)
  ultimately show ?thesis using s
    by (cases "mWhen n = now") (auto simp: msTillNextTimer_def Let_def not_less)
qed

text \<open>
  (C20) \<open>process\<close> fires exactly the timers that are due: when the first one is due, every
  timer whose time has come is given to \<open>processTimer\<close>, once and in the order of their
  times; the timers left are the later ones and those the client added meanwhile, which wait
  for the next call even if they are due already. So the call ends whatever the client adds.
  Otherwise nothing happens.
\<close>

theorem process_fires_due:
  assumes "tq_ok s" and "\<forall>n \<in> set (due t2 s). mEvent n \<noteq> None"
    and "answers cb (map (the \<circ> mEvent) (due t2 s)) c = (c', adds)"
  shows "process cb t1 t2 c s =
     (if mTimers s \<noteq> [] \<and> mWhen (hd (mTimers s)) \<le> t1
      then Inr (c', add_all adds (s\<lparr>mTimers := filter (\<lambda>n. t2 < mWhen n) (mTimers s)\<rparr>))
      else Inr (c, s))"
proof (cases "mTimers s \<noteq> [] \<and> mWhen (hd (mTimers s)) \<le> t1")
  case True
  then obtain n ns where s: "mTimers s = n # ns" "mWhen n \<le> t1" by (cases "mTimers s") auto
  let ?P = "\<lambda>n. nid n \<notin> nid ` set (due t2 s)"
  have ids: "?P m" if "next_id s \<le> nid m" for m
    using that assms(1) by (fastforce simp: tq_ok_def due_def)
  have "filter ?P (mTimers s) = filter (\<lambda>n. t2 < mWhen n) (mTimers s)"
    using assms(1) by (intro filter_cong) (auto simp: due_def tq_ok_def distinct_map not_le inj_on_def)
  then have "fold erase (due t2 s) (add_all adds s) =
      add_all adds (s\<lparr>mTimers := filter (\<lambda>n. t2 < mWhen n) (mTimers s)\<rparr>)"
    using add_all_filter [OF assms(1), of ?P adds, OF ids] by (simp add: fold_erase)
  moreover have "msTillNextTimer t1 s = 0" using msTill_zero [OF s(1), of t1] s(2) by blast
  ultimately show ?thesis
    using True assms
    by (simp add: process_def Let_def before_upper_bound_due process_timers_eq)
next
  case False
  then have "mTimers s = [] \<or> msTillNextTimer t1 s \<noteq> 0"
    using msTill_zero [of s "hd (mTimers s)" "tl (mTimers s)" t1] by (cases "mTimers s") auto
  then show ?thesis using False by (auto simp: process_def)
qed

text \<open>
  The queue stays in order: \<open>add\<close> and \<open>process\<close> keep the entries sorted by their
  times, with whatever the client adds.
\<close>

theorem timers_stay_sorted:
  assumes "tq_ok s"
  shows "tq_ok (timer_add clk ev off s) \<and> (\<forall>c' s'. process cb t1 t2 c s = Inr (c', s') \<longrightarrow> tq_ok s')"
proof -
  have "tq_ok (snd cs')" if "process_timers cb is (c, s) = Inr cs'" "tq_ok s" for cb "is" and c :: 'c and s :: "'a timerq" and cs'
    using that by (induction cb "is" "(c, s)" arbitrary: c s rule: process_timers.induct)
      (auto simp: add_all_ok split: option.splits prod.splits)
  moreover have "tq_ok (fold erase is s)" if "tq_ok s" for "is" and s :: "'a timerq"
    using that by (auto simp: fold_erase tq_ok_def distinct_map intro: sorted_filter inj_on_subset)
  ultimately show ?thesis using assms
    by (auto simp: timer_add_ok process_def Let_def bindr_eq_Inr split: if_splits) fastforce
qed

text \<open>
  \<open>msTillNextTimer\<close> is the time to the earliest timer: it is zero exactly when that
  timer is due, at most \<open>INT_MAX\<close>, and otherwise after waiting for it the timer is due and
  the next call of \<open>process\<close> fires it.
\<close>

theorem msTillNextTimer_exact:
  assumes "tq_ok s" and "mTimers s = n # ns"
  shows "(\<forall>m \<in> set (mTimers s). mWhen n \<le> mWhen m) \<and>
    (msTillNextTimer now s = 0 \<longleftrightarrow> mWhen n \<le> now) \<and>
    unat (msTillNextTimer now s) \<le> 2147483647 \<and>
    (now \<le> mWhen n \<and> unat (mWhen n) - unat now \<le> 2147483647 \<longrightarrow>
      now + ucast (msTillNextTimer now s) = mWhen n \<and> n \<in> set (due (now + ucast (msTillNextTimer now s)) s))"
proof -
  have d: "unat (mWhen n - now) = unat (mWhen n) - unat now" if "now \<le> mWhen n"
    using that by (simp add: unat_sub)
  have narrow: "unat (ucast x :: uint32) = unat x" if "unat x \<le> 2147483647" for x :: uint64
    using that by (intro unat_narrow) simp
  have max: "x > INT_MAX \<longleftrightarrow> unat x > 2147483647" for x :: uint64
    by (simp add: INT_MAX_def word_less_nat_alt)
  have "unat (msTillNextTimer now s) \<le> 2147483647"
    using narrow [of INT_MAX] narrow [of "mWhen n - now"] max [of "mWhen n - now"]
    by (auto simp: msTillNextTimer_def assms(2) Let_def INT_MAX_def)
  moreover have "now + ucast (msTillNextTimer now s) = mWhen n"
    if *: "now \<le> mWhen n" "unat (mWhen n) - unat now \<le> 2147483647"
  proof -
    have m: "msTillNextTimer now s = ucast (mWhen n - now)"
      using * d max [of "mWhen n - now"] by (auto simp: msTillNextTimer_def assms(2) Let_def)
    have "unat (ucast (msTillNextTimer now s) :: uint64) = unat (mWhen n - now)"
      using narrow [of "mWhen n - now"] * d unat_widen [of "msTillNextTimer now s"] m by simp
    then have "(ucast (msTillNextTimer now s) :: uint64) = mWhen n - now" by (simp add: word_unat_eq_iff)
    then show ?thesis by simp
  qed
  moreover have "\<forall>m \<in> set (mTimers s). mWhen n \<le> mWhen m"
    using assms by (auto simp: tq_ok_def)
  ultimately show ?thesis using msTill_zero [OF assms(2), of now] assms(2) by (auto simp: due_def)
qed

section \<open>Witnesses\<close>

definition timers :: "nat timerq" where
  "timers = add_all [(50, 100, Some 2), (10, 100, Some 1), (90, 100, Some 3)] \<lparr>mTimers = [], next_id = 0\<rparr>"

text \<open>A client that notes the events and sets a new timer, due at once, for each.\<close>

definition noting :: "(nat, nat list) handler" where
  "noting e c = (c @ [e], [(0, 150, Some (e + 10))])"

lemma timers_ok: "tq_ok timers"
  unfolding timers_def by (rule add_all_ok) (simp add: tq_ok_def)

lemma timers_eq: "timers = \<lparr>mTimers = [\<lparr>nid = 1, mWhen = 110, mEvent = Some 1\<rparr>,
    \<lparr>nid = 0, mWhen = 150, mEvent = Some 2\<rparr>, \<lparr>nid = 2, mWhen = 190, mEvent = Some 3\<rparr>], next_id = 3\<rparr>"
  by (simp add: timers_def add_all_def timer_add_def TimerEntry_def entry_less_def)

theorem process_fires_due_witness:
  "\<exists>s'. process noting 150 150 [] timers = Inr ([1, 2], s') \<and> map mEvent (mTimers s') = [Some 11, Some 12, Some 3]"
proof -
  have "\<forall>n \<in> set (due 150 timers). mEvent n \<noteq> None" by (simp add: timers_eq due_def)
  from process_fires_due [OF timers_ok this, of noting "[]" "[1, 2]" "[(0, 150, Some 11), (0, 150, Some 12)]" 150]
  show ?thesis
    by (simp add: timers_eq due_def noting_def add_all_def timer_add_def TimerEntry_def entry_less_def)
qed

theorem timers_stay_sorted_witness: "tq_ok (timer_add 100 (Some 7) 20 timers)"
  by (rule timers_stay_sorted [OF timers_ok, THEN conjunct1])

theorem msTillNextTimer_exact_witness: "100 + ucast (msTillNextTimer 100 timers) = (110 :: uint64)"
proof -
  have "mTimers timers = \<lparr>nid = 1, mWhen = 110, mEvent = Some 1\<rparr> # tl (mTimers timers)" by (simp add: timers_eq)
  from msTillNextTimer_exact [OF timers_ok this, of 100] show ?thesis by simp
qed

end
