(* ===== verification/Pools.thy ===== *)
theory Pools
  imports Queues
begin

text \<open>
  The pool allocators of \<open>rutil/DinkyPool.hxx\<close> and \<open>rutil/StlPoolAllocator.hxx\<close>.
  \<open>size_t\<close> has 64 bits. A pointer is the start of a chunk of \<open>mBuf\<close> or a block of the
  system's heap, which does not overlap the pool; \<open>live\<close> are the heap blocks that were
  allocated and not yet deleted. \<open>S\<close> is the template parameter of the pool.
\<close>

section \<open>DinkyPool\<close>

datatype address = Chunk nat | HeapBlock nat

record pool =
  count :: uint64
  heapBytes :: uint64
  live :: "nat list"
  next_heap :: nat

definition DinkyPool :: pool where
  "DinkyPool = \<lparr>count = 0, heapBytes = 0, live = [], next_heap = 0\<rparr>"

definition operator_new :: "pool \<Rightarrow> address \<times> pool" where
  "operator_new s = (HeapBlock (next_heap s), s\<lparr>live := next_heap s # live s, next_heap := Suc (next_heap s)\<rparr>)"

definition operator_delete :: "address \<Rightarrow> pool \<Rightarrow> rutil_error + pool" where
  "operator_delete p s = (case p of
       HeapBlock i \<Rightarrow> if i \<in> set (live s) then Inr (s\<lparr>live := remove1 i (live s)\<rparr>) else Inl InvalidFree
     | Chunk i \<Rightarrow> Inl InvalidFree)"

definition pool_allocate :: "uint64 \<Rightarrow> uint64 \<Rightarrow> pool \<Rightarrow> address \<times> pool" where
  "pool_allocate S bytes s =
     (if 8 * count s + bytes \<le> S
      then (Chunk (unat (count s)), s\<lparr>count := count s + (bytes + 7) div 8\<rparr>)
      else operator_new (s\<lparr>heapBytes := heapBytes s + bytes\<rparr>))"

definition pool_deallocate :: "uint64 \<Rightarrow> address \<Rightarrow> pool \<Rightarrow> rutil_error + pool" where
  "pool_deallocate S p s =
     (if (case p of Chunk i \<Rightarrow> i < unat ((S + 7) div 8) | HeapBlock i \<Rightarrow> False) then Inr s
      else operator_delete p s)"

definition pool_max_size :: uint64 where
  "pool_max_size = - 1"

definition getHeapBytes :: "pool \<Rightarrow> uint64" where
  "getHeapBytes s = heapBytes s"

definition getPoolBytes :: "pool \<Rightarrow> uint64" where
  "getPoolBytes s = count s * 8"

definition getPoolSizeBytes :: "uint64 \<Rightarrow> uint64" where
  "getPoolSizeBytes S = (S + 7) div 8 * 8"

section \<open>StlPoolAllocator\<close>

text \<open>\<open>use_pool\<close> says whether \<open>mPool\<close> is set; \<open>tsize\<close> is \<open>sizeof(T)\<close>.\<close>

definition allocate_raw :: "bool \<Rightarrow> uint64 \<Rightarrow> uint64 \<Rightarrow> pool \<Rightarrow> address \<times> pool" where
  "allocate_raw use_pool S bytes s = (if use_pool then pool_allocate S bytes s else operator_new s)"

definition deallocate_raw :: "bool \<Rightarrow> uint64 \<Rightarrow> address \<Rightarrow> pool \<Rightarrow> rutil_error + pool" where
  "deallocate_raw use_pool S p s = (if use_pool then pool_deallocate S p s else operator_delete p s)"

definition stl_allocate :: "bool \<Rightarrow> uint64 \<Rightarrow> uint64 \<Rightarrow> uint64 \<Rightarrow> pool \<Rightarrow> address \<times> pool" where
  "stl_allocate use_pool S tsize n s = allocate_raw use_pool S (n * tsize) s"

definition stl_deallocate :: "bool \<Rightarrow> uint64 \<Rightarrow> address \<Rightarrow> uint64 \<Rightarrow> pool \<Rightarrow> rutil_error + pool" where
  "stl_deallocate use_pool S p n s = deallocate_raw use_pool S p s"

definition stl_max_size :: "bool \<Rightarrow> uint64 \<Rightarrow> uint64" where
  "stl_max_size use_pool tsize = (if use_pool then pool_max_size else (- 1) div tsize)"

section \<open>Allocations of a pool\<close>


text \<open>The bytes of the buffer that an allocation may use.\<close>

fun bytes_of :: "address \<times> uint64 \<Rightarrow> nat set" where
  "bytes_of (Chunk i, n) = {8 * i ..< 8 * i + unat n}"
| "bytes_of (HeapBlock i, n) = {}"

definition pool_inv :: "uint64 \<Rightarrow> pool \<Rightarrow> bool" where
  "pool_inv S s = (unat (count s) \<le> (unat S + 7) div 8 \<and> distinct (live s) \<and> (\<forall>i \<in> set (live s). i < next_heap s))"

text \<open>Below \<open>2^62\<close> bytes nothing wraps.\<close>

definition sane :: "uint64 \<Rightarrow> bool" where
  "sane n = (unat n < 2 ^ 62)"

lemma allocate_nat:
  assumes "sane S" and "sane n" and "pool_inv S s"
  shows "8 * count s + n \<le> S \<longleftrightarrow> 8 * unat (count s) + unat n \<le> unat S"
    and "unat (count s + (n + 7) div 8) = unat (count s) + (unat n + 7) div 8"
proof -
  have c: "unat (count s) \<le> (unat S + 7) div 8" using assms(3) by (simp add: pool_inv_def)
  then have "8 * unat (count s) \<le> unat S + 7" by linarith
  then have "unat (8 * count s + n) = 8 * unat (count s) + unat n"
    using assms(1,2) by (simp add: sane_def unat_word_ariths(1,2))
  then show "8 * count s + n \<le> S \<longleftrightarrow> 8 * unat (count s) + unat n \<le> unat S"
    by (simp add: word_le_nat_alt)
  have "unat (n + 7) = unat n + 7" using assms(2) by (simp add: sane_def unat_word_ariths(1))
  then show "unat (count s + (n + 7) div 8) = unat (count s) + (unat n + 7) div 8"
    using assms(1,2) c by (simp add: sane_def unat_word_ariths(1) unat_div_distrib)
qed

lemma pool_allocate_step:
  assumes "sane S" and "sane n" and "pool_inv S s" and "pool_allocate S n s = (p, s')"
  shows "pool_inv S s' \<and> unat (count s) \<le> unat (count s') \<and>
    bytes_of (p, n) \<subseteq> {8 * unat (count s) ..< 8 * unat (count s')} \<inter> {..< unat S} \<and>
    (p = Chunk (unat (count s)) \<and> 8 * unat (count s) + unat n \<le> unat S \<and> live s' = live s
     \<or> p = HeapBlock (next_heap s) \<and> live s' = next_heap s # live s \<and> next_heap s' = Suc (next_heap s))"
proof (cases "8 * count s + n \<le> S")
  case True
  then have s': "p = Chunk (unat (count s))" "s' = s\<lparr>count := count s + (n + 7) div 8\<rparr>"
    using assms(4) by (auto simp: pool_allocate_def)
  have le: "8 * unat (count s) + unat n \<le> unat S" using True allocate_nat(1) [OF assms(1-3)] by simp
  have "unat (count s') = unat (count s) + (unat n + 7) div 8"
    using allocate_nat(2) [OF assms(1-3)] s'(2) by simp
  then show ?thesis using le s' assms(3) by (auto simp: pool_inv_def)
next
  case False
  then show ?thesis using assms(3,4) by (auto simp: pool_allocate_def operator_new_def pool_inv_def less_Suc_eq)
qed



text \<open>
  Every block that \<open>allocate\<close> returns for at least one byte can be given back to
  \<open>deallocate\<close>: a block of the buffer stays as it is, a block of the heap is deleted. A block
  of no bytes cannot always: when the buffer is used up exactly, \<open>allocate(0)\<close> returns the
  end of the buffer, which \<open>deallocate\<close> takes for a pointer of the heap.
\<close>

theorem pool_deallocate_ok:
  assumes "sane S" and "sane n" and "pool_inv S s" and "pool_allocate S n s = (p, s')"
  shows "(0 < n \<longrightarrow> (\<exists>t. pool_deallocate S p s' = Inr t \<and> live t = live s)) \<and>
    (8 * count s = S \<and> n = 0 \<longrightarrow> pool_deallocate S p s' = Inl InvalidFree)"
proof -
  note step = pool_allocate_step [OF assms]
  have size: "unat ((S + 7) div 8) = (unat S + 7) div 8"
    using assms(1) by (simp add: sane_def unat_div_distrib unat_word_ariths(1))
  have fresh: "next_heap s \<notin> set (live s)" using assms(3) by (auto simp: pool_inv_def)
  have "\<exists>t. pool_deallocate S p s' = Inr t \<and> live t = live s" if "0 < n"
  proof -
    have "0 < unat n" using that by (simp add: word_less_nat_alt)
    then show ?thesis using step fresh
      by (auto simp: pool_deallocate_def size operator_delete_def)
  qed
  moreover have "pool_deallocate S p s' = Inl InvalidFree" if full: "8 * count s = S" "n = 0"
  proof -
    have p: "p = Chunk (unat (count s))" using assms(4) full by (auto simp: pool_allocate_def)
    have "8 * unat (count s) \<le> unat S" using step p by auto
    moreover have "unat (count s) \<le> (unat S + 7) div 8" using assms(3) by (simp add: pool_inv_def)
    then have "8 * unat (count s) < 2 ^ 64" using assms(1) by (simp add: sane_def)
    then have "unat (8 * count s) = 8 * unat (count s)" by (simp add: unat_word_ariths(2))
    then have "unat S = 8 * unat (count s)" using full(1) by simp
    then show ?thesis by (simp add: pool_deallocate_def p size operator_delete_def)
  qed
  ultimately show ?thesis by blast
qed

text \<open>
  \<open>StlPoolAllocator\<close> without a pool bounds its requests: the bytes of a request of at
  most \<open>max_size()\<close> elements do not wrap. With a pool \<open>max_size()\<close> is the number of bytes,
  not of elements, and a request within it can wrap: \<open>2^60\<close> elements of sixteen bytes are
  a request for no bytes, which the pool grants at its current chunk.
\<close>

theorem stl_max_size_bounds:
  "(0 < tsize \<and> n \<le> stl_max_size False tsize \<longrightarrow> unat (n * tsize) = unat n * unat tsize) \<and>
   2 ^ 60 \<le> stl_max_size True 16 \<and>
   (8 * count s \<le> S \<longrightarrow> stl_allocate True S 16 (2 ^ 60) s = (Chunk (unat (count s)), s))"
proof -
  have "unat (n * tsize) = unat n * unat tsize" if "0 < tsize" "n \<le> stl_max_size False tsize"
  proof -
    have "unat n \<le> (2 ^ 64 - 1) div unat tsize"
      using that(2) by (simp add: stl_max_size_def word_le_nat_alt unat_div_distrib unsigned_minus_1_eq_mask mask_eq_exp_minus_1)
    then have "unat n * unat tsize \<le> 2 ^ 64 - 1"
      using that(1) by (meson div_times_less_eq_dividend le_trans mult_le_mono1)
    then show ?thesis by (simp add: unat_word_ariths(2))
  qed
  moreover have "(2 :: uint64) ^ 64 = 0" by (simp only: exp_eq_zero_iff) simp
  then have "(2 :: uint64) ^ 60 * 16 = 0" by simp
  moreover have "2 ^ 60 \<le> stl_max_size True 16" by (simp add: stl_max_size_def pool_max_size_def)
  ultimately show ?thesis
    by (auto simp del: power_numeral simp: stl_allocate_def allocate_raw_def pool_allocate_def
)
qed

section \<open>Witnesses\<close>


theorem pool_deallocate_ok_witness:
  "pool_deallocate 8 (Chunk 1) (DinkyPool\<lparr>count := 1\<rparr>) = Inl InvalidFree"
  using pool_deallocate_ok [of 8 0 "DinkyPool\<lparr>count := 1\<rparr>" "Chunk 1" "DinkyPool\<lparr>count := 1\<rparr>"]
  by (simp add: sane_def pool_inv_def DinkyPool_def pool_allocate_def)

theorem stl_max_size_bounds_witness:
  "stl_allocate True 64 16 (2 ^ 60) DinkyPool = (Chunk 0, DinkyPool)"
  using stl_max_size_bounds [of 16 0 DinkyPool 64] by (simp add: DinkyPool_def)

end
