(* ===== verification/CancelableTimers.thy ===== *)
theory CancelableTimers
  imports Queues "HOL-Library.AList" "HOL-Library.Multiset"
begin

text \<open>
  The timer queue of \<open>resip/stack/CancelableTimerQueue.hxx\<close>, whose timers can be cancelled
  by the id that adding them returned. The \<open>std::multimap\<close> from expiry times to pairs of a
  message and an id is a list in the order of its keys, equal keys in the order of their
  insertion; the hash map from ids to expiry times is an association list. A
  \<open>resip_assert\<close> that does not hold is the failure \<open>AssertFailed\<close>. Every reading of
  the clock is an argument.

  The two containers describe the same timers: this is the invariant \<open>ctq_ok\<close>. Under it the
  queue is a \<open>guarded_machine\<close>, and it implements a plain list of timers.
\<close>

section \<open>CancelableTimerQueue\<close>

type_synonym 'm timer = "uint64 \<times> 'm \<times> int"

abbreviation expiry :: "'m timer \<Rightarrow> uint64" where
  "expiry \<equiv> fst"

abbreviation timer_msg :: "'m timer \<Rightarrow> 'm" where
  "timer_msg t \<equiv> fst (snd t)"

abbreviation timer_id :: "'m timer \<Rightarrow> int" where
  "timer_id t \<equiv> snd (snd t)"

record 'm ctq =
  mNextId :: int
  mIdToTimer :: "(int \<times> uint64) list"
  mTimerMap :: "'m timer list"

definition CancelableTimerQueue :: "'m ctq" where
  "CancelableTimerQueue = \<lparr>mNextId = 0, mIdToTimer = [], mTimerMap = []\<rparr>"

fun multimap_insert :: "'m timer \<Rightarrow> 'm timer list \<Rightarrow> 'm timer list" where
  "multimap_insert x [] = [x]"
| "multimap_insert x (y # ys) =
     (if expiry x < expiry y then x # y # ys else y # multimap_insert x ys)"

definition sizes_agree :: "'m ctq \<Rightarrow> bool" where
  "sizes_agree s = (length (mIdToTimer s) = length (mTimerMap s))"

definition getNextId :: "'m ctq \<Rightarrow> int \<times> 'm ctq" where
  "getNextId s =
     (let n = mNextId s + 1; n = (if n = 2147483647 then 1 else n) in (n, s\<lparr>mNextId := n\<rparr>))"

definition addTimer :: "'m \<Rightarrow> uint64 \<Rightarrow> 'm ctq \<Rightarrow> rutil_error + int \<times> 'm ctq" where
  "addTimer msg e s =
     (case getNextId s of (k, s) \<Rightarrow>
      let s = s\<lparr>mTimerMap := multimap_insert (e, msg, k) (mTimerMap s)\<rparr>;
          s = s\<lparr>mIdToTimer := AList.update k e (mIdToTimer s)\<rparr>
      in if sizes_agree s then Inr (k, s) else Inl AssertFailed)"

definition addRelative :: "uint64 \<Rightarrow> 'm \<Rightarrow> uint32 \<Rightarrow> 'm ctq \<Rightarrow> rutil_error + int \<times> 'm ctq" where
  "addRelative now msg offset s = addTimer msg (now + ucast offset) s"

text \<open>
  The loop of \<open>cancel\<close> from \<open>lower_bound(e)\<close> to \<open>upper_bound(e)\<close>: the map without
  the first timer of this range that has the id, or nothing when there is none.
\<close>

fun erase_in_range :: "uint64 \<Rightarrow> int \<Rightarrow> 'm timer list \<Rightarrow> 'm timer list option" where
  "erase_in_range e k [] = None"
| "erase_in_range e k (t # ts) =
     (if expiry t < e then map_option (Cons t) (erase_in_range e k ts)
      else if e < expiry t then None
      else if timer_id t = k then Some ts
      else map_option (Cons t) (erase_in_range e k ts))"

definition cancel :: "int \<Rightarrow> 'm ctq \<Rightarrow> rutil_error + bool \<times> 'm ctq" where
  "cancel k s = (case map_of (mIdToTimer s) k of
       None \<Rightarrow> Inr (False, s)
     | Some e \<Rightarrow> (case erase_in_range e k (mTimerMap s) of
           Some ts \<Rightarrow> Inr (True, s\<lparr>mTimerMap := ts, mIdToTimer := AList.delete k (mIdToTimer s)\<rparr>)
         | None \<Rightarrow> Inl AssertFailed))"

text \<open>The 64-bit difference converted to a signed integer of 32 bits.\<close>

definition getTimeout :: "uint64 \<Rightarrow> 'm ctq \<Rightarrow> int" where
  "getTimeout now s = (case mTimerMap s of
       [] \<Rightarrow> - 1
     | t # ts \<Rightarrow>
         (let timeout = sint (ucast (expiry t - now) :: uint32) in
          if timeout < 0 then 0 else timeout))"

definition available :: "uint64 \<Rightarrow> 'm ctq \<Rightarrow> bool" where
  "available now s = (case mTimerMap s of [] \<Rightarrow> False | t # ts \<Rightarrow> expiry t \<le> now)"

definition ctq_getNext :: "uint64 \<Rightarrow> 'm ctq \<Rightarrow> rutil_error + 'm \<times> 'm ctq" where
  "ctq_getNext now s =
     (if \<not> sizes_agree s then Inl AssertFailed
      else if \<not> available now s then Inl AssertFailed
      else case mTimerMap s of
          [] \<Rightarrow> Inl EmptyDeque
        | it # ts \<Rightarrow>
            (let s = s\<lparr>mIdToTimer := AList.delete (timer_id it) (mIdToTimer s)\<rparr>;
                 s = s\<lparr>mTimerMap := ts\<rparr>
             in if sizes_agree s then Inr (timer_msg it, s) else Inl AssertFailed))"

definition ctq_clear :: "'m ctq \<Rightarrow> 'm ctq" where
  "ctq_clear s = s\<lparr>mTimerMap := [], mIdToTimer := []\<rparr>"

definition ctq_empty :: "'m ctq \<Rightarrow> bool" where
  "ctq_empty s = (mTimerMap s = [])"

definition ctq_size :: "'m ctq \<Rightarrow> nat" where
  "ctq_size s = length (mTimerMap s)"

section \<open>The invariant\<close>

text \<open>
  The multimap is in order, no two timers have the same id, and the id map holds exactly the
  ids of the timers with their times.
\<close>

definition ids :: "'m ctq \<Rightarrow> int list" where
  "ids s = map timer_id (mTimerMap s)"

definition ctq_ok :: "'m ctq \<Rightarrow> bool" where
  "ctq_ok s = (sorted (map expiry (mTimerMap s)) \<and> distinct (ids s) \<and>
     distinct (map fst (mIdToTimer s)) \<and>
     set (mIdToTimer s) = (\<lambda>t. (timer_id t, expiry t)) ` set (mTimerMap s) \<and>
     0 \<le> mNextId s \<and> mNextId s < 2147483647)"

lemma set_multimap_insert [simp]: "set (multimap_insert x ts) = insert x (set ts)"
  by (induction x ts rule: multimap_insert.induct) auto

lemma length_multimap_insert [simp]: "length (multimap_insert x ts) = Suc (length ts)"
  by (induction x ts rule: multimap_insert.induct) auto

lemma mset_multimap_insert [simp]: "mset (multimap_insert x ts) = add_mset x (mset ts)"
  by (induction x ts rule: multimap_insert.induct) auto

lemma sorted_multimap_insert:
  "sorted (map expiry ts) \<Longrightarrow> sorted (map expiry (multimap_insert x ts))"
  by (induction x ts rule: multimap_insert.induct) (auto simp: not_less)

lemma distinct_multimap_insert:
  "distinct (map timer_id ts) \<Longrightarrow> timer_id x \<notin> timer_id ` set ts \<Longrightarrow>
   distinct (map timer_id (multimap_insert x ts))"
  by (induction x ts rule: multimap_insert.induct) auto

lemma length_update: "length (AList.update k v al) = (if k \<in> fst ` set al then length al else Suc (length al))"
  by (induction al) auto

lemma length_delete:
  "distinct (map fst al) \<Longrightarrow> k \<in> fst ` set al \<Longrightarrow> Suc (length (AList.delete k al)) = length al"
  by (induction al) (auto simp: delete_id)

lemma set_update_fresh:
  "k \<notin> fst ` set al \<Longrightarrow> set (AList.update k v al) = insert (k, v) (set al)"
  by (induction al) auto

lemma set_delete: "set (AList.delete k al) = {x \<in> set al. fst x \<noteq> k}"
  by (auto simp: AList.delete_eq)

lemma ctq_keys: "ctq_ok s \<Longrightarrow> fst ` set (mIdToTimer s) = set (ids s)"
  by (auto simp: ctq_ok_def ids_def image_image)

lemma ctq_sizes: "ctq_ok s \<Longrightarrow> sizes_agree s"
  using ctq_keys [of s]
  by (metis ctq_ok_def distinct_card ids_def length_map list.set_map sizes_agree_def)

lemma ctq_lookup:
  assumes "ctq_ok s"
  shows "map_of (mIdToTimer s) k = Some e \<longleftrightarrow> (\<exists>t \<in> set (mTimerMap s). timer_id t = k \<and> expiry t = e)"
  using assms by (auto simp: ctq_ok_def)

lemma ctq_lookup_None: "ctq_ok s \<Longrightarrow> map_of (mIdToTimer s) k = None \<longleftrightarrow> k \<notin> set (ids s)"
  by (simp add: map_of_eq_None_iff ctq_keys)

text \<open>In an ordered map the range of a time holds every timer with that time.\<close>

lemma erase_in_range_eq:
  assumes "sorted (map expiry ts)" and "distinct (map timer_id ts)"
    and "t \<in> set ts" and "timer_id t = k" and "expiry t = e"
  shows "erase_in_range e k ts = Some (filter (\<lambda>t. timer_id t \<noteq> k) ts)"
  using assms
proof (induction e k ts rule: erase_in_range.induct)
  case (2 e k u ts)
  show ?case
  proof (cases "timer_id u = k")
    case True
    then have "u = t" using 2 by (auto simp: image_iff)
    moreover have "filter (\<lambda>t. timer_id t \<noteq> k) ts = ts"
      using 2 True by (auto simp: filter_id_conv image_iff)
    ultimately show ?thesis using 2 True by simp
  next
    case False
    then have t: "t \<in> set ts" using 2 by auto
    then have "expiry u \<le> e" using 2 by auto
    then show ?thesis using 2 False t by (cases "expiry u < e") auto
  qed
qed simp

section \<open>Refinement of a list of timers\<close>

text \<open>
  The specification: a list of timers in the order in which they will fire. \<open>fresh\<close> is
  the id that the next timer gets.
\<close>

definition fresh :: "'m ctq \<Rightarrow> int" where
  "fresh s = (if mNextId s = 2147483646 then 1 else mNextId s + 1)"

lemma getNextId_eq: "ctq_ok s \<Longrightarrow> getNextId s = (fresh s, s\<lparr>mNextId := fresh s\<rparr>)"
  by (simp add: getNextId_def fresh_def Let_def)

lemma addTimer_eq:
  assumes "ctq_ok s"
  shows "addTimer m e s =
    (if fresh s \<in> set (ids s) then Inl AssertFailed
     else Inr (fresh s, \<lparr>mNextId = fresh s, mIdToTimer = AList.update (fresh s) e (mIdToTimer s),
       mTimerMap = multimap_insert (e, m, fresh s) (mTimerMap s)\<rparr>))"
  using assms ctq_sizes [OF assms] ctq_keys [OF assms]
  by (simp add: addTimer_def getNextId_eq sizes_agree_def length_update)

lemma addTimer_ok:
  assumes "ctq_ok s" and "addTimer m e s = Inr (k, s')"
  shows "ctq_ok s'"
proof -
  from assms have f: "fresh s \<notin> set (ids s)"
    and s': "s' = \<lparr>mNextId = fresh s, mIdToTimer = AList.update (fresh s) e (mIdToTimer s),
       mTimerMap = multimap_insert (e, m, fresh s) (mTimerMap s)\<rparr>"
    by (auto simp: addTimer_eq split: if_splits)
  have "fresh s \<notin> fst ` set (mIdToTimer s)" using f ctq_keys [OF assms(1)] by simp
  moreover have "0 \<le> fresh s \<and> fresh s < 2147483647" using assms(1) by (auto simp: ctq_ok_def fresh_def)
  moreover have "fresh s \<notin> timer_id ` set (mTimerMap s)" using f by (simp add: ids_def)
  ultimately show ?thesis using assms(1)
    by (simp add: ctq_ok_def s' ids_def sorted_multimap_insert distinct_multimap_insert set_update_fresh
        distinct_update)
qed

lemma filter_other_ids: "k \<notin> timer_id ` set ts \<Longrightarrow> filter (\<lambda>t. timer_id t \<noteq> k) ts = ts"
  by (induction ts) auto

lemma ctq_ok_remove:
  assumes "ctq_ok s"
  shows "ctq_ok (s\<lparr>mTimerMap := filter (\<lambda>t. timer_id t \<noteq> k) (mTimerMap s),
    mIdToTimer := AList.delete k (mIdToTimer s)\<rparr>)"
proof -
  let ?ts = "filter (\<lambda>t. timer_id t \<noteq> k) (mTimerMap s)"
  have "sorted (map expiry ?ts)" using assms by (simp add: ctq_ok_def sorted_filter)
  moreover have "distinct (map timer_id ?ts)"
    using assms by (simp add: ctq_ok_def ids_def distinct_map_filter)
  moreover have "distinct (map fst (AList.delete k (mIdToTimer s)))"
    using assms by (simp add: ctq_ok_def distinct_delete)
  moreover have "set (AList.delete k (mIdToTimer s)) = (\<lambda>t. (timer_id t, expiry t)) ` set ?ts"
    using assms by (auto simp: ctq_ok_def set_delete)
  ultimately show ?thesis using assms by (simp add: ctq_ok_def ids_def)
qed

lemma cancel_eq:
  assumes "ctq_ok s"
  shows "cancel k s = Inr (k \<in> set (ids s),
    s\<lparr>mTimerMap := filter (\<lambda>t. timer_id t \<noteq> k) (mTimerMap s),
      mIdToTimer := AList.delete k (mIdToTimer s)\<rparr>)"
proof (cases "k \<in> set (ids s)")
  case True
  then obtain t where t: "t \<in> set (mTimerMap s)" "timer_id t = k" by (auto simp: ids_def)
  then have "map_of (mIdToTimer s) k = Some (expiry t)" using ctq_lookup [OF assms] by blast
  moreover have "erase_in_range (expiry t) k (mTimerMap s) = Some (filter (\<lambda>t. timer_id t \<noteq> k) (mTimerMap s))"
    using assms t by (intro erase_in_range_eq) (auto simp: ctq_ok_def ids_def)
  ultimately show ?thesis using True by (simp add: cancel_def)
next
  case False
  then have "map_of (mIdToTimer s) k = None" using ctq_lookup_None [OF assms] by blast
  moreover have "k \<notin> fst ` set (mIdToTimer s)" using False ctq_keys [OF assms] by simp
  moreover have "filter (\<lambda>t. timer_id t \<noteq> k) (mTimerMap s) = mTimerMap s"
    using False by (auto simp: filter_id_conv ids_def)
  ultimately show ?thesis using False by (simp add: cancel_def)
qed

lemma getNext_eq:
  assumes "ctq_ok s"
  shows "ctq_getNext now s = (case mTimerMap s of
      [] \<Rightarrow> Inl AssertFailed
    | t # ts \<Rightarrow> if expiry t \<le> now
        then Inr (timer_msg t, s\<lparr>mTimerMap := ts, mIdToTimer := AList.delete (timer_id t) (mIdToTimer s)\<rparr>)
        else Inl AssertFailed)"
proof (cases "mTimerMap s")
  case (Cons t ts)
  have "timer_id t \<in> fst ` set (mIdToTimer s)" using ctq_keys [OF assms] Cons by (simp add: ids_def)
  then have "Suc (length (AList.delete (timer_id t) (mIdToTimer s))) = length (mIdToTimer s)"
    using assms by (intro length_delete) (auto simp: ctq_ok_def)
  then show ?thesis using Cons ctq_sizes [OF assms]
    by (simp add: ctq_getNext_def available_def sizes_agree_def Let_def)
qed (simp add: ctq_getNext_def available_def ctq_sizes [OF assms])

lemma getNext_ok:
  assumes "ctq_ok s" and "mTimerMap s = t # ts"
  shows "ctq_ok (s\<lparr>mTimerMap := ts, mIdToTimer := AList.delete (timer_id t) (mIdToTimer s)\<rparr>)"
proof -
  have "filter (\<lambda>u. timer_id u \<noteq> timer_id t) (mTimerMap s) = ts"
    using assms by (simp add: ctq_ok_def ids_def filter_other_ids)
  then show ?thesis using ctq_ok_remove [OF assms(1), of "timer_id t"] by simp
qed

section \<open>The queue as a machine\<close>

text \<open>
  A client's calls, each with the reading of the clock. A state with a ledger notes the ids
  that \<open>addRelative\<close> returned, and those of the timers that fired, were cancelled and were
  dropped by \<open>clear\<close>.
\<close>

datatype 'm ctq_op = AddRelative uint64 'm uint32 | Cancel int | GetNext uint64 | Clear

record 'm ledger =
  queue :: "'m ctq"
  issued :: "int list"
  fired :: "int list"
  cancelled :: "int list"
  dropped :: "int list"

definition opened :: "'m ledger" where
  "opened = \<lparr>queue = CancelableTimerQueue, issued = [], fired = [], cancelled = [], dropped = []\<rparr>"

fun ctq_step :: "'m ledger \<Rightarrow> 'm ctq_op \<Rightarrow> rutil_error + 'm ledger" where
  "ctq_step l (AddRelative now msg offset) =
     bindr (addRelative now msg offset (queue l)) (\<lambda>(k, s). Inr (l\<lparr>queue := s, issued := k # issued l\<rparr>))"
| "ctq_step l (Cancel k) =
     bindr (cancel k (queue l)) (\<lambda>(b, s). Inr (l\<lparr>queue := s, cancelled := (if b then k # cancelled l else cancelled l)\<rparr>))"
| "ctq_step l (GetNext now) =
     bindr (ctq_getNext now (queue l))
       (\<lambda>(m, s). Inr (l\<lparr>queue := s, fired := timer_id (hd (mTimerMap (queue l))) # fired l\<rparr>))"
| "ctq_step l Clear = Inr (l\<lparr>queue := ctq_clear (queue l), dropped := ids (queue l) @ dropped l\<rparr>)"

fun ctq_guard :: "'m ledger \<Rightarrow> 'm ctq_op \<Rightarrow> bool" where
  "ctq_guard l (AddRelative now msg offset) = (fresh (queue l) \<notin> set (ids (queue l)))"
| "ctq_guard l (GetNext now) = available now (queue l)"
| "ctq_guard l _ = True"

definition balanced :: "'m ledger \<Rightarrow> bool" where
  "balanced l = (ctq_ok (queue l) \<and>
     mset (issued l) = mset (fired l) + mset (cancelled l) + mset (dropped l) + mset (ids (queue l)))"

lemma mset_ids_remove:
  assumes "ctq_ok s" and "k \<in> set (ids s)"
  shows "mset (ids s) = add_mset k (mset (map timer_id (filter (\<lambda>t. timer_id t \<noteq> k) (mTimerMap s))))"
proof -
  have "map timer_id (filter (\<lambda>t. timer_id t \<noteq> k) (mTimerMap s)) = removeAll k (ids s)"
    by (auto simp: ids_def removeAll_filter_not_eq filter_map comp_def intro!: arg_cong2 [where f = map] filter_cong)
  also have "\<dots> = remove1 k (ids s)" using assms(1) by (simp add: ctq_ok_def distinct_remove1_removeAll)
  finally show ?thesis using assms(2) by simp
qed

lemma ctq_step_exact:
  assumes "balanced l"
  shows "if ctq_guard l p then \<exists>l'. ctq_step l p = Inr l' \<and> balanced l' else ctq_step l p = Inl AssertFailed"
proof -
  have ok: "ctq_ok (queue l)" using assms by (simp add: balanced_def)
  show ?thesis
  proof (cases p)
    case (AddRelative now m off)
    show ?thesis
    proof (cases "fresh (queue l) \<in> set (ids (queue l))")
      case False
      let ?e = "now + ucast off"
      obtain s' where s': "addTimer m ?e (queue l) = Inr (fresh (queue l), s')"
        and ts: "mTimerMap s' = multimap_insert (?e, m, fresh (queue l)) (mTimerMap (queue l))"
        using addTimer_eq [OF ok, of m ?e] False by auto
      have "mset (ids s') = add_mset (fresh (queue l)) (mset (ids (queue l)))"
        by (simp add: ids_def ts)
      then show ?thesis using False AddRelative s' assms addTimer_ok [OF ok s']
        by (auto simp: addRelative_def balanced_def)
    qed (use AddRelative addTimer_eq [OF ok] in \<open>auto simp: addRelative_def\<close>)
  next
    case (Cancel k)
    show ?thesis
    proof (cases "k \<in> set (ids (queue l))")
      case True
      then show ?thesis using Cancel assms mset_ids_remove [OF ok True] ctq_ok_remove [OF ok, of k]
        by (simp add: cancel_eq [OF ok] balanced_def) (simp add: ids_def)
    next
      case False
      then have "filter (\<lambda>t. timer_id t \<noteq> k) (mTimerMap (queue l)) = mTimerMap (queue l)"
        by (auto simp: filter_id_conv ids_def)
      then show ?thesis using False Cancel assms ctq_ok_remove [OF ok, of k]
        by (simp add: cancel_eq [OF ok] balanced_def) (simp add: ids_def)
    qed
  next
    case (GetNext now)
    show ?thesis
    proof (cases "mTimerMap (queue l)")
      case (Cons t ts)
      then show ?thesis using GetNext assms getNext_ok [OF ok Cons]
        by (auto simp: getNext_eq [OF ok] balanced_def available_def ids_def)
    qed (use GetNext in \<open>simp add: getNext_eq [OF ok] available_def\<close>)
  next
    case Clear
    then show ?thesis using assms
      by (auto simp: balanced_def ctq_ok_def ctq_clear_def ids_def)
  qed
qed

interpretation ct: guarded_machine ctq_step balanced ctq_guard
  by unfold_locales (use ctq_step_exact in \<open>fastforce\<close>)

lemma balanced_opened: "balanced opened"
  by (simp add: balanced_def opened_def CancelableTimerQueue_def ctq_ok_def ids_def)

section \<open>Runs\<close>

text \<open>
  While fewer than \<open>INT_MAX - 1\<close> ids were issued, the ids are the numbers from one on, and
  none is used twice.
\<close>

definition counting :: "'m ledger \<Rightarrow> bool" where
  "counting l = (balanced l \<and> issued l = rev [1..int (length (issued l))] \<and>
     mNextId (queue l) = int (length (issued l)))"

fun few_guard :: "'m ledger \<Rightarrow> 'm ctq_op \<Rightarrow> bool" where
  "few_guard l (AddRelative now msg offset) = (length (issued l) < 2147483646)"
| "few_guard l (GetNext now) = available now (queue l)"
| "few_guard l _ = True"

lemma counting_guard:
  assumes "counting l" and "few_guard l p"
  shows "ctq_guard l p"
proof (cases p)
  case (AddRelative now m off)
  have "set (ids (queue l)) \<subseteq> set (issued l)"
    using assms(1) unfolding counting_def balanced_def by (metis mset_subset_eq_add_right set_mset_mono set_mset_mset)
  moreover have "set (issued l) = {1..int (length (issued l))}" using assms(1) by (metis counting_def set_rev set_upto)
  moreover have "fresh (queue l) = int (length (issued l)) + 1"
    using assms AddRelative by (simp add: fresh_def counting_def)
  ultimately show ?thesis using AddRelative by auto
qed (use assms in auto)

lemma counting_step:
  assumes "counting l" and "few_guard l p"
  shows "\<exists>l'. ctq_step l p = Inr l' \<and> counting l'"
proof -
  have b: "balanced l" and ok: "ctq_ok (queue l)" using assms(1) by (auto simp: counting_def balanced_def)
  from ctq_step_exact [OF b, of p] counting_guard [OF assms]
  obtain l' where l': "ctq_step l p = Inr l'" "balanced l'" by auto
  have "counting l'"
  proof (cases p)
    case (AddRelative now m off)
    have f: "fresh (queue l) = int (length (issued l)) + 1"
      using assms AddRelative by (simp add: fresh_def counting_def)
    have up: "[1..int n + 1] = [1..int n] @ [int n + 1]" for n by (simp add: upto_rec2)
    have "issued l' = fresh (queue l) # issued l \<and> mNextId (queue l') = fresh (queue l)"
      using l'(1) AddRelative
      by (auto simp: addRelative_def addTimer_eq [OF ok] split: if_splits)
    then show ?thesis using l'(2) assms(1) f up [of "length (issued l)"]
      by (simp add: counting_def add.commute [of 1])
  qed (use l' assms(1) in \<open>auto simp: counting_def cancel_eq [OF ok] getNext_eq [OF ok] ctq_clear_def
      split: list.splits if_splits\<close>)
  then show ?thesis using l'(1) by blast
qed

interpretation few: guarded_machine ctq_step counting few_guard
  by unfold_locales (rule counting_step)

lemma counting_opened: "counting opened"
  using balanced_opened by (simp add: counting_def opened_def CancelableTimerQueue_def)

text \<open>
  (C18) A client that asks for the next timer only when one is available never runs into an
  assertion while it has issued fewer than \<open>INT_MAX - 1\<close> timers: every call succeeds, every
  timer has an id of its own and is at the end in exactly one place, that is, it fired, was
  cancelled, was dropped by \<open>clear\<close>, or is still pending; and the pending ones are in the
  order of their times.
\<close>

theorem cancelable_timers_accounted:
  assumes "guarded_run ctq_step few_guard opened ops"
  shows "\<exists>l. run_events ctq_step opened ops = Inr l \<and>
    issued l = rev [1..int (length (issued l))] \<and>
    mset (issued l) = mset (fired l) + mset (cancelled l) + mset (dropped l) + mset (ids (queue l)) \<and>
    sorted (map expiry (mTimerMap (queue l)))"
proof -
  from few.run_ok [OF counting_opened assms]
  obtain l where l: "run_events ctq_step opened ops = Inr l" "counting l" by blast
  then show ?thesis unfolding counting_def balanced_def ctq_ok_def by blast
qed

lemma cancel_undoes_add_step:
  assumes "ctq_ok s" and "addRelative now m off s = Inr (k, s1)"
  shows "\<exists>s2. cancel k s1 = Inr (True, s2) \<and> mTimerMap s2 = mTimerMap s \<and> cancel k s2 = Inr (False, s2)"
proof -
  let ?t = "(now + ucast off, m, k)"
  have k: "k \<notin> timer_id ` set (mTimerMap s)" and ts: "mTimerMap s1 = multimap_insert ?t (mTimerMap s)"
    using assms by (auto simp: addRelative_def addTimer_eq ids_def split: if_splits)
  have "filter (\<lambda>t. timer_id t \<noteq> k) (multimap_insert ?t us) = us" if "k \<notin> timer_id ` set us" for us
    using that by (induction ?t us rule: multimap_insert.induct) (auto simp: filter_other_ids)
  then have rest: "filter (\<lambda>t. timer_id t \<noteq> k) (mTimerMap s1) = mTimerMap s" using k ts by simp
  have ok: "ctq_ok s1" using addTimer_ok [OF assms(1)] assms(2) by (simp add: addRelative_def)
  let ?s2 = "s1\<lparr>mTimerMap := mTimerMap s, mIdToTimer := AList.delete k (mIdToTimer s1)\<rparr>"
  have "cancel k s1 = Inr (True, ?s2)" using cancel_eq [OF ok, of k] rest ts by (simp add: ids_def)
  moreover have "ctq_ok ?s2" using ctq_ok_remove [OF ok, of k] rest by simp
  then have "cancel k ?s2 = Inr (False, ?s2)"
    using cancel_eq [of ?s2 k] k by (simp add: ids_def filter_other_ids delete_idem)
  ultimately show ?thesis by auto
qed

text \<open>
  Cancelling undoes adding: the id that \<open>addRelative\<close> returns cancels this timer and no
  other, and a second attempt finds nothing and says so.
\<close>

theorem cancel_undoes_add:
  assumes "ctq_ok s" and "addRelative now m off s = Inr (k, s1)"
  shows "\<exists>s2. cancel k s1 = Inr (True, s2) \<and> mTimerMap s2 = mTimerMap s \<and> cancel k s2 = Inr (False, s2)"
  using cancel_undoes_add_step [OF assms] .

text \<open>
  One timer that stays for the whole turn of the ids: it keeps the id 1 while others are added
  and cancelled at once.
\<close>

definition turn :: "'m \<Rightarrow> nat \<Rightarrow> 'm ctq_op list" where
  "turn m n = AddRelative 0 m 1000 # concat (map (\<lambda>k. [AddRelative 0 m 0, Cancel k]) [2..int n])"

lemma turn_run:
  "1 \<le> n \<Longrightarrow> n \<le> 2147483646 \<Longrightarrow> \<exists>l. run_events ctq_step opened (turn m n) = Inr l \<and> balanced l \<and>
     mNextId (queue l) = int n \<and> mTimerMap (queue l) = [(1000, m, 1)]"
proof (induction n rule: nat_induct_at_least)
  case base
  have "ctq_step opened (AddRelative 0 m 1000) = Inr (opened\<lparr>queue := \<lparr>mNextId = 1, mIdToTimer = [(1, 1000)],
      mTimerMap = [(1000, m, 1)]\<rparr>, issued := [1]\<rparr>)" (is "_ = Inr ?l")
    by (simp add: addRelative_def addTimer_def getNextId_def opened_def CancelableTimerQueue_def sizes_agree_def)
  moreover have "balanced ?l" by (simp add: balanced_def ctq_ok_def ids_def opened_def)
  ultimately show ?case by (auto simp: turn_def)
next
  case (Suc n)
  then obtain l where l: "run_events ctq_step opened (turn m n) = Inr l" "balanced l"
    "mNextId (queue l) = int n" "mTimerMap (queue l) = [(1000, m, 1)]" by auto
  have ok: "ctq_ok (queue l)" using l(2) by (simp add: balanced_def)
  have f: "fresh (queue l) = int (Suc n)" using Suc.prems l(3) by (simp add: fresh_def)
  have "turn m (Suc n) = turn m n @ [AddRelative 0 m 0, Cancel (int (Suc n))]"
    using Suc.hyps upto_rec2 [of 2 "int (Suc n)"] by (simp add: turn_def)
  moreover obtain s1 where s1: "addRelative 0 m 0 (queue l) = Inr (int (Suc n), s1)" "mNextId s1 = int (Suc n)"
    using addTimer_eq [OF ok, of m 0] f Suc.hyps l(4) by (auto simp: addRelative_def ids_def)
  then obtain l1 where l1: "ctq_step l (AddRelative 0 m 0) = Inr l1" "queue l1 = s1" by auto
  moreover have "balanced l1" using ctq_step_exact [OF l(2), of "AddRelative 0 m 0"] l1(1)
    by (auto split: if_splits)
  moreover obtain s2 where s2: "cancel (int (Suc n)) s1 = Inr (True, s2)" "mTimerMap s2 = [(1000, m, 1)]"
    using cancel_undoes_add_step [OF ok s1(1)] l(4) by auto
  moreover have "mNextId s2 = int (Suc n)"
    using s2(1) s1(2) by (auto simp: cancel_def split: option.splits)
  moreover obtain l2 where l2: "ctq_step l1 (Cancel (int (Suc n))) = Inr l2" "queue l2 = s2" using s2(1) l1(2) by auto
  moreover have "balanced l2" using ctq_step_exact [of l1 "Cancel (int (Suc n))"] l2(1) \<open>balanced l1\<close> by auto
  ultimately show ?case using l(1) by (simp add: run_events_append)
qed

text \<open>
  The ids are used again after \<open>INT_MAX - 1\<close> additions, whether or not the timer that
  has the id is still there: a client that keeps one timer and adds and cancels others breaks
  the queue's assertion with its next timer after the turn.
\<close>

theorem reused_id_breaks_queue:
  "run_events ctq_step opened (turn m 2147483646 @ [AddRelative now m' off]) = Inl AssertFailed"
proof -
  obtain l where l: "run_events ctq_step opened (turn m 2147483646) = Inr l" "balanced l"
    "mNextId (queue l) = 2147483646" "mTimerMap (queue l) = [(1000, m, 1)]"
    using turn_run [of 2147483646 m] by auto
  then have "\<not> ctq_guard l (AddRelative now m' off)" by (simp add: fresh_def ids_def)
  then show ?thesis using l(1) ctq_step_exact [OF l(2), of "AddRelative now m' off"]
    by (simp add: run_events_append)
qed

section \<open>Timeouts\<close>

lemma getTimeout_cases:
  assumes "mTimerMap s = t # ts"
  shows "(\<bar>uint (expiry t) - uint now\<bar> < 2147483648 \<longrightarrow>
      getTimeout now s = max 0 (uint (expiry t) - uint now) \<and> (getTimeout now s = 0 \<longleftrightarrow> available now s)) \<and>
    (uint (expiry t) - uint now = 2147483648 \<longrightarrow> getTimeout now s = 0 \<and> \<not> available now s)"
proof -
  let ?d = "uint (expiry t) - uint now"
  have s: "sint (ucast (expiry t - now) :: uint32) = signed_take_bit 31 ?d"
  proof -
    have "uint (expiry t - now) = take_bit 64 ?d" by (simp add: uint_word_ariths take_bit_eq_mod)
    then show ?thesis by (simp add: sint_uint unsigned_ucast_eq signed_take_bit_eq_iff_take_bit_eq)
  qed
  have av: "available now s \<longleftrightarrow> ?d \<le> 0" using assms by (simp add: available_def word_le_def)
  have "signed_take_bit 31 ?d = ?d" if "\<bar>?d\<bar> < 2147483648"
    using that by (intro signed_take_bit_int_eq_self) auto
  moreover have "signed_take_bit 31 (2147483648 :: int) = - 2147483648" by simp
  ultimately show ?thesis using assms s av by (auto simp: getTimeout_def Let_def)
qed

lemma getTimeout_near:
  "mTimerMap s = t # ts \<Longrightarrow> \<bar>uint (expiry t) - uint now\<bar> < 2147483648 \<Longrightarrow>
     getTimeout now s = max 0 (uint (expiry t) - uint now)"
  using getTimeout_cases by blast

text \<open>
  \<open>getTimeout\<close> is the time to the first timer, and zero exactly when a timer is
  available, as long as that timer is less than \<open>2^31\<close> milliseconds away, before or after the
  present. For a timer \<open>2^31\<close> milliseconds ahead, which the offsets of \<open>addRelative\<close> allow,
  it is zero although \<open>available\<close> is false, so that a client waits in a busy loop.
\<close>

theorem getTimeout_exact:
  assumes "mTimerMap s = t # ts"
  shows "(\<bar>uint (expiry t) - uint now\<bar> < 2147483648 \<longrightarrow>
      getTimeout now s = max 0 (uint (expiry t) - uint now) \<and> (getTimeout now s = 0 \<longleftrightarrow> available now s)) \<and>
    (uint (expiry t) - uint now = 2147483648 \<longrightarrow> getTimeout now s = 0 \<and> \<not> available now s)"
  using getTimeout_cases [OF assms] .

section \<open>Order of firing\<close>

text \<open>Taking \<open>n\<close> timers at one time.\<close>

fun drain :: "uint64 \<Rightarrow> nat \<Rightarrow> 'm ctq \<Rightarrow> rutil_error + 'm list \<times> 'm ctq" where
  "drain now 0 s = Inr ([], s)"
| "drain now (Suc n) s =
     bindr (ctq_getNext now s) (\<lambda>(m, s1). bindr (drain now n s1) (\<lambda>(ms, s2). Inr (m # ms, s2)))"

lemma drain_all:
  "ctq_ok s \<Longrightarrow> \<forall>t \<in> set (mTimerMap s). expiry t \<le> now \<Longrightarrow>
   \<exists>s'. drain now (length (mTimerMap s)) s = Inr (map timer_msg (mTimerMap s), s') \<and> ctq_empty s'"
proof (induction "mTimerMap s" arbitrary: s)
  case (Cons t ts)
  have ts: "mTimerMap s = t # ts" using Cons.hyps(2) by simp
  let ?s = "s\<lparr>mTimerMap := ts, mIdToTimer := AList.delete (timer_id t) (mIdToTimer s)\<rparr>"
  have "ctq_getNext now s = Inr (timer_msg t, ?s)"
    using getNext_eq [OF Cons.prems(1), of now] ts Cons.prems(2) by simp
  moreover have "\<exists>s'. drain now (length ts) ?s = Inr (map timer_msg ts, s') \<and> ctq_empty s'"
    using Cons.hyps(1) [of ?s] getNext_ok [OF Cons.prems(1) ts] Cons.prems(2) ts by simp
  ultimately show ?case using ts by auto
qed (simp add: ctq_empty_def)

lemma filter_multimap_insert:
  "sorted (map expiry ts) \<Longrightarrow> filter (\<lambda>y. expiry y = e) (multimap_insert x ts) =
     filter (\<lambda>y. expiry y = e) (ts @ [x])"
proof (induction x ts rule: multimap_insert.induct)
  case (2 x y ys)
  show ?case
  proof (cases "expiry x < expiry y")
    case True
    then have "filter (\<lambda>y. expiry y = expiry x) (y # ys) = []" using 2 by (auto simp: filter_empty_conv)
    then show ?thesis using True 2 by auto
  qed (use 2 in auto)
qed simp

lemma multimap_insert_sort: "multimap_insert x (sort_key expiry ts) = sort_key expiry (ts @ [x])"
proof (rule sym, rule properties_for_sort_key)
  fix k
  show "filter (\<lambda>y. expiry k = expiry y) (multimap_insert x (sort_key expiry ts)) =
      filter (\<lambda>y. expiry k = expiry y) (ts @ [x])"
    using sort_key_stable [of expiry "expiry k" ts]
    by (simp add: filter_multimap_insert eq_commute [of "expiry k"])
qed (simp_all add: sorted_multimap_insert)

lemma sort_key_map: "sort_key f (map g xs) = map g (sort_key (f \<circ> g) xs)"
proof -
  have "insort_key f (g x) (map g xs) = map g (insort_key (f \<circ> g) x xs)" for x xs
    by (induction xs) auto
  then show ?thesis by (induction xs) (auto simp: sort_key_simps)
qed

definition additions :: "uint64 \<Rightarrow> ('m \<times> uint32) list \<Rightarrow> 'm ctq_op list" where
  "additions now ms = map (\<lambda>(m, off). AddRelative now m off) ms"

definition made :: "uint64 \<Rightarrow> ('m \<times> uint32) list \<Rightarrow> 'm timer list" where
  "made now ms = map (\<lambda>(k, m, off). (now + ucast off, m, k)) (zip [1..int (length ms)] ms)"

lemma made_snoc: "made now (ms @ [(m, off)]) = made now ms @ [(now + ucast off, m, int (length ms) + 1)]"
  using upto_rec2 [of 1 "int (length ms) + 1"] by (simp add: made_def add.commute [of 1])

lemma additions_run:
  "length ms \<le> 2147483646 \<Longrightarrow> \<exists>l. run_events ctq_step opened (additions now ms) = Inr l \<and> counting l \<and>
     length (issued l) = length ms \<and> mTimerMap (queue l) = sort_key expiry (made now ms)"
proof (induction ms rule: rev_induct)
  case Nil
  show ?case using counting_opened by (simp add: additions_def opened_def CancelableTimerQueue_def made_def)
next
  case (snoc x ms)
  obtain m off where x: "x = (m, off)" by (cases x)
  from snoc obtain l where l: "run_events ctq_step opened (additions now ms) = Inr l" "counting l"
    "length (issued l) = length ms" "mTimerMap (queue l) = sort_key expiry (made now ms)" by auto
  have ok: "ctq_ok (queue l)" using l(2) by (simp add: counting_def balanced_def)
  have g: "few_guard l (AddRelative now m off)" using snoc.prems l(3) by simp
  obtain l' where l': "ctq_step l (AddRelative now m off) = Inr l'" "counting l'"
    using counting_step [OF l(2) g] by blast
  have f: "fresh (queue l) = int (length ms) + 1"
    using l(2,3) snoc.prems by (simp add: fresh_def counting_def)
  have "length (issued l') = Suc (length ms) \<and>
      mTimerMap (queue l') = multimap_insert (now + ucast off, m, int (length ms) + 1) (mTimerMap (queue l))"
    using l' l(3) f by (auto simp: addRelative_def addTimer_eq [OF ok] split: if_splits)
  then show ?case using l l'
    by (simp add: additions_def x run_events_append made_snoc multimap_insert_sort)
qed

text \<open>
  Timers fire in the order of their times, and those with the same time in the order in
  which they were added: after any additions, taking all timers when the last one is due
  delivers the messages sorted by expiry time, by a stable sort, and leaves the queue empty.
\<close>

theorem timers_fire_in_order:
  assumes "length ms \<le> 2147483646" and "\<forall>(m, off) \<in> set ms. now + ucast off \<le> later"
  shows "\<exists>l s. run_events ctq_step opened (additions now ms) = Inr l \<and>
    drain later (length ms) (queue l) = Inr (map fst (sort_key (\<lambda>(m, off). now + ucast off) ms), s) \<and>
    ctq_empty s"
proof -
  from additions_run [OF assms(1)] obtain l where
    l: "run_events ctq_step opened (additions now ms) = Inr l" "counting l"
    "mTimerMap (queue l) = sort_key expiry (made now ms)" by blast
  have ok: "ctq_ok (queue l)" using l(2) by (simp add: counting_def balanced_def)
  let ?z = "zip [1..int (length ms)] ms" and ?g = "\<lambda>(m :: 'a, off :: uint32). now + ucast off"
  have snd: "map snd ?z = ms" by simp
  have "map timer_msg (sort_key expiry (made now ms)) = map (fst \<circ> snd) (sort_key (?g \<circ> snd) ?z)"
    by (simp add: made_def sort_key_map comp_def case_prod_beta)
  also have "\<dots> = map fst (sort_key ?g ms)"
    using sort_key_map [of ?g snd ?z] snd by (metis map_map)
  finally have "map timer_msg (mTimerMap (queue l)) = map fst (sort_key ?g ms)" using l(3) by simp
  moreover have "length (mTimerMap (queue l)) = length ms" using l(3) by (simp add: made_def)
  moreover have "\<forall>t \<in> set (mTimerMap (queue l)). expiry t \<le> later"
    using assms(2) l(3) by (fastforce simp: made_def dest: set_zip_rightD)
  ultimately show ?thesis using l(1) drain_all [OF ok, of later] by auto
qed

section \<open>Witnesses\<close>

definition calls :: "nat ctq_op list" where
  "calls = [AddRelative 0 7 10, AddRelative 0 8 5, Cancel 1, Cancel 1, GetNext 6, AddRelative 6 9 1]"

lemmas ctq_eval = opened_def CancelableTimerQueue_def addRelative_def addTimer_def getNextId_def
  sizes_agree_def cancel_def ctq_getNext_def available_def ids_def

theorem cancelable_timers_accounted_witness:
  "\<exists>l. run_events ctq_step opened calls = Inr l \<and> issued l = [3, 2, 1] \<and> fired l = [2] \<and> cancelled l = [1] \<and>
     ids (queue l) = [3] \<and> mset (issued l) = mset (fired l) + mset (cancelled l) + mset (dropped l) + mset (ids (queue l))"
proof -
  have "guarded_run ctq_step few_guard opened calls" by (simp add: calls_def ctq_eval)
  from cancelable_timers_accounted [OF this] obtain l where l: "run_events ctq_step opened calls = Inr l"
    "mset (issued l) = mset (fired l) + mset (cancelled l) + mset (dropped l) + mset (ids (queue l))" by blast
  moreover from l(1) have "issued l = [3, 2, 1] \<and> fired l = [2] \<and> cancelled l = [1] \<and> ids (queue l) = [3]"
    by (auto simp: calls_def ctq_eval)
  ultimately show ?thesis by blast
qed

theorem cancel_undoes_add_witness:
  "\<exists>s1 s2. addRelative 5 (7 :: nat) 10 CancelableTimerQueue = Inr (1, s1) \<and> cancel 1 s1 = Inr (True, s2) \<and>
     mTimerMap s2 = []"
proof -
  have ok: "ctq_ok CancelableTimerQueue" by (simp add: ctq_ok_def CancelableTimerQueue_def ids_def)
  obtain s1 where s1: "addRelative 5 (7 :: nat) 10 CancelableTimerQueue = Inr (1, s1)"
    by (simp add: ctq_eval)
  from cancel_undoes_add [OF ok s1] s1 show ?thesis by (auto simp: CancelableTimerQueue_def)
qed

theorem getTimeout_exact_witness:
  "getTimeout 100 \<lparr>mNextId = 1, mIdToTimer = [(1, 107)], mTimerMap = [(107, ''m'', 1)]\<rparr> = 7 \<and>
   getTimeout 100 \<lparr>mNextId = 1, mIdToTimer = [(1, 2147483748)], mTimerMap = [(2147483748, ''m'', 1)]\<rparr> = 0"
  using getTimeout_exact [of "\<lparr>mNextId = 1, mIdToTimer = [(1, 107)], mTimerMap = [(107, ''m'', 1)]\<rparr>" "(107, ''m'', 1)" "[]" 100]
    getTimeout_exact [of "\<lparr>mNextId = 1, mIdToTimer = [(1, 2147483748)], mTimerMap = [(2147483748, ''m'', 1)]\<rparr>"
      "(2147483748, ''m'', 1)" "[]" 100]
  by simp

theorem timers_fire_in_order_witness:
  "\<exists>l s. run_events ctq_step opened (additions 0 [(1 :: nat, 9), (2, 5), (3, 9), (4, 5)]) = Inr l \<and>
     drain 9 4 (queue l) = Inr ([2, 4, 1, 3], s)"
proof -
  let ?ms = "[(1 :: nat, 9), (2, 5), (3, 9), (4, 5)] :: (nat \<times> uint32) list"
  have sorted: "map fst (sort_key (\<lambda>(m, off). 0 + ucast off :: uint64) ?ms) = [2, 4, 1, 3]"
    by (simp add: sort_key_simps)
  have len: "length ?ms = 4" by simp
  have "length ?ms \<le> 2147483646" and "\<forall>(m, off) \<in> set ?ms. 0 + ucast off \<le> (9 :: uint64)" by simp_all
  from timers_fire_in_order [OF this] show ?thesis unfolding sorted len by blast
qed

end
