(* ===== verification/ValueFifos.thy ===== *)
theory ValueFifos
  imports CancelableTimers
begin

text \<open>
  The queue of \<open>resip/stack/ValueFifo.hxx\<close>: a queue of messages together with a
  \<open>CancelableTimerQueue\<close>, whose messages join the queue when they are due. Every public
  operation is one section under the mutex. An operation that calls \<open>wakeup\<close> returns whether
  it did. A return from the wait of \<open>getNext\<close> is a pair: what other threads did to the queue
  meanwhile, and the reading of the clock in the test that follows. The readings of the clock
  while due timers are moved are a sequence \<open>clk\<close>.
\<close>

section \<open>ValueFifo\<close>

record 'm vfifo =
  myList :: "'m list"
  myTimerQueue :: "'m ctq"
  myFifoSize :: uint64
  myTimerSize :: uint64

definition ValueFifo :: "'m vfifo" where
  "ValueFifo = \<lparr>myList = [], myTimerQueue = CancelableTimerQueue, myFifoSize = 0, myTimerSize = 0\<rparr>"

definition vf_add :: "'m \<Rightarrow> 'm vfifo \<Rightarrow> bool \<times> 'm vfifo" where
  "vf_add t s = (True, s\<lparr>myList := myList s @ [t], myFifoSize := myFifoSize s + 1\<rparr>)"

text \<open>\<open>t1\<close> and \<open>t2\<close> are the readings of the clock by \<open>getTimeout\<close> and by \<open>addRelative\<close>.\<close>

definition addDelayMs :: "uint64 \<Rightarrow> uint64 \<Rightarrow> 'm \<Rightarrow> int \<Rightarrow> 'm vfifo \<Rightarrow> rutil_error + int \<times> bool \<times> 'm vfifo" where
  "addDelayMs t1 t2 t offsetInMs s =
     (let offsetInMs = (if offsetInMs < 0 then 0 else offsetInMs);
          doWakeup = (ctq_empty (myTimerQueue s) \<or> offsetInMs < getTimeout t1 (myTimerQueue s))
      in bindr (addRelative t2 t (word_of_int offsetInMs) (myTimerQueue s)) (\<lambda>(k, q).
           Inr (k, doWakeup, s\<lparr>myTimerQueue := q, myTimerSize := myTimerSize s + 1\<rparr>)))"

definition vf_cancel :: "int \<Rightarrow> 'm vfifo \<Rightarrow> rutil_error + bool \<times> 'm vfifo" where
  "vf_cancel k s = bindr (cancel k (myTimerQueue s)) (\<lambda>(b, q).
     if b then Inr (True, s\<lparr>myTimerQueue := q, myTimerSize := myTimerSize s - 1\<rparr>)
     else Inr (False, s\<lparr>myTimerQueue := q\<rparr>))"

definition messageAvailableNoLock :: "uint64 \<Rightarrow> 'm vfifo \<Rightarrow> bool" where
  "messageAvailableNoLock now s = (myFifoSize s > 0 \<or> available now (myTimerQueue s))"

type_synonym 'm vf_wake = "('m vfifo \<Rightarrow> 'm vfifo) \<times> uint64"

fun vf_wait :: "'m vf_wake list \<Rightarrow> uint64 \<Rightarrow> 'm vfifo \<Rightarrow> 'm vfifo outcome" where
  "vf_wait [] now s = (if messageAvailableNoLock now s then Done s else Blocked)"
| "vf_wait ((others, later) # ws) now s =
     (if messageAvailableNoLock now s then Done s else vf_wait ws later (others s))"

lemma ctq_getNext_shorter:
  "ctq_getNext now q = Inr (m, q') \<Longrightarrow> length (mTimerMap q') < length (mTimerMap q)"
  by (auto simp: ctq_getNext_def Let_def split: if_splits list.splits)

function move_due :: "(nat \<Rightarrow> uint64) \<Rightarrow> nat \<Rightarrow> 'm vfifo \<Rightarrow> rutil_error + 'm vfifo" where
  "move_due clk i s =
     (if available (clk i) (myTimerQueue s)
      then case ctq_getNext (clk (Suc i)) (myTimerQueue s) of
          Inl e \<Rightarrow> Inl e
        | Inr (m, q) \<Rightarrow> move_due clk (i + 2) (s\<lparr>myTimerQueue := q, myList := myList s @ [m],
            myFifoSize := myFifoSize s + 1, myTimerSize := myTimerSize s - 1\<rparr>)
      else Inr s)"
  by pat_completeness auto
termination
  by (relation "measure (\<lambda>(clk, i, s). length (mTimerMap (myTimerQueue s)))") (auto dest: ctq_getNext_shorter)

declare move_due.simps [simp del]

definition vf_getNext ::
  "'m vf_wake list \<Rightarrow> uint64 \<Rightarrow> (nat \<Rightarrow> uint64) \<Rightarrow> 'm vfifo \<Rightarrow> ('m \<times> 'm vfifo) outcome" where
  "vf_getNext ws now clk s = andthen (vf_wait ws now s) (\<lambda>s. case move_due clk 0 s of
       Inl e \<Rightarrow> Fault e
     | Inr s \<Rightarrow>
         if \<not> myFifoSize s > 0 then Fault AssertFailed
         else (case myList s of
             [] \<Rightarrow> Fault AssertFailed
           | m # ms \<Rightarrow> Done (m, s\<lparr>myList := ms, myFifoSize := myFifoSize s - 1\<rparr>)))"

definition vf_clear :: "'m vfifo \<Rightarrow> 'm vfifo" where
  "vf_clear s = s\<lparr>myFifoSize := 0, myTimerSize := 0, myTimerQueue := ctq_clear (myTimerQueue s), myList := []\<rparr>"

definition vf_size :: "'m vfifo \<Rightarrow> uint32" where
  "vf_size s = ucast (myFifoSize s + myTimerSize s)"

definition vf_empty :: "'m vfifo \<Rightarrow> bool" where
  "vf_empty s = (myFifoSize s + myTimerSize s = 0)"

definition vf_messageAvailable :: "uint64 \<Rightarrow> 'm vfifo \<Rightarrow> bool" where
  "vf_messageAvailable now s = messageAvailableNoLock now s"

section \<open>The invariant\<close>

definition vf_timers :: "'m vfifo \<Rightarrow> 'm timer list" where
  "vf_timers s = mTimerMap (myTimerQueue s)"

text \<open>The counters are exact, and there is room for what they count in an \<open>unsigned int\<close>.\<close>

definition vf_ok :: "'m vfifo \<Rightarrow> bool" where
  "vf_ok s = (ctq_ok (myTimerQueue s) \<and> myFifoSize s = of_nat (length (myList s)) \<and>
     myTimerSize s = of_nat (length (vf_timers s)) \<and> length (myList s) + length (vf_timers s) < 2 ^ 32)"

lemma of_nat64_pos: "n < 2 ^ 32 \<Longrightarrow> 0 < (of_nat n :: uint64) \<longleftrightarrow> 0 < n"
  by (simp add: word_less_nat_alt unat_of_nat)

lemma vf_available:
  "vf_ok s \<Longrightarrow> messageAvailableNoLock now s \<longleftrightarrow>
     myList s \<noteq> [] \<or> (vf_timers s \<noteq> [] \<and> expiry (hd (vf_timers s)) \<le> now)"
  using of_nat64_pos [of "length (myList s)"]
  by (auto simp: messageAvailableNoLock_def vf_ok_def available_def vf_timers_def split: list.splits)

lemma move_due_eq:
  assumes "vf_ok s" and "\<forall>i j. i \<le> j \<longrightarrow> clk i \<le> clk j"
  shows "\<exists>n s'. move_due clk i s = Inr s' \<and> vf_ok s' \<and> n \<le> length (vf_timers s) \<and>
    myList s' = myList s @ map timer_msg (take n (vf_timers s)) \<and> vf_timers s' = drop n (vf_timers s) \<and>
    (\<forall>t \<in> set (take n (vf_timers s)). \<exists>j. expiry t \<le> clk j) \<and> (\<forall>t \<in> set (drop n (vf_timers s)). clk i < expiry t)"
  using assms
proof (induction clk i s rule: move_due.induct)
  case (1 clk i s)
  let ?q = "myTimerQueue s"
  have ok: "ctq_ok ?q" using "1.prems"(1) by (simp add: vf_ok_def)
  show ?case
  proof (cases "available (clk i) ?q")
    case False
    then have "move_due clk i s = Inr s" by (subst move_due.simps) simp
    moreover have "\<forall>t \<in> set (vf_timers s). clk i < expiry t"
      using False ok by (auto simp: available_def vf_timers_def ctq_ok_def not_le intro: less_le_trans split: list.splits)
    ultimately show ?thesis using "1.prems"(1) by (intro exI [of _ 0] exI [of _ s]) simp
  next
    case True
    then obtain t ts where ts: "mTimerMap ?q = t # ts" "expiry t \<le> clk i"
      by (auto simp: available_def split: list.splits)
    have le: "clk i \<le> clk (Suc i)" "clk i \<le> clk (i + 2)" using "1.prems"(2) by auto
    then have "expiry t \<le> clk (Suc i)" using ts(2) by order
    let ?q' = "?q\<lparr>mTimerMap := ts, mIdToTimer := AList.delete (timer_id t) (mIdToTimer ?q)\<rparr>"
    let ?s = "s\<lparr>myTimerQueue := ?q', myList := myList s @ [timer_msg t], myFifoSize := myFifoSize s + 1,
      myTimerSize := myTimerSize s - 1\<rparr>"
    have g: "ctq_getNext (clk (Suc i)) ?q = Inr (timer_msg t, ?q')"
      using getNext_eq [OF ok, of "clk (Suc i)"] ts \<open>expiry t \<le> clk (Suc i)\<close> by simp
    have ok': "vf_ok ?s" using "1.prems"(1) getNext_ok [OF ok ts(1)] ts(1) by (simp add: vf_ok_def vf_timers_def)
    from "1.IH" [OF True g refl ok' "1.prems"(2)] obtain n s' where
      r: "move_due clk (i + 2) ?s = Inr s'" "vf_ok s'" "n \<le> length ts"
        "myList s' = (myList s @ [timer_msg t]) @ map timer_msg (take n ts)" "vf_timers s' = drop n ts"
        "\<forall>t \<in> set (take n ts). \<exists>j. expiry t \<le> clk j" "\<forall>t \<in> set (drop n ts). clk (i + 2) < expiry t"
      by (auto simp: vf_timers_def)
    have "move_due clk i s = Inr s'" using True g r(1) by (subst move_due.simps) simp
    moreover have "\<forall>t \<in> set (drop n ts). clk i < expiry t" using r(7) le(2) by (meson le_less_trans)
    ultimately show ?thesis using r ts by (intro exI [of _ "Suc n"] exI [of _ s']) (auto simp: vf_timers_def)
  qed
qed

section \<open>Taking messages\<close>

lemma vf_next_available:
  assumes "vf_ok s" and "messageAvailableNoLock now s" and "\<forall>i. now \<le> clk i"
    and "\<forall>i j. i \<le> j \<longrightarrow> clk i \<le> clk j"
  shows "\<exists>n m s'. vf_getNext ws now clk s = Done (m, s') \<and> vf_ok s' \<and> n \<le> length (vf_timers s) \<and>
    m # myList s' = myList s @ map timer_msg (take n (vf_timers s)) \<and> vf_timers s' = drop n (vf_timers s) \<and>
    (\<forall>t \<in> set (take n (vf_timers s)). \<exists>j. expiry t \<le> clk j) \<and> (\<forall>t \<in> set (drop n (vf_timers s)). clk 0 < expiry t)"
proof -
  have w: "vf_wait ws now s = Done s" using assms(2) by (cases "(ws, now, s)" rule: vf_wait.cases) auto
  from move_due_eq [OF assms(1,4), of 0] obtain n s1 where
    r: "move_due clk 0 s = Inr s1" "vf_ok s1" "n \<le> length (vf_timers s)"
      "myList s1 = myList s @ map timer_msg (take n (vf_timers s))" "vf_timers s1 = drop n (vf_timers s)"
      "\<forall>t \<in> set (take n (vf_timers s)). \<exists>j. expiry t \<le> clk j" "\<forall>t \<in> set (drop n (vf_timers s)). clk 0 < expiry t"
    by blast
  have "myList s1 \<noteq> []"
  proof
    assume "myList s1 = []"
    then have e: "myList s = []" "take n (vf_timers s) = []" using r(4) by auto
    then have ne: "vf_timers s \<noteq> []" "expiry (hd (vf_timers s)) \<le> now" using assms(1,2) vf_available by blast+
    then have "hd (vf_timers s) \<in> set (drop n (vf_timers s))" using e(2) by (cases "vf_timers s"; cases n) auto
    then show False using r(7) ne(2) assms(3) by (meson le_less_trans less_irrefl)
  qed
  then obtain m ms where m: "myList s1 = m # ms" by (cases "myList s1") auto
  have "0 < myFifoSize s1" using r(2) m of_nat64_pos [of "length (myList s1)"] by (simp add: vf_ok_def)
  then have "vf_getNext ws now clk s = Done (m, s1\<lparr>myList := ms, myFifoSize := myFifoSize s1 - 1\<rparr>)"
    using w r(1) m by (simp add: vf_getNext_def)
  moreover have "vf_ok (s1\<lparr>myList := ms, myFifoSize := myFifoSize s1 - 1\<rparr>)"
    using r(2) m by (simp add: vf_ok_def vf_timers_def)
  ultimately show ?thesis using r(3-7) m by (fastforce simp: vf_timers_def)
qed

text \<open>
  When a message or a due timer is there, \<open>getNext\<close> delivers at once: the queue followed
  by the timers that have become due, in the order of their times, is what it takes its first
  message from, and what is left of it stays queued. No timer is moved before its time, none that
  was due when the call began stays behind, and the counters stay exact.
\<close>

theorem value_fifo_next:
  assumes "vf_ok s" and "messageAvailableNoLock now s" and "\<forall>i. now \<le> clk i"
    and "\<forall>i j. i \<le> j \<longrightarrow> clk i \<le> clk j"
  shows "\<exists>n m s'. vf_getNext ws now clk s = Done (m, s') \<and> vf_ok s' \<and> n \<le> length (vf_timers s) \<and>
    m # myList s' = myList s @ map timer_msg (take n (vf_timers s)) \<and> vf_timers s' = drop n (vf_timers s) \<and>
    (\<forall>t \<in> set (take n (vf_timers s)). \<exists>j. expiry t \<le> clk j) \<and> (\<forall>t \<in> set (drop n (vf_timers s)). clk 0 < expiry t)"
  by (rule vf_next_available [OF assms])

section \<open>Waking up\<close>

text \<open>
  No wake-up is missed: a consumer that waits has been given the time to the first timer.
  If \<open>addDelayMs\<close> does not signal it, the new timer is not the first one, so the first timer,
  for which the consumer will wake up, is still the same. This holds for timers less than
  \<open>2^31\<close> milliseconds away.
\<close>

theorem no_missed_wakeup:
  assumes "vf_ok s" and "vf_timers s = t # ts" and "\<bar>uint (expiry t) - uint t1\<bar> < 2147483648"
    and "t1 \<le> t2" and "off < 2147483648" and "uint t2 + off < 2 ^ 64" and "0 \<le> uint (expiry t) - uint t1"
    and "addDelayMs t1 t2 m off s = Inr (k, signalled, s')"
  shows "signalled \<or> hd (vf_timers s') = t"
proof (cases signalled)
  case False
  let ?off = "if off < 0 then 0 else off"
  let ?e = "t2 + ucast (word_of_int ?off :: uint32)"
  have ok: "ctq_ok (myTimerQueue s)" using assms(1) by (simp add: vf_ok_def)
  have q: "mTimerMap (myTimerQueue s) = t # ts" using assms(2) by (simp add: vf_timers_def)
  have time: "getTimeout t1 (myTimerQueue s) = uint (expiry t) - uint t1"
    using getTimeout_near [OF q assms(3)] assms(7) by simp
  have "\<not> ?off < getTimeout t1 (myTimerQueue s)"
    using assms(8) False by (auto simp: addDelayMs_def Let_def bindr_eq_Inr)
  then have "uint (expiry t) \<le> uint t1 + ?off" using time by simp
  also have "\<dots> \<le> uint t2 + ?off" using assms(4) by (simp add: word_le_def)
  also have "\<dots> = uint ?e"
  proof -
    have "uint (word_of_int ?off :: uint32) = ?off"
      using assms(5) by (simp add: uint_word_of_int_eq take_bit_int_eq_self)
    then have "uint (ucast (word_of_int ?off :: uint32) :: uint64) = ?off"
      using assms(5) by (simp add: unsigned_ucast_eq take_bit_int_eq_self)
    moreover have "0 \<le> uint t2" "uint t2 < 2 ^ 64" using unsigned_less [of t2, where ?'a = int] by simp_all
    ultimately show ?thesis using assms(6) by (simp add: uint_word_ariths)
  qed
  finally have "expiry t \<le> ?e" by (simp add: word_le_def)
  moreover have "vf_timers s' = multimap_insert (?e, m, k) (t # ts)"
    using assms(8) q by (auto simp: addDelayMs_def Let_def bindr_eq_Inr addRelative_def addTimer_eq [OF ok] vf_timers_def split: if_splits)
  ultimately show ?thesis by (cases "?e < expiry t") (auto simp only: multimap_insert.simps fst_conv if_False list.sel)
qed simp

section \<open>Runs\<close>

datatype 'm vf_op =
    VAdd 'm | VDelay uint64 uint64 'm int | VCancel int | VNext uint64 "nat \<Rightarrow> uint64" | VClear

record 'm vf_ledger =
  vf :: "'m vfifo"
  accepted :: "'m list"
  delivered :: "'m list"
  withdrawn :: "'m list"

definition vf_opened :: "'m vf_ledger" where
  "vf_opened = \<lparr>vf = ValueFifo, accepted = [], delivered = [], withdrawn = []\<rparr>"

text \<open>\<open>VNext\<close> is a call that finds a message; while it waits, the other calls are steps of their own.\<close>

fun vf_step :: "'m vf_ledger \<Rightarrow> 'm vf_op \<Rightarrow> rutil_error + 'm vf_ledger" where
  "vf_step l (VAdd m) = Inr (l\<lparr>vf := snd (vf_add m (vf l)), accepted := m # accepted l\<rparr>)"
| "vf_step l (VDelay t1 t2 m off) =
     bindr (addDelayMs t1 t2 m off (vf l)) (\<lambda>(k, b, s). Inr (l\<lparr>vf := s, accepted := m # accepted l\<rparr>))"
| "vf_step l (VCancel k) =
     bindr (vf_cancel k (vf l)) (\<lambda>(b, s). Inr (l\<lparr>vf := s,
       withdrawn := map timer_msg (filter (\<lambda>t. timer_id t = k) (vf_timers (vf l))) @ withdrawn l\<rparr>))"
| "vf_step l (VNext now clk) = (case vf_getNext [] now clk (vf l) of
       Done (m, s) \<Rightarrow> Inr (l\<lparr>vf := s, delivered := m # delivered l\<rparr>)
     | Blocked \<Rightarrow> Inr l
     | Fault e \<Rightarrow> Inl e)"
| "vf_step l VClear = Inr (l\<lparr>vf := vf_clear (vf l),
     withdrawn := myList (vf l) @ map timer_msg (vf_timers (vf l)) @ withdrawn l\<rparr>)"

definition vf_room :: "'m vfifo \<Rightarrow> bool" where
  "vf_room s = (length (myList s) + length (vf_timers s) + 1 < 2 ^ 32)"

definition vf_clock :: "uint64 \<Rightarrow> (nat \<Rightarrow> uint64) \<Rightarrow> bool" where
  "vf_clock now clk = ((\<forall>i. now \<le> clk i) \<and> (\<forall>i j. i \<le> j \<longrightarrow> clk i \<le> clk j))"

fun vf_guard :: "'m vf_ledger \<Rightarrow> 'm vf_op \<Rightarrow> bool" where
  "vf_guard l (VAdd m) = vf_room (vf l)"
| "vf_guard l (VDelay t1 t2 m off) =
     (vf_room (vf l) \<and> fresh (myTimerQueue (vf l)) \<notin> set (ids (myTimerQueue (vf l))))"
| "vf_guard l (VNext now clk) = vf_clock now clk"
| "vf_guard l _ = True"

text \<open>The messages that are in the queue or wait for their time.\<close>

definition vf_held :: "'m vfifo \<Rightarrow> 'm multiset" where
  "vf_held s = mset (myList s) + mset (map timer_msg (vf_timers s))"

definition vf_balanced :: "'m vf_ledger \<Rightarrow> bool" where
  "vf_balanced l = (vf_ok (vf l) \<and> mset (accepted l) = mset (delivered l) + mset (withdrawn l) + vf_held (vf l))"

lemma vf_add_step:
  assumes "vf_balanced l" and "vf_room (vf l)"
  shows "vf_balanced (l\<lparr>vf := snd (vf_add m (vf l)), accepted := m # accepted l\<rparr>)"
  using assms by (simp add: vf_balanced_def vf_ok_def vf_add_def vf_held_def vf_room_def vf_timers_def)

lemma vf_delay_step:
  assumes "vf_balanced l" and "vf_guard l (VDelay t1 t2 m off)"
  shows "\<exists>l'. vf_step l (VDelay t1 t2 m off) = Inr l' \<and> vf_balanced l'"
proof -
  let ?q = "myTimerQueue (vf l)" and ?w = "word_of_int (if off < 0 then 0 else off) :: uint32"
  have ok: "ctq_ok ?q" using assms(1) by (simp add: vf_balanced_def vf_ok_def)
  then obtain q where q: "addTimer m (t2 + ucast ?w) ?q = Inr (fresh ?q, q)"
    "mTimerMap q = multimap_insert (t2 + ucast ?w, m, fresh ?q) (mTimerMap ?q)"
    using addTimer_eq [OF ok, of m "t2 + ucast ?w"] assms(2) by auto
  then show ?thesis using assms addTimer_ok [OF ok q(1)]
    by (auto simp: addDelayMs_def Let_def addRelative_def vf_balanced_def vf_ok_def vf_held_def vf_room_def vf_timers_def)
qed

lemma vf_cancel_step:
  assumes "vf_balanced l"
  shows "\<exists>l'. vf_step l (VCancel k) = Inr l' \<and> vf_balanced l'"
proof -
  let ?q = "myTimerQueue (vf l)"
  have ok: "ctq_ok ?q" using assms(1) by (simp add: vf_balanced_def vf_ok_def)
  let ?ts = "filter (\<lambda>t. timer_id t \<noteq> k) (mTimerMap ?q)"
  have part: "mset (map timer_msg (mTimerMap ?q)) =
      mset (map timer_msg (filter (\<lambda>t. timer_id t = k) (mTimerMap ?q))) + mset (map timer_msg ?ts)"
    by (metis (no_types, lifting) filter_cong image_mset_union mset_filter mset_map multiset_partition)
  have "length (mTimerMap ?q) = length ?ts + (if k \<in> set (ids ?q) then 1 else 0)"
  proof (cases "k \<in> set (ids ?q)")
    case True
    from arg_cong [OF mset_ids_remove [OF ok True], of size] show ?thesis using True by (simp add: ids_def del: mset_map)
  qed (use filter_other_ids [of k "mTimerMap ?q"] in \<open>simp add: ids_def\<close>)
  then show ?thesis using assms part ctq_ok_remove [OF ok, of k]
    by (auto simp: vf_cancel_def cancel_eq [OF ok] vf_balanced_def vf_ok_def vf_held_def vf_timers_def)
qed

lemma vf_next_step:
  assumes "vf_balanced l" and "vf_clock now clk"
  shows "\<exists>l'. vf_step l (VNext now clk) = Inr l' \<and> vf_balanced l'"
proof (cases "messageAvailableNoLock now (vf l)")
  case True
  have ok: "vf_ok (vf l)" using assms(1) by (simp add: vf_balanced_def)
  let ?ts = "vf_timers (vf l)"
  obtain n m s where r: "vf_getNext [] now clk (vf l) = Done (m, s)" "vf_ok s"
    "m # myList s = myList (vf l) @ map timer_msg (take n ?ts)" "vf_timers s = drop n ?ts"
    using vf_next_available [OF ok True, of clk "[]"] assms(2) by (auto simp: vf_clock_def)
  have "mset (map timer_msg ?ts) = mset (map timer_msg (take n ?ts)) + mset (map timer_msg (drop n ?ts))"
    by (metis append_take_drop_id map_append mset_append)
  then have "vf_held (vf l) = add_mset m (vf_held s)"
    using arg_cong [OF r(3), of mset] r(4) by (simp add: vf_held_def)
  then show ?thesis using assms(1) r(1,2) by (simp add: vf_balanced_def)
next
  case False
  then show ?thesis using assms(1) by (simp add: vf_getNext_def)
qed

lemma vf_step_ok:
  assumes "vf_balanced l" and "vf_guard l p"
  shows "\<exists>l'. vf_step l p = Inr l' \<and> vf_balanced l'"
proof (cases p)
  case VClear
  then show ?thesis using assms
    by (simp add: vf_balanced_def vf_ok_def vf_clear_def ctq_clear_def ctq_ok_def ids_def vf_held_def vf_timers_def)
next
  case (VAdd m)
  then show ?thesis using vf_add_step [OF assms(1)] assms(2) by simp
next
  case (VDelay t1 t2 m off)
  then show ?thesis using vf_delay_step [OF assms(1)] assms(2) by blast
next
  case (VCancel k)
  then show ?thesis using vf_cancel_step [OF assms(1)] by blast
next
  case (VNext now clk)
  then show ?thesis using vf_next_step [OF assms(1)] assms(2) by simp
qed

interpretation vfm: guarded_machine vf_step vf_balanced vf_guard
  by unfold_locales (rule vf_step_ok)

text \<open>
  (C19) Over every run of additions, delayed additions, cancellations, takes and clears, in any
  order, in which fewer than \<open>2 ^ 32\<close> messages are held at a time, a new timer's id is not in
  use when the ids have wrapped around, and the clock does not go back during a take: no
  assertion fails, every message that was accepted was delivered once, was withdrawn,
  or is still held, and \<open>size\<close> is the number of those held.
\<close>

theorem value_fifo_accounted:
  assumes "guarded_run vf_step vf_guard vf_opened ops"
  shows "\<exists>l. run_events vf_step vf_opened ops = Inr l \<and>
    mset (accepted l) = mset (delivered l) + mset (withdrawn l) + vf_held (vf l) \<and>
    unat (vf_size (vf l)) = size (vf_held (vf l)) \<and> (vf_empty (vf l) \<longleftrightarrow> vf_held (vf l) = {#})"
proof -
  have "vf_balanced vf_opened"
    by (simp add: vf_balanced_def vf_opened_def ValueFifo_def vf_ok_def CancelableTimerQueue_def ctq_ok_def ids_def
        vf_held_def vf_timers_def)
  from vfm.run_ok [OF this assms] obtain l where l: "run_events vf_step vf_opened ops = Inr l" "vf_balanced l" by blast
  let ?n = "length (myList (vf l)) + length (vf_timers (vf l))"
  have n: "?n < 2 ^ 32" and sum: "myFifoSize (vf l) + myTimerSize (vf l) = of_nat ?n"
    using l(2) by (simp_all add: vf_balanced_def vf_ok_def)
  have "unat (of_nat ?n :: uint64) = ?n" using n by (subst unat_of_nat) (simp del: of_nat_add)
  then have "unat (vf_size (vf l)) = ?n" using n unat_narrow [of "of_nat ?n"] by (simp add: vf_size_def sum del: of_nat_add)
  moreover have "size (vf_held (vf l)) = ?n" by (simp add: vf_held_def)
  moreover have "vf_empty (vf l) \<longleftrightarrow> ?n = 0"
    using \<open>unat (of_nat ?n :: uint64) = ?n\<close> by (metis sum unat_eq_zero vf_empty_def)
  ultimately show ?thesis using l by (auto simp: vf_balanced_def)
qed

section \<open>Witnesses\<close>

lemma ValueFifo_ok: "vf_ok ValueFifo"
  by (simp add: ValueFifo_def vf_ok_def CancelableTimerQueue_def ctq_ok_def ids_def vf_timers_def)

theorem value_fifo_next_witness:
  "\<exists>m s'. vf_getNext [] 5 (\<lambda>i. 5) (snd (vf_add 7 ValueFifo)) = Done (m, s') \<and> vf_ok (s' :: nat vfifo)"
proof -
  have ok: "vf_ok (snd (vf_add (7 :: nat) ValueFifo))" and av: "messageAvailableNoLock 5 (snd (vf_add (7 :: nat) ValueFifo))"
    by (simp_all add: ValueFifo_def vf_ok_def CancelableTimerQueue_def ctq_ok_def ids_def vf_timers_def vf_add_def
        messageAvailableNoLock_def)
  from value_fifo_next [OF ok av, of "\<lambda>i. 5" "[]"] show ?thesis by auto
qed

definition one_timer :: "nat vfifo" where
  "one_timer = ValueFifo\<lparr>myTimerQueue := \<lparr>mNextId = 1, mIdToTimer = [(1, 100)], mTimerMap = [(100, 7, 1)]\<rparr>, myTimerSize := 1\<rparr>"

theorem no_missed_wakeup_witness:
  "\<exists>s'. addDelayMs 50 50 8 90 one_timer = Inr (2, False, s') \<and> hd (vf_timers s') = (100, 7, 1)"
proof -
  have ok: "vf_ok one_timer" and ts: "vf_timers one_timer = [(100, 7, 1)]"
    by (simp_all add: one_timer_def ValueFifo_def vf_ok_def ctq_ok_def ids_def vf_timers_def)
  have "\<exists>s'. addDelayMs 50 50 8 90 one_timer = Inr (2, False, s')"
    by (simp add: one_timer_def addDelayMs_def ValueFifo_def addRelative_def addTimer_def getNextId_def sizes_agree_def
        ctq_empty_def getTimeout_def Let_def)
  then obtain s' where s': "addDelayMs 50 50 8 90 one_timer = Inr (2, False, s')" by blast
  from no_missed_wakeup [OF ok ts _ _ _ _ _ s'] s' show ?thesis by simp
qed

text \<open>
  A message at once, two delayed ones, of which the second is cancelled; a take before and one
  after the first delay is over, a take that finds nothing, and a clear with a timer pending.
\<close>

definition demo_vf_ops :: "nat vf_op list" where
  "demo_vf_ops = [VAdd 1, VDelay 0 0 2 50, VDelay 0 0 3 100, VCancel 2, VNext 10 (\<lambda>i. 10), VNext 60 (\<lambda>i. 60),
     VNext 200 (\<lambda>i. 200), VDelay 200 200 4 30, VAdd 5, VClear]"

lemmas vf_defs =
  vf_opened_def ValueFifo_def CancelableTimerQueue_def vf_room_def vf_timers_def vf_add_def addDelayMs_def
  addRelative_def addTimer_def getNextId_def sizes_agree_def ctq_empty_def getTimeout_def fresh_def ids_def
  vf_cancel_def cancel_def vf_getNext_def messageAvailableNoLock_def available_def ctq_getNext_def
  move_due.simps vf_clear_def ctq_clear_def Let_def

lemma vf_clock_const: "vf_clock now (\<lambda>i. now)"
  by (simp add: vf_clock_def)

theorem value_fifo_accounted_witness:
  "\<exists>l. run_events vf_step vf_opened demo_vf_ops = Inr l \<and> accepted l = [5, 4, 3, 2, 1] \<and> delivered l = [2, 1] \<and>
     mset (accepted l) = mset (delivered l) + mset (withdrawn l) + vf_held (vf l)"
proof -
  have "guarded_run vf_step vf_guard vf_opened demo_vf_ops"
    by (simp add: demo_vf_ops_def vf_clock_const vf_defs)
  from value_fifo_accounted [OF this] show ?thesis by (auto simp: demo_vf_ops_def vf_defs)
qed

end
