(* ===== verification/ParseBuffers.thy ===== *)
theory ParseBuffers
  imports Strings
begin

text \<open>
  The inline operations of \<open>rutil/ParseBuffer.hxx\<close>, the cursor with which the stack's parsers
  walk over a message. The characters from \<open>mBuff\<close> to \<open>mEnd\<close> are a string and
  \<open>mPosition\<close> is the distance from \<open>mBuff\<close>, an integer, because some operations move it
  before they look where it is. \<open>fail\<close> throws a \<open>ParseException\<close>; the buffer keeps what
  was assigned before, so every operation returns the buffer together with the error.
\<close>

section \<open>ParseBuffer\<close>

datatype pb_error =
    ParseFail   \<comment> \<open>the exception thrown by \<open>fail\<close>\<close>
  | PbAssert    \<comment> \<open>a \<open>resip_assert\<close> that does not hold\<close>
  | Overread    \<comment> \<open>a read outside the buffer\<close>

record pbuf =
  mText :: string
  mPosition :: int

abbreviation mEnd :: "pbuf \<Rightarrow> int" where
  "mEnd s \<equiv> int (length (mText s))"

type_synonym pb_op = "pbuf \<Rightarrow> pb_error option \<times> pbuf"

definition pb_eof :: "pbuf \<Rightarrow> bool" where
  "pb_eof s = (mPosition s \<ge> mEnd s)"

definition pb_bof :: "pbuf \<Rightarrow> bool" where
  "pb_bof s = (mPosition s \<le> 0)"

definition pb_valid :: "pbuf \<Rightarrow> bool" where
  "pb_valid s = (\<not> pb_eof s \<and> \<not> pb_bof s)"

definition lengthRemaining :: "pbuf \<Rightarrow> int" where
  "lengthRemaining s = mEnd s - mPosition s"

definition pb_reset :: "int \<Rightarrow> pb_op" where
  "pb_reset pos s = (if 0 \<le> pos \<and> pos \<le> mEnd s then (None, s\<lparr>mPosition := pos\<rparr>) else (Some PbAssert, s))"

definition skipChar :: pb_op where
  "skipChar s = (if pb_eof s then (Some ParseFail, s) else (None, s\<lparr>mPosition := mPosition s + 1\<rparr>))"

text \<open>
  \<open>memchr(mPosition, c, mEnd - mPosition)\<close> reads from \<open>mPosition\<close> on; behind \<open>mEnd\<close> the
  length is a huge number.
\<close>

definition skipToChar :: "char \<Rightarrow> pb_op" where
  "skipToChar c s =
     (if mPosition s < 0 \<or> mEnd s < mPosition s then (Some Overread, s)
      else case str_find [c] (drop (nat (mPosition s)) (mText s)) of
          Some i \<Rightarrow> (None, s\<lparr>mPosition := mPosition s + int i\<rparr>)
        | None \<Rightarrow> (None, s\<lparr>mPosition := mEnd s\<rparr>))"

text \<open>The loops over a bitset, with the test that lets them go on.\<close>

function skip_loop :: "(char \<Rightarrow> bool) \<Rightarrow> pb_op" where
  "skip_loop P s =
     (if mPosition s < mEnd s
      then if mPosition s < 0 then (Some Overread, s)
        else if P (mText s ! nat (mPosition s)) then skip_loop P (s\<lparr>mPosition := mPosition s + 1\<rparr>)
        else (None, s)
      else (None, s))"
  by pat_completeness auto
termination
  by (relation "measure (\<lambda>(P, s). nat (mEnd s - mPosition s))") auto

declare skip_loop.simps [simp del]

definition skipChars :: "(char \<Rightarrow> bool) \<Rightarrow> pb_op" where
  "skipChars cs = skip_loop cs"

definition skipToOneOf :: "(char \<Rightarrow> bool) \<Rightarrow> pb_op" where
  "skipToOneOf cs = skip_loop (\<lambda>c. \<not> cs c)"

definition skipN :: "int \<Rightarrow> pb_op" where
  "skipN count s =
     (let s = s\<lparr>mPosition := mPosition s + count\<rparr> in
      if mPosition s > mEnd s then (Some ParseFail, s) else (None, s))"

definition skipToEnd :: pb_op where
  "skipToEnd s = (None, s\<lparr>mPosition := mEnd s\<rparr>)"

definition skipBackN :: "int \<Rightarrow> pb_op" where
  "skipBackN count s =
     (let s = s\<lparr>mPosition := mPosition s - count\<rparr> in
      if pb_bof s then (Some ParseFail, s) else (None, s))"

definition assertEof :: pb_op where
  "assertEof s = (if \<not> pb_eof s then (Some ParseFail, s) else (None, s))"

definition assertNotEof :: pb_op where
  "assertNotEof s = (if pb_eof s then (Some ParseFail, s) else (None, s))"

text \<open>Reading the character at the current position.\<close>

definition current :: "pbuf \<Rightarrow> pb_error + char" where
  "current s = (case assertNotEof s of
       (Some e, _) \<Rightarrow> Inl e
     | (None, _) \<Rightarrow> if mPosition s < 0 then Inl Overread else Inr (mText s ! nat (mPosition s)))"

section \<open>Scanning\<close>

definition pb_ok :: "pbuf \<Rightarrow> bool" where
  "pb_ok s = (0 \<le> mPosition s \<and> mPosition s \<le> mEnd s)"

text \<open>The text that is left to read.\<close>

definition rest :: "pbuf \<Rightarrow> string" where
  "rest s = drop (nat (mPosition s)) (mText s)"

definition advance :: "nat \<Rightarrow> pbuf \<Rightarrow> pbuf" where
  "advance n s = s\<lparr>mPosition := mPosition s + int n\<rparr>"

lemma advance_simps [simp]:
  "mText (advance n s) = mText s" "mPosition (advance n s) = mPosition s + int n" "advance 0 s = s"
  by (simp_all add: advance_def)

lemma rest_Cons:
  "pb_ok s \<Longrightarrow> mPosition s < mEnd s \<Longrightarrow> rest s = mText s ! nat (mPosition s) # rest (advance 1 s)"
  by (simp add: rest_def pb_ok_def Cons_nth_drop_Suc nat_add_distrib)

lemma rest_Nil: "pb_ok s \<Longrightarrow> rest s = [] \<longleftrightarrow> mPosition s = mEnd s"
  by (auto simp: rest_def pb_ok_def)

lemma length_rest: "pb_ok s \<Longrightarrow> int (length (rest s)) = mEnd s - mPosition s"
  by (auto simp: rest_def pb_ok_def)

lemma skip_loop_eq:
  "pb_ok s \<Longrightarrow> skip_loop P s = (None, advance (length (takeWhile P (rest s))) s)"
proof (induction P s rule: skip_loop.induct)
  case (1 P s)
  show ?case
  proof (cases "mPosition s < mEnd s")
    case True
    have "pb_ok (s\<lparr>mPosition := mPosition s + 1\<rparr>)" using "1.prems" True by (simp add: pb_ok_def)
    then show ?thesis using 1 True rest_Cons [OF "1.prems" True]
      by (subst skip_loop.simps) (auto simp: pb_ok_def advance_def)
  next
    case False
    then have "rest s = []" using "1.prems" by (simp add: rest_Nil pb_ok_def)
    then show ?thesis using False by (subst skip_loop.simps) simp
  qed
qed

lemma takeWhile_find:
  "length (takeWhile (\<lambda>x. x \<noteq> c) s) = (case str_find [c] s of Some i \<Rightarrow> i | None \<Rightarrow> length s)"
  by (induction s) (auto split: option.splits)

lemma scanning_eq:
  assumes "pb_ok s"
  shows "skipToOneOf cs s = (None, advance (length (takeWhile (\<lambda>c. \<not> cs c) (rest s))) s) \<and>
    skipChars cs s = (None, advance (length (takeWhile cs (rest s))) s) \<and>
    skipToChar c s = skipToOneOf (\<lambda>x. x = c) s"
proof -
  have "skipToChar c s = (None, advance (length (takeWhile (\<lambda>x. x \<noteq> c) (rest s))) s)"
    using assms length_rest [OF assms]
    by (auto simp: skipToChar_def takeWhile_find rest_def advance_def pb_ok_def split: option.splits)
  then show ?thesis using assms by (simp add: skipToOneOf_def skipChars_def skip_loop_eq)
qed

text \<open>
  (C25) Scanning is exact: \<open>skipToOneOf\<close> stops at the first character of the set and \<open>skipChars\<close>
  at the first one outside it, or else at the end; nothing outside the buffer is read; and
  \<open>skipToChar\<close>, which uses \<open>memchr\<close>, does the same as the loop of \<open>skipToOneOf\<close> over
  the set of one character.
\<close>

theorem scanning_exact:
  assumes "pb_ok s"
  shows "skipToOneOf cs s = (None, advance (length (takeWhile (\<lambda>c. \<not> cs c) (rest s))) s) \<and>
    skipChars cs s = (None, advance (length (takeWhile cs (rest s))) s) \<and>
    skipToChar c s = skipToOneOf (\<lambda>x. x = c) s"
  using scanning_eq [OF assms] .

section \<open>Movements\<close>

datatype pb_call =
    Reset int | SkipChar | SkipToChar char | SkipChars "char set" | SkipToOneOf "char set"
  | SkipN int | SkipToEnd | SkipBackN int | AssertEof | AssertNotEof

fun pb_do :: "pb_call \<Rightarrow> pb_op" where
  "pb_do (Reset p) = pb_reset p"
| "pb_do SkipChar = skipChar"
| "pb_do (SkipToChar c) = skipToChar c"
| "pb_do (SkipChars cs) = skipChars (\<lambda>c. c \<in> cs)"
| "pb_do (SkipToOneOf cs) = skipToOneOf (\<lambda>c. c \<in> cs)"
| "pb_do (SkipN n) = skipN n"
| "pb_do SkipToEnd = skipToEnd"
| "pb_do (SkipBackN n) = skipBackN n"
| "pb_do AssertEof = assertEof"
| "pb_do AssertNotEof = assertNotEof"

definition pb_step :: "pbuf \<Rightarrow> pb_call \<Rightarrow> pb_error + pbuf" where
  "pb_step s p = (case pb_do p s of (Some e, _) \<Rightarrow> Inl e | (None, s') \<Rightarrow> Inr s')"

text \<open>When a call succeeds and leaves the position inside the buffer.\<close>

fun pb_guard :: "pbuf \<Rightarrow> pb_call \<Rightarrow> bool" where
  "pb_guard s (Reset p) = (0 \<le> p \<and> p \<le> mEnd s)"
| "pb_guard s SkipChar = (mPosition s < mEnd s)"
| "pb_guard s (SkipN n) = (0 \<le> mPosition s + n \<and> mPosition s + n \<le> mEnd s)"
| "pb_guard s (SkipBackN n) = (0 < mPosition s - n \<and> mPosition s - n \<le> mEnd s)"
| "pb_guard s AssertEof = (mPosition s = mEnd s)"
| "pb_guard s AssertNotEof = (mPosition s < mEnd s)"
| "pb_guard s _ = True"

lemma advance_ok:
  "pb_ok s \<Longrightarrow> n \<le> length (rest s) \<Longrightarrow> pb_ok (advance n s)"
  using length_rest [of s] by (simp add: pb_ok_def)

lemma pb_step_exact:
  assumes "pb_ok s"
  shows "pb_guard s p \<longleftrightarrow> (\<exists>s'. pb_step s p = Inr s' \<and> pb_ok s')"
proof (cases p)
  case (SkipToChar c)
  then show ?thesis using assms scanning_eq [OF assms, of "\<lambda>x. x = c" c]
    by (simp add: pb_step_def advance_ok length_takeWhile_le)
next
  case (SkipChars cs)
  then show ?thesis using assms scanning_eq [OF assms, of "\<lambda>c. c \<in> cs"]
    by (simp add: pb_step_def advance_ok length_takeWhile_le)
next
  case (SkipToOneOf cs)
  then show ?thesis using assms scanning_eq [OF assms, of "\<lambda>c. c \<in> cs"]
    by (simp add: pb_step_def advance_ok length_takeWhile_le)
qed (use assms in \<open>auto simp: pb_step_def pb_ok_def pb_reset_def skipChar_def pb_eof_def pb_bof_def
    skipN_def Let_def skipToEnd_def skipBackN_def assertEof_def assertNotEof_def split: if_splits\<close>)

interpretation pb: guarded_machine pb_step pb_ok pb_guard
  by unfold_locales (use pb_step_exact in blast)

text \<open>
  (C24) A parser whose movements stay inside the buffer never fails and never reads outside:
  every sequence of calls that keep to \<open>pb_guard\<close> succeeds, and for a single call the guard
  is exact.
\<close>

theorem parse_buffer_stays_inside:
  assumes "pb_ok s"
  shows "(guarded_run pb_step pb_guard s ps \<longrightarrow> (\<exists>s'. run_events pb_step s ps = Inr s' \<and> pb_ok s')) \<and>
    (pb_guard s p \<longleftrightarrow> (\<exists>s'. pb_step s p = Inr s' \<and> pb_ok s'))"
  using pb.run_ok [OF assms] pb_step_exact [OF assms] by blast

text \<open>
  Moving back undoes moving forward, except to the very beginning: after \<open>skipN(n)\<close> from
  a position inside the buffer \<open>skipBackN(n)\<close> returns to it, but if that position is the
  first one, which \<open>reset\<close> accepts, it throws.
\<close>

theorem skip_back_undoes_skip:
  assumes "pb_ok s" and "0 \<le> n" and "skipN n s = (None, s1)"
  shows "skipBackN n s1 = (if mPosition s = 0 then Some ParseFail else None, s) \<and> pb_reset (mPosition s) s1 = (None, s)"
  using assms by (auto simp: skipN_def skipBackN_def pb_bof_def pb_reset_def pb_ok_def Let_def split: if_splits)

text \<open>
  A movement that fails leaves the position outside: after \<open>skipN\<close> has thrown, the
  position is behind the end, and a handler that goes on with \<open>skipToChar\<close> reads memory
  behind the buffer; after \<open>skipBackN\<close> over more than what was read, the position is before the
  buffer, and the loop of \<open>skipChars\<close> reads there if the buffer is not empty.
\<close>

theorem failed_skip_leaves_buffer:
  assumes "pb_ok s"
  shows "(lengthRemaining s < n \<longrightarrow> (\<exists>s1. skipN n s = (Some ParseFail, s1) \<and> fst (skipToChar c s1) = Some Overread)) \<and>
    (mPosition s < n \<and> mText s \<noteq> [] \<longrightarrow>
      (\<exists>s1. skipBackN n s = (Some ParseFail, s1) \<and> fst (skipChars cs s1) = Some Overread))"
proof -
  have "fst (skip_loop cs s1) = Some Overread" if "mPosition s1 < 0" for s1
    using that by (subst skip_loop.simps) auto
  then show ?thesis using assms
    by (auto simp: skipN_def skipBackN_def pb_bof_def pb_ok_def Let_def lengthRemaining_def skipToChar_def skipChars_def)
qed

section \<open>Witnesses\<close>

definition line :: pbuf where
  "line = \<lparr>mText = ''SIP/2.0 200 OK'', mPosition = 0\<rparr>"

lemma line_ok: "pb_ok line"
  by (simp add: line_def pb_ok_def)

theorem scanning_exact_witness: "skipToChar (CHR '' '') line = (None, line\<lparr>mPosition := 7\<rparr>)"
  using scanning_exact [OF line_ok, of "\<lambda>x. x = CHR '' ''" "CHR '' ''"] by (simp add: line_def rest_def advance_def)

theorem parse_buffer_stays_inside_witness:
  "\<exists>s'. run_events pb_step line [SkipN 4, SkipN 3, SkipChar] = Inr s' \<and> pb_ok s'"
proof -
  have "guarded_run pb_step pb_guard line [SkipN 4, SkipN 3, SkipChar]"
    by (simp add: line_def pb_step_def skipN_def skipChar_def pb_eof_def Let_def)
  then show ?thesis using parse_buffer_stays_inside [OF line_ok] by blast
qed

theorem skip_back_undoes_skip_witness: "fst (skipBackN 3 (snd (skipN 3 line))) = Some ParseFail"
proof -
  have "skipN 3 line = (None, line\<lparr>mPosition := 3\<rparr>)" by (simp add: line_def skipN_def Let_def)
  from skip_back_undoes_skip [OF line_ok _ this] this show ?thesis by (simp add: line_def)
qed

theorem failed_skip_leaves_buffer_witness: "fst (skipToChar (CHR ''x'') (snd (skipN 20 line))) = Some Overread"
proof -
  have "lengthRemaining line < 20" by (simp add: lengthRemaining_def line_def)
  then obtain s1 where "skipN 20 line = (Some ParseFail, s1)" "fst (skipToChar (CHR ''x'') s1) = Some Overread"
    using failed_skip_leaves_buffer [OF line_ok, of 20 "CHR ''x''"] by blast
  then show ?thesis by simp
qed

end
