(* ===== verification/DataText.thy ===== *)
theory DataText
  imports Strings "HOL-Library.List_Lexorder" "HOL-Library.Product_Lexorder"
begin

text \<open>
  The inline functions of \<open>rutil/Data.hxx\<close> that work on text: the comparisons without regard
  to case, and \<open>escapeToStream\<close>, which writes a text with the characters of a set as
  percent escapes. The table \<open>isCharHex\<close> is in the prebuilt library and so an argument; that
  it marks the hexadecimal digits is the hypothesis \<open>hex_table\<close>.
\<close>

section \<open>Comparisons without regard to case\<close>

definition char_code :: "char \<Rightarrow> int" where
  "char_code c = int (of_char c)"

text \<open>
  \<open>strncasecmp\<close> of C: it compares at most \<open>n\<close> characters and stops at a null. Its callers
  here never give it an \<open>n\<close> beyond the end of a buffer.
\<close>

fun strncasecmp :: "nat \<Rightarrow> string \<Rightarrow> string \<Rightarrow> int" where
  "strncasecmp (Suc n) (a # s) (b # t) =
     (let x = char_code (c_tolower a); y = char_code (c_tolower b) in
      if x \<noteq> y then x - y else if x = 0 then 0 else strncasecmp n s t)"
| "strncasecmp n s t = 0"

definition isEqualNoCase :: "string \<Rightarrow> string \<Rightarrow> bool" where
  "isEqualNoCase left right =
     (length left = length right \<and> strncasecmp (length left) left right = 0)"

definition isLessThanNoCase :: "string \<Rightarrow> string \<Rightarrow> bool" where
  "isLessThanNoCase left right =
     (let minsize = min (length left) (length right);
          res = strncasecmp minsize left right
      in if res < 0 then True else if res > 0 then False else length left < length right)"

text \<open>
  What the comparisons look at: the text up to its first null in lower case, and then the
  length of the whole text.
\<close>

definition nocase_key :: "string \<Rightarrow> int list \<times> nat" where
  "nocase_key s = (map (char_code \<circ> c_tolower) (takeWhile (\<lambda>c. char_code (c_tolower c) \<noteq> 0) s), length s)"

lemma char_code_nonneg [simp]: "0 \<le> char_code c"
  by (simp add: char_code_def)

lemma nocase_key_Cons:
  "nocase_key (a # s) = (let x = char_code (c_tolower a) in
     if x = 0 then ([], Suc (length s)) else (x # fst (nocase_key s), Suc (snd (nocase_key s))))"
  by (simp add: nocase_key_def Let_def)

lemma isLessThanNoCase_Cons:
  "isLessThanNoCase (a # l) (b # r) = (let x = char_code (c_tolower a); y = char_code (c_tolower b) in
     if x \<noteq> y then x < y else if x = 0 then length l < length r else isLessThanNoCase l r)"
  by (simp add: isLessThanNoCase_def Let_def)

lemma nocase_key_Cons_less:
  "nocase_key (a # l) < nocase_key (b # r) \<longleftrightarrow> (let x = char_code (c_tolower a); y = char_code (c_tolower b) in
     if x \<noteq> y then x < y else if x = 0 then length l < length r else nocase_key l < nocase_key r)"
proof -
  have "0 \<le> char_code (c_tolower a)" "0 \<le> char_code (c_tolower b)" by simp_all
  then show ?thesis
    by (cases "nocase_key l"; cases "nocase_key r")
      (auto simp: nocase_key_Cons Let_def less_le_trans order_less_le simp del: char_code_nonneg)
qed

lemma isLessThanNoCase_key: "isLessThanNoCase l r \<longleftrightarrow> nocase_key l < nocase_key r"
proof (induction l r rule: list_induct2')
  case (4 a l b r)
  then show ?case by (simp only: isLessThanNoCase_Cons nocase_key_Cons_less)
qed (auto simp: isLessThanNoCase_def nocase_key_def)

lemma isEqualNoCase_key: "isEqualNoCase l r \<longleftrightarrow> nocase_key l = nocase_key r"
proof (induction l r rule: list_induct2')
  case (4 a l b r)
  let ?x = "char_code (c_tolower a)" and ?y = "char_code (c_tolower b)"
  show ?case using 4
    by (cases "?x = ?y"; cases "?x = 0"; cases "?y = 0")
      (auto simp: isEqualNoCase_def nocase_key_Cons Let_def prod_eq_iff)
qed (auto simp: isEqualNoCase_def nocase_key_def)

lemma char_code_inj [simp]: "char_code a = char_code b \<longleftrightarrow> a = b"
  by (simp add: char_code_def)

text \<open>
  \<open>isLessThanNoCase\<close> can order the keys of a map: it is irreflexive and transitive, and
  two texts are neither below nor above each other exactly when \<open>isEqualNoCase\<close> holds. On
  texts without a null, \<open>isEqualNoCase\<close> is equality up to case; after a null it looks at
  nothing but the length.
\<close>

theorem no_case_order:
  "\<not> isLessThanNoCase a a \<and>
   (isLessThanNoCase a b \<and> isLessThanNoCase b c \<longrightarrow> isLessThanNoCase a c) \<and>
   (\<not> isLessThanNoCase a b \<and> \<not> isLessThanNoCase b a \<longleftrightarrow> isEqualNoCase a b) \<and>
   (CHR 0x00 \<notin> set a \<and> CHR 0x00 \<notin> set b \<longrightarrow> (isEqualNoCase a b \<longleftrightarrow> map c_tolower a = map c_tolower b)) \<and>
   isEqualNoCase (a @ CHR 0x00 # b) (a @ CHR 0x00 # c) = (length b = length c)"
proof -
  have nul: "char_code (c_tolower d) = 0 \<longleftrightarrow> d = CHR 0x00" for d
  proof -
    have "of_char (CHR 0x00) = (0 :: nat)" by simp
    then have "of_char d = (0 :: nat) \<longleftrightarrow> d = CHR 0x00" by (metis of_char_eq_iff)
    then show ?thesis by (auto simp: c_tolower_def char_code_def Let_def)
  qed
  have tw: "takeWhile (\<lambda>c. char_code (c_tolower c) \<noteq> 0) s = s" if "CHR 0x00 \<notin> set s" for s
    using that nul by (simp add: takeWhile_eq_all_conv) metis
  have "map (char_code \<circ> c_tolower) a = map (char_code \<circ> c_tolower) b \<longleftrightarrow> map c_tolower a = map c_tolower b" for a b
    by (auto simp: inj_def simp flip: map_map intro!: inj_map_eq_map)
  then have "CHR 0x00 \<notin> set a \<and> CHR 0x00 \<notin> set b \<longrightarrow> (isEqualNoCase a b \<longleftrightarrow> map c_tolower a = map c_tolower b)"
    using tw [of a] tw [of b] by (metis isEqualNoCase_key length_map nocase_key_def prod.inject)
  moreover have "takeWhile (\<lambda>c. char_code (c_tolower c) \<noteq> 0) (a @ CHR 0x00 # b) =
      takeWhile (\<lambda>c. char_code (c_tolower c) \<noteq> 0) a" for b
    using nul [of "CHR 0x00"] by (induction a) auto
  then have "isEqualNoCase (a @ CHR 0x00 # b) (a @ CHR 0x00 # c) = (length b = length c)"
    by (simp add: isEqualNoCase_key nocase_key_def)
  ultimately show ?thesis by (auto simp: isLessThanNoCase_key isEqualNoCase_key)
qed

theorem no_case_order_witness: "isLessThanNoCase ''Allow'' ''VIA'' \<and> isEqualNoCase ''via'' ''VIA''"
  using no_case_order [of "''via''" "''VIA''" "''Allow''"]
  by (auto simp: c_tolower_def isLessThanNoCase_def char_code_def Let_def)

section \<open>Percent escapes\<close>

definition hex_digit :: "nat \<Rightarrow> char" where
  "hex_digit n = ''0123456789ABCDEF'' ! n"

definition percent :: "char \<Rightarrow> string" where
  "percent c = (let p = of_char c :: nat in CHR ''%'' # hex_digit (p div 16) # [hex_digit (p mod 16)])"

definition escaped_ahead :: "(char \<Rightarrow> bool) \<Rightarrow> string \<Rightarrow> bool" where
  "escaped_ahead isHex s = (case s of a # b # _ \<Rightarrow> isHex a \<and> isHex b | _ \<Rightarrow> False)"

fun escapeToStream :: "(char \<Rightarrow> bool) \<Rightarrow> (char \<Rightarrow> bool) \<Rightarrow> string \<Rightarrow> string" where
  "escapeToStream isHex shouldEscape [] = []"
| "escapeToStream isHex shouldEscape (p # ps) =
     (if p = CHR ''%'' \<and> escaped_ahead isHex ps
      then p # take 2 ps @ escapeToStream isHex shouldEscape (drop 2 ps)
      else if shouldEscape p then percent p @ escapeToStream isHex shouldEscape ps
      else p # escapeToStream isHex shouldEscape ps)"

text \<open>The digits that the table marks, and the reading of an escaped text.\<close>

definition hex_value :: "char \<Rightarrow> nat option" where
  "hex_value c = (let n = of_char c :: nat in
     if 48 \<le> n \<and> n \<le> 57 then Some (n - 48)
     else if 65 \<le> n \<and> n \<le> 70 then Some (n - 55)
     else if 97 \<le> n \<and> n \<le> 102 then Some (n - 87) else None)"

definition is_hex :: "char \<Rightarrow> bool" where
  "is_hex c = (hex_value c \<noteq> None)"

definition hex_table :: "(char \<Rightarrow> bool) \<Rightarrow> bool" where
  "hex_table isHex = (\<forall>c. isHex c \<longleftrightarrow> is_hex c)"

fun unescape :: "string \<Rightarrow> string" where
  "unescape [] = []"
| "unescape (p # ps) =
     (if p = CHR ''%'' \<and> escaped_ahead is_hex ps
      then char_of (16 * the (hex_value (ps ! 0)) + the (hex_value (ps ! 1))) # unescape (drop 2 ps)
      else p # unescape ps)"

declare escapeToStream.simps(2) [simp del] unescape.simps(2) [simp del]

lemma hex_table_eq: "hex_table isHex \<Longrightarrow> isHex = is_hex"
  by (simp add: hex_table_def fun_eq_iff)

lemma hex_value_digit [simp]: "n < 16 \<Longrightarrow> hex_value (hex_digit n) = Some n"
proof -
  have "\<forall>n \<in> set [0..<16]. hex_value (hex_digit n) = Some n" by code_simp
  then show "n < 16 \<Longrightarrow> ?thesis" by simp
qed

lemma is_hex_digit [simp]: "n < 16 \<Longrightarrow> is_hex (hex_digit n)"
  by (simp add: is_hex_def)

lemma is_hex_percent [simp]: "\<not> is_hex (CHR ''%'')"
  by code_simp

lemma nibble [simp]: "of_char c div 16 < (16 :: nat)"
  using nat_of_char_less_256 [of c] by (simp add: less_mult_imp_div_less del: nat_of_char_less_256)

lemma escape_triple [simp]:
  "is_hex a \<Longrightarrow> is_hex b \<Longrightarrow> escapeToStream is_hex e (CHR ''%'' # a # b # s) = CHR ''%'' # a # b # escapeToStream is_hex e s"
  by (simp add: escapeToStream.simps escaped_ahead_def)

lemma escape_other:
  "\<not> (p = CHR ''%'' \<and> escaped_ahead h ps) \<Longrightarrow> escapeToStream h e (p # ps) =
     (if e p then percent p @ escapeToStream h e ps else p # escapeToStream h e ps)"
  by (auto simp: escapeToStream.simps)

lemma unescape_triple [simp]:
  "is_hex a \<Longrightarrow> is_hex b \<Longrightarrow> unescape (CHR ''%'' # a # b # s) =
     char_of (16 * the (hex_value a) + the (hex_value b)) # unescape s"
  by (simp add: unescape.simps escaped_ahead_def)

lemma unescape_other: "\<not> (p = CHR ''%'' \<and> escaped_ahead is_hex ps) \<Longrightarrow> unescape (p # ps) = p # unescape ps"
  by (auto simp: unescape.simps)

lemma percent_again [simp]:
  "escapeToStream is_hex e (percent c @ s) = percent c @ escapeToStream is_hex e s"
  "unescape (percent c @ s) = c # unescape s"
  by (simp_all add: percent_def Let_def)

text \<open>What follows a percent sign that is no escape does not become one.\<close>

lemma escape_hex_first:
  "is_hex c \<Longrightarrow> escapeToStream is_hex e ps = c # qs \<Longrightarrow> \<exists>rs. ps = c # rs \<and> qs = escapeToStream is_hex e rs"
  by (cases ps) (auto simp: escapeToStream.simps percent_def Let_def split: if_splits)

lemma escaped_ahead_escape:
  assumes "\<not> escaped_ahead is_hex s"
  shows "\<not> escaped_ahead is_hex (escapeToStream is_hex e s)"
proof
  assume "escaped_ahead is_hex (escapeToStream is_hex e s)"
  then obtain a b qs where o: "escapeToStream is_hex e s = a # b # qs" "is_hex a" "is_hex b"
    by (auto simp: escaped_ahead_def split: list.splits)
  from escape_hex_first [OF o(2,1)] obtain rs where r: "s = a # rs" "escapeToStream is_hex e rs = b # qs" by auto
  from escape_hex_first [OF o(3) r(2)] obtain rs' where "rs = b # rs'" by auto
  then show False using assms r(1) o by (simp add: escaped_ahead_def)
qed

text \<open>
  Escaping does not change what a text means and may be repeated: a reader that takes the
  escapes back gets from the escaped text what it gets from the text itself, and escaping an
  escaped text changes nothing.
\<close>

theorem escape_keeps_meaning:
  assumes "hex_table isHex"
  shows "unescape (escapeToStream isHex shouldEscape s) = unescape s \<and>
    escapeToStream isHex shouldEscape (escapeToStream isHex shouldEscape s) = escapeToStream isHex shouldEscape s"
  unfolding hex_table_eq [OF assms]
proof (induction is_hex shouldEscape s rule: escapeToStream.induct)
  case (2 e p ps)
  show ?case
  proof (cases "p = CHR ''%'' \<and> escaped_ahead is_hex ps")
    case True
    then obtain a b qs where "ps = a # b # qs" "is_hex a" "is_hex b"
      by (auto simp: escaped_ahead_def split: list.splits)
    then show ?thesis using 2 True by simp
  next
    case False
    then have "\<not> (p = CHR ''%'' \<and> escaped_ahead is_hex (escapeToStream is_hex e ps))"
      using escaped_ahead_escape by blast
    then show ?thesis using 2 False by (cases "e p") (simp_all add: escape_other unescape_other)
  qed
qed simp

lemma escape_plain: "escapeToStream (\<lambda>c. False) e s = concat (map (\<lambda>c. if e c then percent c else [c]) s)"
  by (induction s) (auto simp: escape_other escaped_ahead_def split: list.splits)

lemma escape_no_digits:
  assumes "\<not> e (CHR ''%'')" and "\<forall>c. is_hex c \<longrightarrow> \<not> e c"
  shows "escapeToStream is_hex e s = concat (map (\<lambda>c. if e c then percent c else [c]) s)"
  using assms
proof (induction is_hex e s rule: escapeToStream.induct)
  case (2 e p ps)
  show ?case
  proof (cases "p = CHR ''%'' \<and> escaped_ahead is_hex ps")
    case True
    then obtain a b qs where "ps = a # b # qs" "is_hex a" "is_hex b"
      by (auto simp: escaped_ahead_def split: list.splits)
    then show ?thesis using 2 True by simp
  qed (use 2 in \<open>simp add: escape_other\<close>)
qed simp

text \<open>
  The case for escapes that are there already is not superfluous, as a comment in the
  code supposes: without it (\<open>isHex\<close> nowhere true) the function gives the same for every text
  exactly if neither the percent sign nor a hexadecimal digit is to be escaped.
\<close>

theorem escape_special_case:
  assumes "hex_table isHex"
  shows "(\<forall>s. escapeToStream isHex shouldEscape s = escapeToStream (\<lambda>c. False) shouldEscape s) \<longleftrightarrow>
    \<not> shouldEscape (CHR ''%'') \<and> (\<forall>c. is_hex c \<longrightarrow> \<not> shouldEscape c)"
  unfolding hex_table_eq [OF assms]
proof
  assume eq: "\<forall>s. escapeToStream is_hex shouldEscape s = escapeToStream (\<lambda>c. False) shouldEscape s"
  have three: "\<not> shouldEscape (CHR ''%'') \<and> \<not> shouldEscape c" if "is_hex c" for c
    using arg_cong [OF eq [THEN spec, of "[CHR ''%'', c, c]"], of length] that
    by (auto simp: escape_plain percent_def Let_def split: if_splits)
  have "is_hex (CHR ''0'')" by code_simp
  with three show "\<not> shouldEscape (CHR ''%'') \<and> (\<forall>c. is_hex c \<longrightarrow> \<not> shouldEscape c)" by blast
qed (simp add: escape_plain escape_no_digits)

theorem escape_keeps_meaning_witness:
  "unescape (escapeToStream is_hex (\<lambda>c. c = CHR '' '') ''a b%20c'') = ''a b c''"
proof -
  have "hex_table is_hex" by (simp add: hex_table_def)
  moreover have "unescape ''a b%20c'' = ''a b c''" by code_simp
  ultimately show ?thesis using escape_keeps_meaning by metis
qed

theorem escape_special_case_witness:
  "\<exists>s. escapeToStream is_hex (\<lambda>c. c = CHR ''%'') s \<noteq> escapeToStream (\<lambda>c. False) (\<lambda>c. c = CHR ''%'') s"
  using escape_special_case [of is_hex "\<lambda>c. c = CHR ''%''"] by (simp add: hex_table_def)

end
