(* ===== verification/Publications.thy ===== *)
theory Publications
  imports DataText SipMessages Queues
begin

text \<open>
  The publication documents of \<open>resip/dum/PublicationPersistenceManager.hxx\<close> and the security
  attributes of \<open>resip/stack/SecurityAttributes.hxx\<close>: \<open>stream\<close> writes a document as XML
  for a peer server, \<open>deserialize\<close> reads it there.

  The XML cursor, the escaping of character data, the conversion of numbers and the contents
  classes are in the prebuilt library. They are the record \<open>pub_lib\<close>, an argument of the
  definitions; what their headers say of them is the hypothesis \<open>pub_laws\<close>: the cursor walks
  over the tree of the text it was made from, decoding undoes encoding, and contents have the
  type and the body they were made with. \<open>operator<<\<close> of an unsigned integer is its decimal
  form. The loop of \<open>deserialize\<close> asks the cursor when to stop, so it is a partial function.
\<close>

section \<open>Security attributes\<close>

datatype SignatureStatus = SignatureNone | SignatureIsBad | SignatureTrusted | SignatureCATrusted
  | SignatureNotTrusted | SignatureSelfSigned

datatype OutgoingEncryptionLevel = LevelNone | LevelSign | LevelEncrypt | LevelSignAndEncrypt

datatype IdentityStrength = From | FailedIdentity | Identity

record SecurityAttributes =
  mIsEncrypted :: bool
  mSigStatus :: SignatureStatus
  mSigner :: string
  mIdentity :: string
  mStrength :: IdentityStrength
  mLevel :: OutgoingEncryptionLevel
  mEncryptionPerformed :: bool

section \<open>The library\<close>

text \<open>
  \<open>'x\<close> is the type of cursors, \<open>'c\<close> that of contents; a MIME type is the pair of its
  names.
\<close>

record ('x, 'c) pub_lib =
  XMLCursor :: "string \<Rightarrow> 'x"
  getTag :: "'x \<Rightarrow> string"
  getValue :: "'x \<Rightarrow> string"
  firstChild :: "'x \<Rightarrow> bool \<times> 'x"
  nextSibling :: "'x \<Rightarrow> bool \<times> 'x"
  parent :: "'x \<Rightarrow> bool \<times> 'x"
  xmlCharDataEncode :: "string \<Rightarrow> string"
  xmlCharDataDecode :: "string \<Rightarrow> string"
  convertUInt64 :: "string \<Rightarrow> uint64"
  createContents :: "string \<times> string \<Rightarrow> string \<Rightarrow> 'c"
  cloneContents :: "'c \<Rightarrow> 'c"
  getType :: "'c \<Rightarrow> string \<times> string"
  getBodyData :: "'c \<Rightarrow> string"
  SecurityAttributes0 :: SecurityAttributes

section \<open>Documents\<close>

record 'c pubdoc =
  mEventType :: string
  mDocumentKey :: string
  mETag :: string
  mExpirationTime :: uint64
  mLastUpdated :: uint64
  mLingerTime :: uint64
  mContents :: "'c option"
  mSecurityAttributes :: "SecurityAttributes option"
  mSyncPublication :: bool

definition PubDocument0 :: "'c pubdoc" where
  "PubDocument0 = \<lparr>mEventType = [], mDocumentKey = [], mETag = [], mExpirationTime = 0, mLastUpdated = 0,
     mLingerTime = 0, mContents = None, mSecurityAttributes = None, mSyncPublication = False\<rparr>"

definition PubDocument ::
  "('x, 'c) pub_lib \<Rightarrow> uint64 \<Rightarrow> string \<Rightarrow> string \<Rightarrow> string \<Rightarrow> uint64 \<Rightarrow> 'c option \<Rightarrow>
   SecurityAttributes option \<Rightarrow> bool \<Rightarrow> 'c pubdoc" where
  "PubDocument L now eventType documentKey eTag expirationTime contents securityAttributes syncPublication =
     \<lparr>mEventType = eventType, mDocumentKey = documentKey, mETag = eTag, mExpirationTime = expirationTime,
      mLastUpdated = now, mLingerTime = expirationTime, mContents = map_option (cloneContents L) contents,
      mSecurityAttributes = securityAttributes, mSyncPublication = syncPublication\<rparr>"

definition CRLF :: string where
  "CRLF = [CHR 0x0D, CHR 0x0A]"

text \<open>One line of the document: the indentation, the tag and its value.\<close>

definition tag_line :: "string \<times> string \<times> string \<Rightarrow> string" where
  "tag_line l = (case l of (indent, t, v) \<Rightarrow> indent @ ''<'' @ t @ ''>'' @ v @ ''</'' @ t @ ''>'' @ CRLF)"

fun sigstatus_text :: "SignatureStatus \<Rightarrow> string" where
  "sigstatus_text SignatureNone = ''none''"
| "sigstatus_text SignatureIsBad = ''bad''"
| "sigstatus_text SignatureTrusted = ''trusted''"
| "sigstatus_text SignatureCATrusted = ''catrusted''"
| "sigstatus_text SignatureNotTrusted = ''nottrusted''"
| "sigstatus_text SignatureSelfSigned = ''selfsigned''"

fun strength_text :: "IdentityStrength \<Rightarrow> string" where
  "strength_text From = ''from''"
| "strength_text FailedIdentity = ''failedidentity''"
| "strength_text Identity = ''identity''"

definition security_lines :: "('x, 'c) pub_lib \<Rightarrow> SecurityAttributes \<Rightarrow> (string \<times> string \<times> string) list" where
  "security_lines L sa =
     (''   '', ''isencrypted'', if mIsEncrypted sa then ''true'' else ''false'') #
     (if mIsEncrypted sa then
        (''   '', ''sigstatus'', sigstatus_text (mSigStatus sa)) #
        (if mSigner sa \<noteq> [] then [(''   '', ''signer'', xmlCharDataEncode L (mSigner sa))] else []) @
        (if mIdentity sa \<noteq> [] then
           [(''   '', ''identity'', xmlCharDataEncode L (mIdentity sa)),
            (''   '', ''identitystrength'', strength_text (mStrength sa))] else [])
      else [])"

definition stream_lines :: "('x, 'c) pub_lib \<Rightarrow> uint64 \<Rightarrow> 'c pubdoc \<Rightarrow> (string \<times> string \<times> string) list" where
  "stream_lines L now d =
     [(''  '', ''eventtype'', xmlCharDataEncode L (mEventType d)),
      (''  '', ''documentkey'', xmlCharDataEncode L (mDocumentKey d)),
      (''  '', ''etag'', xmlCharDataEncode L (mETag d)),
      (''  '', ''expires'', digits_of (unat (if mExpirationTime d = 0 \<or> mExpirationTime d \<le> now
         then 0 else mExpirationTime d - now))),
      (''  '', ''lastupdate'', digits_of (unat (now - mLastUpdated d)))] @
     (case mContents d of
        Some c \<Rightarrow> if mExpirationTime d \<noteq> 0 then
            (case getType L c of (mtype, subtype) \<Rightarrow>
               [(''  '', ''contentstype'', xmlCharDataEncode L mtype),
                (''  '', ''contentssubtype'', xmlCharDataEncode L subtype),
                (''  '', ''contents'', xmlCharDataEncode L (getBodyData L c))]) @
            (case mSecurityAttributes d of None \<Rightarrow> [] | Some sa \<Rightarrow> security_lines L sa)
          else []
      | None \<Rightarrow> [])"

definition stream :: "('x, 'c) pub_lib \<Rightarrow> uint64 \<Rightarrow> 'c pubdoc \<Rightarrow> string" where
  "stream L now d =
     ''<pubinfo>'' @ CRLF @ concat (map tag_line (stream_lines L now d)) @ ''</pubinfo>'' @ CRLF"

section \<open>Reading a document\<close>

text \<open>The variables of \<open>deserialize\<close>: the document, the two MIME names, and \<open>success\<close>.\<close>

record 'c reading =
  rdoc :: "'c pubdoc"
  mimeTypeString :: string
  mimeSubtypeString :: string
  success :: bool

text \<open>The security attributes of the document, made when there are none.\<close>

definition on_security ::
  "('x, 'c) pub_lib \<Rightarrow> (SecurityAttributes \<Rightarrow> SecurityAttributes) \<Rightarrow> 'c reading \<Rightarrow> 'c reading" where
  "on_security L f r = r\<lparr>rdoc := (rdoc r)\<lparr>mSecurityAttributes :=
     Some (f (case mSecurityAttributes (rdoc r) of None \<Rightarrow> SecurityAttributes0 L | Some sa \<Rightarrow> sa))\<rparr>\<rparr>"

definition read_sigstatus :: "string \<Rightarrow> SecurityAttributes \<Rightarrow> SecurityAttributes" where
  "read_sigstatus v sa =
     (if isEqualNoCase v ''none'' then sa\<lparr>mSigStatus := SignatureNone\<rparr>
      else if isEqualNoCase v ''bad'' then sa\<lparr>mSigStatus := SignatureIsBad\<rparr>
      else if isEqualNoCase v ''trusted'' then sa\<lparr>mSigStatus := SignatureTrusted\<rparr>
      else if isEqualNoCase v ''catrusted'' then sa\<lparr>mSigStatus := SignatureCATrusted\<rparr>
      else if isEqualNoCase v ''nottrusted'' then sa\<lparr>mSigStatus := SignatureNotTrusted\<rparr>
      else if isEqualNoCase v ''selfsigned'' then sa\<lparr>mSigStatus := SignatureSelfSigned\<rparr>
      else sa)"

definition read_strength :: "string \<Rightarrow> SecurityAttributes \<Rightarrow> SecurityAttributes" where
  "read_strength v sa =
     (if isEqualNoCase v ''from'' then sa\<lparr>mStrength := From\<rparr>
      else if isEqualNoCase v ''failedidentity'' then sa\<lparr>mStrength := FailedIdentity\<rparr>
      else if isEqualNoCase v ''identity'' then sa\<lparr>mStrength := Identity\<rparr>
      else sa)"

text \<open>What the body of the loop does with the value \<open>v\<close> of a child with the tag \<open>t\<close>.\<close>

definition read_field ::
  "('x, 'c) pub_lib \<Rightarrow> uint64 \<Rightarrow> string \<Rightarrow> string \<Rightarrow> 'c reading \<Rightarrow> 'c reading" where
  "read_field L now t v r =
     (if isEqualNoCase t ''eventtype'' then r\<lparr>rdoc := (rdoc r)\<lparr>mEventType := xmlCharDataDecode L v\<rparr>\<rparr>
      else if isEqualNoCase t ''documentkey'' then r\<lparr>rdoc := (rdoc r)\<lparr>mDocumentKey := xmlCharDataDecode L v\<rparr>\<rparr>
      else if isEqualNoCase t ''etag'' then r\<lparr>rdoc := (rdoc r)\<lparr>mETag := xmlCharDataDecode L v\<rparr>\<rparr>
      else if isEqualNoCase t ''expires'' then
        (let expires = convertUInt64 L v; e = (if expires = 0 then 0 else now + expires)
         in r\<lparr>rdoc := (rdoc r)\<lparr>mExpirationTime := e, mLingerTime := e\<rparr>\<rparr>)
      else if isEqualNoCase t ''lastupdated'' then r\<lparr>rdoc := (rdoc r)\<lparr>mLastUpdated := now - convertUInt64 L v\<rparr>\<rparr>
      else if isEqualNoCase t ''contentstype'' then r\<lparr>mimeTypeString := xmlCharDataDecode L v\<rparr>
      else if isEqualNoCase t ''contentssubtype'' then r\<lparr>mimeSubtypeString := xmlCharDataDecode L v\<rparr>
      else if isEqualNoCase t ''contents'' then
        r\<lparr>rdoc := (rdoc r)\<lparr>mContents := Some (cloneContents L
            (createContents L (mimeTypeString r, mimeSubtypeString r) (xmlCharDataDecode L v)))\<rparr>,
          success := True\<rparr>
      else if isEqualNoCase t ''isencrypted'' then
        on_security L (\<lambda>sa. if isEqualNoCase v ''true'' then sa\<lparr>mIsEncrypted := True\<rparr> else sa) r
      else if isEqualNoCase t ''sigstatus'' then on_security L (read_sigstatus v) r
      else if isEqualNoCase t ''signer'' then on_security L (\<lambda>sa. sa\<lparr>mSigner := xmlCharDataDecode L v\<rparr>) r
      else if isEqualNoCase t ''identity'' then on_security L (\<lambda>sa. sa\<lparr>mIdentity := xmlCharDataDecode L v\<rparr>) r
      else if isEqualNoCase t ''identitystrength'' then on_security L (read_strength v) r
      else r)"

text \<open>The tags that \<open>deserialize\<close> looks into.\<close>

definition known_tags :: "string list" where
  "known_tags = [''eventtype'', ''documentkey'', ''etag'', ''expires'', ''lastupdated'', ''contentstype'',
     ''contentssubtype'', ''contents'', ''isencrypted'', ''sigstatus'', ''signer'', ''identity'', ''identitystrength'']"

definition read_child :: "('x, 'c) pub_lib \<Rightarrow> uint64 \<Rightarrow> 'c reading \<times> 'x \<Rightarrow> 'c reading \<times> 'x" where
  "read_child L now rx = (case rx of (r, x) \<Rightarrow>
     if list_ex (isEqualNoCase (getTag L x)) known_tags then
       (case firstChild L x of
          (True, y) \<Rightarrow> (read_field L now (getTag L x) (getValue L y) r, snd (parent L y))
        | (False, y) \<Rightarrow> (r, y))
     else (r, x))"

partial_function (option) read_children ::
  "('x, 'c) pub_lib \<Rightarrow> uint64 \<Rightarrow> 'c reading \<times> 'x \<Rightarrow> ('c reading \<times> 'x) option" where
  "read_children L now rx = (case read_child L now rx of (r, x) \<Rightarrow>
     case nextSibling L x of (b, y) \<Rightarrow>
       if b then read_children L now (r, y) else Some (r, y))"

definition deserialize ::
  "('x, 'c) pub_lib \<Rightarrow> uint64 \<Rightarrow> uint64 \<Rightarrow> 'x \<Rightarrow> (bool \<times> 'c pubdoc \<times> 'x) option" where
  "deserialize L timeSecs now x =
     (let now = (if now \<le> 0 then timeSecs else now);
          r = \<lparr>rdoc = PubDocument0, mimeTypeString = [], mimeSubtypeString = [], success = False\<rparr>
      in if isEqualNoCase (getTag L x) ''pubinfo'' then
           (case firstChild L x of
              (True, y) \<Rightarrow> (case read_children L now (r, y) of
                  None \<Rightarrow> None
                | Some (r, z) \<Rightarrow> Some (success r, rdoc r, snd (parent L z)))
            | (False, y) \<Rightarrow> Some (success r, rdoc r, y))
         else Some (success r, rdoc r, x))"

section \<open>What the library promises\<close>

datatype xml = Elem string "xml list" | Text string

text \<open>
  A position in a tree, as the comment in \<open>XMLCursor.hxx\<close> draws it: the current node with the
  siblings after it, and the same for every node above.
\<close>

type_synonym position = "(xml \<times> xml list) list"

fun to_child :: "position \<Rightarrow> position option" where
  "to_child ((Elem t (c # cs), after) # up) = Some ((c, cs) # (Elem t (c # cs), after) # up)"
| "to_child p = None"

fun to_sibling :: "position \<Rightarrow> position option" where
  "to_sibling ((n, m # ms) # up) = Some ((m, ms) # up)"
| "to_sibling p = None"

fun to_parent :: "position \<Rightarrow> position option" where
  "to_parent (a # b # up) = Some (b # up)"
| "to_parent p = None"

definition moves :: "('x \<Rightarrow> position) \<Rightarrow> ('x \<Rightarrow> bool \<times> 'x) \<Rightarrow> (position \<Rightarrow> position option) \<Rightarrow> bool" where
  "moves pos f to = (\<forall>x. case to (pos x) of
       Some p \<Rightarrow> fst (f x) \<and> pos (snd (f x)) = p
     | None \<Rightarrow> \<not> fst (f x) \<and> pos (snd (f x)) = pos x)"

definition cursor_laws :: "('x, 'c) pub_lib \<Rightarrow> ('x \<Rightarrow> position) \<Rightarrow> bool" where
  "cursor_laws L pos = (moves pos (firstChild L) to_child \<and> moves pos (nextSibling L) to_sibling \<and>
     moves pos (parent L) to_parent \<and>
     (\<forall>x t cs after up. pos x = (Elem t cs, after) # up \<longrightarrow> getTag L x = t) \<and>
     (\<forall>x v after up. pos x = (Text v, after) # up \<longrightarrow> getValue L x = v))"

definition white :: "char \<Rightarrow> bool" where
  "white c = (c \<in> {CHR '' '', CHR 0x09, CHR 0x0A, CHR 0x0D})"

definition trimmed :: "string \<Rightarrow> bool" where
  "trimmed v = (v \<noteq> [] \<longrightarrow> \<not> white (hd v) \<and> \<not> white (last v))"

definition tag_name :: "string \<Rightarrow> bool" where
  "tag_name t = (t \<noteq> [] \<and> (\<forall>c \<in> set t. 97 \<le> (of_char c :: nat) \<and> of_char c \<le> (122 :: nat)))"

text \<open>A line of character data between tags, and the node that it stands for.\<close>

definition plain_line :: "string \<times> string \<times> string \<Rightarrow> bool" where
  "plain_line l = (case l of (indent, t, v) \<Rightarrow>
     list_all white indent \<and> tag_name t \<and> CHR ''<'' \<notin> set v \<and> trimmed v)"

definition line_node :: "string \<times> string \<times> string \<Rightarrow> xml" where
  "line_node l = (case l of (indent, t, v) \<Rightarrow> Elem t (if v = [] then [] else [Text v]))"

definition parse_law :: "('x, 'c) pub_lib \<Rightarrow> ('x \<Rightarrow> position) \<Rightarrow> bool" where
  "parse_law L pos = (\<forall>root ls. tag_name root \<and> (\<forall>l \<in> set ls. plain_line l) \<longrightarrow>
     pos (XMLCursor L (''<'' @ root @ ''>'' @ CRLF @ concat (map tag_line ls) @ ''</'' @ root @ ''>'' @ CRLF)) =
       [(Elem root (map line_node ls), [])])"

definition text_laws :: "('x, 'c) pub_lib \<Rightarrow> bool" where
  "text_laws L = ((\<forall>v. xmlCharDataDecode L (xmlCharDataEncode L v) = v) \<and>
     (\<forall>v. xmlCharDataEncode L v = [] \<longleftrightarrow> v = []) \<and>
     (\<forall>v. CHR ''<'' \<notin> set (xmlCharDataEncode L v)) \<and>
     (\<forall>v. trimmed v \<longrightarrow> trimmed (xmlCharDataEncode L v)) \<and>
     (\<forall>n. convertUInt64 L (digits_of (unat n)) = n))"

definition contents_laws :: "('x, 'c) pub_lib \<Rightarrow> bool" where
  "contents_laws L = (\<forall>m b c. getType L (createContents L m b) = m \<and> getBodyData L (createContents L m b) = b \<and>
     getType L (cloneContents L c) = getType L c \<and> getBodyData L (cloneContents L c) = getBodyData L c)"

section \<open>The walk over the tree\<close>

lemma moves_Some: "moves pos f to \<Longrightarrow> to (pos x) = Some p \<Longrightarrow> \<exists>y. f x = (True, y) \<and> pos y = p"
  by (cases "f x") (simp add: moves_def, drule spec [of _ x], simp)

lemma moves_None: "moves pos f to \<Longrightarrow> to (pos x) = None \<Longrightarrow> \<exists>y. f x = (False, y) \<and> pos y = pos x"
  by (cases "f x") (simp add: moves_def, drule spec [of _ x], simp)

lemma to_child_Some: "to_child p = Some q \<Longrightarrow> \<exists>c cs. q = (c, cs) # p \<and> p \<noteq> []"
  by (cases p rule: to_child.cases) auto

text \<open>Reading one child leaves the cursor on it.\<close>

lemma read_child_position:
  assumes "cursor_laws L pos"
  shows "pos (snd (read_child L now (r, x))) = pos x"
proof (cases "list_ex (isEqualNoCase (getTag L x)) known_tags")
  case True
  have m: "moves pos (firstChild L) to_child" "moves pos (parent L) to_parent"
    using assms by (auto simp: cursor_laws_def)
  show ?thesis
  proof (cases "to_child (pos x)")
    case None
    then show ?thesis using True moves_None [OF m(1) None] by (auto simp: read_child_def)
  next
    case (Some q)
    obtain y where y: "firstChild L x = (True, y)" "pos y = q" using moves_Some [OF m(1) Some] by blast
    obtain c cs where "q = (c, cs) # pos x" "pos x \<noteq> []" using to_child_Some [OF Some] by blast
    then have "to_parent (pos y) = Some (pos x)" using y(2) by (cases "pos x") auto
    then obtain z where "parent L y = (True, z)" "pos z = pos x" using moves_Some [OF m(2)] by blast
    then show ?thesis using True y(1) by (simp add: read_child_def)
  qed
qed (simp add: read_child_def)

lemma read_children_returns:
  assumes "cursor_laws L pos"
  shows "pos x = (n, ms) # up \<Longrightarrow> \<exists>r' y k. read_children L now (r, x) = Some (r', y) \<and> pos y = (k, []) # up"
proof (induction ms arbitrary: n r x)
  case Nil
  obtain r1 x1 where c: "read_child L now (r, x) = (r1, x1)" by (cases "read_child L now (r, x)")
  then have "pos x1 = (n, []) # up" using read_child_position [OF assms, of now r x] Nil by simp
  moreover from this have "to_sibling (pos x1) = None" by simp
  ultimately obtain y where "nextSibling L x1 = (False, y)" "pos y = (n, []) # up"
    using moves_None [of pos "nextSibling L" to_sibling x1] assms by (auto simp: cursor_laws_def)
  then show ?case using c by (subst read_children.simps) simp
next
  case (Cons m ms)
  obtain r1 x1 where c: "read_child L now (r, x) = (r1, x1)" by (cases "read_child L now (r, x)")
  then have "pos x1 = (n, m # ms) # up" using read_child_position [OF assms, of now r x] Cons.prems by simp
  then have "to_sibling (pos x1) = Some ((m, ms) # up)" by simp
  then obtain y where "nextSibling L x1 = (True, y)" "pos y = (m, ms) # up"
    using moves_Some [of pos "nextSibling L" to_sibling x1] assms by (auto simp: cursor_laws_def)
  then show ?case using c Cons.IH [of y m r1] by (subst read_children.simps) simp
qed

text \<open>
  (C39) Reading a document always ends, whatever the tree is: for every cursor that walks as
  documented, \<open>deserialize\<close> returns, and it leaves the cursor where it was.
\<close>

theorem deserialize_returns:
  assumes "cursor_laws L pos"
  shows "\<exists>ok d y. deserialize L timeSecs now x = Some (ok, d, y) \<and> pos y = pos x"
proof (cases "isEqualNoCase (getTag L x) ''pubinfo''")
  case True
  have m: "moves pos (firstChild L) to_child" "moves pos (parent L) to_parent"
    using assms by (auto simp: cursor_laws_def)
  show ?thesis
  proof (cases "to_child (pos x)")
    case None
    then show ?thesis using True moves_None [OF m(1) None] by (auto simp: deserialize_def Let_def)
  next
    case (Some q)
    obtain y where y: "firstChild L x = (True, y)" "pos y = q" using moves_Some [OF m(1) Some] by blast
    obtain c cs where q: "q = (c, cs) # pos x" "pos x \<noteq> []" using to_child_Some [OF Some] by blast
    from read_children_returns [OF assms, of y c cs "pos x"] y(2) q(1)
    have "\<exists>r' z k. read_children L n (r, y) = Some (r', z) \<and> pos z = (k, []) # pos x" for n r by blast
    moreover have "\<exists>w. parent L z = (True, w) \<and> pos w = pos x" if "pos z = (k, []) # pos x" for z k
      using moves_Some [OF m(2), of z "pos x"] that q(2) by (cases "pos x") auto
    ultimately have "\<exists>r' z w. read_children L n (r, y) = Some (r', z) \<and> parent L z = (True, w) \<and> pos w = pos x" for n r
      by metis
    then show ?thesis using True y(1)
      by (simp add: deserialize_def Let_def) (metis (no_types, lifting) case_prod_conv option.simps(5) snd_conv)
  qed
qed (simp add: deserialize_def Let_def ex_bool_eq)

section \<open>Reading what was written\<close>

definition read_line ::
  "('x, 'c) pub_lib \<Rightarrow> uint64 \<Rightarrow> string \<times> string \<times> string \<Rightarrow> 'c reading \<Rightarrow> 'c reading" where
  "read_line L now l r = (case l of (indent, t, v) \<Rightarrow> if v = [] then r else read_field L now t v r)"

lemma read_field_unknown: "\<not> list_ex (isEqualNoCase t) known_tags \<Longrightarrow> read_field L now t v r = r"
  by (simp add: known_tags_def read_field_def)

lemma read_child_line:
  assumes "cursor_laws L pos" and "pos x = (line_node l, ms) # up"
  shows "\<exists>y. read_child L now (r, x) = (read_line L now l r, y) \<and> pos y = pos x"
proof -
  obtain ind t v where l: "l = (ind, t, v)" by (cases l) auto
  have tag: "getTag L x = t" using assms by (simp add: cursor_laws_def line_node_def l)
  have m: "moves pos (firstChild L) to_child" using assms by (auto simp: cursor_laws_def)
  have "fst (read_child L now (r, x)) = read_line L now l r"
  proof (cases "v = []")
    case True
    then have "to_child (pos x) = None" using assms(2) by (simp add: line_node_def l)
    then obtain y where "firstChild L x = (False, y)" using moves_None [OF m] by blast
    then show ?thesis using True tag by (simp add: read_child_def read_line_def l)
  next
    case False
    then have "to_child (pos x) = Some ((Text v, []) # pos x)" using assms(2) by (simp add: line_node_def l)
    then obtain y where y: "firstChild L x = (True, y)" "pos y = (Text v, []) # pos x" using moves_Some [OF m] by blast
    then have "getValue L y = v" using assms(1) by (simp add: cursor_laws_def)
    then show ?thesis using False tag y(1) by (simp add: read_child_def read_line_def l read_field_unknown)
  qed
  then show ?thesis using read_child_position [OF assms(1), of now r x] by (metis prod.collapse)
qed

lemma read_children_lines:
  assumes "cursor_laws L pos"
  shows "pos x = (line_node l, map line_node ls) # up \<Longrightarrow>
    \<exists>y k. read_children L now (r, x) = Some (fold (read_line L now) (l # ls) r, y) \<and> pos y = (k, []) # up"
proof (induction ls arbitrary: l r x)
  case Nil
  obtain x1 where c: "read_child L now (r, x) = (read_line L now l r, x1)" "pos x1 = pos x"
    using read_child_line [OF assms Nil] by blast
  then have "to_sibling (pos x1) = None" using Nil by simp
  then obtain y where "nextSibling L x1 = (False, y)" "pos y = pos x1"
    using moves_None [of pos "nextSibling L" to_sibling x1] assms by (auto simp: cursor_laws_def)
  then show ?case using c Nil by (subst read_children.simps) simp
next
  case (Cons m ls)
  obtain x1 where c: "read_child L now (r, x) = (read_line L now l r, x1)" "pos x1 = pos x"
    using read_child_line [OF assms Cons.prems] by blast
  then have "to_sibling (pos x1) = Some ((line_node m, map line_node ls) # up)" using Cons.prems by simp
  then obtain y where "nextSibling L x1 = (True, y)" "pos y = (line_node m, map line_node ls) # up"
    using moves_Some [of pos "nextSibling L" to_sibling x1] assms by (auto simp: cursor_laws_def)
  then show ?case using c Cons.IH [of y m "read_line L now l r"] by (subst read_children.simps) simp
qed

text \<open>The document as \<open>deserialize\<close> starts with it, and what it reads from a list of lines.\<close>

definition blank :: "'c reading" where
  "blank = \<lparr>rdoc = PubDocument0, mimeTypeString = [], mimeSubtypeString = [], success = False\<rparr>"

lemma deserialize_lines:
  assumes "cursor_laws L pos" and "parse_law L pos" and "now \<noteq> 0" and "\<forall>l \<in> set (l # ls). plain_line l"
    and "r = fold (read_line L now) (l # ls) blank"
  shows "\<exists>y. deserialize L ts now (XMLCursor L (''<pubinfo>'' @ CRLF @ concat (map tag_line (l # ls)) @ ''</pubinfo>'' @ CRLF)) =
    Some (success r, rdoc r, y)"
proof -
  let ?x = "XMLCursor L (''<pubinfo>'' @ CRLF @ concat (map tag_line (l # ls)) @ ''</pubinfo>'' @ CRLF)"
  let ?root = "Elem ''pubinfo'' (map line_node (l # ls))"
  have "tag_name ''pubinfo''" by code_simp
  then have x: "pos ?x = [(?root, [])]"
    using assms(2,4) unfolding parse_law_def by (metis append.assoc append_Cons append_Nil)
  then have "getTag L ?x = ''pubinfo''" using assms(1) by (simp add: cursor_laws_def)
  moreover have "isEqualNoCase ''pubinfo'' ''pubinfo''" by code_simp
  moreover obtain y where "firstChild L ?x = (True, y)" "pos y = (line_node l, map line_node ls) # pos ?x"
    using moves_Some [of pos "firstChild L" to_child ?x] assms(1) x by (auto simp: cursor_laws_def)
  moreover from read_children_lines [OF assms(1) this(2)] assms(5)
  obtain z where "read_children L now (blank, y) = Some (r, z)" by blast
  ultimately show ?thesis using assms(3) by (simp add: deserialize_def Let_def blank_def)
qed

text \<open>The lines of a document are plain when its texts neither begin nor end with white space.\<close>

definition pub_texts :: "('x, 'c) pub_lib \<Rightarrow> 'c pubdoc \<Rightarrow> string list" where
  "pub_texts L d = [mEventType d, mDocumentKey d, mETag d] @
     (case mContents d of None \<Rightarrow> [] | Some c \<Rightarrow> [fst (getType L c), snd (getType L c), getBodyData L c]) @
     (case mSecurityAttributes d of None \<Rightarrow> [] | Some sa \<Rightarrow> [mSigner sa, mIdentity sa])"

lemma digits_of_char: "c \<in> set (digits_of n) \<Longrightarrow> 48 \<le> (of_char c :: nat) \<and> (of_char c :: nat) \<le> 57"
proof (induction n rule: digits_of.induct)
  case (1 n)
  have d: "(of_char (char_of (48 + k) :: char) :: nat) = 48 + k" if "k < 10" for k using that by simp
  show ?case
  proof (cases "n < 10")
    case True
    then show ?thesis using 1 d [of n] by (simp add: digits_of.simps [of n])
  next
    case False
    then have "c \<in> set (digits_of (n div 10)) \<or> c = char_of (48 + n mod 10)" using "1.prems" by (auto simp: digits_of.simps [of n])
    then show ?thesis using 1 False d [of "n mod 10"] by auto
  qed
qed

lemma plain_digits: "list_all white ind \<Longrightarrow> tag_name t \<Longrightarrow> plain_line (ind, t, digits_of n)"
proof -
  have "\<not> white c \<and> c \<noteq> CHR ''<''" if "c \<in> set (digits_of n)" for c
    using digits_of_char [OF that] by (auto simp: white_def)
  then show "list_all white ind \<Longrightarrow> tag_name t \<Longrightarrow> plain_line (ind, t, digits_of n)"
    by (auto simp: plain_line_def trimmed_def)
qed

lemma plain_encoded:
  "text_laws L \<Longrightarrow> trimmed v \<Longrightarrow> list_all white ind \<Longrightarrow> tag_name t \<Longrightarrow> plain_line (ind, t, xmlCharDataEncode L v)"
  by (simp add: plain_line_def text_laws_def)

lemma plain_names: "\<forall>v \<in> set ([''true'', ''false''] @ map sigstatus_text [SignatureNone, SignatureIsBad, SignatureTrusted,
    SignatureCATrusted, SignatureNotTrusted, SignatureSelfSigned] @ map strength_text [From, FailedIdentity, Identity]).
    CHR ''<'' \<notin> set v \<and> trimmed v"
  by code_simp

lemma plain_status: "list_all white ind \<Longrightarrow> tag_name t \<Longrightarrow> plain_line (ind, t, sigstatus_text s)"
  using plain_names by (cases s) (simp_all add: plain_line_def)

lemma plain_strength: "list_all white ind \<Longrightarrow> tag_name t \<Longrightarrow> plain_line (ind, t, strength_text s)"
  using plain_names by (cases s) (simp_all add: plain_line_def)

lemma plain_bool:
  "list_all white ind \<Longrightarrow> tag_name t \<Longrightarrow> plain_line (ind, t, ''true'')"
  "list_all white ind \<Longrightarrow> tag_name t \<Longrightarrow> plain_line (ind, t, ''false'')"
  using plain_names by (simp_all add: plain_line_def)

lemma written_tags: "\<forall>t \<in> set (''lastupdate'' # known_tags). tag_name t"
  by code_simp

lemmas plain_rules = plain_encoded plain_digits plain_status plain_strength plain_bool

lemma indents: "white (CHR '' '')"
  by code_simp

lemma security_lines_plain:
  assumes "text_laws L" and "trimmed (mSigner sa)" and "trimmed (mIdentity sa)"
  shows "\<forall>l \<in> set (security_lines L sa). plain_line l"
  using written_tags assms by (auto simp: security_lines_def known_tags_def indents plain_rules)

lemma stream_lines_plain:
  assumes "text_laws L" and "\<forall>v \<in> set (pub_texts L d). trimmed v"
  shows "\<forall>l \<in> set (stream_lines L now d). plain_line l"
proof -
  have "trimmed (mEventType d)" "trimmed (mDocumentKey d)" "trimmed (mETag d)"
    "\<And>c. mContents d = Some c \<Longrightarrow> trimmed (fst (getType L c)) \<and> trimmed (snd (getType L c)) \<and> trimmed (getBodyData L c)"
    "\<And>sa. mSecurityAttributes d = Some sa \<Longrightarrow> trimmed (mSigner sa) \<and> trimmed (mIdentity sa)"
    using assms(2) by (simp_all add: pub_texts_def)
  note facts = this
  have "\<forall>l \<in> set (case mSecurityAttributes d of None \<Rightarrow> [] | Some sa \<Rightarrow> security_lines L sa). plain_line l"
    using facts(5) security_lines_plain [OF assms(1)] by (cases "mSecurityAttributes d") auto
  then show ?thesis using written_tags assms(1) facts(1-4)
    by (cases "mContents d")
      (auto simp: stream_lines_def known_tags_def indents plain_rules case_prod_beta)
qed

text \<open>No two of the tags and values are equal up to case.\<close>

definition pub_words :: "string list" where
  "pub_words = ''lastupdate'' # ''true'' # ''false'' # ''none'' # ''bad'' # ''trusted'' # ''catrusted'' # ''nottrusted'' #
     ''selfsigned'' # ''from'' # ''failedidentity'' # known_tags"

lemma pub_words_distinct: "\<forall>s \<in> set pub_words. \<forall>t \<in> set pub_words. isEqualNoCase s t = (s = t)"
  by code_simp

lemma pub_word_eq: "s \<in> set pub_words \<Longrightarrow> t \<in> set pub_words \<Longrightarrow> isEqualNoCase s t = (s = t)"
  using pub_words_distinct by blast

lemma read_line_texts:
  assumes "text_laws L"
  shows
    "read_line L now (i, ''eventtype'', xmlCharDataEncode L v) r =
       (if v = [] then r else r\<lparr>rdoc := (rdoc r)\<lparr>mEventType := v\<rparr>\<rparr>)"
    "read_line L now (i, ''documentkey'', xmlCharDataEncode L v) r =
       (if v = [] then r else r\<lparr>rdoc := (rdoc r)\<lparr>mDocumentKey := v\<rparr>\<rparr>)"
    "read_line L now (i, ''etag'', xmlCharDataEncode L v) r =
       (if v = [] then r else r\<lparr>rdoc := (rdoc r)\<lparr>mETag := v\<rparr>\<rparr>)"
    "read_line L now (i, ''expires'', digits_of (unat n)) r =
       (let e = (if n = 0 then 0 else now + n) in r\<lparr>rdoc := (rdoc r)\<lparr>mExpirationTime := e, mLingerTime := e\<rparr>\<rparr>)"
    "read_line L now (i, ''lastupdate'', digits_of (unat n)) r = r"
    "read_line L now (i, ''contentstype'', xmlCharDataEncode L v) r =
       (if v = [] then r else r\<lparr>mimeTypeString := v\<rparr>)"
    "read_line L now (i, ''contentssubtype'', xmlCharDataEncode L v) r =
       (if v = [] then r else r\<lparr>mimeSubtypeString := v\<rparr>)"
    "read_line L now (i, ''contents'', xmlCharDataEncode L v) r =
       (if v = [] then r else r\<lparr>rdoc := (rdoc r)\<lparr>mContents := Some (cloneContents L
            (createContents L (mimeTypeString r, mimeSubtypeString r) v))\<rparr>, success := True\<rparr>)"
  using assms by (simp_all add: read_line_def read_field_def pub_word_eq pub_words_def known_tags_def text_laws_def Let_def)

lemma read_line_security:
  assumes "text_laws L"
  shows
    "read_line L now (i, ''isencrypted'', ''true'') r = on_security L (\<lambda>sa. sa\<lparr>mIsEncrypted := True\<rparr>) r"
    "read_line L now (i, ''isencrypted'', ''false'') r = on_security L (\<lambda>sa. sa) r"
    "read_line L now (i, ''sigstatus'', sigstatus_text s) r = on_security L (\<lambda>sa. sa\<lparr>mSigStatus := s\<rparr>) r"
    "read_line L now (i, ''signer'', xmlCharDataEncode L v) r =
       (if v = [] then r else on_security L (\<lambda>sa. sa\<lparr>mSigner := v\<rparr>) r)"
    "read_line L now (i, ''identity'', xmlCharDataEncode L v) r =
       (if v = [] then r else on_security L (\<lambda>sa. sa\<lparr>mIdentity := v\<rparr>) r)"
    "read_line L now (i, ''identitystrength'', strength_text st) r = on_security L (\<lambda>sa. sa\<lparr>mStrength := st\<rparr>) r"
proof -
  have "read_sigstatus (sigstatus_text s) = (\<lambda>sa. sa\<lparr>mSigStatus := s\<rparr>)"
    by (cases s) (simp_all add: read_sigstatus_def pub_word_eq pub_words_def known_tags_def fun_eq_iff)
  moreover have "read_strength (strength_text st) = (\<lambda>sa. sa\<lparr>mStrength := st\<rparr>)"
    by (cases st) (simp_all add: read_strength_def pub_word_eq pub_words_def known_tags_def fun_eq_iff)
  moreover have "sigstatus_text s \<noteq> []" "strength_text st \<noteq> []" by (cases s; simp) (cases st; simp)
  ultimately show
    "read_line L now (i, ''isencrypted'', ''true'') r = on_security L (\<lambda>sa. sa\<lparr>mIsEncrypted := True\<rparr>) r"
    "read_line L now (i, ''isencrypted'', ''false'') r = on_security L (\<lambda>sa. sa) r"
    "read_line L now (i, ''sigstatus'', sigstatus_text s) r = on_security L (\<lambda>sa. sa\<lparr>mSigStatus := s\<rparr>) r"
    "read_line L now (i, ''signer'', xmlCharDataEncode L v) r =
       (if v = [] then r else on_security L (\<lambda>sa. sa\<lparr>mSigner := v\<rparr>) r)"
    "read_line L now (i, ''identity'', xmlCharDataEncode L v) r =
       (if v = [] then r else on_security L (\<lambda>sa. sa\<lparr>mIdentity := v\<rparr>) r)"
    "read_line L now (i, ''identitystrength'', strength_text st) r = on_security L (\<lambda>sa. sa\<lparr>mStrength := st\<rparr>) r"
    using assms by (simp_all add: read_line_def read_field_def pub_word_eq pub_words_def known_tags_def text_laws_def)
qed

section \<open>The round trip\<close>

text \<open>When contents are written, the time that is left, and what arrives of the security attributes.\<close>

definition written :: "'c pubdoc \<Rightarrow> bool" where
  "written d = (mExpirationTime d \<noteq> 0 \<and> mContents d \<noteq> None)"

definition carries :: "('x, 'c) pub_lib \<Rightarrow> 'c pubdoc \<Rightarrow> bool" where
  "carries L d = (written d \<and> getBodyData L (the (mContents d)) \<noteq> [])"

definition remaining :: "uint64 \<Rightarrow> 'c pubdoc \<Rightarrow> uint64" where
  "remaining now d = (if mExpirationTime d = 0 \<or> mExpirationTime d \<le> now then 0 else mExpirationTime d - now)"

definition synced :: "('x, 'c) pub_lib \<Rightarrow> SecurityAttributes \<Rightarrow> SecurityAttributes" where
  "synced L sa = (let s = SecurityAttributes0 L in
     if mIsEncrypted sa then s\<lparr>mIsEncrypted := True, mSigStatus := mSigStatus sa,
       mSigner := (if mSigner sa = [] then mSigner s else mSigner sa),
       mIdentity := (if mIdentity sa = [] then mIdentity s else mIdentity sa),
       mStrength := (if mIdentity sa = [] then mStrength s else mStrength sa)\<rparr>
     else s)"

lemma read_security_lines:
  assumes "text_laws L" and "mSecurityAttributes (rdoc r) = None"
  shows "fold (read_line L now) (security_lines L sa) r =
    r\<lparr>rdoc := (rdoc r)\<lparr>mSecurityAttributes := Some (synced L sa)\<rparr>\<rparr>"
  using assms(2)
  by (cases "mIsEncrypted sa"; cases "mSigner sa = []"; cases "mIdentity sa = []")
    (simp_all add: security_lines_def read_line_security [OF assms(1)] on_security_def synced_def Let_def)

text \<open>The document that arrives.\<close>

definition received :: "('x, 'c) pub_lib \<Rightarrow> uint64 \<Rightarrow> uint64 \<Rightarrow> 'c pubdoc \<Rightarrow> 'c pubdoc" where
  "received L now later d =
     (let e = (if remaining now d = 0 then 0 else later + remaining now d) in
      \<lparr>mEventType = mEventType d, mDocumentKey = mDocumentKey d, mETag = mETag d, mExpirationTime = e,
       mLastUpdated = 0, mLingerTime = e,
       mContents = (if carries L d then Some (cloneContents L (createContents L
           (getType L (the (mContents d))) (getBodyData L (the (mContents d))))) else None),
       mSecurityAttributes = (if written d then map_option (synced L) (mSecurityAttributes d) else None),
       mSyncPublication = False\<rparr>)"

lemma read_stream_lines:
  assumes "text_laws L"
  shows "success (fold (read_line L later) (stream_lines L now d) blank) = carries L d \<and>
    rdoc (fold (read_line L later) (stream_lines L now d) blank) = received L now later d"
proof -
  let ?e = "if remaining now d = 0 then 0 else later + remaining now d"
  let ?tail = "drop 5 (stream_lines L now d)"
  define r :: "'b reading" where "r = blank\<lparr>rdoc := PubDocument0\<lparr>mEventType := mEventType d, mDocumentKey := mDocumentKey d,
    mETag := mETag d, mExpirationTime := ?e, mLingerTime := ?e\<rparr>\<rparr>"
  have head: "fold (read_line L later) (take 5 (stream_lines L now d)) blank = r"
    by (cases "mEventType d = []"; cases "mDocumentKey d = []"; cases "mETag d = []")
      (simp_all add: stream_lines_def numeral_eq_Suc read_line_texts [OF assms] blank_def PubDocument0_def
        remaining_def r_def Let_def)
  have split: "fold (read_line L later) (stream_lines L now d) blank = fold (read_line L later) ?tail r"
    using head by (metis append_take_drop_id comp_apply fold_append)
  show ?thesis
  proof (cases "mContents d")
    case None
    then have "?tail = []" by (simp add: stream_lines_def)
    then show ?thesis using None split
      by (simp add: r_def blank_def PubDocument0_def received_def carries_def written_def Let_def)
  next
    case (Some c)
    obtain mt st where ty: "getType L c = (mt, st)" by (cases "getType L c")
    have sec: "fold (read_line L later) (case mSecurityAttributes d of None \<Rightarrow> [] | Some sa \<Rightarrow> security_lines L sa) r' =
        r'\<lparr>rdoc := (rdoc r')\<lparr>mSecurityAttributes := map_option (synced L) (mSecurityAttributes d)\<rparr>\<rparr>"
      if "mSecurityAttributes (rdoc r') = None" for r' :: "'b reading"
      using that read_security_lines [OF assms that] by (cases "mSecurityAttributes d") simp_all
    show ?thesis
    proof (cases "mExpirationTime d = 0")
      case True
      then have "?tail = []" using Some by (simp add: stream_lines_def)
      then show ?thesis using True split
        by (simp add: r_def blank_def PubDocument0_def received_def carries_def written_def Let_def)
    next
      case False
      define q where "q = (if getBodyData L c = [] then r else r\<lparr>rdoc := (rdoc r)\<lparr>mContents := Some (cloneContents L
        (createContents L (mt, st) (getBodyData L c)))\<rparr>, success := True\<rparr>)\<lparr>mimeTypeString := mt, mimeSubtypeString := st\<rparr>"
      let ?c = "[(''  '', ''contentstype'', xmlCharDataEncode L mt), (''  '', ''contentssubtype'', xmlCharDataEncode L st),
        (''  '', ''contents'', xmlCharDataEncode L (getBodyData L c))]"
      have tail: "?tail = ?c @ (case mSecurityAttributes d of None \<Rightarrow> [] | Some sa \<Rightarrow> security_lines L sa)"
        using Some ty False by (simp add: stream_lines_def)
      have "fold (read_line L later) ?c r = q"
        by (cases "getBodyData L c = []"; cases "mt = []"; cases "st = []")
          (simp_all add: read_line_texts [OF assms] q_def r_def blank_def)
      moreover have "mSecurityAttributes (rdoc q) = None" by (simp add: q_def r_def blank_def PubDocument0_def)
      ultimately have "fold (read_line L later) ?tail r =
          q\<lparr>rdoc := (rdoc q)\<lparr>mSecurityAttributes := map_option (synced L) (mSecurityAttributes d)\<rparr>\<rparr>"
        using sec [of q] tail by (simp only: fold_append comp_apply)
      then show ?thesis using split Some ty False
        by (simp add: q_def r_def blank_def PubDocument0_def received_def carries_def written_def Let_def)
    qed
  qed
qed

text \<open>
  (C22) A document all of whose texts are trimmed, that is, neither begin nor end with white
  space, survives the way to the peer: read at a time \<open>later\<close> other than zero, the text that
  \<open>stream\<close> wrote at the time \<open>now\<close> gives back the names, the contents with their type and
  body, and the attributes of encrypted contents; the expiry keeps the time that was left.
  \<open>deserialize\<close> reports success exactly if there was a body to carry. What does not arrive is
  the time of the last update: it is written as \<open>lastupdate\<close> and looked for as \<open>lastupdated\<close>,
  so it is always zero. White space at the ends of a text is outside the claim, because the
  cursor does not keep it (\<open>WhitespaceSignificant\<close> is false in \<open>XMLCursor.hxx\<close>); a body that
  ends in a line break is such a text.
\<close>

theorem publication_round_trip:
  assumes "cursor_laws L pos" and "parse_law L pos" and "text_laws L" and "contents_laws L"
    and "\<forall>v \<in> set (pub_texts L d). trimmed v" and "later \<noteq> 0"
  shows "\<exists>d' y. deserialize L ts later (XMLCursor L (stream L now d)) = Some (carries L d, d', y) \<and>
    mEventType d' = mEventType d \<and> mDocumentKey d' = mDocumentKey d \<and> mETag d' = mETag d \<and>
    mExpirationTime d' = (if remaining now d = 0 then 0 else later + remaining now d) \<and>
    mLingerTime d' = mExpirationTime d' \<and>
    map_option (\<lambda>c. (getType L c, getBodyData L c)) (mContents d') =
      (if carries L d then map_option (\<lambda>c. (getType L c, getBodyData L c)) (mContents d) else None) \<and>
    mSecurityAttributes d' = (if written d then map_option (synced L) (mSecurityAttributes d) else None) \<and>
    mLastUpdated d' = 0"
proof -
  obtain l ls where ls: "stream_lines L now d = l # ls" by (simp add: stream_lines_def)
  have "\<forall>l \<in> set (l # ls). plain_line l" using stream_lines_plain [OF assms(3,5), of now] ls by simp
  from deserialize_lines [OF assms(1,2,6) this refl, of ts] read_stream_lines [OF assms(3), of later now d]
  obtain y where y: "deserialize L ts later (XMLCursor L (stream L now d)) = Some (carries L d, received L now later d, y)"
    by (auto simp: stream_def ls)
  show ?thesis
  proof (intro exI conjI)
    show "deserialize L ts later (XMLCursor L (stream L now d)) = Some (carries L d, received L now later d, y)"
      by (rule y)
  qed (use assms(4) in \<open>auto simp: received_def Let_def contents_laws_def carries_def written_def split_paired_all\<close>,
    (use assms(4) in \<open>unfold contents_laws_def, metis\<close>)+)
qed

section \<open>A library that keeps the laws\<close>

text \<open>
  A small reader for documents of one level, a cursor on positions, and the usual escapes
  show that the hypotheses can hold; the witnesses use them.
\<close>

definition after_char :: "char \<Rightarrow> string \<Rightarrow> string" where
  "after_char c s = tl (dropWhile (\<lambda>x. x \<noteq> c) s)"

lemma length_after_char: "length (after_char c s) \<le> length s - 1"
  by (simp add: after_char_def diff_le_mono length_dropWhile_le)

function read_nodes :: "string \<Rightarrow> xml list" where
  "read_nodes s = (case dropWhile white s of
       [] \<Rightarrow> []
     | c # r \<Rightarrow>
         (let v = after_char (CHR ''>'') r; w = takeWhile (\<lambda>x. x \<noteq> CHR ''<'') v in
          if c \<noteq> CHR ''<'' \<or> take 1 r = ''/'' then []
          else Elem (takeWhile (\<lambda>x. x \<noteq> CHR ''>'') r) (if w = [] then [] else [Text w]) #
            read_nodes (after_char (CHR ''>'') (dropWhile (\<lambda>x. x \<noteq> CHR ''<'') v))))"
  by pat_completeness auto
termination
proof (relation "measure length")
  fix s r :: string and c v w
  assume s: "dropWhile white s = c # r" and v: "v = after_char (CHR ''>'') r"
  have "length (after_char (CHR ''>'') (dropWhile (\<lambda>x. x \<noteq> CHR ''<'') v)) \<le> length (dropWhile (\<lambda>x. x \<noteq> CHR ''<'') v)"
    by (metis diff_le_self le_trans length_after_char)
  also have "\<dots> \<le> length r" using length_after_char [of "CHR ''>''" r] length_dropWhile_le [of _ v] v by (meson diff_le_self le_trans)
  also have "length r < length s" using length_dropWhile_le [of white s] s by simp
  finally show "(after_char (CHR ''>'') (dropWhile (\<lambda>x. x \<noteq> CHR ''<'') v), s) \<in> measure length" by simp
qed simp

declare read_nodes.simps [simp del]

lemma takeWhile_stop: "\<forall>x \<in> set t. P x \<Longrightarrow> \<not> P c \<Longrightarrow> takeWhile P (t @ c # s) = t"
  by (induction t) auto

lemma dropWhile_stop: "\<forall>x \<in> set t. P x \<Longrightarrow> \<not> P c \<Longrightarrow> dropWhile P (t @ c # s) = c # s"
  by (induction t) auto

lemma read_nodes_white: "list_all white ind \<Longrightarrow> read_nodes (ind @ s) = read_nodes s"
proof -
  assume "list_all white ind"
  then have "dropWhile white (ind @ s) = dropWhile white s" by (induction ind) auto
  then show ?thesis by (simp add: read_nodes.simps [of "ind @ s"] read_nodes.simps [of s])
qed

lemma read_nodes_line:
  assumes "plain_line l"
  shows "read_nodes (tag_line l @ s) = line_node l # read_nodes s"
proof -
  obtain ind t v where l: "l = (ind, t, v)" by (cases l) auto
  have t: "\<forall>x \<in> set t. x \<noteq> CHR ''>''" "t \<noteq> []" "hd t \<noteq> CHR ''/''" and v: "\<forall>x \<in> set v. x \<noteq> CHR ''<''"
    and ind: "list_all white ind"
    using assms by (cases t; auto simp: plain_line_def tag_name_def l)+
  have lt: "\<not> white (CHR ''<'')" by code_simp
  have crlf: "list_all white CRLF" by code_simp
  have slash: "\<forall>x \<in> set (CHR ''/'' # t). x \<noteq> CHR ''>''" using t(1) by simp
  let ?r = "t @ CHR ''>'' # v @ CHR ''<'' # CHR ''/'' # t @ CHR ''>'' # CRLF @ s"
  have "read_nodes (CHR ''<'' # ?r) = line_node l # read_nodes (CRLF @ s)"
    using lt t v takeWhile_stop [OF t(1)] dropWhile_stop [OF t(1)] takeWhile_stop [OF v] dropWhile_stop [OF v]
      dropWhile_stop [OF slash]
    by (subst read_nodes.simps) (cases t, auto simp: after_char_def Let_def line_node_def l)
  then show ?thesis using read_nodes_white [OF ind] read_nodes_white [OF crlf] by (simp add: tag_line_def l)
qed

lemma read_nodes_lines:
  assumes "\<forall>l \<in> set ls. plain_line l" and "read_nodes s = []"
  shows "read_nodes (concat (map tag_line ls) @ s) = map line_node ls"
  using assms by (induction ls) (simp_all add: read_nodes_line)

definition encode_char :: "char \<Rightarrow> string" where
  "encode_char c = (if c = CHR ''<'' then ''&lt;'' else if c = CHR ''&'' then ''&amp;'' else [c])"

function decode_text :: "string \<Rightarrow> string" where
  "decode_text s = (case s of
       [] \<Rightarrow> []
     | c # r \<Rightarrow> if take 4 s = ''&lt;'' then CHR ''<'' # decode_text (drop 4 s)
         else if take 5 s = ''&amp;'' then CHR ''&'' # decode_text (drop 5 s)
         else c # decode_text r)"
  by pat_completeness auto
termination by (relation "measure length") auto

declare decode_text.simps [simp del]

lemma decode_encode_char: "decode_text (encode_char c @ s) = c # decode_text s"
  by (subst decode_text.simps) (auto simp: encode_char_def)

definition the_lib :: "(position, (string \<times> string) \<times> string) pub_lib" where
  "the_lib = \<lparr>
     XMLCursor = (\<lambda>s. [(Elem (takeWhile (\<lambda>x. x \<noteq> CHR ''>'') (tl s)) (read_nodes (after_char (CHR ''>'') s)), [])]),
     getTag = (\<lambda>p. case p of (Elem t cs, _) # _ \<Rightarrow> t | _ \<Rightarrow> []),
     getValue = (\<lambda>p. case p of (Text v, _) # _ \<Rightarrow> v | _ \<Rightarrow> []),
     firstChild = (\<lambda>p. case to_child p of Some q \<Rightarrow> (True, q) | None \<Rightarrow> (False, p)),
     nextSibling = (\<lambda>p. case to_sibling p of Some q \<Rightarrow> (True, q) | None \<Rightarrow> (False, p)),
     parent = (\<lambda>p. case to_parent p of Some q \<Rightarrow> (True, q) | None \<Rightarrow> (False, p)),
     xmlCharDataEncode = (\<lambda>v. concat (map encode_char v)),
     xmlCharDataDecode = decode_text,
     convertUInt64 = (\<lambda>v. of_nat (read_digits v)),
     createContents = Pair, cloneContents = (\<lambda>c. c), getType = fst, getBodyData = snd,
     SecurityAttributes0 = \<lparr>mIsEncrypted = False, mSigStatus = SignatureNone, mSigner = [], mIdentity = [],
       mStrength = From, mLevel = LevelNone, mEncryptionPerformed = False\<rparr>\<rparr>"

lemma the_lib_cursor: "cursor_laws the_lib id"
  by (auto simp: cursor_laws_def moves_def the_lib_def split: option.splits)

lemma the_lib_contents: "contents_laws the_lib"
  by (simp add: contents_laws_def the_lib_def)

lemma the_lib_parse: "parse_law the_lib id"
proof -
  have crlf: "list_all white CRLF" by code_simp
  have stop: "read_nodes (''</'' @ s) = []" for s
  proof -
    have "\<not> white (CHR ''<'')" by code_simp
    then show ?thesis by (subst read_nodes.simps) (simp add: Let_def)
  qed
  have "takeWhile (\<lambda>x. x \<noteq> CHR ''>'') (root @ CHR ''>'' # s) = root \<and>
      after_char (CHR ''>'') (CHR ''<'' # root @ CHR ''>'' # s) = s" if "tag_name root" for root s
  proof -
    have "\<forall>x \<in> set root. x \<noteq> CHR ''>''" using that by (auto simp: tag_name_def)
    from takeWhile_stop [OF this] dropWhile_stop [OF this] show ?thesis by (simp add: after_char_def)
  qed
  then show ?thesis
    using read_nodes_white [OF crlf] read_nodes_lines stop by (simp add: parse_law_def the_lib_def)
qed

lemma the_lib_text: "text_laws the_lib"
proof -
  have "decode_text (concat (map encode_char v)) = v" for v
    by (induction v) (simp_all add: decode_encode_char decode_text.simps [of "[]"])
  moreover have "concat (map encode_char v) = [] \<longleftrightarrow> v = []" for v
    by (cases v) (auto simp: encode_char_def)
  moreover have "CHR ''<'' \<notin> set (concat (map encode_char v))" for v by (auto simp: encode_char_def)
  moreover have "trimmed (concat (map encode_char v))" if "trimmed v" for v
  proof (cases v rule: rev_cases)
    case Nil
    then show ?thesis by (simp add: trimmed_def)
  next
    case (snoc u x)
    have w: "\<not> white c \<Longrightarrow> \<not> white (hd (encode_char c)) \<and> \<not> white (last (encode_char c)) \<and> encode_char c \<noteq> []" for c
      by (auto simp: encode_char_def white_def)
    have "hd (concat (map encode_char v)) = hd (encode_char (hd v))" using w [of "hd v"] that snoc
      by (cases v; fastforce simp: trimmed_def)
    moreover have "last (concat (map encode_char v)) = last (encode_char x)" using snoc w [of x] that
      by (auto simp: trimmed_def)
    ultimately show ?thesis using w [of "hd v"] w [of x] that snoc by (auto simp: trimmed_def)
  qed
  moreover have "of_nat (read_digits (digits_of (unat n))) = n" for n :: uint64 by (simp add: read_digits_of)
  ultimately show ?thesis by (simp add: text_laws_def the_lib_def)
qed

lemmas the_lib_laws = the_lib_cursor the_lib_parse the_lib_text the_lib_contents

definition presence :: "((string \<times> string) \<times> string) pubdoc" where
  "presence = PubDocument the_lib 1000 ''presence'' ''sip:ann@example.com'' ''4f2a'' 1600
     (Some ((''application'', ''pidf+xml''), ''<presence/>'')) None False"

theorem deserialize_returns_witness:
  "\<exists>ok d y. deserialize the_lib 5 7 (XMLCursor the_lib ''<a></a>'') = Some (ok, d, y) \<and> id y = id (XMLCursor the_lib ''<a></a>'')"
  by (rule deserialize_returns [OF the_lib_cursor])

theorem publication_round_trip_witness:
  "\<exists>d' y. deserialize the_lib 0 1100 (XMLCursor the_lib (stream the_lib 1010 presence)) = Some (True, d', y) \<and>
     mETag d' = ''4f2a'' \<and> mExpirationTime d' = 1690 \<and> mContents d' = mContents presence \<and>
     mLastUpdated presence = 1000 \<and> mLastUpdated d' = 0"
proof -
  have p: "mETag presence = ''4f2a''" "mExpirationTime presence = 1600" "mLastUpdated presence = 1000"
    "mContents presence = Some ((''application'', ''pidf+xml''), ''<presence/>'')" "carries the_lib presence"
    by (simp_all add: presence_def PubDocument_def the_lib_def carries_def written_def)
  have "\<forall>v \<in> set (pub_texts the_lib presence). trimmed v" by code_simp
  from publication_round_trip [OF the_lib_laws this, of 1100 0 1010] p show ?thesis
    by (auto simp: remaining_def the_lib_def)
qed

end
