(* ===== verification/ByteOrder.thy ===== *)
theory ByteOrder
  imports Main "HOL-Library.Word"
begin

text \<open>
  Integers in memory and on the network. The ABIs of the library are little-endian: the bytes
  of a stored integer are \<open>mem\<close>, the least significant one first. The conversions
  \<open>htons\<close> and \<open>htonl\<close> of C reverse them; \<open>ntoh64\<close> and \<open>hton64\<close> of
  \<open>rutil/compat.hxx\<close> do it for 64 bits by writing the bytes of the result one by one. A
  receiver reads network order with \<open>net\<close>.
\<close>

unbundle bit_operations_syntax

type_synonym byte = "8 word"

definition nbyte :: "nat \<Rightarrow> 'a::len word \<Rightarrow> byte" where
  "nbyte k w = ucast (drop_bit (8 * k) w)"

definition mem :: "nat \<Rightarrow> 'a::len word \<Rightarrow> byte list" where
  "mem n w = map (\<lambda>k. nbyte k w) [0..<n]"

text \<open>The integer whose bytes are given, and what a receiver reads from bytes in network order.\<close>

primrec of_mem :: "byte list \<Rightarrow> 'a::len word" where
  "of_mem [] = 0"
| "of_mem (b # bs) = ucast b OR push_bit 8 (of_mem bs)"

definition net :: "byte list \<Rightarrow> 'a::len word" where
  "net bs = of_mem (rev bs)"

definition htons :: "16 word \<Rightarrow> 16 word" where
  "htons w = of_mem (rev (mem 2 w))"

definition htonl :: "32 word \<Rightarrow> 32 word" where
  "htonl w = of_mem (rev (mem 4 w))"

definition ntoh64 :: "64 word \<Rightarrow> 64 word" where
  "ntoh64 input = of_mem [
     ucast (drop_bit 56 input AND 0xFF), ucast (drop_bit 48 input AND 0xFF),
     ucast (drop_bit 40 input AND 0xFF), ucast (drop_bit 32 input AND 0xFF),
     ucast (drop_bit 24 input AND 0xFF), ucast (drop_bit 16 input AND 0xFF),
     ucast (drop_bit 8 input AND 0xFF), ucast (drop_bit 0 input AND 0xFF)]"

definition hton64 :: "64 word \<Rightarrow> 64 word" where
  "hton64 input = ntoh64 input"

section \<open>Stored integers\<close>

lemma bit_nbyte: "bit (nbyte k w) j \<longleftrightarrow> j < 8 \<and> bit w (8 * k + j)"
  by (simp add: nbyte_def bit_simps)

lemma bit_of_mem:
  "bit (of_mem bs :: 'a::len word) n \<longleftrightarrow>
     n < LENGTH('a) \<and> n div 8 < length bs \<and> bit (bs ! (n div 8)) (n mod 8)"
proof (induction bs arbitrary: n)
  case (Cons b bs)
  show ?case
  proof (cases "n < 8")
    case True
    then show ?thesis by (auto simp: bit_simps)
  next
    case False
    then obtain m where m: "n = m + 8" by (metis add.commute le_add_diff_inverse not_less)
    have "\<not> bit b n" using False bit_imp_le_length [of b n] by auto
    moreover have "(m + 8) div 8 = Suc (m div 8)" by simp
    ultimately show ?thesis using Cons.IH [of m] m by (auto simp: bit_simps)
  qed
qed simp

lemma length_mem [simp]: "length (mem n w) = n"
  by (simp add: mem_def)

lemma nth_mem [simp]: "k < n \<Longrightarrow> mem n w ! k = nbyte k w"
  by (simp add: mem_def)

lemma of_mem_mem: "LENGTH('a) \<le> 8 * n \<Longrightarrow> of_mem (mem n w) = (w :: 'a::len word)"
  by (rule bit_word_eqI) (simp add: bit_of_mem bit_nbyte less_mult_imp_div_less mult.commute)

lemma mem_of_mem: "length bs = n \<Longrightarrow> 8 * n \<le> LENGTH('a) \<Longrightarrow> mem n (of_mem bs :: 'a::len word) = bs"
  by (rule nth_equalityI) (auto intro!: bit_word_eqI simp: bit_nbyte bit_of_mem)

lemma mem_htons [simp]: "mem 2 (htons w) = rev (mem 2 w)"
  by (simp add: htons_def mem_of_mem)

lemma mem_htonl [simp]: "mem 4 (htonl w) = rev (mem 4 w)"
  by (simp add: htonl_def mem_of_mem)

lemma net_rev_mem [simp]: "LENGTH('a) \<le> 8 * n \<Longrightarrow> net (rev (mem n w)) = (w :: 'a::len word)"
  by (simp add: net_def of_mem_mem)

lemma htons_htons [simp]: "htons (htons w) = w"
  by (simp add: htons_def [of "htons w"] of_mem_mem)

lemma low_byte: "ucast (w AND 0xFF) = (ucast w :: byte)" for w :: "64 word"
proof -
  have ff: "(0xFF :: 64 word) = mask 8" by (simp add: mask_eq_exp_minus_1)
  show ?thesis unfolding ff by (auto intro!: bit_word_eqI simp: bit_simps)
qed

lemma ntoh64_rev: "ntoh64 w = of_mem (rev (mem 8 w))"
  by (simp add: ntoh64_def low_byte mem_def nbyte_def upt_rec numeral_eq_Suc)

text \<open>
  \<open>hton64\<close> puts an integer into network order and \<open>ntoh64\<close> takes it back: in memory the
  bytes of the converted integer are those of the integer in reverse, a receiver of these bytes
  reads the integer, and converting twice changes nothing.
\<close>

theorem hton64_network_order:
  "mem 8 (hton64 w) = rev (mem 8 w) \<and> net (mem 8 (hton64 w)) = w \<and> ntoh64 (hton64 w) = w"
proof -
  have "mem 8 (hton64 w) = rev (mem 8 w)" by (simp add: hton64_def ntoh64_rev mem_of_mem)
  moreover from this have "ntoh64 (hton64 w) = w" by (simp add: ntoh64_rev of_mem_mem)
  ultimately show ?thesis by simp
qed

end
