(* ===== verification/IpAddresses.thy ===== *)
theory IpAddresses
  imports ByteOrder Queues "HOL-Library.List_Lexorder" "HOL-Library.Product_Lexorder"
begin

text \<open>
  The socket address of \<open>rutil/GenericIPAddress.hxx\<close>. It is a union of the address structures
  of the system, so it is modelled by the 28 bytes that they share, with the offsets of the
  fields on Linux; what a constructor leaves unset is an argument. \<open>memcmp\<close> compares bytes as
  unsigned numbers.
\<close>

section \<open>GenericIPAddress\<close>

record ip_address =
  pad :: "byte list"

definition AF_INET :: "16 word" where
  "AF_INET = 2"

definition AF_INET6 :: "16 word" where
  "AF_INET6 = 10"

text \<open>Fields of the union: the family, the port, and the addresses of the two versions.\<close>

definition sa_family :: "ip_address \<Rightarrow> 16 word" where
  "sa_family a = of_mem (take 2 (pad a))"

definition sin_port :: "ip_address \<Rightarrow> 16 word" where
  "sin_port a = of_mem (take 2 (drop 2 (pad a)))"

definition sin_addr :: "ip_address \<Rightarrow> byte list" where
  "sin_addr a = take 4 (drop 4 (pad a))"

definition sin6_port :: "ip_address \<Rightarrow> 16 word" where
  "sin6_port a = of_mem (take 2 (drop 2 (pad a)))"

definition sin6_addr :: "ip_address \<Rightarrow> byte list" where
  "sin6_addr a = take 16 (drop 8 (pad a))"

definition GenericIPAddress_v4 :: "byte list \<Rightarrow> byte list \<Rightarrow> ip_address" where
  "GenericIPAddress_v4 unset v4 = \<lparr>pad = take 16 v4 @ drop 16 unset\<rparr>"

definition GenericIPAddress_v6 :: "byte list \<Rightarrow> ip_address" where
  "GenericIPAddress_v6 v6 = \<lparr>pad = take 28 v6\<rparr>"

text \<open>
  From a \<open>sockaddr\<close>, of which 16 bytes are copied first. For version 6 the reference is taken
  for one to the longer structure, and all 28 bytes that follow are read.
\<close>

definition GenericIPAddress :: "byte list \<Rightarrow> byte list \<Rightarrow> ip_address" where
  "GenericIPAddress unset addr =
     (let a = \<lparr>pad = take 16 addr @ drop 16 unset\<rparr> in
      if sa_family a = AF_INET6 then \<lparr>pad = take 28 addr\<rparr> else \<lparr>pad = take 16 addr @ drop 16 (pad a)\<rparr>)"

definition ip_length :: "ip_address \<Rightarrow> rutil_error + nat" where
  "ip_length a =
     (if sa_family a = AF_INET then Inr 16
      else if sa_family a = AF_INET6 then Inr 28
      else Inl AssertFailed)"

definition isVersion4 :: "ip_address \<Rightarrow> bool" where
  "isVersion4 a = (sa_family a = AF_INET)"

definition isVersion6 :: "ip_address \<Rightarrow> bool" where
  "isVersion6 a = (sa_family a = AF_INET6)"

fun memcmp :: "byte list \<Rightarrow> byte list \<Rightarrow> int" where
  "memcmp (a # as) (b # bs) = (if a = b then memcmp as bs else uint a - uint b)"
| "memcmp as bs = 0"

definition ip_eq :: "ip_address \<Rightarrow> ip_address \<Rightarrow> bool" where
  "ip_eq a b =
     (if sa_family a = sa_family b then
        if sa_family a = AF_INET then sin_port a = sin_port b \<and> memcmp (sin_addr a) (sin_addr b) = 0
        else sin6_port a = sin6_port b \<and> memcmp (sin6_addr a) (sin6_addr b) = 0
      else False)"

definition ip_less :: "ip_address \<Rightarrow> ip_address \<Rightarrow> bool" where
  "ip_less a b =
     (if sa_family a = AF_INET \<and> sa_family b = AF_INET then
        (let c = memcmp (sin_addr a) (sin_addr b) in
         if c < 0 then True else if c > 0 then False
         else if sin_port a < sin_port b then True else False)
      else if sa_family a = AF_INET6 \<and> sa_family b = AF_INET6 then
        (let c = memcmp (sin6_addr a) (sin6_addr b) in
         if c < 0 then True else if c > 0 then False
         else if sin6_port a < sin6_port b then True else False)
      else if sa_family a = AF_INET6 \<and> sa_family b = AF_INET then True
      else if sa_family a = AF_INET \<and> sa_family b = AF_INET6 then False
      else False)"

section \<open>The order\<close>

definition ip_ok :: "ip_address \<Rightarrow> bool" where
  "ip_ok a = (length (pad a) = 28 \<and> sa_family a \<in> {AF_INET, AF_INET6})"

text \<open>What the comparisons look at: the version, the address, and then the port.\<close>

definition ip_key :: "ip_address \<Rightarrow> nat \<times> byte list \<times> 16 word" where
  "ip_key a = (if isVersion4 a then (1, sin_addr a, sin_port a) else (0, sin6_addr a, sin6_port a))"

lemma memcmp_sign:
  "length as = length bs \<Longrightarrow>
     (memcmp as bs < 0 \<longleftrightarrow> as < bs) \<and> (memcmp as bs = 0 \<longleftrightarrow> as = bs) \<and> (0 < memcmp as bs \<longleftrightarrow> bs < as)"
proof (induction as bs rule: memcmp.induct)
  case (1 a as b bs)
  show ?case
  proof (cases "a = b")
    case False
    then have "uint a \<noteq> uint b" by (simp add: word_uint_eq_iff)
    then show ?thesis using False by (auto simp: word_less_def)
  qed (use 1 in auto)
qed auto

lemma families_distinct [simp]: "AF_INET \<noteq> AF_INET6" "AF_INET6 \<noteq> AF_INET"
  by (simp_all add: AF_INET_def AF_INET6_def)

lemma ip_less_key:
  assumes "ip_ok a" and "ip_ok b"
  shows "ip_less a b \<longleftrightarrow> ip_key a < ip_key b"
proof -
  have "length (sin_addr a) = length (sin_addr b)" "length (sin6_addr a) = length (sin6_addr b)"
    using assms by (simp_all add: ip_ok_def sin_addr_def sin6_addr_def)
  note sgn = memcmp_sign [OF this(1)] memcmp_sign [OF this(2)]
  show ?thesis using assms sgn
    by (auto simp: ip_less_def ip_ok_def ip_key_def isVersion4_def Let_def)
qed

lemma ip_eq_key:
  assumes "ip_ok a" and "ip_ok b"
  shows "ip_eq a b \<longleftrightarrow> ip_key a = ip_key b"
proof -
  have "length (sin_addr a) = length (sin_addr b)" "length (sin6_addr a) = length (sin6_addr b)"
    using assms by (simp_all add: ip_ok_def sin_addr_def sin6_addr_def)
  note sgn = memcmp_sign [OF this(1)] memcmp_sign [OF this(2)]
  show ?thesis using assms sgn
    by (auto simp: ip_eq_def ip_ok_def ip_key_def isVersion4_def)
qed

text \<open>
  Addresses can be the keys of a map: on addresses of the two versions, \<open>operator<\<close> is
  irreflexive and transitive, and exactly one of \<open>a < b\<close>, \<open>a == b\<close> and \<open>b < a\<close> holds. Every
  version 6 address is below every version 4 address.
\<close>

theorem ip_address_order:
  assumes "ip_ok a" and "ip_ok b" and "ip_ok c"
  shows "\<not> ip_less a a \<and> (ip_less a b \<and> ip_less b c \<longrightarrow> ip_less a c) \<and>
    (ip_less a b \<and> \<not> ip_eq a b \<and> \<not> ip_less b a \<or> \<not> ip_less a b \<and> ip_eq a b \<and> \<not> ip_less b a \<or>
     \<not> ip_less a b \<and> \<not> ip_eq a b \<and> ip_less b a) \<and>
    (isVersion6 a \<and> isVersion4 b \<longrightarrow> ip_less a b)"
proof -
  have "ip_key a < ip_key b" if "isVersion6 a" "isVersion4 b"
    using that by (simp add: ip_key_def isVersion6_def isVersion4_def)
  moreover have "ip_key a < ip_key c" if "ip_key a < ip_key b" "ip_key b < ip_key c" using that by (rule less_trans)
  ultimately show ?thesis
    using assms by (cases "ip_key a" "ip_key b" rule: linorder_cases) (auto simp: ip_less_key ip_eq_key)
qed

text \<open>
  For any other family the comparisons disagree: nothing is below anything, but two
  addresses are equal only if their bytes at the places of version 6 are, so a map by
  \<open>operator<\<close> takes different addresses for one key. And the equality of version 6 addresses
  does not look at the scope, so link-local addresses of different interfaces are one key, too.
\<close>

theorem ip_address_confused:
  assumes "length (pad a) = 28" and "length (pad b) = 28" and "sa_family a = sa_family b"
  shows "(sa_family a \<notin> {AF_INET, AF_INET6} \<longrightarrow>
      \<not> ip_less a b \<and> \<not> ip_less b a \<and> (ip_eq a b \<longleftrightarrow> sin6_port a = sin6_port b \<and> sin6_addr a = sin6_addr b)) \<and>
    (sa_family a = AF_INET6 \<longrightarrow> take 4 (pad a) = take 4 (pad b) \<longrightarrow> sin6_addr a = sin6_addr b \<longrightarrow> ip_eq a b)"
proof -
  have "length (sin6_addr a) = length (sin6_addr b)" using assms by (simp add: sin6_addr_def)
  note sgn = memcmp_sign [OF this]
  have "sin6_port a = sin6_port b" if "take 4 (pad a) = take 4 (pad b)"
  proof -
    have "take 2 (drop 2 (pad x)) = drop 2 (take 4 (pad x))" for x :: ip_address by (simp add: drop_take)
    then show ?thesis using that by (simp add: sin6_port_def)
  qed
  then show ?thesis using assms sgn by (auto simp: ip_less_def ip_eq_def)
qed

text \<open>
  A constructed address is what it was made from: the version, the address and the port
  are those of the structure that was given, and \<open>length\<close> is the size of that structure.
\<close>

theorem ip_address_construction:
  assumes "length addr = 28" and "length unset = 28"
  shows "(let a = GenericIPAddress unset addr; src = \<lparr>pad = addr\<rparr> in
    sa_family a = sa_family src \<and> sin_port a = sin_port src \<and>
    (isVersion4 src \<longrightarrow> sin_addr a = sin_addr src \<and> a = GenericIPAddress_v4 unset addr \<and> ip_length a = Inr 16) \<and>
    (isVersion6 src \<longrightarrow> sin6_addr a = sin6_addr src \<and> a = GenericIPAddress_v6 addr \<and> ip_length a = Inr 28))"
  using assms
  by (simp add: GenericIPAddress_def Let_def sa_family_def sin_port_def sin_addr_def isVersion4_def isVersion6_def
      GenericIPAddress_v4_def GenericIPAddress_v6_def ip_length_def take_drop)

section \<open>Witnesses\<close>

definition v4 :: "16 word \<Rightarrow> byte list \<Rightarrow> ip_address" where
  "v4 p bs = \<lparr>pad = mem 2 AF_INET @ mem 2 (htons p) @ bs @ replicate 20 0\<rparr>"

definition v6 :: "16 word \<Rightarrow> byte list \<Rightarrow> byte \<Rightarrow> ip_address" where
  "v6 p bs scope = \<lparr>pad = mem 2 AF_INET6 @ mem 2 (htons p) @ replicate 4 0 @ bs @ [scope, 0, 0, 0]\<rparr>"

lemma v4_ok: "length bs = 4 \<Longrightarrow> ip_ok (v4 p bs) \<and> sa_family (v4 p bs) = AF_INET"
  by (simp add: v4_def ip_ok_def sa_family_def of_mem_mem)

lemma v6_ok: "length bs = 16 \<Longrightarrow> ip_ok (v6 p bs s) \<and> sa_family (v6 p bs s) = AF_INET6"
  by (simp add: v6_def ip_ok_def sa_family_def of_mem_mem)

theorem ip_address_order_witness:
  "ip_less (v6 5060 (replicate 16 1) 0) (v4 5060 [10, 0, 0, 1])"
  using ip_address_order [of "v6 5060 (replicate 16 1) 0" "v4 5060 [10, 0, 0, 1]" "v4 5060 [10, 0, 0, 1]"]
    v4_ok [of "[10, 0, 0, 1]" 5060] v6_ok [of "replicate 16 1" 5060 0]
  by (simp add: isVersion4_def isVersion6_def)

theorem ip_address_confused_witness:
  "ip_eq (v6 5060 (replicate 16 1) 2) (v6 5060 (replicate 16 1) 3)"
  using ip_address_confused [of "v6 5060 (replicate 16 1) 2" "v6 5060 (replicate 16 1) 3"]
    v6_ok [of "replicate 16 1" 5060 2] v6_ok [of "replicate 16 1" 5060 3]
  by (simp add: ip_ok_def sin6_addr_def v6_def)

theorem ip_address_construction_witness:
  "ip_length (GenericIPAddress (replicate 28 7) (pad (v4 5060 [10, 0, 0, 1]))) = Inr 16"
proof -
  have ok: "ip_ok (v4 5060 [10, 0, 0, 1])" "sa_family (v4 5060 [10, 0, 0, 1]) = AF_INET"
    using v4_ok [of "[10, 0, 0, 1]" 5060] by simp_all
  have "\<lparr>pad = pad (v4 5060 [10, 0, 0, 1])\<rparr> = v4 5060 [10, 0, 0, 1]" by simp
  with ip_address_construction [of "pad (v4 5060 [10, 0, 0, 1])" "replicate 28 7"] ok
  show ?thesis unfolding Let_def ip_ok_def isVersion4_def by (metis length_replicate)
qed

end
