(* ===== verification/HepPackets.thy ===== *)
theory HepPackets
  imports IpAddresses SipTypes
begin

text \<open>
  The capture packets of \<open>rutil/hep/HepAgent.hxx\<close> (\<open>sendToHOMER\<close>) with the packed structures
  of \<open>rutil/hep/ResipHep.hxx\<close>: every message is copied to a capture server in the format HEP3,
  a header followed by chunks, each with its vendor, type and length. The structures are records
  whose integers are the stored ones, so that \<open>generic_mem\<close> and \<open>chunk_mem\<close> are their bytes.
  The result is the buffer that \<open>sendto\<close> is given, or nothing when the function returns early.
  The encoded message, the correlation id, the clock and whether the library was built with
  \<open>USE_IPV6\<close> are arguments.
\<close>

section \<open>The structures\<close>

record hep_chunk =
  vendor_id :: "16 word"
  type_id :: "16 word"
  chunk_len :: "16 word"

record 'd hep_field =
  chunk :: hep_chunk
  data :: 'd

record hep_generic =
  hep_id :: "byte list"
  hep_length :: "16 word"
  ip_family :: "byte hep_field"
  ip_proto :: "byte hep_field"
  src_port :: "16 word hep_field"
  dst_port :: "16 word hep_field"
  time_sec :: "32 word hep_field"
  time_usec :: "32 word hep_field"
  proto_t :: "byte hep_field"
  capt_id :: "32 word hep_field"

definition chunk_mem :: "hep_chunk \<Rightarrow> byte list" where
  "chunk_mem c = mem 2 (vendor_id c) @ mem 2 (type_id c) @ mem 2 (chunk_len c)"

definition field_mem :: "nat \<Rightarrow> 'd::len word hep_field \<Rightarrow> byte list" where
  "field_mem n f = chunk_mem (chunk f) @ mem n (data f)"

definition generic_mem :: "hep_generic \<Rightarrow> byte list" where
  "generic_mem g = hep_id g @ mem 2 (hep_length g) @ field_mem 1 (ip_family g) @ field_mem 1 (ip_proto g) @
     field_mem 2 (src_port g) @ field_mem 2 (dst_port g) @ field_mem 4 (time_sec g) @ field_mem 4 (time_usec g) @
     field_mem 1 (proto_t g) @ field_mem 4 (capt_id g)"

section \<open>sendToHOMER\<close>

text \<open>The three assignments that open every chunk.\<close>

definition hep_head :: "16 word \<Rightarrow> nat \<Rightarrow> hep_chunk" where
  "hep_head t n = \<lparr>vendor_id = htons 0, type_id = htons t, chunk_len = htons (of_nat n)\<rparr>"

definition ip_chunk :: "16 word \<Rightarrow> byte list \<Rightarrow> byte list" where
  "ip_chunk t bs = chunk_mem (hep_head t (6 + length bs)) @ bs"

text \<open>The switch over the family: its number, the ports, and the two chunks with the addresses.\<close>

definition hep_addresses ::
  "bool \<Rightarrow> ip_address \<Rightarrow> ip_address \<Rightarrow> (byte \<times> 16 word \<times> 16 word \<times> byte list) option" where
  "hep_addresses use_ipv6 src dst =
     (if sa_family src = AF_INET then
        Some (ucast AF_INET, htons (sin_port src), htons (sin_port dst),
          ip_chunk 3 (sin_addr src) @ ip_chunk 4 (sin_addr dst))
      else if sa_family src = AF_INET6 \<and> use_ipv6 then
        Some (ucast AF_INET6, htons (sin6_port src), htons (sin6_port dst),
          ip_chunk 5 (sin6_addr src) @ ip_chunk 6 (sin6_addr dst))
      else None)"

fun hep_protocol :: "TransportType \<Rightarrow> byte option" where
  "hep_protocol TLS = Some 22"
| "hep_protocol TCP = Some 6"
| "hep_protocol UDP = Some 17"
| "hep_protocol SCTP = Some 132"
| "hep_protocol WS = Some 6"
| "hep_protocol WSS = Some 6"
| "hep_protocol _ = None"

definition correlation_chunk :: "byte list \<Rightarrow> byte list" where
  "correlation_chunk cid = (if cid \<noteq> [] then chunk_mem (hep_head 17 (6 + length cid)) @ cid else [])"

definition hep_record ::
  "int \<Rightarrow> uint64 \<Rightarrow> byte \<Rightarrow> byte \<Rightarrow> 16 word \<Rightarrow> 16 word \<Rightarrow> byte \<Rightarrow> hep_generic" where
  "hep_record mCaptureAgentID now family proto sourcePort destinationPort eventType =
     \<lparr>hep_id = [0x48, 0x45, 0x50, 0x33], hep_length = 0,
      ip_family = \<lparr>chunk = hep_head 1 7, data = family\<rparr>,
      ip_proto = \<lparr>chunk = hep_head 2 7, data = proto\<rparr>,
      src_port = \<lparr>chunk = hep_head 7 8, data = htons sourcePort\<rparr>,
      dst_port = \<lparr>chunk = hep_head 8 8, data = htons destinationPort\<rparr>,
      time_sec = \<lparr>chunk = hep_head 9 10, data = htonl (ucast (now div 1000000))\<rparr>,
      time_usec = \<lparr>chunk = hep_head 10 10, data = htonl (ucast (now mod 1000000))\<rparr>,
      proto_t = \<lparr>chunk = hep_head 11 7, data = eventType\<rparr>,
      capt_id = \<lparr>chunk = hep_head 12 10, data = ucast (htons (word_of_int mCaptureAgentID))\<rparr>\<rparr>"

text \<open>
  The buffer grows by the address chunks, the correlation id, the payload chunk and the message;
  the two lengths that depend on the message are written last.
\<close>

definition sendToHOMER ::
  "bool \<Rightarrow> int \<Rightarrow> uint64 \<Rightarrow> TransportType \<Rightarrow> ip_address \<Rightarrow> ip_address \<Rightarrow> byte \<Rightarrow> byte list \<Rightarrow> byte list \<Rightarrow>
   byte list option" where
  "sendToHOMER use_ipv6 mCaptureAgentID now type source destination eventType msg correlationId =
     (case hep_addresses use_ipv6 source destination of
        None \<Rightarrow> None
      | Some (family, sourcePort, destinationPort, addresses) \<Rightarrow> (case hep_protocol type of
          None \<Rightarrow> None
        | Some proto \<Rightarrow>
           (let hg = hep_record mCaptureAgentID now family proto sourcePort destinationPort eventType;
                payloadChunkOffset = length (generic_mem hg) + length addresses + length (correlation_chunk correlationId);
                beforePayload = payloadChunkOffset + 6;
                afterPayload = beforePayload + length msg;
                payload_chunk = hep_head 15 (6 + afterPayload - beforePayload);
                hg = hg\<lparr>hep_length := htons (of_nat afterPayload)\<rparr>
            in Some (generic_mem hg @ addresses @ correlation_chunk correlationId @ chunk_mem payload_chunk @ msg))))"

section \<open>A receiver\<close>

text \<open>The format as a receiver reads it: the header with the length of the packet, then chunks.\<close>

fun read_chunks :: "byte list \<Rightarrow> (16 word \<times> 16 word \<times> byte list) list option" where
  "read_chunks [] = Some []"
| "read_chunks (a # b # c # d # e # f # bs) =
     (let n = unat (net [e, f] :: 16 word) in
      if n < 6 \<or> length bs < n - 6 then None
      else map_option (Cons (net [a, b], net [c, d], take (n - 6) bs)) (read_chunks (drop (n - 6) bs)))"
| "read_chunks bs = None"

definition read_hep :: "byte list \<Rightarrow> (16 word \<times> 16 word \<times> byte list) list option" where
  "read_hep bs =
     (if length bs < 6 \<or> take 4 bs \<noteq> [0x48, 0x45, 0x50, 0x33] \<or>
         unat (net (take 2 (drop 4 bs)) :: 16 word) \<noteq> length bs
      then None else read_chunks (drop 6 bs))"

lemma length_chunk_mem [simp]: "length (chunk_mem c) = 6"
  by (simp add: chunk_mem_def)

lemma mem_2: "mem 2 w = [nbyte 0 w, nbyte 1 w]"
  by (simp add: mem_def upt_rec)

lemma net_2 [simp]: "net [nbyte (Suc 0) w, nbyte 0 w] = (w :: 16 word)"
  using net_rev_mem [of 2 w] by (simp add: mem_2)

lemma chunk_mem_head:
  "chunk_mem (hep_head t n) = [nbyte 1 (0 :: 16 word), nbyte 0 (0 :: 16 word), nbyte 1 t, nbyte 0 t, nbyte 1 (of_nat n :: 16 word), nbyte 0 (of_nat n :: 16 word)]"
  for t :: "16 word"
  by (simp add: chunk_mem_def hep_head_def mem_2 [symmetric]) (simp add: mem_2)

lemma read_chunk:
  assumes "length d + 6 < 65536" and "n = 6 + length d"
  shows "read_chunks (chunk_mem (hep_head t n) @ d @ rest) = map_option (Cons (0, t, d)) (read_chunks rest)"
proof -
  have n: "unat (of_nat n :: 16 word) = n" and d: "length d = n - 6" "6 \<le> n"
    using assms by (simp_all add: unat_of_nat del: of_nat_add)
  show ?thesis using d by (auto simp: chunk_mem_head Let_def n)
qed

section \<open>What the receiver gets\<close>

lemma unat_of_nat16: "n < 65536 \<Longrightarrow> unat (of_nat n :: 16 word) = n"
  by (simp add: unat_of_nat)

lemma mem_1: "mem 1 (b :: byte) = [b]"
  by (simp add: mem_def nbyte_def)

lemma length_sin: "length (pad a) = 28 \<Longrightarrow> length (sin_addr a) = 4 \<and> length (sin6_addr a) = 16"
  by (simp add: sin_addr_def sin6_addr_def)

lemma length_generic_mem: "length (hep_id g) = 4 \<Longrightarrow> length (generic_mem g) = 73"
  by (simp add: generic_mem_def field_mem_def)

lemma mem_4_16: "mem 4 (ucast (h :: 16 word) :: 32 word) = mem 2 h @ [0, 0]"
proof -
  have "nbyte k (ucast h :: 32 word) = nbyte k h" for k
    by (rule bit_word_eqI) (auto simp: bit_nbyte bit_simps dest: bit_imp_le_length)
  moreover have "nbyte 2 h = 0" "nbyte 3 h = 0"
    by (rule bit_word_eqI; auto simp: bit_nbyte dest: bit_imp_le_length)+
  ultimately show ?thesis by (simp add: mem_def upt_rec eval_nat_numeral)
qed

lemma of_mem_16_32: "(of_mem (mem 2 w) :: 32 word) = ucast (w :: 16 word)"
proof (rule bit_word_eqI)
  fix n
  show "bit (of_mem (mem 2 w) :: 32 word) n \<longleftrightarrow> bit (ucast w :: 32 word) n" if "n < LENGTH(32)"
  proof (cases "n < 16")
    case True
    then have "n div 8 < 2" by (simp add: less_mult_imp_div_less)
    then show ?thesis using True by (simp add: bit_of_mem bit_nbyte bit_simps)
  next
    case False
    then have "\<not> n div 8 < 2" by (simp add: not_less)
    then show ?thesis using False bit_imp_le_length [of w n] by (auto simp: bit_of_mem bit_simps)
  qed
qed

lemma net_capt_id: "(net (mem 4 (ucast (htons w) :: 32 word)) :: 32 word) = 65536 * ucast w"
proof -
  have "(net (mem 4 (ucast (htons w) :: 32 word)) :: 32 word) = push_bit 8 (push_bit 8 (ucast w))"
    by (simp add: mem_4_16 net_def of_mem_16_32)
  also have "\<dots> = push_bit 16 (ucast w)" by (simp add: push_bit_push_bit)
  finally show ?thesis by (simp add: push_bit_eq_mult)
qed

lemma capt_id_bytes: "mem 4 (ucast (htons w) :: 32 word) = rev (mem 4 (65536 * ucast w :: 32 word))"
proof -
  have "rev (mem 4 (net bs :: 32 word)) = bs" if "length bs = 4" for bs
    using that by (simp add: net_def mem_of_mem)
  from this [of "mem 4 (ucast (htons w) :: 32 word)"] show ?thesis by (simp add: net_capt_id)
qed

text \<open>
  The chunks in the order in which they are in the packet, as a receiver finds them: the bytes of
  numbers most significant first. The one of type 12 is not the number of the capture agent but
  65536 times its lower half.
\<close>

definition hep_contents ::
  "int \<Rightarrow> uint64 \<Rightarrow> byte \<Rightarrow> ip_address \<Rightarrow> ip_address \<Rightarrow> byte \<Rightarrow> byte list \<Rightarrow> byte list \<Rightarrow>
   (16 word \<times> 16 word \<times> byte list) list" where
  "hep_contents agent now proto src dst event msg cid =
     [(0, 1, [ucast (sa_family src)]), (0, 2, [proto]),
      (0, 7, mem 2 (sin_port src)), (0, 8, mem 2 (sin_port dst)),
      (0, 9, rev (mem 4 (ucast (now div 1000000) :: 32 word))), (0, 10, rev (mem 4 (ucast (now mod 1000000) :: 32 word))),
      (0, 11, [event]), (0, 12, rev (mem 4 (65536 * ucast (word_of_int agent :: 16 word) :: 32 word)))] @
     (if isVersion4 src then [(0, 3, sin_addr src), (0, 4, sin_addr dst)]
      else [(0, 5, sin6_addr src), (0, 6, sin6_addr dst)]) @
     (if cid \<noteq> [] then [(0, 17, cid)] else []) @ [(0, 15, msg)]"

lemma read_field:
  "n = 6 + k \<Longrightarrow> k < 65530 \<Longrightarrow> read_chunks (field_mem k \<lparr>chunk = hep_head t n, data = d\<rparr> @ rest) =
     map_option (Cons (0, t, mem k d)) (read_chunks rest)"
  using read_chunk [of "mem k d" n t rest] by (simp add: field_mem_def)

lemma read_ip_chunk:
  "length bs < 65530 \<Longrightarrow> read_chunks (ip_chunk t bs @ rest) = map_option (Cons (0, t, bs)) (read_chunks rest)"
  using read_chunk [of bs "6 + length bs" t rest] by (simp add: ip_chunk_def)

lemma read_correlation:
  "length cid < 65530 \<Longrightarrow> read_chunks (correlation_chunk cid @ rest) =
     (if cid \<noteq> [] then map_option (Cons (0, 17, cid)) (read_chunks rest) else read_chunks rest)"
  using read_chunk [of cid "6 + length cid" 17 rest] by (simp add: correlation_chunk_def)

lemma read_payload: "length msg < 65530 \<Longrightarrow> read_chunks (chunk_mem (hep_head 15 (6 + length msg)) @ msg) = Some [(0, 15, msg)]"
  using read_chunk [of msg "6 + length msg" 15 "[]"] by simp

text \<open>A packet that is sent has the length that its header announces, as far as 16 bits go.\<close>

lemma length_generic_record:
  "length (generic_mem (hep_record agent now fam pr sp dp ev)) = 73"
  "length (generic_mem ((hep_record agent now fam pr sp dp ev)\<lparr>hep_length := n\<rparr>)) = 73"
  by (simp_all add: length_generic_mem hep_record_def)

lemma sendToHOMER_eq:
  "sendToHOMER u agent now type src dst ev msg cid = Some bs \<longleftrightarrow>
     (\<exists>fam sp dp ad pr. hep_addresses u src dst = Some (fam, sp, dp, ad) \<and> hep_protocol type = Some pr \<and>
       bs = generic_mem ((hep_record agent now fam pr sp dp ev)\<lparr>hep_length := htons (of_nat (length bs))\<rparr>) @
         ad @ correlation_chunk cid @ chunk_mem (hep_head 15 (6 + length msg)) @ msg)" (is "?l \<longleftrightarrow> ?r")
proof -
  have len: "length bs = 73 + length ad + length (correlation_chunk cid) + 6 + length msg"
    if "bs = generic_mem ((hep_record agent now fam pr sp dp ev)\<lparr>hep_length := n\<rparr>) @
         ad @ correlation_chunk cid @ chunk_mem (hep_head 15 k) @ msg" for fam pr sp dp ad n k
    unfolding that by (simp add: length_generic_record)
  show ?thesis
  proof
    assume ?l
    then show ?r
      by (auto simp: sendToHOMER_def Let_def length_generic_record ac_simps simp del: of_nat_add of_nat_numeral
          split: option.splits)
  next
    assume ?r
    then obtain fam sp dp ad pr where r: "hep_addresses u src dst = Some (fam, sp, dp, ad)" "hep_protocol type = Some pr"
      and b: "bs = generic_mem ((hep_record agent now fam pr sp dp ev)\<lparr>hep_length := htons (of_nat (length bs))\<rparr>) @
         ad @ correlation_chunk cid @ chunk_mem (hep_head 15 (6 + length msg)) @ msg" by blast
    from r len [OF b] b show ?l
      by (simp add: sendToHOMER_def Let_def length_generic_record del: of_nat_add of_nat_numeral)
  qed
qed

lemma hep_addresses_Some:
  assumes "hep_addresses u src dst = Some (fam, sp, dp, ad)" and "length (pad src) = 28" and "length (pad dst) = 28"
  shows "fam = ucast (sa_family src) \<and> sp = htons (sin_port src) \<and> dp = htons (sin_port dst) \<and> length ad \<le> 44 \<and>
    ad = (if isVersion4 src then ip_chunk 3 (sin_addr src) @ ip_chunk 4 (sin_addr dst)
      else ip_chunk 5 (sin6_addr src) @ ip_chunk 6 (sin6_addr dst))"
  using assms length_sin [of src] length_sin [of dst]
  by (auto simp: hep_addresses_def isVersion4_def ip_chunk_def sin_port_def sin6_port_def split: if_splits)

text \<open>The record without its header.\<close>

definition hep_fields ::
  "int \<Rightarrow> uint64 \<Rightarrow> byte \<Rightarrow> byte \<Rightarrow> 16 word \<Rightarrow> 16 word \<Rightarrow> byte \<Rightarrow> byte list" where
  "hep_fields agent now fam pr sp dp ev =
     field_mem 1 \<lparr>chunk = hep_head 1 7, data = fam\<rparr> @
     field_mem 1 \<lparr>chunk = hep_head 2 7, data = pr\<rparr> @ field_mem 2 \<lparr>chunk = hep_head 7 8, data = htons sp\<rparr> @
     field_mem 2 \<lparr>chunk = hep_head 8 8, data = htons dp\<rparr> @
     field_mem 4 \<lparr>chunk = hep_head 9 10, data = htonl (ucast (now div 1000000))\<rparr> @
     field_mem 4 \<lparr>chunk = hep_head 10 10, data = htonl (ucast (now mod 1000000))\<rparr> @
     field_mem 1 \<lparr>chunk = hep_head 11 7, data = ev\<rparr> @
     field_mem 4 \<lparr>chunk = hep_head 12 10, data = ucast (htons (word_of_int agent)) :: 32 word\<rparr>"

lemma generic_mem_record:
  "generic_mem ((hep_record agent now fam pr sp dp ev)\<lparr>hep_length := n\<rparr>) =
     [0x48, 0x45, 0x50, 0x33] @ mem 2 n @ hep_fields agent now fam pr sp dp ev"
  by (simp add: generic_mem_def hep_record_def hep_fields_def)

lemma read_hep_fields:
  "read_chunks (hep_fields agent now fam pr sp dp ev @ rest) =
     map_option (append [(0, 1, [fam]), (0, 2, [pr]), (0, 7, rev (mem 2 sp)), (0, 8, rev (mem 2 dp)),
       (0, 9, rev (mem 4 (ucast (now div 1000000) :: 32 word))), (0, 10, rev (mem 4 (ucast (now mod 1000000) :: 32 word))),
       (0, 11, [ev]), (0, 12, mem 4 (ucast (htons (word_of_int agent)) :: 32 word))]) (read_chunks rest)"
  by (cases "read_chunks rest") (simp_all add: hep_fields_def read_field mem_1 [simplified])

lemma read_hep_packet:
  "read_hep ([0x48, 0x45, 0x50, 0x33] @ mem 2 (htons w) @ rest) =
     (if unat w = 6 + length rest then read_chunks rest else None)"
proof -
  have "mem 2 (htons w) = [nbyte (Suc 0) w, nbyte 0 w]" by (simp add: mem_2 [of w])
  then show ?thesis by (simp add: read_hep_def eval_nat_numeral)
qed

lemma sent_bytes_decode:
  assumes "sendToHOMER u agent now type src dst ev msg cid = Some bs"
    and "length (pad src) = 28" and "length (pad dst) = 28"
  shows "read_hep bs = (if length bs < 65536
    then Some (hep_contents agent now (the (hep_protocol type)) src dst ev msg cid) else None)"
proof -
  define w where "w = (of_nat (length bs) :: 16 word)"
  from assms(1) obtain fam sp dp ad pr where a: "hep_addresses u src dst = Some (fam, sp, dp, ad)"
    and p: "hep_protocol type = Some pr"
    and b: "bs = [0x48, 0x45, 0x50, 0x33] @ mem 2 (htons w) @ hep_fields agent now fam pr sp dp ev @
         ad @ correlation_chunk cid @ chunk_mem (hep_head 15 (6 + length msg)) @ msg" (is "_ = _ @ _ @ ?R")
    unfolding sendToHOMER_eq w_def by (auto simp: generic_mem_record)
  note ad = hep_addresses_Some [OF a assms(2,3)]
  have len: "length bs = 6 + length ?R" unfolding b by simp
  show ?thesis
  proof (cases "length bs < 65536")
    case True
    then have "unat w = 6 + length ?R" using len unat_of_nat16 [OF True] by (simp add: w_def)
    then have "read_hep bs = read_chunks ?R" unfolding b read_hep_packet by simp
    moreover have "length msg < 65530" "length cid < 65530"
      using True len by (auto simp: correlation_chunk_def split: if_splits)
    moreover have "length (sin_addr x) < 65530" "length (sin6_addr x) < 65530" for x
      by (simp_all add: sin_addr_def sin6_addr_def)
    ultimately show ?thesis using True p ad
      by (simp add: read_hep_fields read_ip_chunk read_correlation read_payload hep_contents_def capt_id_bytes)
  next
    case False
    have "unat w < 65536" using unat_less_bound [of w] by simp
    then have "unat w \<noteq> 6 + length ?R" using False len by simp
    then show ?thesis using False unfolding b read_hep_packet by simp
  qed
qed

text \<open>
  (C23) What a receiver reads from a capture packet. A packet is sent exactly for addresses of
  a version that the build supports and a transport that the format knows. The receiver finds
  the family, the protocol, the ports, the time, the event type, both addresses, the
  correlation id if there is one and the whole message as they were given, each chunk with the
  length that it announces; as capture id it finds 65536 times the lower 16 bits of the agent's
  number, because the field of 32 bits is filled with a number of 16 bits in network order. A
  packet of 65536 bytes or more announces a wrong length, and a receiver that checks it rejects
  it.
\<close>

theorem hep_packet_decodes:
  assumes "length (pad src) = 28" and "length (pad dst) = 28"
  shows "(sendToHOMER u agent now type src dst ev msg cid = None \<longleftrightarrow>
      \<not> isVersion4 src \<and> \<not> (isVersion6 src \<and> u) \<or> hep_protocol type = None) \<and>
    (\<forall>bs. sendToHOMER u agent now type src dst ev msg cid = Some bs \<longrightarrow>
      read_hep bs = (if length bs < 65536
        then Some (hep_contents agent now (the (hep_protocol type)) src dst ev msg cid) else None))"
  using sent_bytes_decode [OF _ assms]
  by (auto simp: sendToHOMER_def hep_addresses_def isVersion4_def isVersion6_def Let_def split: option.splits)

text \<open>
  The receiver reads the right ports, but not the right capture id: the field has 32 bits
  and is filled with a number of 16 bits in network order, so the receiver gets the lower half
  of \<open>mCaptureAgentID\<close> multiplied by 65536.
\<close>

theorem hep_capture_id_shifted:
  "(0, 7, mem 2 (sin_port src)) \<in> set (hep_contents agent now proto src dst ev msg cid) \<and>
   net (mem 2 (sin_port src)) = htons (sin_port src) \<and>
   (0, 12, mem 4 (ucast (htons (word_of_int agent)) :: 32 word)) \<in> set (hep_contents agent now proto src dst ev msg cid) \<and>
   (net (mem 4 (ucast (htons (word_of_int agent)) :: 32 word)) :: 32 word) = 65536 * ucast (word_of_int agent :: 16 word)"
proof -
  have "net (mem 2 (sin_port src)) = htons (sin_port src)" by (simp add: net_def htons_def)
  then show ?thesis
    using net_capt_id [of "word_of_int agent"] capt_id_bytes [of "word_of_int agent"] by (simp add: hep_contents_def)
qed

section \<open>Witnesses\<close>

theorem hep_packet_decodes_witness:
  "\<exists>bs. sendToHOMER False 7 1000000 UDP (v4 5060 [10, 0, 0, 1]) (v4 5060 [10, 0, 0, 2]) 1 [1, 2, 3] [] = Some bs \<and>
     length bs = 102 \<and> read_hep bs =
       Some (hep_contents 7 1000000 17 (v4 5060 [10, 0, 0, 1]) (v4 5060 [10, 0, 0, 2]) 1 [1, 2, 3] [])"
proof -
  have ok: "length (pad (v4 5060 [10, 0, 0, 1])) = 28" "length (pad (v4 5060 [10, 0, 0, 2])) = 28"
    "isVersion4 (v4 5060 [10, 0, 0, 1])"
    using v4_ok [of "[10, 0, 0, 1]" 5060] v4_ok [of "[10, 0, 0, 2]" 5060] by (simp_all add: ip_ok_def isVersion4_def)
  note dec = hep_packet_decodes [OF ok(1,2), of False 7 1000000 UDP 1 "[1, 2, 3]" "[]"]
  then obtain bs where bs: "sendToHOMER False 7 1000000 UDP (v4 5060 [10, 0, 0, 1]) (v4 5060 [10, 0, 0, 2]) 1 [1, 2, 3] [] = Some bs"
    using ok(3) by fastforce
  then have "length bs = 102"
    using ok length_sin [OF ok(1)] length_sin [OF ok(2)]
    by (auto simp: sendToHOMER_def Let_def hep_addresses_def isVersion4_def length_generic_record ip_chunk_def correlation_chunk_def)
  with bs dec show ?thesis by simp
qed

end
