(* ===== verification/LazyHeaders.thy ===== *)
theory LazyHeaders
  imports Queues "HOL-Library.Multiset"
begin

text \<open>
  Header values that are parsed when they are read: \<open>resip/stack/LazyParser.hxx\<close>, and the
  containers of them in \<open>ParserContainerBase.hxx\<close> and \<open>ParserContainer.hxx\<close>.

  A container keeps a vector of kits. A kit has the text of one header field value and, once
  somebody has asked for the value, a pointer to a parser object. Kits are copied and assigned
  by operations that their author calls a poor man's move: a copy shares the pointer with its
  original, an assignment exchanges the two sides, and the destructor frees nothing. The vector
  operations are therefore written down with the copies and assignments that they are made of,
  and it is shown that no parser object is lost or freed twice and that the container behaves
  as a list of values.

  Parser objects live in a store by their addresses. The bodies of \<open>doParse\<close>, of the
  constructor from a text, of \<open>clone\<close>, of \<open>isEqual\<close>, of \<open>encode\<close> and of \<open>freeParsers\<close> are
  not in the headers; they are the fields of \<open>hdr_lib\<close>.
\<close>

section \<open>Lazy values\<close>

datatype ParseState = NOT_PARSED | WELL_FORMED | MALFORMED | DIRTY

record 'v lazy =
  mHeaderField :: string
  mState :: ParseState
  content :: 'v

record kit =
  pc :: "nat option"
  hfv :: string

record 'v store =
  objs :: "nat \<Rightarrow> 'v lazy option"
  fresh :: nat
  destroyed :: "nat list"

record 'v hdr_lib =
  doParse :: "'v lazy \<Rightarrow> bool \<times> 'v lazy" \<comment> \<open>false: it throws\<close>
  construct :: "string \<Rightarrow> int \<Rightarrow> 'v lazy"
  clone_of :: "'v lazy \<Rightarrow> 'v lazy"
  isEqual :: "'v lazy \<Rightarrow> 'v lazy \<Rightarrow> bool option \<times> 'v lazy \<times> 'v lazy" \<comment> \<open>none: it throws\<close>
  encode_parser :: "'v lazy \<Rightarrow> string"
  encode_field :: "string \<Rightarrow> string"
  freeParsers :: "kit list \<Rightarrow> 'v store \<Rightarrow> rutil_error + kit list \<times> 'v store"

definition isParsed :: "'v lazy \<Rightarrow> bool" where
  "isParsed x = (mState x \<noteq> NOT_PARSED)"

definition checkParsed_const :: "'v hdr_lib \<Rightarrow> 'v lazy \<Rightarrow> bool \<times> 'v lazy" where
  "checkParsed_const L x = (if mState x = NOT_PARSED then doParse L x else (True, x))"

text \<open>An exception of the first statement leaves the function before the second.\<close>

definition checkParsed :: "'v hdr_lib \<Rightarrow> 'v lazy \<Rightarrow> bool \<times> 'v lazy" where
  "checkParsed L x = (case checkParsed_const L x of (ok, y) \<Rightarrow> if ok then (True, y\<lparr>mState := DIRTY\<rparr>) else (False, y))"

definition markDirty :: "'v lazy \<Rightarrow> 'v lazy" where
  "markDirty x = x\<lparr>mState := DIRTY\<rparr>"

text \<open>What the header says of \<open>doParse\<close>: it records whether the text is well formed and throws if not.\<close>

definition parse_law :: "'v hdr_lib \<Rightarrow> bool" where
  "parse_law L = (\<forall>x. mState x = NOT_PARSED \<longrightarrow> mHeaderField (snd (doParse L x)) = mHeaderField x \<and>
     mState (snd (doParse L x)) = (if fst (doParse L x) then WELL_FORMED else MALFORMED))"

section \<open>Kits and vectors of kits\<close>

definition kit_Empty :: kit where
  "kit_Empty = \<lparr>pc = None, hfv = []\<rparr>"

text \<open>Copy: the members are copied and then exchanged with the original; both are returned.\<close>

definition kit_copy :: "kit \<Rightarrow> kit \<times> kit" where
  "kit_copy orig = (let new = \<lparr>pc = pc orig, hfv = hfv orig\<rparr> in
     (new\<lparr>pc := pc orig, hfv := hfv orig\<rparr>, orig\<lparr>pc := pc new, hfv := hfv new\<rparr>))"

text \<open>Assignment to another kit: both sides afterwards.\<close>

definition kit_assign :: "kit \<Rightarrow> kit \<Rightarrow> kit \<times> kit" where
  "kit_assign lhs rhs = (lhs\<lparr>pc := pc rhs, hfv := hfv rhs\<rparr>, rhs\<lparr>pc := pc lhs, hfv := hfv lhs\<rparr>)"

definition kit_encode :: "'v hdr_lib \<Rightarrow> 'v store \<Rightarrow> kit \<Rightarrow> rutil_error + string" where
  "kit_encode L st k = (case pc k of None \<Rightarrow> Inr (encode_field L (hfv k))
     | Some a \<Rightarrow> (case objs st a of None \<Rightarrow> Inl Dangling | Some x \<Rightarrow> Inr (encode_parser L x)))"

text \<open>
  \<open>std::vector\<close>: erasing assigns every later element to its predecessor and destroys the last
  one. Inserting in front moves to new memory by copies if there is no room, and otherwise
  copies the last element behind itself, assigns backwards and assigns the new element.
\<close>

fun shift_down :: "kit list \<Rightarrow> kit list" where
  "shift_down (k # k' # ks) = (case kit_assign k k' of (a, b) \<Rightarrow> a # shift_down (b # ks))"
| "shift_down [k] = []"
| "shift_down [] = []"

definition vector_erase :: "nat \<Rightarrow> kit list \<Rightarrow> kit list" where
  "vector_erase i ks = take i ks @ shift_down (drop i ks)"

fun shift_up :: "kit list \<Rightarrow> kit list" where
  "shift_up [] = []"
| "shift_up [k] = (case kit_copy k of (c, k') \<Rightarrow> [k', c])"
| "shift_up (k # k2 # ks) = (case shift_up (k2 # ks) of [] \<Rightarrow> []
     | x # xs \<Rightarrow> (case kit_assign x k of (x', k') \<Rightarrow> k' # x' # xs))"

definition moved :: "kit list \<Rightarrow> kit list" where
  "moved ks = map (\<lambda>k. fst (kit_copy k)) ks"

definition vector_insert_front :: "bool \<Rightarrow> kit \<Rightarrow> kit list \<Rightarrow> kit list" where
  "vector_insert_front full new ks = (let n = fst (kit_copy new) in
     if full then n # moved ks
     else case shift_up ks of [] \<Rightarrow> [n] | x # xs \<Rightarrow> fst (kit_assign x n) # xs)"

definition vector_push_back :: "bool \<Rightarrow> kit \<Rightarrow> kit list \<Rightarrow> kit list" where
  "vector_push_back full new ks = (if full then moved ks else ks) @ [fst (kit_copy new)]"

text \<open>\<open>std::reverse\<close> exchanges the first and the last element by a copy and two assignments.\<close>

definition kit_swap :: "kit \<Rightarrow> kit \<Rightarrow> kit \<times> kit" where
  "kit_swap a b = (case kit_copy a of (t, a1) \<Rightarrow> case kit_assign a1 b of (a2, b1) \<Rightarrow> (a2, fst (kit_assign b1 t)))"

function reverse_kits :: "kit list \<Rightarrow> kit list" where
  "reverse_kits ks = (if length ks < 2 then ks
     else case kit_swap (hd ks) (last ks) of (a, b) \<Rightarrow> a # reverse_kits (butlast (tl ks)) @ [b])"
  by pat_completeness auto
termination
  by (relation "measure length") auto

lemma kit_simps [simp]:
  "kit_copy k = (k, k)" "kit_assign k l = (l, k)" "kit_swap k l = (l, k)" "moved ks = ks"
proof -
  show copy: "kit_copy k = (k, k)" for k by (simp add: kit_copy_def)
  show asg: "kit_assign k l = (l, k)" for k l by (simp add: kit_assign_def)
  show "kit_swap k l = (l, k)" by (simp add: kit_swap_def copy asg)
  show "moved ks = ks" by (simp add: moved_def copy)
qed

lemma shift_down_Cons [simp]: "shift_down (k # ks) = ks"
  by (induction ks arbitrary: k) simp_all

lemma shift_up_eq: "ks \<noteq> [] \<Longrightarrow> shift_up ks = last ks # ks"
proof (induction ks)
  case (Cons k ks)
  then show ?case by (cases ks) simp_all
qed simp

lemma vector_simps [simp]:
  "i < length ks \<Longrightarrow> vector_erase i ks = take i ks @ drop (Suc i) ks"
  "vector_insert_front full k ks = k # ks"
  "vector_push_back full k ks = ks @ [k]"
proof -
  show "vector_erase i ks = take i ks @ drop (Suc i) ks" if "i < length ks"
    using that by (simp add: vector_erase_def flip: Cons_nth_drop_Suc)
  show "vector_insert_front full k ks = k # ks"
    by (cases "ks = []") (simp_all add: vector_insert_front_def shift_up_eq)
  show "vector_push_back full k ks = ks @ [k]" by (simp add: vector_push_back_def)
qed

lemma reverse_kits_rev [simp]: "reverse_kits ks = rev ks"
proof (induction ks rule: reverse_kits.induct)
  case (1 ks)
  show ?case
  proof (cases "length ks < 2")
    case True
    then show ?thesis by (cases ks) (auto simp: reverse_kits.simps)
  next
    case False
    then obtain a b ms where ks: "ks = a # ms @ [b]"
      by (cases ks; cases "tl ks" rule: rev_cases) auto
    then have "reverse_kits ks = b # reverse_kits ms @ [a]"
      by (subst reverse_kits.simps) (simp add: butlast_append)
    moreover have "reverse_kits ms = rev ms" using 1 False ks by (simp add: butlast_append)
    ultimately show ?thesis using ks by simp
  qed
qed

declare reverse_kits.simps [simp del]

section \<open>Containers\<close>

definition new_parser :: "'v lazy \<Rightarrow> 'v store \<Rightarrow> nat \<times> 'v store" where
  "new_parser x st = (fresh st, st\<lparr>objs := (objs st)(fresh st \<mapsto> x), fresh := Suc (fresh st)\<rparr>)"

definition freeParser :: "kit \<Rightarrow> 'v store \<Rightarrow> rutil_error + kit \<times> 'v store" where
  "freeParser k st = (case pc k of None \<Rightarrow> Inr (k, st)
     | Some a \<Rightarrow> (if objs st a = None then Inl Dangling
         else Inr (k\<lparr>pc := None\<rparr>, st\<lparr>objs := (objs st)(a := None), destroyed := a # destroyed st\<rparr>)))"

definition ensureInitialized :: "'v hdr_lib \<Rightarrow> int \<Rightarrow> kit \<Rightarrow> 'v store \<Rightarrow> nat \<times> kit \<times> 'v store" where
  "ensureInitialized L ty k st = (case pc k of Some a \<Rightarrow> (a, k, st)
     | None \<Rightarrow> (case new_parser (construct L (hfv k) ty) st of (a, st') \<Rightarrow> (a, k\<lparr>pc := Some a\<rparr>, st')))"

type_synonym 'v container = "kit list \<times> 'v store"

definition ParserContainer :: "string list \<Rightarrow> kit list" where
  "ParserContainer hfvs = map (\<lambda>t. \<lparr>pc = None, hfv = t\<rparr>) hfvs"

text \<open>\<open>operator*\<close> of an iterator at position \<open>i\<close>, and \<open>front\<close> and \<open>back\<close>.\<close>

definition pc_deref :: "'v hdr_lib \<Rightarrow> int \<Rightarrow> nat \<Rightarrow> 'v container \<Rightarrow> rutil_error + nat \<times> 'v container" where
  "pc_deref L ty i c = (case c of (ks, st) \<Rightarrow> if i < length ks
     then case ensureInitialized L ty (ks ! i) st of (a, k, st') \<Rightarrow> Inr (a, ks[i := k], st') else Inl Dangling)"

definition pc_front :: "'v hdr_lib \<Rightarrow> int \<Rightarrow> 'v container \<Rightarrow> rutil_error + nat \<times> 'v container" where
  "pc_front L ty c = (if fst c = [] then Inl EmptyDeque else pc_deref L ty 0 c)"

definition pc_back :: "'v hdr_lib \<Rightarrow> int \<Rightarrow> 'v container \<Rightarrow> rutil_error + nat \<times> 'v container" where
  "pc_back L ty c = (if fst c = [] then Inl EmptyDeque else pc_deref L ty (length (fst c) - 1) c)"

definition pc_push_front :: "'v hdr_lib \<Rightarrow> bool \<Rightarrow> 'v lazy \<Rightarrow> 'v container \<Rightarrow> 'v container" where
  "pc_push_front L full t c = (case c of (ks, st) \<Rightarrow> case new_parser (clone_of L t) st of (a, st') \<Rightarrow>
     let ks' = vector_insert_front full kit_Empty ks in (ks'[0 := (ks' ! 0)\<lparr>pc := Some a\<rparr>], st'))"

definition pc_push_back :: "'v hdr_lib \<Rightarrow> bool \<Rightarrow> 'v lazy \<Rightarrow> 'v container \<Rightarrow> 'v container" where
  "pc_push_back L full t c = (case c of (ks, st) \<Rightarrow> case new_parser (clone_of L t) st of (a, st') \<Rightarrow>
     let ks' = vector_push_back full kit_Empty ks; n = length ks' - 1 in (ks'[n := (ks' ! n)\<lparr>pc := Some a\<rparr>], st'))"

definition pc_erase :: "nat \<Rightarrow> 'v container \<Rightarrow> rutil_error + 'v container" where
  "pc_erase i c = (case c of (ks, st) \<Rightarrow> if i < length ks
     then bindr (freeParser (ks ! i) st) (\<lambda>(k, st'). Inr (vector_erase i (ks[i := k]), st')) else Inl Dangling)"

definition pc_clear :: "'v hdr_lib \<Rightarrow> 'v container \<Rightarrow> rutil_error + 'v container" where
  "pc_clear L c = (case c of (ks, st) \<Rightarrow> bindr (freeParsers L ks st) (\<lambda>(ks', st'). Inr ([], st')))"

definition pc_size :: "'v container \<Rightarrow> nat" where
  "pc_size c = length (fst c)"

definition pc_empty :: "'v container \<Rightarrow> bool" where
  "pc_empty c = (fst c = [])"

text \<open>The loop of \<open>find\<close>: whether a value was found, or none if a comparison throws.\<close>

fun pc_find :: "'v hdr_lib \<Rightarrow> int \<Rightarrow> 'v lazy \<Rightarrow> 'v container \<Rightarrow> rutil_error + bool option \<times> 'v lazy \<times> 'v container" where
  "pc_find L ty r ([], st) = Inr (Some False, r, [], st)"
| "pc_find L ty r (k # ks, st) = (case ensureInitialized L ty k st of (a, k', st') \<Rightarrow>
     case objs st' a of None \<Rightarrow> Inl Dangling
     | Some x \<Rightarrow> (case isEqual L r x of (res, r', x') \<Rightarrow>
         let st2 = st'\<lparr>objs := (objs st')(a \<mapsto> x')\<rparr> in
         if res = Some False then bindr (pc_find L ty r' (ks, st2)) (\<lambda>(b, r2, ks', st3). Inr (b, r2, k' # ks', st3))
         else Inr (res, r', k' # ks, st2)))"

text \<open>The loop of \<open>parseAll\<close>; false if it throws.\<close>

fun parseAll :: "'v hdr_lib \<Rightarrow> int \<Rightarrow> 'v container \<Rightarrow> rutil_error + bool \<times> 'v container" where
  "parseAll L ty ([], st) = Inr (True, [], st)"
| "parseAll L ty (k # ks, st) = (case ensureInitialized L ty k st of (a, k', st') \<Rightarrow>
     case objs st' a of None \<Rightarrow> Inl Dangling
     | Some x \<Rightarrow> (case checkParsed_const L x of (ok, x') \<Rightarrow>
         let st2 = st'\<lparr>objs := (objs st')(a \<mapsto> x')\<rparr> in
         if ok then bindr (parseAll L ty (ks, st2)) (\<lambda>(b, ks', st3). Inr (b, k' # ks', st3))
         else Inr (False, k' # ks, st2)))"

text \<open>The copy constructor is not in the headers; it is an argument.\<close>

definition pc_reverse :: "('v container \<Rightarrow> 'v container) \<Rightarrow> 'v container \<Rightarrow> 'v container" where
  "pc_reverse copy c = (case copy c of (ks, st) \<Rightarrow> (reverse_kits ks, st))"

section \<open>What a container stands for\<close>

definition held :: "kit list \<Rightarrow> nat list" where
  "held ks = concat (map (\<lambda>k. case pc k of None \<Rightarrow> [] | Some a \<Rightarrow> [a]) ks)"

definition pc_ok :: "'v container \<Rightarrow> bool" where
  "pc_ok c = (distinct (held (fst c)) \<and> dom (objs (snd c)) = set (held (fst c)) \<and>
     distinct (destroyed (snd c)) \<and> set (destroyed (snd c)) \<inter> set (held (fst c)) = {} \<and>
     set (destroyed (snd c)) \<union> set (held (fst c)) = {..<fresh (snd c)})"

definition kit_val :: "'v hdr_lib \<Rightarrow> int \<Rightarrow> 'v store \<Rightarrow> kit \<Rightarrow> 'v lazy" where
  "kit_val L ty st k = (case pc k of None \<Rightarrow> construct L (hfv k) ty | Some a \<Rightarrow> the (objs st a))"

definition hvals :: "'v hdr_lib \<Rightarrow> int \<Rightarrow> 'v container \<Rightarrow> 'v lazy list" where
  "hvals L ty c = map (kit_val L ty (snd c)) (fst c)"

lemma held_simps [simp]:
  "held [] = []"
  "held (k # ks) = (case pc k of None \<Rightarrow> held ks | Some a \<Rightarrow> a # held ks)"
  "held (ks @ ls) = held ks @ held ls"
  by (simp_all add: held_def split: option.split)

lemma hvals_simps [simp]:
  "hvals L ty ([], st) = []"
  "hvals L ty (k # ks, st) = kit_val L ty st k # hvals L ty (ks, st)"
  "hvals L ty (ks @ ls, st) = hvals L ty (ks, st) @ hvals L ty (ls, st)"
  "length (hvals L ty c) = length (fst c)"
  by (simp_all add: hvals_def)

text \<open>A change at an address that no kit of a list holds is not seen by that list.\<close>

lemma hvals_frame:
  assumes "\<forall>b \<in> set (held ks). objs st' b = objs st b"
  shows "hvals L ty (ks, st') = hvals L ty (ks, st)"
  using assms by (induction ks) (auto simp: kit_val_def split: option.splits)

lemma pc_okD:
  assumes "pc_ok (ps @ k # ks, st)"
  shows "pc k = Some a \<Longrightarrow> a \<notin> set (held ps) \<and> a \<notin> set (held ks) \<and> (\<exists>x. objs st a = Some x)"
    and "fresh st \<notin> set (held ps)" and "fresh st \<notin> set (held ks)" and "pc k \<noteq> Some (fresh st)"
proof -
  have d: "dom (objs st) = set (held (ps @ k # ks))" and u: "set (held (ps @ k # ks)) \<subseteq> {..<fresh st}"
    using assms by (auto simp: pc_ok_def)
  then show "fresh st \<notin> set (held ps)" "fresh st \<notin> set (held ks)" "pc k \<noteq> Some (fresh st)" by (auto split: option.splits)
  show "a \<notin> set (held ps) \<and> a \<notin> set (held ks) \<and> (\<exists>x. objs st a = Some x)" if "pc k = Some a"
    using that assms d by (auto simp: pc_ok_def)
qed

lemma ensureInitialized_ok:
  assumes "pc_ok (ps @ k # ks, st)" and "ensureInitialized L ty k st = (a, k', st')"
  shows "pc_ok (ps @ k' # ks, st')" and "pc k' = Some a" and "objs st' a = Some (kit_val L ty st k)"
    and "hvals L ty (ps, st') = hvals L ty (ps, st)" and "hvals L ty (ks, st') = hvals L ty (ks, st)"
    and "kit_val L ty st' k' = kit_val L ty st k"
proof -
  have "pc_ok (ps @ k' # ks, st') \<and> pc k' = Some a \<and> objs st' a = Some (kit_val L ty st k) \<and>
    hvals L ty (ps, st') = hvals L ty (ps, st) \<and> hvals L ty (ks, st') = hvals L ty (ks, st)"
  proof (cases "pc k")
    case None
    have st': "a = fresh st" "k' = k\<lparr>pc := Some a\<rparr>" "st' = snd (new_parser (construct L (hfv k) ty) st)"
      using assms(2) None by (auto simp: ensureInitialized_def new_parser_def)
    have "pc_ok (ps @ k' # ks, st')" using assms(1) None st' pc_okD(2,3) [OF assms(1)]
      by (simp add: pc_ok_def new_parser_def lessThan_Suc) blast
    moreover have "hvals L ty (qs, st') = hvals L ty (qs, st)" if "fresh st \<notin> set (held qs)" for qs
      by (rule hvals_frame) (use that st' in \<open>auto simp: new_parser_def\<close>)
    ultimately show ?thesis using st' pc_okD(2,3) [OF assms(1)] None by (simp add: kit_val_def new_parser_def)
  next
    case (Some b)
    then show ?thesis using assms pc_okD(1) [OF assms(1), of b] by (auto simp: ensureInitialized_def kit_val_def)
  qed
  then show "pc_ok (ps @ k' # ks, st')" and "pc k' = Some a" and "objs st' a = Some (kit_val L ty st k)"
    and "hvals L ty (ps, st') = hvals L ty (ps, st)" and "hvals L ty (ks, st') = hvals L ty (ks, st)"
    and "kit_val L ty st' k' = kit_val L ty st k" by (simp_all add: kit_val_def)
qed

lemma parser_update_ok:
  assumes "pc_ok (ps @ k # ks, st)" and "pc k = Some a" and "st' = st\<lparr>objs := (objs st)(a \<mapsto> x)\<rparr>"
  shows "pc_ok (ps @ k # ks, st')" and "hvals L ty (ps, st') = hvals L ty (ps, st)"
    and "hvals L ty (ks, st') = hvals L ty (ks, st)" and "kit_val L ty st' k = x"
proof -
  note d = pc_okD(1) [OF assms(1,2)]
  show "pc_ok (ps @ k # ks, st')" using assms d by (auto simp: pc_ok_def)
  show "hvals L ty (ps, st') = hvals L ty (ps, st)" "hvals L ty (ks, st') = hvals L ty (ks, st)"
    by (rule hvals_frame; use assms(3) d in auto)+
  show "kit_val L ty st' k = x" using assms by (simp add: kit_val_def)
qed

lemma freeParser_ok:
  assumes "pc_ok (ps @ k # ks, st)"
  shows "\<exists>k' st'. freeParser k st = Inr (k', st') \<and> pc k' = None \<and> pc_ok (ps @ ks, st') \<and>
    hvals L ty (ps @ ks, st') = hvals L ty (ps @ ks, st)"
proof (cases "pc k")
  case None
  then show ?thesis using assms by (simp add: freeParser_def pc_ok_def)
next
  case (Some a)
  note d = pc_okD(1) [OF assms Some]
  let ?st = "st\<lparr>objs := (objs st)(a := None), destroyed := a # destroyed st\<rparr>"
  have "pc_ok (ps @ ks, ?st)" using assms Some d by (auto simp: pc_ok_def)
  moreover have "hvals L ty (ps @ ks, ?st) = hvals L ty (ps @ ks, st)" by (rule hvals_frame) (use d in auto)
  ultimately show ?thesis using Some d by (auto simp: freeParser_def)
qed

section \<open>Operations on the values\<close>

fun free_each :: "kit list \<Rightarrow> 'v store \<Rightarrow> rutil_error + kit list \<times> 'v store" where
  "free_each [] st = Inr ([], st)"
| "free_each (k # ks) st = bindr (freeParser k st) (\<lambda>(k', st').
     bindr (free_each ks st') (\<lambda>(ks', st2). Inr (k' # ks', st2)))"

definition free_law :: "'v hdr_lib \<Rightarrow> bool" where
  "free_law L = (\<forall>ks st. freeParsers L ks st = free_each ks st)"

lemma free_each_ok: "pc_ok (ks, st) \<Longrightarrow> \<exists>ks' st'. free_each ks st = Inr (ks', st') \<and> pc_ok ([], st')"
proof (induction ks arbitrary: st)
  case (Cons k ks)
  from freeParser_ok [of "[]"] Cons.prems obtain k' st' where "freeParser k st = Inr (k', st')" "pc_ok (ks, st')"
    by fastforce
  then show ?case using Cons.IH [of st'] by fastforce
qed simp

fun find_spec :: "'v hdr_lib \<Rightarrow> 'v lazy \<Rightarrow> 'v lazy list \<Rightarrow> bool option \<times> 'v lazy \<times> 'v lazy list" where
  "find_spec L r [] = (Some False, r, [])"
| "find_spec L r (x # xs) = (case isEqual L r x of (res, r', x') \<Rightarrow>
     if res = Some False then case find_spec L r' xs of (b, r2, ys) \<Rightarrow> (b, r2, x' # ys) else (res, r', x' # xs))"

fun parse_spec :: "'v hdr_lib \<Rightarrow> 'v lazy list \<Rightarrow> bool \<times> 'v lazy list" where
  "parse_spec L [] = (True, [])"
| "parse_spec L (x # xs) = (case checkParsed_const L x of (ok, x') \<Rightarrow>
     if ok then case parse_spec L xs of (b, ys) \<Rightarrow> (b, x' # ys) else (False, x' # xs))"

lemma pc_find_ok:
  "pc_ok (ps @ ks, st) \<Longrightarrow> find_spec L r (hvals L ty (ks, st)) = (b, r', ys) \<Longrightarrow>
   \<exists>ks' st'. pc_find L ty r (ks, st) = Inr (b, r', ks', st') \<and> pc_ok (ps @ ks', st') \<and>
     hvals L ty (ps, st') = hvals L ty (ps, st) \<and> hvals L ty (ks', st') = ys"
proof (induction ks arbitrary: ps st r b r' ys)
  case (Cons k ks)
  obtain a k' st1 where e: "ensureInitialized L ty k st = (a, k', st1)" by (cases "ensureInitialized L ty k st") auto
  note i = ensureInitialized_ok [OF Cons.prems(1) e]
  obtain res r1 x' where q: "isEqual L r (kit_val L ty st k) = (res, r1, x')" by (cases "isEqual L r (kit_val L ty st k)") auto
  define st2 where "st2 = st1\<lparr>objs := (objs st1)(a \<mapsto> x')\<rparr>"
  note u = parser_update_ok [OF i(1,2) st2_def]
  show ?case
  proof (cases "res = Some False")
    case True
    obtain b2 r2 ys2 where s: "find_spec L r1 (hvals L ty (ks, st2)) = (b2, r2, ys2)"
      by (cases "find_spec L r1 (hvals L ty (ks, st2))") auto
    have eq: "(b, r', ys) = (b2, r2, x' # ys2)" using Cons.prems(2) q s True u(3) i(5) by simp
    from Cons.IH [of "ps @ [k']", OF _ s] u(1) obtain ks' st' where
      "pc_find L ty r1 (ks, st2) = Inr (b2, r2, ks', st')" "pc_ok (ps @ k' # ks', st')"
      "hvals L ty (ps @ [k'], st') = hvals L ty (ps @ [k'], st2)" "hvals L ty (ks', st') = ys2" by auto
    then show ?thesis using e i q True u eq by (simp add: st2_def)
  next
    case False
    then show ?thesis using Cons.prems(2) e i q u by (simp add: st2_def)
  qed
qed simp

lemma parseAll_ok:
  "pc_ok (ps @ ks, st) \<Longrightarrow> parse_spec L (hvals L ty (ks, st)) = (b, ys) \<Longrightarrow>
   \<exists>ks' st'. parseAll L ty (ks, st) = Inr (b, ks', st') \<and> pc_ok (ps @ ks', st') \<and>
     hvals L ty (ps, st') = hvals L ty (ps, st) \<and> hvals L ty (ks', st') = ys"
proof (induction ks arbitrary: ps st b ys)
  case (Cons k ks)
  obtain a k' st1 where e: "ensureInitialized L ty k st = (a, k', st1)" by (cases "ensureInitialized L ty k st") auto
  note i = ensureInitialized_ok [OF Cons.prems(1) e]
  obtain ok x' where q: "checkParsed_const L (kit_val L ty st k) = (ok, x')" by (cases "checkParsed_const L (kit_val L ty st k)")
  define st2 where "st2 = st1\<lparr>objs := (objs st1)(a \<mapsto> x')\<rparr>"
  note u = parser_update_ok [OF i(1,2) st2_def]
  show ?case
  proof (cases ok)
    case True
    obtain b2 ys2 where s: "parse_spec L (hvals L ty (ks, st2)) = (b2, ys2)"
      by (cases "parse_spec L (hvals L ty (ks, st2))")
    have eq: "(b, ys) = (b2, x' # ys2)" using Cons.prems(2) q s True u(3) i(5) by simp
    from Cons.IH [of "ps @ [k']", OF _ s] u(1) obtain ks' st' where
      "parseAll L ty (ks, st2) = Inr (b2, ks', st')" "pc_ok (ps @ k' # ks', st')"
      "hvals L ty (ps @ [k'], st') = hvals L ty (ps @ [k'], st2)" "hvals L ty (ks', st') = ys2" by auto
    then show ?thesis using e i q True u eq by (simp add: st2_def)
  next
    case False
    then show ?thesis using Cons.prems(2) e i q u by (simp add: st2_def)
  qed
qed simp

section \<open>Runs\<close>

text \<open>\<open>HAt i f\<close> is a client that gets a reference to the value at \<open>i\<close> and writes through it.\<close>

datatype 'v hop = HFront | HBack | HAt nat "'v lazy \<Rightarrow> 'v lazy" | HPushFront bool "'v lazy" | HPushBack bool "'v lazy"
  | HErase nat | HClear | HFind "'v lazy" | HParseAll

fun hc_step :: "'v hdr_lib \<Rightarrow> int \<Rightarrow> 'v container \<Rightarrow> 'v hop \<Rightarrow> rutil_error + 'v container" where
  "hc_step L ty c HFront = bindr (pc_front L ty c) (\<lambda>(a, c'). Inr c')"
| "hc_step L ty c HBack = bindr (pc_back L ty c) (\<lambda>(a, c'). Inr c')"
| "hc_step L ty c (HAt i f) = bindr (pc_deref L ty i c) (\<lambda>(a, ks, st). case objs st a of None \<Rightarrow> Inl Dangling
     | Some x \<Rightarrow> Inr (ks, st\<lparr>objs := (objs st)(a \<mapsto> f x)\<rparr>))"
| "hc_step L ty c (HPushFront full t) = Inr (pc_push_front L full t c)"
| "hc_step L ty c (HPushBack full t) = Inr (pc_push_back L full t c)"
| "hc_step L ty c (HErase i) = pc_erase i c"
| "hc_step L ty c HClear = pc_clear L c"
| "hc_step L ty c (HFind r) = bindr (pc_find L ty r c) (\<lambda>(b, r', c'). Inr c')"
| "hc_step L ty c HParseAll = bindr (parseAll L ty c) (\<lambda>(b, c'). Inr c')"

fun hc_guard :: "'v container \<Rightarrow> 'v hop \<Rightarrow> bool" where
  "hc_guard c HFront = (\<not> pc_empty c)"
| "hc_guard c HBack = (\<not> pc_empty c)"
| "hc_guard c (HAt i f) = (i < pc_size c)"
| "hc_guard c (HErase i) = (i < pc_size c)"
| "hc_guard c _ = True"

fun hc_spec :: "'v hdr_lib \<Rightarrow> 'v hop \<Rightarrow> 'v lazy list \<Rightarrow> 'v lazy list" where
  "hc_spec L (HAt i f) xs = xs[i := f (xs ! i)]"
| "hc_spec L (HPushFront full t) xs = clone_of L t # xs"
| "hc_spec L (HPushBack full t) xs = xs @ [clone_of L t]"
| "hc_spec L (HErase i) xs = take i xs @ drop (Suc i) xs"
| "hc_spec L HClear xs = []"
| "hc_spec L (HFind r) xs = snd (snd (find_spec L r xs))"
| "hc_spec L HParseAll xs = snd (parse_spec L xs)"
| "hc_spec L _ xs = xs"

lemma pc_deref_ok:
  assumes "pc_ok (ks, st)" and "i < length ks" and "pc_deref L ty i (ks, st) = Inr (a, ks', st')"
  shows "\<exists>k'. ks' = take i ks @ k' # drop (Suc i) ks \<and> pc k' = Some a \<and> pc_ok (ks', st') \<and>
    objs st' a = Some (hvals L ty (ks, st) ! i) \<and> hvals L ty (ks', st') = hvals L ty (ks, st)"
proof -
  have ks: "take i ks @ ks ! i # drop (Suc i) ks = ks" using assms(2) by (rule id_take_nth_drop [symmetric])
  obtain k' where e: "ensureInitialized L ty (ks ! i) st = (a, k', st')" and ks': "ks' = ks[i := k']"
    using assms(2,3) by (auto simp: pc_deref_def split: prod.splits)
  have "pc_ok (take i ks @ ks ! i # drop (Suc i) ks, st)" using assms(1) ks by simp
  note init = ensureInitialized_ok [OF this e]
  have "hvals L ty (ks, st) = hvals L ty (take i ks @ ks ! i # drop (Suc i) ks, st)" by (simp only: ks)
  then have vs: "hvals L ty (ks, st) = hvals L ty (take i ks, st) @ kit_val L ty st (ks ! i) # hvals L ty (drop (Suc i) ks, st)"
    by simp
  have "ks' = take i ks @ k' # drop (Suc i) ks" using assms(2) by (simp add: ks' upd_conv_take_nth_drop)
  moreover have "hvals L ty (ks, st) ! i = kit_val L ty st (ks ! i)" using assms(2) by (simp add: hvals_def)
  ultimately show ?thesis using init vs by simp
qed

lemma deref_step:
  assumes "pc_ok (ks, st)" and "i < length ks"
  shows "\<exists>a ks' st'. pc_deref L ty i (ks, st) = Inr (a, ks', st') \<and> pc_ok (ks', st') \<and>
    hvals L ty (ks', st') = hvals L ty (ks, st)"
proof -
  obtain a ks' st' where d: "pc_deref L ty i (ks, st) = Inr (a, ks', st')"
    using assms(2) by (cases "ensureInitialized L ty (ks ! i) st") (simp add: pc_deref_def)
  with pc_deref_ok [OF assms d] show ?thesis by blast
qed

lemma write_step:
  assumes "pc_ok (ks, st)" and "i < length ks"
  shows "\<exists>c'. hc_step L ty (ks, st) (HAt i f) = Inr c' \<and> pc_ok c' \<and>
    hvals L ty c' = (hvals L ty (ks, st))[i := f (hvals L ty (ks, st) ! i)]"
proof -
  let ?vs = "hvals L ty (ks, st)"
  obtain a ks' st' where d: "pc_deref L ty i (ks, st) = Inr (a, ks', st')" using deref_step [OF assms] by blast
  then obtain k' where k': "ks' = take i ks @ k' # drop (Suc i) ks" "pc k' = Some a" "pc_ok (ks', st')"
    "objs st' a = Some (?vs ! i)" "hvals L ty (ks', st') = ?vs" using pc_deref_ok [OF assms d] by blast
  define st2 where "st2 = st'\<lparr>objs := (objs st')(a \<mapsto> f (?vs ! i))\<rparr>"
  note u = parser_update_ok [OF k'(3)[unfolded k'(1)] k'(2) st2_def]
  have "hvals L ty (ks', st2) = hvals L ty (take i ks, st') @ f (?vs ! i) # hvals L ty (drop (Suc i) ks, st')"
    using u k'(1) by simp
  also have "\<dots> = (hvals L ty (ks', st'))[i := f (?vs ! i)]"
    using assms(2) by (simp add: k'(1) list_update_append)
  finally show ?thesis using d k' u(1) by (simp add: st2_def)
qed

lemma push_step:
  assumes "pc_ok (ks, st)"
  shows "pc_ok (pc_push_front L full t (ks, st)) \<and> hvals L ty (pc_push_front L full t (ks, st)) = clone_of L t # hvals L ty (ks, st)"
    and "pc_ok (pc_push_back L full t (ks, st)) \<and> hvals L ty (pc_push_back L full t (ks, st)) = hvals L ty (ks, st) @ [clone_of L t]"
proof -
  let ?st = "snd (new_parser (clone_of L t) st)" and ?k = "kit_Empty\<lparr>pc := Some (fresh st)\<rparr>"
  have f: "fresh st \<notin> set (held ks)" using assms by (auto simp: pc_ok_def)
  have vs: "hvals L ty (ks, ?st) = hvals L ty (ks, st)" by (rule hvals_frame) (use f in \<open>auto simp: new_parser_def\<close>)
  have eq: "pc_push_front L full t (ks, st) = (?k # ks, ?st)" "pc_push_back L full t (ks, st) = (ks @ [?k], ?st)"
    by (simp_all add: pc_push_front_def pc_push_back_def new_parser_def)
  have ok: "pc_ok (?k # ks, ?st)" "pc_ok (ks @ [?k], ?st)"
    using assms f by (auto simp: pc_ok_def new_parser_def lessThan_Suc)
  have kv: "kit_val L ty ?st ?k = clone_of L t" by (simp add: kit_val_def new_parser_def)
  show "pc_ok (pc_push_front L full t (ks, st)) \<and> hvals L ty (pc_push_front L full t (ks, st)) = clone_of L t # hvals L ty (ks, st)"
    and "pc_ok (pc_push_back L full t (ks, st)) \<and> hvals L ty (pc_push_back L full t (ks, st)) = hvals L ty (ks, st) @ [clone_of L t]"
    using vs ok kv unfolding eq by simp_all
qed

lemma erase_step:
  assumes "pc_ok (ks, st)" and "i < length ks"
  shows "\<exists>c'. pc_erase i (ks, st) = Inr c' \<and> pc_ok c' \<and>
    hvals L ty c' = take i (hvals L ty (ks, st)) @ drop (Suc i) (hvals L ty (ks, st))"
proof -
  have ks: "take i ks @ ks ! i # drop (Suc i) ks = ks" using assms(2) by (rule id_take_nth_drop [symmetric])
  with assms(1) have "pc_ok (take i ks @ ks ! i # drop (Suc i) ks, st)" by simp
  from freeParser_ok [OF this] obtain k' st' where f: "freeParser (ks ! i) st = Inr (k', st')"
    "pc_ok (take i ks @ drop (Suc i) ks, st')"
    "hvals L ty (take i ks @ drop (Suc i) ks, st') = hvals L ty (take i ks @ drop (Suc i) ks, st)" by blast
  then have "pc_erase i (ks, st) = Inr (take i ks @ drop (Suc i) ks, st')" using assms(2) by (simp add: pc_erase_def)
  then show ?thesis using f by (simp add: hvals_def take_map drop_map)
qed

lemma hc_step_ok:
  assumes "free_law L" and "pc_ok c" and "hc_guard c op"
  shows "\<exists>c'. hc_step L ty c op = Inr c' \<and> pc_ok c' \<and> hvals L ty c' = hc_spec L op (hvals L ty c)"
proof -
  obtain ks st where c: "c = (ks, st)" by (cases c)
  note ok = assms(2) [unfolded c] and g = assms(3) [unfolded c]
  show ?thesis
  proof (cases op)
    case HFront
    with g have "0 < length ks" by (simp add: pc_empty_def)
    with deref_step [OF ok this, of L ty] HFront show ?thesis by (auto simp: c pc_front_def)
  next
    case HBack
    with g have "length ks - 1 < length ks" by (simp add: pc_empty_def)
    with deref_step [OF ok this, of L ty] HBack show ?thesis by (auto simp: c pc_back_def)
  next
    case (HAt i f)
    with g write_step [OF ok, of i L ty f] show ?thesis by (simp add: c pc_size_def)
  next
    case (HErase i)
    with g erase_step [OF ok, of i L ty] show ?thesis by (simp add: c pc_size_def)
  next
    case HClear
    with free_each_ok [OF ok] assms(1) show ?thesis by (auto simp: c pc_clear_def free_law_def)
  next
    case (HFind r)
    obtain b r' ys where "find_spec L r (hvals L ty (ks, st)) = (b, r', ys)" by (cases "find_spec L r (hvals L ty (ks, st))") auto
    with pc_find_ok [of "[]" ks st L r ty] ok HFind show ?thesis by (fastforce simp: c)
  next
    case HParseAll
    obtain b ys where "parse_spec L (hvals L ty (ks, st)) = (b, ys)" by (cases "parse_spec L (hvals L ty (ks, st))")
    with parseAll_ok [of "[]" ks st L ty] ok HParseAll show ?thesis by (fastforce simp: c)
  qed (use push_step [OF ok] in \<open>simp_all add: c\<close>)
qed

interpretation hc: refining_machine "hc_step L ty" "\<lambda>c. free_law L \<and> pc_ok c" hc_guard "hvals L ty" "hc_spec L" for L ty
  by unfold_locales (blast dest: hc_step_ok, use hc_step_ok in \<open>metis sum.inject(2)\<close>)

section \<open>What holds of containers\<close>

definition no_parsers :: "'v store" where
  "no_parsers = \<lparr>objs = Map.empty, fresh = 0, destroyed = []\<rparr>"

lemma ParserContainer_ok: "pc_ok (ParserContainer ts, no_parsers)"
  "hvals L ty (ParserContainer ts, no_parsers) = map (\<lambda>t. construct L t ty) ts"
  by (induction ts) (simp_all add: ParserContainer_def no_parsers_def pc_ok_def kit_val_def)

text \<open>
  (C16) A container is a list of values: whatever sequence of operations a client performs, with
  writes through the references it got in between, the container ends with the values that the
  same operations give on a list that starts with the parsers of the received texts. A write
  through a reference changes that value only. And in spite of the copies that share pointers, every
  parser object that was ever made is held by exactly one kit or was destroyed exactly once.
\<close>

theorem header_container_refines:
  assumes "free_law L" and "guarded_run (hc_step L ty) hc_guard (ParserContainer ts, no_parsers) ops"
  shows "\<exists>ks st. run_events (hc_step L ty) (ParserContainer ts, no_parsers) ops = Inr (ks, st) \<and>
    hvals L ty (ks, st) = fold (hc_spec L) ops (map (\<lambda>t. construct L t ty) ts) \<and>
    distinct (held ks @ destroyed st) \<and> set (held ks @ destroyed st) = {..<fresh st} \<and> dom (objs st) = set (held ks)"
proof -
  have "free_law L \<and> pc_ok (ParserContainer ts, no_parsers)" using assms(1) ParserContainer_ok(1) by blast
  from hc.run_refines [OF this assms(2)] obtain ks st where
    "run_events (hc_step L ty) (ParserContainer ts, no_parsers) ops = Inr (ks, st)" "pc_ok (ks, st)"
    "hvals L ty (ks, st) = fold (hc_spec L) ops (map (\<lambda>t. construct L t ty) ts)"
    by (auto simp: ParserContainer_ok(2))
  then show ?thesis by (auto simp: pc_ok_def)
qed

text \<open>What a comparison does: it compares the meanings of two well-formed values and keeps them.\<close>

definition eq_law :: "'v hdr_lib \<Rightarrow> ('v lazy \<Rightarrow> 'm option) \<Rightarrow> bool" where
  "eq_law L sem = (\<forall>r x res r' x'. sem r \<noteq> None \<longrightarrow> sem x \<noteq> None \<longrightarrow> isEqual L r x = (res, r', x') \<longrightarrow>
     res = Some (sem r = sem x) \<and> sem r' = sem r \<and> sem x' = sem x)"

lemma find_spec_sem:
  assumes "eq_law L sem"
  shows "sem r \<noteq> None \<Longrightarrow> \<forall>x \<in> set xs. sem x \<noteq> None \<Longrightarrow> find_spec L r xs = (b, r', ys) \<Longrightarrow>
    b = Some (sem r \<in> sem ` set xs) \<and> map sem ys = map sem xs"
proof (induction xs arbitrary: r b r' ys)
  case (Cons x xs)
  obtain res r1 x1 where q: "isEqual L r x = (res, r1, x1)" by (cases "isEqual L r x") auto
  have "sem x \<noteq> None" using Cons.prems(2) by simp
  then have law: "res = Some (sem r = sem x)" "sem r1 = sem r" "sem x1 = sem x"
    using assms [unfolded eq_law_def, rule_format, OF Cons.prems(1) _ q] by blast+
  show ?case
  proof (cases "sem r = sem x")
    case False
    obtain b2 r2 ys2 where "find_spec L r1 xs = (b2, r2, ys2)" by (cases "find_spec L r1 xs") auto
    then show ?thesis using Cons.IH [of r1 b2 r2 ys2] Cons.prems law q False by auto
  next
    case True
    then show ?thesis using Cons.prems law q by auto
  qed
qed auto

text \<open>
  \<open>find\<close> finds: on a container of well-formed values it reports whether one of them has
  the meaning of the value that is looked for, and the values keep their meanings and their order.
\<close>

theorem header_find_exact:
  assumes "eq_law L sem" and "pc_ok (ks, st)" and "sem r \<noteq> None" and "\<forall>x \<in> set (hvals L ty (ks, st)). sem x \<noteq> None"
  shows "\<exists>r' ks' st'. pc_find L ty r (ks, st) = Inr (Some (sem r \<in> sem ` set (hvals L ty (ks, st))), r', ks', st') \<and>
    pc_ok (ks', st') \<and> map sem (hvals L ty (ks', st')) = map sem (hvals L ty (ks, st))"
proof -
  obtain b r' ys where s: "find_spec L r (hvals L ty (ks, st)) = (b, r', ys)"
    by (cases "find_spec L r (hvals L ty (ks, st))") auto
  from pc_find_ok [of "[]", OF _ this] assms(2) find_spec_sem [OF assms(1,3,4) s] show ?thesis by auto
qed

text \<open>A value whose text is malformed and has not been parsed.\<close>

definition malformed :: "'v hdr_lib \<Rightarrow> 'v lazy \<Rightarrow> bool" where
  "malformed L x = (mState x = NOT_PARSED \<and> \<not> fst (doParse L x))"

lemma checkParsed_const_ok:
  assumes "parse_law L"
  shows "fst (checkParsed_const L x) = (\<not> malformed L x)" and "\<not> malformed L (snd (checkParsed_const L x))"
    and "isParsed (snd (checkParsed_const L x))" and "mHeaderField (snd (checkParsed_const L x)) = mHeaderField x"
  using assms by (auto simp: checkParsed_const_def malformed_def parse_law_def isParsed_def)

lemma parse_spec_ok:
  assumes "parse_law L"
  shows "parse_spec L xs = (b, ys) \<Longrightarrow> b = (filter (malformed L) xs = []) \<and> (b \<longrightarrow> (\<forall>y \<in> set ys. isParsed y)) \<and>
    length (filter (malformed L) ys) = length (filter (malformed L) xs) - 1 \<and> map mHeaderField ys = map mHeaderField xs"
proof (induction xs arbitrary: b ys)
  case (Cons x xs)
  obtain ok x' where q: "checkParsed_const L x = (ok, x')" by (cases "checkParsed_const L x")
  note c = checkParsed_const_ok [OF assms, of x, unfolded q]
  show ?case
  proof (cases ok)
    case True
    obtain b2 ys2 where "parse_spec L xs = (b2, ys2)" by (cases "parse_spec L xs")
    then show ?thesis using Cons.IH [of b2 ys2] Cons.prems c q True by auto
  next
    case False
    then show ?thesis using Cons.prems c q by auto
  qed
qed auto

text \<open>Calls of \<open>parseAll\<close> one after the other: which of them did not throw, and the values at the end.\<close>

fun parse_calls :: "'v hdr_lib \<Rightarrow> nat \<Rightarrow> 'v lazy list \<Rightarrow> bool list \<times> 'v lazy list" where
  "parse_calls L 0 xs = ([], xs)"
| "parse_calls L (Suc n) xs = (case parse_spec L xs of (b, ys) \<Rightarrow> case parse_calls L n ys of (bs, zs) \<Rightarrow> (b # bs, zs))"

lemma parse_calls_flags:
  assumes "parse_law L"
  shows "fst (parse_calls L n xs) = map (\<lambda>i. length (filter (malformed L) xs) \<le> i) [0..<n]"
proof (induction n arbitrary: xs)
  case (Suc n)
  obtain b ys where s: "parse_spec L xs = (b, ys)" by (cases "parse_spec L xs")
  let ?m = "length (filter (malformed L) xs)"
  have p: "b = (?m = 0)" "length (filter (malformed L) ys) = ?m - 1" using parse_spec_ok [OF assms s] by simp_all
  have "fst (parse_calls L (Suc n) xs) = b # fst (parse_calls L n ys)" by (simp add: s split: prod.splits)
  also have "\<dots> = (?m = 0) # map (\<lambda>i. ?m - 1 \<le> i) [0..<n]" by (simp only: Suc.IH p)
  also have "\<dots> = map (\<lambda>i. ?m \<le> i) [0..<Suc n]"
    by (simp add: upt_conv_Cons map_Suc_upt [symmetric] comp_def le_diff_conv del: upt_Suc)
  finally show ?case .
qed simp

text \<open>
  \<open>parseAll\<close> throws exactly if a value that has not been parsed yet is malformed; if it
  does not, every value is parsed, and in any case the texts stay. But it reports one malformed
  value per call: the call of number \<open>i\<close> throws exactly if more than \<open>i\<close> malformed values were
  there, so a caller that tries again sees a container with malformed values accepted.
\<close>

theorem parse_all_reports:
  assumes "parse_law L" and "pc_ok (ks, st)"
  shows "\<exists>b ks' st'. parseAll L ty (ks, st) = Inr (b, ks', st') \<and> pc_ok (ks', st') \<and>
      b = (filter (malformed L) (hvals L ty (ks, st)) = []) \<and> (b \<longrightarrow> (\<forall>y \<in> set (hvals L ty (ks', st')). isParsed y)) \<and>
      map mHeaderField (hvals L ty (ks', st')) = map mHeaderField (hvals L ty (ks, st)) \<and>
      (\<forall>n. fst (parse_calls L n (hvals L ty (ks, st))) =
         map (\<lambda>i. length (filter (malformed L) (hvals L ty (ks, st))) \<le> i) [0..<n])"
proof -
  obtain b ys where s: "parse_spec L (hvals L ty (ks, st)) = (b, ys)" by (cases "parse_spec L (hvals L ty (ks, st))")
  from parseAll_ok [of "[]", OF _ s] assms(2) parse_spec_ok [OF assms(1) s] parse_calls_flags [OF assms(1)]
  show ?thesis by auto
qed

section \<open>Access to a lazy value\<close>

text \<open>A list of accesses, true for the const ones: which of them did not throw, and the value at the end.\<close>

fun accesses :: "'v hdr_lib \<Rightarrow> bool list \<Rightarrow> 'v lazy \<Rightarrow> bool list \<times> 'v lazy" where
  "accesses L [] x = ([], x)"
| "accesses L (c # cs) x = (case (if c then checkParsed_const L x else checkParsed L x) of (ok, y) \<Rightarrow>
     case accesses L cs y of (oks, z) \<Rightarrow> (ok # oks, z))"

lemma accesses_parsed:
  "isParsed x \<Longrightarrow> accesses L cs x =
     (replicate (length cs) True, if False \<in> set cs then x\<lparr>mState := DIRTY\<rparr> else x)"
  by (induction cs arbitrary: x) (auto simp: isParsed_def checkParsed_const_def checkParsed_def)

text \<open>
  (C34) The text of a lazy value is parsed by the first access and never again: only the first
  one can throw, and it does exactly if the text is malformed. Const accesses keep the state that
  the parse has set. But the other kind of access marks the value as dirty, which stands for
  well formed, also when the value is malformed, from the second access on; then nothing in the
  state tells any more that it is.
\<close>

theorem lazy_value_parsed_once:
  assumes "parse_law L" and "mState x = NOT_PARSED"
  shows "accesses L (c # cs) x = (fst (doParse L x) # replicate (length cs) True,
    if False \<in> set cs \<or> \<not> c \<and> fst (doParse L x) then (snd (doParse L x))\<lparr>mState := DIRTY\<rparr> else snd (doParse L x)) \<and>
    mState (snd (doParse L x)) = (if fst (doParse L x) then WELL_FORMED else MALFORMED) \<and>
    mHeaderField (snd (accesses L (c # cs) x)) = mHeaderField x"
proof -
  obtain ok y where d: "doParse L x = (ok, y)" by (cases "doParse L x")
  have y: "mState y = (if ok then WELL_FORMED else MALFORMED)" "mHeaderField y = mHeaderField x"
    using assms d by (auto simp: parse_law_def)
  then have p: "isParsed y" "isParsed (y\<lparr>mState := DIRTY\<rparr>)" by (simp_all add: isParsed_def)
  show ?thesis using assms(2) d y accesses_parsed [OF p(1)] accesses_parsed [OF p(2)]
    by (auto simp: checkParsed_const_def checkParsed_def)
qed

section \<open>Wire form and order\<close>

lemma kit_encode_val:
  assumes "\<forall>t. encode_parser L (construct L t ty) = encode_field L t" and "pc_ok (ks, st)"
  shows "map (kit_encode L st) ks = map (\<lambda>x. Inr (encode_parser L x)) (hvals L ty (ks, st))"
proof -
  have "kit_encode L st k = Inr (encode_parser L (kit_val L ty st k))" if k: "k \<in> set ks" for k
  proof (cases "pc k")
    case (Some a)
    obtain ps qs where "ks = ps @ k # qs" using split_list [OF k] by blast
    then show ?thesis using pc_okD(1) [of ps k qs st a] assms(2) Some by (auto simp: kit_encode_def kit_val_def)
  qed (use assms(1) in \<open>simp add: kit_encode_def kit_val_def\<close>)
  then show ?thesis by (simp add: hvals_def)
qed

text \<open>
  Looking a value up does not change what is sent: if a parser that nobody has touched is
  encoded as the text it was made from, every value of the container is encoded as before.
\<close>

theorem lookup_keeps_encoding:
  assumes "\<forall>t. encode_parser L (construct L t ty) = encode_field L t" and "pc_ok (ks, st)" and "i < length ks"
  shows "\<exists>a ks' st'. pc_deref L ty i (ks, st) = Inr (a, ks', st') \<and> map (kit_encode L st') ks' = map (kit_encode L st) ks"
proof -
  obtain a ks' st' where d: "pc_deref L ty i (ks, st) = Inr (a, ks', st')" "pc_ok (ks', st')"
    "hvals L ty (ks', st') = hvals L ty (ks, st)" using deref_step [OF assms(2,3)] by blast
  then show ?thesis using kit_encode_val [OF assms(1)] assms(2) by auto
qed

text \<open>
  \<open>reverse\<close> gives the values of the copied container in the opposite order, with the same
  parser objects.
\<close>

theorem header_reverse:
  "hvals L ty (pc_reverse copy c) = rev (hvals L ty (copy c)) \<and>
   mset (held (fst (pc_reverse copy c))) = mset (held (fst (copy c))) \<and> snd (pc_reverse copy c) = snd (copy c)"
proof -
  have "mset (held (rev ks)) = mset (held ks)" for ks by (induction ks) (auto split: option.splits)
  then show ?thesis by (simp add: pc_reverse_def hvals_def rev_map split: prod.splits)
qed

section \<open>Witnesses\<close>

text \<open>Values whose text must not be empty, with its length as the parsed content.\<close>

definition demo_hdr :: "nat hdr_lib" where
  "demo_hdr = \<lparr>doParse = (\<lambda>x. (mHeaderField x \<noteq> [], x\<lparr>mState := if mHeaderField x \<noteq> [] then WELL_FORMED else MALFORMED,
       content := length (mHeaderField x)\<rparr>)),
     construct = (\<lambda>t ty. \<lparr>mHeaderField = t, mState = NOT_PARSED, content = 0\<rparr>), clone_of = (\<lambda>x. x),
     isEqual = (\<lambda>r x. (Some (mHeaderField r = mHeaderField x), r, x)), encode_parser = mHeaderField,
     encode_field = (\<lambda>t. t), freeParsers = free_each\<rparr>"

lemma demo_hdr_laws: "free_law demo_hdr" "parse_law demo_hdr" "eq_law demo_hdr (\<lambda>x. Some (mHeaderField x))"
  by (simp_all add: demo_hdr_def free_law_def parse_law_def eq_law_def)

theorem header_container_refines_witness:
  "\<exists>ks st. run_events (hc_step demo_hdr 1) (ParserContainer [''a'', ''b''], no_parsers)
     [HFront, HPushFront False \<lparr>mHeaderField = ''c'', mState = DIRTY, content = 7\<rparr>, HErase 1] = Inr (ks, st) \<and>
   map mHeaderField (hvals demo_hdr 1 (ks, st)) = [''c'', ''b'']"
proof -
  let ?ops = "[HFront, HPushFront False \<lparr>mHeaderField = ''c'', mState = DIRTY, content = 7\<rparr>, HErase 1]"
  have "guarded_run (hc_step demo_hdr 1) hc_guard (ParserContainer [''a'', ''b''], no_parsers) ?ops"
    by (simp add: ParserContainer_def no_parsers_def pc_empty_def pc_size_def pc_front_def pc_deref_def ensureInitialized_def
        new_parser_def pc_push_front_def pc_erase_def freeParser_def)
  from header_container_refines [OF demo_hdr_laws(1) this] show ?thesis by (auto simp: demo_hdr_def)
qed

theorem header_find_exact_witness:
  "\<exists>r ks st. pc_find demo_hdr 1 \<lparr>mHeaderField = ''b'', mState = DIRTY, content = 7\<rparr> (ParserContainer [''a'', ''b''], no_parsers) =
     Inr (Some True, r, ks, st)"
  using header_find_exact [OF demo_hdr_laws(3) ParserContainer_ok(1), of "\<lparr>mHeaderField = ''b'', mState = DIRTY, content = 7\<rparr>" 1 "[''a'', ''b'']"]
  by (auto simp: ParserContainer_ok(2)) (simp add: demo_hdr_def)

theorem parse_all_reports_witness:
  "\<exists>ks st. parseAll demo_hdr 1 (ParserContainer [''a'', [], []], no_parsers) = Inr (False, ks, st) \<and>
     fst (parse_calls demo_hdr 3 (map (\<lambda>t. construct demo_hdr t 1) [''a'', [], []])) = [False, False, True]"
proof -
  let ?xs = "map (\<lambda>t. construct demo_hdr t 1) [''a'', [], []]"
  have m: "length (filter (malformed demo_hdr) ?xs) = 2" by (simp add: malformed_def demo_hdr_def)
  from parse_all_reports [OF demo_hdr_laws(2) ParserContainer_ok(1) [of "[''a'', [], []]"], of 1] obtain b ks st where
    b: "parseAll demo_hdr 1 (ParserContainer [''a'', [], []], no_parsers) = Inr (b, ks, st)"
    "b = (filter (malformed demo_hdr) ?xs = [])"
    "fst (parse_calls demo_hdr 3 ?xs) = map (\<lambda>i. length (filter (malformed demo_hdr) ?xs) \<le> i) [0..<3]"
    unfolding ParserContainer_ok(2) by blast
  have "\<not> b" unfolding b(2) using m by fastforce
  moreover have "fst (parse_calls demo_hdr 3 ?xs) = [False, False, True]"
    unfolding b(3) m by (simp add: upt_rec eval_nat_numeral)
  ultimately show ?thesis using b(1) by (metis (full_types))
qed

theorem lazy_value_parsed_once_witness:
  "fst (accesses demo_hdr [False, False, True] (construct demo_hdr [] 1)) = [False, True, True] \<and>
   mState (snd (accesses demo_hdr [False, False, True] (construct demo_hdr [] 1))) = DIRTY"
proof -
  have "mState (construct demo_hdr [] 1) = NOT_PARSED" by (simp add: demo_hdr_def)
  from lazy_value_parsed_once [OF demo_hdr_laws(2) this, of False "[False, True]"] show ?thesis
    by (simp add: demo_hdr_def)
qed

theorem lookup_keeps_encoding_witness:
  "\<exists>a ks st. pc_deref demo_hdr 1 1 (ParserContainer [''a'', ''b''], no_parsers) = Inr (a, ks, st) \<and>
     map (kit_encode demo_hdr st) ks = [Inr ''a'', Inr ''b'']"
proof -
  have law: "\<forall>t. encode_parser demo_hdr (construct demo_hdr t 1) = encode_field demo_hdr t" by (simp add: demo_hdr_def)
  from lookup_keeps_encoding [OF law ParserContainer_ok(1) [of "[''a'', ''b'']"], of 1] show ?thesis
    by (simp add: ParserContainer_def kit_encode_def demo_hdr_def)
qed

end
