(* ===== verification/StackTimers.thy ===== *)
theory StackTimers
  imports Queues "HOL-Library.Multiset"
begin

text \<open>
  The timer queue of the SIP stack, \<open>resip/stack/TimerQueue.hxx\<close>, with the comparison of
  timers from \<open>rutil/Timer.hxx\<close>.

  The queue is a \<open>std::priority_queue\<close> with the earliest timer on top. It is modelled as the
  list of its timers in the order in which they come to the top; a timer goes behind those of
  the same time, which is one of the orders that the library may use, and no statement below
  depends on it. \<open>processTimer\<close> is a virtual function: the timers that it adds to the queue
  while it runs are the argument \<open>client\<close>. Since it can add timers that are due, the loop of
  \<open>process\<close> need not end and is a partial function.
\<close>

record 'p stimer =
  mWhen :: uint64
  mPayload :: 'p

definition stimer_greater :: "'p stimer \<Rightarrow> 'p stimer \<Rightarrow> bool" where
  "stimer_greater a b = (mWhen a > mWhen b)"

text \<open>\<open>std::priority_queue\<close> over \<open>std::greater\<close>.\<close>

fun pq_push :: "'p stimer \<Rightarrow> 'p stimer list \<Rightarrow> 'p stimer list" where
  "pq_push t [] = [t]"
| "pq_push t (x # xs) = (if stimer_greater x t then t # x # xs else x # pq_push t xs)"

definition int_max :: uint32 where
  "int_max = 2147483647"

definition stq_msTillNextTimer :: "uint64 \<Rightarrow> 'p stimer list \<Rightarrow> uint32" where
  "stq_msTillNextTimer now ts = (case ts of [] \<Rightarrow> int_max
     | t # _ \<Rightarrow> if mWhen t < now then 0
         else let ret64 = mWhen t - now in if ucast int_max < ret64 then int_max else ucast ret64)"

partial_function (option) stq_loop ::
  "uint64 \<Rightarrow> ('p stimer \<Rightarrow> 'p stimer list) \<Rightarrow> 'p stimer list \<Rightarrow> 'p stimer list \<Rightarrow> ('p stimer list \<times> 'p stimer list) option" where
  "stq_loop now client fired ts =
     (if ts \<noteq> [] \<and> \<not> mWhen (hd ts) > now
      then stq_loop now client (fired @ [hd ts]) (tl (fold pq_push (client (hd ts)) ts))
      else Some (fired, ts))"

text \<open>The value returned, the timers that were processed, and the queue afterwards.\<close>

definition stq_process :: "uint64 \<Rightarrow> ('p stimer \<Rightarrow> 'p stimer list) \<Rightarrow> 'p stimer list \<Rightarrow> (uint64 \<times> 'p stimer list \<times> 'p stimer list) option" where
  "stq_process now client ts = (if ts = [] then Some (0, [], [])
     else case stq_loop now client [] ts of None \<Rightarrow> None
       | Some (fired, qs) \<Rightarrow> Some (if qs \<noteq> [] then mWhen (hd qs) else 0, fired, qs))"

definition stq_size :: "'p stimer list \<Rightarrow> nat" where
  "stq_size ts = length ts"

definition stq_empty :: "'p stimer list \<Rightarrow> bool" where
  "stq_empty ts = (ts = [])"

text \<open>The destructor pops timer by timer.\<close>

fun stq_destroy :: "'p stimer list \<Rightarrow> 'p stimer list" where
  "stq_destroy (t # ts) = stq_destroy ts"
| "stq_destroy [] = []"

section \<open>Order\<close>

definition in_order :: "'p stimer list \<Rightarrow> bool" where
  "in_order ts = sorted (map mWhen ts)"

lemma mset_pq_push: "mset (pq_push t ts) = add_mset t (mset ts)"
  by (induction ts) auto

lemma set_pq_push: "set (pq_push t ts) = insert t (set ts)"
  by (induction ts) auto

lemma in_order_pq_push: "in_order ts \<Longrightarrow> in_order (pq_push t ts)"
  by (induction ts) (auto simp: in_order_def set_pq_push stimer_greater_def)

lemma pushes:
  "mset (fold pq_push us ts) = mset us + mset ts" "in_order ts \<Longrightarrow> in_order (fold pq_push us ts)"
  by (induction us arbitrary: ts) (simp_all add: mset_pq_push in_order_pq_push)

text \<open>Timers that are not earlier than the top stay below it.\<close>

lemma pushes_below:
  "\<forall>u \<in> set us. mWhen t \<le> mWhen u \<Longrightarrow> fold pq_push us (t # ts) = t # fold pq_push us ts"
  by (induction us arbitrary: ts) (auto simp: stimer_greater_def not_less)

lemma pushes_later:
  assumes "\<forall>u \<in> set us. now < mWhen u" and "\<forall>d \<in> set ds. mWhen d \<le> now"
  shows "fold pq_push us (ds @ ts) = ds @ fold pq_push us ts"
  using assms(2)
proof (induction ds)
  case (Cons d ds)
  have "\<forall>u \<in> set us. mWhen d \<le> mWhen u" using assms(1) Cons.prems by (meson le_less_trans less_imp_le list.set_intros(1))
  then show ?case using pushes_below [of us d "ds @ ts"] Cons by simp
qed simp

section \<open>Processing\<close>

lemma stq_loop_due:
  assumes "\<forall>t. \<forall>u \<in> set (client t). now < mWhen u"
  shows "\<forall>d \<in> set ds. mWhen d \<le> now \<Longrightarrow> (ts \<noteq> [] \<longrightarrow> now < mWhen (hd ts)) \<Longrightarrow> in_order ts \<Longrightarrow>
    stq_loop now client fired (ds @ ts) = Some (fired @ ds, fold pq_push (concat (map client ds)) ts)"
proof (induction ds arbitrary: fired ts)
  case Nil
  then show ?case by (subst stq_loop.simps) auto
next
  case (Cons d ds)
  let ?ts = "fold pq_push (client d) ts"
  have later: "\<forall>u \<in> set ?ts. now < mWhen u"
  proof -
    have "\<forall>u \<in> set ts. now < mWhen u" using Cons.prems(2,3)
      by (cases ts) (auto simp: in_order_def intro: less_le_trans)
    moreover have "set ?ts = set (client d) \<union> set ts"
      using pushes(1) [of "client d" ts] by (metis set_mset_mset set_mset_union)
    ultimately show ?thesis using assms by auto
  qed
  have "fold pq_push (client d) ((d # ds) @ ts) = (d # ds) @ ?ts"
    using pushes_later [OF _ Cons.prems(1)] assms by blast
  then have "stq_loop now client fired ((d # ds) @ ts) = stq_loop now client (fired @ [d]) (ds @ ?ts)"
    using Cons.prems(1) by (subst stq_loop.simps) (simp add: not_less)
  also have "\<dots> = Some ((fired @ [d]) @ ds, fold pq_push (concat (map client ds)) ?ts)"
    using Cons.IH [of ?ts "fired @ [d]"] Cons.prems later pushes(2) by (metis hd_in_set list.set_intros(2))
  finally show ?case by simp
qed

lemma due_first: "in_order ts \<Longrightarrow> ts = filter (\<lambda>t. mWhen t \<le> now) ts @ filter (\<lambda>t. now < mWhen t) ts"
proof (induction ts)
  case (Cons t ts)
  show ?case
  proof (cases "mWhen t \<le> now")
    case True
    then show ?thesis using Cons by (simp add: in_order_def not_less)
  next
    case False
    then have "\<forall>x \<in> set (t # ts). now < mWhen x"
      using Cons.prems by (auto simp: in_order_def not_le intro: less_le_trans)
    then show ?thesis by (simp add: filter_empty_conv filter_id_conv not_le [symmetric])
  qed
qed simp

text \<open>
  (C21) If processing a timer adds only timers that are later than the time read at the beginning,
  \<open>process\<close> returns: it has processed exactly the timers that were due, each once and in the
  order of their times; all later ones and all added ones are in the queue, in order; and the
  value is the time of the next timer, or zero if there is none.
\<close>

theorem stack_timers_processed:
  assumes "in_order ts" and "\<forall>t. \<forall>u \<in> set (client t). now < mWhen u"
  shows "\<exists>qs. stq_process now client ts = Some (if qs = [] then 0 else mWhen (hd qs), filter (\<lambda>t. mWhen t \<le> now) ts, qs) \<and>
    in_order qs \<and> mset qs = filter_mset (\<lambda>t. now < mWhen t) (mset ts) + mset (concat (map client (filter (\<lambda>t. mWhen t \<le> now) ts)))"
proof -
  let ?due = "filter (\<lambda>t. mWhen t \<le> now) ts" and ?late = "filter (\<lambda>t. now < mWhen t) ts"
  have split: "ts = ?due @ ?late" using assms(1) by (rule due_first)
  have late: "?late \<noteq> [] \<longrightarrow> now < mWhen (hd ?late)" using hd_in_set [of ?late] by auto
  have ord: "in_order ?late" using assms(1) by (simp add: in_order_def sorted_filter)
  let ?qs = "fold pq_push (concat (map client ?due)) ?late"
  have "stq_loop now client [] ts = Some (?due, ?qs)"
    using stq_loop_due [OF assms(2) _ late ord, of ?due "[]"] split by simp
  then have "stq_process now client ts = Some (if ?qs = [] then 0 else mWhen (hd ?qs), ?due, ?qs)"
    by (cases "ts = []") (simp_all add: stq_process_def)
  then show ?thesis using pushes(1) [of "concat (map client ?due)" ?late] pushes(2) [OF ord, of "concat (map client ?due)"]
    by (intro exI [of _ ?qs]) (simp add: union_commute)
qed

text \<open>A queue that always has a due timer on top, whatever one round does, is processed for ever.\<close>

lemma stq_loop_diverges:
  assumes "\<And>ts. Q ts \<Longrightarrow> ts \<noteq> [] \<and> mWhen (hd ts) \<le> now \<and> Q (tl (fold pq_push (client (hd ts)) ts))"
  shows "Q ts \<Longrightarrow> stq_loop now client fired ts = None"
proof -
  have "n = now \<longrightarrow> c = client \<longrightarrow> \<not> Q ts" if s: "stq_loop n c fired ts = Some r" for n c fired ts r
  proof (rule stq_loop.raw_induct [OF _ s, where P = "\<lambda>n c fired ts r. n = now \<longrightarrow> c = client \<longrightarrow> \<not> Q ts"])
    fix loop n c fired ts r
    assume "\<And>n c fired ts r. loop n c fired ts = Some r \<Longrightarrow> n = now \<longrightarrow> c = client \<longrightarrow> \<not> Q ts"
      and "(if ts \<noteq> [] \<and> \<not> n < mWhen (hd ts) then loop n c (fired @ [hd ts]) (tl (fold pq_push (c (hd ts)) ts))
        else Some (fired, ts)) = Some r"
    then show "n = now \<longrightarrow> c = client \<longrightarrow> \<not> Q ts" using assms [of ts]
      by (cases r) (fastforce simp: not_less split: if_splits)
  qed
  then show "Q ts \<Longrightarrow> stq_loop now client fired ts = None" by (cases "stq_loop now client fired ts") auto
qed

text \<open>
  What happens otherwise. If processing a due timer starts it again at the current time,
  \<open>process\<close> never returns. And if it adds a timer that is earlier than the one being processed,
  the queue pops that one instead: the new timer is lost and the old one is processed again,
  also for ever.
\<close>

theorem stack_timers_run_away:
  assumes "in_order (t # ts)" and "mWhen t \<le> now"
  shows "stq_process now (\<lambda>x. [x\<lparr>mWhen := now\<rparr>]) (t # ts) = None \<and>
    (mWhen u < mWhen t \<longrightarrow> stq_process now (\<lambda>x. [u]) (t # ts) = None)"
proof -
  have "stq_loop now (\<lambda>x. [x\<lparr>mWhen := now\<rparr>]) [] (t # ts) = None"
  proof (rule stq_loop_diverges [where Q = "\<lambda>qs. in_order qs \<and> qs \<noteq> [] \<and> mWhen (hd qs) \<le> now"])
    fix qs :: "'a stimer list"
    assume q: "in_order qs \<and> qs \<noteq> [] \<and> mWhen (hd qs) \<le> now"
    then obtain x xs where qs: "qs = x # xs" by (cases qs) auto
    let ?x = "x\<lparr>mWhen := now\<rparr>"
    have "pq_push ?x qs = x # pq_push ?x xs" using q qs by (auto simp: stimer_greater_def)
    moreover have "mWhen (hd (pq_push ?x xs)) \<le> now" by (cases xs) (auto simp: stimer_greater_def not_less)
    moreover have "pq_push ?x xs \<noteq> []" by (cases xs) auto
    ultimately show "qs \<noteq> [] \<and> mWhen (hd qs) \<le> now \<and> (in_order (tl (fold pq_push [(hd qs)\<lparr>mWhen := now\<rparr>] qs)) \<and>
        tl (fold pq_push [(hd qs)\<lparr>mWhen := now\<rparr>] qs) \<noteq> [] \<and> mWhen (hd (tl (fold pq_push [(hd qs)\<lparr>mWhen := now\<rparr>] qs))) \<le> now)"
      using q qs in_order_pq_push [of xs ?x] by (simp add: in_order_def)
  qed (use assms in simp)
  moreover have "stq_loop now (\<lambda>x. [u]) [] (t # ts) = None" if "mWhen u < mWhen t"
    by (rule stq_loop_diverges [where Q = "\<lambda>qs. qs = t # ts"]) (use assms(2) that in \<open>simp_all add: stimer_greater_def\<close>)
  ultimately show ?thesis by (simp add: stq_process_def)
qed

text \<open>
  The wait that the queue suggests: nothing if the first timer is due, otherwise the time to
  it, but at most \<open>INT_MAX\<close>, which also stands for an empty queue.
\<close>

theorem stack_wait_exact:
  "uint (stq_msTillNextTimer now ts) =
     (if ts = [] then 2147483647 else max 0 (min 2147483647 (uint (mWhen (hd ts)) - uint now)))"
proof (cases ts)
  case (Cons t us)
  have cap: "uint (ucast int_max :: uint64) = 2147483647" by (simp add: int_max_def)
  show ?thesis
  proof (cases "mWhen t < now")
    case True
    then show ?thesis using Cons by (simp add: stq_msTillNextTimer_def word_less_def)
  next
    case False
    then have d: "uint (mWhen t - now) = uint (mWhen t) - uint now" by (simp add: word_less_def uint_minus_simple_alt [symmetric] word_le_def not_less uint_sub_if')
    have "uint (ucast (mWhen t - now) :: uint32) = uint (mWhen t - now)" if "uint (mWhen t - now) \<le> 2147483647"
      using that by (simp add: unsigned_ucast_eq take_bit_int_eq_self)
    then show ?thesis using Cons False d cap
      by (auto simp: stq_msTillNextTimer_def Let_def word_less_def int_max_def)
  qed
qed (simp add: stq_msTillNextTimer_def int_max_def)

section \<open>Witnesses\<close>

theorem stack_timers_processed_witness:
  "\<exists>r qs. stq_process 10 (\<lambda>t. [\<lparr>mWhen = 20, mPayload = Suc (mPayload t)\<rparr>])
     [\<lparr>mWhen = 5, mPayload = 1\<rparr>, \<lparr>mWhen = 15, mPayload = 2\<rparr>] = Some (r, [\<lparr>mWhen = 5, mPayload = 1\<rparr>], qs) \<and> in_order qs"
proof -
  have ord: "in_order [\<lparr>mWhen = 5, mPayload = 1 :: nat\<rparr>, \<lparr>mWhen = 15, mPayload = 2\<rparr>]" by (simp add: in_order_def)
  from stack_timers_processed [OF ord, of "\<lambda>t. [\<lparr>mWhen = 20, mPayload = Suc (mPayload t)\<rparr>]" 10] show ?thesis by auto
qed

theorem stack_timers_run_away_witness:
  "stq_process 10 (\<lambda>x. [x\<lparr>mWhen := 10\<rparr>]) [\<lparr>mWhen = 5, mPayload = ()\<rparr>] = None"
  using stack_timers_run_away [of "\<lparr>mWhen = 5, mPayload = ()\<rparr>" "[]" 10] by (simp add: in_order_def)

end
