(* ===== verification/Dispatchers.thy ===== *)
theory Dispatchers
  imports Queues
begin

text \<open>
  Two small templates of the dialog usage manager: \<open>resip/dum/EventDispatcher.hxx\<close>, which
  hands an event to every listener, and \<open>resip/dum/Handle.hxx\<close>, the handles through which the
  controller reaches its sessions.

  A message is the address of a message object. A dispatch gives the caller's object to one
  listener and copies, made by \<open>clone\<close> at fresh addresses, to the others; what it does is the
  list of its calls of \<open>post\<close>. The counter of the loop is a 32-bit number.
\<close>

section \<open>Event dispatcher\<close>

type_synonym listener = nat
type_synonym message = nat

text \<open>The position of a listener, or the length of the list for \<open>end\<close>.\<close>

fun ed_find :: "listener \<Rightarrow> listener list \<Rightarrow> nat" where
  "ed_find l [] = 0"
| "ed_find l (x # xs) = (if l = x then 0 else Suc (ed_find l xs))"

definition addListener :: "listener \<Rightarrow> listener list \<Rightarrow> listener list" where
  "addListener l ls = (if ed_find l ls = length ls then ls @ [l] else ls)"

definition removeListener :: "listener \<Rightarrow> listener list \<Rightarrow> listener list" where
  "removeListener l ls = (let i = ed_find l ls in if i \<noteq> length ls then take i ls @ drop (Suc i) ls else ls)"

fun dispatch_loop :: "nat \<Rightarrow> uint32 \<Rightarrow> message \<Rightarrow> listener list \<Rightarrow> message \<Rightarrow> (listener \<times> message) list \<times> message" where
  "dispatch_loop n counter msg [] fresh = ([], fresh)"
| "dispatch_loop n counter msg (l # ls) fresh =
     (if unat counter = n then case dispatch_loop n counter msg ls fresh of (ps, f) \<Rightarrow> ((l, msg) # ps, f)
      else case dispatch_loop n (counter + 1) msg ls (Suc fresh) of (ps, f) \<Rightarrow> ((l, fresh) # ps, f))"

text \<open>\<open>event\<close> tells whether the cast to the event class succeeds, \<open>fresh\<close> is the next address.\<close>

definition dispatch :: "bool \<Rightarrow> message \<Rightarrow> listener list \<Rightarrow> message \<Rightarrow> bool \<times> (listener \<times> message) list \<times> message" where
  "dispatch event msg ls fresh =
     (if event \<and> length ls > 0 then case dispatch_loop (length ls) 1 msg ls fresh of (ps, f) \<Rightarrow> (True, ps, f)
      else (False, [], fresh))"

lemma ed_find_less: "ed_find l ls < length ls \<longleftrightarrow> l \<in> set ls"
  by (induction ls) auto

lemma ed_find_le: "ed_find l ls \<le> length ls"
  by (induction ls) auto

lemma ed_find_end: "ed_find l ls = length ls \<longleftrightarrow> l \<notin> set ls"
  using ed_find_less [of l ls] ed_find_le [of l ls] by (auto simp: less_le)

lemma removeListener_remove1: "removeListener l ls = remove1 l ls"
proof (induction ls)
  case (Cons x xs)
  then show ?case by (auto simp: removeListener_def Let_def split: if_splits)
qed (simp add: removeListener_def)

lemma dispatch_loop_eq:
  assumes "length ls \<le> k" and "k < 2 ^ 32" and "length ls = Suc m"
  shows "dispatch_loop k (of_nat (k - m)) msg ls fresh = (zip ls ([fresh..<fresh + m] @ [msg]), fresh + m)"
  using assms
proof (induction ls arbitrary: m fresh)
  case (Cons l ls)
  have c: "unat (of_nat (k - m) :: uint32) = k - m" using Cons.prems by (subst unat_of_nat) (simp add: take_bit_nat_eq_self)
  show ?case
  proof (cases m)
    case 0
    then show ?thesis using c Cons.prems by (simp del: of_nat_diff)
  next
    case (Suc m')
    have step: "of_nat (k - m) + 1 = (of_nat (k - m') :: uint32)" proof -
      have "k - m' = Suc (k - m)" using Suc Cons.prems by arith
      then show ?thesis by (simp only: of_nat_Suc add.commute)
    qed
    have "dispatch_loop k (of_nat (k - m')) msg ls (Suc fresh) = (zip ls ([Suc fresh..<Suc fresh + m'] @ [msg]), Suc fresh + m')"
      using Cons Suc by simp
    moreover have "k - m \<noteq> k" using Suc Cons.prems by arith
    ultimately show ?thesis using c Suc Cons.prems step by (simp add: upt_conv_Cons del: of_nat_diff upt_Suc)
  qed
qed simp

text \<open>
  (C35) A message that is an event reaches every listener exactly once, in the order in which they
  registered: the last one gets the message itself and all others get copies, no two of them the
  same object. Then \<open>dispatch\<close> returns true and the caller has given the message away.
  Otherwise, or if nobody listens, it returns false and has not touched the message.
\<close>

theorem event_reaches_listeners:
  assumes "length ls < 2 ^ 32" and "msg < fresh"
  shows "\<exists>ps. dispatch event msg ls fresh = (event \<and> ls \<noteq> [], ps, fresh + (length ps - 1)) \<and>
    map fst ps = (if event then ls else []) \<and> distinct (map snd ps) \<and>
    (ps \<noteq> [] \<longrightarrow> snd (last ps) = msg \<and> (\<forall>p \<in> set (butlast ps). snd p \<ge> fresh))"
proof (cases "event \<and> ls \<noteq> []")
  case True
  then obtain m where m: "length ls = Suc m" by (cases ls) auto
  let ?ps = "zip ls ([fresh..<fresh + m] @ [msg])"
  have "dispatch event msg ls fresh = (True, ?ps, fresh + m)"
    using dispatch_loop_eq [OF order_refl assms(1) m, of msg fresh] True m by (simp add: dispatch_def)
  moreover have "map fst ?ps = ls" "map snd ?ps = [fresh..<fresh + m] @ [msg]" "length ?ps = Suc m"
    using m by simp_all
  moreover have "snd (last ?ps) = msg" using \<open>map snd ?ps = _\<close> \<open>length ?ps = Suc m\<close>
    by (metis last_map last_snoc length_0_conv nat.distinct(1))
  moreover have "set (map snd (butlast ?ps)) = {fresh..<fresh + m}"
    unfolding map_butlast \<open>map snd ?ps = _\<close> by simp
  ultimately show ?thesis using True assms(2) by (intro exI [of _ ?ps]) force
next
  case False
  then show ?thesis by (auto simp: dispatch_def)
qed

datatype ed_op = Register listener | Unregister listener

fun ed_apply :: "ed_op \<Rightarrow> listener list \<Rightarrow> listener list" where
  "ed_apply (Register l) ls = addListener l ls"
| "ed_apply (Unregister l) ls = removeListener l ls"

text \<open>Whether the last of the calls about a listener was a registration.\<close>

definition registered :: "listener \<Rightarrow> ed_op list \<Rightarrow> bool" where
  "registered l ops = fold (\<lambda>p r. case p of Register x \<Rightarrow> x = l \<or> r | Unregister x \<Rightarrow> x \<noteq> l \<and> r) ops False"

text \<open>
  After any sequence of registrations and removals the dispatcher has exactly the listeners
  whose last call was a registration, each of them once, however often they registered.
\<close>

theorem listeners_are_registered:
  "distinct (fold ed_apply ops []) \<and> set (fold ed_apply ops []) = {l. registered l ops}"
proof (induction ops rule: rev_induct)
  case (snoc p ops)
  let ?ls = "fold ed_apply ops []"
  show ?case
  proof (cases p)
    case (Register l)
    then show ?thesis using snoc.IH by (auto simp: addListener_def ed_find_end registered_def)
  next
    case (Unregister l)
    then show ?thesis using snoc.IH by (auto simp: removeListener_remove1 registered_def)
  qed
qed (simp add: registered_def)

section \<open>Handles\<close>

text \<open>
  A handle has a pointer to its manager, null in a default handle, and an id. The manager's
  functions have no body in the headers; they are arguments. \<open>getHandled\<close> throws if there is no
  such object.
\<close>

record handle =
  mHam :: "nat option"
  mId :: uint64

datatype handle_error = UninitializedHandle | NoSuchObject | HandleAssert

definition Handle0 :: handle where
  "Handle0 = \<lparr>mHam = None, mId = 0\<rparr>"

definition Handle :: "nat \<Rightarrow> uint64 \<Rightarrow> handle" where
  "Handle ham i = \<lparr>mHam = Some ham, mId = i\<rparr>"

definition handle_isValid :: "(nat \<Rightarrow> uint64 \<Rightarrow> bool) \<Rightarrow> handle \<Rightarrow> bool" where
  "handle_isValid isValidHandle h = (case mHam h of None \<Rightarrow> False | Some ham \<Rightarrow> isValidHandle ham (mId h))"

definition handle_get :: "(nat \<Rightarrow> uint64 \<Rightarrow> 'o option) \<Rightarrow> handle \<Rightarrow> handle_error + 'o" where
  "handle_get getHandled h = (case mHam h of None \<Rightarrow> Inl UninitializedHandle
     | Some ham \<Rightarrow> (case getHandled ham (mId h) of None \<Rightarrow> Inl NoSuchObject | Some x \<Rightarrow> Inr x))"

definition handle_eq :: "handle \<Rightarrow> handle \<Rightarrow> bool" where
  "handle_eq h g = (mHam h = mHam g \<and> mId h = mId g)"

definition handle_less :: "handle \<Rightarrow> handle \<Rightarrow> handle_error + bool" where
  "handle_less h g = (if mHam h = None then Inl HandleAssert else if mHam g = None then Inl HandleAssert
     else Inr (mId h < mId g))"

text \<open>
  A handle can be followed exactly if it is valid, provided that the manager finds the
  objects whose handles it calls valid. Among handles of one manager exactly one of less, equal
  and greater holds, and less is transitive. But the comparison looks at the ids only: handles of
  two managers with the same id are different and neither is less, so a set or a map takes them
  for one; and comparing a default handle fails an assertion, while \<open>==\<close> accepts it.
\<close>

theorem handle_contract:
  assumes "\<forall>ham i. isValidHandle ham i \<longleftrightarrow> getHandled ham i \<noteq> None"
  shows "(handle_isValid isValidHandle h \<longleftrightarrow> (\<exists>x. handle_get getHandled h = Inr x)) \<and>
    (mHam h \<noteq> None \<and> mHam h = mHam g \<longrightarrow>
       handle_less h g = Inr True \<and> \<not> handle_eq h g \<and> handle_less g h = Inr False \<or>
       handle_less h g = Inr False \<and> handle_eq h g \<and> handle_less g h = Inr False \<or>
       handle_less h g = Inr False \<and> \<not> handle_eq h g \<and> handle_less g h = Inr True) \<and>
    (handle_less h g = Inr True \<and> handle_less g k = Inr True \<longrightarrow> handle_less h k = Inr True) \<and>
    (a \<noteq> b \<longrightarrow> handle_less (Handle a i) (Handle b i) = Inr False \<and> handle_less (Handle b i) (Handle a i) = Inr False \<and>
       \<not> handle_eq (Handle a i) (Handle b i)) \<and>
    handle_less Handle0 h = Inl HandleAssert \<and> \<not> handle_isValid isValidHandle Handle0 \<and> handle_eq Handle0 Handle0"
proof -
  have "handle_isValid isValidHandle h \<longleftrightarrow> (\<exists>x. handle_get getHandled h = Inr x)"
    using assms by (auto simp: handle_isValid_def handle_get_def split: option.splits)
  moreover have "mHam h \<noteq> None \<and> mHam h = mHam g \<longrightarrow>
       handle_less h g = Inr True \<and> \<not> handle_eq h g \<and> handle_less g h = Inr False \<or>
       handle_less h g = Inr False \<and> handle_eq h g \<and> handle_less g h = Inr False \<or>
       handle_less h g = Inr False \<and> \<not> handle_eq h g \<and> handle_less g h = Inr True"
    by (cases "mId h" "mId g" rule: linorder_cases) (auto simp: handle_less_def handle_eq_def)
  moreover have "handle_less h g = Inr True \<and> handle_less g k = Inr True \<longrightarrow> handle_less h k = Inr True"
    by (auto simp: handle_less_def split: if_splits)
  ultimately show ?thesis by (simp add: handle_less_def handle_eq_def Handle_def Handle0_def handle_isValid_def)
qed

section \<open>Witnesses\<close>

theorem event_reaches_listeners_witness:
  "\<exists>ps. dispatch True 3 [10, 20, 30] 100 = (True, ps, 102) \<and> map fst ps = [10, 20, 30] \<and> snd (last ps) = 3"
proof -
  obtain ps where ps: "dispatch True 3 [10, 20, 30] 100 = (True, ps, 100 + (length ps - 1))"
    "map fst ps = [10, 20, 30]" "ps \<noteq> [] \<longrightarrow> snd (last ps) = 3"
    using event_reaches_listeners [of "[10, 20, 30]" 3 100 True] by auto
  moreover from ps(2) have "length ps = 3" by (metis length_Cons length_map list.size(3) numeral_3_eq_3)
  ultimately show ?thesis by auto
qed

theorem handle_contract_witness:
  "handle_isValid (\<lambda>ham i. i < 5) (Handle 0 3) \<and> \<not> handle_eq (Handle 0 3) (Handle 1 3) \<and>
   handle_less (Handle 0 3) (Handle 1 3) = Inr False"
  using handle_contract [of "\<lambda>ham i. i < 5" "\<lambda>ham i. if i < 5 then Some i else None" "Handle 0 3" "Handle 0 3" "Handle 0 3" 0 1 3]
  by (auto simp: handle_get_def Handle_def)

end
