(* ===== verification/Conversations.thy ===== *)
theory Conversations
  imports Queues
begin

text \<open>
  The commands of \<open>resip/recon/ConversationManagerCmds.hxx\<close>, by which an application
  changes conversations and their participants from another thread.

  The manager, the conversations and the participants are classes whose bodies are not in the
  headers. Their functions are the fields of \<open>recon\<close>, over a type \<open>'s\<close> of manager states;
  conversations and participants are named by their addresses. Each command class is a datatype
  constructor with its members, and its \<open>executeCommand\<close> a definition; a warning in the log is
  a value of \<open>recon_warning\<close>. Destinations, profiles and headers that a command only hands on
  are of type \<open>'d\<close>.
\<close>

datatype MediaInterfaceMode = sipXGlobalMediaInterfaceMode | sipXConversationMediaInterfaceMode

datatype participant_kind = LocalParticipant | RemoteParticipant | MediaResourceParticipant

type_synonym conv = nat
type_synonym part = nat

record ('s, 'd) recon =
  getMediaInterfaceMode :: MediaInterfaceMode
  getConversation :: "'s \<Rightarrow> nat \<Rightarrow> conv option"
  getParticipant :: "'s \<Rightarrow> nat \<Rightarrow> part option"
  kind_of :: "'s \<Rightarrow> part \<Rightarrow> participant_kind"
  getConversations :: "'s \<Rightarrow> part \<Rightarrow> conv list"
  hasBridgeMixer :: "'s \<Rightarrow> bool"
  newConversation :: "nat \<Rightarrow> bool \<Rightarrow> 's \<Rightarrow> 's"
  conv_destroy :: "conv \<Rightarrow> 's \<Rightarrow> 's"
  conv_join :: "conv \<Rightarrow> conv \<Rightarrow> 's \<Rightarrow> 's"
  createUACOriginalRemoteParticipant :: "nat \<Rightarrow> 'd \<Rightarrow> 's \<Rightarrow> part option \<times> 's"
  newMediaResourceParticipant :: "nat \<Rightarrow> 'd \<Rightarrow> 's \<Rightarrow> part option \<times> 's"
  newLocalParticipant :: "nat \<Rightarrow> 's \<Rightarrow> 's"
  destroyParticipant :: "part \<Rightarrow> 's \<Rightarrow> 's"
  onParticipantDestroyed :: "nat \<Rightarrow> 's \<Rightarrow> 's"
  addParticipant :: "conv \<Rightarrow> part \<Rightarrow> 's \<Rightarrow> 's"
  removeParticipant :: "conv \<Rightarrow> part \<Rightarrow> 's \<Rightarrow> 's"
  initiateRemoteCall :: "part \<Rightarrow> 'd \<Rightarrow> 's \<Rightarrow> 's"
  startPlay :: "part \<Rightarrow> 's \<Rightarrow> 's"
  modifyParticipantContribution :: "conv \<Rightarrow> part \<Rightarrow> uint32 \<Rightarrow> uint32 \<Rightarrow> 's \<Rightarrow> 's"
  outputBridgeMixWeights :: "'s \<Rightarrow> 's"
  part_alert :: "part \<Rightarrow> bool \<Rightarrow> 's \<Rightarrow> 's"
  part_accept :: "part \<Rightarrow> 's \<Rightarrow> 's"
  part_reject :: "part \<Rightarrow> uint32 \<Rightarrow> 's \<Rightarrow> 's"
  part_redirect :: "part \<Rightarrow> 'd \<Rightarrow> 's \<Rightarrow> 's"
  redirectToParticipant :: "part \<Rightarrow> part \<Rightarrow> 's \<Rightarrow> 's"
  setLocalHold :: "part \<Rightarrow> bool \<Rightarrow> 's \<Rightarrow> 's"

datatype recon_warning = NotAllowed | InvalidConversation | InvalidParticipant | InvalidSource | InvalidDestination
  | ErrorCreating | ManyConversations | OnlyLocalParticipants | NotInConversation

type_synonym 's executed = "recon_warning list \<times> 's"

section \<open>Conversations\<close>

definition CreateConversationCmd :: "('s, 'd) recon \<Rightarrow> nat \<Rightarrow> bool \<Rightarrow> 's \<Rightarrow> 's executed" where
  "CreateConversationCmd R convHandle broadcastOnly s = ([], newConversation R convHandle broadcastOnly s)"

definition DestroyConversationCmd :: "('s, 'd) recon \<Rightarrow> nat \<Rightarrow> 's \<Rightarrow> 's executed" where
  "DestroyConversationCmd R convHandle s = (case getConversation R s convHandle of None \<Rightarrow> ([], s) | Some c \<Rightarrow> ([], conv_destroy R c s))"

definition JoinConversationCmd :: "('s, 'd) recon \<Rightarrow> nat \<Rightarrow> nat \<Rightarrow> 's \<Rightarrow> 's executed" where
  "JoinConversationCmd R sourceConvHandle destConvHandle s =
     (if getMediaInterfaceMode R = sipXConversationMediaInterfaceMode then ([NotAllowed], s)
      else case (getConversation R s sourceConvHandle, getConversation R s destConvHandle) of
        (Some c, Some d) \<Rightarrow> if c = d then ([], s) else ([], conv_join R c d s)
      | (c, d) \<Rightarrow> ((if c = None then [InvalidSource] else []) @ (if d = None then [InvalidDestination] else []), s))"

section \<open>Creation and destruction of participants\<close>

definition CreateRemoteParticipantCmd :: "('s, 'd) recon \<Rightarrow> nat \<Rightarrow> nat \<Rightarrow> 'd \<Rightarrow> 's \<Rightarrow> 's executed" where
  "CreateRemoteParticipantCmd R partHandle convHandle destination s = (case getConversation R s convHandle of
     None \<Rightarrow> ([InvalidConversation], onParticipantDestroyed R partHandle s)
   | Some c \<Rightarrow> (case createUACOriginalRemoteParticipant R partHandle destination s of
       (None, s') \<Rightarrow> ([ErrorCreating], onParticipantDestroyed R partHandle s')
     | (Some p, s') \<Rightarrow> ([], initiateRemoteCall R p destination (addParticipant R c p s'))))"

definition CreateMediaResourceParticipantCmd :: "('s, 'd) recon \<Rightarrow> nat \<Rightarrow> nat \<Rightarrow> 'd \<Rightarrow> 's \<Rightarrow> 's executed" where
  "CreateMediaResourceParticipantCmd R partHandle convHandle mediaUrl s = (case getConversation R s convHandle of
     None \<Rightarrow> ([InvalidConversation], onParticipantDestroyed R partHandle s)
   | Some c \<Rightarrow> (case newMediaResourceParticipant R partHandle mediaUrl s of
       (None, s') \<Rightarrow> ([ErrorCreating], onParticipantDestroyed R partHandle s')
     | (Some p, s') \<Rightarrow> ([], startPlay R p (addParticipant R c p s'))))"

definition CreateLocalParticipantCmd :: "('s, 'd) recon \<Rightarrow> nat \<Rightarrow> 's \<Rightarrow> 's executed" where
  "CreateLocalParticipantCmd R partHandle s = ([], newLocalParticipant R partHandle s)"

definition DestroyParticipantCmd :: "('s, 'd) recon \<Rightarrow> nat \<Rightarrow> 's \<Rightarrow> 's executed" where
  "DestroyParticipantCmd R partHandle s = (case getParticipant R s partHandle of None \<Rightarrow> ([], s) | Some p \<Rightarrow> ([], destroyParticipant R p s))"

section \<open>Participants in conversations\<close>

definition invalid_handles :: "part option \<Rightarrow> conv option \<Rightarrow> recon_warning list" where
  "invalid_handles p c = (if p = None then [InvalidParticipant] else []) @ (if c = None then [InvalidConversation] else [])"

definition AddParticipantCmd :: "('s, 'd) recon \<Rightarrow> nat \<Rightarrow> nat \<Rightarrow> 's \<Rightarrow> 's executed" where
  "AddParticipantCmd R convHandle partHandle s =
     (case (getParticipant R s partHandle, getConversation R s convHandle) of
        (Some p, Some c) \<Rightarrow>
          if getMediaInterfaceMode R = sipXConversationMediaInterfaceMode \<and> length (getConversations R s p) > 0
          then ([ManyConversations], s) else ([], addParticipant R c p s)
      | (p, c) \<Rightarrow> (invalid_handles p c, s))"

definition RemoveParticipantCmd :: "('s, 'd) recon \<Rightarrow> nat \<Rightarrow> nat \<Rightarrow> 's \<Rightarrow> 's executed" where
  "RemoveParticipantCmd R convHandle partHandle s =
     (case (getParticipant R s partHandle, getConversation R s convHandle) of
        (Some p, Some c) \<Rightarrow>
          if getMediaInterfaceMode R = sipXConversationMediaInterfaceMode \<and> kind_of R s p \<noteq> LocalParticipant
          then ([OnlyLocalParticipants], s) else ([], removeParticipant R c p s)
      | (p, c) \<Rightarrow> (invalid_handles p c, s))"

definition MoveParticipantCmd :: "('s, 'd) recon \<Rightarrow> nat \<Rightarrow> nat \<Rightarrow> nat \<Rightarrow> 's \<Rightarrow> 's executed" where
  "MoveParticipantCmd R partHandle sourceConvHandle destConvHandle s =
     (case (getParticipant R s partHandle, getConversation R s sourceConvHandle, getConversation R s destConvHandle) of
        (Some p, Some c, Some d) \<Rightarrow>
          if c = d then ([], s)
          else if getMediaInterfaceMode R = sipXConversationMediaInterfaceMode
          then if kind_of R s p \<noteq> LocalParticipant then ([OnlyLocalParticipants], s)
               else ([], addParticipant R d p (removeParticipant R c p s))
          else ([], removeParticipant R c p (addParticipant R d p s))
      | (p, c, d) \<Rightarrow> ((if p = None then [InvalidParticipant] else []) @ (if c = None then [InvalidSource] else []) @
          (if d = None then [InvalidDestination] else []), s))"

definition ModifyParticipantContributionCmd :: "('s, 'd) recon \<Rightarrow> nat \<Rightarrow> nat \<Rightarrow> uint32 \<Rightarrow> uint32 \<Rightarrow> 's \<Rightarrow> 's executed" where
  "ModifyParticipantContributionCmd R convHandle partHandle inputGain outputGain s =
     (case (getParticipant R s partHandle, getConversation R s convHandle) of
        (Some p, Some c) \<Rightarrow> ([], modifyParticipantContribution R c p inputGain outputGain s)
      | (p, c) \<Rightarrow> (invalid_handles p c, s))"

definition OutputBridgeMixWeightsCmd :: "('s, 'd) recon \<Rightarrow> 's \<Rightarrow> rutil_error + 's executed" where
  "OutputBridgeMixWeightsCmd R s = (if hasBridgeMixer R s then Inr ([], outputBridgeMixWeights R s) else Inl AssertFailed)"

section \<open>Calls of remote participants\<close>

text \<open>The \<open>dynamic_cast\<close> of a looked-up participant; the cast of a null pointer is null.\<close>

definition getRemoteParticipant :: "('s, 'd) recon \<Rightarrow> nat \<Rightarrow> 's \<Rightarrow> part option" where
  "getRemoteParticipant R partHandle s = (case getParticipant R s partHandle of None \<Rightarrow> None
     | Some p \<Rightarrow> if kind_of R s p = RemoteParticipant then Some p else None)"

definition AlertParticipantCmd :: "('s, 'd) recon \<Rightarrow> nat \<Rightarrow> bool \<Rightarrow> 's \<Rightarrow> 's executed" where
  "AlertParticipantCmd R partHandle earlyFlag s = (case getRemoteParticipant R partHandle s of
     None \<Rightarrow> ([InvalidParticipant], s)
   | Some p \<Rightarrow>
       if getMediaInterfaceMode R = sipXConversationMediaInterfaceMode \<and> earlyFlag \<and> length (getConversations R s p) = 0
       then ([NotInConversation], s) else ([], part_alert R p earlyFlag s))"

definition AnswerParticipantCmd :: "('s, 'd) recon \<Rightarrow> nat \<Rightarrow> 's \<Rightarrow> 's executed" where
  "AnswerParticipantCmd R partHandle s = (case getRemoteParticipant R partHandle s of
     None \<Rightarrow> ([InvalidParticipant], s)
   | Some p \<Rightarrow>
       if getMediaInterfaceMode R = sipXConversationMediaInterfaceMode \<and> length (getConversations R s p) = 0
       then ([NotInConversation], s) else ([], part_accept R p s))"

definition RejectParticipantCmd :: "('s, 'd) recon \<Rightarrow> nat \<Rightarrow> uint32 \<Rightarrow> 's \<Rightarrow> 's executed" where
  "RejectParticipantCmd R partHandle rejectCode s = (case getRemoteParticipant R partHandle s of
     None \<Rightarrow> ([InvalidParticipant], s) | Some p \<Rightarrow> ([], part_reject R p rejectCode s))"

definition RedirectParticipantCmd :: "('s, 'd) recon \<Rightarrow> nat \<Rightarrow> 'd \<Rightarrow> 's \<Rightarrow> 's executed" where
  "RedirectParticipantCmd R partHandle destination s = (case getRemoteParticipant R partHandle s of
     None \<Rightarrow> ([InvalidParticipant], s) | Some p \<Rightarrow> ([], part_redirect R p destination s))"

definition RedirectToParticipantCmd :: "('s, 'd) recon \<Rightarrow> nat \<Rightarrow> nat \<Rightarrow> 's \<Rightarrow> 's executed" where
  "RedirectToParticipantCmd R partHandle destPartHandle s =
     (case (getRemoteParticipant R partHandle s, getRemoteParticipant R destPartHandle s) of
        (Some p, Some q) \<Rightarrow> ([], redirectToParticipant R p q s)
      | (p, q) \<Rightarrow> ((if p = None then [InvalidParticipant] else []) @ (if q = None then [InvalidDestination] else []), s))"

definition HoldParticipantCmd :: "('s, 'd) recon \<Rightarrow> nat \<Rightarrow> bool \<Rightarrow> 's \<Rightarrow> 's executed" where
  "HoldParticipantCmd R partHandle hold s = (case getRemoteParticipant R partHandle s of
     None \<Rightarrow> ([InvalidParticipant], s)
   | Some p \<Rightarrow>
       if getMediaInterfaceMode R = sipXConversationMediaInterfaceMode \<and> hold \<and> length (getConversations R s p) = 0
       then ([NotInConversation], s) else ([], setLocalHold R p hold s))"

section \<open>Sequences of commands\<close>

datatype 'd recon_cmd = CCreate nat bool | CDestroy nat | CJoin nat nat | CCreateRemote nat nat 'd | CCreateMedia nat nat 'd
  | CCreateLocal nat | CDestroyParticipant nat | CAdd nat nat | CRemove nat nat | CMove nat nat nat
  | CModify nat nat uint32 uint32 | COutputWeights | CAlert nat bool | CAnswer nat | CReject nat uint32
  | CRedirect nat 'd | CRedirectTo nat nat | CHold nat bool

fun executeCommand :: "('s, 'd) recon \<Rightarrow> 's \<Rightarrow> 'd recon_cmd \<Rightarrow> rutil_error + 's" where
  "executeCommand R s (CCreate c b) = Inr (snd (CreateConversationCmd R c b s))"
| "executeCommand R s (CDestroy c) = Inr (snd (DestroyConversationCmd R c s))"
| "executeCommand R s (CJoin c d) = Inr (snd (JoinConversationCmd R c d s))"
| "executeCommand R s (CCreateRemote p c x) = Inr (snd (CreateRemoteParticipantCmd R p c x s))"
| "executeCommand R s (CCreateMedia p c x) = Inr (snd (CreateMediaResourceParticipantCmd R p c x s))"
| "executeCommand R s (CCreateLocal p) = Inr (snd (CreateLocalParticipantCmd R p s))"
| "executeCommand R s (CDestroyParticipant p) = Inr (snd (DestroyParticipantCmd R p s))"
| "executeCommand R s (CAdd c p) = Inr (snd (AddParticipantCmd R c p s))"
| "executeCommand R s (CRemove c p) = Inr (snd (RemoveParticipantCmd R c p s))"
| "executeCommand R s (CMove p c d) = Inr (snd (MoveParticipantCmd R p c d s))"
| "executeCommand R s (CModify c p i k) = Inr (snd (ModifyParticipantContributionCmd R c p i k s))"
| "executeCommand R s COutputWeights = bindr (OutputBridgeMixWeightsCmd R s) (\<lambda>(w, s'). Inr s')"
| "executeCommand R s (CAlert p e) = Inr (snd (AlertParticipantCmd R p e s))"
| "executeCommand R s (CAnswer p) = Inr (snd (AnswerParticipantCmd R p s))"
| "executeCommand R s (CReject p x) = Inr (snd (RejectParticipantCmd R p x s))"
| "executeCommand R s (CRedirect p x) = Inr (snd (RedirectParticipantCmd R p x s))"
| "executeCommand R s (CRedirectTo p q) = Inr (snd (RedirectToParticipantCmd R p q s))"
| "executeCommand R s (CHold p h) = Inr (snd (HoldParticipantCmd R p h s))"

text \<open>
  What the headers say of the manager, as far as it concerns who is in which conversation: adding
  and removing change the conversations of that participant only; a participant that was just
  made is in none; nothing else puts a participant into a conversation, joining apart. A
  participant that a call destroys is in no conversation any more, so the laws are inclusions.
\<close>

definition leaves_in :: "('s, 'd) recon \<Rightarrow> 's \<Rightarrow> 's \<Rightarrow> bool" where
  "leaves_in R s s' = (\<forall>q. set (getConversations R s' q) \<subseteq> set (getConversations R s q))"

definition membership_laws :: "('s, 'd) recon \<Rightarrow> bool" where
  "membership_laws R = ((\<forall>s q. distinct (getConversations R s q)) \<and>
     (\<forall>s c p q. set (getConversations R (addParticipant R c p s) q) \<subseteq>
        (if q = p then insert c (set (getConversations R s q)) else set (getConversations R s q))) \<and>
     (\<forall>s c p. set (getConversations R (removeParticipant R c p s) p) \<subseteq> set (getConversations R s p) - {c}))"

definition creation_law :: "('s, 'd) recon \<Rightarrow> (nat \<Rightarrow> 'd \<Rightarrow> 's \<Rightarrow> part option \<times> 's) \<Rightarrow> bool" where
  "creation_law R create = (\<forall>s h x p s'. create h x s = (p, s') \<longrightarrow>
     leaves_in R s s' \<and> (p \<noteq> None \<longrightarrow> getConversations R s' (the p) = []))"

definition other_laws :: "('s, 'd) recon \<Rightarrow> bool" where
  "other_laws R = ((\<forall>s c p. leaves_in R s (removeParticipant R c p s)) \<and>
     (\<forall>s h b. leaves_in R s (newConversation R h b s)) \<and> (\<forall>s c. leaves_in R s (conv_destroy R c s)) \<and>
     (\<forall>s h. leaves_in R s (newLocalParticipant R h s)) \<and> (\<forall>s p. leaves_in R s (destroyParticipant R p s)) \<and>
     (\<forall>s h. leaves_in R s (onParticipantDestroyed R h s)) \<and> (\<forall>s p x. leaves_in R s (initiateRemoteCall R p x s)) \<and>
     (\<forall>s p. leaves_in R s (startPlay R p s)) \<and> (\<forall>s c p i k. leaves_in R s (modifyParticipantContribution R c p i k s)) \<and>
     (\<forall>s. leaves_in R s (outputBridgeMixWeights R s)) \<and> (\<forall>s p e. leaves_in R s (part_alert R p e s)) \<and>
     (\<forall>s p. leaves_in R s (part_accept R p s)) \<and> (\<forall>s p x. leaves_in R s (part_reject R p x s)) \<and>
     (\<forall>s p x. leaves_in R s (part_redirect R p x s)) \<and> (\<forall>s p q. leaves_in R s (redirectToParticipant R p q s)) \<and>
     (\<forall>s p h. leaves_in R s (setLocalHold R p h s)))"

definition recon_laws :: "('s, 'd) recon \<Rightarrow> bool" where
  "recon_laws R = (membership_laws R \<and> creation_law R (createUACOriginalRemoteParticipant R) \<and>
     creation_law R (newMediaResourceParticipant R) \<and> other_laws R)"

definition one_conversation :: "('s, 'd) recon \<Rightarrow> 's \<Rightarrow> bool" where
  "one_conversation R s = (\<forall>q. length (getConversations R s q) \<le> 1)"

text \<open>
  When a command may be given: the mixer exists if its weights are to be printed, and a participant
  that is moved is in no conversation but the one it is moved from.
\<close>

fun recon_guard :: "('s, 'd) recon \<Rightarrow> 's \<Rightarrow> 'd recon_cmd \<Rightarrow> bool" where
  "recon_guard R s COutputWeights = hasBridgeMixer R s"
| "recon_guard R s (CMove p c d) = (case (getParticipant R s p, getConversation R s c) of
     (Some x, Some y) \<Rightarrow> list_all (\<lambda>z. z = y) (getConversations R s x) | _ \<Rightarrow> True)"
| "recon_guard R s _ = True"

section \<open>One conversation per participant\<close>

lemma at_most_one: "distinct xs \<Longrightarrow> length xs \<le> 1 \<longleftrightarrow> (\<exists>c. set xs \<subseteq> {c})"
proof (cases xs)
  case (Cons x ys)
  moreover assume "distinct xs"
  ultimately show ?thesis by (cases ys) auto
qed simp

lemma recon_distinct: "recon_laws R \<Longrightarrow> distinct (getConversations R s q)"
  by (simp add: recon_laws_def membership_laws_def)

lemma recon_add: "recon_laws R \<Longrightarrow> set (getConversations R (addParticipant R c p s) q) \<subseteq>
    (if q = p then insert c (set (getConversations R s q)) else set (getConversations R s q))"
  unfolding recon_laws_def membership_laws_def by presburger

lemma recon_remove: "recon_laws R \<Longrightarrow> set (getConversations R (removeParticipant R c p s) p) \<subseteq> set (getConversations R s p) - {c}"
  unfolding recon_laws_def membership_laws_def by presburger

lemma recon_created:
  assumes "recon_laws R"
  shows "createUACOriginalRemoteParticipant R h x s = (p, s') \<Longrightarrow> leaves_in R s s' \<and> (p \<noteq> None \<longrightarrow> getConversations R s' (the p) = [])"
    and "newMediaResourceParticipant R h x s = (p, s') \<Longrightarrow> leaves_in R s s' \<and> (p \<noteq> None \<longrightarrow> getConversations R s' (the p) = [])"
  using assms unfolding recon_laws_def creation_law_def by presburger+

lemma recon_leaves:
  assumes "recon_laws R"
  shows "leaves_in R s (removeParticipant R c p s)" "leaves_in R s (newConversation R h b s)" "leaves_in R s (conv_destroy R c s)"
    "leaves_in R s (newLocalParticipant R h s)" "leaves_in R s (destroyParticipant R p s)" "leaves_in R s (onParticipantDestroyed R h s)"
    "leaves_in R s (initiateRemoteCall R p x s)" "leaves_in R s (startPlay R p s)" "leaves_in R s (modifyParticipantContribution R c p i k s)"
    "leaves_in R s (outputBridgeMixWeights R s)" "leaves_in R s (part_alert R p e s)" "leaves_in R s (part_accept R p s)"
    "leaves_in R s (part_reject R p w s)" "leaves_in R s (part_redirect R p x s)" "leaves_in R s (redirectToParticipant R p q s)"
    "leaves_in R s (setLocalHold R p b s)" "leaves_in R s s"
  using assms unfolding recon_laws_def by (simp_all add: other_laws_def) (simp add: leaves_in_def)

lemma one_iff:
  assumes "recon_laws R"
  shows "one_conversation R s \<longleftrightarrow> (\<forall>q. \<exists>c. set (getConversations R s q) \<subseteq> {c})"
  using at_most_one [OF recon_distinct [OF assms]] by (simp add: one_conversation_def)

lemma one_leaves:
  assumes "recon_laws R" and "one_conversation R s" and "leaves_in R s s'"
  shows "one_conversation R s'"
  using assms(2,3) unfolding one_iff [OF assms(1)] leaves_in_def by (meson order_trans)

lemma one_add:
  assumes "recon_laws R" and "one_conversation R s" and "set (getConversations R s p) \<subseteq> {c}"
  shows "one_conversation R (addParticipant R c p s)"
  unfolding one_iff [OF assms(1)]
proof
  fix q
  show "\<exists>d. set (getConversations R (addParticipant R c p s) q) \<subseteq> {d}"
  proof (cases "q = p")
    case True
    then show ?thesis using recon_add [OF assms(1), of c p s q] assms(3) by (intro exI [of _ c]) auto
  next
    case False
    obtain d where "set (getConversations R s q) \<subseteq> {d}" using assms(2) one_iff [OF assms(1), of s] by blast
    then show ?thesis using False recon_add [OF assms(1), of c p s q] by auto
  qed
qed

lemma one_create:
  assumes "recon_laws R" and "one_conversation R s" and "leaves_in R s s'" and "getConversations R s' p = []"
  shows "one_conversation R (addParticipant R c p s')"
  using one_add [OF assms(1) one_leaves [OF assms(1-3)], of p c] assms(4) by simp

lemma one_move:
  assumes "recon_laws R" and "one_conversation R s" and "list_all (\<lambda>z. z = c) (getConversations R s p)"
  shows "one_conversation R (addParticipant R d p (removeParticipant R c p s))"
proof -
  have "set (getConversations R s p) \<subseteq> {c}" using assms(3) by (auto simp: list_all_iff)
  then have "set (getConversations R (removeParticipant R c p s) p) \<subseteq> {d}" using recon_remove [OF assms(1), of c p s] by auto
  then show ?thesis using one_add [OF assms(1) one_leaves [OF assms(1,2) recon_leaves(1) [OF assms(1)]]] by blast
qed

lemmas creation_defs = CreateConversationCmd_def DestroyConversationCmd_def JoinConversationCmd_def
  CreateLocalParticipantCmd_def DestroyParticipantCmd_def OutputBridgeMixWeightsCmd_def

lemmas participant_defs = RemoveParticipantCmd_def ModifyParticipantContributionCmd_def AlertParticipantCmd_def
  AnswerParticipantCmd_def RejectParticipantCmd_def RedirectParticipantCmd_def RedirectToParticipantCmd_def HoldParticipantCmd_def

lemma one_created:
  assumes "recon_laws R" and "one_conversation R s" and "leaves_in R s s' \<and> (po \<noteq> None \<longrightarrow> getConversations R s' (the po) = [])"
    and "\<And>p t. leaves_in R t (start p t)"
  shows "one_conversation R (case po of None \<Rightarrow> onParticipantDestroyed R h s' | Some p \<Rightarrow> start p (addParticipant R c p s'))"
proof (cases po)
  case None
  have "one_conversation R s'" by (rule one_leaves [OF assms(1,2)]) (use assms(3) in simp)
  then show ?thesis using None one_leaves [OF assms(1) _ recon_leaves(6) [OF assms(1)]] by simp
next
  case (Some p)
  have "one_conversation R (addParticipant R c p s')"
    by (rule one_create [OF assms(1,2)]) (use assms(3) Some in simp_all)
  then show ?thesis using Some one_leaves [OF assms(1) _ assms(4)] by simp
qed

lemma one_created_participant:
  assumes "recon_laws R" and "one_conversation R s"
  shows "one_conversation R (snd (CreateRemoteParticipantCmd R p c x s))"
    and "one_conversation R (snd (CreateMediaResourceParticipantCmd R p c x s))"
proof -
  have none: "one_conversation R (onParticipantDestroyed R p s)" using one_leaves [OF assms recon_leaves(6) [OF assms(1)]] .
  obtain po s' where r: "createUACOriginalRemoteParticipant R p x s = (po, s')" by fastforce
  show "one_conversation R (snd (CreateRemoteParticipantCmd R p c x s))"
  proof (cases "getConversation R s c")
    case (Some y)
    with one_created [OF assms recon_created(1) [OF assms(1) r], where h = p and c = y and start = "\<lambda>q. initiateRemoteCall R q x"]
      recon_leaves(7) [OF assms(1)] r
    show ?thesis by (cases po) (simp_all add: CreateRemoteParticipantCmd_def)
  qed (simp add: CreateRemoteParticipantCmd_def none)
  obtain po s' where r: "newMediaResourceParticipant R p x s = (po, s')" by fastforce
  show "one_conversation R (snd (CreateMediaResourceParticipantCmd R p c x s))"
  proof (cases "getConversation R s c")
    case (Some y)
    with one_created [OF assms recon_created(2) [OF assms(1) r], where h = p and c = y and start = "startPlay R"]
      recon_leaves(8) [OF assms(1)] r
    show ?thesis by (cases po) (simp_all add: CreateMediaResourceParticipantCmd_def)
  qed (simp add: CreateMediaResourceParticipantCmd_def none)
qed

lemma recon_step_ok:
  assumes "recon_laws R" and "getMediaInterfaceMode R = sipXConversationMediaInterfaceMode"
    and "one_conversation R s" and "recon_guard R s cmd"
  shows "\<exists>s'. executeCommand R s cmd = Inr s' \<and> one_conversation R s'"
proof -
  note lv = one_leaves [OF assms(1,3)] and rl = recon_leaves [OF assms(1)]
  show ?thesis
  proof (cases cmd)
    case (CAdd c p)
    have "one_conversation R (addParticipant R y x s)" if "getConversations R s x = []" for x y
      using one_add [OF assms(1,3), of x y] that by simp
    then show ?thesis using CAdd assms(2,3) by (auto simp: AddParticipantCmd_def split: option.split)
  next
    case (CMove p c d)
    then show ?thesis using assms one_move [OF assms(1,3)] by (auto simp: MoveParticipantCmd_def split: option.split)
  next
    case (CCreateRemote p c x)
    then show ?thesis using one_created_participant [OF assms(1,3)] by simp
  next
    case (CCreateMedia p c x)
    then show ?thesis using one_created_participant [OF assms(1,3)] by simp
  qed (use assms(2-4) in \<open>auto simp: creation_defs participant_defs intro: lv rl split: option.split\<close>)
qed

definition recon_inv :: "('s, 'd) recon \<Rightarrow> 's \<Rightarrow> bool" where
  "recon_inv R s = (recon_laws R \<and> getMediaInterfaceMode R = sipXConversationMediaInterfaceMode \<and> one_conversation R s)"

interpretation rm: guarded_machine "executeCommand R" "recon_inv R" "recon_guard R" for R
  by unfold_locales (metis recon_step_ok recon_inv_def)

text \<open>
  (C33) With one media interface per conversation, no participant is ever in two conversations:
  this holds after any sequence of commands, with whatever handles, as long as participants are
  moved from the conversation that they are in. No command fails but the one that prints the
  weights of a mixer that does not exist.
\<close>

theorem participants_in_one_conversation:
  assumes "recon_laws R" and "getMediaInterfaceMode R = sipXConversationMediaInterfaceMode" and "one_conversation R s"
    and "guarded_run (executeCommand R) (recon_guard R) s cmds"
  shows "\<exists>s'. run_events (executeCommand R) s cmds = Inr s' \<and> (\<forall>q. length (getConversations R s' q) \<le> 1)"
proof -
  have "recon_inv R s" using assms(1-3) by (simp add: recon_inv_def)
  from rm.run_ok [OF this assms(4)] show ?thesis by (auto simp: recon_inv_def one_conversation_def)
qed

text \<open>
  The condition on moves is needed, because the command does not test it: moving a local
  participant from a conversation in which it is not leaves it in its own one and puts it into the
  other as well, although two conversations are not possible in this mode.
\<close>

theorem move_breaks_one_conversation:
  assumes "\<forall>s c p. set (getConversations R (addParticipant R c p s) p) = insert c (set (getConversations R s p))"
    and "\<forall>s c p. set (getConversations R (removeParticipant R c p s) p) = set (getConversations R s p) - {c}"
    and "getMediaInterfaceMode R = sipXConversationMediaInterfaceMode"
    and "getParticipant R s ph = Some p" and "kind_of R s p = LocalParticipant"
    and "getConversation R s ch = Some c" and "getConversation R s dh = Some d" and "c \<noteq> d"
    and "x \<in> set (getConversations R s p)" and "x \<noteq> c" and "x \<noteq> d"
  shows "\<exists>s'. executeCommand R s (CMove ph ch dh) = Inr s' \<and> 2 \<le> length (getConversations R s' p)"
proof -
  let ?s = "addParticipant R d p (removeParticipant R c p s)"
  have "{x, d} \<subseteq> set (getConversations R ?s p)" using assms(1,2,9,10) by simp
  then have "card {x, d} \<le> card (set (getConversations R ?s p))" by (intro card_mono) simp_all
  then have "2 \<le> length (getConversations R ?s p)" using assms(11) card_length [of "getConversations R ?s p"] by simp
  then show ?thesis using assms(3-8) by (simp add: MoveParticipantCmd_def)
qed

text \<open>
  A command that is refused changes nothing: whenever there is a warning, the state of the
  manager is the one before, except that a participant that could not be created is reported as
  destroyed, so that the application hears of every handle it was given.
\<close>

theorem refused_commands_change_nothing:
  "(fst (JoinConversationCmd R a b s) \<noteq> [] \<longrightarrow> snd (JoinConversationCmd R a b s) = s) \<and>
   (fst (AddParticipantCmd R a b s) \<noteq> [] \<longrightarrow> snd (AddParticipantCmd R a b s) = s) \<and>
   (fst (RemoveParticipantCmd R a b s) \<noteq> [] \<longrightarrow> snd (RemoveParticipantCmd R a b s) = s) \<and>
   (fst (MoveParticipantCmd R a b c s) \<noteq> [] \<longrightarrow> snd (MoveParticipantCmd R a b c s) = s) \<and>
   (fst (ModifyParticipantContributionCmd R a b i k s) \<noteq> [] \<longrightarrow> snd (ModifyParticipantContributionCmd R a b i k s) = s) \<and>
   (fst (AlertParticipantCmd R a e s) \<noteq> [] \<longrightarrow> snd (AlertParticipantCmd R a e s) = s) \<and>
   (fst (AnswerParticipantCmd R a s) \<noteq> [] \<longrightarrow> snd (AnswerParticipantCmd R a s) = s) \<and>
   (fst (RejectParticipantCmd R a i s) \<noteq> [] \<longrightarrow> snd (RejectParticipantCmd R a i s) = s) \<and>
   (fst (RedirectParticipantCmd R a x s) \<noteq> [] \<longrightarrow> snd (RedirectParticipantCmd R a x s) = s) \<and>
   (fst (RedirectToParticipantCmd R a b s) \<noteq> [] \<longrightarrow> snd (RedirectToParticipantCmd R a b s) = s) \<and>
   (fst (HoldParticipantCmd R a e s) \<noteq> [] \<longrightarrow> snd (HoldParticipantCmd R a e s) = s) \<and>
   (getConversation R s b = None \<longrightarrow>
      CreateRemoteParticipantCmd R a b x s = ([InvalidConversation], onParticipantDestroyed R a s) \<and>
      CreateMediaResourceParticipantCmd R a b x s = ([InvalidConversation], onParticipantDestroyed R a s))"
  by (intro conjI; simp add: JoinConversationCmd_def AddParticipantCmd_def MoveParticipantCmd_def participant_defs
      CreateRemoteParticipantCmd_def CreateMediaResourceParticipantCmd_def split: option.split)

section \<open>Witnesses\<close>

text \<open>Handles below ten are valid, all participants are local; the state lists the conversations of each.\<close>

definition demo_recon :: "(nat \<Rightarrow> nat list, unit) recon" where
  "demo_recon = \<lparr>getMediaInterfaceMode = sipXConversationMediaInterfaceMode,
     getConversation = (\<lambda>s h. if h < 10 then Some h else None), getParticipant = (\<lambda>s h. if h < 10 then Some h else None),
     kind_of = (\<lambda>s p. LocalParticipant), getConversations = (\<lambda>s p. remdups (s p)), hasBridgeMixer = (\<lambda>s. False),
     newConversation = (\<lambda>h b s. s), conv_destroy = (\<lambda>c s. s), conv_join = (\<lambda>c d s. s),
     createUACOriginalRemoteParticipant = (\<lambda>h x s. (Some h, s(h := []))), newMediaResourceParticipant = (\<lambda>h x s. (None, s)),
     newLocalParticipant = (\<lambda>h s. s), destroyParticipant = (\<lambda>p s. s(p := [])), onParticipantDestroyed = (\<lambda>h s. s),
     addParticipant = (\<lambda>c p s. s(p := c # s p)), removeParticipant = (\<lambda>c p s. s(p := removeAll c (s p))),
     initiateRemoteCall = (\<lambda>p x s. s), startPlay = (\<lambda>p s. s), modifyParticipantContribution = (\<lambda>c p i k s. s),
     outputBridgeMixWeights = (\<lambda>s. s), part_alert = (\<lambda>p e s. s), part_accept = (\<lambda>p s. s), part_reject = (\<lambda>p w s. s),
     part_redirect = (\<lambda>p x s. s), redirectToParticipant = (\<lambda>p q s. s), setLocalHold = (\<lambda>p h s. s)\<rparr>"

lemma demo_recon_laws: "recon_laws demo_recon"
  by (auto simp: recon_laws_def membership_laws_def creation_law_def other_laws_def leaves_in_def demo_recon_def)

theorem participants_in_one_conversation_witness:
  "\<exists>s. run_events (executeCommand demo_recon) (\<lambda>p. []) [CAdd 1 5, CAdd 2 5, CMove 5 1 3] = Inr s \<and>
     (\<forall>q. length (getConversations demo_recon s q) \<le> 1)"
proof -
  have "one_conversation demo_recon (\<lambda>p. [])" by (simp add: one_conversation_def demo_recon_def)
  moreover have "guarded_run (executeCommand demo_recon) (recon_guard demo_recon) (\<lambda>p. []) [CAdd 1 5, CAdd 2 5, CMove 5 1 3]"
    by (simp add: demo_recon_def AddParticipantCmd_def)
  moreover have "getMediaInterfaceMode demo_recon = sipXConversationMediaInterfaceMode" by (simp add: demo_recon_def)
  ultimately show ?thesis by (intro participants_in_one_conversation [OF demo_recon_laws])
qed

theorem move_breaks_one_conversation_witness:
  "\<exists>s'. executeCommand demo_recon ((\<lambda>p. [])(5 := [1])) (CMove 5 2 3) = Inr s' \<and> 2 \<le> length (getConversations demo_recon s' 5)"
  by (rule move_breaks_one_conversation [where c = 2 and d = 3 and x = 1]) (auto simp: demo_recon_def)

theorem refused_commands_change_nothing_witness:
  "fst (AddParticipantCmd demo_recon 2 5 ((\<lambda>p. [])(5 := [1]))) = [ManyConversations] \<and>
   snd (AddParticipantCmd demo_recon 2 5 ((\<lambda>p. [])(5 := [1]))) = (\<lambda>p. [])(5 := [1])"
proof -
  have "fst (AddParticipantCmd demo_recon 2 5 ((\<lambda>p. [])(5 := [1]))) = [ManyConversations]"
    by (simp add: demo_recon_def AddParticipantCmd_def)
  with refused_commands_change_nothing [of demo_recon 2 5 "(\<lambda>p. [])(5 := [1])"] show ?thesis by simp
qed

end
