(* ===== verification/ErrorCodes.thy ===== *)
theory ErrorCodes
  imports Registry "HOL-Library.Word"
begin

text \<open>
  The error codes of the TLS library: the packing macros and the general codes of
  \<open>openssl/err.h\<close>, and the reasons and alerts of \<open>openssl/ssl.h\<close>, \<open>ssl3.h\<close> and
  \<open>tls1.h\<close>, as tables in the order of the headers.

  An error is one \<open>unsigned long\<close> with the number of a library, of a function and of a reason
  in it. The type has 64 bits on two of the four platforms and 32 on the others, so the macros
  are defined for words of any width; the arguments are the values after the cast. The headers
  of the platforms are the same.
\<close>

unbundle bit_operations_syntax

section \<open>Packing\<close>

definition ERR_PACK :: "'a::len word \<Rightarrow> 'a word \<Rightarrow> 'a word \<Rightarrow> 'a word" where
  "ERR_PACK l f r = (((l AND 0xff) * 0x1000000) OR ((f AND 0xfff) * 0x1000)) OR (r AND 0xfff)"

definition ERR_GET_LIB :: "'a::len word \<Rightarrow> int" where
  "ERR_GET_LIB e = uint (drop_bit 24 e AND 0xff)"

definition ERR_GET_FUNC :: "'a::len word \<Rightarrow> int" where
  "ERR_GET_FUNC e = uint (drop_bit 12 e AND 0xfff)"

definition ERR_GET_REASON :: "'a::len word \<Rightarrow> int" where
  "ERR_GET_REASON e = uint (e AND 0xfff)"

definition ERR_R_FATAL :: int where
  "ERR_R_FATAL = 64"

definition ERR_FATAL_ERROR :: "'a::len word \<Rightarrow> int" where
  "ERR_FATAL_ERROR e = uint (e AND word_of_int ERR_R_FATAL)"

section \<open>General codes\<close>

definition ERR_LIB :: "(string \<times> int) list" where
  "ERR_LIB =
    [(''NONE'', 1), (''SYS'', 2), (''BN'', 3), (''RSA'', 4),
     (''DH'', 5), (''EVP'', 6), (''BUF'', 7), (''OBJ'', 8),
     (''PEM'', 9), (''DSA'', 10), (''X509'', 11), (''ASN1'', 13),
     (''CONF'', 14), (''CRYPTO'', 15), (''EC'', 16), (''SSL'', 20),
     (''BIO'', 32), (''PKCS7'', 33), (''X509V3'', 34), (''PKCS12'', 35),
     (''RAND'', 36), (''DSO'', 37), (''ENGINE'', 38), (''OCSP'', 39),
     (''UI'', 40), (''COMP'', 41), (''ECDSA'', 42), (''ECDH'', 43),
     (''STORE'', 44), (''FIPS'', 45), (''CMS'', 46), (''TS'', 47),
     (''HMAC'', 48), (''JPAKE'', 49), (''USER'', 128)]"

text \<open>The reasons that stand for another library: the code of a library is its number.\<close>

definition ERR_R_LIB :: "string list" where
  "ERR_R_LIB =
    [''SYS'', ''BN'', ''RSA'', ''DH'', ''EVP'', ''BUF'', ''OBJ'', ''PEM'',
     ''DSA'', ''X509'', ''ASN1'', ''CONF'', ''CRYPTO'', ''EC'', ''SSL'', ''BIO'',
     ''PKCS7'', ''X509V3'', ''PKCS12'', ''RAND'', ''DSO'', ''ENGINE'', ''OCSP'', ''UI'',
     ''COMP'', ''ECDSA'', ''ECDH'', ''STORE'', ''TS'']"

definition ERR_R_general :: "(string \<times> int) list" where
  "ERR_R_general =
    [(''NESTED_ASN1_ERROR'', 58), (''BAD_ASN1_OBJECT_HEADER'', 59),
     (''BAD_GET_ASN1_OBJECT_CALL'', 60), (''EXPECTING_AN_ASN1_SEQUENCE'', 61),
     (''ASN1_LENGTH_MISMATCH'', 62), (''MISSING_ASN1_EOS'', 63),
     (''FATAL'', 64)]"

definition ERR_R_fatal :: "(string \<times> int) list" where
  "ERR_R_fatal =
    [(''MALLOC_FAILURE'', 1 OR ERR_R_FATAL),
     (''SHOULD_NOT_HAVE_BEEN_CALLED'', 2 OR ERR_R_FATAL),
     (''PASSED_NULL_PARAMETER'', 3 OR ERR_R_FATAL),
     (''INTERNAL_ERROR'', 4 OR ERR_R_FATAL),
     (''DISABLED'', 5 OR ERR_R_FATAL)]"

section \<open>Reasons and alerts of TLS\<close>

definition SSL_R_1 :: "(string \<times> int) list" where
  "SSL_R_1 =
    [(''APP_DATA_IN_HANDSHAKE'', 100), (''ATTEMPT_TO_REUSE_SESSION_IN_DIFFERENT_CONTEXT'', 272),
     (''BAD_ALERT_RECORD'', 101), (''BAD_AUTHENTICATION_TYPE'', 102),
     (''BAD_CHANGE_CIPHER_SPEC'', 103), (''BAD_CHECKSUM'', 104),
     (''BAD_DATA'', 390), (''BAD_DATA_RETURNED_BY_CALLBACK'', 106),
     (''BAD_DECOMPRESSION'', 107), (''BAD_DH_G_LENGTH'', 108),
     (''BAD_DH_G_VALUE'', 375), (''BAD_DH_PUB_KEY_LENGTH'', 109),
     (''BAD_DH_PUB_KEY_VALUE'', 393), (''BAD_DH_P_LENGTH'', 110),
     (''BAD_DH_P_VALUE'', 395), (''BAD_DIGEST_LENGTH'', 111),
     (''BAD_DSA_SIGNATURE'', 112), (''BAD_ECC_CERT'', 304),
     (''BAD_ECDSA_SIGNATURE'', 305), (''BAD_ECPOINT'', 306),
     (''BAD_HANDSHAKE_LENGTH'', 332), (''BAD_HELLO_REQUEST'', 105),
     (''BAD_LENGTH'', 271), (''BAD_MAC_DECODE'', 113),
     (''BAD_MAC_LENGTH'', 333), (''BAD_MESSAGE_TYPE'', 114),
     (''BAD_PACKET_LENGTH'', 115), (''BAD_PROTOCOL_VERSION_NUMBER'', 116),
     (''BAD_PSK_IDENTITY_HINT_LENGTH'', 316), (''BAD_RESPONSE_ARGUMENT'', 117),
     (''BAD_RSA_DECRYPT'', 118), (''BAD_RSA_ENCRYPT'', 119),
     (''BAD_RSA_E_LENGTH'', 120), (''BAD_RSA_MODULUS_LENGTH'', 121),
     (''BAD_RSA_SIGNATURE'', 122), (''BAD_SIGNATURE'', 123),
     (''BAD_SRP_A_LENGTH'', 347), (''BAD_SRP_B_LENGTH'', 348),
     (''BAD_SRP_G_LENGTH'', 349), (''BAD_SRP_N_LENGTH'', 350),
     (''BAD_SRP_PARAMETERS'', 371), (''BAD_SRP_S_LENGTH'', 351),
     (''BAD_SRTP_MKI_VALUE'', 352), (''BAD_SRTP_PROTECTION_PROFILE_LIST'', 353),
     (''BAD_SSL_FILETYPE'', 124), (''BAD_SSL_SESSION_ID_LENGTH'', 125),
     (''BAD_STATE'', 126), (''BAD_VALUE'', 384),
     (''BAD_WRITE_RETRY'', 127), (''BIO_NOT_SET'', 128),
     (''BLOCK_CIPHER_PAD_IS_WRONG'', 129), (''BN_LIB'', 130),
     (''CA_DN_LENGTH_MISMATCH'', 131), (''CA_DN_TOO_LONG'', 132),
     (''CCS_RECEIVED_EARLY'', 133), (''CERTIFICATE_VERIFY_FAILED'', 134),
     (''CERT_CB_ERROR'', 377), (''CERT_LENGTH_MISMATCH'', 135),
     (''CHALLENGE_IS_DIFFERENT'', 136), (''CIPHER_CODE_WRONG_LENGTH'', 137),
     (''CIPHER_OR_HASH_UNAVAILABLE'', 138), (''CIPHER_TABLE_SRC_ERROR'', 139),
     (''CLIENTHELLO_TLSEXT'', 226), (''COMPRESSED_LENGTH_TOO_LONG'', 140),
     (''COMPRESSION_DISABLED'', 343), (''COMPRESSION_FAILURE'', 141),
     (''COMPRESSION_ID_NOT_WITHIN_PRIVATE_RANGE'', 307), (''COMPRESSION_LIBRARY_ERROR'', 142),
     (''CONNECTION_ID_IS_DIFFERENT'', 143), (''CONNECTION_TYPE_NOT_SET'', 144),
     (''COOKIE_MISMATCH'', 308), (''DATA_BETWEEN_CCS_AND_FINISHED'', 145),
     (''DATA_LENGTH_TOO_LONG'', 146), (''DECRYPTION_FAILED'', 147),
     (''DECRYPTION_FAILED_OR_BAD_RECORD_MAC'', 281), (''DH_KEY_TOO_SMALL'', 372),
     (''DH_PUBLIC_VALUE_LENGTH_IS_WRONG'', 148), (''DIGEST_CHECK_FAILED'', 149),
     (''DTLS_MESSAGE_TOO_BIG'', 334), (''DUPLICATE_COMPRESSION_ID'', 309),
     (''ECC_CERT_NOT_FOR_KEY_AGREEMENT'', 317), (''ECC_CERT_NOT_FOR_SIGNING'', 318),
     (''ECC_CERT_SHOULD_HAVE_RSA_SIGNATURE'', 322), (''ECC_CERT_SHOULD_HAVE_SHA1_SIGNATURE'', 323),
     (''ECDH_REQUIRED_FOR_SUITEB_MODE'', 374), (''ECGROUP_TOO_LARGE_FOR_CIPHER'', 310),
     (''EMPTY_SRTP_PROTECTION_PROFILE_LIST'', 354), (''ENCRYPTED_LENGTH_TOO_LONG'', 150),
     (''ERROR_GENERATING_TMP_RSA_KEY'', 282), (''ERROR_IN_RECEIVED_CIPHER_LIST'', 151),
     (''EXCESSIVE_MESSAGE_SIZE'', 152), (''EXTRA_DATA_IN_MESSAGE'', 153),
     (''GOT_A_FIN_BEFORE_A_CCS'', 154), (''GOT_NEXT_PROTO_BEFORE_A_CCS'', 355),
     (''GOT_NEXT_PROTO_WITHOUT_EXTENSION'', 356), (''HTTPS_PROXY_REQUEST'', 155),
     (''HTTP_REQUEST'', 156), (''ILLEGAL_PADDING'', 283),
     (''ILLEGAL_SUITEB_DIGEST'', 380), (''INAPPROPRIATE_FALLBACK'', 373),
     (''INCONSISTENT_COMPRESSION'', 340), (''INVALID_CHALLENGE_LENGTH'', 158),
     (''INVALID_COMMAND'', 280), (''INVALID_COMPRESSION_ALGORITHM'', 341),
     (''INVALID_NULL_CMD_NAME'', 385), (''INVALID_PURPOSE'', 278),
     (''INVALID_SERVERINFO_DATA'', 388), (''INVALID_SRP_USERNAME'', 357),
     (''INVALID_STATUS_RESPONSE'', 328)]"

definition SSL_R_2 :: "(string \<times> int) list" where
  "SSL_R_2 =
    [(''INVALID_TICKET_KEYS_LENGTH'', 325), (''INVALID_TRUST'', 279),
     (''KEY_ARG_TOO_LONG'', 284), (''KRB5'', 285),
     (''KRB5_C_CC_PRINC'', 286), (''KRB5_C_GET_CRED'', 287),
     (''KRB5_C_INIT'', 288), (''KRB5_C_MK_REQ'', 289),
     (''KRB5_S_BAD_TICKET'', 290), (''KRB5_S_INIT'', 291),
     (''KRB5_S_RD_REQ'', 292), (''KRB5_S_TKT_EXPIRED'', 293),
     (''KRB5_S_TKT_NYV'', 294), (''KRB5_S_TKT_SKEW'', 295),
     (''LENGTH_MISMATCH'', 159), (''LENGTH_TOO_SHORT'', 160),
     (''LIBRARY_BUG'', 274), (''LIBRARY_HAS_NO_CIPHERS'', 161),
     (''MESSAGE_TOO_LONG'', 296), (''MISSING_DH_DSA_CERT'', 162),
     (''MISSING_DH_KEY'', 163), (''MISSING_DH_RSA_CERT'', 164),
     (''MISSING_DSA_SIGNING_CERT'', 165), (''MISSING_ECDH_CERT'', 382),
     (''MISSING_ECDSA_SIGNING_CERT'', 381), (''MISSING_EXPORT_TMP_DH_KEY'', 166),
     (''MISSING_EXPORT_TMP_RSA_KEY'', 167), (''MISSING_RSA_CERTIFICATE'', 168),
     (''MISSING_RSA_ENCRYPTING_CERT'', 169), (''MISSING_RSA_SIGNING_CERT'', 170),
     (''MISSING_SRP_PARAM'', 358), (''MISSING_TMP_DH_KEY'', 171),
     (''MISSING_TMP_ECDH_KEY'', 311), (''MISSING_TMP_RSA_KEY'', 172),
     (''MISSING_TMP_RSA_PKEY'', 173), (''MISSING_VERIFY_MESSAGE'', 174),
     (''MULTIPLE_SGC_RESTARTS'', 346), (''NON_SSLV2_INITIAL_PACKET'', 175),
     (''NO_CERTIFICATES_RETURNED'', 176), (''NO_CERTIFICATE_ASSIGNED'', 177),
     (''NO_CERTIFICATE_RETURNED'', 178), (''NO_CERTIFICATE_SET'', 179),
     (''NO_CERTIFICATE_SPECIFIED'', 180), (''NO_CIPHERS_AVAILABLE'', 181),
     (''NO_CIPHERS_PASSED'', 182), (''NO_CIPHERS_SPECIFIED'', 183),
     (''NO_CIPHER_LIST'', 184), (''NO_CIPHER_MATCH'', 185),
     (''NO_CLIENT_CERT_METHOD'', 331), (''NO_CLIENT_CERT_RECEIVED'', 186),
     (''NO_COMPRESSION_SPECIFIED'', 187), (''NO_GOST_CERTIFICATE_SENT_BY_PEER'', 330),
     (''NO_METHOD_SPECIFIED'', 188), (''NO_PEM_EXTENSIONS'', 389),
     (''NO_PRIVATEKEY'', 189), (''NO_PRIVATE_KEY_ASSIGNED'', 190),
     (''NO_PROTOCOLS_AVAILABLE'', 191), (''NO_PUBLICKEY'', 192),
     (''NO_RENEGOTIATION'', 339), (''NO_REQUIRED_DIGEST'', 324),
     (''NO_SHARED_CIPHER'', 193), (''NO_SHARED_SIGATURE_ALGORITHMS'', 376),
     (''NO_SRTP_PROFILES'', 359), (''NO_VERIFY_CALLBACK'', 194),
     (''NULL_SSL_CTX'', 195), (''NULL_SSL_METHOD_PASSED'', 196),
     (''OLD_SESSION_CIPHER_NOT_RETURNED'', 197), (''OLD_SESSION_COMPRESSION_ALGORITHM_NOT_RETURNED'', 344),
     (''ONLY_DTLS_1_2_ALLOWED_IN_SUITEB_MODE'', 387), (''ONLY_TLS_1_2_ALLOWED_IN_SUITEB_MODE'', 379),
     (''ONLY_TLS_ALLOWED_IN_FIPS_MODE'', 297), (''OPAQUE_PRF_INPUT_TOO_LONG'', 327),
     (''PACKET_LENGTH_TOO_LONG'', 198), (''PARSE_TLSEXT'', 227),
     (''PATH_TOO_LONG'', 270), (''PEER_DID_NOT_RETURN_A_CERTIFICATE'', 199),
     (''PEER_ERROR'', 200), (''PEER_ERROR_CERTIFICATE'', 201),
     (''PEER_ERROR_NO_CERTIFICATE'', 202), (''PEER_ERROR_NO_CIPHER'', 203),
     (''PEER_ERROR_UNSUPPORTED_CERTIFICATE_TYPE'', 204), (''PEM_NAME_BAD_PREFIX'', 391),
     (''PEM_NAME_TOO_SHORT'', 392), (''PRE_MAC_LENGTH_TOO_LONG'', 205),
     (''PROBLEMS_MAPPING_CIPHER_FUNCTIONS'', 206), (''PROTOCOL_IS_SHUTDOWN'', 207),
     (''PSK_IDENTITY_NOT_FOUND'', 223), (''PSK_NO_CLIENT_CB'', 224),
     (''PSK_NO_SERVER_CB'', 225), (''PUBLIC_KEY_ENCRYPT_ERROR'', 208),
     (''PUBLIC_KEY_IS_NOT_RSA'', 209), (''PUBLIC_KEY_NOT_RSA'', 210),
     (''READ_BIO_NOT_SET'', 211), (''READ_TIMEOUT_EXPIRED'', 312),
     (''READ_WRONG_PACKET_TYPE'', 212), (''RECORD_LENGTH_MISMATCH'', 213),
     (''RECORD_TOO_LARGE'', 214), (''RECORD_TOO_SMALL'', 298),
     (''RENEGOTIATE_EXT_TOO_LONG'', 335), (''RENEGOTIATION_ENCODING_ERR'', 336),
     (''RENEGOTIATION_MISMATCH'', 337), (''REQUIRED_CIPHER_MISSING'', 215),
     (''REQUIRED_COMPRESSSION_ALGORITHM_MISSING'', 342), (''REUSE_CERT_LENGTH_NOT_ZERO'', 216),
     (''REUSE_CERT_TYPE_NOT_ZERO'', 217), (''REUSE_CIPHER_LIST_NOT_ZERO'', 218),
     (''SCSV_RECEIVED_WHEN_RENEGOTIATING'', 345), (''SERVERHELLO_TLSEXT'', 275),
     (''SESSION_ID_CONTEXT_UNINITIALIZED'', 277)]"

definition SSL_R_3 :: "(string \<times> int) list" where
  "SSL_R_3 =
    [(''SHORT_READ'', 219), (''SHUTDOWN_WHILE_IN_INIT'', 407),
     (''SIGNATURE_ALGORITHMS_ERROR'', 360), (''SIGNATURE_FOR_NON_SIGNING_CERTIFICATE'', 220),
     (''SRP_A_CALC'', 361), (''SRTP_COULD_NOT_ALLOCATE_PROFILES'', 362),
     (''SRTP_PROTECTION_PROFILE_LIST_TOO_LONG'', 363), (''SRTP_UNKNOWN_PROTECTION_PROFILE'', 364),
     (''SSL23_DOING_SESSION_ID_REUSE'', 221), (''SSL2_CONNECTION_ID_TOO_LONG'', 299),
     (''SSL3_EXT_INVALID_ECPOINTFORMAT'', 321), (''SSL3_EXT_INVALID_SERVERNAME'', 319),
     (''SSL3_EXT_INVALID_SERVERNAME_TYPE'', 320), (''SSL3_SESSION_ID_TOO_LONG'', 300),
     (''SSL3_SESSION_ID_TOO_SHORT'', 222), (''SSLV3_ALERT_BAD_CERTIFICATE'', 1042),
     (''SSLV3_ALERT_BAD_RECORD_MAC'', 1020), (''SSLV3_ALERT_CERTIFICATE_EXPIRED'', 1045),
     (''SSLV3_ALERT_CERTIFICATE_REVOKED'', 1044), (''SSLV3_ALERT_CERTIFICATE_UNKNOWN'', 1046),
     (''SSLV3_ALERT_DECOMPRESSION_FAILURE'', 1030), (''SSLV3_ALERT_HANDSHAKE_FAILURE'', 1040),
     (''SSLV3_ALERT_ILLEGAL_PARAMETER'', 1047), (''SSLV3_ALERT_NO_CERTIFICATE'', 1041),
     (''SSLV3_ALERT_UNEXPECTED_MESSAGE'', 1010), (''SSLV3_ALERT_UNSUPPORTED_CERTIFICATE'', 1043),
     (''SSL_CTX_HAS_NO_DEFAULT_SSL_VERSION'', 228), (''SSL_HANDSHAKE_FAILURE'', 229),
     (''SSL_LIBRARY_HAS_NO_CIPHERS'', 230), (''SSL_SESSION_ID_CALLBACK_FAILED'', 301),
     (''SSL_SESSION_ID_CONFLICT'', 302), (''SSL_SESSION_ID_CONTEXT_TOO_LONG'', 273),
     (''SSL_SESSION_ID_HAS_BAD_LENGTH'', 303), (''SSL_SESSION_ID_IS_DIFFERENT'', 231),
     (''TLSV1_ALERT_ACCESS_DENIED'', 1049), (''TLSV1_ALERT_DECODE_ERROR'', 1050),
     (''TLSV1_ALERT_DECRYPTION_FAILED'', 1021), (''TLSV1_ALERT_DECRYPT_ERROR'', 1051),
     (''TLSV1_ALERT_EXPORT_RESTRICTION'', 1060), (''TLSV1_ALERT_INAPPROPRIATE_FALLBACK'', 1086),
     (''TLSV1_ALERT_INSUFFICIENT_SECURITY'', 1071), (''TLSV1_ALERT_INTERNAL_ERROR'', 1080),
     (''TLSV1_ALERT_NO_RENEGOTIATION'', 1100), (''TLSV1_ALERT_PROTOCOL_VERSION'', 1070),
     (''TLSV1_ALERT_RECORD_OVERFLOW'', 1022), (''TLSV1_ALERT_UNKNOWN_CA'', 1048),
     (''TLSV1_ALERT_USER_CANCELLED'', 1090), (''TLSV1_BAD_CERTIFICATE_HASH_VALUE'', 1114),
     (''TLSV1_BAD_CERTIFICATE_STATUS_RESPONSE'', 1113), (''TLSV1_CERTIFICATE_UNOBTAINABLE'', 1111),
     (''TLSV1_UNRECOGNIZED_NAME'', 1112), (''TLSV1_UNSUPPORTED_EXTENSION'', 1110),
     (''TLS_CLIENT_CERT_REQ_WITH_ANON_CIPHER'', 232), (''TLS_HEARTBEAT_PEER_DOESNT_ACCEPT'', 365),
     (''TLS_HEARTBEAT_PENDING'', 366), (''TLS_ILLEGAL_EXPORTER_LABEL'', 367),
     (''TLS_INVALID_ECPOINTFORMAT_LIST'', 157), (''TLS_PEER_DID_NOT_RESPOND_WITH_CERTIFICATE_LIST'', 233),
     (''TLS_RSA_ENCRYPTED_VALUE_LENGTH_IS_WRONG'', 234), (''TOO_MANY_WARN_ALERTS'', 409),
     (''TRIED_TO_USE_UNSUPPORTED_CIPHER'', 235), (''UNABLE_TO_DECODE_DH_CERTS'', 236),
     (''UNABLE_TO_DECODE_ECDH_CERTS'', 313), (''UNABLE_TO_EXTRACT_PUBLIC_KEY'', 237),
     (''UNABLE_TO_FIND_DH_PARAMETERS'', 238), (''UNABLE_TO_FIND_ECDH_PARAMETERS'', 314),
     (''UNABLE_TO_FIND_PUBLIC_KEY_PARAMETERS'', 239), (''UNABLE_TO_FIND_SSL_METHOD'', 240),
     (''UNABLE_TO_LOAD_SSL2_MD5_ROUTINES'', 241), (''UNABLE_TO_LOAD_SSL3_MD5_ROUTINES'', 242),
     (''UNABLE_TO_LOAD_SSL3_SHA1_ROUTINES'', 243), (''UNEXPECTED_MESSAGE'', 244),
     (''UNEXPECTED_RECORD'', 245), (''UNINITIALIZED'', 276),
     (''UNKNOWN_ALERT_TYPE'', 246), (''UNKNOWN_CERTIFICATE_TYPE'', 247),
     (''UNKNOWN_CIPHER_RETURNED'', 248), (''UNKNOWN_CIPHER_TYPE'', 249),
     (''UNKNOWN_CMD_NAME'', 386), (''UNKNOWN_DIGEST'', 368),
     (''UNKNOWN_KEY_EXCHANGE_TYPE'', 250), (''UNKNOWN_PKEY_TYPE'', 251),
     (''UNKNOWN_PROTOCOL'', 252), (''UNKNOWN_REMOTE_ERROR_TYPE'', 253),
     (''UNKNOWN_SSL_VERSION'', 254), (''UNKNOWN_STATE'', 255),
     (''UNSAFE_LEGACY_RENEGOTIATION_DISABLED'', 338), (''UNSUPPORTED_CIPHER'', 256),
     (''UNSUPPORTED_COMPRESSION_ALGORITHM'', 257), (''UNSUPPORTED_DIGEST_TYPE'', 326),
     (''UNSUPPORTED_ELLIPTIC_CURVE'', 315), (''UNSUPPORTED_PROTOCOL'', 258),
     (''UNSUPPORTED_SSL_VERSION'', 259), (''UNSUPPORTED_STATUS_TYPE'', 329),
     (''USE_SRTP_NOT_NEGOTIATED'', 369), (''WRITE_BIO_NOT_SET'', 260),
     (''WRONG_CERTIFICATE_TYPE'', 383), (''WRONG_CIPHER_RETURNED'', 261),
     (''WRONG_CURVE'', 378), (''WRONG_MESSAGE_TYPE'', 262),
     (''WRONG_NUMBER_OF_KEY_BITS'', 263), (''WRONG_SIGNATURE_LENGTH'', 264),
     (''WRONG_SIGNATURE_SIZE'', 265), (''WRONG_SIGNATURE_TYPE'', 370),
     (''WRONG_SSL_VERSION'', 266), (''WRONG_VERSION_NUMBER'', 267),
     (''X509_LIB'', 268), (''X509_VERIFICATION_SETUP_PROBLEMS'', 269)]"

definition SSL3_AD :: "(string \<times> int) list" where
  "SSL3_AD =
    [(''CLOSE_NOTIFY'', 0), (''UNEXPECTED_MESSAGE'', 10), (''BAD_RECORD_MAC'', 20),
     (''DECOMPRESSION_FAILURE'', 30), (''HANDSHAKE_FAILURE'', 40), (''NO_CERTIFICATE'', 41),
     (''BAD_CERTIFICATE'', 42), (''UNSUPPORTED_CERTIFICATE'', 43), (''CERTIFICATE_REVOKED'', 44),
     (''CERTIFICATE_EXPIRED'', 45), (''CERTIFICATE_UNKNOWN'', 46), (''ILLEGAL_PARAMETER'', 47)]"

definition TLS1_AD :: "(string \<times> int) list" where
  "TLS1_AD =
    [(''DECRYPTION_FAILED'', 21), (''RECORD_OVERFLOW'', 22), (''UNKNOWN_CA'', 48),
     (''ACCESS_DENIED'', 49), (''DECODE_ERROR'', 50), (''DECRYPT_ERROR'', 51),
     (''EXPORT_RESTRICTION'', 60), (''PROTOCOL_VERSION'', 70), (''INSUFFICIENT_SECURITY'', 71),
     (''INTERNAL_ERROR'', 80), (''INAPPROPRIATE_FALLBACK'', 86), (''USER_CANCELLED'', 90),
     (''NO_RENEGOTIATION'', 100), (''UNSUPPORTED_EXTENSION'', 110), (''CERTIFICATE_UNOBTAINABLE'', 111),
     (''UNRECOGNIZED_NAME'', 112), (''BAD_CERTIFICATE_STATUS_RESPONSE'', 113), (''BAD_CERTIFICATE_HASH_VALUE'', 114),
     (''UNKNOWN_PSK_IDENTITY'', 115)]"

text \<open>The alerts of \<open>ssl.h\<close> are names for those of the two protocols.\<close>

definition SSL_AD :: "(string \<times> bool) list" where
  "SSL_AD =
    [(''CLOSE_NOTIFY'', True), (''UNEXPECTED_MESSAGE'', True), (''BAD_RECORD_MAC'', True),
     (''DECRYPTION_FAILED'', False), (''RECORD_OVERFLOW'', False), (''DECOMPRESSION_FAILURE'', True),
     (''HANDSHAKE_FAILURE'', True), (''NO_CERTIFICATE'', True), (''BAD_CERTIFICATE'', True),
     (''UNSUPPORTED_CERTIFICATE'', True), (''CERTIFICATE_REVOKED'', True), (''CERTIFICATE_EXPIRED'', True),
     (''CERTIFICATE_UNKNOWN'', True), (''ILLEGAL_PARAMETER'', True), (''UNKNOWN_CA'', False),
     (''ACCESS_DENIED'', False), (''DECODE_ERROR'', False), (''DECRYPT_ERROR'', False),
     (''EXPORT_RESTRICTION'', False), (''PROTOCOL_VERSION'', False), (''INSUFFICIENT_SECURITY'', False),
     (''INTERNAL_ERROR'', False), (''USER_CANCELLED'', False), (''NO_RENEGOTIATION'', False),
     (''UNSUPPORTED_EXTENSION'', False), (''CERTIFICATE_UNOBTAINABLE'', False), (''UNRECOGNIZED_NAME'', False),
     (''BAD_CERTIFICATE_STATUS_RESPONSE'', False), (''BAD_CERTIFICATE_HASH_VALUE'', False), (''UNKNOWN_PSK_IDENTITY'', False),
     (''INAPPROPRIATE_FALLBACK'', False)]"

definition SSL_R :: "(string \<times> int) list" where
  "SSL_R = SSL_R_1 @ SSL_R_2 @ SSL_R_3"

definition SSL_AD_REASON_OFFSET :: int where
  "SSL_AD_REASON_OFFSET = 1000"

definition ssl_alert :: "string \<times> bool \<Rightarrow> int option" where
  "ssl_alert a = (case a of (n, v3) \<Rightarrow> map_of (if v3 then SSL3_AD else TLS1_AD) n)"

section \<open>What packing keeps\<close>

lemma mask_words: "(0xff :: 'a::len word) = mask 8" "(0xfff :: 'a word) = mask 12"
  by (simp_all add: mask_eq_exp_minus_1)

lemma pack_eq: "ERR_PACK l f r = push_bit 24 (take_bit 8 l) OR push_bit 12 (take_bit 12 f) OR take_bit 12 r"
  by (simp only: ERR_PACK_def mask_words take_bit_eq_mask [symmetric] push_bit_eq_mult or.assoc) simp

lemma bit_pack:
  assumes "32 \<le> LENGTH('a::len)"
  shows "bit (ERR_PACK l f r :: 'a word) n \<longleftrightarrow>
    n < 12 \<and> bit r n \<or> 12 \<le> n \<and> n < 24 \<and> bit f (n - 12) \<or> 24 \<le> n \<and> n < 32 \<and> bit l (n - 24)"
  using assms by (auto simp: pack_eq bit_simps dest: bit_imp_le_length)

lemma get_pack:
  assumes "32 \<le> LENGTH('a::len)"
  shows "drop_bit 24 (ERR_PACK l f r :: 'a word) AND 0xff = take_bit 8 l"
    and "drop_bit 12 (ERR_PACK l f r :: 'a word) AND 0xfff = take_bit 12 f"
    and "(ERR_PACK l f r :: 'a word) AND 0xfff = take_bit 12 r"
  unfolding mask_words take_bit_eq_mask [symmetric]
  by (rule bit_word_eqI; auto simp: bit_simps bit_pack [OF assms])+

lemma uint_take_bit: "uint (take_bit k w) = uint w mod 2 ^ k"
  by (subst unsigned_take_bit_eq) (rule take_bit_eq_mod)

text \<open>
  (C38) Packing and unpacking are inverse: library, function and reason of a packed error are the
  lower 8, 12 and 12 bits of what was packed, so codes within these bounds come back unchanged;
  and every number below \<open>2^32\<close> is the packing of its three parts. This needs 32 bits or more.
\<close>

theorem error_code_round_trip:
  assumes "32 \<le> LENGTH('a::len)"
  shows "ERR_GET_LIB (ERR_PACK l f r :: 'a word) = uint l mod 256 \<and>
    ERR_GET_FUNC (ERR_PACK l f r) = uint f mod 4096 \<and> ERR_GET_REASON (ERR_PACK l f r) = uint r mod 4096 \<and>
    (uint e < 2 ^ 32 \<longrightarrow>
      ERR_PACK (word_of_int (ERR_GET_LIB e)) (word_of_int (ERR_GET_FUNC e)) (word_of_int (ERR_GET_REASON e)) = (e :: 'a word))"
proof -
  have high: "\<not> bit e n" if "uint e < 2 ^ 32" "32 \<le> n" for n
  proof -
    have "take_bit 32 (uint e) = uint e" using that(1) by (simp add: take_bit_int_eq_self)
    then have "\<not> bit (uint e) n" using that(2) by (metis bit_take_bit_iff leD)
    then show ?thesis by (auto simp: bit_simps dest: bit_imp_le_length)
  qed
  have "ERR_PACK (drop_bit 24 e AND 0xff) (drop_bit 12 e AND 0xfff) (e AND 0xfff) = e" if "uint e < 2 ^ 32"
  proof (rule bit_word_eqI)
    fix n assume n: "n < LENGTH('a)"
    consider "n < 12" | "12 \<le> n" "n < 24" | "24 \<le> n" "n < 32" | "32 \<le> n" by linarith
    then show "bit (ERR_PACK (drop_bit 24 e AND 0xff) (drop_bit 12 e AND 0xfff) (e AND 0xfff)) n \<longleftrightarrow> bit e n"
      unfolding bit_pack [OF assms] mask_words
      by cases (use n high [OF that, of n] in \<open>simp_all add: bit_simps less_diff_conv2\<close>)
  qed
  then show ?thesis
    by (simp add: uint_take_bit ERR_GET_LIB_def ERR_GET_FUNC_def ERR_GET_REASON_def get_pack [OF assms])
qed

section \<open>Tables\<close>

lemma ssl_reasons_distinct: "distinct (keys_of (\<lambda>x. Some (snd x)) SSL_R)"
  by (rule distinct_ints) code_simp

interpretation by_reason: keyed_table SSL_R "\<lambda>x. Some (snd x)"
  by unfold_locales (rule ssl_reasons_distinct)

definition ERR_R_codes :: "int list" where
  "ERR_R_codes = map (\<lambda>n. the (map_of ERR_LIB n)) ERR_R_LIB @ map snd ERR_R_general @ map snd ERR_R_fatal"

lemma general_codes: "\<forall>c \<in> set ERR_R_codes. 0 < c \<and> c < 100 \<and> (odd (c div 64) \<longleftrightarrow> ERR_R_FATAL \<le> c)" "distinct ERR_R_codes"
  unfolding list_all_iff [symmetric] by code_simp (rule distinct_ints, code_simp)

lemma ssl_reason_range: "\<forall>x \<in> set SSL_R. 100 \<le> snd x \<and> snd x < 4096 \<and> (snd x < 128 \<longrightarrow> odd (snd x div 64))"
  unfolding list_all_iff [symmetric] by code_simp

lemma fatal_iff:
  assumes "32 \<le> LENGTH('a::len)" and "0 \<le> c" and "c < 4096"
  shows "ERR_FATAL_ERROR (ERR_PACK l f (word_of_int c) :: 'a word) \<noteq> 0 \<longleftrightarrow> odd (c div 64)"
proof -
  have "(word_of_int ERR_R_FATAL :: 'a word) = push_bit 6 1" by (simp add: ERR_R_FATAL_def push_bit_eq_mult)
  then have "ERR_FATAL_ERROR e \<noteq> 0 \<longleftrightarrow> bit e 6" for e :: "'a word"
    by (simp add: ERR_FATAL_ERROR_def bit_iff_and_push_bit_not_eq_0 unsigned_eq_0_iff)
  moreover have "bit (word_of_int c :: 'a word) 6 \<longleftrightarrow> odd (c div 64)"
  proof -
    have "bit (word_of_int c :: 'a word) 6 \<longleftrightarrow> bit c 6" using assms(1) by (simp add: bit_simps)
    then show ?thesis by (simp add: bit_iff_odd)
  qed
  ultimately show ?thesis using bit_pack [OF assms(1), of l f "word_of_int c" 6] by simp
qed

text \<open>
  An error of the TLS library can be identified: if a reason of \<open>ssl.h\<close> is packed with the
  number of the library and any function, the library and the reason are found in it, looking the
  reason up gives its name and no other, and it is none of the general codes, which end at 99.
\<close>

theorem ssl_error_identified:
  assumes "32 \<le> LENGTH('a::len)" and "(n, c) \<in> set SSL_R" and "map_of ERR_LIB ''SSL'' = Some k"
  shows "ERR_GET_LIB (ERR_PACK (word_of_int k) f (word_of_int c) :: 'a word) = k \<and>
    first_with (\<lambda>x. Some (snd x)) SSL_R (ERR_GET_REASON (ERR_PACK (word_of_int k) f (word_of_int c) :: 'a word)) = Some (n, c) \<and>
    c \<notin> set ERR_R_codes \<and> (\<forall>d \<in> set ERR_R_codes. d \<le> 99)"
proof -
  have k: "k = 20" using assms(3) by (simp add: ERR_LIB_def)
  have c: "100 \<le> c" "c < 4096" using ssl_reason_range assms(2) by force+
  have big: "(2 :: int) ^ 32 \<le> 2 ^ LENGTH('a)" using assms(1) by (intro power_increasing) simp_all
  have small: "uint (word_of_int x :: 'a word) = x" if "0 \<le> x" "x < 4096" for x
    using that big by (simp add: uint_word_of_int_eq take_bit_int_eq_self)
  have fit: "uint (word_of_int c :: 'a word) = c" "uint (word_of_int k :: 'a word) = k"
    by (rule small; use c k in simp)+
  have "ERR_GET_REASON (ERR_PACK (word_of_int k) f (word_of_int c) :: 'a word) = uint (word_of_int c :: 'a word) mod 2 ^ 12"
    "ERR_GET_LIB (ERR_PACK (word_of_int k) f (word_of_int c) :: 'a word) = uint (word_of_int k :: 'a word) mod 2 ^ 8"
    unfolding ERR_GET_REASON_def ERR_GET_LIB_def get_pack [OF assms(1)] by (rule uint_take_bit)+
  then have "ERR_GET_REASON (ERR_PACK (word_of_int k) f (word_of_int c) :: 'a word) = c"
    "ERR_GET_LIB (ERR_PACK (word_of_int k) f (word_of_int c) :: 'a word) = k" unfolding fit using c k by simp_all
  moreover have "first_with (\<lambda>x. Some (snd x)) SSL_R c = Some (n, c)" using by_reason.lookup_iff [of c "(n, c)"] assms(2) by simp
  moreover have g: "\<forall>d \<in> set ERR_R_codes. d \<le> 99" using general_codes(1) by fastforce
  moreover have "c \<notin> set ERR_R_codes" using g c(1) by fastforce
  ultimately show ?thesis by simp
qed

text \<open>
  The fatal flag tells the fatal general codes from the others, as it should. For codes of
  a library it says nothing: every reason of \<open>ssl.h\<close> from 100 to 127 has the flag.
\<close>

theorem fatal_flag_exact:
  assumes "32 \<le> LENGTH('a::len)"
  shows "(\<forall>c \<in> set ERR_R_codes. ERR_FATAL_ERROR (ERR_PACK l f (word_of_int c) :: 'a word) \<noteq> 0 \<longleftrightarrow> ERR_R_FATAL \<le> c) \<and>
    (\<forall>(n, c) \<in> set SSL_R. c < 128 \<longrightarrow> ERR_FATAL_ERROR (ERR_PACK l f (word_of_int c) :: 'a word) \<noteq> 0)"
proof (intro conjI ballI)
  show "ERR_FATAL_ERROR (ERR_PACK l f (word_of_int c) :: 'a word) \<noteq> 0 \<longleftrightarrow> ERR_R_FATAL \<le> c" if "c \<in> set ERR_R_codes" for c
    using general_codes(1) that fatal_iff [OF assms, of c l f] by fastforce
  show "case x of (n, c) \<Rightarrow> c < 128 \<longrightarrow> ERR_FATAL_ERROR (ERR_PACK l f (word_of_int c) :: 'a word) \<noteq> 0" if "x \<in> set SSL_R" for x
    using ssl_reason_range that fatal_iff [OF assms, of "snd x" l f] by (cases x) fastforce
qed

section \<open>Alerts\<close>

definition alert_unnamed :: "string \<Rightarrow> bool" where
  "alert_unnamed n = (n \<in> {''CLOSE_NOTIFY'', ''UNKNOWN_PSK_IDENTITY''})"

definition alert_named_in :: "(string \<times> int) list \<Rightarrow> string \<times> bool \<Rightarrow> bool" where
  "alert_named_in reasons a = (case ssl_alert a of None \<Rightarrow> False
     | Some c \<Rightarrow> 0 \<le> c \<and> (case first_with (\<lambda>x. Some (snd x)) reasons (SSL_AD_REASON_OFFSET + c) of
           None \<Rightarrow> alert_unnamed (fst a)
         | Some (n, d) \<Rightarrow> n \<in> {''SSLV3_ALERT_'' @ fst a, ''TLSV1_ALERT_'' @ fst a, ''TLSV1_'' @ fst a} \<and> \<not> alert_unnamed (fst a)))"

lemma alert_values: "map (\<lambda>a. the (ssl_alert a)) SSL_AD =
  [0, 10, 20, 21, 22, 30, 40, 41, 42, 43, 44, 45, 46, 47, 48, 49, 50, 51, 60, 70, 71, 80, 90, 100, 110, 111, 112, 113, 114, 115, 86]"
  by code_simp

lemma alert_numbers:
  "list_all (\<lambda>(n, c). c < SSL_AD_REASON_OFFSET \<or> c - SSL_AD_REASON_OFFSET \<in> set (map (\<lambda>a. the (ssl_alert a)) SSL_AD)) SSL_R"
  unfolding alert_values by code_simp

lemma alert_table: "filter (\<lambda>x. SSL_AD_REASON_OFFSET \<le> snd x) SSL_R =
    [(''SSLV3_ALERT_BAD_CERTIFICATE'', 1042), (''SSLV3_ALERT_BAD_RECORD_MAC'', 1020),
     (''SSLV3_ALERT_CERTIFICATE_EXPIRED'', 1045), (''SSLV3_ALERT_CERTIFICATE_REVOKED'', 1044),
     (''SSLV3_ALERT_CERTIFICATE_UNKNOWN'', 1046), (''SSLV3_ALERT_DECOMPRESSION_FAILURE'', 1030),
     (''SSLV3_ALERT_HANDSHAKE_FAILURE'', 1040), (''SSLV3_ALERT_ILLEGAL_PARAMETER'', 1047),
     (''SSLV3_ALERT_NO_CERTIFICATE'', 1041), (''SSLV3_ALERT_UNEXPECTED_MESSAGE'', 1010),
     (''SSLV3_ALERT_UNSUPPORTED_CERTIFICATE'', 1043), (''TLSV1_ALERT_ACCESS_DENIED'', 1049),
     (''TLSV1_ALERT_DECODE_ERROR'', 1050), (''TLSV1_ALERT_DECRYPTION_FAILED'', 1021),
     (''TLSV1_ALERT_DECRYPT_ERROR'', 1051), (''TLSV1_ALERT_EXPORT_RESTRICTION'', 1060),
     (''TLSV1_ALERT_INAPPROPRIATE_FALLBACK'', 1086), (''TLSV1_ALERT_INSUFFICIENT_SECURITY'', 1071),
     (''TLSV1_ALERT_INTERNAL_ERROR'', 1080), (''TLSV1_ALERT_NO_RENEGOTIATION'', 1100),
     (''TLSV1_ALERT_PROTOCOL_VERSION'', 1070), (''TLSV1_ALERT_RECORD_OVERFLOW'', 1022),
     (''TLSV1_ALERT_UNKNOWN_CA'', 1048), (''TLSV1_ALERT_USER_CANCELLED'', 1090),
     (''TLSV1_BAD_CERTIFICATE_HASH_VALUE'', 1114), (''TLSV1_BAD_CERTIFICATE_STATUS_RESPONSE'', 1113),
     (''TLSV1_CERTIFICATE_UNOBTAINABLE'', 1111), (''TLSV1_UNRECOGNIZED_NAME'', 1112),
     (''TLSV1_UNSUPPORTED_EXTENSION'', 1110)]"
  by code_simp

lemma lookup_filter: "(\<And>x. key x = Some k \<Longrightarrow> P x) \<Longrightarrow> first_with key xs k = first_with key (filter P xs) k"
  by (induction xs) auto

lemma alert_named_filter:
  "alert_named_in SSL_R a = alert_named_in (filter (\<lambda>x. SSL_AD_REASON_OFFSET \<le> snd x) SSL_R) a"
proof (cases "ssl_alert a")
  case (Some c)
  have "first_with (\<lambda>x. Some (snd x)) SSL_R (SSL_AD_REASON_OFFSET + c) =
    first_with (\<lambda>x. Some (snd x)) (filter (\<lambda>x. SSL_AD_REASON_OFFSET \<le> snd x) SSL_R) (SSL_AD_REASON_OFFSET + c)" if "0 \<le> c"
    by (rule lookup_filter) (use that in auto)
  then show ?thesis using Some by (auto simp: alert_named_in_def)
qed (simp add: alert_named_in_def)

lemma alert_names: "list_all (alert_named_in SSL_R) SSL_AD"
  unfolding alert_named_filter alert_table by code_simp

text \<open>
  A received alert becomes a reason by adding 1000, and the reason has the name of the alert:
  this holds for all alerts of \<open>ssl.h\<close> but \<open>CLOSE_NOTIFY\<close> and \<open>UNKNOWN_PSK_IDENTITY\<close>, for
  which there is no reason. And every reason from 1000 on belongs to an alert.
\<close>

theorem alert_reasons_named:
  "list_all (alert_named_in SSL_R) SSL_AD \<and>
   list_all (\<lambda>(n, c). c < SSL_AD_REASON_OFFSET \<or> c - SSL_AD_REASON_OFFSET \<in> set (map (\<lambda>a. the (ssl_alert a)) SSL_AD)) SSL_R"
  using alert_names alert_numbers by (simp add: list_all_iff)

section \<open>Witnesses\<close>

theorem error_code_round_trip_witness:
  "ERR_GET_REASON (ERR_PACK 20 137 0x40a :: 64 word) = 0x40a \<and> ERR_GET_FUNC (ERR_PACK 20 137 0x40a :: 32 word) = 137"
  using error_code_round_trip [where ?'a = 64, of 20 137 "0x40a" 0] error_code_round_trip [where ?'a = 32, of 20 137 "0x40a" 0]
  by simp

theorem ssl_error_identified_witness:
  "first_with (\<lambda>x. Some (snd x)) SSL_R (ERR_GET_REASON (ERR_PACK 20 137 1040 :: 64 word)) = Some (''SSLV3_ALERT_HANDSHAKE_FAILURE'', 1040)"
proof -
  have "(''SSLV3_ALERT_HANDSHAKE_FAILURE'', 1040) \<in> set SSL_R" by (simp add: SSL_R_def SSL_R_3_def)
  moreover have "map_of ERR_LIB ''SSL'' = Some 20" by (simp add: ERR_LIB_def)
  ultimately show ?thesis using ssl_error_identified [where ?'a = 64, of "''SSLV3_ALERT_HANDSHAKE_FAILURE''" 1040 20 137] by simp
qed

theorem fatal_flag_exact_witness:
  "ERR_FATAL_ERROR (ERR_PACK 20 137 101 :: 64 word) \<noteq> 0 \<and> (''BAD_ALERT_RECORD'', 101) \<in> set SSL_R"
proof -
  have "(''BAD_ALERT_RECORD'', 101) \<in> set SSL_R" by (simp add: SSL_R_def SSL_R_1_def)
  then show ?thesis using fatal_flag_exact [where ?'a = 64, of 20 137] by force
qed

end
