(* ===== verification/Inserters.thy ===== *)
theory Inserters
  imports Queues
begin

text \<open>
  The printing of containers for the log (\<open>rutil/Inserter.hxx\<close>).

  The overloads of \<open>insert\<close> are the cases of one function over the datatype \<open>ival\<close> of the
  values they take: a value with an operator \<open><<\<close> of its own is the text that the operator
  writes, the elements of a container are in the order of its iterator. The stream is the text
  written so far. \<open>insertP\<close> takes containers of pointers, where a null pointer is \<open>None\<close>.

  Shown are that the loops write the elements with separators between them, that the text
  determines the value as long as the elements have texts without spaces, commas and brackets,
  where it does not, and that \<open>insertP\<close> writes what \<open>insert\<close> writes of the objects pointed to.
\<close>

datatype seq_kind = Vector | Deque | List | Set | Multiset | HashSet

datatype dict_kind = HashMap | Map

datatype ival =
    Native string                              \<comment> \<open>written by its own operator\<close>
  | Basic_string string
  | Pair string string                         \<comment> \<open>the components are written by their own operators\<close>
  | Container seq_kind "ival list"
  | Dictionary dict_kind "(ival \<times> ival) list"

definition leftanglebracket :: string where "leftanglebracket = ''<''"
definition rightanglebracket :: string where "rightanglebracket = ''>''"
definition leftsqbracket :: string where "leftsqbracket = ''[''"
definition rightsqbracket :: string where "rightsqbracket = '']''"
definition sparrowsp :: string where "sparrowsp = '' -> ''"
definition commaspace :: string where "commaspace = '', ''"

lemmas inserter_texts = leftanglebracket_def rightanglebracket_def leftsqbracket_def rightsqbracket_def
  sparrowsp_def commaspace_def

section \<open>Values\<close>

function insert_val :: "string \<Rightarrow> ival \<Rightarrow> string"
  and insert_elements :: "bool \<Rightarrow> string \<Rightarrow> ival list \<Rightarrow> string"
  and insert_entries :: "bool \<Rightarrow> string \<Rightarrow> (ival \<times> ival) list \<Rightarrow> string" where
  "insert_val s (Native t) = s @ t"
| "insert_val s (Basic_string t) = s @ t"
| "insert_val s (Pair a b) = s @ leftanglebracket @ a @ commaspace @ b @ rightanglebracket"
| "insert_val s (Container k c) = insert_elements True (s @ leftsqbracket) c @ rightsqbracket"
| "insert_val s (Dictionary k c) = insert_entries True (s @ leftsqbracket) c @ rightsqbracket"
| "insert_elements first s [] = s"
| "insert_elements first s (x # xs) =
     insert_elements False (insert_val (if first then s else s @ commaspace) x) xs"
| "insert_entries first s [] = s"
| "insert_entries first s ((k, v) # xs) =
     insert_entries False (insert_val (insert_val (if first then s else s @ commaspace) k @ sparrowsp) v) xs"
  by pat_completeness auto

termination
  by (relation "measure (\<lambda>x. case x of Inl (s, v) \<Rightarrow> size v | Inr (Inl (f, s, c)) \<Rightarrow> size_list size c
      | Inr (Inr (f, s, c)) \<Rightarrow> size_list (size_prod size size) c)") auto

section \<open>Pointers\<close>

datatype pval =
    PNative "string option"
  | PBasic_string string
  | PPair "string option" "string option"
  | PContainer seq_kind "ival option list"
  | PDictionary dict_kind "(ival \<times> ival option) list"

definition deref :: "'a option \<Rightarrow> rutil_error + 'a" where
  "deref p = (case p of None \<Rightarrow> Inl NullAccess | Some a \<Rightarrow> Inr a)"

fun insertP_elements :: "bool \<Rightarrow> string \<Rightarrow> ival option list \<Rightarrow> rutil_error + string" where
  "insertP_elements first s [] = Inr s"
| "insertP_elements first s (p # ps) =
     bindr (deref p) (\<lambda>x. insertP_elements False (insert_val (if first then s else s @ commaspace) x) ps)"

fun insertP_entries :: "bool \<Rightarrow> string \<Rightarrow> (ival \<times> ival option) list \<Rightarrow> rutil_error + string" where
  "insertP_entries first s [] = Inr s"
| "insertP_entries first s ((k, p) # ps) =
     bindr (deref p) (\<lambda>v. insertP_entries False
       (insert_val (insert_val (if first then s else s @ commaspace) k @ sparrowsp) v) ps)"

fun insertP :: "string \<Rightarrow> pval \<Rightarrow> rutil_error + string" where
  "insertP s (PNative p) = bindr (deref p) (\<lambda>t. Inr (s @ t))"
| "insertP s (PBasic_string t) = Inr (s @ t)"
| "insertP s (PPair p q) = bindr (deref p) (\<lambda>a. bindr (deref q) (\<lambda>b.
     Inr (s @ leftanglebracket @ a @ commaspace @ b @ rightanglebracket)))"
| "insertP s (PContainer k c) =
     bindr (insertP_elements True (s @ leftsqbracket) c) (\<lambda>t. Inr (t @ rightsqbracket))"
| "insertP s (PDictionary k c) =
     bindr (insertP_entries True (s @ leftsqbracket) c) (\<lambda>t. Inr (t @ rightsqbracket))"

text \<open>The value that a value of pointers points to, if no pointer in it is null.\<close>

definition targets :: "'a option list \<Rightarrow> 'a list option" where
  "targets ps = (if None \<in> set ps then None else Some (map the ps))"

fun pointee :: "pval \<Rightarrow> ival option" where
  "pointee (PNative p) = map_option Native p"
| "pointee (PBasic_string t) = Some (Basic_string t)"
| "pointee (PPair p q) = (case targets [p, q] of Some [a, b] \<Rightarrow> Some (Pair a b) | _ \<Rightarrow> None)"
| "pointee (PContainer k c) = map_option (Container k) (targets c)"
| "pointee (PDictionary k c) = map_option (Dictionary k \<circ> zip (map fst c)) (targets (map snd c))"

section \<open>The text of a value\<close>

fun text_of :: "ival \<Rightarrow> string" where
  "text_of (Native t) = t"
| "text_of (Basic_string t) = t"
| "text_of (Pair a b) = ''<'' @ a @ '', '' @ b @ ''>''"
| "text_of (Container k c) =
     (case map text_of c of [] \<Rightarrow> ''[]''
      | t # ts \<Rightarrow> ''['' @ t @ concat (map (\<lambda>u. '', '' @ u) ts) @ '']'')"
| "text_of (Dictionary k c) =
     (case map (\<lambda>(x, y). text_of x @ '' -> '' @ text_of y) c of [] \<Rightarrow> ''[]''
      | t # ts \<Rightarrow> ''['' @ t @ concat (map (\<lambda>u. '', '' @ u) ts) @ '']'')"

lemma insert_appends:
  "insert_val s v = s @ text_of v"
  "insert_elements first s c = s @ (case map text_of c of [] \<Rightarrow> [] | t # ts \<Rightarrow>
     (if first then t else '', '' @ t) @ concat (map (\<lambda>u. '', '' @ u) ts))"
  "insert_entries first s d = s @ (case map (\<lambda>(x, y). text_of x @ '' -> '' @ text_of y) d of [] \<Rightarrow> [] | t # ts \<Rightarrow>
     (if first then t else '', '' @ t) @ concat (map (\<lambda>u. '', '' @ u) ts))"
  by (induction s v and first s c and first s d rule: insert_val_insert_elements_insert_entries.induct)
    (auto simp: inserter_texts split: list.splits)

section \<open>Unique reading\<close>

text \<open>What a reader can hope to find out: the words, and how they are bracketed and paired.\<close>

datatype shown = Word string | Angle string string | Square "(shown \<times> shown option) list"

fun shape :: "ival \<Rightarrow> shown" where
  "shape (Native t) = Word t"
| "shape (Basic_string t) = Word t"
| "shape (Pair a b) = Angle a b"
| "shape (Container k c) = Square (map (\<lambda>x. (shape x, None)) c)"
| "shape (Dictionary k c) = Square (map (\<lambda>(x, y). (shape x, Some (shape y))) c)"

definition word_ok :: "string \<Rightarrow> bool" where
  "word_ok t \<longleftrightarrow> t \<noteq> [] \<and> list_all (\<lambda>c. c \<notin> set '' ,[]<>'') t"

fun clear_val :: "ival \<Rightarrow> bool" where
  "clear_val (Native t) = word_ok t"
| "clear_val (Basic_string t) = word_ok t"
| "clear_val (Pair a b) = (word_ok a \<and> word_ok b)"
| "clear_val (Container k c) = list_all clear_val c"
| "clear_val (Dictionary k c) = list_all (\<lambda>(x, y). clear_val x \<and> clear_val y) c"

fun stext :: "shown \<Rightarrow> string" where
  "stext (Word t) = t"
| "stext (Angle a b) = ''<'' @ a @ '', '' @ b @ ''>''"
| "stext (Square c) =
     (case map (\<lambda>(x, y). stext x @ (case y of None \<Rightarrow> [] | Some z \<Rightarrow> '' -> '' @ stext z)) c of [] \<Rightarrow> ''[]''
      | t # ts \<Rightarrow> ''['' @ t @ concat (map (\<lambda>u. '', '' @ u) ts) @ '']'')"

fun shown_ok :: "shown \<Rightarrow> bool" where
  "shown_ok (Word t) = word_ok t"
| "shown_ok (Angle a b) = (word_ok a \<and> word_ok b)"
| "shown_ok (Square c) = (\<forall>(x, y)\<in>set c. shown_ok x \<and> (case y of None \<Rightarrow> True | Some z \<Rightarrow> shown_ok z))"

lemma text_of_shape: "text_of v = stext (shape v)"
proof (induction v)
  case (Container k c)
  then have *: "map text_of c = map (\<lambda>x. stext (shape x)) c" by simp
  show ?case unfolding text_of.simps * by (simp add: comp_def)
next
  case (Dictionary k c)
  then have *: "map (\<lambda>(x, y). text_of x @ '' -> '' @ text_of y) c = map (\<lambda>(x, y). stext (shape x) @ '' -> '' @ stext (shape y)) c"
    by (fastforce simp: prod_set_simps)
  show ?case unfolding text_of.simps * by (simp add: comp_def case_prod_unfold)
qed simp_all

lemma clear_shape: "clear_val v \<Longrightarrow> shown_ok (shape v)"
  by (induction v) (fastforce simp: list_all_iff)+

definition delimited :: "string \<Rightarrow> bool" where
  "delimited r \<longleftrightarrow> r = [] \<or> hd r \<in> set '' ,]>''"

lemma word_split:
  assumes "word_ok a" "word_ok b" "a @ r = b @ r'" "delimited r" "delimited r'"
  shows "a = b \<and> r = r'"
proof -
  let ?P = "\<lambda>c. c \<notin> set '' ,[]<>''"
  have *: "takeWhile ?P (t @ q) = t" if "word_ok t" "delimited q" for t q
    using that by (cases q) (auto simp: word_ok_def delimited_def list_all_iff takeWhile_append)
  have "a = b" using * [OF assms(1,4)] * [OF assms(2,5)] assms(3) by metis
  with assms(3) show ?thesis by simp
qed

definition item_text :: "shown \<times> shown option \<Rightarrow> string" where
  "item_text i = stext (fst i) @ (case snd i of None \<Rightarrow> [] | Some z \<Rightarrow> '' -> '' @ stext z)"

abbreviation item_ok :: "shown \<times> shown option \<Rightarrow> bool" where
  "item_ok i \<equiv> shown_ok (fst i) \<and> (case snd i of None \<Rightarrow> True | Some z \<Rightarrow> shown_ok z)"

abbreviation items_tail :: "(shown \<times> shown option) list \<Rightarrow> string" where
  "items_tail is \<equiv> concat (map (\<lambda>i. '', '' @ item_text i) is) @ '']''"

lemma stext_Square: "stext (Square c) = (case c of [] \<Rightarrow> ''[]'' | i # is \<Rightarrow> ''['' @ item_text i @ items_tail is)"
  by (cases c) (auto simp: item_text_def comp_def case_prod_unfold)

text \<open>A part reads uniquely if what it is followed by does not continue it.\<close>

definition reads :: "shown \<Rightarrow> bool" where
  "reads x \<longleftrightarrow> (\<forall>y r r'. shown_ok x \<longrightarrow> shown_ok y \<longrightarrow> stext x @ r = stext y @ r' \<longrightarrow>
     delimited r \<longrightarrow> delimited r' \<longrightarrow> x = y \<and> r = r')"

lemma readsD:
  "reads x \<Longrightarrow> shown_ok x \<Longrightarrow> shown_ok y \<Longrightarrow> stext x @ r = stext y @ r' \<Longrightarrow> delimited r \<Longrightarrow> delimited r' \<Longrightarrow> x = y \<and> r = r'"
  unfolding reads_def by blast

lemma item_reads:
  assumes "reads (fst i)" "\<And>z. snd i = Some z \<Longrightarrow> reads z" "item_ok i" "item_ok j"
    and "item_text i @ q = item_text j @ q'" "q \<noteq> []" "q' \<noteq> []" "hd q \<in> {CHR '','', CHR '']''}" "hd q' \<in> {CHR '','', CHR '']''}"
  shows "i = j \<and> q = q'"
proof -
  obtain a b c d where ij: "i = (a, b)" "j = (c, d)" by fastforce
  let ?t = "\<lambda>y. case y of None \<Rightarrow> [] | Some z \<Rightarrow> '' -> '' @ stext z"
  have d: "delimited q" "delimited q'" using assms(6-9) by (auto simp: delimited_def)
  then have dd: "delimited (?t b @ q)" "delimited (?t d @ q')" by (auto simp: delimited_def split: option.split)
  have "stext a @ ?t b @ q = stext c @ ?t d @ q'" using assms(5) ij by (simp add: item_text_def)
  from readsD [OF _ _ _ this dd] have ac: "a = c" "?t b @ q = ?t d @ q'" using assms(1,3,4) ij by auto
  show ?thesis
  proof (cases b)
    case None
    have "d = None"
    proof (rule ccontr)
      assume "d \<noteq> None"
      then obtain w where "d = Some w" by blast
      with None ac(2) have "hd q = CHR '' ''" by simp
      with assms(8) show False by simp
    qed
    with None ac ij show ?thesis by simp
  next
    case (Some z)
    have "d \<noteq> None"
    proof
      assume "d = None"
      with Some ac(2) have "hd q' = CHR '' ''" by (metis append_Nil append_Cons list.sel(1) option.simps(4,5))
      with assms(9) show False by simp
    qed
    then obtain w where w: "d = Some w" by blast
    with Some ac(2) have eq: "stext z @ q = stext w @ q'" by simp
    have "reads z" "shown_ok z" "shown_ok w" using assms(2-4) Some w ij by simp_all
    from readsD [OF this eq d] Some w ac(1) ij show ?thesis by simp
  qed
qed

lemma items_read:
  assumes "\<And>i. i \<in> set is \<Longrightarrow> reads (fst i) \<and> (\<forall>z. snd i = Some z \<longrightarrow> reads z)"
    and "\<forall>i\<in>set is. item_ok i" "\<forall>j\<in>set js. item_ok j" "items_tail is @ r = items_tail js @ r'"
  shows "is = js \<and> r = r'"
  using assms
proof (induction "is" arbitrary: js)
  case Nil
  then show ?case by (cases js) auto
next
  case (Cons i "is")
  from Cons.prems(4) obtain j js' where js: "js = j # js'" by (cases js) auto
  have hd: "hd (items_tail k @ q) \<in> {CHR '','', CHR '']''}" for k q by (cases k) auto
  have eq: "item_text i @ items_tail is @ r = item_text j @ items_tail js' @ r'"
    using Cons.prems(4) by (simp add: js)
  have "i = j \<and> items_tail is @ r = items_tail js' @ r'"
    by (rule item_reads [OF _ _ _ _ eq _ _ hd hd]) (use Cons.prems(1) [of i] Cons.prems(2,3) js in simp_all)
  with Cons.IH [of js'] Cons.prems js show ?case by auto
qed

lemma item_begins: "item_ok i \<Longrightarrow> item_text i @ q \<noteq> CHR '']'' # q'"
proof (cases "fst i")
  case (Word t)
  then show "item_ok i \<Longrightarrow> ?thesis" by (cases t) (auto simp: item_text_def word_ok_def)
qed (auto simp: item_text_def stext_Square simp del: stext.simps(3) split: list.splits)

lemma all_read: "reads x"
proof (induction x)
  case (Word t)
  have "Word t = y \<and> r = r'" if "word_ok t" "shown_ok y" "t @ r = stext y @ r'" "delimited r" "delimited r'" for y r r'
  proof (cases y)
    case (Word u)
    with that word_split [of t u r r'] show ?thesis by simp
  qed (use that in \<open>cases t; auto simp: word_ok_def stext_Square simp del: stext.simps(3) split: list.splits\<close>)+
  then show ?case by (simp add: reads_def)
next
  case (Angle a b)
  have "Angle a b = y \<and> r = r'" if "word_ok a" "word_ok b" "shown_ok y" "stext (Angle a b) @ r = stext y @ r'" for y r r'
  proof (cases y)
    case (Word u)
    with that show ?thesis by (cases u) (auto simp: word_ok_def)
  next
    case (Angle c d)
    with that have "a @ '', '' @ b @ ''>'' @ r = c @ '', '' @ d @ ''>'' @ r'" by simp
    from word_split [OF _ _ this] that Angle have *: "a = c" "'', '' @ b @ ''>'' @ r = '', '' @ d @ ''>'' @ r'"
      by (auto simp: delimited_def)
    from *(2) have "b @ ''>'' @ r = d @ ''>'' @ r'" by simp
    from word_split [OF _ _ this] that Angle *(1) show ?thesis by (auto simp: delimited_def)
  qed (use that in \<open>auto simp: stext_Square simp del: stext.simps(3) split: list.splits\<close>)
  then show ?case by (simp add: reads_def)
next
  case (Square c)
  have IH: "reads (fst i) \<and> (\<forall>z. snd i = Some z \<longrightarrow> reads z)" if "i \<in> set c" for i
    using Square that by (cases i) fastforce
  have "Square c = y \<and> r = r'" if ok: "\<forall>i\<in>set c. item_ok i" "shown_ok y" and eq: "stext (Square c) @ r = stext y @ r'" for y r r'
  proof (cases y)
    case (Word u)
    with that show ?thesis by (cases u) (auto simp: word_ok_def stext_Square simp del: stext.simps(3) split: list.splits)
  next
    case (Square d)
    have okd: "\<forall>i\<in>set d. item_ok i" using ok(2) Square by (auto simp: case_prod_unfold)
    have "items_tail c @ r = items_tail d @ r'"
      using eq Square ok(1) okd item_begins item_begins [symmetric]
      by (cases c; cases d) (auto simp: stext_Square simp del: stext.simps(3))
    from items_read [OF IH ok(1) okd this] Square show ?thesis by simp
  qed (use that in \<open>auto simp: stext_Square simp del: stext.simps(3) split: list.splits\<close>)
  then show ?case by (simp add: reads_def case_prod_unfold)
qed

lemma insertP_elements_deref:
  "insertP_elements first s ps = (case targets ps of None \<Rightarrow> Inl NullAccess | Some c \<Rightarrow> Inr (insert_elements first s c))"
  by (induction first s ps rule: insertP_elements.induct) (auto simp: deref_def targets_def split: option.split)

lemma insertP_entries_deref:
  "insertP_entries first s ps = (case targets (map snd ps) of None \<Rightarrow> Inl NullAccess
     | Some c \<Rightarrow> Inr (insert_entries first s (zip (map fst ps) c)))"
  by (induction first s ps rule: insertP_entries.induct) (auto simp: deref_def targets_def split: option.split)

section \<open>Properties\<close>

text \<open>
  (C32) The text in the log tells values apart: if the elements have non-empty texts without
  spaces, commas and brackets, two values with the same text have the same words, bracketed and
  paired in the same way, however deeply containers are nested.
\<close>

theorem inserted_text_determines_value:
  assumes "clear_val v" and "clear_val w"
  shows "insert_val s v = insert_val s w \<longleftrightarrow> shape v = shape w"
proof -
  have "shape v = shape w" if "text_of v = text_of w"
    using readsD [OF all_read clear_shape clear_shape, OF assms, of "[]" "[]"] that
    by (simp add: text_of_shape delimited_def)
  then show ?thesis by (auto simp: insert_appends text_of_shape)
qed

theorem inserted_text_determines_value_witness:
  "insert_val ''x'' (Container Vector [Native ''1'', Container Set [Native ''2'']])
     \<noteq> insert_val ''x'' (Container Vector [Native ''1'', Native ''2''])"
proof -
  have "clear_val (Container Vector [Native ''1'', Container Set [Native ''2'']])" "clear_val (Container Vector [Native ''1'', Native ''2''])"
    by code_simp+
  from inserted_text_determines_value [OF this, of "''x''"] show ?thesis by simp
qed

text \<open>
  The conditions on the texts are needed: one empty string prints as an empty container does,
  and a string with a comma and a space as two strings.
\<close>

theorem inserted_text_ambiguous:
  "insert_val s (Container Vector [Basic_string []]) = insert_val s (Container Vector []) \<and>
   insert_val s (Container List [Basic_string (a @ '', '' @ b)]) = insert_val s (Container List [Basic_string a, Basic_string b])"
  by (simp_all add: insert_appends)

text \<open>
  \<open>insertP\<close> writes what \<open>insert\<close> writes of the objects that are pointed to, and fails exactly
  if a pointer is null.
\<close>

theorem insertP_follows_pointers:
  "insertP s p = (case pointee p of None \<Rightarrow> Inl NullAccess | Some v \<Rightarrow> Inr (insert_val s v))"
  by (cases p) (auto simp: deref_def insertP_elements_deref insertP_entries_deref targets_def inserter_texts
      split: option.split)

end
