(* ===== verification/HeaderPrinting.thy ===== *)
theory HeaderPrinting
  imports LazyHeaders Inserters
begin

text \<open>
  The printing of a header container for the log, the function \<open>insert\<close> of
  \<open>resip/stack/ParserContainer.hxx\<close>: it walks a constant container with an iterator whose
  \<open>operator*\<close> makes the parser objects that are still missing. It brings together the containers
  of \<open>LazyHeaders\<close> and the printing of \<open>Inserters\<close>; a parser is written by its own operator,
  which encodes it.
\<close>

fun pc_insert_loop ::
  "'v hdr_lib \<Rightarrow> int \<Rightarrow> bool \<Rightarrow> string \<Rightarrow> kit list \<times> 'v store \<Rightarrow> rutil_error + string \<times> kit list \<times> 'v store" where
  "pc_insert_loop L ty first s ([], st) = Inr (s, [], st)"
| "pc_insert_loop L ty first s (k # ks, st) = (case ensureInitialized L ty k st of (a, k', st') \<Rightarrow>
     case objs st' a of None \<Rightarrow> Inl Dangling
     | Some x \<Rightarrow> bindr (pc_insert_loop L ty False
         (insert_val (if first then s else s @ '', '') (Native (encode_parser L x))) (ks, st'))
         (\<lambda>(t, ks', st2). Inr (t, k' # ks', st2)))"

definition pc_insert :: "'v hdr_lib \<Rightarrow> int \<Rightarrow> string \<Rightarrow> kit list \<times> 'v store \<Rightarrow> rutil_error + string \<times> kit list \<times> 'v store" where
  "pc_insert L ty s c = bindr (pc_insert_loop L ty True (s @ ''['') c) (\<lambda>(t, c'). Inr (t @ '']'', c'))"

abbreviation printed_vals :: "'v hdr_lib \<Rightarrow> 'v lazy list \<Rightarrow> ival list" where
  "printed_vals L xs \<equiv> map (\<lambda>x. Native (encode_parser L x)) xs"

lemma pc_insert_loop_ok:
  "pc_ok (ps @ ks, st) \<Longrightarrow> \<exists>ks' st'. pc_insert_loop L ty first s (ks, st) =
      Inr (insert_elements first s (printed_vals L (hvals L ty (ks, st))), ks', st') \<and>
    pc_ok (ps @ ks', st') \<and> hvals L ty (ps, st') = hvals L ty (ps, st) \<and> hvals L ty (ks', st') = hvals L ty (ks, st) \<and>
    list_all (\<lambda>k. pc k \<noteq> None) ks'"
proof (induction ks arbitrary: ps st first s)
  case (Cons k ks)
  obtain a k' st1 where e: "ensureInitialized L ty k st = (a, k', st1)" by (cases "ensureInitialized L ty k st") auto
  note i = ensureInitialized_ok [OF Cons.prems(1) e]
  let ?s = "insert_val (if first then s else s @ '', '') (Native (encode_parser L (kit_val L ty st k)))"
  from Cons.IH [of "ps @ [k']" st1 False ?s] i(1) obtain ks' st' where
    "pc_insert_loop L ty False ?s (ks, st1) = Inr (insert_elements False ?s (printed_vals L (hvals L ty (ks, st1))), ks', st')"
    "pc_ok (ps @ k' # ks', st')" "hvals L ty (ps @ [k'], st') = hvals L ty (ps @ [k'], st1)"
    "hvals L ty (ks', st') = hvals L ty (ks, st1)" "list_all (\<lambda>k. pc k \<noteq> None) ks'" by auto
  then show ?case using e i by (simp add: commaspace_def)
qed simp

text \<open>
  Printing a header container writes what the printing of a vector writes of its values, in
  their order, whether they were parsed before or not. It makes the missing parsers, so that every
  value has one afterwards, but the values of the container and the ownership of the parsers stay
  as they were.
\<close>

theorem header_container_printed:
  assumes "pc_ok c"
  shows "\<exists>c'. pc_insert L ty s c = Inr (insert_val s (Container Vector (printed_vals L (hvals L ty c))), c') \<and>
    pc_ok c' \<and> hvals L ty c' = hvals L ty c \<and> list_all (\<lambda>k. pc k \<noteq> None) (fst c')"
proof -
  obtain ks st where c: "c = (ks, st)" by fastforce
  with pc_insert_loop_ok [of "[]" ks st L ty True "s @ ''[''"] assms show ?thesis
    by (auto simp: pc_insert_def inserter_texts)
qed

theorem header_container_printed_witness:
  "\<exists>c. pc_insert demo_hdr 1 ''Via: '' (ParserContainer [''a'', ''b''], no_parsers) = Inr (''Via: [a, b]'', c)"
  using header_container_printed [OF ParserContainer_ok(1) [of "[''a'', ''b'']"], of demo_hdr 1 "''Via: ''"]
  by (auto simp: ParserContainer_def hvals_def kit_val_def demo_hdr_def insert_appends)

end
