(* ===== verification/FdSets.thy ===== *)
theory FdSets
  imports Queues
begin

text \<open>
  \<open>FdSet\<close>, the sets of descriptors that the stack waits on (\<open>rutil/Socket.hxx\<close>).

  An \<open>fd_set\<close> is the set of the descriptors in it. It has room for the descriptors from 0 to
  \<open>FD_SETSIZE - 1\<close>; the macros access memory outside of it for any other descriptor. The size of
  the system's sets and the system call \<open>select\<close> are parameters. The code in use is the one for
  systems other than Windows.

  Shown are that the number handed to \<open>select\<close> covers every descriptor of the three sets
  whatever the calls before, that a descriptor is reported ready only if it was asked for, and
  that a time in milliseconds is split into a proper \<open>timeval\<close>.
\<close>

record fdset =
  fd_read :: "int set"
  fd_write :: "int set"
  fd_except :: "int set"
  fd_size :: int
  numReady :: int

datatype fd_error = FdAssertion | FdOutside

type_synonym fd_sets = "int set \<times> int set \<times> int set"

definition FdSet :: fdset where
  "FdSet = \<lparr>fd_read = {}, fd_write = {}, fd_except = {}, fd_size = 0, numReady = 0\<rparr>"

definition fd_reset :: "fdset \<Rightarrow> fdset" where
  "fd_reset s = s\<lparr>fd_size := 0, numReady := 0, fd_read := {}, fd_write := {}, fd_except := {}\<rparr>"

section \<open>The macros\<close>

definition fd_inside :: "int \<Rightarrow> int \<Rightarrow> bool" where
  "fd_inside FD_SETSIZE fd \<longleftrightarrow> 0 \<le> fd \<and> fd < FD_SETSIZE"

definition FD_SET :: "int \<Rightarrow> int \<Rightarrow> int set \<Rightarrow> fd_error + int set" where
  "FD_SET N fd S = (if fd_inside N fd then Inr (insert fd S) else Inl FdOutside)"

definition FD_CLR :: "int \<Rightarrow> int \<Rightarrow> int set \<Rightarrow> fd_error + int set" where
  "FD_CLR N fd S = (if fd_inside N fd then Inr (S - {fd}) else Inl FdOutside)"

definition FD_ISSET :: "int \<Rightarrow> int \<Rightarrow> int set \<Rightarrow> fd_error + bool" where
  "FD_ISSET N fd S = (if fd_inside N fd then Inr (fd \<in> S) else Inl FdOutside)"

section \<open>Member functions\<close>

definition readyToRead :: "int \<Rightarrow> int \<Rightarrow> fdset \<Rightarrow> fd_error + bool" where
  "readyToRead N fd s = FD_ISSET N fd (fd_read s)"

definition readyToWrite :: "int \<Rightarrow> int \<Rightarrow> fdset \<Rightarrow> fd_error + bool" where
  "readyToWrite N fd s = FD_ISSET N fd (fd_write s)"

definition hasException :: "int \<Rightarrow> int \<Rightarrow> fdset \<Rightarrow> fd_error + bool" where
  "hasException N fd s = FD_ISSET N fd (fd_except s)"

definition enlarge :: "int \<Rightarrow> fdset \<Rightarrow> fdset" where
  "enlarge fd s = s\<lparr>fd_size := if fd + 1 > fd_size s then fd + 1 else fd_size s\<rparr>"

definition setRead :: "int \<Rightarrow> int \<Rightarrow> fdset \<Rightarrow> fd_error + fdset" where
  "setRead N fd s =
     (if \<not> 8 \<le> N then Inl FdAssertion
      else if \<not> fd < N then Inl FdAssertion
      else bindr (FD_SET N fd (fd_read s)) (\<lambda>S. Inr (enlarge fd (s\<lparr>fd_read := S\<rparr>))))"

definition setWrite :: "int \<Rightarrow> int \<Rightarrow> fdset \<Rightarrow> fd_error + fdset" where
  "setWrite N fd s =
     (if \<not> fd < N then Inl FdAssertion
      else bindr (FD_SET N fd (fd_write s)) (\<lambda>S. Inr (enlarge fd (s\<lparr>fd_write := S\<rparr>))))"

definition setExcept :: "int \<Rightarrow> int \<Rightarrow> fdset \<Rightarrow> fd_error + fdset" where
  "setExcept N fd s =
     (if \<not> fd < N then Inl FdAssertion
      else bindr (FD_SET N fd (fd_except s)) (\<lambda>S. Inr (enlarge fd (s\<lparr>fd_except := S\<rparr>))))"

definition fd_clear :: "int \<Rightarrow> int \<Rightarrow> fdset \<Rightarrow> fd_error + fdset" where
  "fd_clear N fd s =
     bindr (FD_CLR N fd (fd_read s)) (\<lambda>r. bindr (FD_CLR N fd (fd_write s)) (\<lambda>w.
     bindr (FD_CLR N fd (fd_except s)) (\<lambda>e. Inr (s\<lparr>fd_read := r, fd_write := w, fd_except := e\<rparr>))))"

text \<open>\<open>::select\<close> gets the number, the sets and the time limit and returns a number and new sets.\<close>

record 'w timeval =
  tv_sec :: 'w
  tv_usec :: 'w

type_synonym 'w select_call = "int \<Rightarrow> fd_sets \<Rightarrow> 'w timeval option \<Rightarrow> int \<times> fd_sets"

definition fd_select :: "'w select_call \<Rightarrow> 'w timeval option \<Rightarrow> fdset \<Rightarrow> int \<times> fdset" where
  "fd_select sel tv s = (case sel (fd_size s) (fd_read s, fd_write s, fd_except s) tv of
     (n, r, w, e) \<Rightarrow> (n, s\<lparr>numReady := n, fd_read := r, fd_write := w, fd_except := e\<rparr>))"

definition timeval_of :: "('a::len) word \<Rightarrow> 'a word timeval" where
  "timeval_of ms = \<lparr>tv_sec = ms div 1000, tv_usec = (ms mod 1000) * 1000\<rparr>"

definition selectMilliSeconds :: "('a::len) word select_call \<Rightarrow> 'a word \<Rightarrow> fdset \<Rightarrow> int \<times> fdset" where
  "selectMilliSeconds sel ms s = fd_select sel (Some (timeval_of ms)) s"

section \<open>Sequences of calls\<close>

datatype 'w fd_op = SetRead int | SetWrite int | SetExcept int | FdClear int | FdReset
  | Select "'w timeval option" | SelectMs 'w

fun fd_step :: "int \<Rightarrow> ('a::len) word select_call \<Rightarrow> fdset \<Rightarrow> 'a word fd_op \<Rightarrow> fd_error + fdset" where
  "fd_step N sel s (SetRead fd) = setRead N fd s"
| "fd_step N sel s (SetWrite fd) = setWrite N fd s"
| "fd_step N sel s (SetExcept fd) = setExcept N fd s"
| "fd_step N sel s (FdClear fd) = fd_clear N fd s"
| "fd_step N sel s FdReset = Inr (fd_reset s)"
| "fd_step N sel s (Select tv) = Inr (snd (fd_select sel tv s))"
| "fd_step N sel s (SelectMs ms) = Inr (snd (selectMilliSeconds sel ms s))"

fun fd_guard :: "int \<Rightarrow> fdset \<Rightarrow> 'w fd_op \<Rightarrow> bool" where
  "fd_guard N s (SetRead fd) = (8 \<le> N \<and> fd_inside N fd)"
| "fd_guard N s (SetWrite fd) = fd_inside N fd"
| "fd_guard N s (SetExcept fd) = fd_inside N fd"
| "fd_guard N s (FdClear fd) = fd_inside N fd"
| "fd_guard N s _ = True"

text \<open>
  \<open>select\<close> is documented to keep in each set those of the descriptors below its number that are
  ready, and to leave the sets as they are on an error.
\<close>

definition select_law :: "'w select_call \<Rightarrow> bool" where
  "select_law sel \<longleftrightarrow> (\<forall>n r w e tv k r' w' e'. sel n (r, w, e) tv = (k, r', w', e') \<longrightarrow>
     r' \<subseteq> r \<and> w' \<subseteq> w \<and> e' \<subseteq> e)"

definition fd_covered :: "int \<Rightarrow> fdset \<Rightarrow> bool" where
  "fd_covered N s \<longleftrightarrow> fd_read s \<union> fd_write s \<union> fd_except s \<subseteq> {0..<fd_size s} \<and> 0 \<le> fd_size s \<and> fd_size s \<le> max N 0"

lemmas fd_eval = setRead_def setWrite_def setExcept_def fd_clear_def FD_SET_def FD_CLR_def fd_inside_def enlarge_def

lemma select_lawD:
  assumes "select_law sel" "sel n (r, w, e) tv = (k, r', w', e')"
  shows "r' \<subseteq> r \<and> w' \<subseteq> w \<and> e' \<subseteq> e"
  using assms unfolding select_law_def by blast

lemma fd_select_shrinks:
  assumes "select_law sel"
  shows "fd_read (snd (fd_select sel tv s)) \<subseteq> fd_read s \<and> fd_write (snd (fd_select sel tv s)) \<subseteq> fd_write s \<and>
    fd_except (snd (fd_select sel tv s)) \<subseteq> fd_except s \<and> fd_size (snd (fd_select sel tv s)) = fd_size s"
proof -
  obtain k r w e where r: "sel (fd_size s) (fd_read s, fd_write s, fd_except s) tv = (k, r, w, e)" by (metis prod.exhaust)
  from select_lawD [OF assms r] r show ?thesis by (simp add: fd_select_def)
qed

lemma fd_select_covered:
  assumes "select_law sel" "fd_covered N s"
  shows "fd_covered N (snd (fd_select sel tv s))"
  using fd_select_shrinks [OF assms(1), of tv s] assms(2) unfolding fd_covered_def by auto

lemma fd_step_ok:
  assumes "select_law sel" "fd_covered N s" "fd_guard N s e"
  shows "\<exists>s'. fd_step N sel s e = Inr s' \<and> fd_covered N s'"
  using assms
proof (cases e)
  case (Select tv)
  with assms show ?thesis by (simp add: fd_select_covered)
next
  case (SelectMs ms)
  with assms show ?thesis by (simp add: fd_select_covered selectMilliSeconds_def)
qed (auto simp: fd_eval fd_covered_def fd_reset_def)

lemma fd_step_exact: "(\<exists>s'. fd_step N sel s e = Inr s') \<longleftrightarrow> fd_guard N s e"
  by (cases e) (auto simp: fd_eval)

definition fd_inv :: "int \<Rightarrow> 'w select_call \<Rightarrow> fdset \<Rightarrow> bool" where
  "fd_inv N sel s \<longleftrightarrow> select_law sel \<and> fd_covered N s"

interpretation fdm: guarded_machine "fd_step N sel" "fd_inv N sel" "fd_guard N" for N sel
  using fd_step_ok by unfold_locales (fastforce simp: fd_inv_def)

section \<open>What is asked for\<close>

text \<open>The descriptors that were set and not cleared since, in each of the sets.\<close>

fun wanted :: "fd_sets \<Rightarrow> 'w fd_op \<Rightarrow> fd_sets" where
  "wanted (r, w, e) (SetRead fd) = (insert fd r, w, e)"
| "wanted (r, w, e) (SetWrite fd) = (r, insert fd w, e)"
| "wanted (r, w, e) (SetExcept fd) = (r, w, insert fd e)"
| "wanted (r, w, e) (FdClear fd) = (r - {fd}, w - {fd}, e - {fd})"
| "wanted (r, w, e) FdReset = ({}, {}, {})"
| "wanted S _ = S"

fun is_select :: "'w fd_op \<Rightarrow> bool" where
  "is_select (Select tv) = True"
| "is_select (SelectMs ms) = True"
| "is_select _ = False"

definition fd_within :: "fdset \<Rightarrow> fd_sets \<Rightarrow> bool" where
  "fd_within s S \<longleftrightarrow> fd_read s \<subseteq> fst S \<and> fd_write s \<subseteq> fst (snd S) \<and> fd_except s \<subseteq> snd (snd S)"

definition sets_of :: "fdset \<Rightarrow> fd_sets" where
  "sets_of s = (fd_read s, fd_write s, fd_except s)"

lemma fd_select_within:
  assumes "select_law sel" "fd_within s S"
  shows "fd_within (snd (fd_select sel tv s)) S"
  using fd_select_shrinks [OF assms(1), of tv s] assms(2) unfolding fd_within_def by auto

lemma wanted_select: "is_select e \<Longrightarrow> wanted S e = S"
  by (cases S; cases e) simp_all

lemma fd_step_within:
  assumes "select_law sel" "fd_within s S" "fd_step N sel s e = Inr s'"
  shows "fd_within s' (wanted S e)"
proof (cases "is_select e")
  case True
  then show ?thesis using assms fd_select_within [OF assms(1,2)]
    by (cases e) (auto simp: wanted_select selectMilliSeconds_def)
next
  case False
  with assms(2,3) show ?thesis
    by (cases S; cases e) (auto simp: fd_eval fd_within_def fd_reset_def split: if_splits)
qed

lemma fd_step_exactly:
  "\<not> is_select e \<Longrightarrow> fd_step N sel s e = Inr s' \<Longrightarrow> sets_of s' = wanted (sets_of s) e"
  by (cases e) (auto simp: fd_eval fd_reset_def sets_of_def split: if_splits)

lemma fd_run_within:
  assumes "select_law sel"
  shows "run_events (fd_step N sel) s ops = Inr s' \<Longrightarrow> fd_within s S \<Longrightarrow> fd_within s' (foldl wanted S ops) \<and>
    (sets_of s = S \<longrightarrow> \<not> list_ex is_select ops \<longrightarrow> sets_of s' = foldl wanted S ops)"
proof (induction ops arbitrary: s S)
  case (Cons e ops)
  then obtain s1 where s1: "fd_step N sel s e = Inr s1" "run_events (fd_step N sel) s1 ops = Inr s'"
    by (auto simp: bindr_eq_Inr)
  from Cons.IH [OF s1(2) fd_step_within [OF assms Cons.prems(2) s1(1)]] fd_step_exactly [OF _ s1(1)]
  show ?case by auto
qed simp

section \<open>Properties\<close>

text \<open>
  (C31) After any sequence of calls with descriptors that the system's sets can hold, on a new
  object, every descriptor of the three sets is below the number that is handed to \<open>select\<close>,
  which is at most the size of the sets; only descriptors that were set, and not cleared since,
  are in the sets or reported by \<open>select\<close>; and before the first \<open>select\<close> exactly these are.
\<close>

theorem fdset_covers_descriptors:
  assumes "select_law sel" and "guarded_run (fd_step N sel) (fd_guard N) FdSet ops"
  shows "\<exists>s. run_events (fd_step N sel) FdSet ops = Inr s \<and>
    fd_read s \<union> fd_write s \<union> fd_except s \<subseteq> {0..<fd_size s} \<and> fd_size s \<le> max N 0 \<and>
    fd_within s (foldl wanted ({}, {}, {}) ops) \<and>
    (\<not> list_ex is_select ops \<longrightarrow> sets_of s = foldl wanted ({}, {}, {}) ops)"
proof -
  have "fd_inv N sel FdSet" using assms(1) by (simp add: fd_inv_def fd_covered_def FdSet_def)
  from fdm.run_ok [OF this assms(2)] obtain s where s: "run_events (fd_step N sel) FdSet ops = Inr s" "fd_covered N s"
    by (auto simp: fd_inv_def)
  from fd_run_within [OF assms(1) s(1), of "({}, {}, {})"] s show ?thesis
    by (auto simp: fd_covered_def fd_within_def FdSet_def sets_of_def)
qed

text \<open>
  A call goes wrong exactly if its descriptor has no place in the system's sets. A descriptor
  that is too large fails an assertion when it is set; one that is negative, as that of a socket
  that could not be opened, passes the assertions and is written outside of the set.
\<close>

theorem fdset_calls_exact:
  "(\<exists>s'. fd_step N sel s op = Inr s') = fd_guard N s op \<and>
   (8 \<le> N \<longrightarrow> setRead N fd s = (if N \<le> fd then Inl FdAssertion else if fd < 0 then Inl FdOutside
      else Inr (enlarge fd (s\<lparr>fd_read := insert fd (fd_read s)\<rparr>))))"
  by (auto simp: fd_step_exact fd_eval)

text \<open>
  The time of \<open>selectMilliSeconds\<close> is split into seconds and fewer than a million microseconds
  that together are the milliseconds, and the seconds fit the signed type of \<open>tv_sec\<close>.
\<close>

theorem select_time_exact:
  assumes "32 \<le> LENGTH('a::len)"
  shows "unat (tv_sec (timeval_of (ms :: 'a word))) * 1000000 + unat (tv_usec (timeval_of ms)) = unat ms * 1000 \<and>
    unat (tv_usec (timeval_of ms)) < 1000000 \<and> unat (tv_sec (timeval_of ms)) < 2 ^ (LENGTH('a) - 1)"
proof -
  have big: "2 ^ 32 \<le> (2 :: nat) ^ LENGTH('a)" using assms by (intro power_increasing) simp_all
  have thousand: "unat (1000 :: 'a word) = 1000"
  proof -
    have "unat (of_nat 1000 :: 'a word) = 1000" using big by (subst unat_of_nat) simp
    then show ?thesis by simp
  qed
  have rest: "unat (ms mod 1000) = unat ms mod 1000" by (simp only: unat_mod thousand)
  have quot: "unat (ms div 1000) = unat ms div 1000" by (simp only: unat_div thousand)
  have "unat ((ms mod 1000) * 1000) = unat ms mod 1000 * 1000"
  proof -
    have "unat (ms mod 1000) * unat (1000 :: 'a word) < 2 ^ LENGTH('a)"
      unfolding rest thousand
    proof (rule less_le_trans)
      show "unat ms mod 1000 * 1000 < 2 ^ 32" using mod_less_divisor [of 1000 "unat ms"] by simp
    qed (rule big)
    then have "unat ((ms mod 1000) * 1000) = unat (ms mod 1000) * unat (1000 :: 'a word)" by (simp only: unat_mult_lem)
    then show ?thesis by (simp only: rest thousand)
  qed
  moreover have "unat ms div 1000 < 2 ^ (LENGTH('a) - 1)"
  proof -
    have "unat ms < 2 * 2 ^ (LENGTH('a) - 1)" using unat_less_bound [of ms] assms by (simp flip: power_Suc)
    then show ?thesis by simp
  qed
  moreover have "unat ms div 1000 * 1000000 + unat ms mod 1000 * 1000 = unat ms * 1000"
    using div_mult_mod_eq [of "unat ms" 1000] by linarith
  ultimately show ?thesis using mod_less_divisor [of 1000 "unat ms"] by (simp add: timeval_of_def quot)
qed

section \<open>Witnesses\<close>

text \<open>A system call that finds the descriptors ready that are divisible by three.\<close>

definition demo_select :: "64 word select_call" where
  "demo_select n S tv = (case S of (r, w, e) \<Rightarrow> (1, {f \<in> r. 3 dvd f}, {f \<in> w. 3 dvd f}, {}))"

theorem fdset_covers_descriptors_witness:
  "\<exists>s. run_events (fd_step 1024 demo_select) FdSet [SetRead 5, SetWrite 9, FdClear 5, SetRead 7, SelectMs 20] = Inr s \<and>
    fd_read s \<union> fd_write s \<union> fd_except s \<subseteq> {0..<fd_size s} \<and> fd_within s ({7}, {9}, {})"
proof -
  have law: "select_law demo_select" by (auto simp: select_law_def demo_select_def)
  have "guarded_run (fd_step 1024 demo_select) (fd_guard 1024) FdSet [SetRead 5, SetWrite 9, FdClear 5, SetRead 7, SelectMs 20]"
    by (simp add: fd_eval)
  from fdset_covers_descriptors [OF law this] show ?thesis by (auto simp: fd_within_def)
qed

theorem fdset_calls_exact_witness: "setRead 1024 (- 1) FdSet = Inl FdOutside"
  using fdset_calls_exact [of 1024 demo_select FdSet FdReset "- 1"] by simp

theorem select_time_exact_witness:
  "unat (tv_sec (timeval_of (2500 :: 32 word))) * 1000000 + unat (tv_usec (timeval_of (2500 :: 32 word))) = 2500000"
  using select_time_exact [where 'a = 32, of 2500] by simp

end
