(* ===== verification/RendTroops.thy ===== *)
theory RendTroops
  imports Queues "HOL-Library.Signed_Division"
begin

text \<open>
  The dialog troops of the load generator (\<open>resip/rend/RendTroop.hxx\<close>) and its statistics
  (\<open>RendMisc.hxx\<close>): the map between dialog and account indices, the times and moods of
  sessions, and the counts of sessions per mood.

  Indices are \<open>int\<close>s of 32 bits: an operation that leaves their range is an error, division and
  remainder round towards zero as in C++. Times are unsigned 64-bit microseconds and wrap around.
  Floating-point numbers are values of an ordered type (not-a-number is left out), with their
  addition and division as parameters.
\<close>

datatype rend_error = SignedOverflow | DivisionByZero | RendAssertion

definition cint :: "int \<Rightarrow> rend_error + int" where
  "cint x = (if - (2 ^ 31) \<le> x \<and> x < 2 ^ 31 then Inr x else Inl SignedOverflow)"

section \<open>Account slices\<close>

record slice =
  mDlgLen :: int
  mAcctBase :: int
  mStride :: int
  mAcctLen :: int

definition RendAcctSlice :: slice where
  "RendAcctSlice = \<lparr>mDlgLen = 0, mAcctBase = - 1, mStride = 1, mAcctLen = 1\<rparr>"

definition clearMap :: "slice \<Rightarrow> slice" where
  "clearMap s = s\<lparr>mDlgLen := 0, mAcctBase := - 1, mAcctLen := 1, mStride := 1\<rparr>"

definition setMap :: "int \<Rightarrow> int \<Rightarrow> int \<Rightarrow> int \<Rightarrow> slice \<Rightarrow> slice" where
  "setMap dlgLen acctBase acctLen stride s =
     s\<lparr>mDlgLen := dlgLen, mAcctBase := acctBase, mAcctLen := (if acctLen \<le> 1 then 1 else acctLen), mStride := stride\<rparr>"

definition getDlgLen :: "slice \<Rightarrow> int" where
  "getDlgLen s = (if mDlgLen s \<le> 1 then 1 else mDlgLen s)"

definition checkIdx :: "int \<Rightarrow> slice \<Rightarrow> rend_error + bool" where
  "checkIdx acctIdx s =
     (if mDlgLen s < 1 then Inr True
      else if mAcctBase s \<le> acctIdx then bindr (cint (mAcctBase s + mAcctLen s)) (\<lambda>e. Inr (acctIdx < e))
      else Inr False)"

definition mapSimpleIdx :: "int \<Rightarrow> slice \<Rightarrow> rend_error + int" where
  "mapSimpleIdx x s = bindr (cint (x * mStride s)) (\<lambda>p.
     if mAcctLen s = 0 then Inl DivisionByZero else cint (p smod mAcctLen s + mAcctBase s))"

definition mapDlgIdx :: "int \<Rightarrow> slice \<Rightarrow> rend_error + (int \<times> int)" where
  "mapDlgIdx idx s =
     (if mDlgLen s \<le> 1 then Inr (mAcctBase s, idx)
      else bindr (mapSimpleIdx (idx smod mDlgLen s) s) (\<lambda>a. Inr (a, idx sdiv mDlgLen s)))"

definition foldIdx :: "int \<Rightarrow> int \<Rightarrow> slice \<Rightarrow> rend_error + int" where
  "foldIdx idx acctIdx s =
     (if mDlgLen s \<le> 1 then Inr idx
      else bindr (cint (idx * mDlgLen s)) (\<lambda>p. bindr (cint (acctIdx - mAcctBase s)) (\<lambda>d.
        cint (p + d smod mDlgLen s))))"

text \<open>
  A troop has several slices, one per dimension of its dialogs: an index is taken apart slice by
  slice, the accounts are put together in the opposite order.
\<close>

fun map_slices :: "slice list \<Rightarrow> int \<Rightarrow> rend_error + (int list \<times> int)" where
  "map_slices [] idx = Inr ([], idx)"
| "map_slices (s # ss) idx = bindr (mapDlgIdx idx s) (\<lambda>(a, i). bindr (map_slices ss i) (\<lambda>(as, j). Inr (a # as, j)))"

fun fold_slices :: "slice list \<Rightarrow> int list \<Rightarrow> int \<Rightarrow> rend_error + int" where
  "fold_slices (s # ss) (a # as) idx = bindr (fold_slices ss as idx) (\<lambda>i. foldIdx i a s)"
| "fold_slices _ _ idx = Inr idx"

section \<open>Sessions\<close>

datatype RendSessionMood = REND_SM_None | REND_SM_Idle | REND_SM_Open | REND_SM_PendReq | REND_SM_PendNotify
  | REND_SM_Recycle | REND_SM_Wave | REND_SM_MAX | REND_SM_GROUP_Pend | REND_SM_GROUP_Alive
  | REND_SM_GROUP_ByPendReason | REND_SM_GROUP_ByDlgState

record session =
  mMood :: RendSessionMood
  mLastMoodTime :: uint64
  mExpireAbsTime :: uint64
  mRenewAbsTime :: uint64

definition REND_US2S :: "uint64 \<Rightarrow> uint64" where
  "REND_US2S usecs = usecs div 1000000"

definition int_of_time :: "uint64 \<Rightarrow> int" where
  "int_of_time t = sint (ucast t :: 32 word)"

definition getRenewSecs :: "uint64 \<Rightarrow> session \<Rightarrow> int" where
  "getRenewSecs now s = (if mRenewAbsTime s = 0 then - 123456 else int_of_time (REND_US2S (mRenewAbsTime s - now)))"

definition getExpireSecs :: "uint64 \<Rightarrow> session \<Rightarrow> int" where
  "getExpireSecs now s = (if mExpireAbsTime s = 0 then - 123456 else int_of_time (REND_US2S (mExpireAbsTime s - now)))"

definition getLastMoodSecs :: "uint64 \<Rightarrow> session \<Rightarrow> int" where
  "getLastMoodSecs now s = int_of_time (REND_US2S (now - mLastMoodTime s))"

definition isOpenish :: "session \<Rightarrow> bool" where
  "isOpenish s \<longleftrightarrow> mMood s = REND_SM_Open \<or> mMood s = REND_SM_PendReq \<or> mMood s = REND_SM_PendNotify"

definition isPendish :: "session \<Rightarrow> bool" where
  "isPendish s \<longleftrightarrow> mMood s = REND_SM_PendReq \<or> mMood s = REND_SM_PendNotify"

text \<open>The array of mood trackers, of which the count reads the sizes of the chains.\<close>

type_synonym moods = "RendSessionMood \<Rightarrow> session list"

definition getSessionMoodCnt :: "moods \<Rightarrow> RendSessionMood \<Rightarrow> rend_error + nat" where
  "getSessionMoodCnt mMoods mood =
     (if mood = REND_SM_GROUP_Pend
      then Inr (length (mMoods REND_SM_PendReq) + length (mMoods REND_SM_PendNotify))
      else if mood = REND_SM_GROUP_Alive
      then Inr (length (mMoods REND_SM_Open) + length (mMoods REND_SM_PendReq)
        + length (mMoods REND_SM_PendNotify) + length (mMoods REND_SM_Wave))
      else if mood \<in> {REND_SM_Idle, REND_SM_Open, REND_SM_PendReq, REND_SM_PendNotify, REND_SM_Recycle, REND_SM_Wave}
      then Inr (length (mMoods mood))
      else Inl RendAssertion)"

section \<open>Statistics\<close>

record 'a stat_acc =
  mCnt :: uint32
  mMin :: 'a
  mMax :: 'a
  mSum :: 'a

definition RendStatAcc :: "'a \<Rightarrow> 'a stat_acc" where
  "RendStatAcc fzero = \<lparr>mCnt = 0, mMin = fzero, mMax = fzero, mSum = fzero\<rparr>"

definition stat_add :: "('a::linorder \<Rightarrow> 'a \<Rightarrow> 'a) \<Rightarrow> 'a \<Rightarrow> 'a stat_acc \<Rightarrow> 'a stat_acc" where
  "stat_add fadd val s = s\<lparr>
     mMin := (if mCnt s = 0 \<or> val < mMin s then val else mMin s),
     mMax := (if mCnt s = 0 \<or> val > mMax s then val else mMax s),
     mSum := fadd (mSum s) val, mCnt := mCnt s + 1\<rparr>"

definition stat_avg :: "('a \<Rightarrow> uint32 \<Rightarrow> 'a) \<Rightarrow> 'a \<Rightarrow> 'a stat_acc \<Rightarrow> 'a" where
  "stat_avg fdiv fzero s = (if mCnt s = 0 then fzero else fdiv (mSum s) (mCnt s))"

section \<open>Lemmas\<close>

lemma cint_in: "- (2 ^ 31) \<le> x \<Longrightarrow> x < 2 ^ 31 \<Longrightarrow> cint x = Inr x"
  by (simp add: cint_def)

lemma smod_nonneg: "0 \<le> (x::int) \<Longrightarrow> 0 < n \<Longrightarrow> x smod n = x mod n"
  by (simp add: signed_modulo_int_def signed_divide_int_def sgn_if minus_div_mult_eq_mod)

lemma sdiv_nonneg: "0 \<le> (x::int) \<Longrightarrow> 0 < n \<Longrightarrow> x sdiv n = x div n"
  by (simp add: signed_divide_int_def sgn_if)

text \<open>A slice that \<open>foldIdx\<close> is made for: stride one, an account for every dialog, and accounts that are \<open>int\<close>s.\<close>

definition plain_slice :: "slice \<Rightarrow> bool" where
  "plain_slice s \<longleftrightarrow> mStride s = 1 \<and> mDlgLen s \<le> mAcctLen s \<and> 1 \<le> mAcctLen s \<and> 0 \<le> mAcctBase s \<and> mAcctBase s + mAcctLen s < 2 ^ 31"

lemma map_plain:
  assumes "plain_slice s" "0 \<le> idx" "idx < 2 ^ 31" "1 < mDlgLen s"
  shows "mapDlgIdx idx s = Inr (idx mod mDlgLen s + mAcctBase s, idx div mDlgLen s)"
proof -
  let ?x = "idx mod mDlgLen s"
  have x: "0 \<le> ?x" "?x < mDlgLen s" using assms(4) by simp_all
  with assms(1) have len: "?x < mAcctLen s" "?x + mAcctBase s < 2 ^ 31" "?x < 2 ^ 31" by (auto simp: plain_slice_def)
  have "mapSimpleIdx ?x s = Inr (?x + mAcctBase s)"
    using assms(1) x len by (simp add: mapSimpleIdx_def cint_in plain_slice_def smod_nonneg)
  then show ?thesis using assms by (simp add: mapDlgIdx_def smod_nonneg sdiv_nonneg)
qed

lemma fold_plain:
  assumes "plain_slice s" "0 \<le> idx" "idx < 2 ^ 31" "1 < mDlgLen s"
  shows "foldIdx (idx div mDlgLen s) (idx mod mDlgLen s + mAcctBase s) s = Inr idx"
proof -
  let ?x = "idx mod mDlgLen s"
  have x: "0 \<le> ?x" using assms(4) by simp
  have b: "?x < 2 ^ 31" using zmod_le_nonneg_dividend [OF assms(2), of "mDlgLen s"] assms(3) by simp
  have q: "idx div mDlgLen s * mDlgLen s = idx - ?x" by (simp add: minus_mod_eq_div_mult)
  have p: "0 \<le> idx - ?x" "idx - ?x < 2 ^ 31"
    using zmod_le_nonneg_dividend [OF assms(2), of "mDlgLen s"] x assms(3) by linarith+
  have "cint (idx - ?x) = Inr (idx - ?x)" "cint ?x = Inr ?x" "cint idx = Inr idx"
    using p x b assms(2,3) by (intro cint_in; linarith)+
  moreover have "?x smod mDlgLen s = ?x" using x assms(4) by (subst smod_nonneg) simp_all
  ultimately show ?thesis using assms(4) by (simp add: foldIdx_def q)
qed

lemma slice_inverse:
  assumes "plain_slice s" "0 \<le> idx" "idx < 2 ^ 31"
  shows "\<exists>a i. mapDlgIdx idx s = Inr (a, i) \<and> 0 \<le> i \<and> i \<le> idx \<and> foldIdx i a s = Inr idx \<and>
    mAcctBase s \<le> a \<and> a < mAcctBase s + mAcctLen s"
proof (cases "1 < mDlgLen s")
  case True
  have "idx mod mDlgLen s < mAcctLen s"
    using assms(1) True pos_mod_bound [of "mDlgLen s" idx] unfolding plain_slice_def by linarith
  moreover have "idx div mDlgLen s \<le> idx" using assms(2) True
    by (metis dual_order.order_iff_strict div_by_1 zdiv_mono2 zero_less_one less_imp_le)
  ultimately show ?thesis using map_plain [OF assms True] fold_plain [OF assms True] assms(2) True
    by (simp add: pos_imp_zdiv_nonneg_iff)
next
  case False
  with assms show ?thesis by (simp add: mapDlgIdx_def foldIdx_def plain_slice_def)
qed

lemma slices_inverse:
  "\<forall>s\<in>set ss. plain_slice s \<Longrightarrow> 0 \<le> idx \<Longrightarrow> idx < 2 ^ 31 \<Longrightarrow>
   \<exists>as i. map_slices ss idx = Inr (as, i) \<and> 0 \<le> i \<and> i \<le> idx \<and> fold_slices ss as i = Inr idx \<and>
     list_all2 (\<lambda>a s. mAcctBase s \<le> a \<and> a < mAcctBase s + mAcctLen s) as ss"
proof (induction ss arbitrary: idx)
  case (Cons s ss)
  from Cons.prems slice_inverse [of s idx] obtain a i where i: "mapDlgIdx idx s = Inr (a, i)" "0 \<le> i" "i \<le> idx"
    "foldIdx i a s = Inr idx" "mAcctBase s \<le> a" "a < mAcctBase s + mAcctLen s" by auto
  with Cons.IH [of i] Cons.prems obtain as j where "map_slices ss i = Inr (as, j)" "0 \<le> j" "j \<le> i"
    "fold_slices ss as j = Inr i" "list_all2 (\<lambda>a s. mAcctBase s \<le> a \<and> a < mAcctBase s + mAcctLen s) as ss" by auto
  with i show ?case by auto
qed simp

lemma int_of_small_time: "unat t < 2 ^ 31 \<Longrightarrow> int_of_time t = int (unat t)"
proof -
  assume t: "unat t < 2 ^ 31"
  then have u: "unat (ucast t :: 32 word) = unat t" by (intro unat_narrow) simp
  then have *: "uint (ucast t :: 32 word) = int (unat t)" by (metis of_nat_unat)
  have "int (unat t) < 2 ^ 31" using t by (metis of_nat_less_iff of_nat_numeral of_nat_power)
  then show ?thesis unfolding int_of_time_def sint_uint *
    by (intro signed_take_bit_int_eq_self) (simp_all del: of_nat_unat)
qed

lemma small_count: "n < 2 ^ 32 \<Longrightarrow> unat (of_nat n :: uint32) = n"
  by (simp add: unat_of_nat)

lemma small_count_0: "n < 2 ^ 32 \<Longrightarrow> (of_nat n :: uint32) = 0 \<longleftrightarrow> n = 0"
  unfolding unat_eq_zero [symmetric] by (simp only: small_count)

lemma less_as_min: "(if (x::'a::linorder) < m then x else m) = min x m"
  by (auto simp: min_def)

lemma less_as_max: "(if (m::'a::linorder) < x then x else m) = max x m"
  by (auto simp: max_def)

lemma stat_add_more:
  "c \<noteq> 0 \<Longrightarrow> stat_add fadd x \<lparr>mCnt = c, mMin = a, mMax = b, mSum = m\<rparr> =
     \<lparr>mCnt = c + 1, mMin = min x a, mMax = max x b, mSum = fadd m x\<rparr>"
  by (simp add: stat_add_def less_as_min less_as_max)

lemma stat_fold:
  assumes "xs \<noteq> []" "length xs < 2 ^ 32"
  shows "fold (stat_add fadd) xs (RendStatAcc z) =
    \<lparr>mCnt = of_nat (length xs), mMin = Min (set xs), mMax = Max (set xs), mSum = foldl fadd z xs\<rparr>"
  using assms
proof (induction xs rule: rev_induct)
  case (snoc x xs)
  show ?case
  proof (cases "xs = []")
    case False
    with snoc.prems have "(of_nat (length xs) :: uint32) \<noteq> 0" by (subst small_count_0) auto
    moreover have "fold (stat_add fadd) xs (RendStatAcc z) =
        \<lparr>mCnt = of_nat (length xs), mMin = Min (set xs), mMax = Max (set xs), mSum = foldl fadd z xs\<rparr>"
      using snoc False by simp
    moreover have "Min (set (xs @ [x])) = min x (Min (set xs))" "Max (set (xs @ [x])) = max x (Max (set xs))"
      using False by simp_all
    ultimately show ?thesis by (simp only: fold_append comp_apply fold_simps) (simp add: stat_add_more add.commute)
  qed (simp add: stat_add_def RendStatAcc_def)
qed simp

section \<open>Properties\<close>

text \<open>
  A dialog index that is taken apart into accounts, along any number of slices with stride
  one and at least as many accounts as dialogs, is put together again by \<open>foldIdx\<close> from these
  accounts and the index that remains, without overflow; and every account is one of its slice.
\<close>

theorem slices_round_trip:
  assumes "\<forall>s\<in>set ss. plain_slice s" and "0 \<le> idx" and "idx < 2 ^ 31"
  shows "\<exists>as i. map_slices ss idx = Inr (as, i) \<and> fold_slices ss as i = Inr idx \<and>
    list_all2 (\<lambda>a s. checkIdx a s = Inr True) as ss"
proof -
  from slices_inverse [OF assms] obtain as i where r: "map_slices ss idx = Inr (as, i)" "fold_slices ss as i = Inr idx"
    and in_slice: "list_all2 (\<lambda>a s. mAcctBase s \<le> a \<and> a < mAcctBase s + mAcctLen s) as ss" by blast
  have "list_all2 (\<lambda>a s. checkIdx a s = Inr True) as ss"
    using in_slice by (rule list.rel_mono_strong) (use assms(1) in \<open>auto simp: checkIdx_def cint_def plain_slice_def\<close>)
  with r show ?thesis by blast
qed

text \<open>
  With another stride, or fewer accounts than dialogs, the index is lost: \<open>foldIdx\<close> leaves
  out the stride and the number of accounts, and two dialogs share an account.
\<close>

theorem slices_lose_index:
  assumes "1 < mDlgLen s" and "0 \<le> mAcctBase s" and "mAcctBase s + mAcctLen s < 2 ^ 31"
  shows "(0 \<le> mStride s \<and> mStride s < mAcctLen s \<and> mStride s mod mDlgLen s \<noteq> 1 \<longrightarrow>
      (\<exists>a k. mapDlgIdx 1 s = Inr (a, 0) \<and> foldIdx 0 a s = Inr k \<and> k \<noteq> 1)) \<and>
    (mStride s = 1 \<and> 1 \<le> mAcctLen s \<and> mAcctLen s < mDlgLen s \<longrightarrow>
      mapDlgIdx (mAcctLen s) s = mapDlgIdx 0 s)"
proof (intro conjI impI)
  assume *: "0 \<le> mStride s \<and> mStride s < mAcctLen s \<and> mStride s mod mDlgLen s \<noteq> 1"
  then have "mapDlgIdx 1 s = Inr (mStride s + mAcctBase s, 0)"
    using assms by (simp add: mapDlgIdx_def mapSimpleIdx_def smod_nonneg sdiv_nonneg cint_def)
  moreover have "foldIdx 0 (mStride s + mAcctBase s) s = Inr (mStride s mod mDlgLen s)"
  proof -
    have "mStride s mod mDlgLen s \<le> mStride s" using * by (simp add: zmod_le_nonneg_dividend)
    moreover have "0 \<le> mStride s mod mDlgLen s" using assms(1) by simp
    ultimately have "cint (mStride s mod mDlgLen s) = Inr (mStride s mod mDlgLen s)" "cint (mStride s) = Inr (mStride s)"
      using * assms(2,3) by (intro cint_in; linarith)+
    then show ?thesis using * assms(1) by (simp add: foldIdx_def smod_nonneg cint_in)
  qed
  ultimately show "\<exists>a k. mapDlgIdx 1 s = Inr (a, 0) \<and> foldIdx 0 a s = Inr k \<and> k \<noteq> 1" using * by simp
next
  assume "mStride s = 1 \<and> 1 \<le> mAcctLen s \<and> mAcctLen s < mDlgLen s"
  then show "mapDlgIdx (mAcctLen s) s = mapDlgIdx 0 s"
    using assms by (simp add: mapDlgIdx_def mapSimpleIdx_def smod_nonneg sdiv_nonneg cint_def)
qed

text \<open>
  The seconds until a renewal or expiry are right as long as it is ahead. Once it is past, the
  unsigned difference wraps around and the seconds have nothing to do with the delay: a session
  that is a microsecond late is reported as late by more than four years.
\<close>

theorem renewal_seconds:
  "(now \<le> mRenewAbsTime s \<and> mRenewAbsTime s \<noteq> 0 \<and> unat (mRenewAbsTime s) - unat now < 2 ^ 31 * 1000000 \<longrightarrow>
      getRenewSecs now s = int ((unat (mRenewAbsTime s) - unat now) div 1000000)) \<and>
   getRenewSecs 5000001 (s\<lparr>mRenewAbsTime := 5000000\<rparr>) = - 140462611"
proof (intro conjI impI)
  assume *: "now \<le> mRenewAbsTime s \<and> mRenewAbsTime s \<noteq> 0 \<and> unat (mRenewAbsTime s) - unat now < 2 ^ 31 * 1000000"
  then have "unat (REND_US2S (mRenewAbsTime s - now)) = (unat (mRenewAbsTime s) - unat now) div 1000000"
    by (simp add: REND_US2S_def unat_div unat_sub)
  moreover have "(unat (mRenewAbsTime s) - unat now) div 1000000 < 2 ^ 31" using * by (simp add: less_mult_imp_div_less)
  ultimately show "getRenewSecs now s = int ((unat (mRenewAbsTime s) - unat now) div 1000000)"
    using * by (simp add: getRenewSecs_def int_of_small_time)
next
  show "getRenewSecs 5000001 (s\<lparr>mRenewAbsTime := 5000000\<rparr>) = - 140462611"
    by (simp add: getRenewSecs_def int_of_time_def REND_US2S_def)
qed

text \<open>
  If every session is in the chain of its mood, the counts of the groups are the numbers of
  the pending sessions, and of the openish sessions and those of the wave.
\<close>

theorem mood_counts_agree:
  assumes "\<forall>m. mMoods m = filter (\<lambda>s. mMood s = m) sessions"
  shows "getSessionMoodCnt mMoods REND_SM_GROUP_Pend = Inr (length (filter isPendish sessions)) \<and>
    getSessionMoodCnt mMoods REND_SM_GROUP_Alive =
      Inr (length (filter (\<lambda>s. isOpenish s \<or> mMood s = REND_SM_Wave) sessions))"
proof -
  have "length (filter isPendish ss) = length (filter (\<lambda>s. mMood s = REND_SM_PendReq) ss)
      + length (filter (\<lambda>s. mMood s = REND_SM_PendNotify) ss)" for ss
    by (induction ss) (auto simp: isPendish_def)
  moreover have "length (filter (\<lambda>s. isOpenish s \<or> mMood s = REND_SM_Wave) ss) = length (filter (\<lambda>s. mMood s = REND_SM_Open) ss)
      + length (filter (\<lambda>s. mMood s = REND_SM_PendReq) ss) + length (filter (\<lambda>s. mMood s = REND_SM_PendNotify) ss)
      + length (filter (\<lambda>s. mMood s = REND_SM_Wave) ss)" for ss
    by (induction ss) (auto simp: isOpenish_def)
  ultimately show ?thesis using assms by (simp add: getSessionMoodCnt_def)
qed

text \<open>
  After fewer than 2^32 values, at least one of them, the accumulator holds their number,
  the least and the greatest of them and the sum in the order in which they came.
\<close>

theorem statistics_exact:
  assumes "xs \<noteq> []" and "length xs < 2 ^ 32"
  shows "let s = fold (stat_add fadd) xs (RendStatAcc z) in unat (mCnt s) = length xs \<and>
    mMin s = Min (set xs) \<and> mMax s = Max (set xs) \<and> mSum s = foldl fadd z xs \<and>
    stat_avg fdiv z s = fdiv (foldl fadd z xs) (of_nat (length xs))"
  unfolding stat_fold [OF assms] Let_def using assms by (simp add: stat_avg_def small_count small_count_0)

section \<open>Witnesses\<close>

definition demo_slices :: "slice list" where
  "demo_slices = [setMap 3 100 5 1 RendAcctSlice, setMap 4 20 4 1 RendAcctSlice, setMap 1 0 0 1 RendAcctSlice]"

theorem slices_round_trip_witness:
  "map_slices demo_slices 10 = Inr ([101, 23, 0], 0) \<and> fold_slices demo_slices [101, 23, 0] 0 = Inr 10"
proof -
  have "\<forall>s\<in>set demo_slices. plain_slice s" by (simp add: demo_slices_def plain_slice_def setMap_def)
  from slices_round_trip [OF this, of 10] obtain as i
    where r: "map_slices demo_slices 10 = Inr (as, i)" "fold_slices demo_slices as i = Inr 10" by auto
  have "map_slices demo_slices 10 = Inr ([101, 23, 0], 0)" by code_simp
  with r show ?thesis by simp
qed

theorem slices_lose_index_witness:
  "\<exists>a k. mapDlgIdx 1 (setMap 3 0 9 2 RendAcctSlice) = Inr (a, 0) \<and> foldIdx 0 a (setMap 3 0 9 2 RendAcctSlice) = Inr k \<and> k \<noteq> 1"
  using slices_lose_index [of "setMap 3 0 9 2 RendAcctSlice"] by (simp add: setMap_def)

definition demo_session :: session where
  "demo_session = \<lparr>mMood = REND_SM_Open, mLastMoodTime = 0, mExpireAbsTime = 0, mRenewAbsTime = 9000000\<rparr>"

theorem renewal_seconds_witness: "getRenewSecs 2000000 demo_session = 7"
  using renewal_seconds [of 2000000 demo_session] by (simp add: demo_session_def word_le_nat_alt)

theorem mood_counts_agree_witness:
  "getSessionMoodCnt (\<lambda>m. filter (\<lambda>s. mMood s = m) [demo_session, demo_session\<lparr>mMood := REND_SM_Wave\<rparr>]) REND_SM_GROUP_Alive = Inr 2"
  using mood_counts_agree [of "\<lambda>m. filter (\<lambda>s. mMood s = m) [demo_session, demo_session\<lparr>mMood := REND_SM_Wave\<rparr>]"
      "[demo_session, demo_session\<lparr>mMood := REND_SM_Wave\<rparr>]"]
  by (simp add: isOpenish_def demo_session_def)

theorem statistics_exact_witness:
  "let s = fold (stat_add (+)) [3, 8, 1 :: int] (RendStatAcc 0) in unat (mCnt s) = 3 \<and> mMin s = 1 \<and> mMax s = 8 \<and> mSum s = 12"
  using statistics_exact [of "[3, 8, 1 :: int]" "(+)" 0 "\<lambda>a b. a"] by (simp add: Let_def)

end
