(* ===== verification/QValues.thy ===== *)
theory QValues
  imports Complex_Main Queues
begin

text \<open>
  \<open>QValue\<close>, the preference value of a contact or a language (\<open>resip/stack/QValue.hxx\<close>), kept as
  an \<open>int\<close> of thousandths.

  A floating-point number is the real number that it stands for; the multiplication of doubles
  and the division of floats are parameters, of which only the error bounds of the IEEE formats
  are used. \<open>floor\<close>, \<open>ceil\<close> and the comparison of the distances in \<open>doubleToInt\<close> are exact.
  \<open>ParseBuffer::qVal\<close>, which is not in the headers, is a parameter of the constructor from text.
\<close>

definition doubleToInt :: "real \<Rightarrow> rutil_error + int" where
  "doubleToInt d = (let f = \<lfloor>d\<rfloor>; c = \<lceil>d\<rceil>; i = (if of_int c - d \<ge> d - of_int f then f else c) in
     if - (2 ^ 31) \<le> i \<and> i < 2 ^ 31 then Inr i else Inl ConversionRange)"

definition QValue :: int where "QValue = 0"

definition QValue_int :: "int \<Rightarrow> int" where "QValue_int val = val"

definition setValue_data :: "(string \<Rightarrow> rutil_error + int) \<Rightarrow> string \<Rightarrow> rutil_error + int" where
  "setValue_data qVal data = qVal data"

definition setValue :: "int \<Rightarrow> int" where
  "setValue val = (if val < 0 \<or> val > 1000 then 1000 else val)"

definition floatVal :: "(real \<Rightarrow> real \<Rightarrow> real) \<Rightarrow> int \<Rightarrow> real" where
  "floatVal fdiv mValue = fdiv (of_int mValue) 1000"

text \<open>The six comparisons, each with another value or an integer, and with a floating-point number.\<close>

datatype comparison = Less | Greater | LessEq | GreaterEq | Equal | NotEqual

fun compare :: "comparison \<Rightarrow> int \<Rightarrow> int \<Rightarrow> bool" where
  "compare Less a b = (a < b)"
| "compare Greater a b = (a > b)"
| "compare LessEq a b = (a \<le> b)"
| "compare GreaterEq a b = (a \<ge> b)"
| "compare Equal a b = (a = b)"
| "compare NotEqual a b = (a \<noteq> b)"

definition q_compare :: "comparison \<Rightarrow> int \<Rightarrow> int \<Rightarrow> bool" where
  "q_compare op mValue rhs = compare op mValue rhs"

definition q_compare_real :: "(real \<Rightarrow> real \<Rightarrow> real) \<Rightarrow> comparison \<Rightarrow> int \<Rightarrow> real \<Rightarrow> rutil_error + bool" where
  "q_compare_real dmul op mValue rhs = bindr (doubleToInt (dmul rhs 1000)) (\<lambda>i. Inr (compare op mValue i))"

datatype q_source = FromQ int | FromInt int | FromReal real | FromData string

fun q_assign :: "(real \<Rightarrow> real \<Rightarrow> real) \<Rightarrow> (string \<Rightarrow> rutil_error + int) \<Rightarrow> int \<Rightarrow> q_source \<Rightarrow> rutil_error + int" where
  "q_assign dmul qVal mValue (FromQ rhs) = Inr rhs"
| "q_assign dmul qVal mValue (FromInt rhs) = Inr (setValue rhs)"
| "q_assign dmul qVal mValue (FromReal rhs) = bindr (doubleToInt (dmul rhs 1000)) (\<lambda>i. Inr (setValue i))"
| "q_assign dmul qVal mValue (FromData data) = setValue_data qVal data"

text \<open>Results of the IEEE operations in the range of normal numbers.\<close>

definition rounds_within :: "nat \<Rightarrow> real \<Rightarrow> real \<Rightarrow> bool" where
  "rounds_within bits exact rounded \<longleftrightarrow>
     exact = 0 \<or> (1 / 2 ^ 100 \<le> \<bar>exact\<bar> \<and> \<bar>exact\<bar> \<le> 2 ^ 100) \<longrightarrow> \<bar>rounded - exact\<bar> \<le> \<bar>exact\<bar> / 2 ^ bits"

definition ieee :: "(real \<Rightarrow> real \<Rightarrow> real) \<Rightarrow> (real \<Rightarrow> real \<Rightarrow> real) \<Rightarrow> bool" where
  "ieee dmul fdiv \<longleftrightarrow> (\<forall>x y. rounds_within 53 (x * y) (dmul x y)) \<and> (\<forall>x y. y \<noteq> 0 \<longrightarrow> rounds_within 24 (x / y) (fdiv x y))"

section \<open>Lemmas\<close>

lemma ieee_mul: "ieee dmul fdiv \<Longrightarrow> rounds_within 53 (x * y) (dmul x y)"
  by (simp add: ieee_def)

lemma ieee_div: "ieee dmul fdiv \<Longrightarrow> y \<noteq> 0 \<Longrightarrow> rounds_within 24 (x / y) (fdiv x y)"
  by (simp add: ieee_def)

lemma doubleToInt_near:
  assumes "\<bar>d\<bar> \<le> 2 ^ 31 - 1"
  shows "\<exists>i. doubleToInt d = Inr i \<and> \<bar>of_int i - d\<bar> \<le> 1 / 2 \<and> (d = of_int \<lfloor>d\<rfloor> + 1 / 2 \<longrightarrow> i = \<lfloor>d\<rfloor>)"
proof -
  let ?i = "if of_int \<lceil>d\<rceil> - d \<ge> d - of_int \<lfloor>d\<rfloor> then \<lfloor>d\<rfloor> else \<lceil>d\<rceil>"
  have "\<lceil>d\<rceil> \<le> \<lfloor>d\<rfloor> + 1" using ceiling_diff_floor_le_1 [of d] by linarith
  then have ends: "of_int \<lceil>d\<rceil> \<le> of_int \<lfloor>d\<rfloor> + (1 :: real)" by linarith
  have near: "\<bar>of_int ?i - d\<bar> \<le> 1 / 2"
  proof (cases "of_int \<lceil>d\<rceil> - d \<ge> d - of_int \<lfloor>d\<rfloor>")
    case True
    with ends of_int_floor_le [of d] show ?thesis unfolding abs_le_iff if_P [OF True] by linarith
  next
    case False
    with ends le_of_int_ceiling [of d] show ?thesis unfolding abs_le_iff if_not_P [OF False] by linarith
  qed
  have bound: "- 2147483648 \<le> i \<and> i < 2147483648" if "\<bar>of_int i - d\<bar> \<le> 1 / 2" for i
  proof -
    have "\<bar>d\<bar> \<le> 2147483647" using assms by simp
    with that show ?thesis by linarith
  qed
  from bound [OF near] have "?i < 2 ^ 31" "- (2 ^ 31) \<le> ?i" by simp_all
  then have "doubleToInt d = Inr ?i" by (simp add: doubleToInt_def Let_def)
  moreover have "?i = \<lfloor>d\<rfloor>" if h: "d = of_int \<lfloor>d\<rfloor> + 1 / 2"
  proof -
    have "\<lceil>d\<rceil> = \<lfloor>d\<rfloor> + 1" using h by linarith
    then have "of_int \<lceil>d\<rceil> = of_int \<lfloor>d\<rfloor> + (1 :: real)" by simp
    then have "of_int \<lceil>d\<rceil> - d \<ge> d - of_int \<lfloor>d\<rfloor>" using h by linarith
    then show ?thesis by (rule if_P)
  qed
  ultimately show ?thesis using near by blast
qed

lemma doubleToInt_unique:
  assumes "\<bar>d - of_int k\<bar> < 1 / 2" "\<bar>k\<bar> \<le> 2000"
  shows "doubleToInt d = Inr k"
proof -
  have "\<bar>real_of_int k\<bar> \<le> 2000" using assms(2) by linarith
  with assms(1) have "\<bar>d\<bar> \<le> 2001" by linarith
  then have "\<bar>d\<bar> \<le> 2 ^ 31 - 1" by simp
  from doubleToInt_near [OF this] obtain i where i: "doubleToInt d = Inr i" "\<bar>of_int i - d\<bar> \<le> 1 / 2" by blast
  with assms(1) have "i = k" by linarith
  with i show ?thesis by simp
qed

lemma setValue_range: "0 \<le> setValue v \<and> setValue v \<le> 1000"
  by (simp add: setValue_def)

lemma thousandth_near:
  assumes "ieee dmul fdiv" "0 \<le> k" "k \<le> 1000"
  shows "\<bar>dmul (floatVal fdiv k) 1000 - of_int k\<bar> < 1 / 2"
proof (cases "k = 0")
  case True
  have "rounds_within 24 (0 / 1000) (fdiv 0 1000)" by (rule ieee_div [OF assms(1)]) simp
  then have "fdiv 0 1000 = 0" by (simp add: rounds_within_def)
  moreover have "rounds_within 53 (0 * 1000) (dmul 0 1000)" by (rule ieee_mul [OF assms(1)])
  ultimately show ?thesis using True by (simp add: floatVal_def rounds_within_def)
next
  case False
  let ?x = "fdiv (of_int k) 1000"
  have k: "1 \<le> (of_int k :: real)" "(of_int k :: real) \<le> 1000" using False assms(2,3) by simp_all
  have "rounds_within 24 (of_int k / 1000) ?x" by (rule ieee_div [OF assms(1)]) simp
  then have x: "\<bar>?x - of_int k / 1000\<bar> \<le> (of_int k / 1000) / 2 ^ 24" using k by (simp add: rounds_within_def)
  then have x': "\<bar>?x * 1000 - of_int k\<bar> \<le> of_int k / 2 ^ 24" by (simp add: abs_le_iff field_simps)
  moreover have "(of_int k :: real) / 2 ^ 24 \<le> 1 / 8" using k(2) by simp
  ultimately have x8: "\<bar>?x * 1000 - of_int k\<bar> \<le> 1 / 8" by linarith
  with k have bounds: "1 / 2 \<le> ?x * 1000" "?x * 1000 \<le> 1001" by linarith+
  have "1 / 2 ^ 100 \<le> \<bar>?x * 1000\<bar>" "\<bar>?x * 1000\<bar> \<le> 2 ^ 100"
  proof -
    have "(1 :: real) / 2 ^ 100 \<le> 1 / 2" "(1001 :: real) \<le> 2 ^ 100" by simp_all
    with bounds show "1 / 2 ^ 100 \<le> \<bar>?x * 1000\<bar>" "\<bar>?x * 1000\<bar> \<le> 2 ^ 100" by linarith+
  qed
  moreover have "rounds_within 53 (?x * 1000) (dmul ?x 1000)" by (rule ieee_mul [OF assms(1)])
  ultimately have "\<bar>dmul ?x 1000 - ?x * 1000\<bar> \<le> \<bar>?x * 1000\<bar> / 2 ^ 53" unfolding rounds_within_def by blast
  moreover have "\<bar>?x * 1000\<bar> / 2 ^ 53 \<le> 1 / 8" using bounds by simp
  ultimately show ?thesis using x8 unfolding floatVal_def by linarith
qed

section \<open>Properties\<close>

text \<open>
  (C37) The floating-point value of a preference of 0 to 1 stands for the same preference: assigned
  to a \<open>QValue\<close> it gives the thousandths it was made of, and all comparisons with it are those of
  the thousandths, in spite of the rounding of floats and doubles.
\<close>

theorem q_value_survives_float:
  assumes "ieee dmul fdiv" and "0 \<le> k" and "k \<le> 1000"
  shows "q_assign dmul qVal q (FromReal (floatVal fdiv k)) = Inr k \<and>
    q_compare_real dmul op q (floatVal fdiv k) = Inr (q_compare op q k)"
proof -
  have "doubleToInt (dmul (floatVal fdiv k) 1000) = Inr k"
    using thousandth_near [OF assms] assms(2,3) by (intro doubleToInt_unique) simp_all
  then show ?thesis using assms(2,3) by (simp add: q_compare_real_def q_compare_def setValue_def)
qed

text \<open>
  Whatever numbers are assigned, the preference stays between 0 and 1000 thousandths: numbers
  outside become 1000, the highest preference, also negative ones. Only the constructor from an
  \<open>int\<close> and what the parser returns are not limited.
\<close>

theorem q_value_bounded:
  "(0 \<le> q \<and> q \<le> 1000 \<longrightarrow> list_all (\<lambda>a. case a of FromQ r \<Rightarrow> 0 \<le> r \<and> r \<le> 1000 | FromData d \<Rightarrow> False | _ \<Rightarrow> True) as \<longrightarrow>
      run_events (q_assign dmul qVal) q as = Inr q' \<longrightarrow> 0 \<le> q' \<and> q' \<le> 1000) \<and>
   q_assign dmul qVal q (FromInt (- 1)) = Inr 1000 \<and> QValue_int (- 1) = - 1"
proof (intro conjI impI)
  assume "0 \<le> q \<and> q \<le> 1000" "list_all (\<lambda>a. case a of FromQ r \<Rightarrow> 0 \<le> r \<and> r \<le> 1000 | FromData d \<Rightarrow> False | _ \<Rightarrow> True) as"
    "run_events (q_assign dmul qVal) q as = Inr q'"
  then have "0 \<le> q' \<and> q' \<le> 1000"
  proof (induction as arbitrary: q)
    case (Cons a as)
    then obtain q1 where q1: "q_assign dmul qVal q a = Inr q1" "run_events (q_assign dmul qVal) q1 as = Inr q'"
      by (auto simp: bindr_eq_Inr)
    with Cons.prems(2) have "0 \<le> q1 \<and> q1 \<le> 1000"
      by (cases a) (auto simp: setValue_range bindr_eq_Inr)
    with Cons.IH [OF this _ q1(2)] Cons.prems(2) show ?case by simp
  qed simp
  then show "0 \<le> q'" "q' \<le> 1000" by simp_all
qed (simp_all add: setValue_def QValue_int_def)

text \<open>
  \<open>doubleToInt\<close> rounds to the nearest integer, halves downwards, for all doubles that an
  \<open>int\<close> can hold.
\<close>

theorem double_to_int_rounds:
  assumes "\<bar>d\<bar> \<le> 2 ^ 31 - 1"
  shows "\<exists>i. doubleToInt d = Inr i \<and> \<bar>of_int i - d\<bar> \<le> 1 / 2 \<and> (d = of_int \<lfloor>d\<rfloor> + 1 / 2 \<longrightarrow> i = \<lfloor>d\<rfloor>)"
  using doubleToInt_near [OF assms] .

text \<open>
  An \<open>int\<close> counts thousandths and a floating-point number counts ones: the preference that
  equals the \<open>int\<close> 1 is a thousandth of the one that equals 1.0.
\<close>

theorem q_value_scales:
  assumes "dmul 1 1000 = 1000"
  shows "(q_compare Equal q 1 \<longleftrightarrow> q = 1) \<and> (q_compare_real dmul Equal q 1 = Inr True \<longleftrightarrow> q = 1000)"
proof -
  have "doubleToInt 1000 = Inr 1000" by (rule doubleToInt_unique) simp_all
  with assms show ?thesis by (auto simp: q_compare_def q_compare_real_def)
qed

section \<open>Witnesses\<close>

lemma exact_arithmetic_ieee: "ieee (*) (/)"
  by (simp add: ieee_def rounds_within_def)

theorem q_value_survives_float_witness: "q_assign (*) (\<lambda>d. Inr 0) 0 (FromReal (floatVal (/) 707)) = Inr 707"
  using q_value_survives_float [OF exact_arithmetic_ieee, of 707 "\<lambda>d. Inr 0" 0] by simp

theorem q_value_bounded_witness: "0 \<le> setValue 5000 \<and> setValue 5000 \<le> 1000"
  using q_value_bounded [of 7 "[FromInt 5000]" "(*)" "\<lambda>d. Inr 0" "setValue 5000"] by simp

theorem double_to_int_rounds_witness: "\<exists>i. doubleToInt (11 / 4) = Inr i \<and> \<bar>of_int i - 11 / 4\<bar> \<le> (1 / 2 :: real)"
  using double_to_int_rounds [of "11 / 4"] by fastforce

theorem q_value_scales_witness: "q_compare_real (*) Equal 1000 1 = Inr True"
  using q_value_scales [of "(*)" 1000] by simp

end
