(* ===== verification/DnsRecords.thy ===== *)
theory DnsRecords
  imports Queues "HOL-Library.Multiset"
begin

text \<open>
  The inline parts of the resolver (\<open>rutil/dns\<close>): the orders by which records and cached answers
  are kept (\<open>RROverlay.hxx\<close>, \<open>RRCache.hxx\<close>), the settings of the cache, the query types
  (\<open>QueryTypes.hxx\<close>), and how \<open>DnsStub.hxx\<close> starts a query, hands its result to the user and
  prints it.

  The comparison of \<open>Data\<close> and \<open>Data::lowercase\<close> are parameters, the first with the law that it
  is a strict linear order. Records are an arbitrary type; a pointer to a record is null or has
  the class of its object, which \<open>dynamic_cast\<close> looks at.
\<close>

section \<open>Orders\<close>

definition strict_linear :: "(string \<Rightarrow> string \<Rightarrow> bool) \<Rightarrow> bool" where
  "strict_linear lt \<longleftrightarrow> (\<forall>a. \<not> lt a a) \<and> (\<forall>a b c. lt a b \<longrightarrow> lt b c \<longrightarrow> lt a c) \<and> (\<forall>a b. lt a b \<or> a = b \<or> lt b a)"

record overlay =
  ov_type :: int
  ov_domain :: string

definition overlay_less :: "(string \<Rightarrow> string \<Rightarrow> bool) \<Rightarrow> overlay \<Rightarrow> overlay \<Rightarrow> bool" where
  "overlay_less lt r1 r2 =
     (if ov_type r1 < ov_type r2 then True
      else if ov_type r1 > ov_type r2 then False
      else lt (ov_domain r1) (ov_domain r2))"

record rrlist =
  rr_key :: string
  rr_type :: int

definition CompareT :: "(string \<Rightarrow> string \<Rightarrow> bool) \<Rightarrow> (string \<Rightarrow> string) \<Rightarrow> rrlist \<Rightarrow> rrlist \<Rightarrow> bool" where
  "CompareT lt lowercase lhs rhs =
     (if rr_type lhs < rr_type rhs then True
      else if rr_type lhs > rr_type rhs then False
      else lt (lowercase (rr_key lhs)) (lowercase (rr_key rhs)))"

section \<open>Settings of the cache\<close>

record rrcache =
  mUserDefinedTTL :: int
  mSize :: uint32

text \<open>A product that does not fit an \<open>int\<close> is undefined: no result.\<close>

definition setTTL :: "int \<Rightarrow> rrcache \<Rightarrow> rrcache option" where
  "setTTL ttl c = (if ttl > 0
     then if ttl * 60 < 2 ^ 31 then Some (c\<lparr>mUserDefinedTTL := ttl * 60\<rparr>) else None
     else Some c)"

definition setSize :: "int \<Rightarrow> rrcache \<Rightarrow> rrcache" where
  "setSize sz c = c\<lparr>mSize := word_of_int sz\<rparr>"

section \<open>Queries\<close>

text \<open>The query types with the numbers that \<open>defineQueryType\<close> gives them.\<close>

datatype query_type = RR_A | RR_CNAME | RR_AAAA | RR_SRV | RR_NAPTR

fun getRRType :: "query_type \<Rightarrow> int" where
  "getRRType RR_A = 1"
| "getRRType RR_CNAME = 5"
| "getRRType RR_AAAA = 28"
| "getRRType RR_SRV = 33"
| "getRRType RR_NAPTR = 35"

fun SupportsCName :: "query_type \<Rightarrow> bool" where
  "SupportsCName RR_CNAME = False"
| "SupportsCName _ = True"

definition Reserved :: int where "Reserved = 0"

record query =
  q_target :: string
  q_rrType :: int
  q_followCname :: bool
  q_proto :: int
  q_sink :: nat
  q_converter :: query_type

record command =
  cmd_type :: query_type
  cmd_target :: string
  cmd_proto :: int
  cmd_sink :: nat

definition lookup_proto :: "(command \<Rightarrow> 's \<Rightarrow> 's) \<Rightarrow> query_type \<Rightarrow> string \<Rightarrow> int \<Rightarrow> nat \<Rightarrow> 's \<Rightarrow> 's" where
  "lookup_proto queueCommand t target protocol sink s =
     queueCommand \<lparr>cmd_type = t, cmd_target = target, cmd_proto = protocol, cmd_sink = sink\<rparr> s"

definition dns_lookup :: "(command \<Rightarrow> 's \<Rightarrow> 's) \<Rightarrow> query_type \<Rightarrow> string \<Rightarrow> nat \<Rightarrow> 's \<Rightarrow> 's" where
  "dns_lookup queueCommand t target sink s = lookup_proto queueCommand t target Reserved sink s"

text \<open>
  A query object is what its constructor gets, and there may be equal ones. The set \<open>mQueries\<close> of the stub is a field of its state;
  \<open>go\<close>, whose body is not in the header, is a parameter.
\<close>

record 's stub =
  mQueries :: "query multiset"
  stub_rest :: 's

definition start_query :: "(query \<Rightarrow> 's stub \<Rightarrow> 's stub) \<Rightarrow> query_type \<Rightarrow> string \<Rightarrow> int \<Rightarrow> nat \<Rightarrow> 's stub \<Rightarrow> 's stub" where
  "start_query go t target proto sink s =
     (let q = \<lparr>q_target = target, q_rrType = getRRType t, q_followCname = SupportsCName t, q_proto = proto,
               q_sink = sink, q_converter = t\<rparr>
      in go q (s\<lparr>mQueries := add_mset q (mQueries s)\<rparr>))"

definition execute :: "(query \<Rightarrow> 's stub \<Rightarrow> 's stub) \<Rightarrow> command \<Rightarrow> 's stub \<Rightarrow> 's stub" where
  "execute go c s = start_query go (cmd_type c) (cmd_target c) (cmd_proto c) (cmd_sink c) s"

section \<open>Results\<close>

record 'r dns_result =
  dr_domain :: string
  dr_status :: int
  dr_msg :: string
  dr_records :: "'r list"

fun dump_loop :: "('r \<Rightarrow> string) \<Rightarrow> bool \<Rightarrow> string \<Rightarrow> 'r list \<Rightarrow> string" where
  "dump_loop rdump first strm [] = strm"
| "dump_loop rdump first strm (r # rs) = dump_loop rdump False ((if first then strm else strm @ '', '') @ rdump r) rs"

definition dns_dump :: "('r \<Rightarrow> string) \<Rightarrow> 'r dns_result \<Rightarrow> string \<Rightarrow> string" where
  "dns_dump rdump r strm =
     (if dr_status r = 0 then dump_loop rdump True strm (dr_records r)
      else strm @ dr_domain r @ '' lookup failed: '' @ dr_msg r)"

type_synonym 'r record_ptr = "(query_type \<times> 'r) option"

definition record_cast :: "query_type \<Rightarrow> 'r record_ptr \<Rightarrow> 'r option" where
  "record_cast t p = (case p of None \<Rightarrow> None | Some (t', r) \<Rightarrow> if t' = t then Some r else None)"

fun convert_loop :: "query_type \<Rightarrow> 'r list \<Rightarrow> 'r record_ptr list \<Rightarrow> rutil_error + 'r list" where
  "convert_loop t acc [] = Inr acc"
| "convert_loop t acc (p # ps) =
     (case record_cast t p of None \<Rightarrow> Inl NullAccess | Some r \<Rightarrow> convert_loop t (acc @ [r]) ps)"

datatype 'r sink_call = OnLogDnsResult "'r dns_result" | OnDnsResult "'r dns_result"

definition notifyUser ::
  "query_type \<Rightarrow> string \<Rightarrow> int \<Rightarrow> string \<Rightarrow> 'r record_ptr list \<Rightarrow> nat option \<Rightarrow> rutil_error + (nat \<times> 'r sink_call) list" where
  "notifyUser t target status msg src sink =
     (case sink of None \<Rightarrow> Inl AssertFailed
      | Some k \<Rightarrow> bindr (convert_loop t [] src) (\<lambda>rs.
          let result = \<lparr>dr_domain = target, dr_status = status, dr_msg = msg, dr_records = rs\<rparr>
          in Inr [(k, OnLogDnsResult result), (k, OnDnsResult result)]))"

section \<open>Properties\<close>

lemma convert_loop_result:
  "convert_loop t acc ps = (if \<forall>p\<in>set ps. record_cast t p \<noteq> None then Inr (acc @ map (the \<circ> record_cast t) ps) else Inl NullAccess)"
  by (induction ps arbitrary: acc) (auto split: option.split)

lemma dump_loop_result:
  "dump_loop rdump first strm rs = strm @ (case rs of [] \<Rightarrow> [] | r # rs' \<Rightarrow>
     (if first then rdump r else '', '' @ rdump r) @ concat (map (\<lambda>x. '', '' @ rdump x) rs'))"
  by (induction rdump first strm rs rule: dump_loop.induct) (auto split: list.splits)

lemma linearD:
  assumes "strict_linear lt"
  shows "\<not> lt a a" "lt a b \<Longrightarrow> lt b c \<Longrightarrow> lt a c" "lt a b \<or> a = b \<or> lt b a"
  using assms unfolding strict_linear_def by blast+

lemma typed_order:
  assumes "strict_linear lt" and "\<And>a b. L a b = (if t a < (t b :: int) then True else if t a > t b then False else lt (k a) (k b))"
  shows "\<not> L a a \<and> (L a b \<and> L b c \<longrightarrow> L a c) \<and> (\<not> L a b \<and> \<not> L b a \<longleftrightarrow> t a = t b \<and> k a = k b)"
  using linearD(1) [OF assms(1), of "k a"] linearD(2) [OF assms(1), of "k a" "k b" "k c"] linearD(3) [OF assms(1), of "k a" "k b"]
  unfolding assms(2) by (auto split: if_splits)

text \<open>
  The cache keeps its answers under one strict weak order: no answer is below itself, being
  below is transitive, and two answers count as the same exactly if they have the same type and
  keys that are equal in lower case. So an answer is found whatever the case of the name asked for,
  and answers of different types never replace each other.
\<close>

theorem cache_order:
  assumes "strict_linear lt"
  shows "\<not> CompareT lt low a a \<and> (CompareT lt low a b \<and> CompareT lt low b c \<longrightarrow> CompareT lt low a c) \<and>
    (\<not> CompareT lt low a b \<and> \<not> CompareT lt low b a \<longleftrightarrow> rr_type a = rr_type b \<and> low (rr_key a) = low (rr_key b))"
  by (rule typed_order [OF assms]) (rule CompareT_def)

text \<open>
  Records that were read are ordered likewise by type and then by domain, and two records are
  unordered exactly if both are equal.
\<close>

theorem overlay_order:
  assumes "strict_linear lt"
  shows "\<not> overlay_less lt a a \<and> (overlay_less lt a b \<and> overlay_less lt b c \<longrightarrow> overlay_less lt a c) \<and>
    (\<not> overlay_less lt a b \<and> \<not> overlay_less lt b a \<longleftrightarrow> ov_type a = ov_type b \<and> ov_domain a = ov_domain b)"
  by (rule typed_order [OF assms]) (rule overlay_less_def)

text \<open>
  The user of a query hears of its result twice, first for the log and then for good, with the
  target, the status, the message and all records in their order. It goes wrong exactly without a
  sink, or if a record is missing or of another class than the query asked for.
\<close>

theorem dns_result_delivered:
  "notifyUser t target status msg src sink =
     (if sink = None then Inl AssertFailed
      else if \<exists>p\<in>set src. record_cast t p = None then Inl NullAccess
      else let r = \<lparr>dr_domain = target, dr_status = status, dr_msg = msg, dr_records = map (snd \<circ> the) src\<rparr>
        in Inr [(the sink, OnLogDnsResult r), (the sink, OnDnsResult r)])"
proof -
  have "map (the \<circ> record_cast t) src = map (snd \<circ> the) src" if "\<forall>p\<in>set src. record_cast t p \<noteq> None"
    using that by (auto simp: record_cast_def split: option.splits if_splits)
  then show ?thesis by (auto simp: notifyUser_def convert_loop_result Let_def split: option.split)
qed

text \<open>
  A lookup queues one command, and running it registers the query before it starts: a query of
  the type's number, which follows aliases unless it asks for one, for the given target and sink,
  and with the reserved protocol if none is given.
\<close>

theorem lookup_starts_query:
  assumes "queue = (\<lambda>c s. execute go c s)"
  shows "dns_lookup queue t target sink s = (let q = \<lparr>q_target = target, q_rrType = getRRType t, q_followCname = (t \<noteq> RR_CNAME),
      q_proto = 0, q_sink = sink, q_converter = t\<rparr> in go q (s\<lparr>mQueries := add_mset q (mQueries s)\<rparr>)) \<and>
    (getRRType t = getRRType u \<longleftrightarrow> t = u)"
  using assms by (cases t; cases u) (simp_all add: dns_lookup_def lookup_proto_def execute_def start_query_def Reserved_def)

text \<open>
  \<open>setTTL\<close> ignores times that are not positive, so the time to live stays positive; more than
  about 68 years overflow. A negative size of the cache becomes one of billions.
\<close>

theorem cache_settings:
  "setTTL ttl c = (if ttl \<le> 0 then Some c else if 35791394 < ttl then None
     else Some (c\<lparr>mUserDefinedTTL := 60 * ttl\<rparr>)) \<and>
   mSize (setSize (- 1) c) = 4294967295"
  by (simp add: setTTL_def setSize_def)

section \<open>Witnesses\<close>

definition demo_less :: "string \<Rightarrow> string \<Rightarrow> bool" where
  "demo_less a b \<longleftrightarrow> (map of_char a, map of_char b :: nat list) \<in> lexord {(x, y). x < y}"

lemma demo_less_linear: "strict_linear demo_less"
proof -
  have inj: "map of_char a = (map of_char b :: nat list) \<longleftrightarrow> a = b" for a b by (simp add: inj_map_eq_map inj_def)
  have tr: "trans {(x, y). x < (y :: nat)}" by (auto simp: trans_def)
  have "demo_less a b \<or> a = b \<or> demo_less b a" for a b
  proof -
    have "\<forall>x y. (x, y) \<in> {(x, y). x < (y :: nat)} \<or> x = y \<or> (y, x) \<in> {(x, y). x < y}" by auto
    from lexord_linear [OF this, of "map of_char a" "map of_char b"] inj [of a b] show ?thesis by (simp add: demo_less_def)
  qed
  moreover have "\<not> demo_less a a" for a unfolding demo_less_def by (rule lexord_irreflexive) simp
  moreover have "demo_less a b \<Longrightarrow> demo_less b c \<Longrightarrow> demo_less a c" for a b c
    unfolding demo_less_def using lexord_trans [OF _ _ tr] by blast
  ultimately show ?thesis unfolding strict_linear_def by blast
qed

theorem cache_order_witness:
  "\<not> CompareT demo_less (\<lambda>k. ''x'') \<lparr>rr_key = ''Ab'', rr_type = 1\<rparr> \<lparr>rr_key = ''aB'', rr_type = 1\<rparr>"
  using cache_order [OF demo_less_linear, of "\<lambda>k. ''x''" "\<lparr>rr_key = ''Ab'', rr_type = 1\<rparr>" "\<lparr>rr_key = ''aB'', rr_type = 1\<rparr>"] by simp

theorem overlay_order_witness:
  "\<not> overlay_less demo_less \<lparr>ov_type = 33, ov_domain = ''a''\<rparr> \<lparr>ov_type = 33, ov_domain = ''a''\<rparr>"
  using overlay_order [OF demo_less_linear] by blast

theorem dns_result_delivered_witness:
  "notifyUser RR_A ''h'' 0 [] [Some (RR_A, 1 :: nat), Some (RR_SRV, 2)] (Some 7) = Inl NullAccess"
  using dns_result_delivered [of RR_A "''h''" 0 "[]" "[Some (RR_A, 1 :: nat), Some (RR_SRV, 2)]" "Some 7"]
  by (simp add: record_cast_def)

theorem lookup_starts_query_witness:
  "mQueries (dns_lookup (\<lambda>c s. execute (\<lambda>q s. s) c s) RR_SRV ''h'' 4 \<lparr>mQueries = {#}, stub_rest = ()\<rparr>) \<noteq> {#}"
  using lookup_starts_query [of _ "\<lambda>q s. s" RR_SRV "''h''" 4 "\<lparr>mQueries = {#}, stub_rest = ()\<rparr>" RR_A, OF refl] by (simp add: Let_def)

end
